(* ===== verification/Wlm_Prelude.thy ===== *)
theory Wlm_Prelude
  imports Main
begin

text \<open>
  What every theory of the development shares: Go error values and results, the
  sequencing of fallible calls, the panic-freedom predicate, signed 64-bit and 32-bit
  arithmetic with its wrap-around written out, and truncating division.

  A Go function \<open>func f(..) (T, error)\<close> is a HOL function into \<open>T go\<close>: \<open>Ok v\<close> is
  \<open>return v, nil\<close>, \<open>Err e\<close> is \<open>return zero, e\<close>, and \<open>Panic m\<close> is a run-time panic
  (an index out of range, a nil dereference), which no caller in this repository recovers.
\<close>

section \<open>Errors\<close>

text \<open>
  Package-level sentinels are compared by identity (\<open>err == ErrX\<close>), so each is a
  constructor of its own. Two packages declare a sentinel with the same text
  (\<open>controller.ErrAffinityIsNotRequired\<close> and \<open>slurmjob.errAffinityIsNotRequired\<close>):
  they are different values in Go and different constructors here.
\<close>

datatype go_error =
    ErrDurationIsUnlimited
  | ErrFileNotFound
  | Controller_ErrAffinityIsNotRequired
  | Slurmjob_errAffinityIsNotRequired
  | EOF
  | NumSyntax string
  | NumRange string
  | TimeParseError string
  | TimestampOutOfRange
  | ApiNotFound
  | ApiAlreadyExists
  | ApiError string
  | ExternalError string
  | ErrorString string
  | Wrapped string go_error
  | RpcError string string

text \<open>\<open>errors.Wrap\<close> and \<open>errors.Wrapf\<close> of pkg/errors: nil stays nil.\<close>

fun errors_Wrap :: "go_error option \<Rightarrow> string \<Rightarrow> go_error option" where
  "errors_Wrap None msg = None"
| "errors_Wrap (Some e) msg = Some (Wrapped msg e)"

section \<open>Results\<close>

datatype 'a go = Ok 'a | Err go_error | Panic string

fun go_bind :: "'a go \<Rightarrow> ('a \<Rightarrow> 'b go) \<Rightarrow> 'b go" where
  "go_bind (Ok x) f = f x"
| "go_bind (Err e) f = Err e"
| "go_bind (Panic m) f = Panic m"

text \<open>\<open>if err != nil { return nil, errors.Wrap(err, msg) }\<close>\<close>

fun go_wrap :: "string \<Rightarrow> 'a go \<Rightarrow> 'a go" where
  "go_wrap msg (Ok x) = Ok x"
| "go_wrap msg (Err e) = Err (Wrapped msg e)"
| "go_wrap msg (Panic m) = Panic m"

text \<open>A loop that fills a slice and returns at the first error.\<close>

fun go_each :: "('a \<Rightarrow> 'b go) \<Rightarrow> 'a list \<Rightarrow> 'b list go" where
  "go_each f [] = Ok []"
| "go_each f (x # xs) = go_bind (f x) (\<lambda>y. go_bind (go_each f xs) (\<lambda>ys. Ok (y # ys)))"

fun is_Ok :: "'a go \<Rightarrow> bool" where
  "is_Ok (Ok x) = True"
| "is_Ok _ = False"

fun is_Err :: "'a go \<Rightarrow> bool" where
  "is_Err (Err e) = True"
| "is_Err _ = False"

fun no_panic :: "'a go \<Rightarrow> bool" where
  "no_panic (Panic m) = False"
| "no_panic _ = True"

lemma go_bind_eq_Ok [simp]: "go_bind m f = Ok y \<longleftrightarrow> (\<exists>x. m = Ok x \<and> f x = Ok y)"
  by (cases m) auto

lemma go_bind_assoc: "go_bind (go_bind m f) g = go_bind m (\<lambda>x. go_bind (f x) g)"
  by (cases m) auto

lemma go_bind_cong_Ok: "(\<And>x. m = Ok x \<Longrightarrow> f x = g x) \<Longrightarrow> go_bind m f = go_bind m g"
  by (cases m) auto

lemma go_bind_Ok_id [simp]: "go_bind m Ok = m"
  by (cases m) auto

lemma go_bind_eq_Err:
  "go_bind m f = Err e \<longleftrightarrow> m = Err e \<or> (\<exists>x. m = Ok x \<and> f x = Err e)"
  by (cases m) auto

lemma go_bind_eq_Panic:
  "go_bind m f = Panic s \<longleftrightarrow> m = Panic s \<or> (\<exists>x. m = Ok x \<and> f x = Panic s)"
  by (cases m) auto

lemma go_wrap_eq_Ok [simp]: "go_wrap msg m = Ok y \<longleftrightarrow> m = Ok y"
  by (cases m) auto

lemma go_wrap_eq_Panic [simp]: "go_wrap msg m = Panic s \<longleftrightarrow> m = Panic s"
  by (cases m) auto

lemma go_wrap_eq_Err: "go_wrap msg m = Err e \<longleftrightarrow> (\<exists>e'. m = Err e' \<and> e = Wrapped msg e')"
  by (cases m) auto

named_theorems no_panic_intros "panic-freedom, decomposed along the sequencing"

lemma no_panic_iff: "no_panic m \<longleftrightarrow> (\<forall>s. m \<noteq> Panic s)"
  by (cases m) auto

lemma no_panic_bind [no_panic_intros]:
  "no_panic m \<Longrightarrow> (\<And>x. m = Ok x \<Longrightarrow> no_panic (f x)) \<Longrightarrow> no_panic (go_bind m f)"
  by (cases m) auto

lemma no_panic_bind_Ok [simp]: "no_panic (go_bind m (\<lambda>x. Ok (f x))) = no_panic m"
  by (cases m) auto

lemma no_panic_wrap [simp]: "no_panic (go_wrap msg m) = no_panic m"
  by (cases m) auto

lemma no_panic_each [no_panic_intros]:
  "(\<And>x. x \<in> set xs \<Longrightarrow> no_panic (f x)) \<Longrightarrow> no_panic (go_each f xs)"
  by (induction xs) (auto intro!: no_panic_intros)

lemma go_each_Ok_iff: "go_each f xs = Ok ys \<longleftrightarrow> list_all2 (\<lambda>x y. f x = Ok y) xs ys"
proof (induction xs arbitrary: ys)
  case Nil
  then show ?case by auto
next
  case (Cons x xs)
  then show ?case by (auto simp: list_all2_Cons1)
qed

lemma go_each_length: "go_each f xs = Ok ys \<Longrightarrow> length ys = length xs"
  by (auto simp: go_each_Ok_iff dest: list_all2_lengthD)

lemma go_each_map: "go_each f (map g xs) = go_each (\<lambda>x. f (g x)) xs"
  by (induction xs) auto

lemma go_each_all_Ok: "(\<And>x. x \<in> set xs \<Longrightarrow> f x = Ok (g x)) \<Longrightarrow> go_each f xs = Ok (map g xs)"
  by (induction xs) auto

lemma go_each_first_Err:
  "(\<And>x. x \<in> set xs \<Longrightarrow> is_Ok (f x)) \<Longrightarrow> f y = Err e \<Longrightarrow> go_each f (xs @ y # ys) = Err e"
proof (induction xs)
  case Nil
  then show ?case by simp
next
  case (Cons x xs)
  then obtain v where "f x = Ok v" by (cases "f x") force+
  with Cons show ?case by simp
qed

text \<open>A postcondition of a successful result, decomposed along the sequencing.\<close>

definition ensures :: "'a go \<Rightarrow> ('a \<Rightarrow> bool) \<Rightarrow> bool" where
  "ensures m P \<longleftrightarrow> (case m of Ok x \<Rightarrow> P x | _ \<Rightarrow> True)"

named_theorems ensures_intros "postconditions, decomposed along the sequencing"

lemma ensuresD: "ensures m P \<Longrightarrow> m = Ok x \<Longrightarrow> P x"
  by (simp add: ensures_def)

lemma ensures_iff: "ensures m P \<longleftrightarrow> (\<forall>x. m = Ok x \<longrightarrow> P x)"
  by (cases m) (simp_all add: ensures_def)

lemma ensures_base [ensures_intros]:
  "P x \<Longrightarrow> ensures (Ok x) P" "ensures (Err e) P" "ensures (Panic s) P"
  by (simp_all add: ensures_def)

lemma ensures_if [ensures_intros]:
  "(b \<Longrightarrow> ensures m P) \<Longrightarrow> (\<not> b \<Longrightarrow> ensures n P) \<Longrightarrow> ensures (if b then m else n) P"
  by simp

lemma ensures_bind [ensures_intros]:
  "(\<And>x. m = Ok x \<Longrightarrow> ensures (f x) P) \<Longrightarrow> ensures (go_bind m f) P"
  by (cases m) (simp_all add: ensures_def)

lemma ensures_case [ensures_intros]:
  "(\<And>x. m = Ok x \<Longrightarrow> ensures (f x) P) \<Longrightarrow> (\<And>e. m = Err e \<Longrightarrow> ensures (g e) P) \<Longrightarrow>
   ensures (case m of Ok x \<Rightarrow> f x | Err e \<Rightarrow> g e | Panic s \<Rightarrow> Panic s) P"
  by (cases m) (simp_all add: ensures_def)

section \<open>Machine integers\<close>

text \<open>
  \<open>int64\<close> values are HOL integers in \<open>[-2^63, 2^63)\<close>; every addition and multiplication
  the code makes on them is followed by \<open>wrap64\<close>, two's-complement wrap-around. \<open>int\<close> is
  64 bits on the platforms the code is built for. \<open>time.Duration\<close> is an \<open>int64\<close> of
  nanoseconds.
\<close>

type_synonym int64 = int
type_synonym duration = int

definition min_int64 :: int where "min_int64 = -(2 ^ 63)"
definition max_int64 :: int where "max_int64 = 2 ^ 63 - 1"

definition in_int64 :: "int \<Rightarrow> bool" where
  "in_int64 x \<longleftrightarrow> min_int64 \<le> x \<and> x \<le> max_int64"

definition wrap64 :: "int \<Rightarrow> int64" where
  "wrap64 x = (x + 2 ^ 63) mod 2 ^ 64 - 2 ^ 63"

text \<open>The conversion \<open>int32(x)\<close> keeps the low 32 bits.\<close>

definition wrap32 :: "int \<Rightarrow> int" where
  "wrap32 x = (x + 2 ^ 31) mod 2 ^ 32 - 2 ^ 31"

definition in_int32 :: "int \<Rightarrow> bool" where
  "in_int32 x \<longleftrightarrow> -(2 ^ 31) \<le> x \<and> x < 2 ^ 31"

definition add64 :: "int64 \<Rightarrow> int64 \<Rightarrow> int64" where "add64 a b = wrap64 (a + b)"
definition mul64 :: "int64 \<Rightarrow> int64 \<Rightarrow> int64" where "mul64 a b = wrap64 (a * b)"

named_theorems int64_defs "the 64-bit operations and bounds, unfolded to integer arithmetic"

lemmas int64_unfold [int64_defs] =
  in_int64_def wrap64_def min_int64_def max_int64_def add64_def mul64_def

lemma wrap64_id [simp]: "in_int64 x \<Longrightarrow> wrap64 x = x"
  by (simp add: int64_defs)

lemma wrap64_range [simp]: "in_int64 (wrap64 x)"
proof -
  have "0 \<le> (x + 2 ^ 63) mod 2 ^ 64" and "(x + 2 ^ 63) mod 2 ^ 64 < (2 ^ 64 :: int)"
    by (auto intro: pos_mod_bound)
  then show ?thesis by (simp add: int64_defs)
qed

lemma wrap64_cong: "wrap64 x mod 2 ^ 64 = x mod 2 ^ 64"
  unfolding wrap64_def by (metis add_diff_cancel_right' mod_diff_left_eq)

lemma wrap64_eqI: "in_int64 y \<Longrightarrow> x mod 2 ^ 64 = y mod 2 ^ 64 \<Longrightarrow> wrap64 x = y"
proof -
  assume y: "in_int64 y" and "x mod 2 ^ 64 = y mod 2 ^ 64"
  then have "wrap64 x = wrap64 y" unfolding wrap64_def by (metis mod_add_left_eq)
  with y show ?thesis by simp
qed

lemma wrap64_add_left [simp]: "wrap64 (wrap64 a + b) = wrap64 (a + b)"
  by (rule wrap64_eqI) (simp, metis mod_add_left_eq wrap64_cong)

lemma wrap64_add_right [simp]: "wrap64 (a + wrap64 b) = wrap64 (a + b)"
  by (metis add.commute wrap64_add_left)

lemma wrap64_add_assoc [simp]: "wrap64 (wrap64 a + b + c) = wrap64 (a + b + c)"
  using wrap64_add_left [of a "b + c"] by (simp add: add.assoc)

lemma wrap64_mult_left [simp]: "wrap64 (wrap64 a * b) = wrap64 (a * b)"
  by (rule wrap64_eqI) (simp, metis mod_mult_left_eq wrap64_cong)

lemma wrap32_id [simp]: "in_int32 x \<Longrightarrow> wrap32 x = x"
  by (simp add: wrap32_def in_int32_def)

lemma wrap32_range: "in_int32 (wrap32 x)"
proof -
  have "0 \<le> (x + 2 ^ 31) mod 2 ^ 32" and "(x + 2 ^ 31) mod 2 ^ 32 < (2 ^ 32 :: int)"
    by (auto intro: pos_mod_bound)
  then show ?thesis by (simp add: in_int32_def wrap32_def)
qed

text \<open>Go's \<open>/\<close> and \<open>%\<close> truncate towards zero.\<close>

definition tdiv :: "int \<Rightarrow> int \<Rightarrow> int" where
  "tdiv a b = sgn a * sgn b * (\<bar>a\<bar> div \<bar>b\<bar>)"

definition tmod :: "int \<Rightarrow> int \<Rightarrow> int" where
  "tmod a b = a - tdiv a b * b"

lemma tdiv_nonneg: "0 \<le> a \<Longrightarrow> 0 < b \<Longrightarrow> tdiv a b = a div b"
  by (cases "a = 0") (auto simp: tdiv_def)

lemma tdiv_neg: "a < 0 \<Longrightarrow> 0 < b \<Longrightarrow> tdiv a b = - ((- a) div b)"
  by (auto simp: tdiv_def)

lemma tmod_nonneg: "0 \<le> a \<Longrightarrow> 0 < b \<Longrightarrow> tmod a b = a mod b"
  by (simp add: tmod_def tdiv_nonneg minus_div_mult_eq_mod)

lemma tmod_neg: "a < 0 \<Longrightarrow> 0 < b \<Longrightarrow> tmod a b = - ((- a) mod b)"
  using minus_div_mult_eq_mod [of "- a" b] by (simp add: tmod_def tdiv_neg)

lemma tdiv_mult_self [simp]: "0 < b \<Longrightarrow> tdiv (a * b) b = a"
  by (cases "0 \<le> a") (auto simp: tdiv_nonneg tdiv_neg mult_less_0_iff simp flip: mult_minus_left)

lemma tmod_mult_self [simp]: "0 < b \<Longrightarrow> tmod (a * b) b = 0"
  by (simp add: tmod_def)

section \<open>Constants of package time\<close>

definition time_Second :: duration where "time_Second = 1000000000"
definition time_Minute :: duration where "time_Minute = 60 * time_Second"
definition time_Hour :: duration where "time_Hour = 60 * time_Minute"

named_theorems time_units "the units of package time in nanoseconds"

lemma time_unit_values [time_units]:
  "time_Second = 1000000000" "time_Minute = 60000000000" "time_Hour = 3600000000000"
  by (simp_all add: time_Second_def time_Minute_def time_Hour_def)

end
