(* ===== verification/Go_Strings.thy ===== *)
theory Go_Strings
  imports Wlm_Prelude "HOL-Library.Char_ord"
begin

text \<open>
  The operations of package \<open>strings\<close> the program calls, on byte strings (\<open>string\<close> is a
  list of bytes, as Go's \<open>string\<close> is): Split, Join, Fields, TrimSpace, Trim, HasPrefix,
  TrimPrefix, IndexByte, ToLower, and \<open>bufio.Scanner\<close>'s lines. Each operation comes with
  the laws the parsers rest on: splitting inverts joining, and Fields is computed token by
  token.
\<close>

named_theorems go_string_laws "rewrite rules that compute the string operations piecewise"

definition newline :: char where "newline = CHR 0x0A"

section \<open>Split and Join\<close>

text \<open>\<open>strings.Split(s, sep)\<close> for a separator of one byte.\<close>

fun strings_Split :: "char \<Rightarrow> string \<Rightarrow> string list" where
  "strings_Split c [] = [[]]"
| "strings_Split c (x # xs) =
     (if x = c then [] # strings_Split c xs
      else (case strings_Split c xs of [] \<Rightarrow> [[x]] | p # ps \<Rightarrow> (x # p) # ps))"

text \<open>\<open>strings.Split(s, "\n\n")\<close>: leftmost non-overlapping separators.\<close>

fun strings_Split_blank :: "string \<Rightarrow> string list" where
  "strings_Split_blank [] = [[]]"
| "strings_Split_blank [x] = [[x]]"
| "strings_Split_blank (x # y # xs) =
     (if x = newline \<and> y = newline then [] # strings_Split_blank xs
      else (case strings_Split_blank (y # xs) of [] \<Rightarrow> [[x]] | p # ps \<Rightarrow> (x # p) # ps))"

fun strings_Join :: "string \<Rightarrow> string list \<Rightarrow> string" where
  "strings_Join sep [] = []"
| "strings_Join sep [p] = p"
| "strings_Join sep (p # q # ps) = p @ sep @ strings_Join sep (q # ps)"

lemma strings_Split_not_Nil [simp]: "strings_Split c s \<noteq> []"
  by (induction s) (auto split: list.splits)

lemma strings_Split_blank_not_Nil [simp]: "strings_Split_blank s \<noteq> []"
  by (induction s rule: strings_Split_blank.induct) (auto split: list.splits)

lemma strings_Join_Cons: "ps \<noteq> [] \<Longrightarrow> strings_Join sep (p # ps) = p @ sep @ strings_Join sep ps"
  by (cases ps) auto

lemma strings_Join_head: "strings_Join sep ((x # p) # ps) = x # strings_Join sep (p # ps)"
  by (cases ps) auto

lemma Join_hd_last:
  "ps \<noteq> [] \<Longrightarrow> (\<And>p. p \<in> set ps \<Longrightarrow> p \<noteq> []) \<Longrightarrow>
   strings_Join sep ps \<noteq> [] \<and> hd (strings_Join sep ps) = hd (hd ps) \<and>
   last (strings_Join sep ps) = last (last ps)"
proof (induction sep ps rule: strings_Join.induct)
  case (3 sep p q ps)
  then show ?case by (auto simp: last_append)
qed auto

lemma Join_Split: "strings_Join [c] (strings_Split c s) = s"
proof (induction s)
  case Nil
  then show ?case by simp
next
  case (Cons x xs)
  obtain p ps where "strings_Split c xs = p # ps"
    by (meson list.exhaust strings_Split_not_Nil)
  with Cons show ?case by (auto simp: strings_Join_head)
qed

lemma Split_pieces: "p \<in> set (strings_Split c s) \<Longrightarrow> c \<notin> set p"
proof (induction s arbitrary: p)
  case Nil
  then show ?case by simp
next
  case (Cons x xs)
  obtain q qs where "strings_Split c xs = q # qs"
    by (meson list.exhaust strings_Split_not_Nil)
  with Cons show ?case by (auto split: if_splits)
qed

lemma Split_length: "length (strings_Split c s) = Suc (count_list s c)"
proof (induction s)
  case Nil
  then show ?case by simp
next
  case (Cons x xs)
  obtain q qs where "strings_Split c xs = q # qs"
    by (meson list.exhaust strings_Split_not_Nil)
  with Cons show ?case by auto
qed

lemma Split_plain [go_string_laws]: "c \<notin> set p \<Longrightarrow> strings_Split c p = [p]"
  by (induction p) auto

lemma Split_append [go_string_laws]:
  "c \<notin> set p \<Longrightarrow> strings_Split c (p @ c # s) = p # strings_Split c s"
  by (induction p) auto

lemma Split_sep: "strings_Split c (a @ c # b) = strings_Split c a @ strings_Split c b"
proof (induction a)
  case (Cons x a)
  obtain p ps where "strings_Split c a = p # ps"
    by (meson list.exhaust strings_Split_not_Nil)
  with Cons show ?case by simp
qed simp

lemma Split_Join:
  "ps \<noteq> [] \<Longrightarrow> (\<And>p. p \<in> set ps \<Longrightarrow> c \<notin> set p) \<Longrightarrow> strings_Split c (strings_Join [c] ps) = ps"
  by (induction "[c]" ps rule: strings_Join.induct) (auto simp: go_string_laws)

text \<open>The two-byte separator: pieces must not contain it nor touch it with a newline.\<close>

fun no_blank_line :: "string \<Rightarrow> bool" where
  "no_blank_line [] = True"
| "no_blank_line [x] = True"
| "no_blank_line (x # y # xs) = (\<not> (x = newline \<and> y = newline) \<and> no_blank_line (y # xs))"

lemma Split_blank_plain [go_string_laws]: "no_blank_line p \<Longrightarrow> strings_Split_blank p = [p]"
  by (induction p rule: no_blank_line.induct) auto

lemma Split_blank_append [go_string_laws]:
  "no_blank_line p \<Longrightarrow> p = [] \<or> last p \<noteq> newline \<Longrightarrow>
   strings_Split_blank (p @ newline # newline # s) = p # strings_Split_blank s"
proof (induction p rule: no_blank_line.induct)
  case 1
  then show ?case by simp
next
  case (2 x)
  then show ?case by simp
next
  case (3 x y xs)
  then show ?case by (auto simp: last_ConsR)
qed

lemma Split_blank_Join:
  "ps \<noteq> [] \<Longrightarrow> (\<And>p. p \<in> set ps \<Longrightarrow> no_blank_line p \<and> (p = [] \<or> last p \<noteq> newline)) \<Longrightarrow>
   strings_Split_blank (strings_Join [newline, newline] ps) = ps"
  by (induction "[newline, newline]" ps rule: strings_Join.induct) (auto simp: go_string_laws)

section \<open>Prefixes and indices\<close>

definition strings_HasPrefix :: "string \<Rightarrow> string \<Rightarrow> bool" where
  "strings_HasPrefix s p \<longleftrightarrow> take (length p) s = p"

definition strings_TrimPrefix :: "string \<Rightarrow> string \<Rightarrow> string" where
  "strings_TrimPrefix s p = (if strings_HasPrefix s p then drop (length p) s else s)"

lemma HasPrefix_iff: "strings_HasPrefix s p \<longleftrightarrow> (\<exists>t. s = p @ t)"
  unfolding strings_HasPrefix_def by (metis append_eq_conv_conj append_take_drop_id)

lemma HasPrefix_append [simp]: "strings_HasPrefix (p @ t) p"
  by (simp add: strings_HasPrefix_def)

lemma TrimPrefix_append [simp]: "strings_TrimPrefix (p @ t) p = t"
  by (simp add: strings_TrimPrefix_def)

text \<open>\<open>strings.IndexByte\<close>, with \<open>None\<close> for -1.\<close>

fun strings_IndexByte :: "string \<Rightarrow> char \<Rightarrow> nat option" where
  "strings_IndexByte [] c = None"
| "strings_IndexByte (x # xs) c = (if x = c then Some 0 else map_option Suc (strings_IndexByte xs c))"

lemma IndexByte_None [simp]: "strings_IndexByte s c = None \<longleftrightarrow> c \<notin> set s"
  by (induction s) auto

lemma IndexByte_absent [go_string_laws]: "c \<notin> set s \<Longrightarrow> strings_IndexByte s c = None"
  by simp

lemma IndexByte_append [simp]: "c \<notin> set p \<Longrightarrow> strings_IndexByte (p @ c # s) c = Some (length p)"
  by (induction p) auto

lemma IndexByte_Some:
  "strings_IndexByte s c = Some i \<Longrightarrow> s = take i s @ c # drop (Suc i) s \<and> c \<notin> set (take i s)"
  by (induction s arbitrary: i) (auto split: if_splits)

section \<open>White space\<close>

text \<open>
  \<open>unicode.IsSpace\<close> on UTF-8 text: the encodings of all white-space runes. A run of bytes
  is scanned from the left; a white-space encoding can only start at a rune start, because
  no encoding starts with a continuation byte.
\<close>

definition ascii_spaces :: "char list" where
  "ascii_spaces = [CHR 0x20, CHR 0x0A, CHR 0x09, CHR 0x0B, CHR 0x0C, CHR 0x0D]"

definition space_runes :: "string list" where
  "space_runes = map (\<lambda>c. [c]) ascii_spaces @
     [[CHR 0xC2, CHR 0x85], [CHR 0xC2, CHR 0xA0], [CHR 0xE1, CHR 0x9A, CHR 0x80],
      [CHR 0xE2, CHR 0x80, CHR 0x80], [CHR 0xE2, CHR 0x80, CHR 0x81],
      [CHR 0xE2, CHR 0x80, CHR 0x82], [CHR 0xE2, CHR 0x80, CHR 0x83],
      [CHR 0xE2, CHR 0x80, CHR 0x84], [CHR 0xE2, CHR 0x80, CHR 0x85],
      [CHR 0xE2, CHR 0x80, CHR 0x86], [CHR 0xE2, CHR 0x80, CHR 0x87],
      [CHR 0xE2, CHR 0x80, CHR 0x88], [CHR 0xE2, CHR 0x80, CHR 0x89],
      [CHR 0xE2, CHR 0x80, CHR 0x8A], [CHR 0xE2, CHR 0x80, CHR 0xA8],
      [CHR 0xE2, CHR 0x80, CHR 0xA9], [CHR 0xE2, CHR 0x80, CHR 0xAF],
      [CHR 0xE2, CHR 0x81, CHR 0x9F], [CHR 0xE3, CHR 0x80, CHR 0x80]]"

text \<open>The length of the white-space rune a string starts with, 0 for none.\<close>

definition space_len :: "string \<Rightarrow> nat" where
  "space_len s = (case find (\<lambda>r. strings_HasPrefix s r) space_runes of None \<Rightarrow> 0 | Some r \<Rightarrow> length r)"

text \<open>The same at the end of a string, given reversed.\<close>

definition rev_space_len :: "string \<Rightarrow> nat" where
  "rev_space_len s = (case find (\<lambda>r. strings_HasPrefix s (rev r)) space_runes of None \<Rightarrow> 0 | Some r \<Rightarrow> length r)"

text \<open>
  Graphic ASCII bytes: what slurm identifiers, numbers and times are made of. None of them
  starts or ends a white-space rune.
\<close>

definition graphic :: "char \<Rightarrow> bool" where
  "graphic c \<longleftrightarrow> 33 \<le> (of_char c :: nat) \<and> (of_char c :: nat) \<le> 126"

definition plain :: "string \<Rightarrow> bool" where
  "plain s \<longleftrightarrow> s \<noteq> [] \<and> list_all graphic s"

lemma space_runes_not_Nil: "r \<in> set space_runes \<Longrightarrow> r \<noteq> []"
  by (auto simp: space_runes_def)

lemma space_runes_graphic: "r \<in> set space_runes \<Longrightarrow> x \<in> set r \<Longrightarrow> \<not> graphic x"
  by (auto simp: space_runes_def ascii_spaces_def graphic_def)

lemma HasPrefix_Cons: "strings_HasPrefix (x # s) r \<Longrightarrow> r \<noteq> [] \<Longrightarrow> x \<in> set r"
  unfolding strings_HasPrefix_def by (cases r) auto

lemma space_len_graphic [simp]: "graphic x \<Longrightarrow> space_len (x # s) = 0"
  unfolding space_len_def
  by (auto split: option.splits simp: find_Some_iff
      dest!: HasPrefix_Cons [OF _ space_runes_not_Nil] space_runes_graphic dest: nth_mem)

lemma rev_space_len_graphic [simp]: "graphic x \<Longrightarrow> rev_space_len (x # s) = 0"
proof -
  assume x: "graphic x"
  have "\<not> strings_HasPrefix (x # s) (rev r)" if "r \<in> set space_runes" for r
  proof
    assume "strings_HasPrefix (x # s) (rev r)"
    with that have "x \<in> set r"
      using HasPrefix_Cons space_runes_not_Nil by fastforce
    with that x show False using space_runes_graphic by blast
  qed
  then have "find (\<lambda>r. strings_HasPrefix (x # s) (rev r)) space_runes = None"
    by (auto simp: find_None_iff)
  then show ?thesis by (simp add: rev_space_len_def)
qed

lemma space_len_Nil [simp]: "space_len [] = 0"
  by (simp add: space_len_def space_runes_def ascii_spaces_def strings_HasPrefix_def)

lemma rev_space_len_Nil [simp]: "rev_space_len [] = 0"
  by (simp add: rev_space_len_def space_runes_def ascii_spaces_def strings_HasPrefix_def)

lemma find_ascii_space:
  "c \<in> set cs \<Longrightarrow> find (\<lambda>r. strings_HasPrefix (c # s) r) (map (\<lambda>x. [x]) cs @ rs) = Some [c]"
  by (induction cs) (auto simp: strings_HasPrefix_def)

lemma find_ascii_space_rev:
  "c \<in> set cs \<Longrightarrow> find (\<lambda>r. strings_HasPrefix (c # s) (rev r)) (map (\<lambda>x. [x]) cs @ rs) = Some [c]"
  by (induction cs) (auto simp: strings_HasPrefix_def)

lemma space_len_ascii [simp]: "c \<in> set ascii_spaces \<Longrightarrow> space_len (c # s) = 1"
  by (simp add: space_len_def space_runes_def find_ascii_space)

lemma rev_space_len_ascii [simp]: "c \<in> set ascii_spaces \<Longrightarrow> rev_space_len (c # s) = 1"
  by (simp add: rev_space_len_def space_runes_def find_ascii_space_rev)

lemma space_len_pos: "0 < space_len s \<Longrightarrow> 0 < length s"
  by (cases s) auto

lemma rev_space_len_pos: "0 < rev_space_len s \<Longrightarrow> 0 < length s"
  by (cases s) auto

text \<open>\<open>strings.Fields\<close>: \<open>cur\<close> is the field being collected.\<close>

function fields_from :: "string \<Rightarrow> string \<Rightarrow> string list" where
  "fields_from cur s =
     (case s of
        [] \<Rightarrow> (if cur = [] then [] else [cur])
      | x # xs \<Rightarrow>
          (if 0 < space_len s
           then (if cur = [] then [] else [cur]) @ fields_from [] (drop (space_len s) s)
           else fields_from (cur @ [x]) xs))"
  by pat_completeness auto
termination
  by (relation "measure (\<lambda>(cur, s). length s)") auto

declare fields_from.simps [simp del]

definition strings_Fields :: "string \<Rightarrow> string list" where
  "strings_Fields s = fields_from [] s"

function trim_left :: "string \<Rightarrow> string" where
  "trim_left s = (if 0 < space_len s then trim_left (drop (space_len s) s) else s)"
  by pat_completeness auto
termination
  by (relation "measure length") (simp_all, frule space_len_pos, simp)

declare trim_left.simps [simp del]

function trim_right_rev :: "string \<Rightarrow> string" where
  "trim_right_rev s = (if 0 < rev_space_len s then trim_right_rev (drop (rev_space_len s) s) else s)"
  by pat_completeness auto
termination
  by (relation "measure length") (simp_all, frule rev_space_len_pos, simp)

declare trim_right_rev.simps [simp del]

definition strings_TrimSpace :: "string \<Rightarrow> string" where
  "strings_TrimSpace s = rev (trim_right_rev (rev (trim_left s)))"

text \<open>\<open>strings.Trim(s, "\n")\<close>\<close>

definition strings_Trim_newline :: "string \<Rightarrow> string" where
  "strings_Trim_newline s =
     rev (dropWhile (\<lambda>c. c = newline) (rev (dropWhile (\<lambda>c. c = newline) s)))"

subsection \<open>Laws\<close>

lemma fields_from_Nil: "fields_from cur [] = (if cur = [] then [] else [cur])"
  by (simp add: fields_from.simps)

lemma fields_from_space:
  "c \<in> set ascii_spaces \<Longrightarrow>
   fields_from cur (c # s) = (if cur = [] then [] else [cur]) @ fields_from [] s"
  by (subst fields_from.simps) simp

lemma fields_from_token: "list_all graphic p \<Longrightarrow> fields_from cur (p @ s) = fields_from (cur @ p) s"
proof (induction p arbitrary: cur)
  case Nil
  then show ?case by simp
next
  case (Cons x p)
  then show ?case by (subst fields_from.simps) simp
qed

lemma Fields_Nil [go_string_laws]: "strings_Fields [] = []"
  by (simp add: strings_Fields_def fields_from_Nil)

lemma Fields_space [go_string_laws]:
  "c \<in> set ascii_spaces \<Longrightarrow> strings_Fields (c # s) = strings_Fields s"
  by (simp add: strings_Fields_def fields_from_space)

lemma Fields_token [go_string_laws]: "plain p \<Longrightarrow> strings_Fields p = [p]"
  using fields_from_token [of p "[]" "[]"] by (simp add: strings_Fields_def plain_def fields_from_Nil)

lemma Fields_token_space [go_string_laws]:
  "plain p \<Longrightarrow> c \<in> set ascii_spaces \<Longrightarrow> strings_Fields (p @ c # s) = p # strings_Fields s"
  by (simp add: strings_Fields_def plain_def fields_from_token fields_from_space)

lemma Fields_Join:
  "c \<in> set ascii_spaces \<Longrightarrow> list_all plain ps \<Longrightarrow> strings_Fields (strings_Join [c] ps) = ps"
  by (induction "[c]" ps rule: strings_Join.induct) (auto simp: go_string_laws)

lemma TrimSpace_graphic:
  "s \<noteq> [] \<Longrightarrow> graphic (hd s) \<Longrightarrow> graphic (last s) \<Longrightarrow> strings_TrimSpace s = s"
proof -
  assume s: "s \<noteq> []" "graphic (hd s)" "graphic (last s)"
  then have "trim_left s = s"
    by (subst trim_left.simps) (cases s, auto)
  moreover from s have "trim_right_rev (rev s) = rev s"
    by (subst trim_right_rev.simps) (cases s rule: rev_cases, auto)
  ultimately show ?thesis by (simp add: strings_TrimSpace_def)
qed

lemma TrimSpace_plain [go_string_laws]: "plain s \<Longrightarrow> strings_TrimSpace s = s"
  by (rule TrimSpace_graphic) (auto simp: plain_def list_all_iff)

lemma newline_space [simp]: "newline \<in> set ascii_spaces"
  by (simp add: newline_def ascii_spaces_def)

lemma TrimSpace_trailing:
  "c \<in> set ascii_spaces \<Longrightarrow> plain s \<Longrightarrow> strings_TrimSpace (s @ [c]) = s"
proof -
  assume c: "c \<in> set ascii_spaces" and s: "plain s"
  then have "trim_left (s @ [c]) = s @ [c]"
    by (subst trim_left.simps) (cases s, auto simp: plain_def)
  moreover have "trim_right_rev (c # rev s) = rev s"
    using c s by (subst trim_right_rev.simps, simp, subst trim_right_rev.simps)
      (cases s rule: rev_cases, auto simp: plain_def)
  ultimately show ?thesis by (simp add: strings_TrimSpace_def)
qed

lemma Trim_newline_id:
  "s \<noteq> [] \<Longrightarrow> hd s \<noteq> newline \<Longrightarrow> last s \<noteq> newline \<Longrightarrow> strings_Trim_newline s = s"
proof -
  assume s: "s \<noteq> []" "hd s \<noteq> newline" "last s \<noteq> newline"
  then have "dropWhile (\<lambda>c. c = newline) s = s" by (cases s) auto
  moreover from s have "dropWhile (\<lambda>c. c = newline) (rev s) = rev s"
    by (cases s rule: rev_cases) auto
  ultimately show ?thesis by (simp add: strings_Trim_newline_def)
qed

section \<open>ToLower\<close>

text \<open>
  \<open>strings.ToLower\<close> on ASCII; bytes from 0x80 on are left as they are (the case mapping of
  runes outside ASCII is not modelled).
\<close>

definition lower_byte :: "char \<Rightarrow> char" where
  "lower_byte c =
     (let n = (of_char c :: nat) in if 65 \<le> n \<and> n \<le> 90 then char_of (n + 32) else c)"

definition strings_ToLower :: "string \<Rightarrow> string" where
  "strings_ToLower s = map lower_byte s"

lemma lower_byte_idem [simp]: "lower_byte (lower_byte c) = lower_byte c"
  by (auto simp: lower_byte_def Let_def)

lemma ToLower_idem [simp]: "strings_ToLower (strings_ToLower s) = strings_ToLower s"
  by (simp add: strings_ToLower_def)

section \<open>Lines of a \<open>bufio.Scanner\<close>\<close>

text \<open>
  \<open>bufio.ScanLines\<close>: a line ends at a newline or at the end of the input, a final empty
  line is not returned, and one carriage return before the end is dropped. The scanner's
  buffer holds at most 64 KiB, so a line of 65536 bytes or more makes \<open>Scan\<close> return false
  with \<open>ErrTooLong\<close>: the lines after it are never seen.
\<close>

definition maxScanLine :: nat where "maxScanLine = 65535"

definition raw_lines :: "string \<Rightarrow> string list" where
  "raw_lines s =
     (let ls = strings_Split newline s in if last ls = [] then butlast ls else ls)"

definition drop_cr :: "string \<Rightarrow> string" where
  "drop_cr l = (if l \<noteq> [] \<and> last l = CHR 0x0D then butlast l else l)"

definition scan_lines :: "string \<Rightarrow> string list" where
  "scan_lines s = map drop_cr (takeWhile (\<lambda>l. length l \<le> maxScanLine) (raw_lines s))"

lemma raw_lines_Join_newline:
  "(\<And>l. l \<in> set ls \<Longrightarrow> newline \<notin> set l) \<Longrightarrow> raw_lines (concat (map (\<lambda>l. l @ [newline]) ls)) = ls"
proof -
  assume "\<And>l. l \<in> set ls \<Longrightarrow> newline \<notin> set l"
  then have "strings_Split newline (concat (map (\<lambda>l. l @ [newline]) ls)) = ls @ [[]]"
    by (induction ls) (auto simp: go_string_laws)
  then show ?thesis by (simp add: raw_lines_def)
qed

end
