(* ===== verification/Go_Numbers.thy ===== *)
theory Go_Numbers
  imports Go_Strings
begin

text \<open>
  Package \<open>strconv\<close> at base 10: \<open>ParseInt(s, 10, 0)\<close> and \<open>Atoi\<close> (64-bit), \<open>FormatInt\<close>,
  with the errors they return, the exact set of strings they accept, and the round trip
  between them. The locale \<open>int_text\<close> is the contract the other theories use.
\<close>

definition is_digit :: "char \<Rightarrow> bool" where
  "is_digit c \<longleftrightarrow> 48 \<le> (of_char c :: nat) \<and> (of_char c :: nat) \<le> 57"

definition digit_val :: "char \<Rightarrow> nat" where
  "digit_val c = of_char c - 48"

definition digit_char :: "nat \<Rightarrow> char" where
  "digit_char d = char_of (48 + d)"

lemma digit_char_values:
  "digit_char 0 = CHR ''0''" "digit_char 1 = CHR ''1''" "digit_char 2 = CHR ''2''"
  "digit_char 3 = CHR ''3''" "digit_char 4 = CHR ''4''" "digit_char 5 = CHR ''5''"
  "digit_char 6 = CHR ''6''" "digit_char 7 = CHR ''7''" "digit_char 8 = CHR ''8''"
  "digit_char 9 = CHR ''9''" "digit_char (Suc 0) = CHR ''1''"
  by code_simp+

section \<open>Parsing\<close>

text \<open>
  The loop of \<open>strconv.ParseUint\<close>: a byte that is no digit is a syntax error, a value past
  \<open>2^64 - 1\<close> a range error, whichever is met first. \<open>inp\<close> is the text the error names.
\<close>

fun ParseUint_loop :: "string \<Rightarrow> nat \<Rightarrow> string \<Rightarrow> nat go" where
  "ParseUint_loop inp n [] = Ok n"
| "ParseUint_loop inp n (c # cs) =
     (if \<not> is_digit c then Err (NumSyntax inp)
      else if 10 * n + digit_val c > 2 ^ 64 - 1 then Err (NumRange inp)
      else ParseUint_loop inp (10 * n + digit_val c) cs)"

definition strconv_ParseInt :: "string \<Rightarrow> int64 go" where
  "strconv_ParseInt s =
     (case s of
        [] \<Rightarrow> Err (NumSyntax s)
      | c # cs \<Rightarrow>
          (let neg = (c = CHR ''-'');
               t = (if c = CHR ''+'' \<or> c = CHR ''-'' then cs else s)
           in if t = [] then Err (NumSyntax s)
              else go_bind (ParseUint_loop s 0 t) (\<lambda>un.
                if \<not> neg \<and> un \<ge> 2 ^ 63 then Err (NumRange s)
                else if neg \<and> un > 2 ^ 63 then Err (NumRange s)
                else Ok (if neg then - int un else int un))))"

text \<open>\<open>Atoi\<close> is \<open>ParseInt(s, 10, 0)\<close> up to the function name in its error.\<close>

definition strconv_Atoi :: "string \<Rightarrow> int64 go" where
  "strconv_Atoi s = strconv_ParseInt s"

section \<open>Formatting\<close>

fun FormatUint :: "nat \<Rightarrow> string" where
  "FormatUint n = (if n < 10 then [digit_char n] else FormatUint (n div 10) @ [digit_char (n mod 10)])"

declare FormatUint.simps [simp del]

definition strconv_FormatInt :: "int64 \<Rightarrow> string" where
  "strconv_FormatInt n =
     (if n < 0 then CHR ''-'' # FormatUint (nat (- n)) else FormatUint (nat n))"

section \<open>The value of a digit string\<close>

definition digits_value :: "nat \<Rightarrow> string \<Rightarrow> nat" where
  "digits_value n cs = foldl (\<lambda>n c. 10 * n + digit_val c) n cs"

lemma digits_value_simps [simp]:
  "digits_value n [] = n"
  "digits_value n (c # cs) = digits_value (10 * n + digit_val c) cs"
  "digits_value n (cs @ ds) = digits_value (digits_value n cs) ds"
  by (simp_all add: digits_value_def)

lemma digits_value_ge: "n \<le> digits_value n cs"
proof (induction cs arbitrary: n)
  case Nil
  then show ?case by simp
next
  case (Cons c cs)
  have "n \<le> 10 * n + digit_val c" by simp
  also have "\<dots> \<le> digits_value (10 * n + digit_val c) cs" by (rule Cons.IH)
  finally show ?case by simp
qed

lemma ParseUint_loop_no_panic [simp]: "no_panic (ParseUint_loop inp n cs)"
  by (induction cs arbitrary: n) auto

lemma ParseUint_loop_Ok_iff:
  "ParseUint_loop inp n cs = Ok m \<longleftrightarrow>
     list_all is_digit cs \<and> m = digits_value n cs \<and> (cs = [] \<or> digits_value n cs < 2 ^ 64)"
proof (induction cs arbitrary: n)
  case Nil
  then show ?case by auto
next
  case (Cons c cs)
  have "10 * n + digit_val c \<le> digits_value (10 * n + digit_val c) cs" by (rule digits_value_ge)
  then show ?case using Cons by (cases "cs = []") auto
qed

lemma ParseInt_no_panic [simp]: "no_panic (strconv_ParseInt s)"
  by (auto simp: strconv_ParseInt_def Let_def split: list.splits intro!: no_panic_intros)

lemma Atoi_no_panic [simp]: "no_panic (strconv_Atoi s)"
  by (simp add: strconv_Atoi_def)

text \<open>The errors are numeric errors: never a sentinel of the program.\<close>

lemma ParseUint_loop_Err: "ParseUint_loop inp n cs = Err e \<Longrightarrow> e = NumSyntax inp \<or> e = NumRange inp"
  by (induction cs arbitrary: n) (auto split: if_splits)

lemma ParseInt_Err: "strconv_ParseInt s = Err e \<Longrightarrow> e = NumSyntax s \<or> e = NumRange s"
  by (auto simp: strconv_ParseInt_def Let_def go_bind_eq_Err split: list.splits if_splits
      dest: ParseUint_loop_Err)

lemma sign_no_digit [simp]: "\<not> is_digit (CHR ''-'')" "\<not> is_digit (CHR ''+'')"
  by (simp_all add: is_digit_def)

lemma ParseInt_range: "strconv_ParseInt s = Ok n \<Longrightarrow> in_int64 n"
  by (auto simp: strconv_ParseInt_def Let_def int64_defs split: list.splits if_splits)

lemma ParseInt_digits:
  "s \<noteq> [] \<Longrightarrow> list_all is_digit s \<Longrightarrow> digits_value 0 s < 2 ^ 63 \<Longrightarrow>
   strconv_ParseInt s = Ok (int (digits_value 0 s))"
proof -
  assume s: "s \<noteq> []" "list_all is_digit s" "digits_value 0 s < 2 ^ 63"
  then have "ParseUint_loop s 0 s = Ok (digits_value 0 s)"
    by (subst ParseUint_loop_Ok_iff) auto
  moreover from s obtain c cs where c: "s = c # cs" "is_digit c" by (cases s) auto
  moreover from c have "c \<noteq> CHR ''-''" "c \<noteq> CHR ''+''" by auto
  ultimately show ?thesis
    using s(3) by (simp add: strconv_ParseInt_def del: ParseUint_loop.simps digits_value_simps)
qed

lemma ParseInt_minus_digits:
  "s \<noteq> [] \<Longrightarrow> list_all is_digit s \<Longrightarrow> digits_value 0 s \<le> 2 ^ 63 \<Longrightarrow>
   strconv_ParseInt (CHR ''-'' # s) = Ok (- int (digits_value 0 s))"
proof -
  assume s: "s \<noteq> []" "list_all is_digit s" "digits_value 0 s \<le> 2 ^ 63"
  then have "ParseUint_loop (CHR ''-'' # s) 0 s = Ok (digits_value 0 s)"
    by (subst ParseUint_loop_Ok_iff) auto
  with s show ?thesis
    by (simp add: strconv_ParseInt_def del: ParseUint_loop.simps digits_value_simps)
qed

text \<open>Exactly the strings of an optional sign and at least one digit, in range, are accepted.\<close>

lemma ParseInt_Ok_shape:
  assumes "strconv_ParseInt s = Ok n"
  shows "\<exists>sgn ds. s = sgn @ ds \<and> sgn \<in> {[], ''+'', ''-''} \<and> ds \<noteq> [] \<and> list_all is_digit ds \<and>
    n = (if sgn = ''-'' then - int (digits_value 0 ds) else int (digits_value 0 ds))"
proof (cases s)
  case Nil
  with assms show ?thesis by (simp add: strconv_ParseInt_def)
next
  case (Cons c cs)
  define t where "t = (if c = CHR ''+'' \<or> c = CHR ''-'' then cs else s)"
  define sg where "sg = (if c = CHR ''+'' \<or> c = CHR ''-'' then [c] else [])"
  have split: "s = sg @ t" "sg \<in> {[], ''+'', ''-''}" "(sg = ''-'') = (c = CHR ''-'')"
    by (simp_all add: t_def sg_def Cons)
  from assms Cons obtain un where un: "t \<noteq> []" "ParseUint_loop s 0 t = Ok un"
      "n = (if c = CHR ''-'' then - int un else int un)"
    by (auto simp: strconv_ParseInt_def Let_def t_def simp del: ParseUint_loop.simps split: if_splits)
  then have "list_all is_digit t \<and> un = digits_value 0 t"
    by (simp add: ParseUint_loop_Ok_iff)
  with un split show ?thesis by metis
qed

lemma ParseInt_nondigit: "c \<in> set s \<Longrightarrow> \<not> is_digit c \<Longrightarrow> c \<noteq> CHR ''+'' \<Longrightarrow> c \<noteq> CHR ''-'' \<Longrightarrow>
   \<exists>e. strconv_ParseInt s = Err e"
proof -
  assume c: "c \<in> set s" "\<not> is_digit c" "c \<noteq> CHR ''+''" "c \<noteq> CHR ''-''"
  have "strconv_ParseInt s \<noteq> Ok n" for n
    using c by (auto dest!: ParseInt_Ok_shape simp: list_all_iff)
  moreover have "no_panic (strconv_ParseInt s)" by simp
  ultimately show ?thesis by (cases "strconv_ParseInt s") auto
qed

section \<open>Formatted numbers\<close>

lemma digit_char_is_digit [simp]: "d < 10 \<Longrightarrow> is_digit (digit_char d)"
  by (simp add: is_digit_def digit_char_def)

lemma digit_val_char [simp]: "d < 10 \<Longrightarrow> digit_val (digit_char d) = d"
  by (simp add: digit_val_def digit_char_def)

lemma FormatUint_not_Nil [simp]: "FormatUint n \<noteq> []"
  by (subst FormatUint.simps) simp

lemma FormatUint_digits [simp]: "list_all is_digit (FormatUint n)"
proof (induction n rule: FormatUint.induct)
  case (1 n)
  then show ?case by (subst FormatUint.simps) auto
qed

lemma FormatUint_value [simp]: "digits_value 0 (FormatUint n) = n"
proof (induction n rule: FormatUint.induct)
  case (1 n)
  then show ?case by (subst FormatUint.simps) auto
qed

lemma is_digit_graphic: "is_digit c \<Longrightarrow> graphic c"
  by (simp add: is_digit_def graphic_def)

lemma FormatUint_plain [simp]: "plain (FormatUint n)"
  using FormatUint_digits [of n] by (auto simp: plain_def list_all_iff is_digit_graphic)

lemma FormatInt_plain [simp]: "plain (strconv_FormatInt n)"
  using FormatUint_plain [of "nat (- n)"] FormatUint_plain [of "nat n"]
  by (auto simp: strconv_FormatInt_def plain_def graphic_def)

lemma FormatUint_set: "c \<in> set (FormatUint n) \<Longrightarrow> is_digit c"
  using FormatUint_digits [of n] by (auto simp: list_all_iff)

lemma FormatInt_set: "c \<in> set (strconv_FormatInt n) \<Longrightarrow> is_digit c \<or> c = CHR ''-''"
  by (auto simp: strconv_FormatInt_def dest: FormatUint_set split: if_splits)

lemma FormatUint_length: "n < 10 ^ k \<Longrightarrow> 0 < k \<Longrightarrow> length (FormatUint n) \<le> k"
proof (induction n arbitrary: k rule: FormatUint.induct)
  case (1 n)
  show ?case
  proof (cases "n < 10")
    case True
    with 1 show ?thesis by (subst FormatUint.simps) simp
  next
    case False
    with 1(2) obtain k' where k: "k = Suc k'" "0 < k'" by (cases k; cases "k - 1") auto
    with 1(2) have "n div 10 < 10 ^ k'" by (simp add: less_mult_imp_div_less mult.commute)
    with 1(1) [of k'] False k show ?thesis by (subst FormatUint.simps) simp
  qed
qed

lemma FormatInt_length: "in_int64 n \<Longrightarrow> length (strconv_FormatInt n) \<le> 20"
proof -
  assume n: "in_int64 n"
  then have "nat n < 10 ^ 19" "nat (- n) < 10 ^ 19" by (auto simp: int64_defs)
  then show ?thesis
    using FormatUint_length [of "nat n" 19] FormatUint_length [of "nat (- n)" 19]
    by (simp add: strconv_FormatInt_def)
qed

lemma ParseInt_FormatUint [simp]: "n < 2 ^ 63 \<Longrightarrow> strconv_ParseInt (FormatUint n) = Ok (int n)"
  using ParseInt_digits [of "FormatUint n"] by simp

lemma ParseInt_FormatInt [simp]: "in_int64 n \<Longrightarrow> strconv_ParseInt (strconv_FormatInt n) = Ok n"
proof (cases "n < 0")
  case True
  assume "in_int64 n"
  with True ParseInt_minus_digits [of "FormatUint (nat (- n))"] show ?thesis
    by (simp add: strconv_FormatInt_def int64_defs)
next
  case False
  assume "in_int64 n"
  with False ParseInt_FormatUint [of "nat n"] show ?thesis
    by (simp add: strconv_FormatInt_def int64_defs)
qed

section \<open>The contract of integers as text\<close>

text \<open>
  A printer and a reader of integers that agree on a range. The client uses it wherever one
  component prints a number and another reads it back (job ids on a command line, bounds in
  a node affinity, the fields of a duration).
\<close>

locale int_text =
  fixes fmt :: "int \<Rightarrow> string"
    and parse :: "string \<Rightarrow> int go"
    and ok :: "int \<Rightarrow> bool"
  assumes parse_fmt: "ok n \<Longrightarrow> parse (fmt n) = Ok n"
    and fmt_plain: "plain (fmt n)"
begin

lemma fmt_inj: "ok m \<Longrightarrow> ok n \<Longrightarrow> fmt m = fmt n \<Longrightarrow> m = n"
  by (metis go.inject(1) parse_fmt)

lemma parse_trimmed: "ok n \<Longrightarrow> parse (strings_TrimSpace (fmt n)) = Ok n"
  by (simp add: parse_fmt fmt_plain go_string_laws)

lemma parse_fields: "list_all ok ns \<Longrightarrow>
    go_each parse (strings_Fields (strings_Join [CHR '' ''] (map fmt ns))) = Ok ns"
proof -
  assume "list_all ok ns"
  moreover have "list_all plain (map fmt ns)" by (simp add: list_all_iff fmt_plain)
  ultimately show ?thesis
    by (simp add: Fields_Join ascii_spaces_def go_each_map go_each_Ok_iff list_all2_same
        list_all_iff parse_fmt)
qed

end

interpretation int64_text: int_text strconv_FormatInt strconv_ParseInt in_int64
  by unfold_locales simp_all

end
