(* ===== verification/Affinity.thy ===== *)
theory Affinity
  imports Go_Numbers
begin

text \<open>
  \<open>pkg/operator/controller/affinity.go\<close>: the resources a job asks for and the node affinity
  they become. What a node affinity means is the vendored \<open>labels.Requirement.Matches\<close>,
  which the scheduler evaluates on the labels of a node; the main lemma says that a node
  matches exactly when each of its labels is at least the amount asked for.
\<close>

record resources =
  r_Nodes :: int64
  r_MemPerNode :: int64
  r_CPUPerNode :: int64
  r_WallTime :: duration

definition no_resources :: resources where
  "no_resources = \<lparr>r_Nodes = 0, r_MemPerNode = 0, r_CPUPerNode = 0, r_WallTime = 0\<rparr>"

definition resources_in_range :: "resources \<Rightarrow> bool" where
  "resources_in_range r \<longleftrightarrow>
     in_int64 (r_Nodes r) \<and> in_int64 (r_MemPerNode r) \<and> in_int64 (r_CPUPerNode r) \<and> in_int64 (r_WallTime r)"

record requirement =
  rq_Key :: string
  rq_Operator :: string
  rq_Values :: "string list"

text \<open>\<open>RequiredDuringSchedulingIgnoredDuringExecution.NodeSelectorTerms\<close>\<close>

record affinity =
  aff_NodeSelectorTerms :: "requirement list list"

record toleration =
  tol_Key :: string
  tol_Operator :: string
  tol_Value :: string
  tol_Effect :: string

definition DefaultNodeSelectors :: "string \<rightharpoonup> string" where
  "DefaultNodeSelectors = [''type'' \<mapsto> ''virtual-kubelet'']"

definition DefaultTolerations :: "toleration list" where
  "DefaultTolerations = [\<lparr>tol_Key = ''virtual-kubelet.io/provider'', tol_Operator = ''Equal'',
     tol_Value = ''wlm'', tol_Effect = ''NoSchedule''\<rparr>]"

text \<open>\<open>{Key: key, Operator: "Gt", Values: []string{strconv.FormatInt(n-1, 10)}}\<close>\<close>

definition at_least :: "string \<Rightarrow> int64 \<Rightarrow> requirement" where
  "at_least key n = \<lparr>rq_Key = key, rq_Operator = ''Gt'', rq_Values = [strconv_FormatInt (add64 n (-1))]\<rparr>"

definition nodes_key :: string where "nodes_key = ''wlm.sylabs.io/nodes''"
definition wall_key :: string where "wall_key = ''wlm.sylabs.io/wall-time''"
definition mem_key :: string where "mem_key = ''wlm.sylabs.io/mem-per-node''"
definition cpu_key :: string where "cpu_key = ''wlm.sylabs.io/cpu-per-node''"

definition node_match :: "resources \<Rightarrow> requirement list" where
  "node_match r =
     (if r_Nodes r \<noteq> 0 then [at_least nodes_key (r_Nodes r)] else []) @
     (if r_WallTime r \<noteq> 0 then [at_least wall_key (tdiv (r_WallTime r) time_Second)] else []) @
     (if r_MemPerNode r \<noteq> 0 then [at_least mem_key (r_MemPerNode r)] else []) @
     (if r_CPUPerNode r \<noteq> 0 then [at_least cpu_key (r_CPUPerNode r)] else [])"

definition AffinityForResources :: "resources \<Rightarrow> affinity go" where
  "AffinityForResources r =
     (if node_match r = [] then Err Controller_ErrAffinityIsNotRequired
      else Ok \<lparr>aff_NodeSelectorTerms = [node_match r]\<rparr>)"

section \<open>What an affinity means\<close>

text \<open>
  \<open>labels.Requirement.Matches\<close> on a node's labels (the operators as the node selector API
  spells them).
\<close>

definition Requirement_Matches :: "requirement \<Rightarrow> (string \<rightharpoonup> string) \<Rightarrow> bool" where
  "Requirement_Matches r ls =
     (if rq_Operator r = ''In'' then
        (case ls (rq_Key r) of None \<Rightarrow> False | Some v \<Rightarrow> v \<in> set (rq_Values r))
      else if rq_Operator r = ''NotIn'' then
        (case ls (rq_Key r) of None \<Rightarrow> True | Some v \<Rightarrow> v \<notin> set (rq_Values r))
      else if rq_Operator r = ''Exists'' then ls (rq_Key r) \<noteq> None
      else if rq_Operator r = ''DoesNotExist'' then ls (rq_Key r) = None
      else if rq_Operator r = ''Gt'' \<or> rq_Operator r = ''Lt'' then
        (case ls (rq_Key r) of
           None \<Rightarrow> False
         | Some v \<Rightarrow>
             (case strconv_ParseInt v of
                Ok lsValue \<Rightarrow>
                  (case rq_Values r of
                     [s] \<Rightarrow>
                       (case strconv_ParseInt s of
                          Ok rValue \<Rightarrow>
                            (rq_Operator r = ''Gt'' \<and> lsValue > rValue) \<or>
                            (rq_Operator r = ''Lt'' \<and> lsValue < rValue)
                        | _ \<Rightarrow> False)
                   | _ \<Rightarrow> False)
              | _ \<Rightarrow> False))
      else False)"

text \<open>Terms are alternatives, the expressions of a term must all hold.\<close>

definition affinity_matches :: "affinity \<Rightarrow> (string \<rightharpoonup> string) \<Rightarrow> bool" where
  "affinity_matches a ls \<longleftrightarrow>
     list_ex (list_all (\<lambda>r. Requirement_Matches r ls)) (aff_NodeSelectorTerms a)"

section \<open>Lemmas\<close>

text \<open>A label that is an integer of at least \<open>n\<close>.\<close>

definition label_at_least :: "(string \<rightharpoonup> string) \<Rightarrow> string \<Rightarrow> int \<Rightarrow> bool" where
  "label_at_least ls key n =
     (case ls key of None \<Rightarrow> False | Some v \<Rightarrow> (case strconv_ParseInt v of Ok m \<Rightarrow> n \<le> m | _ \<Rightarrow> False))"

lemma at_least_matches:
  assumes "in_int64 n" "n \<noteq> min_int64"
  shows "Requirement_Matches (at_least key n) ls = label_at_least ls key n"
proof -
  from assms have "in_int64 (n - 1)" by (simp add: int64_defs)
  then have "add64 n (-1) = n - 1" and "strconv_ParseInt (strconv_FormatInt (n - 1)) = Ok (n - 1)"
    using int64_text.parse_fmt [of "n - 1"] by (simp_all add: add64_def)
  then show ?thesis
    by (auto simp: Requirement_Matches_def at_least_def label_at_least_def split: option.splits go.splits)
qed

text \<open>The smallest int64 wraps: the requirement becomes one no label satisfies.\<close>

lemma at_least_min: "\<not> Requirement_Matches (at_least key min_int64) ls"
proof -
  have "add64 min_int64 (-1) = max_int64" by (simp add: int64_defs)
  moreover have "strconv_ParseInt (strconv_FormatInt max_int64) = Ok max_int64"
    by (rule int64_text.parse_fmt) (simp add: int64_defs)
  ultimately show ?thesis
    by (auto simp: Requirement_Matches_def at_least_def int64_defs split: option.splits go.splits
        dest: ParseInt_range)
qed

lemma tdiv_Second_range: "in_int64 d \<Longrightarrow> in_int64 (tdiv d time_Second) \<and> tdiv d time_Second \<noteq> min_int64"
proof (cases "0 \<le> d")
  case True
  assume "in_int64 d"
  moreover have "d div 1000000000 \<le> d" "0 \<le> d div 1000000000"
    using True by (auto intro: div_le_dividend simp: div_le_dividend)
  ultimately show ?thesis using True by (simp add: tdiv_nonneg time_units int64_defs)
next
  case False
  assume "in_int64 d"
  moreover have "(- d) div 1000000000 \<le> (2 ^ 63) div 1000000000"
    using \<open>in_int64 d\<close> by (intro zdiv_mono1) (simp_all add: int64_defs)
  moreover have "0 \<le> (- d) div 1000000000" using False by (simp add: pos_imp_zdiv_nonneg_iff)
  ultimately show ?thesis using False by (simp add: tdiv_neg time_units int64_defs)
qed

definition meets :: "(string \<rightharpoonup> string) \<Rightarrow> resources \<Rightarrow> bool" where
  "meets ls r \<longleftrightarrow>
     (r_Nodes r = 0 \<or> label_at_least ls nodes_key (r_Nodes r)) \<and>
     (r_WallTime r = 0 \<or> label_at_least ls wall_key (tdiv (r_WallTime r) time_Second)) \<and>
     (r_MemPerNode r = 0 \<or> label_at_least ls mem_key (r_MemPerNode r)) \<and>
     (r_CPUPerNode r = 0 \<or> label_at_least ls cpu_key (r_CPUPerNode r))"

definition no_min :: "resources \<Rightarrow> bool" where
  "no_min r \<longleftrightarrow> r_Nodes r \<noteq> min_int64 \<and> r_MemPerNode r \<noteq> min_int64 \<and> r_CPUPerNode r \<noteq> min_int64"

lemma node_match_meets:
  assumes "resources_in_range r" "no_min r"
  shows "list_all (\<lambda>q. Requirement_Matches q ls) (node_match r) = meets ls r"
  using assms tdiv_Second_range [of "r_WallTime r"]
  by (auto simp: node_match_def meets_def resources_in_range_def no_min_def at_least_matches)

lemma node_match_Nil: "node_match r = [] \<longleftrightarrow> r = no_resources"
  by (cases r) (auto simp: node_match_def no_resources_def)

lemma AffinityForResources_none: "AffinityForResources r = Err e \<longleftrightarrow>
    r = no_resources \<and> e = Controller_ErrAffinityIsNotRequired"
  by (auto simp: AffinityForResources_def node_match_Nil)

lemma AffinityForResources_no_panic [simp]: "no_panic (AffinityForResources r)"
  by (simp add: AffinityForResources_def)

lemma AffinityForResources_matches:
  assumes "resources_in_range r" "no_min r" "AffinityForResources r = Ok a"
  shows "affinity_matches a ls = meets ls r"
  using assms node_match_meets [of r ls]
  by (auto simp: AffinityForResources_def affinity_matches_def split: if_splits)

section \<open>Properties\<close>

text \<open>
  C16. A node matches the affinity formed for a job exactly when, for every resource the
  job asks for, the label of the node parses as an integer of at least that amount (the
  wall time in whole seconds); a job that asks for nothing gets no affinity.
\<close>

theorem AffinityForResources_sound:
  assumes "resources_in_range r" "no_min r" "r \<noteq> no_resources"
  shows "\<exists>a. AffinityForResources r = Ok a \<and> (\<forall>ls. affinity_matches a ls = meets ls r)"
proof -
  from assms(3) obtain a where "AffinityForResources r = Ok a"
    by (auto simp: AffinityForResources_def node_match_Nil)
  with AffinityForResources_matches [OF assms(1,2)] show ?thesis by blast
qed

theorem AffinityForResources_sound_witness:
  "\<exists>a. AffinityForResources (no_resources\<lparr>r_Nodes := 2\<rparr>) = Ok a \<and>
     affinity_matches a [nodes_key \<mapsto> ''4''] \<and> \<not> affinity_matches a [nodes_key \<mapsto> ''1'']"
proof -
  have nums: "strconv_ParseInt ''4'' = Ok 4" "strconv_ParseInt ''1'' = Ok 1"
    by (simp_all add: strconv_ParseInt_def is_digit_def digit_val_def)
  have "\<exists>a. AffinityForResources (no_resources\<lparr>r_Nodes := 2\<rparr>) = Ok a \<and>
      (\<forall>ls. affinity_matches a ls = meets ls (no_resources\<lparr>r_Nodes := 2\<rparr>))"
    by (rule AffinityForResources_sound)
      (simp_all add: no_resources_def resources_in_range_def no_min_def int64_defs)
  then show ?thesis
    by (auto simp: meets_def no_resources_def label_at_least_def nums)
qed

end
