(* ===== verification/Go_Time.thy ===== *)
theory Go_Time
  imports Go_Numbers "HOL-Library.Monad_Syntax"
begin

text \<open>
  Package \<open>time\<close> as the program uses it: \<open>time.Parse\<close> with slurm's layout
  \<open>2006-01-02T15:04:05\<close> (as of Go 1.13, the version the repository is built with), the
  calendar behind it, \<open>Unix\<close>, and \<open>int64(d.Seconds())\<close> with the two roundings of its
  float64 arithmetic. The results are a round trip between printing and parsing a
  calendar time, the exact range of \<open>Unix\<close> for each year, and the exactness of
  \<open>int64(d.Seconds())\<close> on whole seconds.
\<close>

section \<open>The calendar\<close>

record civil =
  c_year :: nat
  c_month :: nat
  c_day :: nat
  c_hour :: nat
  c_min :: nat
  c_sec :: nat
  c_nsec :: nat

text \<open>A \<open>time.Time\<close> in UTC: what \<open>Unix()\<close> and \<open>Nanosecond()\<close> return.\<close>

record go_time =
  time_Unix :: int64
  time_Nanosecond :: int

definition isLeap :: "nat \<Rightarrow> bool" where
  "isLeap y \<longleftrightarrow> y mod 4 = 0 \<and> (y mod 100 \<noteq> 0 \<or> y mod 400 = 0)"

definition month_days :: "nat list" where
  "month_days = [31, 28, 31, 30, 31, 30, 31, 31, 30, 31, 30, 31]"

definition daysIn :: "nat \<Rightarrow> nat \<Rightarrow> nat" where
  "daysIn m y = (if m = 2 \<and> isLeap y then 29 else month_days ! (m - 1))"

text \<open>Days from 0001-01-01 to the first of January of a year; negative for year 0.\<close>

definition days_before_year :: "nat \<Rightarrow> int" where
  "days_before_year y = (let n = int y - 1 in 365 * n + n div 4 - n div 100 + n div 400)"

definition days_before_month :: "nat \<Rightarrow> nat \<Rightarrow> nat" where
  "days_before_month y m = sum_list (take (m - 1) month_days) + (if isLeap y \<and> 3 \<le> m then 1 else 0)"

definition civil_Unix :: "civil \<Rightarrow> int64" where
  "civil_Unix c =
     -62135596800 +
     86400 * (days_before_year (c_year c) + int (days_before_month (c_year c) (c_month c)) + int (c_day c) - 1) +
     3600 * int (c_hour c) + 60 * int (c_min c) + int (c_sec c)"

definition valid_civil :: "civil \<Rightarrow> bool" where
  "valid_civil c \<longleftrightarrow>
     c_year c \<le> 9999 \<and> 1 \<le> c_month c \<and> c_month c \<le> 12 \<and> 1 \<le> c_day c \<and>
     c_day c \<le> daysIn (c_month c) (c_year c) \<and> c_hour c < 24 \<and> c_min c < 60 \<and>
     c_sec c < 60 \<and> c_nsec c < 1000000000"

definition civil_time :: "civil \<Rightarrow> go_time" where
  "civil_time c = \<lparr>time_Unix = civil_Unix c, time_Nanosecond = int (c_nsec c)\<rparr>"

section \<open>Parsing\<close>

text \<open>\<open>getnum\<close>: two digits, or one when the layout element is not fixed width.\<close>

fun getnum :: "bool \<Rightarrow> string \<Rightarrow> (nat \<times> string) option" where
  "getnum fixed [] = None"
| "getnum fixed [c] = (if is_digit c \<and> \<not> fixed then Some (digit_val c, []) else None)"
| "getnum fixed (c # d # cs) =
     (if \<not> is_digit c then None
      else if is_digit d then Some (10 * digit_val c + digit_val d, cs)
      else if fixed then None else Some (digit_val c, d # cs))"

definition get_year :: "string \<Rightarrow> (nat \<times> string) option" where
  "get_year s =
     (if length s < 4 \<or> \<not> list_all is_digit (take 4 s) then None
      else Some (digits_value 0 (take 4 s), drop 4 s))"

fun skip_byte :: "char \<Rightarrow> string \<Rightarrow> string option" where
  "skip_byte p [] = None"
| "skip_byte p (c # cs) = (if c = p then Some cs else None)"

text \<open>Fractional seconds are accepted after the seconds although the layout has none.\<close>

definition get_frac :: "string \<Rightarrow> (nat \<times> string) option" where
  "get_frac v =
     (if length v \<ge> 2 \<and> v ! 0 = CHR ''.'' \<and> is_digit (v ! 1)
      then (let ds = takeWhile is_digit (tl v); ns = digits_value 0 ds
            in if ns \<ge> 1000000000 then None
               else Some (ns * 10 ^ (9 - length ds), dropWhile is_digit (tl v)))
      else Some (0, v))"

definition parse_civil :: "string \<Rightarrow> civil option" where
  "parse_civil s = do {
     (year, s) \<leftarrow> get_year s;
     s \<leftarrow> skip_byte CHR ''-'' s;
     (month, s) \<leftarrow> getnum True s;
     (if month = 0 \<or> 12 < month then None else Some ());
     s \<leftarrow> skip_byte CHR ''-'' s;
     (day, s) \<leftarrow> getnum True s;
     s \<leftarrow> skip_byte CHR ''T'' s;
     (hour, s) \<leftarrow> getnum False s;
     (if 24 \<le> hour then None else Some ());
     s \<leftarrow> skip_byte CHR '':'' s;
     (mi, s) \<leftarrow> getnum True s;
     (if 60 \<le> mi then None else Some ());
     s \<leftarrow> skip_byte CHR '':'' s;
     (sec, s) \<leftarrow> getnum True s;
     (if 60 \<le> sec then None else Some ());
     (ns, s) \<leftarrow> get_frac s;
     (if s \<noteq> [] then None else Some ());
     (if day < 1 \<or> day > daysIn month year then None else Some ());
     Some \<lparr>c_year = year, c_month = month, c_day = day, c_hour = hour, c_min = mi,
           c_sec = sec, c_nsec = ns\<rparr>
   }"

text \<open>\<open>time.Parse("2006-01-02T15:04:05", s)\<close>\<close>

definition time_Parse :: "string \<Rightarrow> go_time go" where
  "time_Parse s = (case parse_civil s of None \<Rightarrow> Err (TimeParseError s) | Some c \<Rightarrow> Ok (civil_time c))"

lemma time_Parse_no_panic [simp]: "no_panic (time_Parse s)"
  by (simp add: time_Parse_def split: option.splits)

section \<open>Printing and the round trip\<close>

definition pad2 :: "nat \<Rightarrow> string" where
  "pad2 n = [digit_char (n div 10), digit_char (n mod 10)]"

definition pad4 :: "nat \<Rightarrow> string" where
  "pad4 n = pad2 (n div 100) @ pad2 (n mod 100)"

text \<open>How slurm prints a time: the layout, without a fraction.\<close>

definition slurm_time :: "civil \<Rightarrow> string" where
  "slurm_time c =
     pad4 (c_year c) @ ''-'' @ pad2 (c_month c) @ ''-'' @ pad2 (c_day c) @ ''T'' @
     pad2 (c_hour c) @ '':'' @ pad2 (c_min c) @ '':'' @ pad2 (c_sec c)"

lemma getnum_pad2 [simp]: "n < 100 \<Longrightarrow> getnum f (pad2 n @ s) = Some (n, s)"
  by (simp add: pad2_def)

lemma getnum_pad2_end [simp]: "n < 100 \<Longrightarrow> getnum f (pad2 n) = Some (n, [])"
  using getnum_pad2 [of n f "[]"] by simp

lemma pad2_value: "n < 100 \<Longrightarrow> digits_value m (pad2 n) = 100 * m + n"
  by (simp add: pad2_def)

lemma pad4_value: "n < 10000 \<Longrightarrow> digits_value 0 (pad4 n) = n"
  by (simp add: pad4_def pad2_value)

lemma pad4_digits: "n < 10000 \<Longrightarrow> list_all is_digit (pad4 n)"
  by (auto simp: pad4_def pad2_def)

lemma pad4_length: "length (pad4 n) = 4"
  by (simp add: pad4_def pad2_def)

lemma get_year_pad4 [simp]: "n < 10000 \<Longrightarrow> get_year (pad4 n @ s) = Some (n, s)"
  using pad4_value [of n] pad4_digits [of n] by (simp add: get_year_def pad4_length)

lemma get_frac_Nil [simp]: "get_frac [] = Some (0, [])"
  by (simp add: get_frac_def)

lemma daysIn_le_31: "1 \<le> m \<Longrightarrow> m \<le> 12 \<Longrightarrow> daysIn m y \<le> 31"
proof -
  assume "1 \<le> m" "m \<le> 12"
  then have "month_days ! (m - 1) \<in> set month_days"
    by (intro nth_mem) (simp add: month_days_def)
  then have "month_days ! (m - 1) \<le> 31" by (auto simp: month_days_def)
  then show ?thesis by (simp add: daysIn_def)
qed

lemma parse_civil_slurm_time:
  "valid_civil c \<Longrightarrow> c_nsec c = 0 \<Longrightarrow> parse_civil (slurm_time c) = Some c"
proof -
  assume c: "valid_civil c" "c_nsec c = 0"
  then have "c_day c \<le> 31"
    using daysIn_le_31 [of "c_month c" "c_year c"] by (simp add: valid_civil_def)
  with c show ?thesis
    by (cases c) (simp add: parse_civil_def slurm_time_def valid_civil_def)
qed

lemma time_Parse_slurm_time:
  "valid_civil c \<Longrightarrow> c_nsec c = 0 \<Longrightarrow> time_Parse (slurm_time c) = Ok (civil_time c)"
  by (simp add: time_Parse_def parse_civil_slurm_time)

lemma getnum_bound: "getnum f s = Some (n, t) \<Longrightarrow> n < 100"
  by (induction f s rule: getnum.induct) (auto simp: digit_val_def is_digit_def split: if_splits)

lemma digits_value_bound: "list_all is_digit cs \<Longrightarrow> digits_value n cs < (n + 1) * 10 ^ length cs"
proof (induction cs arbitrary: n)
  case Nil
  then show ?case by simp
next
  case (Cons c cs)
  then have "digits_value (10 * n + digit_val c) cs < (10 * n + digit_val c + 1) * 10 ^ length cs"
    by simp
  also have "\<dots> \<le> (10 * n + 10) * 10 ^ length cs"
    using Cons.prems by (intro mult_le_mono) (auto simp: is_digit_def digit_val_def)
  finally show ?case by (simp add: algebra_simps)
qed

lemma get_frac_bound:
  assumes "get_frac v = Some (ns, t)"
  shows "ns < 1000000000"
proof (cases "length v \<ge> 2 \<and> v ! 0 = CHR ''.'' \<and> is_digit (v ! 1)")
  case True
  define ds where "ds = takeWhile is_digit (tl v)"
  from True assms have ns: "digits_value 0 ds < 1000000000" "ns = digits_value 0 ds * 10 ^ (9 - length ds)"
    by (auto simp: get_frac_def Let_def ds_def split: if_splits)
  have "list_all is_digit ds" by (auto simp: ds_def list_all_iff dest: set_takeWhileD)
  then have bd: "digits_value 0 ds < 10 ^ length ds" using digits_value_bound [of ds 0] by simp
  show ?thesis
  proof (cases "length ds \<le> 9")
    case True
    have "ns < 10 ^ length ds * 10 ^ (9 - length ds)" using bd ns(2) by simp
    also have "\<dots> = (10 :: nat) ^ 9" using True by (simp flip: power_add)
    finally show ?thesis by simp
  next
    case False
    with ns show ?thesis by simp
  qed
next
  case False
  with assms show ?thesis by (auto simp: get_frac_def split: if_splits)
qed

text \<open>Every time that is accepted is a calendar time.\<close>

lemma parse_civil_valid: "parse_civil s = Some c \<Longrightarrow> valid_civil c"
proof -
  assume "parse_civil s = Some c"
  moreover have "digits_value 0 (take 4 t) \<le> 9999" if "list_all is_digit (take 4 t)" for t
  proof -
    have "digits_value 0 (take 4 t) < 10 ^ length (take 4 t)"
      using digits_value_bound [OF that, of 0] by simp
    also have "\<dots> \<le> (10 :: nat) ^ 4" by (rule power_increasing) auto
    finally show ?thesis by simp
  qed
  ultimately show ?thesis
    by (auto simp: parse_civil_def valid_civil_def get_year_def bind_eq_Some_conv not_le not_less
        dest!: get_frac_bound split: if_splits)
qed

section \<open>The range of Unix\<close>

lemma div_step:
  assumes "0 < k"
  shows "int y div k = (int y - 1) div k + (if int y mod k = 0 then 1 else 0)"
proof -
  define q r where "q = int y div k" and "r = int y mod k"
  then have y: "int y = k * q + r" and r: "0 \<le> r" "r < k" using assms by simp_all
  show ?thesis
  proof (cases "r = 0")
    case True
    with y have "int y - 1 = k * (q - 1) + (k - 1)" by (simp add: algebra_simps)
    then have "(int y - 1) div k = q - 1" by (rule int_div_pos_eq) (use assms in auto)
    with True show ?thesis by (simp add: q_def r_def)
  next
    case False
    with y have "int y - 1 = k * q + (r - 1)" by simp
    then have "(int y - 1) div k = q" by (rule int_div_pos_eq) (use False r in auto)
    with False show ?thesis by (simp add: q_def r_def)
  qed
qed

lemma isLeap_int:
  "isLeap y \<longleftrightarrow> int y mod 4 = 0 \<and> (int y mod 100 \<noteq> 0 \<or> int y mod 400 = 0)"
proof -
  have "int y mod 4 = int (y mod 4)" "int y mod 100 = int (y mod 100)" "int y mod 400 = int (y mod 400)"
    by (simp_all add: zmod_int)
  then show ?thesis by (simp only: isLeap_def of_nat_eq_0_iff)
qed

lemma leap_divisors:
  fixes y :: int
  shows "y mod 400 = 0 \<Longrightarrow> y mod 100 = 0" "y mod 100 = 0 \<Longrightarrow> y mod 4 = 0"
  using mod_mod_cancel [of 100 400 y] mod_mod_cancel [of 4 100 y] by simp_all

lemma leap_sum:
  fixes n :: int
  shows "365 * n + (a + i) - (b + j) + (c + k) = 365 * (n - 1) + a - b + c + 365 + i - j + k"
  by simp

lemma days_before_year_Suc:
  "days_before_year (Suc y) = days_before_year y + (if isLeap y then 366 else 365)"
proof -
  have d4: "int y div 4 = (int y - 1) div 4 + (if int y mod 4 = 0 then 1 else 0)"
    and d100: "int y div 100 = (int y - 1) div 100 + (if int y mod 100 = 0 then 1 else 0)"
    and d400: "int y div 400 = (int y - 1) div 400 + (if int y mod 400 = 0 then 1 else 0)"
    by (rule div_step, simp)+
  have "days_before_year (Suc y) = 365 * int y + int y div 4 - int y div 100 + int y div 400"
    by (simp add: days_before_year_def Let_def)
  also have "\<dots> = days_before_year y + 365 + (if int y mod 4 = 0 then 1 else 0) -
      (if int y mod 100 = 0 then 1 else 0) + (if int y mod 400 = 0 then 1 else 0)"
    unfolding days_before_year_def Let_def d4 d100 d400 by (rule leap_sum)
  also have "\<dots> = days_before_year y + (if isLeap y then 366 else 365)"
    using leap_divisors [of "int y"] unfolding isLeap_int
    by (cases "int y mod 400 = 0"; cases "int y mod 100 = 0"; cases "int y mod 4 = 0"; simp only: if_True if_False simp_thms; linarith)
  finally show ?thesis .
qed

lemma days_before_year_mono: "y \<le> z \<Longrightarrow> days_before_year y \<le> days_before_year z"
  by (rule lift_Suc_mono_le [of days_before_year]) (auto simp: days_before_year_Suc)

lemma sum_list_take_le: "sum_list (take n xs) \<le> sum_list (xs :: nat list)"
  by (metis append_take_drop_id le_add1 sum_list_append)

lemma days_before_month_bound:
  assumes "1 \<le> m" "m \<le> 12"
  shows "days_before_month y m + daysIn m y \<le> (if isLeap y then 366 else 365)"
proof -
  have len: "length month_days = 12" and sum: "sum_list month_days = 365"
    by (simp_all add: month_days_def)
  from assms len have "take m month_days = take (m - 1) month_days @ [month_days ! (m - 1)]"
    using take_Suc_conv_app_nth [of "m - 1" month_days] by simp
  with sum sum_list_take_le [of m month_days]
  have *: "sum_list (take (m - 1) month_days) + month_days ! (m - 1) \<le> 365" by simp
  have "month_days ! 1 = 28" by (simp add: month_days_def)
  with * assms show ?thesis by (auto simp: days_before_month_def daysIn_def)
qed

lemma civil_Unix_bounds:
  assumes "valid_civil c"
  shows "-62135596800 + 86400 * days_before_year (c_year c) \<le> civil_Unix c"
    and "civil_Unix c < -62135596800 + 86400 * days_before_year (Suc (c_year c))"
proof -
  from assms have "days_before_month (c_year c) (c_month c) + c_day c \<le> (if isLeap (c_year c) then 366 else 365)"
    using days_before_month_bound [of "c_month c" "c_year c"] by (simp add: valid_civil_def)
  with assms show "civil_Unix c < -62135596800 + 86400 * days_before_year (Suc (c_year c))"
    by (simp add: civil_Unix_def valid_civil_def days_before_year_Suc split: if_splits)
  from assms show "-62135596800 + 86400 * days_before_year (c_year c) \<le> civil_Unix c"
    by (simp add: civil_Unix_def valid_civil_def)
qed

lemma days_before_year_values:
  "days_before_year (Suc 0) = 0" "days_before_year 10000 = 3652059"
  by (simp_all add: days_before_year_def)

lemma civil_Unix_from_year_1:
  assumes "valid_civil c" "1 \<le> c_year c"
  shows "-62135596800 \<le> civil_Unix c" "civil_Unix c < 253402300800"
proof -
  have "0 \<le> days_before_year (c_year c)"
    using days_before_year_mono [of "Suc 0" "c_year c"] assms(2) by (simp add: days_before_year_values)
  with civil_Unix_bounds [OF assms(1)] show "-62135596800 \<le> civil_Unix c" by simp
  have "days_before_year (Suc (c_year c)) \<le> 3652059"
    using days_before_year_mono [of "Suc (c_year c)" 10000] assms(1)
    by (simp add: days_before_year_values valid_civil_def)
  with civil_Unix_bounds [OF assms(1)] show "civil_Unix c < 253402300800" by simp
qed

lemma civil_Unix_year_0: "valid_civil c \<Longrightarrow> c_year c = 0 \<Longrightarrow> civil_Unix c < -62135596800"
  using civil_Unix_bounds(2) [of c] by (simp add: days_before_year_values)

section \<open>\<open>int64(d.Seconds())\<close>\<close>

text \<open>
  \<open>Seconds\<close> returns \<open>float64(sec) + float64(nsec)/1e9\<close>, and the conversion to \<open>int64\<close>
  truncates. Both float operations round to 53 significant bits, ties to even. A positive
  rational \<open>a/b\<close> is rounded by scaling it into \<open>[2^52, 2^53)\<close> and rounding to an integer;
  the result is kept as a fraction. Signs are symmetric, so the magnitude is computed.
\<close>

definition round_half_even :: "nat \<Rightarrow> nat \<Rightarrow> nat" where
  "round_half_even a b =
     (let q = a div b; r = a mod b
      in if 2 * r < b then q else if 2 * r > b then q + 1 else if even q then q else q + 1)"

text \<open>\<open>log2_quot a b\<close> is the largest \<open>k\<close> with \<open>2^k \<le> a/b\<close>, for \<open>a \<ge> b > 0\<close>.\<close>

function log2_quot :: "nat \<Rightarrow> nat \<Rightarrow> nat" where
  "log2_quot a b = (if 0 < b \<and> 2 * b \<le> a then Suc (log2_quot a (2 * b)) else 0)"
  by pat_completeness auto
termination
  by (relation "measure (\<lambda>(a, b). a - b)") auto

declare log2_quot.simps [simp del]

text \<open>The least \<open>k\<close> with \<open>2^k a \<ge> b\<close>, for \<open>a > 0\<close>.\<close>

function log2_deficit :: "nat \<Rightarrow> nat \<Rightarrow> nat" where
  "log2_deficit a b = (if 0 < a \<and> a < b then Suc (log2_deficit (2 * a) b) else 0)"
  by pat_completeness auto
termination
  by (relation "measure (\<lambda>(a, b). b - a)") auto

declare log2_deficit.simps [simp del]

definition f64_round :: "nat \<Rightarrow> nat \<Rightarrow> nat \<times> nat" where
  "f64_round a b =
     (if a = 0 then (0, 1)
      else if b \<le> a
      then (let k = log2_quot a b
            in if k \<le> 52 then (round_half_even (a * 2 ^ (52 - k)) b, 2 ^ (52 - k))
               else (round_half_even a (b * 2 ^ (k - 52)) * 2 ^ (k - 52), 1))
      else (let k = 52 + log2_deficit a b in (round_half_even (a * 2 ^ k) b, 2 ^ k)))"

definition Seconds_int64 :: "duration \<Rightarrow> int64" where
  "Seconds_int64 d =
     (let sec = nat \<bar>d\<bar> div 1000000000; nsec = nat \<bar>d\<bar> mod 1000000000;
          (m, s) = f64_round nsec 1000000000;
          (a, b) = f64_round (sec * s + m) s
      in sgn d * int (a div b))"

lemma round_half_even_exact [simp]: "0 < b \<Longrightarrow> round_half_even (q * b) b = q"
  by (simp add: round_half_even_def)

lemma log2_quot_bound: "0 < b \<Longrightarrow> b \<le> a \<Longrightarrow> 2 ^ log2_quot a b * b \<le> a"
proof (induction a b rule: log2_quot.induct)
  case (1 a b)
  show ?case
  proof (cases "2 * b \<le> a")
    case True
    with 1 have "2 ^ log2_quot a (2 * b) * (2 * b) \<le> a" by simp
    with True 1 show ?thesis by (subst log2_quot.simps) (simp add: algebra_simps)
  next
    case False
    with 1 show ?thesis by (subst log2_quot.simps) simp
  qed
qed

text \<open>A whole number below \<open>2^53\<close> is a float.\<close>

lemma f64_round_nat: "0 < n \<Longrightarrow> n < 2 ^ 53 \<Longrightarrow> \<exists>s. 0 < s \<and> f64_round n 1 = (n * s, s)"
proof -
  assume n: "0 < n" "n < 2 ^ 53"
  then have "2 ^ log2_quot n 1 \<le> n" using log2_quot_bound [of 1 n] by simp
  with n have "(2 :: nat) ^ log2_quot n 1 < 2 ^ 53" by linarith
  then have "log2_quot n 1 < 53" by (rule power_less_imp_less_exp [rotated]) simp
  with n show ?thesis
    using round_half_even_exact [of 1 "n * 2 ^ (52 - log2_quot n 1)"]
    by (simp add: f64_round_def Let_def)
qed

lemma Seconds_int64_whole:
  assumes "\<bar>k\<bar> < 2 ^ 53"
  shows "Seconds_int64 (k * 1000000000) = k"
proof (cases "k = 0")
  case True
  then show ?thesis by (simp add: Seconds_int64_def)
next
  case False
  define n where "n = nat \<bar>k\<bar>"
  with False assms have n: "0 < n" "n < 2 ^ 53" by auto
  have abs: "nat \<bar>k * 1000000000\<bar> = n * 1000000000" by (simp add: n_def abs_mult nat_mult_distrib)
  obtain s where s: "0 < s" "f64_round n 1 = (n * s, s)" using f64_round_nat [OF n] by blast
  have "Seconds_int64 (k * 1000000000) = sgn (k * 1000000000) * int n"
    using s by (simp add: Seconds_int64_def abs f64_round_def [of 0])
  also have "\<dots> = k" by (simp add: n_def sgn_mult mult_sgn_abs)
  finally show ?thesis .
qed

text \<open>The value slurm's unlimited wall time is kept as, minus one nanosecond, counts as no second.\<close>

lemma log2_deficit_nano: "log2_deficit 1 1000000000 = 30"
  by (simp add: log2_deficit.simps)

lemma f64_round_nano: "f64_round 1 1000000000 = (4835703278458517, 2 ^ 82)"
  using log2_deficit_nano by (simp add: f64_round_def round_half_even_def)

lemma log2_deficit_nano': "log2_deficit 4835703278458517 4835703278458516698824704 = 30"
  by (simp add: log2_deficit.simps)

lemma Seconds_int64_minus_1: "Seconds_int64 (-1) = 0"
proof -
  have "f64_round 4835703278458517 4835703278458516698824704 = (4835703278458517, 2 ^ 82)"
    using log2_deficit_nano' by (simp add: f64_round_def round_half_even_def)
  then show ?thesis by (simp add: Seconds_int64_def f64_round_nano [simplified])
qed

end
