(* ===== verification/Slurm_Duration.thy ===== *)
theory Slurm_Duration
  imports Go_Time
begin

text \<open>
  \<open>ParseDuration\<close> of \<open>pkg/slurm/parse.go\<close>, the parser of slurm's time limits, which both
  the red-box server (scontrol output) and the operator (batch scripts) call. The
  specification side is the six documented formats as a datatype with a printer; the
  parser is shown to accept exactly the printed texts and to return the wrapped sum.
\<close>

definition unlimited :: string where "unlimited = ''UNLIMITED''"

section \<open>The parser\<close>

definition parse_amount :: "string \<Rightarrow> string \<Rightarrow> int64 go" where
  "parse_amount what s = go_wrap (''invalid amount of '' @ what) (strconv_ParseInt s)"

text \<open>The four \<open>d += unit * time.Duration(n)\<close> statements.\<close>

definition duration_sum :: "int64 \<Rightarrow> int64 \<Rightarrow> int64 \<Rightarrow> int64 \<Rightarrow> duration" where
  "duration_sum days hours minutes seconds =
     (let d = 0;
          d = add64 d (mul64 (time_Hour * 24) days);
          d = add64 d (mul64 time_Hour hours);
          d = add64 d (mul64 time_Minute minutes)
      in add64 d (mul64 time_Second seconds))"

text \<open>The amounts read from the parts; \<open>parts\<close> holds at most three texts.\<close>

definition duration_amounts :: "string list \<Rightarrow> (int64 \<times> int64 \<times> int64 \<times> int64) go" where
  "duration_amounts parts =
     (case strings_IndexByte (hd parts) CHR ''-'' of
        Some i \<Rightarrow>
          go_bind (parse_amount ''days'' (take i (hd parts))) (\<lambda>days.
          go_bind (parse_amount ''hours'' (drop (i + 1) (hd parts))) (\<lambda>hours.
          go_bind (if 1 < length parts then parse_amount ''minutes'' (parts ! 1) else Ok 0) (\<lambda>minutes.
          go_bind (if 2 < length parts then parse_amount ''seconds'' (parts ! 2) else Ok 0) (\<lambda>seconds.
          Ok (days, hours, minutes, seconds)))))
      | None \<Rightarrow>
          (case parts of
             [m] \<Rightarrow>
               go_bind (parse_amount ''minutes'' m) (\<lambda>minutes. Ok (0, 0, minutes, 0))
           | [m, s] \<Rightarrow>
               go_bind (parse_amount ''minutes'' m) (\<lambda>minutes.
               go_bind (parse_amount ''seconds'' s) (\<lambda>seconds. Ok (0, 0, minutes, seconds)))
           | [h, m, s] \<Rightarrow>
               go_bind (parse_amount ''hours'' h) (\<lambda>hours.
               go_bind (parse_amount ''minutes'' m) (\<lambda>minutes.
               go_bind (parse_amount ''seconds'' s) (\<lambda>seconds. Ok (0, hours, minutes, seconds))))
           | _ \<Rightarrow> Ok (0, 0, 0, 0)))"

definition ParseDuration :: "string \<Rightarrow> duration go" where
  "ParseDuration duration =
     (if duration = unlimited \<or> duration = [] then Err ErrDurationIsUnlimited
      else
        (let parts = strings_Split CHR '':'' duration
         in if 3 < length parts then Err (ErrorString ''invalid duration format'')
            else go_bind (duration_amounts parts) (\<lambda>(days, hours, minutes, seconds).
                   Ok (duration_sum days hours minutes seconds))))"

section \<open>The documented formats\<close>

text \<open>
  "Possible formats are: minutes, minutes:seconds, hours:minutes:seconds, days-hours,
  days-hours:minutes or days-hours:minutes:seconds". Each amount is kept as its text.
\<close>

datatype duration_text =
    Min string
  | MinSec string string
  | HourMinSec string string string
  | DayHour string string
  | DayHourMin string string string
  | DayHourMinSec string string string string

fun duration_render :: "duration_text \<Rightarrow> string" where
  "duration_render (Min m) = m"
| "duration_render (MinSec m s) = m @ '':'' @ s"
| "duration_render (HourMinSec h m s) = h @ '':'' @ m @ '':'' @ s"
| "duration_render (DayHour d h) = d @ ''-'' @ h"
| "duration_render (DayHourMin d h m) = d @ ''-'' @ h @ '':'' @ m"
| "duration_render (DayHourMinSec d h m s) = d @ ''-'' @ h @ '':'' @ m @ '':'' @ s"

text \<open>The amounts as days, hours, minutes and seconds; an absent one is \<open>0\<close>.\<close>

fun duration_parts :: "duration_text \<Rightarrow> string \<times> string \<times> string \<times> string" where
  "duration_parts (Min m) = (''0'', ''0'', m, ''0'')"
| "duration_parts (MinSec m s) = (''0'', ''0'', m, s)"
| "duration_parts (HourMinSec h m s) = (''0'', h, m, s)"
| "duration_parts (DayHour d h) = (d, h, ''0'', ''0'')"
| "duration_parts (DayHourMin d h m) = (d, h, m, ''0'')"
| "duration_parts (DayHourMinSec d h m s) = (d, h, m, s)"

fun duration_first :: "duration_text \<Rightarrow> string" where
  "duration_first (Min m) = m"
| "duration_first (MinSec m s) = m"
| "duration_first (HourMinSec h m s) = h"
| "duration_first (DayHour d h) = d"
| "duration_first (DayHourMin d h m) = d"
| "duration_first (DayHourMinSec d h m s) = d"

text \<open>
  The amounts of a well-formed text are integers in range, and the first carries no minus
  sign (a dash there would start the days format).
\<close>

definition duration_wf :: "duration_text \<Rightarrow> bool" where
  "duration_wf f =
     (let (d, h, m, s) = duration_parts f
      in is_Ok (strconv_ParseInt d) \<and> is_Ok (strconv_ParseInt h) \<and> is_Ok (strconv_ParseInt m) \<and>
         is_Ok (strconv_ParseInt s) \<and> CHR ''-'' \<notin> set (duration_first f))"

fun amount :: "string \<Rightarrow> int" where
  "amount s = (case strconv_ParseInt s of Ok n \<Rightarrow> n | _ \<Rightarrow> 0)"

text \<open>The mathematical value in nanoseconds.\<close>

definition duration_nanos :: "duration_text \<Rightarrow> int" where
  "duration_nanos f =
     (let (d, h, m, s) = duration_parts f
      in 1000000000 * (86400 * amount d + 3600 * amount h + 60 * amount m + amount s))"

section \<open>Lemmas\<close>

lemma duration_sum_wrap:
  "duration_sum d h m s = wrap64 (1000000000 * (86400 * d + 3600 * h + 60 * m + s))"
proof -
  have "duration_sum d h m s = wrap64 (86400000000000 * d + 3600000000000 * h + 60000000000 * m + 1000000000 * s)"
    by (simp add: duration_sum_def add64_def mul64_def time_units add.assoc)
  also have "86400000000000 * d + 3600000000000 * h + 60000000000 * m + 1000000000 * s =
      1000000000 * (86400 * d + 3600 * h + 60 * m + s)"
    by (simp add: algebra_simps)
  finally show ?thesis .
qed

lemma parse_amount_Ok [simp]: "parse_amount what s = Ok n \<longleftrightarrow> strconv_ParseInt s = Ok n"
  by (simp add: parse_amount_def)

lemma parse_amount_no_panic [simp]: "no_panic (parse_amount what s)"
  by (simp add: parse_amount_def)

lemma duration_amounts_no_panic: "no_panic (duration_amounts parts)"
  by (auto simp: duration_amounts_def split: option.splits list.splits intro!: no_panic_intros)

lemma ParseDuration_no_panic [simp]: "no_panic (ParseDuration s)"
  by (auto simp: ParseDuration_def Let_def split: prod.splits
      intro!: no_panic_intros duration_amounts_no_panic)

lemma ParseDuration_range: "ParseDuration s = Ok d \<Longrightarrow> in_int64 d"
  by (auto simp: ParseDuration_def Let_def duration_sum_wrap split: if_splits)

lemma ParseInt_text_set:
  "strconv_ParseInt s = Ok n \<Longrightarrow> c \<in> set s \<Longrightarrow> is_digit c \<or> c = CHR ''+'' \<or> c = CHR ''-''"
  by (auto dest!: ParseInt_Ok_shape simp: list_all_iff)

lemma ParseInt_text_colon: "strconv_ParseInt s = Ok n \<Longrightarrow> CHR '':'' \<notin> set s"
  by (auto dest: ParseInt_text_set simp: is_digit_def)

lemma ParseInt_text_not_Nil: "strconv_ParseInt s = Ok n \<Longrightarrow> s \<noteq> []"
  by (auto simp: strconv_ParseInt_def)

lemma ParseInt_0 [simp]: "strconv_ParseInt ''0'' = Ok 0"
  by (simp add: strconv_ParseInt_def is_digit_def digit_val_def)

lemma amount_Ok [simp]: "strconv_ParseInt s = Ok n \<Longrightarrow> amount s = n"
  by simp

lemma is_Ok_iff: "is_Ok m \<longleftrightarrow> (\<exists>x. m = Ok x)"
  by (cases m) auto

lemma take_drop_dash:
  "strings_IndexByte p CHR ''-'' = Some i \<Longrightarrow>
   p = take i p @ ''-'' @ drop (i + 1) p \<and> CHR ''-'' \<notin> set (take i p)"
  using IndexByte_Some [of p "CHR ''-''" i] by simp

text \<open>A well-formed text splits into the parts the parser looks at.\<close>

lemma duration_wf_split:
  assumes "duration_wf f"
  shows "length (strings_Split CHR '':'' (duration_render f)) \<le> 3"
    and "duration_amounts (strings_Split CHR '':'' (duration_render f)) =
      (case duration_parts f of (d, h, m, s) \<Rightarrow> Ok (amount d, amount h, amount m, amount s))"
proof -
  from assms obtain d h m s nd nh nm ns where p: "duration_parts f = (d, h, m, s)"
    and n: "strconv_ParseInt d = Ok nd" "strconv_ParseInt h = Ok nh" "strconv_ParseInt m = Ok nm"
      "strconv_ParseInt s = Ok ns"
    and first: "CHR ''-'' \<notin> set (duration_first f)"
    by (auto simp: duration_wf_def is_Ok_iff split: prod.splits)
  note colon = n [THEN ParseInt_text_colon]
  from p first n colon show "length (strings_Split CHR '':'' (duration_render f)) \<le> 3"
    by (cases f) (auto simp: go_string_laws Split_append [of _ "d @ CHR ''-'' # h", simplified])
  from p first n colon show "duration_amounts (strings_Split CHR '':'' (duration_render f)) =
      (case duration_parts f of (d, h, m, s) \<Rightarrow> Ok (amount d, amount h, amount m, amount s))"
    by (cases f) (auto simp: duration_amounts_def parse_amount_def go_string_laws
        Split_append [of _ "d @ CHR ''-'' # h", simplified])
qed

lemma duration_render_first: "\<exists>t. duration_render f = duration_first f @ t"
  by (cases f) auto

lemma duration_wf_first:
  assumes "duration_wf f"
  shows "\<exists>n. strconv_ParseInt (duration_first f) = Ok n"
  using assms by (cases f) (auto simp: duration_wf_def is_Ok_iff)

lemma duration_wf_render:
  assumes "duration_wf f"
  shows "duration_render f \<noteq> unlimited" "duration_render f \<noteq> []"
proof -
  obtain n t where n: "strconv_ParseInt (duration_first f) = Ok n" "duration_render f = duration_first f @ t"
    using duration_wf_first [OF assms] duration_render_first by blast
  then obtain c cs where c: "duration_first f = c # cs" using ParseInt_text_not_Nil by (cases "duration_first f") auto
  with n(2) show "duration_render f \<noteq> []" by simp
  from c n(1) have "c \<noteq> CHR ''U''" using ParseInt_text_set [OF n(1), of c] by (auto simp: is_digit_def)
  with c n(2) show "duration_render f \<noteq> unlimited" by (simp add: unlimited_def)
qed

lemma ParseDuration_render:
  assumes "duration_wf f"
  shows "ParseDuration (duration_render f) = Ok (wrap64 (duration_nanos f))"
  using duration_wf_split [OF assms] duration_wf_render [OF assms]
  by (auto simp: ParseDuration_def duration_sum_wrap duration_nanos_def Let_def split: prod.splits)

text \<open>Conversely, whatever is accepted is one of the formats.\<close>

lemma list_1_2_3:
  assumes "length xs \<le> 3" "xs \<noteq> []"
  obtains a where "xs = [a]" | a b where "xs = [a, b]" | a b c where "xs = [a, b, c]"
  using assms by (cases xs rule: list.exhaust; cases "tl xs"; cases "tl (tl xs)") auto

lemma duration_amounts_complete:
  assumes "duration_amounts parts = Ok (nd, nh, nm, ns)" and "length parts \<le> 3" "parts \<noteq> []"
  shows "\<exists>f. duration_wf f \<and> strings_Join '':'' parts = duration_render f \<and>
    duration_nanos f = 1000000000 * (86400 * nd + 3600 * nh + 60 * nm + ns)"
proof (cases "strings_IndexByte (hd parts) CHR ''-''")
  case None
  then have dash: "CHR ''-'' \<notin> set (hd parts)" by simp
  note am = assms(1) [unfolded duration_amounts_def None]
  from assms(2,3) show ?thesis
  proof (cases rule: list_1_2_3)
    case (1 a)
    with dash am show ?thesis
      by (intro exI [of _ "Min a"]) (auto simp: duration_wf_def duration_nanos_def)
  next
    case (2 a b)
    with dash am show ?thesis
      by (intro exI [of _ "MinSec a b"]) (auto simp: duration_wf_def duration_nanos_def)
  next
    case (3 a b c)
    with dash am show ?thesis
      by (intro exI [of _ "HourMinSec a b c"]) (auto simp: duration_wf_def duration_nanos_def)
  qed
next
  case (Some i)
  define d h where "d = take i (hd parts)" and "h = drop (Suc i) (hd parts)"
  from take_drop_dash [OF Some] have hd: "hd parts = d @ ''-'' @ h" "CHR ''-'' \<notin> set d"
    by (simp_all add: d_def h_def)
  note am = assms(1) [unfolded duration_amounts_def Some]
  from assms(2,3) show ?thesis
  proof (cases rule: list_1_2_3)
    case (1 a)
    with hd am show ?thesis
      by (intro exI [of _ "DayHour d h"])
        (auto simp: duration_wf_def duration_nanos_def d_def h_def)
  next
    case (2 a b)
    with hd am show ?thesis
      by (intro exI [of _ "DayHourMin d h b"])
        (auto simp: duration_wf_def duration_nanos_def d_def h_def)
  next
    case (3 a b c)
    with hd am show ?thesis
      by (intro exI [of _ "DayHourMinSec d h b c"])
        (auto simp: duration_wf_def duration_nanos_def d_def h_def)
  qed
qed

lemma ParseDuration_complete:
  assumes "ParseDuration s = Ok v"
  shows "\<exists>f. duration_wf f \<and> s = duration_render f \<and> v = wrap64 (duration_nanos f)"
proof -
  define parts where "parts = strings_Split CHR '':'' s"
  from assms obtain nd nh nm ns where
    "length parts \<le> 3" "duration_amounts parts = Ok (nd, nh, nm, ns)"
    and v: "v = duration_sum nd nh nm ns"
    by (auto simp: ParseDuration_def Let_def parts_def split: if_splits)
  then obtain f where "duration_wf f" "strings_Join '':'' parts = duration_render f"
    "duration_nanos f = 1000000000 * (86400 * nd + 3600 * nh + 60 * nm + ns)"
    using duration_amounts_complete [of parts nd nh nm ns] by (auto simp: parts_def)
  with v show ?thesis
    using Join_Split [of "CHR '':''" s] by (auto simp: parts_def duration_sum_wrap)
qed

text \<open>The errors of the parser: the sentinel for exactly two texts, never another sentinel.\<close>

lemma duration_amounts_not_unlimited: "duration_amounts parts \<noteq> Err ErrDurationIsUnlimited"
  by (auto simp: duration_amounts_def parse_amount_def go_bind_eq_Err go_wrap_eq_Err
      split: option.splits list.splits if_splits)

lemma ParseDuration_unlimited_iff:
  "ParseDuration s = Err ErrDurationIsUnlimited \<longleftrightarrow> s = unlimited \<or> s = []"
  by (auto simp: ParseDuration_def Let_def go_bind_eq_Err duration_amounts_not_unlimited)

section \<open>Properties\<close>

text \<open>
  C6. \<open>ParseDuration\<close> accepts exactly the six documented formats, with any signed decimal
  amounts in the int64 range (the first without a minus sign), and returns their sum in
  nanoseconds, reduced modulo 2^64 into the int64 range.
\<close>

theorem ParseDuration_accepts:
  "ParseDuration s = Ok v \<longleftrightarrow>
     (\<exists>f. duration_wf f \<and> s = duration_render f \<and> v = wrap64 (duration_nanos f))"
  using ParseDuration_render ParseDuration_complete by blast

text \<open>
  On a text whose value fits in 64 bits of nanoseconds the result of \<open>ParseDuration\<close> is
  the exact mathematical value.
\<close>

theorem ParseDuration_exact:
  assumes "duration_wf f" "in_int64 (duration_nanos f)"
  shows "ParseDuration (duration_render f) = Ok (duration_nanos f)"
  using ParseDuration_render [OF assms(1)] assms(2) by simp

theorem ParseDuration_exact_witness:
  "ParseDuration ''3-5:07:08'' = Ok (1000000000 * (86400 * 3 + 3600 * 5 + 60 * 7 + 8))"
proof -
  define f where "f = DayHourMinSec ''3'' ''5'' ''07'' ''08''"
  have amounts: "strconv_ParseInt ''3'' = Ok 3" "strconv_ParseInt ''5'' = Ok 5"
      "strconv_ParseInt ''07'' = Ok 7" "strconv_ParseInt ''08'' = Ok 8"
    by (simp_all add: strconv_ParseInt_def is_digit_def digit_val_def)
  have "duration_wf f" by (simp add: f_def duration_wf_def amounts)
  moreover have "duration_nanos f = 1000000000 * (86400 * 3 + 3600 * 5 + 60 * 7 + 8)"
    by (simp add: f_def duration_nanos_def amounts)
  moreover have "in_int64 (duration_nanos f)" by (simp add: calculation(2) int64_defs)
  ultimately show ?thesis using ParseDuration_exact [of f] by (simp add: f_def)
qed

text \<open>
  The time limit of 106752 days overflows the nanosecond count: the parser reports no error and
  returns a negative duration.
\<close>

theorem ParseDuration_overflow: "ParseDuration ''106752-0'' = Ok (-9223371273709551616)"
proof -
  have amounts: "strconv_ParseInt ''106752'' = Ok 106752"
    by (simp add: strconv_ParseInt_def is_digit_def digit_val_def)
  have "duration_wf (DayHour ''106752'' ''0'')" by (simp add: duration_wf_def amounts)
  from ParseDuration_render [OF this] show ?thesis
    by (simp add: duration_nanos_def amounts int64_defs)
qed

text \<open>
  \<open>ParseDuration\<close> never panics, and it returns the sentinel \<open>ErrDurationIsUnlimited\<close>,
  which callers treat as "no limit", for the empty text and for UNLIMITED and for nothing
  else.
\<close>

theorem ParseDuration_errors:
  "no_panic (ParseDuration s) \<and>
   (ParseDuration s = Err ErrDurationIsUnlimited \<longleftrightarrow> s = ''UNLIMITED'' \<or> s = [])"
  by (simp add: ParseDuration_unlimited_iff unlimited_def)

end
