(* ===== verification/Batch_Script.thy ===== *)
theory Batch_Script
  imports Affinity Slurm_Duration
begin

text \<open>
  \<open>pkg/operator/controller/slurmjob/parse.go\<close>: the resources a batch script asks for in its
  \<open>#SBATCH\<close> lines. The index-driven loop over the parameters of a line is related to a
  reference that pairs options with values; the reference shows where the loop indexes
  past the end of the parameters.
\<close>

section \<open>The parser\<close>

text \<open>\<open>value[:i]\<close> up to a dash: the minimum of a node range.\<close>

definition min_nodes_text :: "string \<Rightarrow> string" where
  "min_nodes_text v = (case strings_IndexByte v CHR ''-'' of None \<Rightarrow> v | Some i \<Rightarrow> take i v)"

definition multiply_cpus :: "resources \<Rightarrow> int64 \<Rightarrow> resources" where
  "multiply_cpus res n =
     (let res = (if r_CPUPerNode res = 0 then res\<lparr>r_CPUPerNode := 1\<rparr> else res)
      in res\<lparr>r_CPUPerNode := mul64 (r_CPUPerNode res) n\<rparr>)"

definition applySbatchParam :: "resources \<Rightarrow> string \<Rightarrow> string \<Rightarrow> resources go" where
  "applySbatchParam res param v =
     (if param = ''--time'' \<or> param = ''-t'' then
        (case ParseDuration v of
           Err e \<Rightarrow>
             (if e \<noteq> ErrDurationIsUnlimited then Err (Wrapped ''could not parse time limit'' e) else Ok res)
         | Ok d \<Rightarrow> Ok (res\<lparr>r_WallTime := d\<rparr>)
         | Panic m \<Rightarrow> Panic m)
      else if param = ''--nodes'' \<or> param = ''-N'' then
        go_bind (go_wrap ''could not parse amount of nodes'' (strconv_ParseInt (min_nodes_text v))) (\<lambda>nodes.
        Ok (res\<lparr>r_Nodes := nodes\<rparr>))
      else if param = ''--mem'' then
        go_bind (go_wrap ''could not parse memory'' (strconv_ParseInt v)) (\<lambda>mem.
        Ok (res\<lparr>r_MemPerNode := mem\<rparr>))
      else if param = ''--cpus-per-task'' \<or> param = ''-c'' then
        go_bind (go_wrap ''could not parse cpus per node'' (strconv_ParseInt v)) (\<lambda>cpus.
        Ok (multiply_cpus res cpus))
      else if param = ''--ntasks-per-node'' then
        go_bind (go_wrap ''could not parse tasks per node'' (strconv_ParseInt v)) (\<lambda>tasks.
        Ok (multiply_cpus res tasks))
      else Ok res)"

text \<open>
  The inner loop over \<open>params\<close>. The guard of the second case compares \<open>i\<close>, which is -1
  there, with \<open>len(params)-1\<close>: it is always true, so \<open>params[j+1]\<close> is read even when \<open>j\<close>
  is the last index.
\<close>

function params_loop :: "string list \<Rightarrow> nat \<Rightarrow> resources \<Rightarrow> resources go" where
  "params_loop params j res =
     (if j < length params then
        (let param = params ! j
         in case strings_IndexByte param CHR ''='' of
              Some i \<Rightarrow>
                go_bind (applySbatchParam res (take i param) (drop (i + 1) param)) (\<lambda>res.
                params_loop params (j + 1) res)
            | None \<Rightarrow>
                if (-1 :: int) < int (length params) - 1 then
                  (if j + 1 < length params then
                     go_bind (applySbatchParam res param (params ! (j + 1))) (\<lambda>res.
                     params_loop params (j + 2) res)
                   else Panic ''index out of range'')
                else
                  go_bind (applySbatchParam res param []) (\<lambda>res.
                  params_loop params (j + 1) res))
      else Ok res)"
  by pat_completeness auto
termination
  by (relation "measure (\<lambda>(params, j, res). length params - j)") auto

declare params_loop.simps [simp del]

definition sbatchHeader :: string where "sbatchHeader = ''#SBATCH''"

text \<open>The outer loop over the lines of the scanner.\<close>

fun scan_batch :: "string list \<Rightarrow> resources \<Rightarrow> resources go" where
  "scan_batch [] res = Ok res"
| "scan_batch (line # lines) res =
     (if line = [] \<or> strings_HasPrefix line ''#!'' then scan_batch lines res
      else if \<not> strings_HasPrefix line sbatchHeader then Ok res
      else go_bind (params_loop (strings_Fields (strings_TrimPrefix line sbatchHeader)) 0 res) (\<lambda>res.
           scan_batch lines res))"

definition extractBatchResources :: "string \<Rightarrow> resources go" where
  "extractBatchResources script = scan_batch (scan_lines script) no_resources"

section \<open>The reference\<close>

text \<open>
  The options of a line, in order: \<open>name=value\<close> in one field or \<open>name value\<close> in two. A last
  field without an equals sign has no value.
\<close>

fun options_of :: "string list \<Rightarrow> (string \<times> string) list \<times> bool" where
  "options_of [] = ([], False)"
| "options_of (p # ps) =
     (case strings_IndexByte p CHR ''='' of
        Some i \<Rightarrow> (let (os, dangling) = options_of ps in ((take i p, drop (i + 1) p) # os, dangling))
      | None \<Rightarrow>
          (case ps of
             [] \<Rightarrow> ([], True)
           | v # ps' \<Rightarrow> (let (os, dangling) = options_of ps' in ((p, v) # os, dangling))))"

fun apply_options :: "(string \<times> string) list \<Rightarrow> resources \<Rightarrow> resources go" where
  "apply_options [] res = Ok res"
| "apply_options ((param, v) # os) res = go_bind (applySbatchParam res param v) (apply_options os)"

definition line_spec :: "string list \<Rightarrow> resources \<Rightarrow> resources go" where
  "line_spec params res =
     (let (os, dangling) = options_of params
      in go_bind (apply_options os res) (\<lambda>res.
         if dangling then Panic ''index out of range'' else Ok res))"

lemma line_spec_Nil: "line_spec [] res = Ok res"
  by (simp add: line_spec_def)

lemma line_spec_value:
  "strings_IndexByte p CHR ''='' = Some i \<Longrightarrow>
   line_spec (p # ps) res = go_bind (applySbatchParam res (take i p) (drop (i + 1) p)) (line_spec ps)"
  by (cases "options_of ps") (simp add: line_spec_def [abs_def] go_bind_assoc)

lemma line_spec_pair:
  "CHR ''='' \<notin> set p \<Longrightarrow>
   line_spec (p # v # ps) res = go_bind (applySbatchParam res p v) (line_spec ps)"
  by (cases "options_of ps") (simp add: line_spec_def [abs_def] go_bind_assoc go_string_laws)

lemma line_spec_dangling:
  "CHR ''='' \<notin> set p \<Longrightarrow> line_spec [p] res = Panic ''index out of range''"
  by (simp add: line_spec_def go_string_laws)

lemma params_loop_spec: "params_loop params j res = line_spec (drop j params) res"
proof (induction params j res rule: params_loop.induct)
  case (1 params j res)
  show ?case
  proof (cases "j < length params")
    case False
    then show ?thesis by (simp add: params_loop.simps [of params j res] line_spec_Nil)
  next
    case True
    define p where "p = params ! j"
    have drop: "drop j params = p # drop (Suc j) params"
      using True by (simp add: p_def Cons_nth_drop_Suc)
    show ?thesis
    proof (cases "strings_IndexByte p CHR ''=''")
      case (Some i)
      have "params_loop params j res =
          go_bind (applySbatchParam res (take i p) (drop (i + 1) p)) (\<lambda>r. params_loop params (j + 1) r)"
        using True Some by (simp add: params_loop.simps [of params j res] Let_def p_def)
      also have "\<dots> = go_bind (applySbatchParam res (take i p) (drop (i + 1) p)) (line_spec (drop (Suc j) params))"
        using "1.IH"(3) [OF True] Some by (intro go_bind_cong_Ok) (simp add: p_def)
      finally show ?thesis using drop by (simp add: line_spec_value [OF Some])
    next
      case None
      then have abs: "CHR ''='' \<notin> set p" by simp
      show ?thesis
      proof (cases "j + 1 < length params")
        case more: True
        define v where "v = params ! Suc j"
        have drop2: "drop (Suc j) params = v # drop (j + 2) params"
          using more by (simp add: v_def Cons_nth_drop_Suc)
        have "params_loop params j res =
            go_bind (applySbatchParam res p v) (\<lambda>r. params_loop params (j + 2) r)"
          using True abs more by (cases "params = []")
            (simp_all add: params_loop.simps [of params j res] go_string_laws flip: p_def v_def)
        also have "\<dots> = go_bind (applySbatchParam res p v) (line_spec (drop (j + 2) params))"
          using "1.IH"(1) [OF True] None more True
          by (intro go_bind_cong_Ok) (cases "params = []"; simp add: p_def v_def)
        finally show ?thesis using drop drop2 by (simp add: line_spec_pair [OF abs])
      next
        case False
        with True have "drop (Suc j) params = []" by simp
        from drop have "params \<noteq> []" by auto
        with \<open>drop (Suc j) params = []\<close> drop abs True False show ?thesis
          by (simp add: params_loop.simps [of params j res] line_spec_dangling go_string_laws flip: p_def)
      qed
    qed
  qed
qed

lemma ParseDuration_not_Panic [simp]: "ParseDuration v \<noteq> Panic m"
  using ParseDuration_no_panic [of v] by (auto simp: no_panic_iff)

lemma applySbatchParam_no_panic [simp]: "no_panic (applySbatchParam res param v)"
  by (cases "ParseDuration v") (simp_all add: applySbatchParam_def)

lemma apply_options_no_panic [simp]: "no_panic (apply_options os res)"
  by (induction os arbitrary: res) (auto intro!: no_panic_intros)

lemma params_loop_is_line_spec: "params_loop params 0 res = line_spec params res"
  by (simp add: params_loop_spec)

section \<open>What a script asks for\<close>

text \<open>The lines that are read: those before the first line that is neither empty, a shebang nor a header.\<close>

fun header_lines :: "string list \<Rightarrow> string list" where
  "header_lines [] = []"
| "header_lines (line # lines) =
     (if line = [] \<or> strings_HasPrefix line ''#!'' then header_lines lines
      else if strings_HasPrefix line sbatchHeader
        then strings_TrimPrefix line sbatchHeader # header_lines lines
      else [])"

definition script_params :: "string \<Rightarrow> string list list" where
  "script_params script = List.map strings_Fields (header_lines (scan_lines script))"

fun apply_lines :: "string list list \<Rightarrow> resources \<Rightarrow> resources go" where
  "apply_lines [] res = Ok res"
| "apply_lines (ps # pss) res = go_bind (line_spec ps res) (apply_lines pss)"

lemma scan_batch_spec:
  "scan_batch lines res = apply_lines (List.map strings_Fields (header_lines lines)) res"
proof (induction lines arbitrary: res)
  case (Cons line lines)
  then show ?case by (auto simp: params_loop_is_line_spec intro!: go_bind_cong_Ok)
qed simp

lemma extractBatchResources_lines:
  "extractBatchResources script = apply_lines (script_params script) no_resources"
  by (simp add: extractBatchResources_def script_params_def scan_batch_spec)

text \<open>A line whose last option has no value.\<close>

definition dangling :: "string list \<Rightarrow> bool" where
  "dangling ps = snd (options_of ps)"

text \<open>All options of the script, in order.\<close>

definition script_options :: "string \<Rightarrow> (string \<times> string) list" where
  "script_options script = concat (List.map (fst \<circ> options_of) (script_params script))"

lemma apply_options_append:
  "apply_options (os @ os') res = go_bind (apply_options os res) (apply_options os')"
  by (induction os arbitrary: res) (auto simp: go_bind_assoc intro!: go_bind_cong_Ok split: prod.splits)

lemma line_spec_whole: "\<not> dangling ps \<Longrightarrow> line_spec ps res = apply_options (fst (options_of ps)) res"
  by (cases "options_of ps") (simp add: line_spec_def dangling_def)

lemma apply_lines_whole:
  "\<not> list_ex dangling pss \<Longrightarrow>
   apply_lines pss res = apply_options (concat (List.map (fst \<circ> options_of) pss)) res"
  by (induction pss arbitrary: res)
    (auto simp: line_spec_whole apply_options_append intro!: go_bind_cong_Ok)

lemma line_spec_dangling_not_Ok:
  "dangling ps \<Longrightarrow> line_spec ps res \<noteq> Ok res'"
  by (cases "options_of ps"; cases "apply_options (fst (options_of ps)) res")
    (auto simp: line_spec_def dangling_def)

lemma apply_lines_Ok_whole: "apply_lines pss res = Ok res' \<Longrightarrow> \<not> list_ex dangling pss"
proof (induction pss arbitrary: res)
  case (Cons ps pss)
  then show ?case using line_spec_dangling_not_Ok by auto
qed simp

text \<open>
  The whole parser: the options of all lines in order, up to and with the first line that
  ends in an option without a value; that line makes the parser index past its fields.
\<close>

definition script_spec :: "string list list \<Rightarrow> resources go" where
  "script_spec pss =
     (case dropWhile (\<lambda>ps. \<not> dangling ps) pss of
        [] \<Rightarrow> apply_options (concat (List.map (fst \<circ> options_of) pss)) no_resources
      | ps # _ \<Rightarrow>
          go_bind (apply_options
            (concat (List.map (fst \<circ> options_of) (takeWhile (\<lambda>ps. \<not> dangling ps) pss @ [ps]))) no_resources)
          (\<lambda>_. Panic ''index out of range''))"

lemma apply_lines_append:
  "apply_lines (pss @ qss) res = go_bind (apply_lines pss res) (apply_lines qss)"
  by (induction pss arbitrary: res) (auto simp: go_bind_assoc intro!: go_bind_cong_Ok)

lemma line_spec_dangling_bind:
  "dangling ps \<Longrightarrow>
   go_bind (line_spec ps res) f =
   go_bind (apply_options (fst (options_of ps)) res) (\<lambda>_. Panic ''index out of range'')"
  by (cases "options_of ps") (simp add: line_spec_def dangling_def go_bind_assoc)

lemma apply_lines_script_spec: "apply_lines pss no_resources = script_spec pss"
proof (cases "dropWhile (\<lambda>ps. \<not> dangling ps) pss")
  case Nil
  then have "\<not> list_ex dangling pss" by (simp only: list_ex_iff dropWhile_eq_Nil_conv) blast
  from apply_lines_whole [OF this, of no_resources] show ?thesis
    using Nil by (simp only: script_spec_def list.case)
next
  case (Cons ps rest)
  define front where "front = takeWhile (\<lambda>ps. \<not> dangling ps) pss"
  have split: "pss = front @ ps # rest"
    using takeWhile_dropWhile_id [of "\<lambda>ps. \<not> dangling ps" pss] Cons by (simp add: front_def)
  have ps: "dangling ps" using hd_dropWhile [of "\<lambda>ps. \<not> dangling ps" pss] Cons by simp
  have front: "\<not> list_ex dangling front"
    by (auto simp: front_def list_ex_iff dest: set_takeWhileD)
  have rest: "apply_lines (ps # rest) =
      (\<lambda>r. go_bind (apply_options (fst (options_of ps)) r) (\<lambda>_. Panic ''index out of range''))"
    by (rule ext) (simp add: line_spec_dangling_bind [OF ps])
  have "apply_lines pss no_resources =
      go_bind (apply_options (concat (List.map (fst \<circ> options_of) front)) no_resources)
        (\<lambda>r. go_bind (apply_options (fst (options_of ps)) r) (\<lambda>_. Panic ''index out of range''))"
    by (simp only: split apply_lines_append apply_lines_whole [OF front] rest)
  also have "\<dots> = script_spec pss"
    by (simp add: script_spec_def Cons apply_options_append go_bind_assoc flip: front_def)
  finally show ?thesis .
qed

section \<open>Scripts with options of known shape\<close>

text \<open>A header line of a script: the options as fields after \<open>#SBATCH\<close>.\<close>

definition print_header :: "string list \<Rightarrow> string" where
  "print_header ps = sbatchHeader @ '' '' @ strings_Join '' '' ps"

definition print_script :: "string list list \<Rightarrow> string list \<Rightarrow> string" where
  "print_script hdr body =
     concat (List.map (\<lambda>l. l @ [newline]) (''#!/bin/sh'' # List.map print_header hdr @ body))"

definition short_line :: "string \<Rightarrow> bool" where
  "short_line l \<longleftrightarrow> length l \<le> maxScanLine \<and> newline \<notin> set l \<and> (l \<noteq> [] \<longrightarrow> last l \<noteq> CHR 0x0D)"

text \<open>The body starts with a command.\<close>

definition starts_body :: "string list \<Rightarrow> bool" where
  "starts_body body \<longleftrightarrow>
     (case body of [] \<Rightarrow> True
      | l # _ \<Rightarrow> l \<noteq> [] \<and> \<not> strings_HasPrefix l ''#!'' \<and> \<not> strings_HasPrefix l sbatchHeader)"

lemma scan_lines_short:
  "list_all short_line ls \<Longrightarrow> scan_lines (concat (List.map (\<lambda>l. l @ [newline]) ls)) = ls"
proof -
  assume ls: "list_all short_line ls"
  then have "raw_lines (concat (List.map (\<lambda>l. l @ [newline]) ls)) = ls"
    by (intro raw_lines_Join_newline) (auto simp: list_all_iff short_line_def)
  moreover have "takeWhile (\<lambda>l. length l \<le> maxScanLine) ls = ls"
    using ls by (simp add: takeWhile_eq_all_conv list_all_iff short_line_def)
  moreover have "List.map drop_cr ls = ls"
    using ls by (intro map_idI) (auto simp: list_all_iff short_line_def drop_cr_def)
  ultimately show ?thesis by (simp only: scan_lines_def)
qed

lemma Fields_header:
  "list_all plain ps \<Longrightarrow> strings_Fields (strings_TrimPrefix (print_header ps) sbatchHeader) = ps"
  by (simp add: print_header_def Fields_space Fields_Join ascii_spaces_def)

lemma print_header_kept [simp]:
  "print_header ps \<noteq> []" "\<not> strings_HasPrefix (print_header ps) ''#!''"
  "strings_HasPrefix (print_header ps) sbatchHeader"
  by (simp_all add: print_header_def) (simp_all add: sbatchHeader_def strings_HasPrefix_def)

lemma header_lines_printed:
  "starts_body body \<Longrightarrow>
   header_lines (List.map print_header hdr @ body) =
   List.map (\<lambda>ps. strings_TrimPrefix (print_header ps) sbatchHeader) hdr"
  by (induction hdr) (auto simp: starts_body_def split: list.splits)

lemma script_params_printed:
  assumes "list_all (\<lambda>ps. list_all plain ps \<and> short_line (print_header ps)) hdr"
    and "list_all short_line body" "starts_body body"
  shows "script_params (print_script hdr body) = hdr"
proof -
  have "short_line ''#!/bin/sh''" by (simp add: short_line_def maxScanLine_def newline_def)
  with assms have "scan_lines (print_script hdr body) = ''#!/bin/sh'' # List.map print_header hdr @ body"
    unfolding print_script_def by (intro scan_lines_short) (auto simp: list_all_iff)
  then have "script_params (print_script hdr body) =
      List.map (\<lambda>ps. strings_Fields (strings_TrimPrefix (print_header ps) sbatchHeader)) hdr"
    using header_lines_printed [OF assms(3), of hdr]
    by (simp add: script_params_def comp_def strings_HasPrefix_def)
  also have "\<dots> = hdr"
    using assms(1) by (intro map_idI) (auto simp: list_all_iff Fields_header)
  finally show ?thesis .
qed

text \<open>Resources as a script asks for them.\<close>

definition print_resources :: "resources \<Rightarrow> string list list" where
  "print_resources r =
     [[''--nodes='' @ strconv_FormatInt (r_Nodes r)],
      [''--mem'', strconv_FormatInt (r_MemPerNode r), ''-c'', strconv_FormatInt (r_CPUPerNode r)],
      [''-t'', ''0:'' @ strconv_FormatInt (tdiv (r_WallTime r) time_Second)]]"

lemma multiply_cpus_first: "r_CPUPerNode res = 0 \<Longrightarrow> in_int64 n \<Longrightarrow> multiply_cpus res n = res\<lparr>r_CPUPerNode := n\<rparr>"
  by (simp add: multiply_cpus_def mul64_def)

lemma ParseDuration_minsec:
  assumes "in_int64 n" "in_int64 (time_Second * n)"
  shows "ParseDuration (''0:'' @ strconv_FormatInt n) = Ok (time_Second * n)"
proof -
  have "duration_wf (MinSec ''0'' (strconv_FormatInt n))" using assms by (simp add: duration_wf_def)
  from ParseDuration_render [OF this] assms show ?thesis
    by (simp add: duration_nanos_def time_units)
qed

lemma applySbatchParam_steps:
  "0 \<le> n \<Longrightarrow> in_int64 n \<Longrightarrow>
     applySbatchParam res ''--nodes'' (strconv_FormatInt n) = Ok (res\<lparr>r_Nodes := n\<rparr>)"
  "in_int64 n \<Longrightarrow> applySbatchParam res ''--mem'' (strconv_FormatInt n) = Ok (res\<lparr>r_MemPerNode := n\<rparr>)"
  "in_int64 n \<Longrightarrow> r_CPUPerNode res = 0 \<Longrightarrow>
     applySbatchParam res ''-c'' (strconv_FormatInt n) = Ok (res\<lparr>r_CPUPerNode := n\<rparr>)"
  "ParseDuration v = Ok d \<Longrightarrow> applySbatchParam res ''-t'' v = Ok (res\<lparr>r_WallTime := d\<rparr>)"
proof -
  assume n: "0 \<le> n" "in_int64 n"
  then have "CHR ''-'' \<notin> set (strconv_FormatInt n)"
    by (auto simp: strconv_FormatInt_def dest!: FormatUint_set)
  with n show "applySbatchParam res ''--nodes'' (strconv_FormatInt n) = Ok (res\<lparr>r_Nodes := n\<rparr>)"
    by (simp add: applySbatchParam_def min_nodes_text_def go_string_laws)
qed (simp_all add: applySbatchParam_def multiply_cpus_first)

lemma FormatInt_no_equals: "CHR ''='' \<notin> set (strconv_FormatInt n)"
  by (auto simp: is_digit_def dest!: FormatInt_set)

lemma line_spec_nodes: "line_spec [''--nodes='' @ v] res = applySbatchParam res ''--nodes'' v"
proof -
  have "strings_IndexByte (''--nodes='' @ v) CHR ''='' = Some 7" by simp
  from line_spec_value [OF this] show ?thesis by (simp add: line_spec_Nil [abs_def])
qed

lemma line_spec_printed:
  assumes "0 \<le> r_Nodes r" "resources_in_range r" "time_Second * tdiv (r_WallTime r) time_Second = r_WallTime r"
  shows "apply_lines (print_resources r) no_resources = Ok r"
proof -
  from assms have rng: "in_int64 (r_Nodes r)" "in_int64 (r_MemPerNode r)" "in_int64 (r_CPUPerNode r)"
    "in_int64 (r_WallTime r)" by (simp_all add: resources_in_range_def)
  define n where "n = tdiv (r_WallTime r) time_Second"
  have "in_int64 n" using tdiv_Second_range [OF rng(4)] by (simp add: n_def)
  then have time: "ParseDuration (''0:'' @ strconv_FormatInt n) = Ok (r_WallTime r)"
    using assms(3) rng(4) ParseDuration_minsec [of n] by (simp flip: n_def)
  show ?thesis
    using assms(1) rng time
    by (simp add: print_resources_def line_spec_nodes [simplified] line_spec_pair line_spec_Nil applySbatchParam_steps
        no_resources_def FormatInt_no_equals flip: n_def)
qed

lemma plain_parts:
  "plain ''--mem''" "plain ''-c''" "plain ''-t''" "plain (strconv_FormatInt n)"
  "plain (''--nodes='' @ strconv_FormatInt n)" "plain (''0:'' @ strconv_FormatInt n)"
  using FormatInt_plain [of n] by (simp_all add: plain_def graphic_def)

lemma graphic_not_control: "graphic c \<Longrightarrow> c \<noteq> CHR 0x0D \<and> c \<noteq> newline"
  by (auto simp: graphic_def newline_def)

lemma plain_last_newline: "plain p \<Longrightarrow> last p \<noteq> CHR 0x0D \<and> newline \<notin> set p \<and> p \<noteq> []"
proof -
  assume p: "plain p"
  then have "last p \<in> set p" by (auto simp: plain_def)
  with p graphic_not_control show ?thesis by (auto simp: plain_def list_all_iff)
qed

lemma Join_plain_last_newline:
  assumes "list_all plain ps" "ps \<noteq> []"
  shows "last (strings_Join '' '' ps) \<noteq> CHR 0x0D \<and> newline \<notin> set (strings_Join '' '' ps) \<and> strings_Join '' '' ps \<noteq> []"
  using assms
proof (induction "'' ''" ps rule: strings_Join.induct)
  case (3 p q ps)
  have "newline \<noteq> CHR '' ''" by (simp add: newline_def)
  with 3 show ?case by (auto dest: plain_last_newline)
qed (auto dest: plain_last_newline)

lemma short_header:
  assumes "list_all plain ps" "length (print_header ps) \<le> maxScanLine" "ps \<noteq> []"
  shows "short_line (print_header ps)"
  using assms(2) Join_plain_last_newline [OF assms(1,3)]
  by (simp add: short_line_def print_header_def sbatchHeader_def newline_def)

lemma print_resources_short:
  assumes "resources_in_range r"
  shows "list_all (\<lambda>ps. list_all plain ps \<and> short_line (print_header ps)) (print_resources r)"
proof -
  have "length (print_header ps) \<le> maxScanLine" if "ps \<in> set (print_resources r)" for ps
    using that assms FormatInt_length [of "r_Nodes r"] FormatInt_length [of "r_MemPerNode r"]
      FormatInt_length [of "r_CPUPerNode r"] FormatInt_length [of "tdiv (r_WallTime r) time_Second"]
      tdiv_Second_range [of "r_WallTime r"]
    by (auto simp: print_resources_def print_header_def sbatchHeader_def maxScanLine_def resources_in_range_def)
  moreover have "list_all plain ps \<and> ps \<noteq> []" if "ps \<in> set (print_resources r)" for ps
    using that plain_parts by (auto simp: print_resources_def)
  ultimately show ?thesis by (auto simp: list_all_iff intro!: short_header)
qed

lemma multiply_cpus_range: "resources_in_range res \<Longrightarrow> resources_in_range (multiply_cpus res n)"
  by (simp add: resources_in_range_def multiply_cpus_def mul64_def)

lemma applySbatchParam_range:
  assumes "resources_in_range res" "applySbatchParam res param v = Ok res'"
  shows "resources_in_range res'"
proof -
  have upd: "resources_in_range (res\<lparr>r_WallTime := n\<rparr>)" "resources_in_range (res\<lparr>r_Nodes := n\<rparr>)"
    "resources_in_range (res\<lparr>r_MemPerNode := n\<rparr>)" if "in_int64 n" for n
    using that assms(1) by (simp_all add: resources_in_range_def)
  have "ensures (applySbatchParam res param v) resources_in_range"
    unfolding applySbatchParam_def
    by (intro ensures_intros assms(1) upd multiply_cpus_range)
      (unfold go_wrap_eq_Ok, (erule ParseDuration_range ParseInt_range)+)
  with assms(2) show ?thesis by (auto dest: ensuresD)
qed

lemma apply_options_range:
  "resources_in_range res \<Longrightarrow> apply_options os res = Ok res' \<Longrightarrow> resources_in_range res'"
proof (induction os arbitrary: res)
  case (Cons o' os)
  then show ?case by (cases o') (auto intro: applySbatchParam_range)
qed simp

lemma extractBatchResources_range:
  assumes "extractBatchResources script = Ok r"
  shows "resources_in_range r"
proof -
  have "apply_options (script_options script) no_resources = Ok r"
    using assms apply_lines_Ok_whole [of "script_params script" no_resources r]
    by (simp add: extractBatchResources_lines apply_lines_whole script_options_def)
  then show ?thesis
    by (rule apply_options_range [rotated]) (simp add: resources_in_range_def no_resources_def int64_defs)
qed

text \<open>The last value an option is given, and the product of the values of the CPU options.\<close>

definition last_value :: "string set \<Rightarrow> (string \<Rightarrow> int go) \<Rightarrow> (string \<times> string) list \<Rightarrow> int \<Rightarrow> int" where
  "last_value names parse os d =
     foldl (\<lambda>d (p, v). if p \<in> names then (case parse v of Ok n \<Rightarrow> n | _ \<Rightarrow> d) else d) d os"

definition cpu_product :: "(string \<times> string) list \<Rightarrow> int64 \<Rightarrow> int64" where
  "cpu_product os c =
     foldl (\<lambda>c (p, v). if p \<in> {''--cpus-per-task'', ''-c'', ''--ntasks-per-node''}
       then (case strconv_ParseInt v of Ok n \<Rightarrow> mul64 (if c = 0 then 1 else c) n | _ \<Rightarrow> c) else c) c os"

lemma applySbatchParam_values:
  assumes "applySbatchParam res p v = Ok r"
  shows "r_Nodes r = last_value {''--nodes'', ''-N''} (strconv_ParseInt \<circ> min_nodes_text) [(p, v)] (r_Nodes res)"
    and "r_MemPerNode r = last_value {''--mem''} strconv_ParseInt [(p, v)] (r_MemPerNode res)"
    and "r_WallTime r = last_value {''--time'', ''-t''} ParseDuration [(p, v)] (r_WallTime res)"
    and "r_CPUPerNode r = cpu_product [(p, v)] (r_CPUPerNode res)"
proof -
  note ok = assms
  note ap = applySbatchParam_def
  note defs = last_value_def cpu_product_def multiply_cpus_def Let_def
  consider (t) "p \<in> {''--time'', ''-t''}" | (n) "p \<in> {''--nodes'', ''-N''}" | (m) "p = ''--mem''"
    | (c) "p \<in> {''--cpus-per-task'', ''-c''}" | (k) "p = ''--ntasks-per-node''"
    | (no) "p \<notin> {''--time'', ''-t''}" "p \<notin> {''--nodes'', ''-N''}" "p \<noteq> ''--mem''"
        "p \<notin> {''--cpus-per-task'', ''-c''}" "p \<noteq> ''--ntasks-per-node''"
    by metis
  then have "r_Nodes r = last_value {''--nodes'', ''-N''} (strconv_ParseInt \<circ> min_nodes_text) [(p, v)] (r_Nodes res) \<and>
      r_MemPerNode r = last_value {''--mem''} strconv_ParseInt [(p, v)] (r_MemPerNode res) \<and>
      r_WallTime r = last_value {''--time'', ''-t''} ParseDuration [(p, v)] (r_WallTime res) \<and>
      r_CPUPerNode r = cpu_product [(p, v)] (r_CPUPerNode res)"
  proof cases
    case t
    with ok show ?thesis
      by (elim insertE emptyE; hypsubst; cases "ParseDuration v"; simp add: defs ap split: if_split_asm; auto)
  next
    case n
    with ok show ?thesis
      by (elim insertE emptyE; hypsubst; cases "strconv_ParseInt (min_nodes_text v)"; simp add: defs ap; auto)
  next
    case m
    with ok show ?thesis by (hypsubst; cases "strconv_ParseInt v"; simp add: defs ap; auto)
  next
    case c
    with ok show ?thesis
      by (elim insertE emptyE; hypsubst; cases "strconv_ParseInt v"; simp add: defs ap; auto)
  next
    case k
    with ok show ?thesis by (hypsubst; cases "strconv_ParseInt v"; simp add: defs ap; auto)
  next
    case no
    with ok show ?thesis by (simp add: defs ap)
  qed
  then show "r_Nodes r = last_value {''--nodes'', ''-N''} (strconv_ParseInt \<circ> min_nodes_text) [(p, v)] (r_Nodes res)"
    "r_MemPerNode r = last_value {''--mem''} strconv_ParseInt [(p, v)] (r_MemPerNode res)"
    "r_WallTime r = last_value {''--time'', ''-t''} ParseDuration [(p, v)] (r_WallTime res)"
    "r_CPUPerNode r = cpu_product [(p, v)] (r_CPUPerNode res)"
    by blast+
qed

lemma last_value_Cons: "last_value names parse (o' # os) d = last_value names parse os (last_value names parse [o'] d)"
  by (simp add: last_value_def)

lemma cpu_product_Cons: "cpu_product (o' # os) c = cpu_product os (cpu_product [o'] c)"
  by (simp add: cpu_product_def)

definition options_value :: "(string \<times> string) list \<Rightarrow> resources \<Rightarrow> resources" where
  "options_value os d =
     \<lparr>r_Nodes = last_value {''--nodes'', ''-N''} (strconv_ParseInt \<circ> min_nodes_text) os (r_Nodes d),
      r_MemPerNode = last_value {''--mem''} strconv_ParseInt os (r_MemPerNode d),
      r_CPUPerNode = cpu_product os (r_CPUPerNode d),
      r_WallTime = last_value {''--time'', ''-t''} ParseDuration os (r_WallTime d)\<rparr>"

lemma apply_options_value: "apply_options os res = Ok r \<Longrightarrow> r = options_value os res"
proof (induction os arbitrary: res)
  case Nil
  then show ?case by (simp add: options_value_def last_value_def cpu_product_def)
next
  case (Cons pv os)
  obtain p v where pv: "pv = (p, v)" by (cases pv)
  with Cons.prems obtain r1 where r1: "applySbatchParam res p v = Ok r1" "apply_options os r1 = Ok r" by auto
  from Cons.IH [OF r1(2)] show ?case
    unfolding options_value_def pv
    by (simp only: last_value_Cons [of _ _ "(p, v)" os] cpu_product_Cons [of "(p, v)" os]
        applySbatchParam_values [OF r1(1)])
qed

text \<open>A script whose commands, whatever they are, start with \<open>srun\<close>.\<close>

lemma Split_Join_prefix:
  "(\<And>l. l \<in> set ls \<Longrightarrow> c \<notin> set l) \<Longrightarrow> cmds \<noteq> [] \<Longrightarrow>
   strings_Split c (strings_Join [c] (ls @ cmds)) = ls @ strings_Split c (strings_Join [c] cmds)"
  by (induction ls) (auto simp: strings_Join_Cons Split_append)

lemma Split_prefix:
  "c \<notin> set p \<Longrightarrow> \<exists>h rest. strings_Split c (p @ s) = (p @ h) # rest"
proof (induction p)
  case Nil
  then show ?case by (metis append_Nil list.exhaust strings_Split_not_Nil)
next
  case (Cons x p)
  then show ?case by auto
qed

lemma Join_prefix: "\<exists>u. strings_Join sep ((p @ t) # ps) = p @ u"
  by (cases ps) auto

lemma drop_cr_prefix: "c \<noteq> CHR 0x0D \<Longrightarrow> \<exists>t'. drop_cr (p @ c # t) = p @ c # t'"
  by (cases t rule: rev_cases) (auto simp: drop_cr_def butlast_append)

lemma header_lines_stop:
  "header_lines (List.map print_header hdr @ (''srun'' @ t) # rest) =
   List.map (\<lambda>ps. strings_TrimPrefix (print_header ps) sbatchHeader) hdr"
  by (induction hdr) (simp_all add: strings_HasPrefix_def sbatchHeader_def, simp_all add: print_header_def sbatchHeader_def)

lemma header_lines_all:
  "header_lines (List.map print_header hdr) =
   List.map (\<lambda>ps. strings_TrimPrefix (print_header ps) sbatchHeader) hdr"
  by (induction hdr) simp_all

lemma drop_blank_end:
  assumes "p \<noteq> []"
  shows "\<exists>rest'. (if last (ls @ p # rest) = [] then butlast (ls @ p # rest) else ls @ p # rest) = ls @ p # rest'"
proof (cases rest rule: rev_cases)
  case Nil
  with assms show ?thesis by simp
next
  case (snoc ys y)
  then have "butlast (ls @ p # rest) = ls @ p # ys" by (simp add: butlast_append)
  then show ?thesis by auto
qed

lemma scan_lines_commands:
  assumes "list_all short_line ls" "cmds \<noteq> []" "hd cmds = ''srun '' @ t"
  shows "\<exists>Y. scan_lines (strings_Join [newline] (ls @ cmds)) = ls @ Y \<and>
    (Y = [] \<or> (\<exists>t' rest. Y = (''srun'' @ t') # rest))"
proof -
  obtain u where u: "strings_Join [newline] cmds = ''srun '' @ u"
    using Join_prefix [of "[newline]" "''srun ''" t "tl cmds"] assms(2,3) by (cases cmds) auto
  have "newline \<notin> set ''srun ''" by (simp add: newline_def)
  from Split_prefix [OF this, of u] obtain h rest where
    split: "strings_Split newline (strings_Join [newline] cmds) = (''srun '' @ h) # rest" using u by auto
  have sp: "strings_Split newline (strings_Join [newline] (ls @ cmds)) = ls @ (''srun '' @ h) # rest"
    using assms(1,2) split by (subst Split_Join_prefix) (auto simp: list_all_iff short_line_def)
  have "''srun '' @ h \<noteq> []" by simp
  from drop_blank_end [OF this, of ls rest] obtain rest' where
    r: "(if last (ls @ (''srun '' @ h) # rest) = [] then butlast (ls @ (''srun '' @ h) # rest)
         else ls @ (''srun '' @ h) # rest) = ls @ (''srun '' @ h) # rest'" by blast
  have raw: "raw_lines (strings_Join [newline] (ls @ cmds)) = ls @ (''srun '' @ h) # rest'"
    unfolding raw_lines_def Let_def sp by (rule r)
  have short: "takeWhile (\<lambda>l. length l \<le> maxScanLine) (ls @ xs) = ls @ takeWhile (\<lambda>l. length l \<le> maxScanLine) xs" for xs
    using assms(1) by (subst takeWhile_append2) (auto simp: list_all_iff short_line_def)
  have cr: "List.map drop_cr ls = ls"
    using assms(1) by (intro map_idI) (auto simp: list_all_iff short_line_def drop_cr_def)
  obtain t' where t': "drop_cr (''srun '' @ h) = ''srun '' @ t'"
    using drop_cr_prefix [of "CHR '' ''" "''srun''" h] by auto
  show ?thesis
    by (rule exI [of _ "List.map drop_cr (takeWhile (\<lambda>l. length l \<le> maxScanLine) ((''srun '' @ h) # rest'))"])
      (use t' in \<open>auto simp: scan_lines_def raw [simplified] short [simplified] cr\<close>)
qed

lemma script_params_commands:
  assumes "list_all (\<lambda>ps. list_all plain ps \<and> short_line (print_header ps)) hdr"
    and "cmds \<noteq> []" "hd cmds = ''srun '' @ t"
  shows "script_params (strings_Join [newline] (''#!/bin/sh'' # List.map print_header hdr @ cmds)) = hdr"
proof -
  have "list_all short_line (''#!/bin/sh'' # List.map print_header hdr)"
    using assms(1) by (auto simp: list_all_iff short_line_def maxScanLine_def newline_def)
  from scan_lines_commands [OF this assms(2,3)] obtain Y where
    Y: "scan_lines (strings_Join [newline] (''#!/bin/sh'' # List.map print_header hdr @ cmds)) =
      ''#!/bin/sh'' # List.map print_header hdr @ Y" "Y = [] \<or> (\<exists>t' rest. Y = (''srun'' @ t') # rest)"
    by auto
  from Y(2) have "header_lines (List.map print_header hdr @ Y) =
      List.map (\<lambda>ps. strings_TrimPrefix (print_header ps) sbatchHeader) hdr"
    using header_lines_stop header_lines_all by auto
  then have "script_params (strings_Join [newline] (''#!/bin/sh'' # List.map print_header hdr @ cmds)) =
      List.map (\<lambda>ps. strings_Fields (strings_TrimPrefix (print_header ps) sbatchHeader)) hdr"
    using Y(1) by (simp add: script_params_def comp_def strings_HasPrefix_def)
  also have "\<dots> = hdr"
    using assms(1) by (intro map_idI) (auto simp: list_all_iff Fields_header)
  finally show ?thesis .
qed

section \<open>Properties\<close>

text \<open>
  C15. The index-driven parser of a batch script is its reference: the options of the header
  lines, paired with their values, applied in order; at the end of the first line whose last
  option has no value it indexes past the fields of the line and panics.
\<close>

theorem extractBatchResources_implements_spec:
  "extractBatchResources script = script_spec (script_params script)"
  by (simp add: extractBatchResources_lines apply_lines_script_spec)

text \<open>
  Whatever resources are written in the header lines of a batch script (node count not
  negative, wall time in whole seconds) come back, whatever commands follow.
\<close>

theorem extractBatchResources_printed:
  assumes "resources_in_range r" "0 \<le> r_Nodes r" "time_Second * tdiv (r_WallTime r) time_Second = r_WallTime r"
    and "list_all short_line body" "starts_body body"
  shows "extractBatchResources (print_script (print_resources r) body) = Ok r"
  using script_params_printed [OF print_resources_short [OF assms(1)] assms(4,5)] assms(1-3)
  by (simp add: extractBatchResources_lines line_spec_printed)

theorem extractBatchResources_printed_witness:
  "extractBatchResources (print_script
     (print_resources \<lparr>r_Nodes = 2, r_MemPerNode = 1024, r_CPUPerNode = 4, r_WallTime = 90000000000\<rparr>)
     [''srun hostname'', [], ''#SBATCH --nodes=9''])
   = Ok \<lparr>r_Nodes = 2, r_MemPerNode = 1024, r_CPUPerNode = 4, r_WallTime = 90000000000\<rparr>"
  by (rule extractBatchResources_printed)
    (simp_all add: resources_in_range_def int64_defs time_units tdiv_def short_line_def maxScanLine_def
      newline_def starts_body_def strings_HasPrefix_def sbatchHeader_def)

lemma single_flag_panics:
  assumes "plain flag" "CHR ''='' \<notin> set flag" "length flag \<le> 1000"
  shows "extractBatchResources (print_script [[flag]] []) = Panic ''index out of range''"
proof -
  have "short_line (print_header [flag])"
    using assms by (intro short_header) (simp_all add: print_header_def sbatchHeader_def maxScanLine_def)
  then have "script_params (print_script [[flag]] []) = [[flag]]"
    using assms(1) by (intro script_params_printed) (simp_all add: starts_body_def)
  then show ?thesis
    by (simp add: extractBatchResources_lines line_spec_dangling [OF assms(2)])
qed

text \<open>
  A header line that is a single flag without a value, such as the standard
  \<open>#SBATCH --exclusive\<close>, makes the parser panic.
\<close>

theorem extractBatchResources_flag_panics:
  assumes "plain flag" "CHR ''='' \<notin> set flag" "length flag \<le> 1000"
  shows "extractBatchResources (print_script [[flag]] []) = Panic ''index out of range''"
  by (rule single_flag_panics [OF assms])

theorem extractBatchResources_flag_panics_witness:
  "extractBatchResources (print_script [[''--exclusive'']] []) = Panic ''index out of range''"
  by (rule extractBatchResources_flag_panics) (simp_all add: plain_def graphic_def)



end
