(* ===== verification/Api_Types.thy ===== *)
theory Api_Types
  imports Affinity
begin

text \<open>
  The custom resources of \<open>pkg/operator/apis/wlm/v1alpha1\<close> and the parts of the Kubernetes
  objects the operator reads and writes. A volume (\<open>v1.Volume\<close>) is only carried around: it
  is a type parameter. A pointer to a struct that is never shared is an option.
\<close>

section \<open>Object metadata\<close>

record owner_reference =
  or_APIVersion :: string
  or_Kind :: string
  or_Name :: string
  or_UID :: string
  or_Controller :: "bool option"
  or_BlockOwnerDeletion :: "bool option"

record object_meta =
  om_Name :: string
  om_Namespace :: string
  om_UID :: string
  om_OwnerReferences :: "owner_reference list"
  om_Labels :: "string \<rightharpoonup> string"

section \<open>Jobs\<close>

record 'v prepare_data =
  pd_Mount :: 'v
  pd_To :: string

record 'v job_results =
  jr_Mount :: 'v
  jr_From :: string

record 'v slurm_job_spec =
  sjs_Batch :: string
  sjs_NodeSelector :: "string \<rightharpoonup> string"
  sjs_Prepare :: "'v prepare_data option"
  sjs_Results :: "'v job_results option"

record slurm_job_status =
  sjst_Status :: string

record 'v slurm_job =
  sj_Meta :: object_meta
  sj_Spec :: "'v slurm_job_spec"
  sj_Status :: slurm_job_status

record singularity_options =
  so_AllowUnsigned :: bool
  so_CleanEnv :: bool
  so_FakeRoot :: bool
  so_IPC :: bool
  so_PID :: bool
  so_NoPrivs :: bool
  so_Writable :: bool
  so_App :: string
  so_HostName :: string
  so_Binds :: "string list"

record wlm_resources =
  wr_Nodes :: int64
  wr_CPUPerNode :: int64
  wr_MemPerNode :: int64
  wr_WallTime :: int64

record 'v wlm_job_spec =
  wjs_Image :: string
  wjs_Options :: singularity_options
  wjs_Resources :: wlm_resources
  wjs_NodeSelector :: "string \<rightharpoonup> string"
  wjs_Results :: "'v job_results option"

record wlm_job_status =
  wjst_Status :: string

record 'v wlm_job =
  wj_Meta :: object_meta
  wj_Spec :: "'v wlm_job_spec"
  wj_Status :: wlm_job_status

section \<open>Pods\<close>

record container =
  ct_Name :: string
  ct_Image :: string

record pod =
  pod_Meta :: object_meta
  pod_Affinity :: "affinity option"
  pod_RunAsUser :: int64
  pod_RunAsGroup :: int64
  pod_Tolerations :: "toleration list"
  pod_Containers :: "container list"
  pod_NodeSelector :: "string \<rightharpoonup> string"
  pod_RestartPolicy :: string
  pod_Phase :: string

text \<open>The key of an object: its namespace and its name.\<close>

type_synonym obj_key = "string \<times> string"

definition meta_key :: "object_meta \<Rightarrow> obj_key" where
  "meta_key m = (om_Namespace m, om_Name m)"

end
