(* ===== verification/Job_Pods.thy ===== *)
theory Job_Pods
  imports Batch_Script Api_Types
begin

text \<open>
  \<open>pkg/operator/controller/slurmjob/pod.go\<close> and \<open>pkg/operator/controller/wlmjob/pod.go\<close>: the
  pod a job is translated to. Its affinity comes from the resources the job asks for, its
  node selector from the defaults and the job's own.
\<close>

section \<open>The pod of a SlurmJob\<close>

text \<open>The user and group of the job companion, the fields \<open>jcUID\<close> and \<open>jcGID\<close> of a reconciler.\<close>

record reconciler =
  jcUID :: int64
  jcGID :: int64

definition affinityForSj :: "'v slurm_job \<Rightarrow> affinity go" where
  "affinityForSj sj =
     go_bind (go_wrap ''could not extract required resources''
       (extractBatchResources (sjs_Batch (sj_Spec sj)))) AffinityForResources"

text \<open>
  The two loops over maps write the defaults and then the job's selectors into a fresh map.
\<close>

definition nodeSelectorForSj :: "'v slurm_job \<Rightarrow> (string \<rightharpoonup> string)" where
  "nodeSelectorForSj sj = DefaultNodeSelectors ++ sjs_NodeSelector (sj_Spec sj)"

definition sj_pod :: "reconciler \<Rightarrow> 'v slurm_job \<Rightarrow> affinity option \<Rightarrow> pod" where
  "sj_pod r sj aff =
     \<lparr>pod_Meta = \<lparr>om_Name = om_Name (sj_Meta sj) @ ''-job'', om_Namespace = om_Namespace (sj_Meta sj),
                  om_UID = [], om_OwnerReferences = [], om_Labels = Map.empty\<rparr>,
      pod_Affinity = aff,
      pod_RunAsUser = jcUID r,
      pod_RunAsGroup = jcGID r,
      pod_Tolerations = DefaultTolerations,
      pod_Containers = [\<lparr>ct_Name = ''jt1'', ct_Image = ''no-image''\<rparr>],
      pod_NodeSelector = nodeSelectorForSj sj,
      pod_RestartPolicy = ''Never'',
      pod_Phase = []\<rparr>"

text \<open>
  The error is compared with this package's own \<open>errAffinityIsNotRequired\<close>, a different
  value from the one \<open>controller.AffinityForResources\<close> returns.
\<close>

definition newPodForSJ :: "reconciler \<Rightarrow> 'v slurm_job \<Rightarrow> pod go" where
  "newPodForSJ r sj =
     (case affinityForSj sj of
        Err e \<Rightarrow>
          (if e \<noteq> Slurmjob_errAffinityIsNotRequired
           then Err (Wrapped ''could not form slurm job pod affinity'' e)
           else Ok (sj_pod r sj None))
      | Ok affinity \<Rightarrow> Ok (sj_pod r sj (Some affinity))
      | Panic m \<Rightarrow> Panic m)"

section \<open>The pod of a WlmJob\<close>

definition wj_resources :: "'v wlm_job \<Rightarrow> resources" where
  "wj_resources wj =
     (let res = wjs_Resources (wj_Spec wj)
      in \<lparr>r_Nodes = wr_Nodes res, r_MemPerNode = wr_MemPerNode res, r_CPUPerNode = wr_CPUPerNode res,
          r_WallTime = mul64 (wr_WallTime res) time_Second\<rparr>)"

definition nodeSelectorForWj :: "'v wlm_job \<Rightarrow> (string \<rightharpoonup> string)" where
  "nodeSelectorForWj wj = DefaultNodeSelectors ++ wjs_NodeSelector (wj_Spec wj)"

definition wj_pod :: "reconciler \<Rightarrow> 'v wlm_job \<Rightarrow> affinity option \<Rightarrow> pod" where
  "wj_pod r wj aff =
     \<lparr>pod_Meta = \<lparr>om_Name = om_Name (wj_Meta wj) @ ''-wlm-job'', om_Namespace = om_Namespace (wj_Meta wj),
                  om_UID = [], om_OwnerReferences = [], om_Labels = Map.empty\<rparr>,
      pod_Affinity = aff,
      pod_RunAsUser = jcUID r,
      pod_RunAsGroup = jcGID r,
      pod_Tolerations = DefaultTolerations,
      pod_Containers = [\<lparr>ct_Name = ''jt2'', ct_Image = ''no-image''\<rparr>],
      pod_NodeSelector = nodeSelectorForWj wj,
      pod_RestartPolicy = ''Never'',
      pod_Phase = []\<rparr>"

definition newPodForWJ :: "reconciler \<Rightarrow> 'v wlm_job \<Rightarrow> pod go" where
  "newPodForWJ r wj =
     (case AffinityForResources (wj_resources wj) of
        Err e \<Rightarrow>
          (if e \<noteq> Controller_ErrAffinityIsNotRequired
           then Err (Wrapped ''could not get job affinity'' e)
           else Ok (wj_pod r wj None))
      | Ok affinity \<Rightarrow> Ok (wj_pod r wj (Some affinity))
      | Panic m \<Rightarrow> Panic m)"

section \<open>Where a pod may run\<close>

text \<open>
  The labels a node needs for a pod: every entry of the node selector, and the affinity
  when there is one.
\<close>

definition node_selected :: "(string \<rightharpoonup> string) \<Rightarrow> (string \<rightharpoonup> string) \<Rightarrow> bool" where
  "node_selected sel ls \<longleftrightarrow> sel \<subseteq>\<^sub>m ls"

definition pod_fits :: "pod \<Rightarrow> (string \<rightharpoonup> string) \<Rightarrow> bool" where
  "pod_fits p ls \<longleftrightarrow> node_selected (pod_NodeSelector p) ls \<and>
     (case pod_Affinity p of None \<Rightarrow> True | Some a \<Rightarrow> affinity_matches a ls)"

text \<open>
  The specification: the job's own selectors, the default selector unless the job overrides
  it, and labels that meet the resources.
\<close>

definition job_fits :: "(string \<rightharpoonup> string) \<Rightarrow> resources \<Rightarrow> (string \<rightharpoonup> string) \<Rightarrow> bool" where
  "job_fits sel r ls \<longleftrightarrow> sel \<subseteq>\<^sub>m ls \<and> (''type'' \<in> dom sel \<or> ls ''type'' = Some ''virtual-kubelet'') \<and> meets ls r"

lemma default_selectors_fit:
  "node_selected (DefaultNodeSelectors ++ sel) ls \<longleftrightarrow>
     sel \<subseteq>\<^sub>m ls \<and> (''type'' \<in> dom sel \<or> ls ''type'' = Some ''virtual-kubelet'')"
proof
  assume sel: "node_selected (DefaultNodeSelectors ++ sel) ls"
  then have sub: "sel \<subseteq>\<^sub>m ls" unfolding node_selected_def by (rule map_add_le_mapE)
  have "ls ''type'' = Some ''virtual-kubelet''" if "''type'' \<notin> dom sel"
  proof -
    have "(DefaultNodeSelectors ++ sel) ''type'' = Some ''virtual-kubelet''"
      using that by (simp add: map_add_dom_app_simps DefaultNodeSelectors_def)
    with sel show ?thesis unfolding node_selected_def map_le_def
      by (metis domI)
  qed
  with sub show "sel \<subseteq>\<^sub>m ls \<and> (''type'' \<in> dom sel \<or> ls ''type'' = Some ''virtual-kubelet'')" by blast
next
  assume spec: "sel \<subseteq>\<^sub>m ls \<and> (''type'' \<in> dom sel \<or> ls ''type'' = Some ''virtual-kubelet'')"
  have "ls k = Some v" if "(DefaultNodeSelectors ++ sel) k = Some v" for k v
  proof (cases "sel k")
    case None
    with that have "k = ''type''" "v = ''virtual-kubelet''"
      by (simp_all add: map_add_def DefaultNodeSelectors_def split: if_splits)
    with spec None show ?thesis by (simp add: domIff)
  next
    case (Some u)
    with that have "sel k = Some v" by simp
    with spec show ?thesis by (auto simp: map_le_def dom_def)
  qed
  then show "node_selected (DefaultNodeSelectors ++ sel) ls"
    unfolding node_selected_def map_le_def by (metis domD)
qed

lemma sj_pod_fits:
  assumes "AffinityForResources r = Ok a" "resources_in_range r" "no_min r"
  shows "pod_fits (sj_pod rc sj (Some a)) ls = job_fits (sjs_NodeSelector (sj_Spec sj)) r ls"
  using AffinityForResources_matches [OF assms(2,3,1)]
  by (simp add: pod_fits_def sj_pod_def nodeSelectorForSj_def default_selectors_fit job_fits_def)

lemma wj_pod_fits:
  assumes "AffinityForResources r = Ok a" "resources_in_range r" "no_min r"
  shows "pod_fits (wj_pod rc wj (Some a)) ls = job_fits (wjs_NodeSelector (wj_Spec wj)) r ls"
  using AffinityForResources_matches [OF assms(2,3,1)]
  by (simp add: pod_fits_def wj_pod_def nodeSelectorForWj_def default_selectors_fit job_fits_def)

lemma meets_no_resources [simp]: "meets ls no_resources"
  by (simp add: meets_def no_resources_def)

lemma wj_pod_fits_none:
  "pod_fits (wj_pod rc wj None) ls = job_fits (wjs_NodeSelector (wj_Spec wj)) no_resources ls"
  by (simp add: pod_fits_def wj_pod_def nodeSelectorForWj_def default_selectors_fit job_fits_def)

section \<open>Properties\<close>

text \<open>
  C17. The pod of a SlurmJob whose script asks for resources is scheduled exactly on the nodes
  that carry the job's node selector (with the virtual-kubelet default) and labels of at
  least the amounts the script asks for; its name and namespace are those of the job.
\<close>

theorem newPodForSJ_schedulable:
  assumes "extractBatchResources (sjs_Batch (sj_Spec sj)) = Ok r" "r \<noteq> no_resources" "no_min r"
  shows "\<exists>p. newPodForSJ rc sj = Ok p \<and>
    meta_key (pod_Meta p) = (om_Namespace (sj_Meta sj), om_Name (sj_Meta sj) @ ''-job'') \<and>
    (\<forall>ls. pod_fits p ls = job_fits (sjs_NodeSelector (sj_Spec sj)) r ls)"
proof -
  from assms(2) obtain a where a: "AffinityForResources r = Ok a"
    by (auto simp: AffinityForResources_def node_match_Nil)
  with assms(1) have "newPodForSJ rc sj = Ok (sj_pod rc sj (Some a))"
    by (simp add: newPodForSJ_def affinityForSj_def)
  with sj_pod_fits [OF a extractBatchResources_range [OF assms(1)] assms(3), of rc sj] show ?thesis
    by (simp add: sj_pod_def meta_key_def)
qed

definition example_rc :: reconciler where
  "example_rc = \<lparr>jcUID = 1000, jcGID = 1000\<rparr>"

definition example_sj :: "string \<Rightarrow> unit slurm_job" where
  "example_sj batch =
     \<lparr>sj_Meta = \<lparr>om_Name = ''cow'', om_Namespace = ''default'', om_UID = ''u1'', om_OwnerReferences = [], om_Labels = Map.empty\<rparr>,
      sj_Spec = \<lparr>sjs_Batch = batch, sjs_NodeSelector = Map.empty, sjs_Prepare = None, sjs_Results = None\<rparr>,
      sj_Status = \<lparr>sjst_Status = []\<rparr>\<rparr>"

lemma example_batch_two_nodes:
  "extractBatchResources (print_script (print_resources (no_resources\<lparr>r_Nodes := 2\<rparr>)) []) =
   Ok (no_resources\<lparr>r_Nodes := 2\<rparr>)"
  using print_resources_short [of "no_resources\<lparr>r_Nodes := 2\<rparr>"]
    line_spec_printed [of "no_resources\<lparr>r_Nodes := 2\<rparr>"]
  by (subst extractBatchResources_lines, subst script_params_printed)
    (simp_all add: no_resources_def resources_in_range_def int64_defs tdiv_def starts_body_def)

theorem newPodForSJ_schedulable_witness:
  "\<exists>p. newPodForSJ example_rc (example_sj (print_script (print_resources (no_resources\<lparr>r_Nodes := 2\<rparr>)) [])) = Ok p \<and>
     meta_key (pod_Meta p) = (''default'', ''cow-job'') \<and>
     \<not> pod_fits p [''type'' \<mapsto> ''virtual-kubelet'', nodes_key \<mapsto> ''1''] \<and>
     pod_fits p [''type'' \<mapsto> ''virtual-kubelet'', nodes_key \<mapsto> ''2'']"
proof -
  define sj where "sj = example_sj (print_script (print_resources (no_resources\<lparr>r_Nodes := 2\<rparr>)) [])"
  have "\<exists>p. newPodForSJ example_rc sj = Ok p \<and>
      meta_key (pod_Meta p) = (om_Namespace (sj_Meta sj), om_Name (sj_Meta sj) @ ''-job'') \<and>
      (\<forall>ls. pod_fits p ls = job_fits (sjs_NodeSelector (sj_Spec sj)) (no_resources\<lparr>r_Nodes := 2\<rparr>) ls)"
    by (rule newPodForSJ_schedulable)
      (simp_all add: sj_def example_sj_def example_batch_two_nodes, simp_all add: no_resources_def no_min_def int64_defs)
  then obtain p where p: "newPodForSJ example_rc sj = Ok p" "meta_key (pod_Meta p) = (''default'', ''cow-job'')"
    "\<And>ls. pod_fits p ls = job_fits Map.empty (no_resources\<lparr>r_Nodes := 2\<rparr>) ls"
    by (auto simp: sj_def example_sj_def)
  have nums: "strconv_ParseInt ''1'' = Ok 1" "strconv_ParseInt ''2'' = Ok 2"
    by (simp_all add: strconv_ParseInt_def is_digit_def digit_val_def)
  have "job_fits Map.empty (no_resources\<lparr>r_Nodes := 2\<rparr>) [''type'' \<mapsto> ''virtual-kubelet'', nodes_key \<mapsto> ''2'']"
    "\<not> job_fits Map.empty (no_resources\<lparr>r_Nodes := 2\<rparr>) [''type'' \<mapsto> ''virtual-kubelet'', nodes_key \<mapsto> ''1'']"
    by (simp_all add: job_fits_def meets_def no_resources_def label_at_least_def nums nodes_key_def)
  with p show ?thesis unfolding sj_def by blast
qed

text \<open>
  C23. A SlurmJob whose script asks for no resources never gets a pod: the sentinel of the
  affinity code is not the one the pod code tests for, so the translation fails.
\<close>

theorem newPodForSJ_without_resources:
  assumes "extractBatchResources (sjs_Batch (sj_Spec sj)) = Ok no_resources"
  shows "newPodForSJ rc sj =
    Err (Wrapped ''could not form slurm job pod affinity'' Controller_ErrAffinityIsNotRequired)"
  using assms by (simp add: newPodForSJ_def affinityForSj_def AffinityForResources_def node_match_def no_resources_def)

theorem newPodForSJ_without_resources_witness:
  "newPodForSJ example_rc (example_sj ''srun hostname'') =
     Err (Wrapped ''could not form slurm job pod affinity'' Controller_ErrAffinityIsNotRequired)"
proof -
  have "raw_lines ''srun hostname'' = [''srun hostname'']"
    by (simp add: raw_lines_def newline_def)
  then have "scan_lines ''srun hostname'' = [''srun hostname'']"
    by (simp add: scan_lines_def drop_cr_def maxScanLine_def)
  then have "extractBatchResources ''srun hostname'' = Ok no_resources"
    by (simp add: extractBatchResources_def strings_HasPrefix_def sbatchHeader_def)
  then show ?thesis by (intro newPodForSJ_without_resources) (simp add: example_sj_def)
qed

definition wj_in_range :: "'v wlm_job \<Rightarrow> bool" where
  "wj_in_range wj \<longleftrightarrow>
     (let res = wjs_Resources (wj_Spec wj)
      in in_int64 (wr_Nodes res) \<and> in_int64 (wr_MemPerNode res) \<and> in_int64 (wr_CPUPerNode res) \<and>
         wr_Nodes res \<noteq> min_int64 \<and> wr_MemPerNode res \<noteq> min_int64 \<and> wr_CPUPerNode res \<noteq> min_int64)"

text \<open>
  The specification of a WlmJob's node, from the fields of the job. The wall time is in seconds; it
  is the amount of the label unless its nanoseconds do not fit into 64 bits, when it is what is left
  of them.
\<close>

definition wall_label_ok :: "(string \<rightharpoonup> string) \<Rightarrow> int \<Rightarrow> bool" where
  "wall_label_ok ls seconds =
     (if \<bar>seconds\<bar> \<le> 9223372036
      then seconds = 0 \<or> label_at_least ls ''wlm.sylabs.io/wall-time'' seconds
      else (let left = (seconds * 1000000000 + 2 ^ 63) mod 2 ^ 64 - 2 ^ 63
            in left = 0 \<or> label_at_least ls ''wlm.sylabs.io/wall-time'' (tdiv left 1000000000)))"

definition wlm_job_fits :: "'v wlm_job \<Rightarrow> (string \<rightharpoonup> string) \<Rightarrow> bool" where
  "wlm_job_fits wj ls \<longleftrightarrow>
     (let sel = wjs_NodeSelector (wj_Spec wj); res = wjs_Resources (wj_Spec wj)
      in sel \<subseteq>\<^sub>m ls \<and> (''type'' \<in> dom sel \<or> ls ''type'' = Some ''virtual-kubelet'') \<and>
         (wr_Nodes res = 0 \<or> label_at_least ls ''wlm.sylabs.io/nodes'' (wr_Nodes res)) \<and>
         (wr_CPUPerNode res = 0 \<or> label_at_least ls ''wlm.sylabs.io/cpu-per-node'' (wr_CPUPerNode res)) \<and>
         (wr_MemPerNode res = 0 \<or> label_at_least ls ''wlm.sylabs.io/mem-per-node'' (wr_MemPerNode res)) \<and>
         wall_label_ok ls (wr_WallTime res))"

lemma wall_label_ok_mul64:
  "wall_label_ok ls seconds \<longleftrightarrow>
     (let d = mul64 seconds time_Second in d = 0 \<or> label_at_least ls wall_key (tdiv d time_Second))"
proof (cases "\<bar>seconds\<bar> \<le> 9223372036")
  case True
  then have "mul64 seconds time_Second = seconds * 1000000000"
    unfolding mul64_def time_units by (intro wrap64_id) (simp add: int64_defs abs_le_iff)
  then show ?thesis using True by (simp add: wall_label_ok_def wall_key_def time_units)
next
  case False
  then show ?thesis by (simp add: wall_label_ok_def wall_key_def time_units mul64_def wrap64_def)
qed

lemma wlm_job_fits_meets:
  "wlm_job_fits wj ls = job_fits (wjs_NodeSelector (wj_Spec wj)) (wj_resources wj) ls"
  by (auto simp: wlm_job_fits_def job_fits_def meets_def wj_resources_def wall_label_ok_mul64 nodes_key_def mem_key_def
      cpu_key_def Let_def)

text \<open>
  C18. Every WlmJob whose amounts are in range, the smallest int64 excepted, is translated to a pod
  under the name and namespace of the job, which runs exactly on the nodes that carry the job's
  selector (with the virtual-kubelet default) and a label of at least the job's amount for each of
  its nodes, CPUs, memory and wall time in seconds that is not 0.
\<close>

theorem newPodForWJ_schedulable:
  assumes "wj_in_range wj"
  shows "\<exists>p. newPodForWJ rc wj = Ok p \<and>
    meta_key (pod_Meta p) = (om_Namespace (wj_Meta wj), om_Name (wj_Meta wj) @ ''-wlm-job'') \<and>
    (\<forall>ls. pod_fits p ls = wlm_job_fits wj ls)"
proof (cases "wj_resources wj = no_resources")
  case True
  then have "newPodForWJ rc wj = Ok (wj_pod rc wj None)"
    by (simp add: newPodForWJ_def AffinityForResources_def node_match_def no_resources_def)
  with True show ?thesis using wj_pod_fits_none [of rc wj] by (simp add: wj_pod_def meta_key_def wlm_job_fits_meets)
next
  case False
  then obtain a where a: "AffinityForResources (wj_resources wj) = Ok a"
    by (auto simp: AffinityForResources_def node_match_Nil)
  have "resources_in_range (wj_resources wj)" "no_min (wj_resources wj)"
    using assms by (simp_all add: wj_in_range_def wj_resources_def resources_in_range_def no_min_def
        Let_def mul64_def)
  with a show ?thesis using wj_pod_fits [OF a, of rc wj]
    by (simp add: newPodForWJ_def wlm_job_fits_meets) (simp add: wj_pod_def meta_key_def)
qed

definition example_wj :: "wlm_resources \<Rightarrow> unit wlm_job" where
  "example_wj res =
     \<lparr>wj_Meta = \<lparr>om_Name = ''lolcow'', om_Namespace = ''default'', om_UID = ''u2'', om_OwnerReferences = [], om_Labels = Map.empty\<rparr>,
      wj_Spec = \<lparr>wjs_Image = ''library://lolcow'',
        wjs_Options = \<lparr>so_AllowUnsigned = False, so_CleanEnv = False, so_FakeRoot = False, so_IPC = False,
          so_PID = False, so_NoPrivs = False, so_Writable = False, so_App = [], so_HostName = [], so_Binds = []\<rparr>,
        wjs_Resources = res, wjs_NodeSelector = Map.empty, wjs_Results = None\<rparr>,
      wj_Status = \<lparr>wjst_Status = []\<rparr>\<rparr>"

theorem newPodForWJ_schedulable_witness:
  "\<exists>p. newPodForWJ example_rc (example_wj \<lparr>wr_Nodes = 1, wr_CPUPerNode = 0, wr_MemPerNode = 0, wr_WallTime = 2\<rparr>) = Ok p \<and>
     \<not> pod_fits p [''type'' \<mapsto> ''virtual-kubelet'', nodes_key \<mapsto> ''1'', wall_key \<mapsto> ''1''] \<and>
     pod_fits p [''type'' \<mapsto> ''virtual-kubelet'', nodes_key \<mapsto> ''1'', wall_key \<mapsto> ''2'']"
proof -
  define wj where "wj = example_wj \<lparr>wr_Nodes = 1, wr_CPUPerNode = 0, wr_MemPerNode = 0, wr_WallTime = 2\<rparr>"
  have nums: "strconv_ParseInt ''1'' = Ok 1" "strconv_ParseInt ''2'' = Ok 2"
    by (simp_all add: strconv_ParseInt_def is_digit_def digit_val_def)
  have "wj_in_range wj"
    by (simp add: wj_def example_wj_def wj_in_range_def int64_defs)
  from newPodForWJ_schedulable [OF this, of example_rc] show ?thesis
    by (auto simp: wj_def example_wj_def wlm_job_fits_def wall_label_ok_def label_at_least_def nodes_key_def wall_key_def
        nums map_le_def)
qed

end
