(* ===== verification/Object_Tracker.thy ===== *)
theory Object_Tracker
  imports Api_Types
begin

text \<open>
  The object store the generated fake clients of the custom resources work on,
  \<open>k8s.io/client-go/testing/fixture.go\<close>: objects of one resource, kept in a list and found by
  namespace and name. The contract of a store is the locale \<open>object_store\<close>; the tracker is
  shown to meet it for pods and for both kinds of jobs.
\<close>

section \<open>The tracker\<close>

text \<open>
  An object is read through its metadata (\<open>meta.Accessor\<close>). An empty namespace or name asks
  for any.
\<close>

definition filterByNamespaceAndName :: "('o \<Rightarrow> object_meta) \<Rightarrow> 'o list \<Rightarrow> string \<Rightarrow> string \<Rightarrow> 'o list" where
  "filterByNamespaceAndName meta objs ns name =
     filter (\<lambda>x. \<not> (ns \<noteq> [] \<and> om_Namespace (meta x) \<noteq> ns) \<and> \<not> (name \<noteq> [] \<and> om_Name (meta x) \<noteq> name)) objs"

definition tracker_Get :: "('o \<Rightarrow> object_meta) \<Rightarrow> 'o list \<Rightarrow> string \<Rightarrow> string \<Rightarrow> 'o go" where
  "tracker_Get meta objs ns name =
     (let matchingObjs = filterByNamespaceAndName meta objs ns name
      in if length matchingObjs = 0 then Err ApiNotFound
         else if length matchingObjs > 1 then Err (ErrorString ''more than one object matched'')
         else Ok (matchingObjs ! 0))"

definition tracker_List :: "('o \<Rightarrow> object_meta) \<Rightarrow> 'o list \<Rightarrow> string \<Rightarrow> 'o list" where
  "tracker_List meta objs ns = filterByNamespaceAndName meta objs ns []"

text \<open>The loop of \<open>add\<close> over the objects, and what follows it.\<close>

fun tracker_put :: "('o \<Rightarrow> object_meta) \<Rightarrow> 'o \<Rightarrow> bool \<Rightarrow> 'o list \<Rightarrow> 'o list go" where
  "tracker_put meta obj replaceExisting [] =
     (if replaceExisting then Err ApiNotFound else Ok [obj])"
| "tracker_put meta obj replaceExisting (x # xs) =
     (if om_Namespace (meta x) = om_Namespace (meta obj) \<and> om_Name (meta x) = om_Name (meta obj)
      then (if replaceExisting then Ok (obj # xs) else Err ApiAlreadyExists)
      else go_bind (tracker_put meta obj replaceExisting xs) (\<lambda>xs. Ok (x # xs)))"

definition tracker_add ::
  "('o \<Rightarrow> object_meta) \<Rightarrow> (string \<Rightarrow> 'o \<Rightarrow> 'o) \<Rightarrow> 'o list \<Rightarrow> 'o \<Rightarrow> string \<Rightarrow> bool \<Rightarrow> 'o list go" where
  "tracker_add meta set_ns objs obj ns replaceExisting =
     (let obj = (if om_Namespace (meta obj) = [] then set_ns ns obj else obj)
      in if ns \<noteq> om_Namespace (meta obj)
         then Err (ErrorString ''request namespace does not match object namespace'')
         else tracker_put meta obj replaceExisting objs)"

definition tracker_Create ::
  "('o \<Rightarrow> object_meta) \<Rightarrow> (string \<Rightarrow> 'o \<Rightarrow> 'o) \<Rightarrow> 'o list \<Rightarrow> 'o \<Rightarrow> string \<Rightarrow> 'o list go" where
  "tracker_Create meta set_ns objs obj ns = tracker_add meta set_ns objs obj ns False"

definition tracker_Update ::
  "('o \<Rightarrow> object_meta) \<Rightarrow> (string \<Rightarrow> 'o \<Rightarrow> 'o) \<Rightarrow> 'o list \<Rightarrow> 'o \<Rightarrow> string \<Rightarrow> 'o list go" where
  "tracker_Update meta set_ns objs obj ns = tracker_add meta set_ns objs obj ns True"

fun tracker_Delete :: "('o \<Rightarrow> object_meta) \<Rightarrow> 'o list \<Rightarrow> string \<Rightarrow> string \<Rightarrow> 'o list go" where
  "tracker_Delete meta [] ns name = Err ApiNotFound"
| "tracker_Delete meta (x # xs) ns name =
     (if om_Namespace (meta x) = ns \<and> om_Name (meta x) = name then Ok xs
      else go_bind (tracker_Delete meta xs ns name) (\<lambda>xs. Ok (x # xs)))"

section \<open>Views and well-formed trackers\<close>

definition named :: "obj_key \<Rightarrow> bool" where
  "named k \<longleftrightarrow> fst k \<noteq> [] \<and> snd k \<noteq> []"

definition tracker_view :: "('o \<Rightarrow> object_meta) \<Rightarrow> 'o list \<Rightarrow> obj_key \<Rightarrow> 'o option" where
  "tracker_view meta objs = map_of (map (\<lambda>x. (meta_key (meta x), x)) objs)"

definition tracker_ok :: "('o \<Rightarrow> object_meta) \<Rightarrow> 'o list \<Rightarrow> bool" where
  "tracker_ok meta objs \<longleftrightarrow>
     distinct (map (meta_key \<circ> meta) objs) \<and> (\<forall>x \<in> set objs. named (meta_key (meta x)))"

lemma tracker_view_simps [simp]:
  "tracker_view meta [] = Map.empty"
  "tracker_view meta (x # xs) = (tracker_view meta xs)(meta_key (meta x) \<mapsto> x)"
  by (simp_all add: tracker_view_def)

lemma tracker_view_Some: "tracker_view meta objs k = Some x \<Longrightarrow> x \<in> set objs \<and> meta_key (meta x) = k"
  by (auto simp: tracker_view_def dest!: map_of_SomeD)

lemma tracker_view_None: "tracker_view meta objs k = None \<longleftrightarrow> (\<forall>x \<in> set objs. meta_key (meta x) \<noteq> k)"
  by (auto simp: tracker_view_def map_of_eq_None_iff image_iff)

lemma tracker_ok_Cons:
  "tracker_ok meta (x # xs) \<longleftrightarrow>
     tracker_ok meta xs \<and> named (meta_key (meta x)) \<and> tracker_view meta xs (meta_key (meta x)) = None"
  by (auto simp: tracker_ok_def tracker_view_None image_iff)

lemma tracker_ok_Nil [simp]: "tracker_ok meta []"
  by (simp add: tracker_ok_def)

lemma tracker_view_member: "tracker_ok meta s \<Longrightarrow> x \<in> set s \<Longrightarrow> tracker_view meta s (meta_key (meta x)) = Some x"
  by (induction s) (auto simp: tracker_ok_Cons)

lemma tracker_ran: "tracker_ok meta s \<Longrightarrow> ran (tracker_view meta s) = set s"
  using tracker_view_Some [of meta s] tracker_view_member [of meta s] unfolding ran_def by blast

lemma same_key_iff:
  "om_Namespace (meta x) = om_Namespace (meta y) \<and> om_Name (meta x) = om_Name (meta y) \<longleftrightarrow>
   meta_key (meta x) = meta_key (meta y)"
  by (simp add: meta_key_def)

lemma filter_key:
  assumes "tracker_ok meta objs" "named (ns, name)"
  shows "filterByNamespaceAndName meta objs ns name =
    (case tracker_view meta objs (ns, name) of None \<Rightarrow> [] | Some x \<Rightarrow> [x])"
  using assms
proof (induction objs)
  case (Cons x xs)
  then show ?case
    by (auto simp: filterByNamespaceAndName_def tracker_ok_Cons meta_key_def named_def
        split: option.splits)
qed (simp add: filterByNamespaceAndName_def)

lemma tracker_Get_view:
  assumes "tracker_ok meta objs" "named k"
  shows "tracker_Get meta objs (fst k) (snd k) =
    (case tracker_view meta objs k of None \<Rightarrow> Err ApiNotFound | Some x \<Rightarrow> Ok x)"
  using filter_key [of meta objs "fst k" "snd k"] assms
  by (auto simp: tracker_Get_def split: option.splits)

lemma tracker_put_create:
  assumes "tracker_ok meta objs" "named (meta_key (meta obj))"
  shows "case tracker_put meta obj False objs of
      Ok objs' \<Rightarrow> tracker_view meta objs (meta_key (meta obj)) = None \<and> tracker_ok meta objs' \<and>
        tracker_view meta objs' = (tracker_view meta objs)(meta_key (meta obj) \<mapsto> obj)
    | Err e \<Rightarrow> e = ApiAlreadyExists \<and> tracker_view meta objs (meta_key (meta obj)) \<noteq> None
    | Panic s \<Rightarrow> False"
  using assms
proof (induction objs)
  case (Cons x xs)
  then show ?case
    by (cases "tracker_put meta obj False xs") (auto simp: tracker_ok_Cons same_key_iff fun_upd_twist)
qed (simp add: tracker_ok_Cons)

lemma tracker_put_update:
  assumes "tracker_ok meta objs" "named (meta_key (meta obj))"
  shows "case tracker_put meta obj True objs of
      Ok objs' \<Rightarrow> tracker_view meta objs (meta_key (meta obj)) \<noteq> None \<and> tracker_ok meta objs' \<and>
        tracker_view meta objs' = (tracker_view meta objs)(meta_key (meta obj) \<mapsto> obj)
    | Err e \<Rightarrow> e = ApiNotFound \<and> tracker_view meta objs (meta_key (meta obj)) = None
    | Panic s \<Rightarrow> False"
  using assms
proof (induction objs)
  case (Cons x xs)
  then show ?case
    by (cases "tracker_put meta obj True xs") (auto simp: tracker_ok_Cons same_key_iff fun_upd_twist)
qed simp

lemma tracker_Delete_view:
  assumes "tracker_ok meta objs"
  shows "case tracker_Delete meta objs (fst k) (snd k) of
      Ok objs' \<Rightarrow> tracker_view meta objs k \<noteq> None \<and> tracker_ok meta objs' \<and>
        tracker_view meta objs' = (tracker_view meta objs)(k := None)
    | Err e \<Rightarrow> e = ApiNotFound \<and> tracker_view meta objs k = None
    | Panic s \<Rightarrow> False"
  using assms
proof (induction objs)
  case (Cons x xs)
  have key: "om_Namespace (meta x) = fst k \<and> om_Name (meta x) = snd k \<longleftrightarrow> meta_key (meta x) = k"
    by (cases k) (auto simp: meta_key_def)
  from Cons show ?case
    by (cases "tracker_Delete meta xs (fst k) (snd k)")
      (auto simp: tracker_ok_Cons key fun_upd_twist fun_upd_idem)
qed simp

section \<open>The contract of a store\<close>

text \<open>
  What a client of an object store relies on: the store is a map from keys to objects;
  creating adds an object with a new key, updating replaces one, deleting removes one, and
  nothing else changes.
\<close>

locale object_store =
  fixes key :: "'o \<Rightarrow> obj_key"
    and get :: "'s \<Rightarrow> obj_key \<Rightarrow> 'o go"
    and create update :: "'s \<Rightarrow> 'o \<Rightarrow> 's go"
    and delete :: "'s \<Rightarrow> obj_key \<Rightarrow> 's go"
    and view :: "'s \<Rightarrow> obj_key \<Rightarrow> 'o option"
    and ok :: "'s \<Rightarrow> bool"
  assumes view_key: "ok s \<Longrightarrow> view s k = Some x \<Longrightarrow> key x = k \<and> named k"
    and get_view: "ok s \<Longrightarrow> named k \<Longrightarrow>
      get s k = (case view s k of None \<Rightarrow> Err ApiNotFound | Some x \<Rightarrow> Ok x)"
    and create_view: "ok s \<Longrightarrow> named (key x) \<Longrightarrow> view s (key x) = None \<Longrightarrow>
      \<exists>s'. create s x = Ok s' \<and> ok s' \<and> view s' = (view s)(key x \<mapsto> x)"
    and create_exists: "ok s \<Longrightarrow> named (key x) \<Longrightarrow> view s (key x) \<noteq> None \<Longrightarrow>
      create s x = Err ApiAlreadyExists"
    and update_view: "ok s \<Longrightarrow> named (key x) \<Longrightarrow> view s (key x) \<noteq> None \<Longrightarrow>
      \<exists>s'. update s x = Ok s' \<and> ok s' \<and> view s' = (view s)(key x \<mapsto> x)"
    and update_missing: "ok s \<Longrightarrow> named (key x) \<Longrightarrow> view s (key x) = None \<Longrightarrow>
      update s x = Err ApiNotFound"
    and delete_view: "ok s \<Longrightarrow> named k \<Longrightarrow> view s k \<noteq> None \<Longrightarrow>
      \<exists>s'. delete s k = Ok s' \<and> ok s' \<and> view s' = (view s)(k := None)"
    and delete_missing: "ok s \<Longrightarrow> named k \<Longrightarrow> view s k = None \<Longrightarrow> delete s k = Err ApiNotFound"
begin

lemma created_is_found:
  assumes "ok s" "named (key x)" "create s x = Ok s'" "named k"
  shows "get s' k = (if k = key x then Ok x else get s k)"
proof -
  from assms create_exists [of s x] have "view s (key x) = None" by fastforce
  with create_view [OF assms(1,2)] assms(3) have "ok s'" "view s' = (view s)(key x \<mapsto> x)" by auto
  with assms show ?thesis by (simp add: get_view)
qed

lemma create_twice:
  assumes "ok s" "named (key x)" "create s x = Ok s'"
  shows "create s' x = Err ApiAlreadyExists"
proof -
  from assms create_exists [of s x] have "view s (key x) = None" by fastforce
  with create_view [OF assms(1,2)] assms(3) have "ok s'" "view s' = (view s)(key x \<mapsto> x)" by auto
  with assms(2) show ?thesis by (simp add: create_exists)
qed

lemma deleted_is_absent:
  assumes "ok s" "named k" "delete s k = Ok s'" "named k'"
  shows "get s' k' = (if k' = k then Err ApiNotFound else get s k')"
proof -
  from assms delete_missing [of s k] have "view s k \<noteq> None" by fastforce
  with delete_view [OF assms(1,2)] assms(3) have "ok s'" "view s' = (view s)(k := None)" by auto
  with assms show ?thesis by (simp add: get_view)
qed

lemma recreated:
  assumes "ok s" "named (key x)" "delete s (key x) = Ok s'"
  shows "\<exists>s''. create s' x = Ok s'' \<and> view s'' = (view s)(key x \<mapsto> x)"
proof -
  from assms delete_missing [of s "key x"] have "view s (key x) \<noteq> None" by fastforce
  with delete_view [OF assms(1,2)] assms(3) have "ok s'" "view s' = (view s)(key x := None)" by auto
  with create_view [of s' x] assms(2) show ?thesis by auto
qed

end

text \<open>Objects whose namespace can be set.\<close>

locale api_object =
  fixes meta :: "'o \<Rightarrow> object_meta" and set_ns :: "string \<Rightarrow> 'o \<Rightarrow> 'o"
  assumes meta_set_ns: "meta (set_ns n x) = (meta x)\<lparr>om_Namespace := n\<rparr>"
begin

lemma tracker_Create_own:
  "named (meta_key (meta x)) \<Longrightarrow>
   tracker_Create meta set_ns s x (om_Namespace (meta x)) = tracker_put meta x False s"
  by (simp add: tracker_Create_def tracker_add_def named_def meta_key_def)

lemma tracker_Update_own:
  "named (meta_key (meta x)) \<Longrightarrow>
   tracker_Update meta set_ns s x (om_Namespace (meta x)) = tracker_put meta x True s"
  by (simp add: tracker_Update_def tracker_add_def named_def meta_key_def)

lemma tracker_Create_namespace:
  assumes "om_Namespace (meta x) = []" "ns \<noteq> []"
  shows "tracker_Create meta set_ns s x ns = tracker_put meta (set_ns ns x) False s"
  using assms by (simp add: tracker_Create_def tracker_add_def meta_set_ns)

end

sublocale api_object \<subseteq> store: object_store "\<lambda>x. meta_key (meta x)"
  "\<lambda>s k. tracker_Get meta s (fst k) (snd k)"
  "\<lambda>s x. tracker_Create meta set_ns s x (om_Namespace (meta x))"
  "\<lambda>s x. tracker_Update meta set_ns s x (om_Namespace (meta x))"
  "\<lambda>s k. tracker_Delete meta s (fst k) (snd k)"
  "tracker_view meta" "tracker_ok meta"
proof
  fix s :: "'o list" and x :: 'o
  assume s: "tracker_ok meta s" and x: "named (meta_key (meta x))"
  note put = tracker_put_create [OF s x] tracker_put_update [OF s x]
  show "tracker_view meta s (meta_key (meta x)) = None \<Longrightarrow>
      \<exists>s'. tracker_Create meta set_ns s x (om_Namespace (meta x)) = Ok s' \<and> tracker_ok meta s' \<and>
        tracker_view meta s' = (tracker_view meta s)(meta_key (meta x) \<mapsto> x)"
    using put(1) by (simp add: tracker_Create_own [OF x] split: go.splits)
  show "tracker_view meta s (meta_key (meta x)) \<noteq> None \<Longrightarrow>
      tracker_Create meta set_ns s x (om_Namespace (meta x)) = Err ApiAlreadyExists"
    using put(1) by (simp add: tracker_Create_own [OF x] split: go.splits)
  show "tracker_view meta s (meta_key (meta x)) \<noteq> None \<Longrightarrow>
      \<exists>s'. tracker_Update meta set_ns s x (om_Namespace (meta x)) = Ok s' \<and> tracker_ok meta s' \<and>
        tracker_view meta s' = (tracker_view meta s)(meta_key (meta x) \<mapsto> x)"
    using put(2) by (simp add: tracker_Update_own [OF x] split: go.splits)
  show "tracker_view meta s (meta_key (meta x)) = None \<Longrightarrow>
      tracker_Update meta set_ns s x (om_Namespace (meta x)) = Err ApiNotFound"
    using put(2) by (simp add: tracker_Update_own [OF x] split: go.splits)
next
  fix s :: "'o list" and k :: obj_key
  assume s: "tracker_ok meta s"
  show "tracker_view meta s k \<noteq> None \<Longrightarrow>
      \<exists>s'. tracker_Delete meta s (fst k) (snd k) = Ok s' \<and> tracker_ok meta s' \<and>
        tracker_view meta s' = (tracker_view meta s)(k := None)"
    using tracker_Delete_view [OF s, of k] by (simp split: go.splits)
  show "tracker_view meta s k = None \<Longrightarrow> tracker_Delete meta s (fst k) (snd k) = Err ApiNotFound"
    using tracker_Delete_view [OF s, of k] by (simp split: go.splits)
next
  show "tracker_ok meta s \<Longrightarrow> tracker_view meta s k = Some x \<Longrightarrow> meta_key (meta x) = k \<and> named k"
    for s k x
    by (auto dest!: tracker_view_Some simp: tracker_ok_def)
qed (rule tracker_Get_view)

definition pod_set_ns :: "string \<Rightarrow> pod \<Rightarrow> pod" where
  "pod_set_ns n p = p\<lparr>pod_Meta := (pod_Meta p)\<lparr>om_Namespace := n\<rparr>\<rparr>"

definition sj_set_ns :: "string \<Rightarrow> 'v slurm_job \<Rightarrow> 'v slurm_job" where
  "sj_set_ns n j = j\<lparr>sj_Meta := (sj_Meta j)\<lparr>om_Namespace := n\<rparr>\<rparr>"

definition wj_set_ns :: "string \<Rightarrow> 'v wlm_job \<Rightarrow> 'v wlm_job" where
  "wj_set_ns n j = j\<lparr>wj_Meta := (wj_Meta j)\<lparr>om_Namespace := n\<rparr>\<rparr>"

interpretation pods: api_object pod_Meta pod_set_ns
  by unfold_locales (simp add: pod_set_ns_def)

interpretation slurm_jobs: api_object sj_Meta sj_set_ns
  by unfold_locales (simp add: sj_set_ns_def)

interpretation wlm_jobs: api_object wj_Meta wj_set_ns
  by unfold_locales (simp add: wj_set_ns_def)

end
