(* ===== verification/Reconcile.thy ===== *)
theory Reconcile
  imports Job_Pods Object_Tracker
begin

text \<open>
  The two controllers, \<open>slurmjob_controller.go\<close> and \<open>wlmjob_controller.go\<close>: the same loop
  body over two kinds of jobs. The API client is a parameter. Its contract is the locale
  \<open>job_api\<close>, under which a reconciliation is a function of the jobs and pods; the tracker
  client meets the contract. The end of the theory is the cluster as a step relation, with
  the guarantee that a pod is not created again once the job has a status.
\<close>

section \<open>Owners\<close>

text \<open>\<open>schema.ParseGroupVersion\<close>\<close>

definition ParseGroupVersion :: "string \<Rightarrow> (string \<times> string) go" where
  "ParseGroupVersion gv =
     (if gv = [] \<or> gv = ''/'' then Ok ([], [])
      else
        (let parts = strings_Split CHR ''/'' gv
         in if length parts = 1 then Ok ([], gv)
            else if length parts = 2 then Ok (parts ! 0, parts ! 1)
            else Err (ErrorString (''unexpected GroupVersion string: '' @ gv))))"

record group_version_kind =
  gvk_Group :: string
  gvk_Version :: string
  gvk_Kind :: string

text \<open>\<open>GroupVersion.String\<close>\<close>

definition group_version_string :: "group_version_kind \<Rightarrow> string" where
  "group_version_string g =
     (if gvk_Group g = [] \<and> gvk_Version g = [] then []
      else if gvk_Group g \<noteq> [] then gvk_Group g @ ''/'' @ gvk_Version g
      else gvk_Version g)"

definition NewControllerRef :: "object_meta \<Rightarrow> group_version_kind \<Rightarrow> owner_reference" where
  "NewControllerRef owner gvk =
     \<lparr>or_APIVersion = group_version_string gvk, or_Kind = gvk_Kind gvk, or_Name = om_Name owner,
      or_UID = om_UID owner, or_Controller = Some True, or_BlockOwnerDeletion = Some True\<rparr>"

definition referSameObject :: "owner_reference \<Rightarrow> owner_reference \<Rightarrow> bool" where
  "referSameObject a b =
     (case ParseGroupVersion (or_APIVersion a) of
        Ok aGV \<Rightarrow>
          (case ParseGroupVersion (or_APIVersion b) of
             Ok bGV \<Rightarrow> aGV = bGV \<and> or_Kind a = or_Kind b \<and> or_Name a = or_Name b
           | _ \<Rightarrow> False)
      | _ \<Rightarrow> False)"

text \<open>The search through the existing references: the last one to the same object.\<close>

fun find_owner :: "owner_reference \<Rightarrow> nat \<Rightarrow> nat option \<Rightarrow> owner_reference list \<Rightarrow> nat option go" where
  "find_owner ref i fi [] = Ok fi"
| "find_owner ref i fi (r # rs) =
     (if referSameObject ref r then find_owner ref (Suc i) (Some i) rs
      else if or_Controller r = Some True
        then Err (ErrorString (''Object is already owned by another '' @ or_Kind r @ '' controller '' @ or_Name r))
      else find_owner ref (Suc i) fi rs)"

text \<open>The kind of the owner is looked up in the scheme, which may not know it.\<close>

definition SetControllerReference ::
  "group_version_kind go \<Rightarrow> object_meta \<Rightarrow> object_meta \<Rightarrow> object_meta go" where
  "SetControllerReference scheme owner obj =
     go_bind scheme (\<lambda>gvk.
       let ref = NewControllerRef owner gvk; existingRefs = om_OwnerReferences obj
       in go_bind (find_owner ref 0 None existingRefs) (\<lambda>fi.
          Ok (obj\<lparr>om_OwnerReferences :=
            (case fi of None \<Rightarrow> existingRefs @ [ref] | Some i \<Rightarrow> existingRefs[i := ref])\<rparr>)))"

section \<open>The reconciliation\<close>

text \<open>
  The calls of \<open>client.Client\<close> on a state of the world. \<open>Get\<close> fills the object it is passed,
  so it returns an object with the error.
\<close>

record ('j, 'w) api_client =
  ac_GetJob :: "obj_key \<Rightarrow> 'w \<Rightarrow> ('j \<times> go_error option) \<times> 'w"
  ac_GetPod :: "obj_key \<Rightarrow> 'w \<Rightarrow> (pod \<times> go_error option) \<times> 'w"
  ac_CreatePod :: "pod \<Rightarrow> 'w \<Rightarrow> go_error option \<times> 'w"
  ac_UpdateStatus :: "'j \<Rightarrow> 'w \<Rightarrow> go_error option \<times> 'w"

text \<open>What differs between the two controllers.\<close>

record 'j job_kind =
  jk_newPod :: "reconciler \<Rightarrow> 'j \<Rightarrow> pod go"
  jk_meta :: "'j \<Rightarrow> object_meta"
  jk_status :: "'j \<Rightarrow> string"
  jk_set_status :: "string \<Rightarrow> 'j \<Rightarrow> 'j"

definition IsNotFound :: "go_error \<Rightarrow> bool" where
  "IsNotFound e \<longleftrightarrow> e = ApiNotFound"

definition reconcile_job ::
  "'j job_kind \<Rightarrow> reconciler \<Rightarrow> group_version_kind go \<Rightarrow> ('j, 'w) api_client \<Rightarrow> obj_key \<Rightarrow> 'w \<Rightarrow> unit go \<times> 'w" where
  "reconcile_job kind rc scheme cl req w =
     (let ((job, err), w) = ac_GetJob cl req w
      in case err of
           Some e \<Rightarrow> (if IsNotFound e then (Ok (), w) else (Err e, w))
         | None \<Rightarrow>
             (case jk_newPod kind rc job of
                Err e \<Rightarrow> (Err e, w)
              | Panic m \<Rightarrow> (Panic m, w)
              | Ok p \<Rightarrow>
                  (case SetControllerReference scheme (jk_meta kind job) (pod_Meta p) of
                     Err e \<Rightarrow> (Err e, w)
                   | Panic m \<Rightarrow> (Panic m, w)
                   | Ok meta \<Rightarrow>
                       (let p = p\<lparr>pod_Meta := meta\<rparr>;
                            ((current, err), w) = ac_GetPod cl (meta_key (pod_Meta p)) w
                        in if (case err of None \<Rightarrow> False | Some e \<Rightarrow> IsNotFound e) then
                             (if jk_status kind job \<noteq> [] then (Ok (), w)
                              else
                                (let (err, w) = ac_CreatePod cl p w
                                 in case err of Some e \<Rightarrow> (Err e, w) | None \<Rightarrow> (Ok (), w)))
                           else
                             (let job = jk_set_status kind (pod_Phase current) job;
                                  (err, w) = ac_UpdateStatus cl job w
                              in case err of Some e \<Rightarrow> (Err e, w) | None \<Rightarrow> (Ok (), w))))))"

definition slurm_job_kind :: "'v slurm_job job_kind" where
  "slurm_job_kind =
     \<lparr>jk_newPod = newPodForSJ, jk_meta = sj_Meta, jk_status = (\<lambda>j. sjst_Status (sj_Status j)),
      jk_set_status = (\<lambda>s j. j\<lparr>sj_Status := (sj_Status j)\<lparr>sjst_Status := s\<rparr>\<rparr>)\<rparr>"

definition wlm_job_kind :: "'v wlm_job job_kind" where
  "wlm_job_kind =
     \<lparr>jk_newPod = newPodForWJ, jk_meta = wj_Meta, jk_status = (\<lambda>j. wjst_Status (wj_Status j)),
      jk_set_status = (\<lambda>s j. j\<lparr>wj_Status := (wj_Status j)\<lparr>wjst_Status := s\<rparr>\<rparr>)\<rparr>"

definition SlurmJob_Reconcile ::
  "reconciler \<Rightarrow> group_version_kind go \<Rightarrow> ('v slurm_job, 'w) api_client \<Rightarrow> obj_key \<Rightarrow> 'w \<Rightarrow> unit go \<times> 'w" where
  "SlurmJob_Reconcile = reconcile_job slurm_job_kind"

definition WlmJob_Reconcile ::
  "reconciler \<Rightarrow> group_version_kind go \<Rightarrow> ('v wlm_job, 'w) api_client \<Rightarrow> obj_key \<Rightarrow> 'w \<Rightarrow> unit go \<times> 'w" where
  "WlmJob_Reconcile = reconcile_job wlm_job_kind"

lemma find_owner_none: "find_owner ref i fi [] = Ok fi"
  by simp

lemma SetControllerReference_fresh:
  "om_OwnerReferences obj = [] \<Longrightarrow> SetControllerReference (Ok gvk) owner obj =
     Ok (obj\<lparr>om_OwnerReferences := [NewControllerRef owner gvk]\<rparr>)"
  by (simp add: SetControllerReference_def)

section \<open>The specification of a reconciliation\<close>

text \<open>The pod a job should have, with its owner set.\<close>

definition owned_pod :: "'j job_kind \<Rightarrow> reconciler \<Rightarrow> group_version_kind go \<Rightarrow> 'j \<Rightarrow> pod go" where
  "owned_pod kind rc scheme j =
     go_bind (jk_newPod kind rc j) (\<lambda>p.
     go_bind (SetControllerReference scheme (jk_meta kind j) (pod_Meta p)) (\<lambda>meta.
     Ok (p\<lparr>pod_Meta := meta\<rparr>)))"

text \<open>What one reconciliation does to the jobs and pods, seen as maps.\<close>

type_synonym 'j cluster_view = "(obj_key \<Rightarrow> 'j option) \<times> (obj_key \<Rightarrow> pod option)"

definition reconcile_spec ::
  "'j job_kind \<Rightarrow> reconciler \<Rightarrow> group_version_kind go \<Rightarrow> obj_key \<Rightarrow> 'j cluster_view \<Rightarrow> unit go \<times> 'j cluster_view" where
  "reconcile_spec kind rc scheme req = (\<lambda>(jobs, pods).
     case jobs req of
       None \<Rightarrow> (Ok (), jobs, pods)
     | Some j \<Rightarrow>
         (case owned_pod kind rc scheme j of
            Err e \<Rightarrow> (Err e, jobs, pods)
          | Panic m \<Rightarrow> (Panic m, jobs, pods)
          | Ok p \<Rightarrow>
              (case pods (meta_key (pod_Meta p)) of
                 Some cur \<Rightarrow> (Ok (), jobs(req \<mapsto> jk_set_status kind (pod_Phase cur) j), pods)
               | None \<Rightarrow>
                   if jk_status kind j \<noteq> [] then (Ok (), jobs, pods)
                   else (Ok (), jobs, pods(meta_key (pod_Meta p) \<mapsto> p)))))"

text \<open>
  What the reconciler relies on from its client, with up-to-date reads and no transient
  errors: \<open>jobs\<close> and \<open>pods\<close> are what the server holds, \<open>ok\<close> the invariant of its state.
\<close>

locale job_api =
  fixes cl :: "('j, 'w) api_client"
    and kind :: "'j job_kind"
    and jobs :: "'w \<Rightarrow> obj_key \<Rightarrow> 'j option"
    and pods :: "'w \<Rightarrow> obj_key \<Rightarrow> pod option"
    and ok :: "'w \<Rightarrow> bool"
  assumes job_key: "ok w \<Longrightarrow> jobs w k = Some j \<Longrightarrow> meta_key (jk_meta kind j) = k"
    and status_meta: "jk_meta kind (jk_set_status kind s j) = jk_meta kind j"
    and get_job: "ok w \<Longrightarrow> named k \<Longrightarrow> jobs w k = Some j \<Longrightarrow> ac_GetJob cl k w = ((j, None), w)"
    and get_no_job: "ok w \<Longrightarrow> named k \<Longrightarrow> jobs w k = None \<Longrightarrow>
      \<exists>z. ac_GetJob cl k w = ((z, Some ApiNotFound), w)"
    and get_pod: "ok w \<Longrightarrow> named k \<Longrightarrow> pods w k = Some p \<Longrightarrow> ac_GetPod cl k w = ((p, None), w)"
    and get_no_pod: "ok w \<Longrightarrow> named k \<Longrightarrow> pods w k = None \<Longrightarrow>
      \<exists>z. ac_GetPod cl k w = ((z, Some ApiNotFound), w)"
    and create_pod: "ok w \<Longrightarrow> named (meta_key (pod_Meta p)) \<Longrightarrow> pods w (meta_key (pod_Meta p)) = None \<Longrightarrow>
      \<exists>w'. ac_CreatePod cl p w = (None, w') \<and> ok w' \<and> jobs w' = jobs w \<and>
        pods w' = (pods w)(meta_key (pod_Meta p) \<mapsto> p)"
    and update_status: "ok w \<Longrightarrow> named (meta_key (jk_meta kind j)) \<Longrightarrow>
      jobs w (meta_key (jk_meta kind j)) \<noteq> None \<Longrightarrow>
      \<exists>w'. ac_UpdateStatus cl j w = (None, w') \<and> ok w' \<and> pods w' = pods w \<and>
        jobs w' = (jobs w)(meta_key (jk_meta kind j) \<mapsto> j)"
begin

lemma reconcile_refines:
  assumes ok: "ok w" and req: "named req"
    and key: "\<And>j p. jobs w req = Some j \<Longrightarrow> owned_pod kind rc scheme j = Ok p \<Longrightarrow>
      named (meta_key (pod_Meta p))"
  shows "\<exists>w'. snd (reconcile_job kind rc scheme cl req w) = w' \<and> ok w' \<and>
    (fst (reconcile_job kind rc scheme cl req w), jobs w', pods w') =
      reconcile_spec kind rc scheme req (jobs w, pods w)"
proof (cases "jobs w req")
  case None
  then obtain z where "ac_GetJob cl req w = ((z, Some ApiNotFound), w)" using get_no_job ok req by blast
  with None ok show ?thesis by (simp add: reconcile_job_def reconcile_spec_def IsNotFound_def)
next
  case (Some j)
  note job = get_job [OF ok req Some]
  show ?thesis
  proof (cases "owned_pod kind rc scheme j")
    case (Ok p)
    then obtain p0 meta where p0: "jk_newPod kind rc j = Ok p0"
      "SetControllerReference scheme (jk_meta kind j) (pod_Meta p0) = Ok meta" "p = p0\<lparr>pod_Meta := meta\<rparr>"
      by (auto simp: owned_pod_def)
    let ?k = "meta_key (pod_Meta p)"
    have k: "named ?k" using key [OF Some Ok] .
    show ?thesis
    proof (cases "pods w ?k")
      case (Some cur)
      have jk: "meta_key (jk_meta kind (jk_set_status kind s j)) = req" for s
        using job_key [OF ok \<open>jobs w req = Some j\<close>] by (simp add: status_meta)
      then obtain w' where "ac_UpdateStatus cl (jk_set_status kind (pod_Phase cur) j) w = (None, w')" "ok w'"
        "pods w' = pods w" "jobs w' = (jobs w)(req \<mapsto> jk_set_status kind (pod_Phase cur) j)"
        using update_status [OF ok, of "jk_set_status kind (pod_Phase cur) j"] req \<open>jobs w req = Some j\<close>
        by auto
      with get_pod [OF ok k Some] Ok \<open>jobs w req = Some j\<close> Some job p0 show ?thesis
        by (simp add: reconcile_job_def reconcile_spec_def Let_def)
    next
      case None
      obtain z where "ac_GetPod cl ?k w = ((z, Some ApiNotFound), w)"
        using get_no_pod [OF ok k None] by blast
      moreover obtain w' where "ac_CreatePod cl p w = (None, w')" "ok w'" "jobs w' = jobs w"
        "pods w' = (pods w)(?k \<mapsto> p)" using create_pod [OF ok k None] by blast
      ultimately show ?thesis using Ok \<open>jobs w req = Some j\<close> None job p0 ok
        by (simp add: reconcile_job_def reconcile_spec_def IsNotFound_def Let_def)
    qed
  next
    case (Err e)
    then show ?thesis using Some job ok
      by (auto simp: reconcile_job_def reconcile_spec_def owned_pod_def go_bind_eq_Err Let_def split: go.splits)
  next
    case (Panic m)
    then show ?thesis using Some job ok
      by (auto simp: reconcile_job_def reconcile_spec_def owned_pod_def go_bind_eq_Panic Let_def split: go.splits)
  qed
qed

text \<open>Reconciling twice in a row does no more than create the pod and copy its phase.\<close>

lemma second_reconcile:
  assumes "ok w" "named req" "jobs w req = Some j" "owned_pod kind rc scheme j = Ok p"
    and "named (meta_key (pod_Meta p))" "pods w (meta_key (pod_Meta p)) = Some cur"
  shows "\<exists>w'. reconcile_job kind rc scheme cl req w = (Ok (), w') \<and> pods w' = pods w \<and>
    jobs w' req = Some (jk_set_status kind (pod_Phase cur) j)"
proof -
  have "\<exists>w'. snd (reconcile_job kind rc scheme cl req w) = w' \<and> ok w' \<and>
    (fst (reconcile_job kind rc scheme cl req w), jobs w', pods w') =
      reconcile_spec kind rc scheme req (jobs w, pods w)"
    using assms by (intro reconcile_refines) simp_all
  with assms show ?thesis
    by (cases "reconcile_job kind rc scheme cl req w") (simp add: reconcile_spec_def)
qed

end

section \<open>A cluster on the object tracker\<close>

text \<open>
  The state of the server, and an error the next read of a pod fails with. A failed read
  leaves the zero object.
\<close>

record 'j api_world =
  aw_jobs :: "'j list"
  aw_pods :: "pod list"
  aw_fault :: "go_error option"

definition zero_meta :: object_meta where
  "zero_meta = \<lparr>om_Name = [], om_Namespace = [], om_UID = [], om_OwnerReferences = [], om_Labels = Map.empty\<rparr>"

definition zero_pod :: pod where
  "zero_pod = \<lparr>pod_Meta = zero_meta, pod_Affinity = None, pod_RunAsUser = 0, pod_RunAsGroup = 0,
     pod_Tolerations = [], pod_Containers = [], pod_NodeSelector = Map.empty, pod_RestartPolicy = [],
     pod_Phase = []\<rparr>"

definition read_object :: "'o \<Rightarrow> 'o go \<Rightarrow> 'o \<times> go_error option" where
  "read_object z r = (case r of Ok x \<Rightarrow> (x, None) | Err e \<Rightarrow> (z, Some e) | Panic m \<Rightarrow> (z, Some (ErrorString m)))"

definition tracker_client ::
  "('j \<Rightarrow> object_meta) \<Rightarrow> (string \<Rightarrow> 'j \<Rightarrow> 'j) \<Rightarrow> 'j \<Rightarrow> ('j, 'j api_world) api_client" where
  "tracker_client meta set_ns z =
     \<lparr>ac_GetJob = (\<lambda>k w. (read_object z (tracker_Get meta (aw_jobs w) (fst k) (snd k)), w)),
      ac_GetPod = (\<lambda>k w. (case aw_fault w of
          Some e \<Rightarrow> (zero_pod, Some e)
        | None \<Rightarrow> read_object zero_pod (tracker_Get pod_Meta (aw_pods w) (fst k) (snd k)), w)),
      ac_CreatePod = (\<lambda>p w.
        (case tracker_Create pod_Meta pod_set_ns (aw_pods w) p (om_Namespace (pod_Meta p)) of
           Ok ps \<Rightarrow> (None, w\<lparr>aw_pods := ps\<rparr>) | Err e \<Rightarrow> (Some e, w) | Panic m \<Rightarrow> (Some (ErrorString m), w))),
      ac_UpdateStatus = (\<lambda>j w.
        (case tracker_Update meta set_ns (aw_jobs w) j (om_Namespace (meta j)) of
           Ok js \<Rightarrow> (None, w\<lparr>aw_jobs := js\<rparr>) | Err e \<Rightarrow> (Some e, w) | Panic m \<Rightarrow> (Some (ErrorString m), w)))\<rparr>"

definition world_ok :: "('j \<Rightarrow> object_meta) \<Rightarrow> 'j api_world \<Rightarrow> bool" where
  "world_ok meta w \<longleftrightarrow> tracker_ok meta (aw_jobs w) \<and> tracker_ok pod_Meta (aw_pods w) \<and> aw_fault w = None"

definition world_jobs :: "('j \<Rightarrow> object_meta) \<Rightarrow> 'j api_world \<Rightarrow> obj_key \<Rightarrow> 'j option" where
  "world_jobs meta w = tracker_view meta (aw_jobs w)"

definition world_pods :: "'j api_world \<Rightarrow> obj_key \<Rightarrow> pod option" where
  "world_pods w = tracker_view pod_Meta (aw_pods w)"

context api_object
begin

lemma tracker_job_api:
  assumes "jk_meta kind = meta" "\<And>s j. meta (jk_set_status kind s j) = meta j"
  shows "job_api (tracker_client meta set_ns z) kind (world_jobs meta) world_pods (world_ok meta)"
proof
  fix w :: "'o api_world" and k j
  assume w: "world_ok meta w"
  show "world_jobs meta w k = Some j \<Longrightarrow> meta_key (jk_meta kind j) = k"
    using w store.view_key [of "aw_jobs w" k j] by (simp add: assms(1) world_ok_def world_jobs_def)
  assume k: "named k"
  show "world_jobs meta w k = Some j \<Longrightarrow> ac_GetJob (tracker_client meta set_ns z) k w = ((j, None), w)"
    using w k store.get_view by (simp add: world_ok_def world_jobs_def tracker_client_def read_object_def)
  show "world_jobs meta w k = None \<Longrightarrow>
      \<exists>z'. ac_GetJob (tracker_client meta set_ns z) k w = ((z', Some ApiNotFound), w)"
    using w k store.get_view by (simp add: world_ok_def world_jobs_def tracker_client_def read_object_def)
next
  fix w :: "'o api_world" and k p
  assume w: "world_ok meta w" and k: "named k"
  show "world_pods w k = Some p \<Longrightarrow> ac_GetPod (tracker_client meta set_ns z) k w = ((p, None), w)"
    using w k pods.store.get_view by (simp add: world_ok_def world_pods_def tracker_client_def read_object_def)
  show "world_pods w k = None \<Longrightarrow>
      \<exists>z'. ac_GetPod (tracker_client meta set_ns z) k w = ((z', Some ApiNotFound), w)"
    using w k pods.store.get_view by (simp add: world_ok_def world_pods_def tracker_client_def read_object_def)
next
  fix w :: "'o api_world" and p :: pod
  assume "world_ok meta w" "named (meta_key (pod_Meta p))" "world_pods w (meta_key (pod_Meta p)) = None"
  then show "\<exists>w'. ac_CreatePod (tracker_client meta set_ns z) p w = (None, w') \<and> world_ok meta w' \<and>
      world_jobs meta w' = world_jobs meta w \<and> world_pods w' = (world_pods w)(meta_key (pod_Meta p) \<mapsto> p)"
    using pods.store.create_view [of "aw_pods w" p]
    by (auto simp: world_ok_def world_pods_def world_jobs_def tracker_client_def)
next
  fix w :: "'o api_world" and j :: 'o
  assume "world_ok meta w" "named (meta_key (jk_meta kind j))"
    "world_jobs meta w (meta_key (jk_meta kind j)) \<noteq> None"
  then show "\<exists>w'. ac_UpdateStatus (tracker_client meta set_ns z) j w = (None, w') \<and> world_ok meta w' \<and>
      world_pods w' = world_pods w \<and> world_jobs meta w' = (world_jobs meta w)(meta_key (jk_meta kind j) \<mapsto> j)"
    using store.update_view [of "aw_jobs w" j]
    by (auto simp: assms(1) world_ok_def world_pods_def world_jobs_def tracker_client_def)
qed (simp_all add: assms)

end

definition zero_slurm_job :: "'v slurm_job" where
  "zero_slurm_job =
     \<lparr>sj_Meta = zero_meta,
      sj_Spec = \<lparr>sjs_Batch = [], sjs_NodeSelector = Map.empty, sjs_Prepare = None, sjs_Results = None\<rparr>,
      sj_Status = \<lparr>sjst_Status = []\<rparr>\<rparr>"

definition zero_wlm_job :: "'v wlm_job" where
  "zero_wlm_job =
     \<lparr>wj_Meta = zero_meta,
      wj_Spec = \<lparr>wjs_Image = [],
        wjs_Options = \<lparr>so_AllowUnsigned = False, so_CleanEnv = False, so_FakeRoot = False, so_IPC = False,
          so_PID = False, so_NoPrivs = False, so_Writable = False, so_App = [], so_HostName = [], so_Binds = []\<rparr>,
        wjs_Resources = \<lparr>wr_Nodes = 0, wr_CPUPerNode = 0, wr_MemPerNode = 0, wr_WallTime = 0\<rparr>,
        wjs_NodeSelector = Map.empty, wjs_Results = None\<rparr>,
      wj_Status = \<lparr>wjst_Status = []\<rparr>\<rparr>"

section \<open>The cluster as a step relation\<close>

text \<open>
  The controller reconciles any job; the kubelet gives a pod a phase; pods are deleted; users
  create jobs without a status, edit everything of a job but its status, and delete jobs
  outside \<open>kept\<close>. In a \<open>faulty\<close> cluster the next
  read of a pod may fail with an error that is not "not found".
\<close>

inductive cluster_step ::
  "'j job_kind \<Rightarrow> (string \<Rightarrow> 'j \<Rightarrow> 'j) \<Rightarrow> 'j \<Rightarrow> reconciler \<Rightarrow> group_version_kind go \<Rightarrow> bool \<Rightarrow> obj_key set \<Rightarrow>
   'j api_world \<Rightarrow> 'j api_world \<Rightarrow> bool"
  for kind set_ns z rc scheme faulty kept where
  reconciled: "named req \<Longrightarrow>
    reconcile_job kind rc scheme (tracker_client (jk_meta kind) set_ns z) req w = (r, w') \<Longrightarrow>
    cluster_step kind set_ns z rc scheme faulty kept w (w'\<lparr>aw_fault := None\<rparr>)"
| pod_phase: "world_pods w k = Some p \<Longrightarrow> phase \<noteq> [] \<Longrightarrow>
    tracker_Update pod_Meta pod_set_ns (aw_pods w) (p\<lparr>pod_Phase := phase\<rparr>) (fst k) = Ok ps \<Longrightarrow>
    cluster_step kind set_ns z rc scheme faulty kept w (w\<lparr>aw_pods := ps\<rparr>)"
| pod_deleted: "named k \<Longrightarrow> tracker_Delete pod_Meta (aw_pods w) (fst k) (snd k) = Ok ps \<Longrightarrow>
    cluster_step kind set_ns z rc scheme faulty kept w (w\<lparr>aw_pods := ps\<rparr>)"
| job_created: "named (meta_key (jk_meta kind j)) \<Longrightarrow> jk_status kind j = [] \<Longrightarrow>
    tracker_Create (jk_meta kind) set_ns (aw_jobs w) j (om_Namespace (jk_meta kind j)) = Ok js \<Longrightarrow>
    cluster_step kind set_ns z rc scheme faulty kept w (w\<lparr>aw_jobs := js\<rparr>)"
| job_edited: "world_jobs (jk_meta kind) w (meta_key (jk_meta kind j)) = Some j' \<Longrightarrow>
    jk_status kind j = jk_status kind j' \<Longrightarrow>
    tracker_Update (jk_meta kind) set_ns (aw_jobs w) j (om_Namespace (jk_meta kind j)) = Ok js \<Longrightarrow>
    cluster_step kind set_ns z rc scheme faulty kept w (w\<lparr>aw_jobs := js\<rparr>)"
| job_deleted: "named k \<Longrightarrow> k \<notin> kept \<Longrightarrow>
    tracker_Delete (jk_meta kind) (aw_jobs w) (fst k) (snd k) = Ok js \<Longrightarrow>
    cluster_step kind set_ns z rc scheme faulty kept w (w\<lparr>aw_jobs := js\<rparr>)"
| transient: "faulty \<Longrightarrow> e \<noteq> ApiNotFound \<Longrightarrow>
    cluster_step kind set_ns z rc scheme faulty kept w (w\<lparr>aw_fault := Some e\<rparr>)"

inductive cluster_run ::
  "'j job_kind \<Rightarrow> (string \<Rightarrow> 'j \<Rightarrow> 'j) \<Rightarrow> 'j \<Rightarrow> reconciler \<Rightarrow> group_version_kind go \<Rightarrow> bool \<Rightarrow> obj_key set \<Rightarrow>
   'j api_world \<Rightarrow> 'j api_world \<Rightarrow> bool"
  for kind set_ns z rc scheme faulty kept where
  start: "cluster_run kind set_ns z rc scheme faulty kept w w"
| move: "cluster_run kind set_ns z rc scheme faulty kept w w' \<Longrightarrow>
    cluster_step kind set_ns z rc scheme faulty kept w' w'' \<Longrightarrow>
    cluster_run kind set_ns z rc scheme faulty kept w w''"

section \<open>A settled job\<close>

text \<open>
  The job at a key has a status, and its pod, if there is one, has a phase.
\<close>

definition pod_key :: "string \<Rightarrow> obj_key \<Rightarrow> obj_key" where
  "pod_key suffix k = (fst k, snd k @ suffix)"

definition settled :: "'j job_kind \<Rightarrow> string \<Rightarrow> obj_key \<Rightarrow> 'j api_world \<Rightarrow> bool" where
  "settled kind suffix k w \<longleftrightarrow> world_ok (jk_meta kind) w \<and>
     (\<exists>j. world_jobs (jk_meta kind) w k = Some j \<and> jk_status kind j \<noteq> []) \<and>
     (\<forall>p. world_pods w (pod_key suffix k) = Some p \<longrightarrow> pod_Phase p \<noteq> [])"

lemma pod_key_inj: "pod_key suffix k = pod_key suffix k' \<longleftrightarrow> k = k'"
  by (auto simp: pod_key_def prod_eq_iff)

lemma SetControllerReference_key:
  "SetControllerReference scheme owner obj = Ok meta \<Longrightarrow> meta_key meta = meta_key obj"
  by (auto simp: SetControllerReference_def meta_key_def Let_def)

text \<open>A kind of jobs whose pods are named after the job.\<close>

locale job_controller = api_object "jk_meta kind" set_ns
  for kind :: "'j job_kind" and set_ns :: "string \<Rightarrow> 'j \<Rightarrow> 'j" +
  fixes suffix :: string and z :: 'j
  assumes status_meta: "jk_meta kind (jk_set_status kind s j) = jk_meta kind j"
    and status_set: "jk_status kind (jk_set_status kind s j) = s"
    and pod_name: "jk_newPod kind rc j = Ok p \<Longrightarrow>
      meta_key (pod_Meta p) = pod_key suffix (meta_key (jk_meta kind j))"

sublocale job_controller \<subseteq> api: job_api "tracker_client (jk_meta kind) set_ns z" kind
    "world_jobs (jk_meta kind)" world_pods "world_ok (jk_meta kind)"
  by (rule tracker_job_api) (simp_all add: status_meta)

context job_controller
begin

lemma owned_pod_key:
  "owned_pod kind rc scheme j = Ok p \<Longrightarrow>
   meta_key (pod_Meta p) = pod_key suffix (meta_key (jk_meta kind j))"
  by (auto simp: owned_pod_def dest!: SetControllerReference_key pod_name)

lemma reconcile_world:
  assumes ok: "world_ok (jk_meta kind) w" and req: "named req"
    and rec: "reconcile_job kind rc scheme (tracker_client (jk_meta kind) set_ns z) req w = (r, w')"
  shows "world_ok (jk_meta kind) w' \<and>
    (r, world_jobs (jk_meta kind) w', world_pods w') =
      reconcile_spec kind rc scheme req (world_jobs (jk_meta kind) w, world_pods w)"
proof -
  have key: "\<And>j p. world_jobs (jk_meta kind) w req = Some j \<Longrightarrow> owned_pod kind rc scheme j = Ok p \<Longrightarrow>
      named (meta_key (pod_Meta p))"
    using api.job_key [OF ok] owned_pod_key req by (simp add: pod_key_def named_def)
  show ?thesis using api.reconcile_refines [OF ok req, of rc scheme, OF key] rec by simp
qed

lemma reconcile_settled:
  assumes "settled kind suffix k w" "named req"
    and "reconcile_job kind rc scheme (tracker_client (jk_meta kind) set_ns z) req w = (r, w')"
  shows "settled kind suffix k w' \<and>
    (world_pods w (pod_key suffix k) = None \<longrightarrow> world_pods w' (pod_key suffix k) = None)"
proof -
  from assms(1) have ok: "world_ok (jk_meta kind) w" by (simp add: settled_def)
  from reconcile_world [OF this assms(2,3)] have ok': "world_ok (jk_meta kind) w'"
    and spec: "(r, world_jobs (jk_meta kind) w', world_pods w') =
      reconcile_spec kind rc scheme req (world_jobs (jk_meta kind) w, world_pods w)" by auto
  have own: "meta_key (pod_Meta p) = pod_key suffix req"
    if "world_jobs (jk_meta kind) w req = Some j" "owned_pod kind rc scheme j = Ok p" for j p
    using api.job_key [OF ok that(1)] owned_pod_key [OF that(2)] by simp
  show ?thesis
    using assms(1) ok' spec own
    by (auto simp: settled_def reconcile_spec_def status_set pod_key_inj
        split: option.splits go.splits if_splits)
qed

lemma world_jobs_update:
  assumes "world_ok (jk_meta kind) w" "world_jobs (jk_meta kind) w (meta_key (jk_meta kind j)) = Some j'"
    and "tracker_Update (jk_meta kind) set_ns (aw_jobs w) j (om_Namespace (jk_meta kind j)) = Ok js"
  shows "world_ok (jk_meta kind) (w\<lparr>aw_jobs := js\<rparr>) \<and>
    world_jobs (jk_meta kind) (w\<lparr>aw_jobs := js\<rparr>) =
      (world_jobs (jk_meta kind) w)(meta_key (jk_meta kind j) \<mapsto> j)"
proof -
  from assms have "tracker_ok (jk_meta kind) (aw_jobs w)"
    and "tracker_view (jk_meta kind) (aw_jobs w) (meta_key (jk_meta kind j)) = Some j'"
    by (simp_all add: world_ok_def world_jobs_def)
  with store.update_view [of "aw_jobs w" j] store.view_key [of "aw_jobs w"] assms show ?thesis
    by (auto simp: world_ok_def world_jobs_def)
qed

end

lemma world_pods_update:
  assumes "world_ok meta w" "world_pods w k = Some p" "pod_Meta p' = pod_Meta p"
    and "tracker_Update pod_Meta pod_set_ns (aw_pods w) p' (fst k) = Ok ps"
  shows "world_ok meta (w\<lparr>aw_pods := ps\<rparr>) \<and> world_pods (w\<lparr>aw_pods := ps\<rparr>) = (world_pods w)(k \<mapsto> p')"
proof -
  from assms have ok: "tracker_ok pod_Meta (aw_pods w)" and v: "tracker_view pod_Meta (aw_pods w) k = Some p"
    by (simp_all add: world_ok_def world_pods_def)
  from pods.store.view_key [OF ok v] assms(3) have k: "meta_key (pod_Meta p') = k" "named k" by auto
  then have "om_Namespace (pod_Meta p') = fst k" by (auto simp: meta_key_def)
  with pods.store.update_view [OF ok, of p'] v k assms show ?thesis
    by (auto simp: world_ok_def world_pods_def)
qed

lemma world_pods_delete:
  assumes "world_ok meta w" "named k" "tracker_Delete pod_Meta (aw_pods w) (fst k) (snd k) = Ok ps"
  shows "world_ok meta (w\<lparr>aw_pods := ps\<rparr>) \<and> world_pods (w\<lparr>aw_pods := ps\<rparr>) = (world_pods w)(k := None)"
proof -
  from assms(1) have ok: "tracker_ok pod_Meta (aw_pods w)" by (simp add: world_ok_def)
  with pods.store.delete_missing [OF ok assms(2)] pods.store.delete_view [OF ok assms(2)] assms show ?thesis
    by (force simp: world_ok_def world_pods_def)
qed

lemma world_jobs_pods [simp]:
  "world_jobs meta (w\<lparr>aw_pods := ps\<rparr>) = world_jobs meta w" "world_pods (w\<lparr>aw_jobs := js\<rparr>) = world_pods w"
  by (simp_all add: world_jobs_def world_pods_def)

lemma world_ok_no_fault: "world_ok meta w \<Longrightarrow> w\<lparr>aw_fault := None\<rparr> = w"
  by (cases w) (simp add: world_ok_def)

context job_controller
begin

lemma step_settled:
  assumes "cluster_step kind set_ns z rc scheme False kept w w'" "settled kind suffix k w" "k \<in> kept"
  shows "settled kind suffix k w' \<and>
    (world_pods w (pod_key suffix k) = None \<longrightarrow> world_pods w' (pod_key suffix k) = None)"
  using assms
proof cases
  case (reconciled req r w1)
  from reconcile_settled [OF assms(2) reconciled(2,3)]
  have "settled kind suffix k w1 \<and>
    (world_pods w (pod_key suffix k) = None \<longrightarrow> world_pods w1 (pod_key suffix k) = None)" .
  with reconciled(1) world_ok_no_fault [of "jk_meta kind" w1] show ?thesis by (auto simp: settled_def)
next
  case (pod_phase k' p phase ps)
  from assms(2) have "world_ok (jk_meta kind) w" by (simp add: settled_def)
  from world_pods_update [OF this pod_phase(2) _ pod_phase(4)] pod_phase assms(2) show ?thesis
    by (auto simp: settled_def)
next
  case (pod_deleted k' ps)
  from assms(2) have "world_ok (jk_meta kind) w" by (simp add: settled_def)
  from world_pods_delete [OF this pod_deleted(2,3)] pod_deleted assms(2) show ?thesis
    by (auto simp: settled_def)
next
  case (job_created j js)
  from assms(2) have ok: "tracker_ok (jk_meta kind) (aw_jobs w)" by (simp add: settled_def world_ok_def)
  with store.create_exists [OF ok job_created(2)] store.create_view [OF ok job_created(2)] job_created assms(2)
  show ?thesis by (force simp: settled_def world_ok_def world_jobs_def)
next
  case (job_edited j j' js)
  from assms(2) have "world_ok (jk_meta kind) w" by (simp add: settled_def)
  from world_jobs_update [OF this job_edited(2,4)] job_edited assms(2) show ?thesis
    by (auto simp: settled_def)
next
  case (job_deleted k' js)
  from assms(2) have ok: "tracker_ok (jk_meta kind) (aw_jobs w)" by (simp add: settled_def world_ok_def)
  with store.delete_missing [OF ok job_deleted(2)] store.delete_view [OF ok job_deleted(2)] job_deleted assms(2,3)
  show ?thesis by (force simp: settled_def world_ok_def world_jobs_def)
next
  case (transient e)
  then show ?thesis by simp
qed

lemma run_settled:
  assumes "cluster_run kind set_ns z rc scheme False kept w w'" "settled kind suffix k w" "k \<in> kept"
  shows "settled kind suffix k w' \<and>
    (world_pods w (pod_key suffix k) = None \<longrightarrow> world_pods w' (pod_key suffix k) = None)"
  using assms by (induction rule: cluster_run.induct) (auto dest: step_settled)

end

section \<open>The two controllers\<close>

lemma kind_simps [simp]:
  "jk_meta slurm_job_kind = sj_Meta" "jk_newPod slurm_job_kind = newPodForSJ"
  "jk_status slurm_job_kind j = sjst_Status (sj_Status j)"
  "jk_set_status slurm_job_kind s j = j\<lparr>sj_Status := (sj_Status j)\<lparr>sjst_Status := s\<rparr>\<rparr>"
  "jk_meta wlm_job_kind = wj_Meta" "jk_newPod wlm_job_kind = newPodForWJ"
  "jk_status wlm_job_kind j' = wjst_Status (wj_Status j')"
  "jk_set_status wlm_job_kind s j' = j'\<lparr>wj_Status := (wj_Status j')\<lparr>wjst_Status := s\<rparr>\<rparr>"
  by (simp_all add: slurm_job_kind_def wlm_job_kind_def)

lemma newPodForSJ_key:
  "newPodForSJ rc j = Ok p \<Longrightarrow> meta_key (pod_Meta p) = pod_key ''-job'' (meta_key (sj_Meta j))"
  by (auto simp: newPodForSJ_def sj_pod_def meta_key_def pod_key_def split: go.splits if_splits)

lemma newPodForWJ_key:
  "newPodForWJ rc j = Ok p \<Longrightarrow> meta_key (pod_Meta p) = pod_key ''-wlm-job'' (meta_key (wj_Meta j))"
  by (auto simp: newPodForWJ_def wj_pod_def meta_key_def pod_key_def split: go.splits if_splits)

interpretation slurm: job_controller slurm_job_kind sj_set_ns "''-job''" zero_slurm_job
proof
  show "jk_newPod slurm_job_kind rc j = Ok p \<Longrightarrow>
      meta_key (pod_Meta p) = pod_key ''-job'' (meta_key (jk_meta slurm_job_kind j))"
    for rc p and j :: "'v slurm_job"
    using newPodForSJ_key [of rc j p] by simp
qed (simp_all add: sj_set_ns_def)

interpretation wlm: job_controller wlm_job_kind wj_set_ns "''-wlm-job''" zero_wlm_job
proof
  show "jk_newPod wlm_job_kind rc j = Ok p \<Longrightarrow>
      meta_key (pod_Meta p) = pod_key ''-wlm-job'' (meta_key (jk_meta wlm_job_kind j))"
    for rc p and j :: "'v wlm_job"
    using newPodForWJ_key [of rc j p] by simp
qed (simp_all add: wj_set_ns_def)

text \<open>
  A read of the pod that fails for another reason than "not found" is taken for a pod with
  the zero phase: the status of the job is cleared.
\<close>

context job_controller
begin

lemma reconcile_fault:
  assumes "tracker_ok (jk_meta kind) (aw_jobs w)" "tracker_ok pod_Meta (aw_pods w)"
    and "aw_fault w = Some e" "e \<noteq> ApiNotFound"
    and "world_jobs (jk_meta kind) w req = Some j" "owned_pod kind rc scheme j = Ok p"
  shows "\<exists>w'. reconcile_job kind rc scheme (tracker_client (jk_meta kind) set_ns z) req w = (Ok (), w') \<and>
    world_ok (jk_meta kind) (w'\<lparr>aw_fault := None\<rparr>) \<and> aw_pods w' = aw_pods w \<and>
    world_jobs (jk_meta kind) w' = (world_jobs (jk_meta kind) w)(req \<mapsto> jk_set_status kind [] j)"
proof -
  from assms have view: "tracker_view (jk_meta kind) (aw_jobs w) req = Some j" by (simp add: world_jobs_def)
  from store.view_key [OF assms(1) view] have key: "meta_key (jk_meta kind j) = req" "named req" by auto
  then have get: "tracker_Get (jk_meta kind) (aw_jobs w) (fst req) (snd req) = Ok j"
    using store.get_view [OF assms(1), of req] view by simp
  from assms(6) obtain p0 meta where p0: "jk_newPod kind rc j = Ok p0"
    "SetControllerReference scheme (jk_meta kind j) (pod_Meta p0) = Ok meta" "p = p0\<lparr>pod_Meta := meta\<rparr>"
    by (auto simp: owned_pod_def)
  obtain js where js: "tracker_Update (jk_meta kind) set_ns (aw_jobs w) (jk_set_status kind [] j)
      (om_Namespace (jk_meta kind j)) = Ok js" "tracker_ok (jk_meta kind) js"
    "tracker_view (jk_meta kind) js = (tracker_view (jk_meta kind) (aw_jobs w))(req \<mapsto> jk_set_status kind [] j)"
    using store.update_view [OF assms(1), of "jk_set_status kind [] j"] key view
    by (auto simp: status_meta)
  show ?thesis
    using assms(2-4) get p0 js
    by (simp add: reconcile_job_def tracker_client_def read_object_def Let_def IsNotFound_def zero_pod_def
        status_meta world_ok_def world_jobs_def)
qed

lemma step_reconcile:
  assumes "named req" "reconcile_job kind rc scheme (tracker_client (jk_meta kind) set_ns z) req w = (r, w')"
  shows "cluster_run kind set_ns z rc scheme faulty kept w (w'\<lparr>aw_fault := None\<rparr>)"
  by (rule cluster_run.move [OF cluster_run.start cluster_step.reconciled [OF assms]])

lemma run_trans:
  "cluster_run kind set_ns z rc scheme faulty kept w' w'' \<Longrightarrow> cluster_run kind set_ns z rc scheme faulty kept w w' \<Longrightarrow>
   cluster_run kind set_ns z rc scheme faulty kept w w''"
  by (induction rule: cluster_run.induct) (auto intro: cluster_run.move)

text \<open>
  The pod of a settled job is created a second time after one failed read and a deletion.
\<close>

lemma fault_recreates:
  assumes "settled kind suffix k w" "world_jobs (jk_meta kind) w k = Some j"
    and pods: "\<And>s. \<exists>p. owned_pod kind rc scheme (jk_set_status kind s j) = Ok p" "owned_pod kind rc scheme j = Ok p0"
    and "world_pods w (pod_key suffix k) \<noteq> None"
  shows "\<exists>w1 w2. cluster_run kind set_ns z rc scheme True kept w w1 \<and> world_pods w1 (pod_key suffix k) = None \<and>
    cluster_run kind set_ns z rc scheme True kept w1 w2 \<and> world_pods w2 (pod_key suffix k) \<noteq> None"
proof -
  let ?M = "jk_meta kind" and ?pk = "pod_key suffix k" and ?e = "ApiError []"
  from assms(1) have ok: "world_ok ?M w" by (simp add: settled_def)
  define wf where "wf = w\<lparr>aw_fault := Some ?e\<rparr>"
  have run1: "cluster_run kind set_ns z rc scheme True kept w wf"
    unfolding wf_def by (rule cluster_run.move [OF cluster_run.start cluster_step.transient]) simp_all
  from ok have tok: "tracker_ok ?M (aw_jobs wf)" "tracker_ok pod_Meta (aw_pods wf)"
    by (simp_all add: wf_def world_ok_def)
  from ok assms(2) store.view_key [of "aw_jobs w" k j] have k: "named k" "meta_key (?M j) = k"
    by (simp_all add: world_ok_def world_jobs_def)
  have jw: "world_jobs ?M wf k = Some j" using assms(2) by (simp add: wf_def world_jobs_def)
  have flt: "aw_fault wf = Some ?e" "?e \<noteq> ApiNotFound" by (simp_all add: wf_def)
  obtain w' where w': "reconcile_job kind rc scheme (tracker_client ?M set_ns z) k wf = (Ok (), w')"
    "world_ok ?M (w'\<lparr>aw_fault := None\<rparr>)" "aw_pods w' = aw_pods wf"
    "world_jobs ?M w' = (world_jobs ?M wf)(k \<mapsto> jk_set_status kind [] j)"
    using reconcile_fault [OF tok flt jw pods(2)] by blast
  define wc where "wc = w'\<lparr>aw_fault := None\<rparr>"
  have run2: "cluster_run kind set_ns z rc scheme True kept wf wc"
    unfolding wc_def by (rule step_reconcile [OF k(1) w'(1)])
  have wc: "world_ok ?M wc" "world_jobs ?M wc k = Some (jk_set_status kind [] j)" "world_pods wc = world_pods w"
    using w' by (simp_all add: wc_def wf_def world_jobs_def world_pods_def)
  have pk: "named ?pk" using k(1) by (simp add: named_def pod_key_def)
  then obtain ps where ps: "tracker_Delete pod_Meta (aw_pods wc) (fst ?pk) (snd ?pk) = Ok ps"
    using pods.store.delete_view [of "aw_pods wc" ?pk] wc assms(5) by (auto simp: world_ok_def world_pods_def)
  define wd where "wd = wc\<lparr>aw_pods := ps\<rparr>"
  have run3: "cluster_run kind set_ns z rc scheme True kept wc wd"
    unfolding wd_def by (rule cluster_run.move [OF cluster_run.start cluster_step.pod_deleted [OF pk ps]])
  from world_pods_delete [OF wc(1) pk ps] have wd: "world_ok ?M wd" "world_pods wd = (world_pods w)(?pk := None)"
    "world_jobs ?M wd k = Some (jk_set_status kind [] j)"
    using wc by (simp_all add: wd_def)
  obtain r we where we: "reconcile_job kind rc scheme (tracker_client ?M set_ns z) k wd = (r, we)" by fastforce
  obtain p where p: "owned_pod kind rc scheme (jk_set_status kind [] j) = Ok p" using pods(1) by blast
  with owned_pod_key [OF p] k have "meta_key (pod_Meta p) = ?pk" by (simp add: status_meta)
  with reconcile_world [OF wd(1) k(1) we] wd p have "world_pods we ?pk = Some p" "world_ok ?M we"
    by (auto simp: reconcile_spec_def status_set)
  moreover from this(2) have "we\<lparr>aw_fault := None\<rparr> = we" by (rule world_ok_no_fault)
  ultimately show ?thesis
    using run_trans [OF run3 run_trans [OF run2 run1]] wd(2) step_reconcile [OF k(1) we, of True kept]
    by (intro exI [of _ wd] exI [of _ we]) simp
qed

end

text \<open>A job of each kind that asks for no resources, and the pod it gets.\<close>

lemma owned_pod_wlm:
  assumes "wj_resources j = no_resources"
  shows "owned_pod wlm_job_kind rc (Ok gvk) j =
    Ok ((wj_pod rc j None)\<lparr>pod_Meta := (pod_Meta (wj_pod rc j None))
      \<lparr>om_OwnerReferences := [NewControllerRef (wj_Meta j) gvk]\<rparr>\<rparr>)"
proof -
  have "newPodForWJ rc j = Ok (wj_pod rc j None)"
    using assms by (simp add: newPodForWJ_def AffinityForResources_def node_match_def no_resources_def)
  moreover have "om_OwnerReferences (pod_Meta (wj_pod rc j None)) = []" by (simp add: wj_pod_def)
  ultimately show ?thesis by (simp add: owned_pod_def SetControllerReference_fresh)
qed

section \<open>Properties\<close>

text \<open>
  For a client that reads the current state of the server, and reconciliations as single steps: once a
  SlurmJob has a status and its pod is gone, its pod is never created again, whatever the controller,
  the kubelet and the users do next, as long as the job itself is kept and no read fails transiently;
  the job keeps a status. The operator's client reads caches: \<open>Seen_Status\<close> has the guarantee that is
  left.
\<close>

theorem SlurmJob_pod_not_recreated:
  assumes "cluster_run slurm_job_kind sj_set_ns zero_slurm_job rc scheme False kept w w'"
    and "settled slurm_job_kind ''-job'' k w" "k \<in> kept" "world_pods w (pod_key ''-job'' k) = None"
  shows "settled slurm_job_kind ''-job'' k w' \<and> world_pods w' (pod_key ''-job'' k) = None"
  using slurm.run_settled [OF assms(1-3)] assms(4) by blast

definition example_gvk :: group_version_kind where
  "example_gvk = \<lparr>gvk_Group = ''wlm.sylabs.io'', gvk_Version = ''v1alpha1'', gvk_Kind = ''SlurmJob''\<rparr>"

definition example_settled :: "unit slurm_job api_world" where
  "example_settled =
     \<lparr>aw_jobs = [(example_sj ''srun hostname'')\<lparr>sj_Status := \<lparr>sjst_Status = ''Succeeded''\<rparr>\<rparr>],
      aw_pods = [], aw_fault = None\<rparr>"

theorem SlurmJob_pod_not_recreated_witness:
  "world_pods (snd (SlurmJob_Reconcile example_rc (Ok example_gvk) (tracker_client sj_Meta sj_set_ns zero_slurm_job)
     (''default'', ''cow'') example_settled)\<lparr>aw_fault := None\<rparr>) (''default'', ''cow-job'') = None"
proof -
  define w' where "w' = snd (SlurmJob_Reconcile example_rc (Ok example_gvk) (tracker_client sj_Meta sj_set_ns zero_slurm_job)
     (''default'', ''cow'') example_settled)"
  have run: "cluster_run slurm_job_kind sj_set_ns zero_slurm_job example_rc (Ok example_gvk) False {(''default'', ''cow'')}
      example_settled (w'\<lparr>aw_fault := None\<rparr>)"
    by (rule cluster_run.move [OF cluster_run.start], rule cluster_step.reconciled [of "(''default'', ''cow'')"])
      (simp_all add: named_def w'_def SlurmJob_Reconcile_def prod_eq_iff)
  have settled: "settled slurm_job_kind ''-job'' (''default'', ''cow'') example_settled"
    by (simp add: settled_def world_ok_def world_jobs_def world_pods_def example_settled_def example_sj_def
        tracker_ok_def meta_key_def named_def)
  have "settled slurm_job_kind ''-job'' (''default'', ''cow'') (w'\<lparr>aw_fault := None\<rparr>) \<and>
      world_pods (w'\<lparr>aw_fault := None\<rparr>) (pod_key ''-job'' (''default'', ''cow'')) = None"
    by (rule SlurmJob_pod_not_recreated [OF run settled])
      (simp_all add: world_pods_def example_settled_def)
  then show ?thesis by (simp add: pod_key_def w'_def)
qed

text \<open>
  C5. Against a server whose reads are up to date, a WlmJob reconciliation is the abstract one
  on the maps of jobs and pods: nothing for an unknown job, the pod's phase copied into the
  status when the pod exists, the pod created when it does not and the job has no status yet.
\<close>

theorem WlmJob_Reconcile_refines:
  assumes "world_ok wj_Meta w" "named req"
    and "WlmJob_Reconcile rc scheme (tracker_client wj_Meta wj_set_ns zero_wlm_job) req w = (r, w')"
  shows "world_ok wj_Meta w' \<and> (r, world_jobs wj_Meta w', world_pods w') =
    reconcile_spec wlm_job_kind rc scheme req (world_jobs wj_Meta w, world_pods w)"
  using wlm.reconcile_world [of w req rc scheme r w'] assms by (simp add: WlmJob_Reconcile_def)

definition example_job :: "string \<Rightarrow> unit wlm_job" where
  "example_job status =
     (example_wj \<lparr>wr_Nodes = 0, wr_CPUPerNode = 0, wr_MemPerNode = 0, wr_WallTime = 0\<rparr>)
     \<lparr>wj_Status := \<lparr>wjst_Status = status\<rparr>\<rparr>"

definition example_world :: "string \<Rightarrow> pod list \<Rightarrow> unit wlm_job api_world" where
  "example_world status ps = \<lparr>aw_jobs = [example_job status], aw_pods = ps, aw_fault = None\<rparr>"

lemma example_job_simps:
  "wj_resources (example_job status) = no_resources"
  "meta_key (wj_Meta (example_job status)) = (''default'', ''lolcow'')"
  "wjst_Status (wj_Status (example_job status)) = status"
  "(example_job status)\<lparr>wj_Status := \<lparr>wjst_Status = s\<rparr>\<rparr> = example_job s"
  by (simp_all add: example_job_def example_wj_def wj_resources_def no_resources_def mul64_def meta_key_def
      int64_defs)

lemma example_world_view:
  "world_jobs wj_Meta (example_world status ps) = [(''default'', ''lolcow'') \<mapsto> example_job status]"
  "world_pods (example_world status []) = Map.empty"
  by (simp_all add: world_jobs_def world_pods_def example_world_def example_job_simps)

theorem WlmJob_Reconcile_refines_witness:
  "\<exists>p w'. WlmJob_Reconcile example_rc (Ok example_gvk) (tracker_client wj_Meta wj_set_ns zero_wlm_job)
       (''default'', ''lolcow'') (example_world [] []) = (Ok (), w') \<and>
     world_pods w' (''default'', ''lolcow-wlm-job'') = Some p"
proof -
  obtain r w' where rw: "WlmJob_Reconcile example_rc (Ok example_gvk) (tracker_client wj_Meta wj_set_ns zero_wlm_job)
       (''default'', ''lolcow'') (example_world [] []) = (r, w')" by fastforce
  have "world_ok wj_Meta w' \<and> (r, world_jobs wj_Meta w', world_pods w') =
    reconcile_spec wlm_job_kind example_rc (Ok example_gvk) (''default'', ''lolcow'')
      (world_jobs wj_Meta (example_world [] []), world_pods (example_world [] []))"
    by (rule WlmJob_Reconcile_refines [OF _ _ rw])
      (simp_all add: world_ok_def example_world_def example_job_simps tracker_ok_def named_def)
  moreover have "meta_key (pod_Meta (wj_pod example_rc (example_job []) None)) = (''default'', ''lolcow-wlm-job'')"
    by (simp add: wj_pod_def example_job_def example_wj_def meta_key_def)
  ultimately show ?thesis
    using rw by (simp add: reconcile_spec_def example_world_view owned_pod_wlm example_job_simps meta_key_def)
qed

definition running_pod :: "reconciler \<Rightarrow> pod" where
  "running_pod rc = (wj_pod rc (example_job []) None)\<lparr>pod_Phase := ''Running''\<rparr>"

lemma running_pod_simps:
  "meta_key (pod_Meta (running_pod rc)) = (''default'', ''lolcow-wlm-job'')"
  "pod_Phase (running_pod rc) = ''Running''"
  by (simp_all add: running_pod_def wj_pod_def example_job_def example_wj_def meta_key_def)

lemma example_settled_running:
  "settled wlm_job_kind ''-wlm-job'' (''default'', ''lolcow'') (example_world ''Running'' [running_pod rc])"
  by (simp add: settled_def example_world_view example_job_simps)
    (simp add: world_ok_def world_pods_def example_world_def running_pod_simps example_job_simps tracker_ok_def
      named_def pod_key_def)

text \<open>
  C19. One transient error breaks the guarantee: from a running job whose pod runs, a failed
  read of the pod clears the job's status, and after the pod is deleted the next
  reconciliation creates it again, although the job was never deleted.
\<close>

theorem WlmJob_transient_error_recreates:
  "\<exists>w1 w2. cluster_run wlm_job_kind wj_set_ns zero_wlm_job rc (Ok gvk) True kept
       (example_world ''Running'' [running_pod rc]) w1 \<and>
     world_pods w1 (''default'', ''lolcow-wlm-job'') = None \<and>
     cluster_run wlm_job_kind wj_set_ns zero_wlm_job rc (Ok gvk) True kept w1 w2 \<and>
     world_pods w2 (''default'', ''lolcow-wlm-job'') \<noteq> None"
proof -
  have view: "world_jobs (jk_meta wlm_job_kind) (example_world ''Running'' [running_pod rc]) (''default'', ''lolcow'')
      = Some (example_job ''Running'')" by (simp add: example_world_view)
  have own: "\<exists>p. owned_pod wlm_job_kind rc (Ok gvk) (jk_set_status wlm_job_kind s (example_job ''Running'')) = Ok p"
    for s
  proof -
    have "jk_set_status wlm_job_kind s (example_job ''Running'') = example_job s" by (simp add: example_job_def)
    then show ?thesis using owned_pod_wlm [OF example_job_simps(1) [of s], of rc gvk] by metis
  qed
  have pod: "world_pods (example_world ''Running'' [running_pod rc]) (pod_key ''-wlm-job'' (''default'', ''lolcow'')) \<noteq> None"
    by (simp add: world_pods_def example_world_def running_pod_simps pod_key_def)
  show ?thesis
    using wlm.fault_recreates [OF example_settled_running view own owned_pod_wlm [OF example_job_simps(1)] pod]
    by (simp add: pod_key_def)
qed

text \<open>
  The pods of a WlmJob \<open>n\<close> and of a SlurmJob \<open>n-wlm\<close> in the same namespace have the
  same key, so each job takes the other's pod for its own.
\<close>

theorem pod_names_collide:
  assumes "newPodForWJ rc wj = Ok p" "newPodForSJ rc sj = Ok q"
    and "om_Namespace (sj_Meta sj) = om_Namespace (wj_Meta wj)" "om_Name (sj_Meta sj) = om_Name (wj_Meta wj) @ ''-wlm''"
  shows "meta_key (pod_Meta p) = meta_key (pod_Meta q)"
  using newPodForWJ_key [OF assms(1)] newPodForSJ_key [OF assms(2)] assms(3,4)
  by (simp add: pod_key_def meta_key_def)

theorem pod_names_collide_witness:
  "\<exists>p q. newPodForWJ example_rc (example_job []) = Ok p \<and> newPodForSJ example_rc
     ((example_sj (print_script (print_resources (no_resources\<lparr>r_Nodes := 2\<rparr>)) []))
        \<lparr>sj_Meta := (wj_Meta (example_job []))\<lparr>om_Name := ''lolcow-wlm''\<rparr>\<rparr>) = Ok q \<and>
     meta_key (pod_Meta p) = meta_key (pod_Meta q)"
proof -
  define sj where "sj = (example_sj (print_script (print_resources (no_resources\<lparr>r_Nodes := 2\<rparr>)) []))
        \<lparr>sj_Meta := (wj_Meta (example_job []))\<lparr>om_Name := ''lolcow-wlm''\<rparr>\<rparr>"
  have "extractBatchResources (sjs_Batch (sj_Spec sj)) = Ok (no_resources\<lparr>r_Nodes := 2\<rparr>)"
    by (simp add: sj_def example_sj_def example_batch_two_nodes)
  then obtain q where q: "newPodForSJ example_rc sj = Ok q"
    by (auto simp: newPodForSJ_def affinityForSj_def AffinityForResources_def node_match_def no_resources_def)
  obtain p where p: "newPodForWJ example_rc (example_job []) = Ok p"
    by (cases "node_match (wj_resources (example_job [])) = []")
      (auto simp: newPodForWJ_def AffinityForResources_def)
  have "meta_key (pod_Meta p) = meta_key (pod_Meta q)"
    by (rule pod_names_collide [OF p q]) (simp_all add: sj_def example_job_def example_wj_def)
  with p q show ?thesis unfolding sj_def by blast
qed

text \<open>
  Progress: a reconciliation of a new job creates its pod, and when the pod gets a phase
  the next one copies it into the status of the job.
\<close>

theorem WlmJob_gets_status:
  assumes "world_ok wj_Meta w" "world_jobs wj_Meta w k = Some j" "wjst_Status (wj_Status j) = []"
    and "owned_pod wlm_job_kind rc scheme j = Ok p" "world_pods w (meta_key (pod_Meta p)) = None"
  shows "\<exists>w1 ps w2 j'.
    WlmJob_Reconcile rc scheme (tracker_client wj_Meta wj_set_ns zero_wlm_job) k w = (Ok (), w1) \<and>
    tracker_Update pod_Meta pod_set_ns (aw_pods w1) (p\<lparr>pod_Phase := phase\<rparr>) (fst k) = Ok ps \<and>
    WlmJob_Reconcile rc scheme (tracker_client wj_Meta wj_set_ns zero_wlm_job) k (w1\<lparr>aw_pods := ps\<rparr>) = (Ok (), w2) \<and>
    world_jobs wj_Meta w2 k = Some j' \<and> wjst_Status (wj_Status j') = phase"
proof -
  let ?cl = "tracker_client wj_Meta wj_set_ns zero_wlm_job" and ?pk = "meta_key (pod_Meta p)"
  have k: "named k" "meta_key (wj_Meta j) = k"
    using assms(1,2) wlm_jobs.store.view_key [of "aw_jobs w" k j] by (simp_all add: world_ok_def world_jobs_def)
  have pk: "?pk = pod_key ''-wlm-job'' k" using wlm.owned_pod_key [OF assms(4)] k by simp
  then have npk: "named ?pk" "fst ?pk = fst k" using k(1) by (simp_all add: named_def pod_key_def)
  obtain r1 w1 where rec1: "WlmJob_Reconcile rc scheme ?cl k w = (r1, w1)" by fastforce
  from wlm.reconcile_world [of w k rc scheme r1 w1] rec1 assms k(1)
  have w1: "r1 = Ok ()" "world_ok wj_Meta w1" "world_pods w1 ?pk = Some p" "world_jobs wj_Meta w1 = world_jobs wj_Meta w"
    by (auto simp: WlmJob_Reconcile_def reconcile_spec_def)
  have p1: "tracker_ok pod_Meta (aw_pods w1)" "tracker_view pod_Meta (aw_pods w1) ?pk = Some p"
    using w1 by (simp_all add: world_ok_def world_pods_def)
  obtain ps where ps: "tracker_Update pod_Meta pod_set_ns (aw_pods w1) (p\<lparr>pod_Phase := phase\<rparr>) (fst ?pk) = Ok ps"
    using pods.store.update_view [OF p1(1), of "p\<lparr>pod_Phase := phase\<rparr>"] p1 npk by (auto simp: meta_key_def)
  from world_pods_update [OF w1(2,3) _ ps]
  have w2: "world_ok wj_Meta (w1\<lparr>aw_pods := ps\<rparr>)"
    "world_pods (w1\<lparr>aw_pods := ps\<rparr>) ?pk = Some (p\<lparr>pod_Phase := phase\<rparr>)" by simp_all
  obtain r2 w3 where rec2: "WlmJob_Reconcile rc scheme ?cl k (w1\<lparr>aw_pods := ps\<rparr>) = (r2, w3)" by fastforce
  from wlm.reconcile_world [of "w1\<lparr>aw_pods := ps\<rparr>" k rc scheme r2 w3] rec2 w1 w2 assms(2,4) k(1)
  have "r2 = Ok ()" "world_jobs wj_Meta w3 k = Some (j\<lparr>wj_Status := (wj_Status j)\<lparr>wjst_Status := phase\<rparr>\<rparr>)"
    by (simp_all add: WlmJob_Reconcile_def reconcile_spec_def)
  with rec1 rec2 w1(1) ps npk(2) show ?thesis
    by (intro exI [of _ w1] exI [of _ ps] exI [of _ w3]
        exI [of _ "j\<lparr>wj_Status := (wj_Status j)\<lparr>wjst_Status := phase\<rparr>\<rparr>"]) simp
qed

theorem WlmJob_gets_status_witness:
  "\<exists>w1 ps w2 j'.
    WlmJob_Reconcile example_rc (Ok example_gvk) (tracker_client wj_Meta wj_set_ns zero_wlm_job) (''default'', ''lolcow'')
      (example_world [] []) = (Ok (), w1) \<and>
    WlmJob_Reconcile example_rc (Ok example_gvk) (tracker_client wj_Meta wj_set_ns zero_wlm_job) (''default'', ''lolcow'')
      (w1\<lparr>aw_pods := ps\<rparr>) = (Ok (), w2) \<and>
    world_jobs wj_Meta w2 (''default'', ''lolcow'') = Some j' \<and> wjst_Status (wj_Status j') = ''Succeeded''"
proof -
  have ok: "world_ok wj_Meta (example_world [] [])"
    by (simp add: world_ok_def example_world_def example_job_simps tracker_ok_def named_def)
  have job: "world_jobs wj_Meta (example_world [] []) (''default'', ''lolcow'') = Some (example_job [])"
    by (simp add: example_world_view)
  note owned = owned_pod_wlm [OF example_job_simps(1) [of "[]"], of example_rc example_gvk]
  show ?thesis
    using WlmJob_gets_status [OF ok job example_job_simps(3) owned fun_cong [OF example_world_view(2)],
        where phase = "''Succeeded''"]
    by blast
qed

end
