(* ===== verification/Work_Queue.thy ===== *)
theory Work_Queue
  imports Reconcile
begin

text \<open>
  The work queue between the event handlers of a controller and its workers
  (\<open>client-go/util/workqueue/queue.go\<close>): a request that is queued is not queued again, and one
  that is being processed is queued again only when it is done. The locale \<open>work_queue\<close> is what
  the controller relies on.
\<close>

section \<open>The queue\<close>

record 'a work_queue =
  wq_queue :: "'a list"
  wq_dirty :: "'a set"
  wq_processing :: "'a set"
  wq_shuttingDown :: bool

definition newQueue :: "'a work_queue" where
  "newQueue = \<lparr>wq_queue = [], wq_dirty = {}, wq_processing = {}, wq_shuttingDown = False\<rparr>"

definition wq_Add :: "'a \<Rightarrow> 'a work_queue \<Rightarrow> 'a work_queue" where
  "wq_Add item q =
     (if wq_shuttingDown q then q
      else if item \<in> wq_dirty q then q
      else
        (let q = q\<lparr>wq_dirty := insert item (wq_dirty q)\<rparr>
         in if item \<in> wq_processing q then q
            else q\<lparr>wq_queue := wq_queue q @ [item]\<rparr>))"

definition wq_Len :: "'a work_queue \<Rightarrow> nat" where
  "wq_Len q = length (wq_queue q)"

text \<open>What a call of \<open>Get\<close> does: it waits, tells the worker to end, or gives an item.\<close>

datatype 'a get_result = Waits | Shutdown | Item 'a

definition wq_Get :: "'a work_queue \<Rightarrow> 'a get_result \<times> 'a work_queue" where
  "wq_Get q =
     (case wq_queue q of
        [] \<Rightarrow> (if wq_shuttingDown q then Shutdown else Waits, q)
      | item # rest \<Rightarrow>
          (Item item, q\<lparr>wq_queue := rest, wq_processing := insert item (wq_processing q),
                        wq_dirty := wq_dirty q - {item}\<rparr>))"

definition wq_Done :: "'a \<Rightarrow> 'a work_queue \<Rightarrow> 'a work_queue" where
  "wq_Done item q =
     (let q = q\<lparr>wq_processing := wq_processing q - {item}\<rparr>
      in if item \<in> wq_dirty q then q\<lparr>wq_queue := wq_queue q @ [item]\<rparr> else q)"

definition wq_ShutDown :: "'a work_queue \<Rightarrow> 'a work_queue" where
  "wq_ShutDown q = q\<lparr>wq_shuttingDown := True\<rparr>"

section \<open>The contract of a queue\<close>

text \<open>
  \<open>pending\<close> are the items to be processed, \<open>active\<close> those a worker has; an item can be both.
\<close>

locale work_queue =
  fixes add :: "'a \<Rightarrow> 'q \<Rightarrow> 'q"
    and get :: "'q \<Rightarrow> 'a get_result \<times> 'q"
    and finish :: "'a \<Rightarrow> 'q \<Rightarrow> 'q"
    and pending :: "'q \<Rightarrow> 'a set"
    and active :: "'q \<Rightarrow> 'a set"
    and ok :: "'q \<Rightarrow> bool"
  assumes pending_finite: "ok q \<Longrightarrow> finite (pending q)"
    and add_item: "ok q \<Longrightarrow> ok (add x q) \<and> pending (add x q) = insert x (pending q) \<and> active (add x q) = active q"
    and get_item: "ok q \<Longrightarrow> get q = (Item x, q') \<Longrightarrow>
      ok q' \<and> x \<in> pending q \<and> x \<notin> active q \<and> pending q' = pending q - {x} \<and> active q' = insert x (active q)"
    and get_waits: "ok q \<Longrightarrow> fst (get q) = Waits \<Longrightarrow> pending q \<subseteq> active q"
    and get_runs: "ok q \<Longrightarrow> fst (get q) \<noteq> Shutdown"
    and finish_item: "ok q \<Longrightarrow> x \<in> active q \<Longrightarrow>
      ok (finish x q) \<and> pending (finish x q) = pending q \<and> active (finish x q) = active q - {x}"
begin

lemma add_all:
  "ok q \<Longrightarrow> ok (fold add xs q) \<and> pending (fold add xs q) = set xs \<union> pending q \<and> active (fold add xs q) = active q"
proof (induction xs arbitrary: q)
  case (Cons x xs)
  with add_item [OF Cons.prems, of x] show ?case by simp
qed simp

lemma add_all_card: "ok q \<Longrightarrow> card (pending (fold add xs q)) \<le> card (pending q) + length xs"
  using add_all [of q xs] pending_finite [of q] card_Un_le [of "set xs" "pending q"] card_length [of xs] by simp

lemma get_card: "ok q \<Longrightarrow> get q = (Item x, q') \<Longrightarrow> card (pending q) = Suc (card (pending q'))"
  using get_item [of q x q'] pending_finite [of q] card.remove [of "pending q" x] by simp

text \<open>When every item in work is finished, a pending item is handed out.\<close>

lemma get_idle:
  assumes "ok q" "active q = {}" "pending q \<noteq> {}"
  obtains x q' where "get q = (Item x, q')"
proof (cases "get q")
  case (Pair r q')
  with get_waits [OF assms(1)] get_runs [OF assms(1)] assms(2,3) have "r \<noteq> Waits" "r \<noteq> Shutdown" by auto
  then show thesis using that Pair by (cases r) auto
qed

end

section \<open>The queue meets its contract\<close>

definition wq_ok :: "'a work_queue \<Rightarrow> bool" where
  "wq_ok q \<longleftrightarrow> distinct (wq_queue q) \<and> set (wq_queue q) = wq_dirty q - wq_processing q \<and>
     finite (wq_dirty q) \<and> \<not> wq_shuttingDown q"

lemma wq_ok_new [simp]: "wq_ok newQueue"
  by (simp add: wq_ok_def newQueue_def)

interpretation wq: work_queue wq_Add wq_Get wq_Done wq_dirty wq_processing wq_ok
proof
  fix q q' :: "'a work_queue" and x
  assume q: "wq_ok q"
  show "wq_ok (wq_Add x q) \<and> wq_dirty (wq_Add x q) = insert x (wq_dirty q) \<and> wq_processing (wq_Add x q) = wq_processing q"
    using q by (auto simp: wq_Add_def wq_ok_def Let_def)
  show "wq_ok q' \<and> x \<in> wq_dirty q \<and> x \<notin> wq_processing q \<and>
      wq_dirty q' = wq_dirty q - {x} \<and> wq_processing q' = insert x (wq_processing q)" if "wq_Get q = (Item x, q')"
  proof (cases "wq_queue q")
    case (Cons y ys)
    with that have "y = x" and q': "q' = q\<lparr>wq_queue := ys, wq_processing := insert x (wq_processing q),
        wq_dirty := wq_dirty q - {x}\<rparr>" by (auto simp: wq_Get_def)
    with q Cons have "distinct (x # ys)" "insert x (set ys) = wq_dirty q - wq_processing q"
      "finite (wq_dirty q)" "\<not> wq_shuttingDown q" by (simp_all add: wq_ok_def)
    then show ?thesis unfolding q' by (auto simp: wq_ok_def)
  qed (use that in \<open>simp add: wq_Get_def split: if_splits\<close>)
  show "x \<in> wq_processing q \<Longrightarrow> wq_ok (wq_Done x q) \<and> wq_dirty (wq_Done x q) = wq_dirty q \<and>
      wq_processing (wq_Done x q) = wq_processing q - {x}"
    using q by (auto simp: wq_Done_def wq_ok_def Let_def)
  show "fst (wq_Get q) = Waits \<Longrightarrow> wq_dirty q \<subseteq> wq_processing q"
    using q by (auto simp: wq_Get_def wq_ok_def split: list.splits)
  show "fst (wq_Get q) \<noteq> Shutdown"
    using q by (auto simp: wq_Get_def wq_ok_def split: list.splits)
qed (simp add: wq_ok_def)

end
