(* ===== verification/Event_Handlers.thy ===== *)
theory Event_Handlers
  imports Work_Queue
begin

text \<open>
  How a change in the cluster becomes a request to reconcile: the scheme that knows the kinds of
  the job types (\<open>apis.go\<close>, \<open>register.go\<close>), the handlers of events (\<open>handler/enqueue.go\<close>,
  \<open>handler/enqueue_owner.go\<close>) and their registration by \<open>AddToManager\<close>. The lemmas say that an
  event of a pod the operator made leads back to the job it was made for.
\<close>

section \<open>The scheme\<close>

text \<open>The kinds of each Go type, by the name of the type, in the order they were registered.\<close>

type_synonym scheme = "string \<Rightarrow> group_version_kind list"

definition AddKnownTypeWithName :: "group_version_kind \<Rightarrow> string \<Rightarrow> scheme \<Rightarrow> scheme" where
  "AddKnownTypeWithName gvk typ s =
     (if gvk \<in> set (s typ) then s else s(typ := s typ @ [gvk]))"

definition AddKnownTypes :: "string \<times> string \<Rightarrow> string list \<Rightarrow> scheme \<Rightarrow> scheme" where
  "AddKnownTypes gv types s =
     fold (\<lambda>typ. AddKnownTypeWithName \<lparr>gvk_Group = fst gv, gvk_Version = snd gv, gvk_Kind = typ\<rparr> typ) types s"

definition wlm_group_version :: "string \<times> string" where
  "wlm_group_version = (''wlm.sylabs.io'', ''v1alpha1'')"

text \<open>The types registered by the \<open>init\<close> functions of the package.\<close>

definition wlm_types :: "string list" where
  "wlm_types = [''SlurmJob'', ''SlurmJobList'', ''WlmJob'', ''WlmJobList'']"

definition apis_AddToScheme :: "scheme \<Rightarrow> scheme" where
  "apis_AddToScheme = AddKnownTypes wlm_group_version wlm_types"

definition ObjectKinds :: "scheme \<Rightarrow> string \<Rightarrow> group_version_kind list go" where
  "ObjectKinds s typ =
     (if s typ = [] then Err (ErrorString (''no kind is registered for the type '' @ typ)) else Ok (s typ))"

definition wlm_kind :: "string \<Rightarrow> group_version_kind" where
  "wlm_kind kind = \<lparr>gvk_Group = ''wlm.sylabs.io'', gvk_Version = ''v1alpha1'', gvk_Kind = kind\<rparr>"

lemma AddKnownTypes_other: "typ \<notin> set types \<Longrightarrow> AddKnownTypes gv types s typ = s typ"
  by (induction types arbitrary: s) (auto simp: AddKnownTypes_def AddKnownTypeWithName_def)

text \<open>Registering on a scheme that does not know the job types gives each type its one kind.\<close>

lemma registered_kinds:
  assumes "\<And>typ. typ \<in> set wlm_types \<Longrightarrow> s typ = []" "typ \<in> set wlm_types"
  shows "apis_AddToScheme s typ = [wlm_kind typ]"
  using assms
  by (auto simp: apis_AddToScheme_def AddKnownTypes_def AddKnownTypeWithName_def wlm_types_def
      wlm_group_version_def wlm_kind_def)

section \<open>The handlers\<close>

datatype meta_event =
    CreateEvent "object_meta option"
  | UpdateEvent "object_meta option" "object_meta option"
  | DeleteEvent "object_meta option"
  | GenericEvent "object_meta option"

text \<open>The requests a handler adds to the queue, in order.\<close>

definition object_request :: "object_meta option \<Rightarrow> obj_key list" where
  "object_request m = (case m of None \<Rightarrow> [] | Some m \<Rightarrow> [(om_Namespace m, om_Name m)])"

fun EnqueueRequestForObject :: "meta_event \<Rightarrow> obj_key list" where
  "EnqueueRequestForObject (CreateEvent m) = object_request m"
| "EnqueueRequestForObject (UpdateEvent old new) = object_request old @ object_request new"
| "EnqueueRequestForObject (DeleteEvent m) = object_request m"
| "EnqueueRequestForObject (GenericEvent m) = object_request m"

definition GetControllerOf :: "object_meta \<Rightarrow> owner_reference option" where
  "GetControllerOf controllee = find (\<lambda>ref. or_Controller ref = Some True) (om_OwnerReferences controllee)"

record owner_handler =
  eo_OwnerType :: string
  eo_IsController :: bool
  eo_groupKind :: "string \<times> string"

definition parseOwnerTypeGroupKind :: "scheme \<Rightarrow> owner_handler \<Rightarrow> owner_handler go" where
  "parseOwnerTypeGroupKind s e =
     go_bind (ObjectKinds s (eo_OwnerType e)) (\<lambda>kinds.
       case kinds of
         [kind] \<Rightarrow> Ok (e\<lparr>eo_groupKind := (gvk_Group kind, gvk_Kind kind)\<rparr>)
       | _ \<Rightarrow> Err (ErrorString (''Expected exactly 1 kind for OwnerType '' @ eo_OwnerType e)))"

definition getOwnersReferences :: "owner_handler \<Rightarrow> object_meta option \<Rightarrow> owner_reference list" where
  "getOwnersReferences e object =
     (case object of
        None \<Rightarrow> []
      | Some m \<Rightarrow>
          if \<not> eo_IsController e then om_OwnerReferences m
          else (case GetControllerOf m of Some ref \<Rightarrow> [ref] | None \<Rightarrow> []))"

text \<open>The loop over the references gives up, without any request, at one it cannot parse.\<close>

fun owner_requests :: "string \<times> string \<Rightarrow> string \<Rightarrow> owner_reference list \<Rightarrow> obj_key list \<Rightarrow> obj_key list" where
  "owner_requests gk ns [] result = result"
| "owner_requests gk ns (ref # refs) result =
     (case ParseGroupVersion (or_APIVersion ref) of
        Ok (grp, version) \<Rightarrow>
          owner_requests gk ns refs
            (if or_Kind ref = snd gk \<and> grp = fst gk then result @ [(ns, or_Name ref)] else result)
      | _ \<Rightarrow> [])"

definition getOwnerReconcileRequest :: "owner_handler \<Rightarrow> object_meta option \<Rightarrow> obj_key list" where
  "getOwnerReconcileRequest e object =
     (case object of
        None \<Rightarrow> []
      | Some m \<Rightarrow> owner_requests (eo_groupKind e) (om_Namespace m) (getOwnersReferences e object) [])"

fun EnqueueRequestForOwner :: "owner_handler \<Rightarrow> meta_event \<Rightarrow> obj_key list" where
  "EnqueueRequestForOwner e (CreateEvent m) = getOwnerReconcileRequest e m"
| "EnqueueRequestForOwner e (UpdateEvent old new) = getOwnerReconcileRequest e old @ getOwnerReconcileRequest e new"
| "EnqueueRequestForOwner e (DeleteEvent m) = getOwnerReconcileRequest e m"
| "EnqueueRequestForOwner e (GenericEvent m) = getOwnerReconcileRequest e m"

section \<open>The registration of a controller\<close>

text \<open>
  \<open>AddToManager\<close>: a controller with the reconciler, a watch of the jobs and a watch of the pods
  whose handler learns its kind from the scheme. What the manager and the watches of the cache may
  answer are parameters.
\<close>

datatype event_handler = ForObject | ForOwner owner_handler

record manager =
  mgr_scheme :: scheme
  mgr_SetFields :: "string \<Rightarrow> go_error option"
  mgr_Add :: "string \<Rightarrow> go_error option"
  mgr_StartSource :: "string \<Rightarrow> go_error option"

record controller_spec =
  cn_Name :: string
  cn_MaxConcurrentReconciles :: int
  cn_watches :: "(string \<times> event_handler) list"

definition unless_error :: "go_error option \<Rightarrow> 'a go \<Rightarrow> 'a go" where
  "unless_error err k = (case err of Some e \<Rightarrow> Err e | None \<Rightarrow> k)"

definition controller_New :: "string \<Rightarrow> manager \<Rightarrow> int \<Rightarrow> controller_spec go" where
  "controller_New name mgr maxConcurrentReconciles =
     (if name = [] then Err (ErrorString ''must specify Name for Controller'')
      else
        unless_error (mgr_SetFields mgr name)
          (unless_error (mgr_Add mgr name)
             (Ok \<lparr>cn_Name = name,
                  cn_MaxConcurrentReconciles = (if maxConcurrentReconciles \<le> 0 then 1 else maxConcurrentReconciles),
                  cn_watches = []\<rparr>)))"

definition inject_handler :: "scheme \<Rightarrow> event_handler \<Rightarrow> event_handler go" where
  "inject_handler s h =
     (case h of
        ForObject \<Rightarrow> Ok ForObject
      | ForOwner e \<Rightarrow> go_bind (parseOwnerTypeGroupKind s e) (\<lambda>e. Ok (ForOwner e)))"

definition controller_Watch :: "manager \<Rightarrow> string \<Rightarrow> event_handler \<Rightarrow> controller_spec \<Rightarrow> controller_spec go" where
  "controller_Watch mgr src h c =
     unless_error (mgr_SetFields mgr src)
       (go_bind (inject_handler (mgr_scheme mgr) h) (\<lambda>h.
          unless_error (mgr_StartSource mgr src) (Ok (c\<lparr>cn_watches := cn_watches c @ [(src, h)]\<rparr>))))"

definition owner_handler_for :: "string \<Rightarrow> owner_handler" where
  "owner_handler_for typ = \<lparr>eo_OwnerType = typ, eo_IsController = True, eo_groupKind = ([], [])\<rparr>"

definition add_controller :: "string \<Rightarrow> string \<Rightarrow> manager \<Rightarrow> controller_spec go" where
  "add_controller name typ mgr =
     go_bind (controller_New name mgr 0) (\<lambda>c.
     go_bind (controller_Watch mgr typ ForObject c) (\<lambda>c.
       controller_Watch mgr ''Pod'' (ForOwner (owner_handler_for typ)) c))"

definition SlurmJob_AddToManager :: "manager \<Rightarrow> controller_spec go" where
  "SlurmJob_AddToManager = add_controller ''slurmjob-controller'' ''SlurmJob''"

definition WlmJob_AddToManager :: "manager \<Rightarrow> controller_spec go" where
  "WlmJob_AddToManager = add_controller ''wlmjob-controller'' ''WlmJob''"

text \<open>What a registered controller watches, and with which handlers.\<close>

definition job_controller_spec :: "string \<Rightarrow> string \<Rightarrow> controller_spec" where
  "job_controller_spec name typ =
     \<lparr>cn_Name = name, cn_MaxConcurrentReconciles = 1,
      cn_watches =
        [(typ, ForObject),
         (''Pod'', ForOwner \<lparr>eo_OwnerType = typ, eo_IsController = True, eo_groupKind = (''wlm.sylabs.io'', typ)\<rparr>)]\<rparr>"

lemma add_controller_Ok:
  assumes "add_controller name typ mgr = Ok c" "mgr_scheme mgr typ = [wlm_kind typ]"
  shows "c = job_controller_spec name typ"
  using assms
  by (auto simp: add_controller_def controller_New_def controller_Watch_def inject_handler_def unless_error_def
      parseOwnerTypeGroupKind_def ObjectKinds_def owner_handler_for_def wlm_kind_def job_controller_spec_def
      split: if_splits option.splits)

text \<open>Without the kinds in the scheme no controller can be registered.\<close>

lemma add_controller_unregistered:
  assumes "mgr_scheme mgr typ = []"
  shows "add_controller name typ mgr \<noteq> Ok c"
  using assms
  by (auto simp: add_controller_def controller_New_def controller_Watch_def inject_handler_def unless_error_def
      parseOwnerTypeGroupKind_def ObjectKinds_def owner_handler_for_def split: if_splits option.splits)

section \<open>From a pod back to its job\<close>

lemma ParseGroupVersion_string:
  assumes "gvk_Group gvk \<noteq> []" "CHR ''/'' \<notin> set (gvk_Group gvk)" "CHR ''/'' \<notin> set (gvk_Version gvk)"
  shows "ParseGroupVersion (group_version_string gvk) = Ok (gvk_Group gvk, gvk_Version gvk)"
proof -
  have "strings_Split CHR ''/'' (gvk_Group gvk @ CHR ''/'' # gvk_Version gvk) = [gvk_Group gvk, gvk_Version gvk]"
    by (simp add: Split_append Split_plain assms)
  moreover have "gvk_Group gvk @ CHR ''/'' # gvk_Version gvk \<noteq> ''/''" using assms(1) by (cases "gvk_Group gvk") auto
  ultimately show ?thesis using assms(1) by (simp add: ParseGroupVersion_def group_version_string_def)
qed

lemma ParseGroupVersion_wlm: "ParseGroupVersion (group_version_string (wlm_kind kind)) = Ok (''wlm.sylabs.io'', ''v1alpha1'')"
  using ParseGroupVersion_string [of "wlm_kind kind"] by (simp add: wlm_kind_def)

text \<open>The handler of the pods of a kind, as \<open>AddToManager\<close> leaves it.\<close>

definition pod_handler :: "string \<Rightarrow> owner_handler" where
  "pod_handler typ = \<lparr>eo_OwnerType = typ, eo_IsController = True, eo_groupKind = (''wlm.sylabs.io'', typ)\<rparr>"

lemma controlled_request:
  assumes "om_OwnerReferences m = [NewControllerRef owner (wlm_kind kind)]"
  shows "getOwnerReconcileRequest (pod_handler typ) (Some m) =
    (if kind = typ then [(om_Namespace m, om_Name owner)] else [])"
  using assms ParseGroupVersion_wlm [of kind]
  by (simp add: getOwnerReconcileRequest_def getOwnersReferences_def pod_handler_def GetControllerOf_def
      NewControllerRef_def) (simp add: wlm_kind_def)

lemma newPod_owners:
  "newPodForSJ rc sj = Ok p \<Longrightarrow> om_OwnerReferences (pod_Meta p) = [] \<and> pod_Phase p = []"
  "newPodForWJ rc wj = Ok p \<Longrightarrow> om_OwnerReferences (pod_Meta p) = [] \<and> pod_Phase p = []"
  by (auto simp: newPodForSJ_def newPodForWJ_def sj_pod_def wj_pod_def split: go.splits if_splits)

lemma owned_pod_request:
  assumes "owned_pod kind rc (Ok (wlm_kind typ')) j = Ok p"
    "\<And>p. jk_newPod kind rc j = Ok p \<Longrightarrow> om_OwnerReferences (pod_Meta p) = []"
  shows "getOwnerReconcileRequest (pod_handler typ) (Some (pod_Meta p)) =
    (if typ' = typ then [(om_Namespace (pod_Meta p), om_Name (jk_meta kind j))] else [])"
proof -
  from assms(1) obtain p0 meta where p: "jk_newPod kind rc j = Ok p0" "p = p0\<lparr>pod_Meta := meta\<rparr>"
    "SetControllerReference (Ok (wlm_kind typ')) (jk_meta kind j) (pod_Meta p0) = Ok meta"
    by (auto simp: owned_pod_def)
  from SetControllerReference_fresh [OF assms(2) [OF p(1)]] p(3)
  have "om_OwnerReferences meta = [NewControllerRef (jk_meta kind j) (wlm_kind typ')]" by auto
  with p(2) show ?thesis by (simp add: controlled_request)
qed


section \<open>Properties\<close>

fun handler_requests :: "event_handler \<Rightarrow> meta_event \<Rightarrow> obj_key list" where
  "handler_requests ForObject ev = EnqueueRequestForObject ev"
| "handler_requests (ForOwner e) ev = EnqueueRequestForOwner e ev"

lemma AddToManager_pod_handler:
  assumes "\<And>typ. typ \<in> set wlm_types \<Longrightarrow> s typ = []" "mgr_scheme mgr = apis_AddToScheme s"
    "add_controller name typ mgr = Ok c" "typ \<in> set wlm_types" "typ \<noteq> ''Pod''" "(''Pod'', h) \<in> set (cn_watches c)"
  shows "h = ForOwner (pod_handler typ)"
proof -
  have "mgr_scheme mgr typ = [wlm_kind typ]" using registered_kinds [OF assms(1,4)] assms(2) by simp
  from add_controller_Ok [OF assms(3) this] assms(5,6) show ?thesis
    by (auto simp: job_controller_spec_def pod_handler_def)
qed


definition example_manager :: manager where
  "example_manager = \<lparr>mgr_scheme = apis_AddToScheme (\<lambda>typ. []), mgr_SetFields = (\<lambda>x. None), mgr_Add = (\<lambda>x. None),
     mgr_StartSource = (\<lambda>x. None)\<rparr>"

lemma example_manager_adds:
  assumes "typ \<in> set wlm_types" "name \<noteq> []"
  shows "add_controller name typ example_manager = Ok (job_controller_spec name typ)"
  using registered_kinds [of "\<lambda>typ. []" "typ"] assms
  by (simp add: add_controller_def controller_New_def controller_Watch_def inject_handler_def unless_error_def
      parseOwnerTypeGroupKind_def ObjectKinds_def owner_handler_for_def example_manager_def job_controller_spec_def)
    (simp add: wlm_kind_def)


end
