(* ===== verification/Operator.thy ===== *)
theory Operator
  imports Event_Handlers
begin

text \<open>
  A controller of the operator at work: the informers announce changes, the handlers add requests
  to the queue, workers take them, reconcile and retry after errors, and the process may be
  restarted at any time (\<open>AddToManager\<close> of both controllers, \<open>internal/controller/controller.go\<close>).
  The cluster around it is free to change. The theorems: no job is reconciled twice at a time, no
  job is forgotten, and the operator, left alone, comes to rest with every job synchronised.
\<close>

section \<open>What the informers announce\<close>

text \<open>
  An informer of a namespace (or of all) announces every object that appeared, changed or
  disappeared, with its old and its new state. This is the documented behaviour of a watch; the
  theory \<open>Informer_Sync\<close> shows it for the watches of the object tracker.
\<close>

definition watches_namespace :: "string \<Rightarrow> object_meta \<Rightarrow> bool" where
  "watches_namespace ns m \<longleftrightarrow> ns = [] \<or> om_Namespace m = ns"

definition old_event :: "('o \<Rightarrow> object_meta) \<Rightarrow> 'o list \<Rightarrow> 'o \<Rightarrow> meta_event list" where
  "old_event meta new x =
     (case tracker_view meta new (meta_key (meta x)) of
        None \<Rightarrow> [DeleteEvent (Some (meta x))]
      | Some y \<Rightarrow> if y = x then [] else [UpdateEvent (Some (meta x)) (Some (meta y))])"

definition new_event :: "('o \<Rightarrow> object_meta) \<Rightarrow> 'o list \<Rightarrow> 'o \<Rightarrow> meta_event list" where
  "new_event meta old y =
     (if tracker_view meta old (meta_key (meta y)) = None then [CreateEvent (Some (meta y))] else [])"

definition object_events :: "('o \<Rightarrow> object_meta) \<Rightarrow> string \<Rightarrow> 'o list \<Rightarrow> 'o list \<Rightarrow> meta_event list" where
  "object_events meta ns old new =
     concat (map (old_event meta new) (filter (\<lambda>x. watches_namespace ns (meta x)) old)) @
     concat (map (new_event meta old) (filter (\<lambda>x. watches_namespace ns (meta x)) new))"

fun event_metas :: "meta_event \<Rightarrow> object_meta option list" where
  "event_metas (CreateEvent m) = [m]"
| "event_metas (UpdateEvent old new) = [old, new]"
| "event_metas (DeleteEvent m) = [m]"
| "event_metas (GenericEvent m) = [m]"

lemma handled_metas:
  "EnqueueRequestForObject ev = concat (map object_request (event_metas ev))"
  "EnqueueRequestForOwner e ev = concat (map (getOwnerReconcileRequest e) (event_metas ev))"
  by (cases ev; simp)+

text \<open>A change of an object in a watched namespace is announced with its metadata before or after.\<close>

lemma object_events_complete:
  assumes "tracker_ok meta old" "tracker_ok meta new" "tracker_view meta old k \<noteq> tracker_view meta new k"
    "ns = [] \<or> fst k = ns"
  shows "\<exists>x. (tracker_view meta old k = Some x \<or> tracker_view meta new k = Some x) \<and>
    (\<exists>ev \<in> set (object_events meta ns old new). Some (meta x) \<in> set (event_metas ev))"
proof (cases "tracker_view meta old k")
  case None
  with assms(3) obtain y where y: "tracker_view meta new k = Some y" by (cases "tracker_view meta new k") auto
  note yk = tracker_view_Some [OF y]
  then have "watches_namespace ns (meta y)" using assms(4) by (auto simp: watches_namespace_def meta_key_def)
  moreover have "new_event meta old y = [CreateEvent (Some (meta y))]" using yk None by (simp add: new_event_def)
  ultimately have "CreateEvent (Some (meta y)) \<in> set (object_events meta ns old new)"
    using yk by (force simp: object_events_def)
  then show ?thesis using y by force
next
  case (Some x)
  note xk = tracker_view_Some [OF Some]
  then have w: "watches_namespace ns (meta x)" using assms(4) by (auto simp: watches_namespace_def meta_key_def)
  have "\<exists>ev. old_event meta new x = [ev] \<and> Some (meta x) \<in> set (event_metas ev)"
    using xk Some assms(3) by (auto simp: old_event_def split: option.splits)
  then obtain ev where "old_event meta new x = [ev]" "Some (meta x) \<in> set (event_metas ev)" by blast
  with xk w have "ev \<in> set (object_events meta ns old new)" by (force simp: object_events_def)
  with \<open>Some (meta x) \<in> set (event_metas ev)\<close> Some show ?thesis by blast
qed

lemma object_events_sources:
  assumes "ev \<in> set (object_events meta ns old new)" "m \<in> set (event_metas ev)"
  obtains x where "x \<in> set old \<union> set new" "m = Some (meta x)"
proof -
  have "\<exists>x \<in> set old \<union> set new. m = Some (meta x)" if "ev \<in> set (old_event meta new y)" "y \<in> set old" for y
  proof (cases "tracker_view meta new (meta_key (meta y))")
    case (Some z)
    with that tracker_view_Some [OF Some] assms(2) show ?thesis by (cases "z = y") (auto simp: old_event_def)
  qed (use that assms(2) in \<open>auto simp: old_event_def\<close>)
  moreover have "\<exists>x \<in> set old \<union> set new. m = Some (meta x)" if "ev \<in> set (new_event meta old y)" "y \<in> set new" for y
    using that assms(2) by (auto simp: new_event_def split: if_splits)
  ultimately show thesis using assms(1) that by (auto simp: object_events_def)
qed

text \<open>A change of one object is announced by at most one event.\<close>

lemma concat_single:
  assumes "distinct (map g xs)" "\<And>x. x \<in> set xs \<Longrightarrow> g x \<noteq> k \<Longrightarrow> f x = []" "\<And>x. length (f x) \<le> Suc 0"
  shows "length (concat (map f xs)) \<le> Suc 0 \<and> (k \<notin> g ` set xs \<longrightarrow> concat (map f xs) = [])"
  using assms(1,2)
proof (induction xs)
  case (Cons x xs)
  then have IH: "length (concat (map f xs)) \<le> Suc 0 \<and> (k \<notin> g ` set xs \<longrightarrow> concat (map f xs) = [])" by simp
  show ?case
  proof (cases "g x = k")
    case True
    then have "k \<notin> g ` set xs" using Cons.prems(1) by auto
    with IH have "concat (map f xs) = []" by blast
    then show ?thesis using True assms(3) [of x] by (simp del: concat_eq_Nil_conv)
  next
    case False
    then have "f x = []" using Cons.prems(2) by simp
    with IH False show ?thesis by simp
  qed
qed simp

lemma object_events_single:
  assumes "tracker_ok meta old" "tracker_ok meta new" "\<And>k'. k' \<noteq> k \<Longrightarrow> tracker_view meta old k' = tracker_view meta new k'"
  shows "length (object_events meta ns old new) \<le> Suc 0"
proof -
  let ?w = "filter (\<lambda>x. watches_namespace ns (meta x))" and ?g = "\<lambda>x. meta_key (meta x)"
  have d: "distinct (map ?g (?w old))" "distinct (map ?g (?w new))"
    using assms(1,2) by (auto simp: tracker_ok_def comp_def intro: distinct_map_filter)
  have "old_event meta new x = []" if "x \<in> set (?w old)" "?g x \<noteq> k" for x
    using assms(3) [OF that(2)] tracker_view_member [OF assms(1), of x] that by (simp add: old_event_def)
  moreover have "length (old_event meta new x) \<le> Suc 0" for x by (auto simp: old_event_def split: option.splits)
  ultimately have old: "length (concat (map (old_event meta new) (?w old))) \<le> Suc 0 \<and>
      (k \<notin> ?g ` set (?w old) \<longrightarrow> concat (map (old_event meta new) (?w old)) = [])"
    by (rule concat_single [OF d(1)])
  have "new_event meta old x = []" if "x \<in> set (?w new)" "?g x \<noteq> k" for x
    using assms(3) [OF that(2)] tracker_view_member [OF assms(2), of x] that by (simp add: new_event_def)
  moreover have "length (new_event meta old x) \<le> Suc 0" for x by (simp add: new_event_def)
  ultimately have new: "length (concat (map (new_event meta old) (?w new))) \<le> Suc 0 \<and>
      (k \<notin> ?g ` set (?w new) \<longrightarrow> concat (map (new_event meta old) (?w new)) = [])"
    by (rule concat_single [OF d(2)])
  show ?thesis
  proof (cases "tracker_view meta old k")
    case None
    then have "k \<notin> ?g ` set (?w old)" using tracker_view_None [of meta old k] by auto
    with old have "concat (map (old_event meta new) (?w old)) = []" by blast
    then show ?thesis using new by (simp add: object_events_def del: concat_eq_Nil_conv)
  next
    case (Some x)
    have "concat (map (new_event meta old) (?w new)) = []"
    proof -
      have "new_event meta old x = []" if "x \<in> set new" for x
        using tracker_view_member [OF assms(2) that] assms(3) [of "?g x"] Some
        by (cases "?g x = k") (simp_all add: new_event_def)
      then show ?thesis by simp
    qed
    then show ?thesis using old by (simp add: object_events_def del: concat_eq_Nil_conv)
  qed
qed

lemma object_events_none:
  assumes "tracker_ok meta old" "tracker_ok meta new" "tracker_view meta old = tracker_view meta new"
  shows "object_events meta ns old new = []"
  using assms(3) tracker_view_member [OF assms(1)] tracker_view_member [OF assms(2)]
  by (auto simp: object_events_def old_event_def new_event_def)

section \<open>The controller\<close>

text \<open>The reconciler of a kind with its client, the type it watches, the namespace of the manager and
  the number of workers.\<close>

record 'j controller =
  ct_kind :: "'j job_kind"
  ct_set_ns :: "string \<Rightarrow> 'j \<Rightarrow> 'j"
  ct_zero :: 'j
  ct_reconciler :: reconciler
  ct_type :: string
  ct_namespace :: string
  ct_MaxConcurrentReconciles :: nat

definition slurm_controller :: "reconciler \<Rightarrow> string \<Rightarrow> 'v slurm_job controller" where
  "slurm_controller rc namespace =
     \<lparr>ct_kind = slurm_job_kind, ct_set_ns = sj_set_ns, ct_zero = zero_slurm_job, ct_reconciler = rc,
      ct_type = ''SlurmJob'', ct_namespace = namespace, ct_MaxConcurrentReconciles = 1\<rparr>"

definition wlm_controller :: "reconciler \<Rightarrow> string \<Rightarrow> 'v wlm_job controller" where
  "wlm_controller rc namespace =
     \<lparr>ct_kind = wlm_job_kind, ct_set_ns = wj_set_ns, ct_zero = zero_wlm_job, ct_reconciler = rc,
      ct_type = ''WlmJob'', ct_namespace = namespace, ct_MaxConcurrentReconciles = 1\<rparr>"

datatype informer_event = JobEvent meta_event | PodEvent meta_event

text \<open>
  The state: the cluster, the announced events that no handler has seen, the queue, the requests
  that wait for their back-off, and the requests of the workers, with a flag that says whether
  \<open>Reconcile\<close> has returned.
\<close>

record 'j operator_state =
  op_world :: "'j api_world"
  op_events :: "informer_event list"
  op_queue :: "obj_key work_queue"
  op_delayed :: "obj_key list"
  op_busy :: "(obj_key \<times> bool) list"

fun event_requests :: "string \<Rightarrow> informer_event \<Rightarrow> obj_key list" where
  "event_requests typ (JobEvent ev) = EnqueueRequestForObject ev"
| "event_requests typ (PodEvent ev) = EnqueueRequestForOwner (pod_handler typ) ev"

definition cluster_events :: "'j controller \<Rightarrow> 'j api_world \<Rightarrow> 'j api_world \<Rightarrow> informer_event list" where
  "cluster_events c w w' =
     map JobEvent (object_events (jk_meta (ct_kind c)) (ct_namespace c) (aw_jobs w) (aw_jobs w')) @
     map PodEvent (object_events pod_Meta (ct_namespace c) (aw_pods w) (aw_pods w'))"

definition observe :: "'j controller \<Rightarrow> 'j api_world \<Rightarrow> 'j operator_state \<Rightarrow> 'j operator_state" where
  "observe c w' s = s\<lparr>op_world := w', op_events := op_events s @ cluster_events c (op_world s) w'\<rparr>"

text \<open>A new process lists every object as created and starts with an empty queue.\<close>

definition boot :: "'j controller \<Rightarrow> 'j api_world \<Rightarrow> 'j operator_state" where
  "boot c w =
     \<lparr>op_world = w, op_events = cluster_events c (w\<lparr>aw_jobs := [], aw_pods := []\<rparr>) w,
      op_queue = newQueue, op_delayed = [], op_busy = []\<rparr>"

definition deliver_event :: "'j controller \<Rightarrow> informer_event \<Rightarrow> 'j operator_state \<Rightarrow> 'j operator_state" where
  "deliver_event c ev s =
     s\<lparr>op_events := remove1 ev (op_events s),
       op_queue := fold wq_Add (event_requests (ct_type c) ev) (op_queue s)\<rparr>"

text \<open>
  \<open>processNextWorkItem\<close> in three steps: \<open>Get\<close>; \<open>Reconcile\<close>, after whose error the request is
  rate limited (its delay is at least five milliseconds, so it always waits) and which returns no
  request to requeue; and the deferred \<open>Done\<close>. A panic ends the process.
\<close>

definition start_item :: "'j controller \<Rightarrow> 'j operator_state \<Rightarrow> 'j operator_state option" where
  "start_item c s =
     (if length (op_busy s) < ct_MaxConcurrentReconciles c then
        (case wq_Get (op_queue s) of
           (Item req, q) \<Rightarrow> Some (s\<lparr>op_queue := q, op_busy := op_busy s @ [(req, False)]\<rparr>)
         | _ \<Rightarrow> None)
      else None)"

definition set_busy :: "obj_key \<Rightarrow> (obj_key \<times> bool) list \<Rightarrow> (obj_key \<times> bool) list" where
  "set_busy req = map (\<lambda>b. if fst b = req then (req, True) else b)"

definition reconcile_item :: "'j controller \<Rightarrow> obj_key \<Rightarrow> 'j operator_state \<Rightarrow> 'j operator_state go" where
  "reconcile_item c req s =
     (let (r, w') = reconcile_job (ct_kind c) (ct_reconciler c) (Ok (wlm_kind (ct_type c)))
            (tracker_client (jk_meta (ct_kind c)) (ct_set_ns c) (ct_zero c)) req (op_world s);
          s' = (observe c w' s)\<lparr>op_busy := set_busy req (op_busy s)\<rparr>
      in case r of
           Ok u \<Rightarrow> Ok s'
         | Err e \<Rightarrow> Ok (s'\<lparr>op_delayed := op_delayed s @ [req]\<rparr>)
         | Panic m \<Rightarrow> Panic m)"

definition finish_item :: "obj_key \<Rightarrow> 'j operator_state \<Rightarrow> 'j operator_state" where
  "finish_item req s =
     s\<lparr>op_busy := filter (\<lambda>b. fst b \<noteq> req) (op_busy s), op_queue := wq_Done req (op_queue s)\<rparr>"

definition retry_item :: "obj_key \<Rightarrow> 'j operator_state \<Rightarrow> 'j operator_state" where
  "retry_item req s = s\<lparr>op_delayed := remove1 req (op_delayed s), op_queue := wq_Add req (op_queue s)\<rparr>"

section \<open>The controller in its cluster\<close>

text \<open>
  The cluster may change in any way that keeps it a cluster: the keys of objects are unique and
  not empty, and so are the names in owner references (the server validates both). Of the pods
  whose keys are in \<open>mine\<close>, nobody else creates one or changes whose it is.
\<close>

definition pod_requests_named :: "string \<Rightarrow> 'j api_world \<Rightarrow> bool" where
  "pod_requests_named typ w \<longleftrightarrow>
     (\<forall>p \<in> set (aw_pods w). \<forall>req \<in> set (getOwnerReconcileRequest (pod_handler typ) (Some (pod_Meta p))). named req)"

definition cluster_change :: "'j controller \<Rightarrow> obj_key set \<Rightarrow> 'j api_world \<Rightarrow> 'j api_world \<Rightarrow> bool" where
  "cluster_change c mine w w' \<longleftrightarrow>
     world_ok (jk_meta (ct_kind c)) w' \<and> pod_requests_named (ct_type c) w' \<and>
     (\<forall>k \<in> mine. \<forall>p'. world_pods w' k = Some p' \<longrightarrow>
        (\<exists>p. world_pods w k = Some p \<and> om_OwnerReferences (pod_Meta p') = om_OwnerReferences (pod_Meta p)))"

text \<open>The flag of a step says whether it is one of the controller's own.\<close>

inductive op_step :: "'j controller \<Rightarrow> obj_key set \<Rightarrow> bool \<Rightarrow> 'j operator_state \<Rightarrow> 'j operator_state \<Rightarrow> bool"
  for c mine where
  changed: "cluster_change c mine (op_world s) w' \<Longrightarrow> op_step c mine False s (observe c w' s)"
| restarted: "op_step c mine False s (boot c (op_world s))"
| delivered: "ev \<in> set (op_events s) \<Longrightarrow> op_step c mine True s (deliver_event c ev s)"
| started: "start_item c s = Some s' \<Longrightarrow> op_step c mine True s s'"
| reconciled: "(req, False) \<in> set (op_busy s) \<Longrightarrow> reconcile_item c req s = Ok s' \<Longrightarrow> op_step c mine True s s'"
| finished: "(req, True) \<in> set (op_busy s) \<Longrightarrow> op_step c mine True s (finish_item req s)"
| retried: "req \<in> set (op_delayed s) \<Longrightarrow> op_step c mine True s (retry_item req s)"

inductive op_run :: "'j controller \<Rightarrow> obj_key set \<Rightarrow> 'j operator_state \<Rightarrow> 'j operator_state \<Rightarrow> bool"
  for c mine where
  started_run: "op_run c mine s s"
| more: "op_run c mine s s' \<Longrightarrow> op_step c mine own s' s'' \<Longrightarrow> op_run c mine s s''"

text \<open>Runs of the controller's own steps, with their number.\<close>

inductive own_run :: "'j controller \<Rightarrow> obj_key set \<Rightarrow> nat \<Rightarrow> 'j operator_state \<Rightarrow> 'j operator_state \<Rightarrow> bool"
  for c mine where
  no_step: "own_run c mine 0 s s"
| own_step: "own_run c mine n s s' \<Longrightarrow> op_step c mine True s' s'' \<Longrightarrow> own_run c mine (Suc n) s s''"

section \<open>Synchronised jobs\<close>

text \<open>
  A job is synchronised when it can be translated and either its pod exists and the status is the
  phase of the pod, or its pod does not exist and the job has had a status.
\<close>

definition in_sync :: "'j job_kind \<Rightarrow> reconciler \<Rightarrow> group_version_kind \<Rightarrow> 'j option \<Rightarrow> pod option \<Rightarrow> bool" where
  "in_sync kind rc gvk job p \<longleftrightarrow>
     (case job of
        None \<Rightarrow> True
      | Some j \<Rightarrow>
          (\<exists>own. owned_pod kind rc (Ok gvk) j = Ok own) \<and>
          (case p of
             Some cur \<Rightarrow> jk_status kind j = pod_Phase cur
           | None \<Rightarrow> jk_status kind j \<noteq> []))"

definition job_in_sync :: "'j controller \<Rightarrow> string \<Rightarrow> 'j api_world \<Rightarrow> obj_key \<Rightarrow> bool" where
  "job_in_sync c suffix w k =
     in_sync (ct_kind c) (ct_reconciler c) (wlm_kind (ct_type c))
       (world_jobs (jk_meta (ct_kind c)) w k) (world_pods w (pod_key suffix k))"

definition at_rest :: "'j operator_state \<Rightarrow> bool" where
  "at_rest s \<longleftrightarrow> op_events s = [] \<and> wq_Len (op_queue s) = 0 \<and> op_delayed s = [] \<and> op_busy s = []"

text \<open>A request for the job at a key is on its way.\<close>

definition request_pending :: "string \<Rightarrow> obj_key \<Rightarrow> 'j operator_state \<Rightarrow> bool" where
  "request_pending typ k s \<longleftrightarrow>
     (\<exists>ev \<in> set (op_events s). k \<in> set (event_requests typ ev)) \<or>
     k \<in> wq_dirty (op_queue s) \<or> k \<in> set (op_delayed s) \<or> (k, False) \<in> set (op_busy s)"

section \<open>The invariant\<close>

definition pods_mine :: "'j controller \<Rightarrow> string \<Rightarrow> obj_key set \<Rightarrow> 'j api_world \<Rightarrow> bool" where
  "pods_mine c suffix mine w \<longleftrightarrow>
     (\<forall>k p. pod_key suffix k \<in> mine \<longrightarrow> world_pods w (pod_key suffix k) = Some p \<longrightarrow>
        getOwnerReconcileRequest (pod_handler (ct_type c)) (Some (pod_Meta p)) = [k])"

text \<open>A cluster a controller can be started in.\<close>

definition cluster_ready :: "'j controller \<Rightarrow> string \<Rightarrow> obj_key set \<Rightarrow> 'j api_world \<Rightarrow> bool" where
  "cluster_ready c suffix mine w \<longleftrightarrow>
     world_ok (jk_meta (ct_kind c)) w \<and> pod_requests_named (ct_type c) w \<and> pods_mine c suffix mine w"

text \<open>The jobs the controller is responsible for.\<close>

definition responsible :: "'j controller \<Rightarrow> string \<Rightarrow> obj_key set \<Rightarrow> obj_key \<Rightarrow> bool" where
  "responsible c suffix mine k \<longleftrightarrow> pod_key suffix k \<in> mine \<and> (ct_namespace c = [] \<or> fst k = ct_namespace c)"

definition requests_named :: "'j controller \<Rightarrow> 'j operator_state \<Rightarrow> bool" where
  "requests_named c s \<longleftrightarrow>
     (\<forall>ev \<in> set (op_events s). \<forall>k \<in> set (event_requests (ct_type c) ev). named k) \<and>
     (\<forall>k \<in> wq_dirty (op_queue s) \<union> set (op_delayed s) \<union> fst ` set (op_busy s). named k)"

definition queue_matches :: "'j operator_state \<Rightarrow> bool" where
  "queue_matches s \<longleftrightarrow>
     wq_ok (op_queue s) \<and> distinct (map fst (op_busy s)) \<and> wq_processing (op_queue s) = fst ` set (op_busy s)"

definition no_job_forgotten :: "'j controller \<Rightarrow> string \<Rightarrow> obj_key set \<Rightarrow> 'j operator_state \<Rightarrow> bool" where
  "no_job_forgotten c suffix mine s \<longleftrightarrow>
     (\<forall>k. responsible c suffix mine k \<longrightarrow>
        job_in_sync c suffix (op_world s) k \<or> request_pending (ct_type c) k s)"

definition op_ok :: "'j controller \<Rightarrow> string \<Rightarrow> obj_key set \<Rightarrow> 'j operator_state \<Rightarrow> bool" where
  "op_ok c suffix mine s \<longleftrightarrow>
     cluster_ready c suffix mine (op_world s) \<and> requests_named c s \<and> queue_matches s \<and>
     no_job_forgotten c suffix mine s"

lemma pods_mineD:
  "pods_mine c suffix mine w \<Longrightarrow> pod_key suffix k \<in> mine \<Longrightarrow> world_pods w (pod_key suffix k) = Some p \<Longrightarrow>
   getOwnerReconcileRequest (pod_handler (ct_type c)) (Some (pod_Meta p)) = [k]"
  unfolding pods_mine_def by blast

lemma owner_request_cong:
  "om_OwnerReferences m = om_OwnerReferences m' \<Longrightarrow> om_Namespace m = om_Namespace m' \<Longrightarrow>
   getOwnerReconcileRequest e (Some m) = getOwnerReconcileRequest e (Some m')"
  by (simp add: getOwnerReconcileRequest_def getOwnersReferences_def GetControllerOf_def)

lemma world_view_key:
  "world_ok meta w \<Longrightarrow> world_pods w k = Some p \<Longrightarrow> meta_key (pod_Meta p) = k \<and> named k"
  "world_ok meta w \<Longrightarrow> world_jobs meta w k = Some j \<Longrightarrow> meta_key (meta j) = k"
  using pods.store.view_key [of "aw_pods w" k p]
  by (auto simp: world_ok_def world_pods_def world_jobs_def dest: tracker_view_Some)

lemma cluster_change_ready:
  assumes "cluster_change c mine w w'" "cluster_ready c suffix mine w"
  shows "cluster_ready c suffix mine w'"
proof -
  have "pods_mine c suffix mine w'" unfolding pods_mine_def
  proof (intro allI impI)
    fix k p'
    assume k: "pod_key suffix k \<in> mine" and p': "world_pods w' (pod_key suffix k) = Some p'"
    with assms(1) obtain p where p: "world_pods w (pod_key suffix k) = Some p"
      "om_OwnerReferences (pod_Meta p') = om_OwnerReferences (pod_Meta p)"
      by (auto simp: cluster_change_def)
    have w: "world_ok (jk_meta (ct_kind c)) w" "world_ok (jk_meta (ct_kind c)) w'"
      using assms by (simp_all add: cluster_change_def cluster_ready_def)
    have "om_Namespace (pod_Meta p') = om_Namespace (pod_Meta p)"
      using world_view_key(1) [OF w(2) p'] world_view_key(1) [OF w(1) p(1)] by (simp add: meta_key_def pod_key_def)
    from owner_request_cong [OF p(2) this] pods_mineD [OF _ k p(1), of c] assms(2)
    show "getOwnerReconcileRequest (pod_handler (ct_type c)) (Some (pod_Meta p')) = [k]"
      by (simp add: cluster_ready_def)
  qed
  with assms(1) show ?thesis by (simp add: cluster_ready_def cluster_change_def)
qed

text \<open>What is announced leads to named requests, and every change of a job or its pod to its own.\<close>

lemma cluster_events_named:
  assumes "\<And>j. j \<in> set (aw_jobs w) \<union> set (aw_jobs w') \<Longrightarrow> named (meta_key (jk_meta (ct_kind c) j))"
    "pod_requests_named (ct_type c) w" "pod_requests_named (ct_type c) w'"
    "ev \<in> set (cluster_events c w w')" "k \<in> set (event_requests (ct_type c) ev)"
  shows "named k"
proof (cases ev)
  case (JobEvent e)
  with assms(4) have e: "e \<in> set (object_events (jk_meta (ct_kind c)) (ct_namespace c) (aw_jobs w) (aw_jobs w'))"
    by (auto simp: cluster_events_def)
  from assms(5) JobEvent obtain m where m: "m \<in> set (event_metas e)" "k \<in> set (object_request m)"
    by (auto simp: handled_metas)
  obtain j where j: "j \<in> set (aw_jobs w) \<union> set (aw_jobs w')" "m = Some (jk_meta (ct_kind c) j)"
    by (rule object_events_sources [OF e m(1)])
  with m(2) assms(1) [OF j(1)] show ?thesis by (simp add: object_request_def meta_key_def)
next
  case (PodEvent e)
  with assms(4) have e: "e \<in> set (object_events pod_Meta (ct_namespace c) (aw_pods w) (aw_pods w'))"
    by (auto simp: cluster_events_def)
  from assms(5) PodEvent obtain m where m: "m \<in> set (event_metas e)"
    "k \<in> set (getOwnerReconcileRequest (pod_handler (ct_type c)) m)"
    by (auto simp: handled_metas)
  obtain p where p: "p \<in> set (aw_pods w) \<union> set (aw_pods w')" "m = Some (pod_Meta p)"
    by (rule object_events_sources [OF e m(1)])
  with m(2) assms(2,3) show ?thesis by (auto simp: pod_requests_named_def)
qed

lemma job_change_announced:
  assumes "tracker_ok (jk_meta (ct_kind c)) (aw_jobs w)" "tracker_ok (jk_meta (ct_kind c)) (aw_jobs w')"
    "world_jobs (jk_meta (ct_kind c)) w k \<noteq> world_jobs (jk_meta (ct_kind c)) w' k"
    "ct_namespace c = [] \<or> fst k = ct_namespace c"
  shows "\<exists>ev \<in> set (cluster_events c w w'). k \<in> set (event_requests (ct_type c) ev)"
proof -
  let ?m = "jk_meta (ct_kind c)"
  from object_events_complete [OF assms(1,2) assms(3)[unfolded world_jobs_def] assms(4)] obtain j ev where
    j: "tracker_view ?m (aw_jobs w) k = Some j \<or> tracker_view ?m (aw_jobs w') k = Some j"
    and ev: "ev \<in> set (object_events ?m (ct_namespace c) (aw_jobs w) (aw_jobs w'))" "Some (?m j) \<in> set (event_metas ev)"
    by blast
  from j have "meta_key (?m j) = k" by (auto dest: tracker_view_Some)
  then have "k \<in> set (object_request (Some (?m j)))" by (simp add: object_request_def meta_key_def)
  with ev(2) have "k \<in> set (event_requests (ct_type c) (JobEvent ev))" by (auto simp: handled_metas)
  moreover have "JobEvent ev \<in> set (cluster_events c w w')" using ev(1) by (simp add: cluster_events_def)
  ultimately show ?thesis by blast
qed

lemma pod_change_announced:
  assumes "tracker_ok pod_Meta (aw_pods w)" "tracker_ok pod_Meta (aw_pods w')"
    "pods_mine c suffix mine w" "pods_mine c suffix mine w'" "responsible c suffix mine k"
    "world_pods w (pod_key suffix k) \<noteq> world_pods w' (pod_key suffix k)"
  shows "\<exists>ev \<in> set (cluster_events c w w'). k \<in> set (event_requests (ct_type c) ev)"
proof -
  have "ct_namespace c = [] \<or> fst (pod_key suffix k) = ct_namespace c"
    using assms(5) by (simp add: responsible_def pod_key_def)
  from object_events_complete [OF assms(1,2) assms(6)[unfolded world_pods_def] this] obtain p ev where
    p: "world_pods w (pod_key suffix k) = Some p \<or> world_pods w' (pod_key suffix k) = Some p"
    and ev: "ev \<in> set (object_events pod_Meta (ct_namespace c) (aw_pods w) (aw_pods w'))"
      "Some (pod_Meta p) \<in> set (event_metas ev)"
    unfolding world_pods_def by blast
  have "pod_key suffix k \<in> mine" using assms(5) by (simp add: responsible_def)
  with p assms(3,4) have "getOwnerReconcileRequest (pod_handler (ct_type c)) (Some (pod_Meta p)) = [k]"
    using pods_mineD by blast
  with ev(2) have "k \<in> set (event_requests (ct_type c) (PodEvent ev))"
    by (auto simp: handled_metas intro!: bexI [of _ "Some (pod_Meta p)"])
  moreover have "PodEvent ev \<in> set (cluster_events c w w')" using ev(1) by (simp add: cluster_events_def)
  ultimately show ?thesis by blast
qed

text \<open>Observing a change keeps every job synchronised or requested.\<close>

lemma change_announced:
  assumes "cluster_ready c suffix mine w" "cluster_ready c suffix mine w'" "responsible c suffix mine k"
    "job_in_sync c suffix w k"
  shows "job_in_sync c suffix w' k \<or> (\<exists>ev \<in> set (cluster_events c w w'). k \<in> set (event_requests (ct_type c) ev))"
proof (cases "world_jobs (jk_meta (ct_kind c)) w k = world_jobs (jk_meta (ct_kind c)) w' k \<and>
    world_pods w (pod_key suffix k) = world_pods w' (pod_key suffix k)")
  case True
  with assms(4) show ?thesis by (simp add: job_in_sync_def)
next
  case False
  then show ?thesis
    using job_change_announced [of c w w' k] pod_change_announced [of w w' c suffix mine k] assms
    by (auto simp: cluster_ready_def world_ok_def responsible_def)
qed


section \<open>Every step keeps the invariant\<close>

lemma op_okD:
  assumes "op_ok c suffix mine s"
  shows "world_ok (jk_meta (ct_kind c)) (op_world s)" "cluster_ready c suffix mine (op_world s)"
    "requests_named c s" "queue_matches s" "no_job_forgotten c suffix mine s" "wq_ok (op_queue s)"
  using assms by (simp_all add: op_ok_def cluster_ready_def queue_matches_def)

lemma no_job_forgottenD:
  "no_job_forgotten c suffix mine s \<Longrightarrow> responsible c suffix mine k \<Longrightarrow>
   job_in_sync c suffix (op_world s) k \<or> request_pending (ct_type c) k s"
  unfolding no_job_forgotten_def by blast

lemma ready_jobs_named:
  "cluster_ready c suffix mine w \<Longrightarrow> j \<in> set (aw_jobs w) \<Longrightarrow> named (meta_key (jk_meta (ct_kind c) j))"
  by (simp add: cluster_ready_def world_ok_def tracker_ok_def)

lemma observe_ok:
  assumes "op_ok c suffix mine s" "cluster_ready c suffix mine w'"
  shows "op_ok c suffix mine (observe c w' s)"
proof -
  note s = op_okD [OF assms(1)]
  have events: "named k" if "ev \<in> set (cluster_events c (op_world s) w')" "k \<in> set (event_requests (ct_type c) ev)" for ev k
    by (rule cluster_events_named [OF _ _ _ that])
      (use ready_jobs_named [OF s(2)] ready_jobs_named [OF assms(2)] s(2) assms(2) in \<open>auto simp: cluster_ready_def\<close>)
  have "requests_named c (observe c w' s)"
    using s(3) events by (auto simp: requests_named_def observe_def)
  moreover have "queue_matches (observe c w' s)" using s(4) by (simp add: queue_matches_def observe_def)
  moreover have "job_in_sync c suffix w' k \<or> request_pending (ct_type c) k (observe c w' s)"
    if "responsible c suffix mine k" for k
  proof (cases "job_in_sync c suffix (op_world s) k")
    case True
    from change_announced [OF s(2) assms(2) that True] show ?thesis
      by (auto simp: request_pending_def observe_def)
  next
    case False
    with no_job_forgottenD [OF s(5) that] have "request_pending (ct_type c) k s" by blast
    then show ?thesis by (auto simp: request_pending_def observe_def)
  qed
  ultimately show ?thesis using assms(2) by (simp add: op_ok_def no_job_forgotten_def observe_def)
qed

lemma boot_ok:
  assumes "cluster_ready c suffix mine w"
  shows "op_ok c suffix mine (boot c w)"
proof -
  let ?w = "w\<lparr>aw_jobs := [], aw_pods := []\<rparr>"
  let ?s = "\<lparr>op_world = ?w, op_events = [], op_queue = newQueue, op_delayed = [], op_busy = []\<rparr>"
  have "world_pods ?w = Map.empty" "world_jobs meta ?w = Map.empty" for meta
    by (simp_all add: world_pods_def world_jobs_def fun_eq_iff)
  then have "op_ok c suffix mine ?s"
    using assms
    by (simp add: op_ok_def cluster_ready_def world_ok_def pod_requests_named_def pods_mine_def requests_named_def
        queue_matches_def no_job_forgotten_def job_in_sync_def in_sync_def)
      (simp add: newQueue_def)
  from observe_ok [OF this assms] show ?thesis by (simp add: observe_def boot_def)
qed

lemma deliver_ok:
  assumes "op_ok c suffix mine s" "ev \<in> set (op_events s)"
  shows "op_ok c suffix mine (deliver_event c ev s)"
proof -
  note s = op_okD [OF assms(1)]
  let ?reqs = "event_requests (ct_type c) ev" and ?s = "deliver_event c ev s"
  note add = wq.add_all [OF s(6), of ?reqs]
  have sub: "set (op_events ?s) \<subseteq> set (op_events s)" by (simp add: deliver_event_def set_remove1_subset)
  have "requests_named c ?s"
    using s(3) assms(2) sub add unfolding requests_named_def by (auto simp: deliver_event_def)
  moreover have "queue_matches ?s" using s(4) add by (simp add: queue_matches_def deliver_event_def)
  moreover have "request_pending (ct_type c) k ?s" if "request_pending (ct_type c) k s" for k
  proof (cases "k \<in> set ?reqs")
    case True
    then show ?thesis using add by (simp add: request_pending_def deliver_event_def)
  next
    case False
    have "\<exists>ev' \<in> set (remove1 ev (op_events s)). k \<in> set (event_requests (ct_type c) ev')"
      if "ev' \<in> set (op_events s)" "k \<in> set (event_requests (ct_type c) ev')" for ev'
      using False that by (metis in_set_remove1)
    with that add show ?thesis by (auto simp: request_pending_def deliver_event_def)
  qed
  ultimately show ?thesis
    using s(2,5) by (auto simp: op_ok_def no_job_forgotten_def deliver_event_def)
qed

lemma start_itemD:
  assumes "start_item c s = Some s'"
  obtains req q where "wq_Get (op_queue s) = (Item req, q)" "s' = s\<lparr>op_queue := q, op_busy := op_busy s @ [(req, False)]\<rparr>"
  using assms by (auto simp: start_item_def split: if_splits prod.splits get_result.splits)

lemma start_ok:
  assumes "op_ok c suffix mine s" "start_item c s = Some s'"
  shows "op_ok c suffix mine s'"
proof -
  note s = op_okD [OF assms(1)]
  obtain req q where q: "wq_Get (op_queue s) = (Item req, q)" and s': "s' = s\<lparr>op_queue := q, op_busy := op_busy s @ [(req, False)]\<rparr>"
    using start_itemD [OF assms(2)] by blast
  note get = wq.get_item [OF s(6) q]
  have "requests_named c s'" using s(3) get by (auto simp: requests_named_def s')
  moreover have "queue_matches s'" using s(4) get by (auto simp: queue_matches_def s')
  moreover have "request_pending (ct_type c) k s'" if "request_pending (ct_type c) k s" for k
    using that get by (auto simp: request_pending_def s')
  ultimately show ?thesis using s(2,5) by (auto simp: op_ok_def no_job_forgotten_def s')
qed

lemma finish_ok:
  assumes "op_ok c suffix mine s" "(req, True) \<in> set (op_busy s)"
  shows "op_ok c suffix mine (finish_item req s)"
proof -
  note s = op_okD [OF assms(1)]
  have act: "req \<in> wq_processing (op_queue s)" using s(4) assms(2) by (force simp: queue_matches_def)
  note fin = wq.finish_item [OF s(6) act]
  have one: "(req, False) \<notin> set (op_busy s)"
    using s(4) assms(2) eq_key_imp_eq_value [of "op_busy s" req True False] by (auto simp: queue_matches_def)
  have "requests_named c (finish_item req s)" using s(3) fin by (auto simp: requests_named_def finish_item_def)
  moreover have "queue_matches (finish_item req s)"
    using s(4) fin by (auto simp: queue_matches_def finish_item_def distinct_map_filter)
  moreover have "request_pending (ct_type c) k (finish_item req s)" if "request_pending (ct_type c) k s" for k
    using that fin one by (auto simp: request_pending_def finish_item_def)
  ultimately show ?thesis using s(2,5) by (auto simp: op_ok_def no_job_forgotten_def finish_item_def)
qed

lemma retry_ok:
  assumes "op_ok c suffix mine s" "req \<in> set (op_delayed s)"
  shows "op_ok c suffix mine (retry_item req s)"
proof -
  note s = op_okD [OF assms(1)]
  note add = wq.add_item [OF s(6), of req]
  have "set (remove1 req (op_delayed s)) \<subseteq> set (op_delayed s)" by (rule set_remove1_subset)
  then have "requests_named c (retry_item req s)"
    using s(3) assms(2) add unfolding requests_named_def by (auto simp: retry_item_def)
  moreover have "queue_matches (retry_item req s)" using s(4) add by (simp add: queue_matches_def retry_item_def)
  moreover have "request_pending (ct_type c) k (retry_item req s)" if "request_pending (ct_type c) k s" for k
    using that add by (cases "k = req") (auto simp: request_pending_def retry_item_def)
  ultimately show ?thesis using s(2,5) by (auto simp: op_ok_def no_job_forgotten_def retry_item_def)
qed


section \<open>A reconciliation in the operator\<close>

text \<open>What the operator relies on from the kind of its jobs.\<close>

locale job_operator = job_controller "ct_kind c" "ct_set_ns c" suffix "ct_zero c"
  for c :: "'j controller" and suffix :: string +
  assumes status_id: "jk_set_status (ct_kind c) (jk_status (ct_kind c) j) j = j"
    and status_pod: "jk_newPod (ct_kind c) rc (jk_set_status (ct_kind c) s j) = jk_newPod (ct_kind c) rc j"
    and fresh_pod: "jk_newPod (ct_kind c) rc j = Ok p \<Longrightarrow> om_OwnerReferences (pod_Meta p) = [] \<and> pod_Phase p = []"
    and some_worker: "0 < ct_MaxConcurrentReconciles c"
begin

abbreviation reconcile_at :: "obj_key \<Rightarrow> 'j api_world \<Rightarrow> unit go \<times> 'j api_world" where
  "reconcile_at \<equiv> reconcile_job (ct_kind c) (ct_reconciler c) (Ok (wlm_kind (ct_type c)))
     (tracker_client (jk_meta (ct_kind c)) (ct_set_ns c) (ct_zero c))"

abbreviation jobs_of :: "'j api_world \<Rightarrow> obj_key \<Rightarrow> 'j option" where
  "jobs_of \<equiv> world_jobs (jk_meta (ct_kind c))"

abbreviation owned_of :: "'j \<Rightarrow> pod go" where
  "owned_of \<equiv> owned_pod (ct_kind c) (ct_reconciler c) (Ok (wlm_kind (ct_type c)))"

lemma owned_of_status: "owned_of (jk_set_status (ct_kind c) s j) = owned_of j"
  by (simp add: owned_pod_def status_pod status_meta)

lemma owned_of_phase:
  assumes "owned_of j = Ok p"
  shows "pod_Phase p = []"
proof -
  obtain p0 meta where "jk_newPod (ct_kind c) (ct_reconciler c) j = Ok p0" "p = p0\<lparr>pod_Meta := meta\<rparr>"
    using assms by (auto simp: owned_pod_def)
  then show ?thesis using fresh_pod by simp
qed

lemma owned_of_request:
  assumes "owned_of j = Ok p" "meta_key (jk_meta (ct_kind c) j) = k"
  shows "getOwnerReconcileRequest (pod_handler (ct_type c)) (Some (pod_Meta p)) = [k]"
proof -
  have fresh: "\<And>p. jk_newPod (ct_kind c) (ct_reconciler c) j = Ok p \<Longrightarrow> om_OwnerReferences (pod_Meta p) = []"
    using fresh_pod by blast
  show ?thesis
    using owned_pod_request [OF assms(1) fresh, of "ct_type c"] owned_pod_key [OF assms(1)] assms(2)
    by (auto simp: meta_key_def pod_key_def)
qed

text \<open>The three effects of a reconciliation: none, a status, a new pod.\<close>

lemma reconcile_cases:
  assumes ok: "world_ok (jk_meta (ct_kind c)) w" and req: "named req" and rec: "reconcile_at req w = (r, w')"
  obtains (same) "world_ok (jk_meta (ct_kind c)) w'" "jobs_of w' = jobs_of w" "world_pods w' = world_pods w"
      "\<And>u. r = Ok u \<Longrightarrow> job_in_sync c suffix w' req"
    | (status) j cur where "world_ok (jk_meta (ct_kind c)) w'" "jobs_of w req = Some j"
      "world_pods w (pod_key suffix req) = Some cur" "jk_status (ct_kind c) j \<noteq> pod_Phase cur"
      "jobs_of w' = (jobs_of w)(req \<mapsto> jk_set_status (ct_kind c) (pod_Phase cur) j)" "world_pods w' = world_pods w"
      "job_in_sync c suffix w' req" "\<not> job_in_sync c suffix w req"
    | (created) j p where "world_ok (jk_meta (ct_kind c)) w'" "jobs_of w req = Some j" "owned_of j = Ok p"
      "world_pods w (pod_key suffix req) = None" "jobs_of w' = jobs_of w"
      "world_pods w' = (world_pods w)(pod_key suffix req \<mapsto> p)" "job_in_sync c suffix w' req" "\<not> job_in_sync c suffix w req"
proof -
  from reconcile_world [OF ok req rec] have ok': "world_ok (jk_meta (ct_kind c)) w'"
    and spec: "(r, jobs_of w', world_pods w') =
      reconcile_spec (ct_kind c) (ct_reconciler c) (Ok (wlm_kind (ct_type c))) req (jobs_of w, world_pods w)" by auto
  show thesis
  proof (cases "jobs_of w req")
    case None
    with spec same [OF ok'] show thesis by (simp add: reconcile_spec_def job_in_sync_def in_sync_def)
  next
    case (Some j)
    show thesis
    proof (cases "owned_of j")
      case (Ok p)
      have key: "meta_key (pod_Meta p) = pod_key suffix req"
        using owned_pod_key [OF Ok] api.job_key [OF ok Some] by simp
      show thesis
      proof (cases "world_pods w (pod_key suffix req)")
        case None
        show thesis
        proof (cases "jk_status (ct_kind c) j = []")
          case True
          have "jobs_of w' = jobs_of w" "world_pods w' = (world_pods w)(pod_key suffix req \<mapsto> p)"
            using spec Some Ok None True key by (simp_all add: reconcile_spec_def)
          moreover from this have "job_in_sync c suffix w' req"
            using Some True owned_of_phase [OF Ok] Ok by (simp add: job_in_sync_def in_sync_def)
          moreover have "\<not> job_in_sync c suffix w req" using Some None True by (simp add: job_in_sync_def in_sync_def)
          ultimately show thesis using created [OF ok' Some Ok None] by blast
        next
          case False
          with spec Some Ok None key same [OF ok'] show thesis
            by (simp add: reconcile_spec_def job_in_sync_def in_sync_def)
        qed
      next
        case (Some cur)
        have eq: "jobs_of w' = (jobs_of w)(req \<mapsto> jk_set_status (ct_kind c) (pod_Phase cur) j)" "world_pods w' = world_pods w"
          using spec \<open>jobs_of w req = Some j\<close> Ok Some key by (simp_all add: reconcile_spec_def)
        then have sync: "job_in_sync c suffix w' req"
          using Some Ok by (simp add: job_in_sync_def in_sync_def status_set owned_of_status)
        show thesis
        proof (cases "jk_status (ct_kind c) j = pod_Phase cur")
          case True
          then have "jk_set_status (ct_kind c) (pod_Phase cur) j = j" using status_id [of j] by simp
          then have "jobs_of w' = jobs_of w" using eq(1) \<open>jobs_of w req = Some j\<close> by (simp add: fun_upd_idem_iff)
          then show thesis using same [OF ok'] eq(2) sync by blast
        next
          case False
          then have "\<not> job_in_sync c suffix w req" using \<open>jobs_of w req = Some j\<close> Some by (simp add: job_in_sync_def in_sync_def)
          then show thesis using status [OF ok' \<open>jobs_of w req = Some j\<close> Some False eq sync] by blast
        qed
      qed
    next
      case (Err e)
      with spec Some same [OF ok'] show thesis by (simp add: reconcile_spec_def)
    next
      case (Panic m)
      with spec Some same [OF ok'] show thesis by (simp add: reconcile_spec_def)
    qed
  qed
qed

lemma job_in_sync_other:
  assumes "reconcile_at req w = (r, w')" "world_ok (jk_meta (ct_kind c)) w" "named req" "k \<noteq> req"
  shows "job_in_sync c suffix w' k = job_in_sync c suffix w k"
  by (rule reconcile_cases [OF assms(2,3,1)]) (use assms(4) in \<open>simp_all add: job_in_sync_def pod_key_inj\<close>)

end


lemma set_busy_simps:
  "map fst (set_busy req busy) = map fst busy" "fst ` set (set_busy req busy) = fst ` set busy"
  "(k, False) \<in> set (set_busy req busy) \<longleftrightarrow> k \<noteq> req \<and> (k, False) \<in> set busy"
  "length (set_busy req busy) = length busy"
proof -
  show m: "map fst (set_busy req busy) = map fst busy" by (simp add: set_busy_def)
  then show "fst ` set (set_busy req busy) = fst ` set busy" by (metis list.set_map)
  show "(k, False) \<in> set (set_busy req busy) \<longleftrightarrow> k \<noteq> req \<and> (k, False) \<in> set busy"
    by (force simp: set_busy_def image_iff)
qed (simp add: set_busy_def)

context job_operator
begin

lemma reconcile_ready:
  assumes "cluster_ready c suffix mine w" "named req" "reconcile_at req w = (r, w')"
  shows "cluster_ready c suffix mine w'"
proof -
  have ok: "world_ok (jk_meta (ct_kind c)) w" using assms(1) by (simp add: cluster_ready_def)
  show ?thesis
  proof (rule reconcile_cases [OF ok assms(2,3)])
    assume w': "world_ok (jk_meta (ct_kind c)) w'" and p: "world_pods w' = world_pods w"
    then have "set (aw_pods w') = set (aw_pods w)"
      using ok tracker_ran [of pod_Meta "aw_pods w"] tracker_ran [of pod_Meta "aw_pods w'"]
      by (simp add: world_pods_def world_ok_def)
    with assms(1) w' p show ?thesis by (simp add: cluster_ready_def pod_requests_named_def pods_mine_def)
  next
    fix j p
    assume c: "world_ok (jk_meta (ct_kind c)) w'" "jobs_of w req = Some j" "owned_of j = Ok p"
      "world_pods w' = (world_pods w)(pod_key suffix req \<mapsto> p)"
    have r: "getOwnerReconcileRequest (pod_handler (ct_type c)) (Some (pod_Meta p)) = [req]"
      using owned_of_request [OF c(3)] api.job_key [OF ok c(2)] by simp
    have "set (aw_pods w') \<subseteq> insert p (set (aw_pods w))"
      using ok c(1,4) tracker_ran [of pod_Meta "aw_pods w"] tracker_ran [of pod_Meta "aw_pods w'"]
      by (auto simp: world_pods_def world_ok_def ran_def split: if_splits)
    then have "pod_requests_named (ct_type c) w'"
      using assms(1,2) r by (auto simp: cluster_ready_def pod_requests_named_def)
    moreover have "pods_mine c suffix mine w'" unfolding pods_mine_def
    proof (intro allI impI)
      fix k q
      assume "pod_key suffix k \<in> mine" "world_pods w' (pod_key suffix k) = Some q"
      then show "getOwnerReconcileRequest (pod_handler (ct_type c)) (Some (pod_Meta q)) = [k]"
        using pods_mineD [of c suffix mine w k q] assms(1) c(4) r
        by (cases "k = req") (simp_all add: pod_key_inj cluster_ready_def)
    qed
    ultimately show ?thesis using c(1) by (simp add: cluster_ready_def)
  next
    fix j cur
    assume w': "world_ok (jk_meta (ct_kind c)) w'" and p: "world_pods w' = world_pods w"
    then have "set (aw_pods w') = set (aw_pods w)"
      using ok tracker_ran [of pod_Meta "aw_pods w"] tracker_ran [of pod_Meta "aw_pods w'"]
      by (simp add: world_pods_def world_ok_def)
    with assms(1) w' p show ?thesis by (simp add: cluster_ready_def pod_requests_named_def pods_mine_def)
  qed
qed

lemma reconcile_itemD:
  assumes "reconcile_item c req s = Ok s'"
  obtains r w' where "reconcile_at req (op_world s) = (r, w')"
    "s' = (observe c w' s)\<lparr>op_busy := set_busy req (op_busy s), op_delayed := op_delayed s'\<rparr>"
    "(r = Ok () \<and> op_delayed s' = op_delayed s) \<or> ((\<exists>e. r = Err e) \<and> op_delayed s' = op_delayed s @ [req])"
proof -
  obtain r w' where rec: "reconcile_at req (op_world s) = (r, w')" by fastforce
  show thesis
  proof (cases r)
    case (Ok u)
    with assms rec have s': "s' = (observe c w' s)\<lparr>op_busy := set_busy req (op_busy s)\<rparr>"
      by (simp add: reconcile_item_def)
    then have "op_delayed s' = op_delayed s" by (simp add: observe_def)
    with that [OF rec] s' Ok show thesis by (simp add: observe_def)
  next
    case (Err e)
    with assms rec have s': "s' = (observe c w' s)\<lparr>op_busy := set_busy req (op_busy s), op_delayed := op_delayed s @ [req]\<rparr>"
      by (simp add: reconcile_item_def)
    with that [OF rec] Err show thesis by simp
  next
    case (Panic m)
    with assms rec show thesis by (simp add: reconcile_item_def)
  qed
qed

lemma reconcile_item_ok:
  assumes "op_ok c suffix mine s" "(req, False) \<in> set (op_busy s)" "reconcile_item c req s = Ok s'"
  shows "op_ok c suffix mine s'"
proof -
  note s = op_okD [OF assms(1)]
  have req: "named req" using s(3) assms(2) by (force simp: requests_named_def)
  obtain r w' where rec: "reconcile_at req (op_world s) = (r, w')"
    and s': "s' = (observe c w' s)\<lparr>op_busy := set_busy req (op_busy s), op_delayed := op_delayed s'\<rparr>"
    and r: "(r = Ok () \<and> op_delayed s' = op_delayed s) \<or> ((\<exists>e. r = Err e) \<and> op_delayed s' = op_delayed s @ [req])"
    using reconcile_itemD [OF assms(3)] by blast
  let ?o = "observe c w' s"
  have parts: "op_world s' = w'" "op_events s' = op_events ?o" "op_queue s' = op_queue ?o" "op_busy s' = set_busy req (op_busy ?o)"
    by (subst s', simp add: observe_def)+
  have delayed: "set (op_delayed ?o) \<subseteq> set (op_delayed s')" "set (op_delayed s') \<subseteq> insert req (set (op_delayed ?o))"
    using r by (auto simp: observe_def)
  from observe_ok [OF assms(1) reconcile_ready [OF s(2) req rec]] have o: "op_ok c suffix mine ?o" .
  note o = op_okD [OF o]
  have "requests_named c s'"
    using o(3) delayed req unfolding requests_named_def parts set_busy_simps by blast
  moreover have "queue_matches s'" using o(4) unfolding queue_matches_def parts set_busy_simps .
  moreover have "job_in_sync c suffix w' k \<or> request_pending (ct_type c) k s'" if k: "responsible c suffix mine k" for k
  proof (cases "k = req \<and> r = Ok ()")
    case True
    with rec have "reconcile_at req (op_world s) = (Ok (), w')" by simp
    then have "job_in_sync c suffix w' req" by (rule reconcile_cases [OF s(1) req]) simp_all
    with True show ?thesis by simp
  next
    case False
    have "job_in_sync c suffix w' k \<or> request_pending (ct_type c) k ?o"
      using no_job_forgottenD [OF o(5) k] by (simp add: observe_def)
    moreover have "req \<in> set (op_delayed s')" if "r \<noteq> Ok ()" using r that by auto
    ultimately show ?thesis
      using False delayed(1) unfolding request_pending_def parts set_busy_simps by blast
  qed
  ultimately show ?thesis using o(2) unfolding op_ok_def no_job_forgotten_def parts(1) by (simp add: observe_def)
qed

lemma step_ok:
  assumes "op_step c mine own s s'" "op_ok c suffix mine s"
  shows "op_ok c suffix mine s'"
  using assms
proof cases
  case (changed w')
  then show ?thesis using observe_ok [OF assms(2)] cluster_change_ready [OF changed(3)] op_okD(2) [OF assms(2)] by simp
next
  case restarted
  then show ?thesis using boot_ok [OF op_okD(2) [OF assms(2)]] by simp
next
  case (delivered ev)
  then show ?thesis using deliver_ok [OF assms(2)] by simp
next
  case started
  then show ?thesis using start_ok [OF assms(2)] by simp
next
  case (reconciled req)
  then show ?thesis using reconcile_item_ok [OF assms(2)] by simp
next
  case (finished req)
  then show ?thesis using finish_ok [OF assms(2)] by simp
next
  case (retried req)
  then show ?thesis using retry_ok [OF assms(2)] by simp
qed

lemma run_ok: "op_run c mine s s' \<Longrightarrow> op_ok c suffix mine s \<Longrightarrow> op_ok c suffix mine s'"
  by (induction rule: op_run.induct) (auto dest: step_ok)

lemma own_run_ok: "own_run c mine n s s' \<Longrightarrow> op_ok c suffix mine s \<Longrightarrow> op_ok c suffix mine s'"
  by (induction rule: own_run.induct) (auto dest: step_ok)

lemma at_rest_in_sync:
  assumes "op_ok c suffix mine s" "at_rest s" "responsible c suffix mine k"
  shows "job_in_sync c suffix (op_world s) k"
proof -
  note s = op_okD [OF assms(1)]
  have "wq_dirty (op_queue s) = {}"
    using s(4) assms(2) by (auto simp: queue_matches_def wq_ok_def at_rest_def wq_Len_def)
  with assms(2) have "\<not> request_pending (ct_type c) k s" by (simp add: request_pending_def at_rest_def)
  with no_job_forgottenD [OF s(5) assms(3)] show ?thesis by blast
qed

end


section \<open>The operator comes to rest\<close>

text \<open>
  A bound on the steps the controller can still make by itself: a request in the queue can be
  taken, reconciled and finished; an event adds at most two requests; and a job that is not
  synchronised causes at most one event.
\<close>

definition busy_work :: "obj_key \<times> bool \<Rightarrow> nat" where
  "busy_work b = (if snd b then 1 else 2)"

definition unsynced :: "'j controller \<Rightarrow> string \<Rightarrow> 'j api_world \<Rightarrow> obj_key set" where
  "unsynced c suffix w = {k. world_jobs (jk_meta (ct_kind c)) w k \<noteq> None \<and> \<not> job_in_sync c suffix w k}"

definition op_work :: "'j controller \<Rightarrow> string \<Rightarrow> 'j operator_state \<Rightarrow> nat" where
  "op_work c suffix s =
     7 * card (unsynced c suffix (op_world s)) + 7 * length (op_events s) + 4 * length (op_delayed s) +
     3 * card (wq_dirty (op_queue s)) + sum_list (map busy_work (op_busy s))"

text \<open>Every job can be translated to a pod.\<close>

definition all_translatable :: "'j controller \<Rightarrow> 'j api_world \<Rightarrow> bool" where
  "all_translatable c w \<longleftrightarrow>
     (\<forall>k j. world_jobs (jk_meta (ct_kind c)) w k = Some j \<longrightarrow>
        (\<exists>p. owned_pod (ct_kind c) (ct_reconciler c) (Ok (wlm_kind (ct_type c))) j = Ok p))"

lemma all_translatableD:
  "all_translatable c w \<Longrightarrow> world_jobs (jk_meta (ct_kind c)) w k = Some j \<Longrightarrow>
   \<exists>p. owned_pod (ct_kind c) (ct_reconciler c) (Ok (wlm_kind (ct_type c))) j = Ok p"
  unfolding all_translatable_def by blast

lemma remove1_length: "x \<in> set xs \<Longrightarrow> length xs = Suc (length (remove1 x xs))"
  by (induction xs) auto

lemma unsynced_finite: "finite (unsynced c suffix w)"
proof (rule finite_subset)
  show "unsynced c suffix w \<subseteq> (\<lambda>x. meta_key (jk_meta (ct_kind c) x)) ` set (aw_jobs w)"
  proof
    fix k
    assume "k \<in> unsynced c suffix w"
    then obtain j where "tracker_view (jk_meta (ct_kind c)) (aw_jobs w) k = Some j"
      by (auto simp: unsynced_def world_jobs_def)
    from tracker_view_Some [OF this] show "k \<in> (\<lambda>x. meta_key (jk_meta (ct_kind c) x)) ` set (aw_jobs w)" by blast
  qed
qed simp

lemma owner_request_length: "length (getOwnerReconcileRequest (pod_handler typ) m) \<le> 1"
proof (cases m)
  case (Some x)
  show ?thesis
    by (cases "GetControllerOf x")
      (auto simp: Some getOwnerReconcileRequest_def getOwnersReferences_def pod_handler_def split: go.split)
qed (simp add: getOwnerReconcileRequest_def)

lemma event_requests_length: "length (event_requests typ ev) \<le> 2"
proof (cases ev)
  case (JobEvent e)
  have "length (object_request m) \<le> 1" for m by (auto simp: object_request_def split: option.split)
  from this [of "event_metas e ! 0"] this [of "event_metas e ! 1"] JobEvent show ?thesis by (cases e) auto
next
  case (PodEvent e)
  from owner_request_length [of "typ" "event_metas e ! 0"] owner_request_length [of "typ" "event_metas e ! 1"] PodEvent
  show ?thesis by (cases e) auto
qed

lemma busy_work_set:
  "distinct (map fst busy) \<Longrightarrow> (req, False) \<in> set busy \<Longrightarrow>
   sum_list (map busy_work busy) = Suc (sum_list (map busy_work (set_busy req busy)))"
proof (induction busy)
  case (Cons b busy)
  show ?case
  proof (cases "b = (req, False)")
    case True
    then have "set_busy req busy = busy" using Cons.prems(1) by (force simp: set_busy_def intro!: map_idI)
    then show ?thesis using True by (simp add: set_busy_def busy_work_def)
  next
    case False
    with Cons.prems have "(req, False) \<in> set busy" "fst b \<notin> fst ` set busy" by auto
    then have "fst b \<noteq> req" by (metis fst_conv image_eqI)
    with False Cons show ?thesis by (simp add: set_busy_def)
  qed
qed simp

lemma busy_work_filter:
  "(req, True) \<in> set busy \<Longrightarrow>
   sum_list (map busy_work (filter (\<lambda>b. fst b \<noteq> req) busy)) < sum_list (map busy_work busy)"
proof (induction busy)
  case (Cons b busy)
  have "sum_list (map busy_work (filter (\<lambda>b. fst b \<noteq> req) busy)) \<le> sum_list (map busy_work busy)"
    by (rule sum_list_filter_le_nat)
  then show ?case using Cons by (cases "b = (req, True)") (auto simp: busy_work_def [of "(req, True)"])
qed simp

lemma cluster_events_same:
  assumes "world_ok (jk_meta (ct_kind c)) w" "world_ok (jk_meta (ct_kind c)) w'"
    "world_jobs (jk_meta (ct_kind c)) w' = world_jobs (jk_meta (ct_kind c)) w" "world_pods w' = world_pods w"
  shows "cluster_events c w w' = []"
  using assms object_events_none [of "jk_meta (ct_kind c)" "aw_jobs w" "aw_jobs w'"]
    object_events_none [of pod_Meta "aw_pods w" "aw_pods w'"]
  by (simp add: cluster_events_def world_ok_def world_jobs_def world_pods_def)

lemma cluster_events_one:
  assumes "world_ok (jk_meta (ct_kind c)) w" "world_ok (jk_meta (ct_kind c)) w'"
    "(\<exists>x. world_jobs (jk_meta (ct_kind c)) w' = (world_jobs (jk_meta (ct_kind c)) w)(k := x)) \<and> world_pods w' = world_pods w \<or>
     world_jobs (jk_meta (ct_kind c)) w' = world_jobs (jk_meta (ct_kind c)) w \<and> (\<exists>x. world_pods w' = (world_pods w)(k := x))"
  shows "length (cluster_events c w w') \<le> 1"
proof -
  let ?m = "jk_meta (ct_kind c)"
  note ok = assms(1,2)[unfolded world_ok_def]
  from assms(3) show ?thesis
  proof (elim disjE conjE exE)
    fix x
    assume v: "world_jobs ?m w' = (world_jobs ?m w)(k := x)" "world_pods w' = world_pods w"
    have "length (object_events ?m (ct_namespace c) (aw_jobs w) (aw_jobs w')) \<le> Suc 0"
      by (rule object_events_single [of _ _ _ k]) (use ok v(1) in \<open>simp_all add: world_jobs_def\<close>)
    moreover have "object_events pod_Meta (ct_namespace c) (aw_pods w) (aw_pods w') = []"
      by (rule object_events_none) (use ok v(2) in \<open>simp_all add: world_pods_def\<close>)
    ultimately show ?thesis by (simp add: cluster_events_def)
  next
    fix x
    assume v: "world_jobs ?m w' = world_jobs ?m w" "world_pods w' = (world_pods w)(k := x)"
    have "length (object_events pod_Meta (ct_namespace c) (aw_pods w) (aw_pods w')) \<le> Suc 0"
      by (rule object_events_single [of _ _ _ k]) (use ok v(2) in \<open>simp_all add: world_pods_def\<close>)
    moreover have "object_events ?m (ct_namespace c) (aw_jobs w) (aw_jobs w') = []"
      by (rule object_events_none) (use ok v(1) in \<open>simp_all add: world_jobs_def\<close>)
    ultimately show ?thesis by (simp add: cluster_events_def)
  qed
qed


context job_operator
begin

lemma reconcile_Ok:
  assumes "world_ok (jk_meta (ct_kind c)) w" "named req" "all_translatable c w" "reconcile_at req w = (r, w')"
  shows "r = Ok ()"
  using reconcile_world [OF assms(1,2,4)] all_translatableD [OF assms(3), of req]
  by (cases "jobs_of w req") (auto simp: reconcile_spec_def split: option.splits if_splits)

lemma reconcile_translatable:
  assumes "world_ok (jk_meta (ct_kind c)) w" "named req" "all_translatable c w" "reconcile_at req w = (r, w')"
  shows "all_translatable c w'"
  by (rule reconcile_cases [OF assms(1,2,4)]) (use assms(3) in \<open>auto simp: all_translatable_def owned_of_status\<close>)

lemma unsynced_other:
  assumes "world_ok (jk_meta (ct_kind c)) w" "named req" "reconcile_at req w = (r, w')"
    "job_in_sync c suffix w' req" "\<And>k. k \<noteq> req \<Longrightarrow> jobs_of w' k = jobs_of w k"
  shows "unsynced c suffix w' = unsynced c suffix w - {req}"
proof (rule set_eqI)
  fix k
  show "k \<in> unsynced c suffix w' \<longleftrightarrow> k \<in> unsynced c suffix w - {req}"
    using job_in_sync_other [OF assms(3,1,2), of k] assms(4) assms(5) [of k]
    by (cases "k = req") (simp_all add: unsynced_def)
qed

text \<open>A reconciliation either changes nothing or synchronises a job and causes at most one event.\<close>

lemma reconcile_work:
  assumes "world_ok (jk_meta (ct_kind c)) w" "named req" "reconcile_at req w = (r, w')"
  shows "card (unsynced c suffix w') + length (cluster_events c w w') \<le> card (unsynced c suffix w)"
proof (rule reconcile_cases [OF assms])
  assume same: "world_ok (jk_meta (ct_kind c)) w'" "jobs_of w' = jobs_of w" "world_pods w' = world_pods w"
  then have "unsynced c suffix w' = unsynced c suffix w" by (simp add: unsynced_def job_in_sync_def)
  then show ?thesis using cluster_events_same [OF assms(1) same] by simp
next
  fix j cur
  assume st: "world_ok (jk_meta (ct_kind c)) w'" "jobs_of w req = Some j"
    "jobs_of w' = (jobs_of w)(req \<mapsto> jk_set_status (ct_kind c) (pod_Phase cur) j)" "world_pods w' = world_pods w"
    "job_in_sync c suffix w' req" "\<not> job_in_sync c suffix w req"
  have "unsynced c suffix w' = unsynced c suffix w - {req}" "req \<in> unsynced c suffix w"
    using unsynced_other [OF assms] st by (simp_all add: unsynced_def)
  moreover have "length (cluster_events c w w') \<le> 1"
    by (rule cluster_events_one [OF assms(1) st(1), of req]) (use st in blast)
  ultimately show ?thesis using card.remove [OF unsynced_finite, of req c suffix w] by simp
next
  fix j p
  assume cr: "world_ok (jk_meta (ct_kind c)) w'" "jobs_of w req = Some j" "jobs_of w' = jobs_of w"
    "world_pods w' = (world_pods w)(pod_key suffix req \<mapsto> p)" "job_in_sync c suffix w' req"
    "\<not> job_in_sync c suffix w req"
  have "unsynced c suffix w' = unsynced c suffix w - {req}" "req \<in> unsynced c suffix w"
    using unsynced_other [OF assms] cr by (simp_all add: unsynced_def)
  moreover have "length (cluster_events c w w') \<le> 1"
    by (rule cluster_events_one [OF assms(1) cr(1), of "pod_key suffix req"]) (use cr in blast)
  ultimately show ?thesis using card.remove [OF unsynced_finite, of req c suffix w] by simp
qed

lemma reconciled_work:
  assumes "op_ok c suffix mine s" "all_translatable c (op_world s)" "(req, False) \<in> set (op_busy s)"
    "reconcile_item c req s = Ok s'"
  shows "op_work c suffix s' < op_work c suffix s \<and> all_translatable c (op_world s')"
proof -
  note s = op_okD [OF assms(1)]
  have req: "named req" using s(3) assms(3) by (force simp: requests_named_def)
  obtain r w' where rec: "reconcile_at req (op_world s) = (r, w')"
    and s': "s' = (observe c w' s)\<lparr>op_busy := set_busy req (op_busy s), op_delayed := op_delayed s'\<rparr>"
    and r: "(r = Ok () \<and> op_delayed s' = op_delayed s) \<or> ((\<exists>e. r = Err e) \<and> op_delayed s' = op_delayed s @ [req])"
    using reconcile_itemD [OF assms(4)] by blast
  have delayed: "op_delayed s' = op_delayed s" using r reconcile_Ok [OF s(1) req assms(2) rec] by simp
  have parts: "op_world s' = w'" "op_events s' = op_events s @ cluster_events c (op_world s) w'" "op_queue s' = op_queue s"
    "op_busy s' = set_busy req (op_busy s)"
    by (subst s', simp add: observe_def)+
  have "sum_list (map busy_work (op_busy s)) = Suc (sum_list (map busy_work (set_busy req (op_busy s))))"
    using busy_work_set [OF _ assms(3)] s(4) by (simp add: queue_matches_def)
  then show ?thesis
    using reconcile_work [OF s(1) req rec] reconcile_translatable [OF s(1) req assms(2) rec]
    unfolding op_work_def parts delayed by simp
qed

lemma own_step_work:
  assumes "op_step c mine True s s'" "op_ok c suffix mine s" "all_translatable c (op_world s)"
  shows "op_work c suffix s' < op_work c suffix s \<and> all_translatable c (op_world s')"
  using assms
proof cases
  case (delivered ev)
  have "length (event_requests (ct_type c) ev) \<le> 2" by (rule event_requests_length)
  moreover have "card (wq_dirty (op_queue s')) \<le> card (wq_dirty (op_queue s)) + length (event_requests (ct_type c) ev)"
    unfolding delivered(1) deliver_event_def using wq.add_all_card [OF op_okD(6) [OF assms(2)]] by simp
  moreover have "length (op_events s) = Suc (length (op_events s'))"
    using remove1_length [OF delivered(2)] by (simp add: delivered(1) deliver_event_def)
  ultimately show ?thesis using delivered(1) assms(3) by (simp add: op_work_def deliver_event_def)
next
  case started
  obtain req q where q: "wq_Get (op_queue s) = (Item req, q)" and s': "s' = s\<lparr>op_queue := q, op_busy := op_busy s @ [(req, False)]\<rparr>"
    using start_itemD [OF started] by blast
  from wq.get_card [OF op_okD(6) [OF assms(2)] q] show ?thesis
    using assms(3) by (simp add: s' op_work_def busy_work_def)
next
  case (reconciled req)
  then show ?thesis using reconciled_work [OF assms(2,3)] by simp
next
  case (finished req)
  have act: "req \<in> wq_processing (op_queue s)"
    using op_okD(4) [OF assms(2)] finished(2) by (force simp: queue_matches_def)
  have "wq_dirty (wq_Done req (op_queue s)) = wq_dirty (op_queue s)"
    using wq.finish_item [OF op_okD(6) [OF assms(2)] act] by simp
  with busy_work_filter [OF finished(2)] show ?thesis
    using assms(3) by (simp add: finished(1) op_work_def finish_item_def)
next
  case (retried req)
  have "wq_dirty (wq_Add req (op_queue s)) = insert req (wq_dirty (op_queue s))"
    using wq.add_item [OF op_okD(6) [OF assms(2)]] by simp
  then have "card (wq_dirty (wq_Add req (op_queue s))) \<le> Suc (card (wq_dirty (op_queue s)))"
    by (simp add: card_insert_le_m1)
  moreover have "length (op_delayed s) = Suc (length (remove1 req (op_delayed s)))"
    by (rule remove1_length [OF retried(2)])
  ultimately show ?thesis using assms(3) by (simp add: retried(1) op_work_def retry_item_def)
qed simp_all

lemma own_run_work:
  "own_run c mine n s s' \<Longrightarrow> op_ok c suffix mine s \<Longrightarrow> all_translatable c (op_world s) \<Longrightarrow>
   n + op_work c suffix s' \<le> op_work c suffix s \<and> all_translatable c (op_world s')"
proof (induction rule: own_run.induct)
  case (own_step n s s' s'')
  then have "n + op_work c suffix s' \<le> op_work c suffix s" "all_translatable c (op_world s')" by simp_all
  with own_step_work [OF own_step(2) own_run_ok [OF own_step(1) own_step(4)]] show ?case by simp
qed simp

text \<open>Unless it is at rest, the controller can go on.\<close>

lemma own_step_possible:
  assumes "op_ok c suffix mine s" "all_translatable c (op_world s)" "\<not> at_rest s"
  shows "\<exists>s'. op_step c mine True s s'"
proof -
  note s = op_okD [OF assms(1)]
  have busy: "\<exists>s'. op_step c mine True s s'" if b: "(req, b) \<in> set (op_busy s)" for req b
  proof (cases b)
    case True
    then show ?thesis using op_step.finished [of req s] b by auto
  next
    case False
    have req: "named req" using s(3) b by (force simp: requests_named_def)
    obtain r w' where rec: "reconcile_at req (op_world s) = (r, w')" by fastforce
    with reconcile_Ok [OF s(1) req assms(2) rec] have "\<exists>s'. reconcile_item c req s = Ok s'"
      by (simp add: reconcile_item_def)
    then show ?thesis using op_step.reconciled [of req s c] b False by auto
  qed
  consider ev where "ev \<in> set (op_events s)" | req where "req \<in> set (op_delayed s)"
    | req b where "(req, b) \<in> set (op_busy s)" | "op_busy s = []" "wq_queue (op_queue s) \<noteq> []"
    using assms(3) by (cases "op_events s"; cases "op_delayed s"; cases "op_busy s")
      (auto simp: at_rest_def wq_Len_def)
  then show ?thesis
  proof cases
    case 4
    then obtain req q where "wq_Get (op_queue s) = (Item req, q)"
      by (cases "wq_queue (op_queue s)") (auto simp: wq_Get_def)
    then have "start_item c s = Some (s\<lparr>op_queue := q, op_busy := op_busy s @ [(req, False)]\<rparr>)"
      using 4 some_worker by (simp add: start_item_def)
    then show ?thesis by (blast intro: op_step.started)
  qed (use busy in \<open>blast intro: op_step.delivered op_step.retried\<close>)+
qed

lemma settles:
  assumes "op_ok c suffix mine s" "all_translatable c (op_world s)" "own_run c mine n s s'"
  shows "n \<le> op_work c suffix s \<and>
    ((\<nexists>s''. op_step c mine True s' s'') \<longrightarrow> at_rest s' \<and> (\<forall>k. responsible c suffix mine k \<longrightarrow> job_in_sync c suffix (op_world s') k))"
  using own_run_work [OF assms(3,1,2)] own_step_possible [OF own_run_ok [OF assms(3,1)]]
    at_rest_in_sync [OF own_run_ok [OF assms(3,1)]] by auto

text \<open>So it reaches rest, and keeps the jobs on the way.\<close>

lemma reaches_rest:
  "op_ok c suffix mine s \<Longrightarrow> all_translatable c (op_world s) \<Longrightarrow> own_run c mine n s0 s \<Longrightarrow>
   \<exists>m s'. own_run c mine m s0 s' \<and> at_rest s'"
proof (induction "op_work c suffix s" arbitrary: s n rule: less_induct)
  case less
  show ?case
  proof (cases "at_rest s")
    case False
    obtain s' where s': "op_step c mine True s s'" using own_step_possible [OF less.prems(1,2) False] by blast
    from own_step_work [OF this less.prems(1,2)] step_ok [OF this less.prems(1)] own_run.own_step [OF less.prems(3) this]
    show ?thesis using less.hyps [of s' "Suc n"] by blast
  qed (use less.prems in blast)
qed

lemma own_step_jobs:
  assumes "op_step c mine True s s'" "op_ok c suffix mine s"
  shows "dom (jobs_of (op_world s')) = dom (jobs_of (op_world s))"
  using assms
proof cases
  case (reconciled req)
  note s = op_okD [OF assms(2)]
  have req: "named req" using s(3) reconciled(1) by (force simp: requests_named_def)
  obtain r w' where rec: "reconcile_at req (op_world s) = (r, w')"
    and s': "s' = (observe c w' s)\<lparr>op_busy := set_busy req (op_busy s), op_delayed := op_delayed s'\<rparr>"
    using reconcile_itemD [OF reconciled(2)] by blast
  have "op_world s' = w'" by (subst s', simp add: observe_def)
  then show ?thesis by (rule_tac reconcile_cases [OF s(1) req rec]) auto
qed (auto simp: deliver_event_def finish_item_def retry_item_def start_item_def split: if_splits prod.splits get_result.splits)

lemma own_run_jobs:
  "own_run c mine n s s' \<Longrightarrow> op_ok c suffix mine s \<Longrightarrow> dom (jobs_of (op_world s')) = dom (jobs_of (op_world s))"
proof (induction rule: own_run.induct)
  case (own_step n s s' s'')
  then show ?case using own_step_jobs [OF own_step(2) own_run_ok [OF own_step(1) own_step(4)]] by simp
qed simp

lemma own_run_op_run: "own_run c mine n s s' \<Longrightarrow> op_run c mine s s'"
  by (induction rule: own_run.induct) (auto intro: op_run.intros)

end


section \<open>The two controllers\<close>

lemma controller_simps [simp]:
  "ct_kind (slurm_controller rc ns) = slurm_job_kind" "ct_set_ns (slurm_controller rc ns) = sj_set_ns"
  "ct_zero (slurm_controller rc ns) = zero_slurm_job" "ct_reconciler (slurm_controller rc ns) = rc"
  "ct_type (slurm_controller rc ns) = ''SlurmJob''" "ct_namespace (slurm_controller rc ns) = ns"
  "ct_MaxConcurrentReconciles (slurm_controller rc ns) = 1"
  "ct_kind (wlm_controller rc ns) = wlm_job_kind" "ct_set_ns (wlm_controller rc ns) = wj_set_ns"
  "ct_zero (wlm_controller rc ns) = zero_wlm_job" "ct_reconciler (wlm_controller rc ns) = rc"
  "ct_type (wlm_controller rc ns) = ''WlmJob''" "ct_namespace (wlm_controller rc ns) = ns"
  "ct_MaxConcurrentReconciles (wlm_controller rc ns) = 1"
  by (simp_all add: slurm_controller_def wlm_controller_def)

lemma pod_status:
  "sj_pod rc (sj\<lparr>sj_Status := st\<rparr>) aff = sj_pod rc sj aff" "affinityForSj (sj\<lparr>sj_Status := st\<rparr>) = affinityForSj sj"
  "wj_pod rc (wj\<lparr>wj_Status := st'\<rparr>) aff = wj_pod rc wj aff" "wj_resources (wj\<lparr>wj_Status := st'\<rparr>) = wj_resources wj"
  by (simp_all add: sj_pod_def wj_pod_def affinityForSj_def wj_resources_def nodeSelectorForSj_def nodeSelectorForWj_def)

lemma newPod_status:
  "newPodForSJ rc (sj\<lparr>sj_Status := st\<rparr>) = newPodForSJ rc sj"
  "newPodForWJ rc (wj\<lparr>wj_Status := st'\<rparr>) = newPodForWJ rc wj"
  by (simp_all add: newPodForSJ_def newPodForWJ_def pod_status split: go.split)

interpretation slurm_op: job_operator "slurm_controller rc ns" "''-job''" for rc ns
proof (rule job_operator.intro)
  show "job_controller (ct_kind (slurm_controller rc ns)) (ct_set_ns (slurm_controller rc ns)) ''-job''"
    using slurm.job_controller_axioms by simp
qed (unfold_locales, simp_all add: newPod_status newPod_owners)

interpretation wlm_op: job_operator "wlm_controller rc ns" "''-wlm-job''" for rc ns
proof (rule job_operator.intro)
  show "job_controller (ct_kind (wlm_controller rc ns)) (ct_set_ns (wlm_controller rc ns)) ''-wlm-job''"
    using wlm.job_controller_axioms by simp
qed (unfold_locales, simp_all add: newPod_status newPod_owners)


section \<open>Properties\<close>

text \<open>
  C1. No job is forgotten: whatever the cluster does, in whatever order events arrive and workers
  run, and however often the operator is restarted, when the controller is at rest every WlmJob it
  is responsible for can be translated and has the phase of its pod as its status, or has had a
  status if its pod is gone.
\<close>

theorem WlmJobs_synchronised_at_rest:
  assumes "cluster_ready (wlm_controller rc ns) ''-wlm-job'' mine w"
    "op_run (wlm_controller rc ns) mine (boot (wlm_controller rc ns) w) s" "at_rest s"
    "pod_key ''-wlm-job'' k \<in> mine" "ns = [] \<or> fst k = ns" "world_jobs wj_Meta (op_world s) k = Some j"
  shows "(\<exists>p. owned_pod wlm_job_kind rc (Ok (wlm_kind ''WlmJob'')) j = Ok p) \<and>
    (case world_pods (op_world s) (pod_key ''-wlm-job'' k) of
       Some cur \<Rightarrow> wjst_Status (wj_Status j) = pod_Phase cur
     | None \<Rightarrow> wjst_Status (wj_Status j) \<noteq> [])"
proof -
  have "responsible (wlm_controller rc ns) ''-wlm-job'' mine k" using assms(4,5) by (simp add: responsible_def)
  from wlm_op.at_rest_in_sync [OF wlm_op.run_ok [OF assms(2) boot_ok [OF assms(1)]] assms(3) this]
  show ?thesis using assms(6) by (simp add: job_in_sync_def in_sync_def split: option.splits)
qed

text \<open>
  C4. The operator settles: from any reachable state in which every SlurmJob can be translated,
  the controller can take at most \<open>op_work\<close> steps by itself, and when it can take no more it is at
  rest and every job it is responsible for is synchronised.
\<close>

theorem SlurmJob_controller_settles:
  assumes "cluster_ready (slurm_controller rc ns) ''-job'' mine w"
    "op_run (slurm_controller rc ns) mine (boot (slurm_controller rc ns) w) s"
    "all_translatable (slurm_controller rc ns) (op_world s)" "own_run (slurm_controller rc ns) mine n s s'"
  shows "n \<le> op_work (slurm_controller rc ns) ''-job'' s \<and>
    ((\<nexists>s''. op_step (slurm_controller rc ns) mine True s' s'') \<longrightarrow>
       at_rest s' \<and>
       (\<forall>k. responsible (slurm_controller rc ns) ''-job'' mine k \<longrightarrow>
          job_in_sync (slurm_controller rc ns) ''-job'' (op_world s') k))"
  using slurm_op.settles [OF slurm_op.run_ok [OF assms(2) boot_ok [OF assms(1)]] assms(3,4)]
  by (simp add: responsible_def)

text \<open>
  C9. A SlurmJob whose batch script makes the parser panic takes the operator down for good: as
  long as the job exists, a request for it is pending in every reachable state, after any number of
  restarts, and a worker that reconciles it panics.
\<close>

theorem panicking_job_crashes_operator:
  assumes "cluster_ready (slurm_controller rc ns) ''-job'' mine w"
    "op_run (slurm_controller rc ns) mine (boot (slurm_controller rc ns) w) s"
    "pod_key ''-job'' k \<in> mine" "ns = [] \<or> fst k = ns" "world_jobs sj_Meta (op_world s) k = Some j"
    "extractBatchResources (sjs_Batch (sj_Spec j)) = Panic m"
  shows "request_pending ''SlurmJob'' k s \<and> \<not> at_rest s \<and> reconcile_item (slurm_controller rc ns) k s = Panic m"
proof -
  let ?c = "slurm_controller rc ns"
  have s: "op_ok ?c ''-job'' mine s" by (rule slurm_op.run_ok [OF assms(2) boot_ok [OF assms(1)]])
  have resp: "responsible ?c ''-job'' mine k" using assms(3,4) by (simp add: responsible_def)
  have own: "owned_pod slurm_job_kind rc (Ok (wlm_kind ''SlurmJob'')) j = Panic m"
    using assms(6) by (simp add: owned_pod_def newPodForSJ_def affinityForSj_def)
  then have notin: "\<not> job_in_sync ?c ''-job'' (op_world s) k"
    using assms(5) by (simp add: job_in_sync_def in_sync_def)
  have "request_pending ''SlurmJob'' k s"
    using no_job_forgottenD [OF op_okD(5) [OF s] resp] notin by simp
  moreover have "\<not> at_rest s" using slurm_op.at_rest_in_sync [OF s _ resp] notin by blast
  moreover have "named k"
    using slurm_jobs.store.view_key [of "aw_jobs (op_world s)" k j] op_okD(1) [OF s] assms(5)
    by (simp add: world_ok_def world_jobs_def)
  obtain r w' where rec: "slurm_op.reconcile_at rc ns k (op_world s) = (r, w')" by fastforce
  have "r = Panic m"
    using slurm_op.reconcile_world [OF op_okD(1) [OF s] \<open>named k\<close> rec] assms(5) own by (simp add: reconcile_spec_def)
  with rec have "reconcile_item ?c k s = Panic m" by (simp add: reconcile_item_def)
  ultimately show ?thesis by blast
qed


section \<open>Witnesses\<close>

definition lolcow_pods :: "obj_key set" where
  "lolcow_pods = {(''default'', ''lolcow-wlm-job'')}"

lemma example_world_ready: "cluster_ready (wlm_controller example_rc ''default'') ''-wlm-job'' lolcow_pods (example_world [] [])"
  by (simp add: cluster_ready_def pod_requests_named_def pods_mine_def example_world_view)
    (simp add: world_ok_def example_world_def example_job_simps tracker_ok_def named_def)

lemma example_world_translatable: "all_translatable (wlm_controller example_rc ''default'') (example_world [] [])"
  using owned_pod_wlm [OF example_job_simps(1) [of "[]"]] by (simp add: all_translatable_def example_world_view)

theorem WlmJobs_synchronised_at_rest_witness:
  "\<exists>s j. op_run (wlm_controller example_rc ''default'') lolcow_pods
      (boot (wlm_controller example_rc ''default'') (example_world [] [])) s \<and>
    world_jobs wj_Meta (op_world s) (''default'', ''lolcow'') = Some j \<and>
    (case world_pods (op_world s) (''default'', ''lolcow-wlm-job'') of
       Some cur \<Rightarrow> wjst_Status (wj_Status j) = pod_Phase cur
     | None \<Rightarrow> wjst_Status (wj_Status j) \<noteq> [])"
proof -
  let ?c = "wlm_controller example_rc ''default''" and ?k = "(''default'', ''lolcow'')"
  let ?s0 = "boot ?c (example_world [] [])"
  have world: "op_world ?s0 = example_world [] []" by (simp add: boot_def)
  note ok = boot_ok [OF example_world_ready]
  obtain m s where s: "own_run ?c lolcow_pods m ?s0 s" "at_rest s"
    using wlm_op.reaches_rest [OF ok _ own_run.no_step] example_world_translatable world by auto
  note run = wlm_op.own_run_op_run [OF s(1)]
  have "?k \<in> dom (world_jobs wj_Meta (op_world s))"
    using wlm_op.own_run_jobs [OF s(1) ok] by (simp add: world example_world_view)
  then obtain j where j: "world_jobs wj_Meta (op_world s) ?k = Some j" by blast
  have "pod_key ''-wlm-job'' ?k = (''default'', ''lolcow-wlm-job'')" by (simp add: pod_key_def)
  with WlmJobs_synchronised_at_rest [OF example_world_ready run s(2) _ _ j] run j show ?thesis
    by (intro exI [of _ s] exI [of _ j]) (simp add: lolcow_pods_def)
qed

definition cow_world :: "string list list \<Rightarrow> unit slurm_job api_world" where
  "cow_world headers = \<lparr>aw_jobs = [example_sj (print_script headers [])], aw_pods = [], aw_fault = None\<rparr>"

definition cow_pods :: "obj_key set" where
  "cow_pods = {(''default'', ''cow-job'')}"

lemma cow_world_view:
  "world_jobs sj_Meta (cow_world headers) = [(''default'', ''cow'') \<mapsto> example_sj (print_script headers [])]"
  "world_pods (cow_world headers) = Map.empty"
  by (simp_all add: world_jobs_def world_pods_def cow_world_def example_sj_def meta_key_def)

lemma cow_world_ready: "cluster_ready (slurm_controller example_rc []) ''-job'' cow_pods (cow_world headers)"
  by (simp add: cluster_ready_def pod_requests_named_def pods_mine_def cow_world_view)
    (simp add: world_ok_def cow_world_def example_sj_def tracker_ok_def named_def meta_key_def)

theorem SlurmJob_controller_settles_witness:
  "\<exists>n s. own_run (slurm_controller example_rc []) cow_pods n
      (boot (slurm_controller example_rc []) (cow_world (print_resources (no_resources\<lparr>r_Nodes := 2\<rparr>)))) s \<and>
    n \<le> op_work (slurm_controller example_rc []) ''-job''
      (boot (slurm_controller example_rc []) (cow_world (print_resources (no_resources\<lparr>r_Nodes := 2\<rparr>))))"
proof -
  let ?c = "slurm_controller example_rc []" and ?w = "cow_world (print_resources (no_resources\<lparr>r_Nodes := 2\<rparr>))"
  let ?j = "example_sj (print_script (print_resources (no_resources\<lparr>r_Nodes := 2\<rparr>)) [])"
  have "extractBatchResources (sjs_Batch (sj_Spec ?j)) = Ok (no_resources\<lparr>r_Nodes := 2\<rparr>)"
    by (simp add: example_sj_def example_batch_two_nodes)
  then obtain p where p: "newPodForSJ example_rc ?j = Ok p"
    by (auto simp: newPodForSJ_def affinityForSj_def AffinityForResources_def node_match_def no_resources_def)
  have "\<exists>q. owned_pod slurm_job_kind example_rc (Ok (wlm_kind ''SlurmJob'')) ?j = Ok q"
    using p newPod_owners(1) [OF p] by (simp add: owned_pod_def SetControllerReference_fresh)
  then have tr: "all_translatable ?c (op_world (boot ?c ?w))"
    by (simp add: all_translatable_def boot_def cow_world_view)
  obtain m s where s: "own_run ?c cow_pods m (boot ?c ?w) s" "at_rest s"
    using slurm_op.reaches_rest [OF boot_ok [OF cow_world_ready] tr own_run.no_step] by auto
  from SlurmJob_controller_settles [OF cow_world_ready op_run.started_run tr s(1)] s(1) show ?thesis by blast
qed

theorem panicking_job_crashes_operator_witness:
  "reconcile_item (slurm_controller example_rc []) (''default'', ''cow'')
     (boot (slurm_controller example_rc []) (cow_world [[''--exclusive'']])) = Panic ''index out of range''"
proof -
  let ?c = "slurm_controller example_rc []" and ?w = "cow_world [[''--exclusive'']]"
  have j: "world_jobs sj_Meta (op_world (boot ?c ?w)) (''default'', ''cow'') =
      Some (example_sj (print_script [[''--exclusive'']] []))"
    by (simp add: boot_def cow_world_view)
  have "extractBatchResources (sjs_Batch (sj_Spec (example_sj (print_script [[''--exclusive'']] [])))) =
      Panic ''index out of range''"
    using single_flag_panics [of "''--exclusive''"] by (simp add: example_sj_def plain_def graphic_def)
  from panicking_job_crashes_operator [OF cow_world_ready op_run.started_run _ _ j this] show ?thesis
    by (simp add: pod_key_def cow_pods_def)
qed

end
