(* ===== verification/Slurm_Parse.thy ===== *)
theory Slurm_Parse
  imports Slurm_Duration
begin

text \<open>
  The rest of \<open>pkg/slurm/parse.go\<close>: \<open>parseResources\<close>, \<open>parsePartitionsNames\<close>,
  \<open>parseSacctResponse\<close> and \<open>parseTime\<close>. The resource parser is related to an abstract
  specification on the first value of each key, the partition and sacct parsers to
  printers of slurm's output.
\<close>

section \<open>Data\<close>

record slurm_feature =
  feature_Name :: string
  feature_Version :: string
  feature_Quantity :: int64

record slurm_resources =
  sr_Nodes :: int64
  sr_MemPerNode :: int64
  sr_CPUPerNode :: int64
  sr_WallTime :: duration
  sr_Features :: "slurm_feature list"

definition zero_resources :: slurm_resources where
  "zero_resources = \<lparr>sr_Nodes = 0, sr_MemPerNode = 0, sr_CPUPerNode = 0, sr_WallTime = 0, sr_Features = []\<rparr>"

record job_step =
  step_ID :: string
  step_Name :: string
  step_StartedAt :: "go_time option"
  step_FinishedAt :: "go_time option"
  step_ExitCode :: int64
  step_State :: string

section \<open>Resources of a partition\<close>

text \<open>
  \<open>fMap\<close>: a field \<open>k=v\<close> appends the comma-separated pieces of \<open>v\<close> to the entry of \<open>k\<close>;
  a field without exactly one equals sign is skipped.
\<close>

type_synonym field_map = "string \<Rightarrow> string list option"

definition add_field :: "field_map \<Rightarrow> string \<Rightarrow> field_map" where
  "add_field fMap f =
     (case strings_Split CHR ''='' f of
        [k, v] \<Rightarrow>
          fMap(k := Some ((case fMap k of None \<Rightarrow> [] | Some vs \<Rightarrow> vs) @ strings_Split CHR '','' v))
      | _ \<Rightarrow> fMap)"

definition resource_fields :: "string \<Rightarrow> field_map" where
  "resource_fields partitionInfo =
     foldl add_field (\<lambda>_. None) (strings_Fields (strings_TrimSpace partitionInfo))"

text \<open>\<open>xs[0]\<close>\<close>

fun index0 :: "'a list \<Rightarrow> 'a go" where
  "index0 [] = Panic ''index out of range''"
| "index0 (x # xs) = Ok x"

definition resource_WallTime :: "field_map \<Rightarrow> slurm_resources \<Rightarrow> slurm_resources go" where
  "resource_WallTime fMap r =
     (case fMap ''MaxTime'' of
        None \<Rightarrow> Ok r
      | Some maxTime \<Rightarrow>
          go_bind (index0 maxTime) (\<lambda>t.
            case ParseDuration t of
              Err e \<Rightarrow>
                (if e \<noteq> ErrDurationIsUnlimited then Err (Wrapped ''could not parse duration'' e)
                 else Ok (r\<lparr>sr_WallTime := -1\<rparr>))
            | Ok d \<Rightarrow> Ok (r\<lparr>sr_WallTime := d\<rparr>)
            | Panic m \<Rightarrow> Panic m))"

definition resource_CPUPerNode :: "field_map \<Rightarrow> slurm_resources \<Rightarrow> slurm_resources go" where
  "resource_CPUPerNode fMap r =
     (case fMap ''MaxCPUsPerNode'' of
        None \<Rightarrow> Ok r
      | Some maxCPUs \<Rightarrow>
          go_bind (index0 maxCPUs) (\<lambda>m.
            if m = unlimited
            then
              (case fMap ''TotalCPUs'' of
                 None \<Rightarrow> Ok (r\<lparr>sr_CPUPerNode := -1\<rparr>)
               | Some totalCPUs \<Rightarrow>
                   go_bind (index0 totalCPUs) (\<lambda>t.
                   go_bind (go_wrap ''could not parse total cpus'' (strconv_ParseInt t)) (\<lambda>cpus.
                   Ok (r\<lparr>sr_CPUPerNode := cpus\<rparr>))))
            else
              go_bind (go_wrap ''could not parse max cpus num'' (strconv_ParseInt m)) (\<lambda>cpus.
              Ok (r\<lparr>sr_CPUPerNode := cpus\<rparr>))))"

definition resource_MemPerNode :: "field_map \<Rightarrow> slurm_resources \<Rightarrow> slurm_resources go" where
  "resource_MemPerNode fMap r =
     (case fMap ''MaxMemPerNode'' of
        None \<Rightarrow> Ok r
      | Some maxMem \<Rightarrow>
          go_bind (index0 maxMem) (\<lambda>m.
            if m = unlimited then Ok (r\<lparr>sr_MemPerNode := -1\<rparr>)
            else
              go_bind (go_wrap ''could not parse max mem'' (strconv_ParseInt m)) (\<lambda>mem.
              Ok (r\<lparr>sr_MemPerNode := mem\<rparr>))))"

definition resource_Nodes :: "field_map \<Rightarrow> slurm_resources \<Rightarrow> slurm_resources go" where
  "resource_Nodes fMap r =
     (case fMap ''MaxNodes'' of
        None \<Rightarrow> Ok r
      | Some maxNodes \<Rightarrow>
          go_bind (index0 maxNodes) (\<lambda>m.
            if m = unlimited
            then
              (case fMap ''TotalNodes'' of
                 None \<Rightarrow> Ok (r\<lparr>sr_Nodes := -1\<rparr>)
               | Some vv \<Rightarrow>
                   go_bind (index0 vv) (\<lambda>t.
                   go_bind (go_wrap ''could not parse total nodes'' (strconv_ParseInt t)) (\<lambda>nodes.
                   Ok (r\<lparr>sr_Nodes := nodes\<rparr>))))
            else
              go_bind (go_wrap ''could not parse max nodes'' (strconv_ParseInt m)) (\<lambda>nodes.
              Ok (r\<lparr>sr_Nodes := nodes\<rparr>))))"

definition parseResources :: "string \<Rightarrow> slurm_resources go" where
  "parseResources partitionInfo =
     (let fMap = resource_fields partitionInfo
      in go_bind (resource_WallTime fMap zero_resources) (\<lambda>r.
         go_bind (resource_CPUPerNode fMap r) (\<lambda>r.
         go_bind (resource_MemPerNode fMap r) (\<lambda>r.
         resource_Nodes fMap r))))"

subsection \<open>The specification: the first value of each key\<close>

text \<open>The first comma-separated piece of the first field \<open>k=v\<close> with key \<open>k\<close>.\<close>

fun first_value :: "string list \<Rightarrow> string \<Rightarrow> string option" where
  "first_value [] k = None"
| "first_value (f # fs) k =
     (case strings_Split CHR ''='' f of
        [k', v] \<Rightarrow> if k' = k then Some (hd (strings_Split CHR '','' v)) else first_value fs k
      | _ \<Rightarrow> first_value fs k)"

text \<open>
  A limit: the number of the \<open>Max\<close> key; when that is \<open>UNLIMITED\<close> the number of the
  \<open>Total\<close> key, and -1 without one; 0 when the partition does not mention the limit.
\<close>

definition limit_spec :: "string option \<Rightarrow> string option \<Rightarrow> string \<Rightarrow> string \<Rightarrow> int64 go" where
  "limit_spec mx tot err_total err_max =
     (case mx of
        None \<Rightarrow> Ok 0
      | Some m \<Rightarrow>
          if m = unlimited
          then (case tot of None \<Rightarrow> Ok (-1) | Some t \<Rightarrow> go_wrap err_total (strconv_ParseInt t))
          else go_wrap err_max (strconv_ParseInt m))"

definition wall_spec :: "string option \<Rightarrow> duration go" where
  "wall_spec mx =
     (case mx of
        None \<Rightarrow> Ok 0
      | Some t \<Rightarrow>
          if t = unlimited \<or> t = [] then Ok (-1) else go_wrap ''could not parse duration'' (ParseDuration t))"

definition resources_spec :: "(string \<Rightarrow> string option) \<Rightarrow> slurm_resources go" where
  "resources_spec look =
     go_bind (wall_spec (look ''MaxTime'')) (\<lambda>wall.
     go_bind (limit_spec (look ''MaxCPUsPerNode'') (look ''TotalCPUs'')
                ''could not parse total cpus'' ''could not parse max cpus num'') (\<lambda>cpus.
     go_bind (limit_spec (look ''MaxMemPerNode'') None [] ''could not parse max mem'') (\<lambda>mem.
     go_bind (limit_spec (look ''MaxNodes'') (look ''TotalNodes'')
                ''could not parse total nodes'' ''could not parse max nodes'') (\<lambda>nodes.
     Ok \<lparr>sr_Nodes = nodes, sr_MemPerNode = mem, sr_CPUPerNode = cpus, sr_WallTime = wall,
          sr_Features = []\<rparr>))))"

subsection \<open>The parser implements it\<close>

text \<open>The entries of a field map are never empty, so \<open>xs[0]\<close> never panics.\<close>

definition entries_nonempty :: "field_map \<Rightarrow> bool" where
  "entries_nonempty m \<longleftrightarrow> (\<forall>k vs. m k = Some vs \<longrightarrow> vs \<noteq> [])"

lemma add_field_nonempty: "entries_nonempty m \<Longrightarrow> entries_nonempty (add_field m f)"
  by (auto simp: entries_nonempty_def add_field_def split: list.splits option.splits)

lemma fold_fields_nonempty: "entries_nonempty m \<Longrightarrow> entries_nonempty (foldl add_field m fs)"
  by (induction fs arbitrary: m) (auto simp: add_field_nonempty)

lemma add_field_lookup:
  "entries_nonempty m \<Longrightarrow> map_option hd (add_field m f k) =
     (case m k of Some vs \<Rightarrow> Some (hd vs) | None \<Rightarrow> first_value [f] k)"
  by (auto simp: add_field_def entries_nonempty_def hd_append split: list.splits option.splits)

lemma fold_fields_lookup:
  "entries_nonempty m \<Longrightarrow> map_option hd (foldl add_field m fs k) =
     (case m k of Some vs \<Rightarrow> Some (hd vs) | None \<Rightarrow> first_value fs k)"
proof (induction fs arbitrary: m)
  case Nil
  then show ?case by (auto split: option.splits)
next
  case (Cons f fs)
  have "map_option hd (foldl add_field m (f # fs) k) =
      (case map_option hd (add_field m f k) of Some v \<Rightarrow> Some v | None \<Rightarrow> first_value fs k)"
    using Cons.IH [OF add_field_nonempty [OF Cons.prems]] by (simp split: option.splits)
  also have "\<dots> = (case m k of Some vs \<Rightarrow> Some (hd vs) | None \<Rightarrow> first_value (f # fs) k)"
    by (simp add: add_field_lookup [OF Cons.prems] split: option.splits list.splits)
  finally show ?case .
qed

definition fields_first :: "string \<Rightarrow> string \<Rightarrow> string option" where
  "fields_first p = first_value (strings_Fields (strings_TrimSpace p))"

lemma resource_fields_nonempty: "entries_nonempty (resource_fields p)"
  unfolding resource_fields_def by (rule fold_fields_nonempty) (simp add: entries_nonempty_def)

lemma resource_fields_first: "map_option hd (resource_fields p k) = fields_first p k"
  unfolding resource_fields_def fields_first_def
  by (subst fold_fields_lookup) (simp_all add: entries_nonempty_def)

lemma field_lookup_index0:
  "(case resource_fields p k of None \<Rightarrow> a | Some vs \<Rightarrow> go_bind (index0 vs) f) =
   (case fields_first p k of None \<Rightarrow> a | Some v \<Rightarrow> f v)"
proof (cases "resource_fields p k")
  case None
  with resource_fields_first [of p k] show ?thesis by simp
next
  case (Some vs)
  then obtain v ws where "vs = v # ws"
    using resource_fields_nonempty [of p] by (cases vs) (auto simp: entries_nonempty_def)
  with Some resource_fields_first [of p k] show ?thesis by (auto dest: sym)
qed

lemma resource_WallTime_spec:
  "resource_WallTime (resource_fields p) r =
     go_bind (wall_spec (fields_first p ''MaxTime'')) (\<lambda>d. Ok (r\<lparr>sr_WallTime := d\<rparr>))"
  if "sr_WallTime r = 0"
  using that unfolding resource_WallTime_def field_lookup_index0 wall_spec_def
  by (auto simp: ParseDuration_unlimited_iff ParseDuration_unlimited_iff [THEN iffD2]
      split: option.splits go.splits)

lemma resource_CPUPerNode_spec:
  "resource_CPUPerNode (resource_fields p) r =
     go_bind (limit_spec (fields_first p ''MaxCPUsPerNode'') (fields_first p ''TotalCPUs'')
        ''could not parse total cpus'' ''could not parse max cpus num'') (\<lambda>n. Ok (r\<lparr>sr_CPUPerNode := n\<rparr>))"
  if "sr_CPUPerNode r = 0"
  using that unfolding resource_CPUPerNode_def field_lookup_index0 limit_spec_def
  by (auto split: option.splits)

lemma resource_MemPerNode_spec:
  "resource_MemPerNode (resource_fields p) r =
     go_bind (limit_spec (fields_first p ''MaxMemPerNode'') None [] ''could not parse max mem'')
        (\<lambda>n. Ok (r\<lparr>sr_MemPerNode := n\<rparr>))"
  if "sr_MemPerNode r = 0"
  using that unfolding resource_MemPerNode_def field_lookup_index0 limit_spec_def
  by (auto split: option.splits)

lemma resource_Nodes_spec:
  "resource_Nodes (resource_fields p) r =
     go_bind (limit_spec (fields_first p ''MaxNodes'') (fields_first p ''TotalNodes'')
        ''could not parse total nodes'' ''could not parse max nodes'') (\<lambda>n. Ok (r\<lparr>sr_Nodes := n\<rparr>))"
  if "sr_Nodes r = 0"
  using that unfolding resource_Nodes_def field_lookup_index0 limit_spec_def
  by (auto split: option.splits)

lemma parseResources_spec: "parseResources p = resources_spec (fields_first p)"
  unfolding parseResources_def Let_def resources_spec_def
  by (simp add: resource_WallTime_spec zero_resources_def go_bind_assoc resource_CPUPerNode_spec
      resource_MemPerNode_spec resource_Nodes_spec)

lemma limit_spec_no_panic [simp]: "no_panic (limit_spec a b c d)"
  by (simp add: limit_spec_def split: option.splits)

lemma wall_spec_no_panic [simp]: "no_panic (wall_spec a)"
  by (simp add: wall_spec_def split: option.splits)

lemma resources_spec_no_panic [simp]: "no_panic (resources_spec look)"
  unfolding resources_spec_def by (auto intro!: no_panic_intros)

text \<open>The fields of a printed partition record.\<close>

definition clean_text :: "string \<Rightarrow> bool" where
  "clean_text s \<longleftrightarrow> list_all graphic s \<and> CHR ''='' \<notin> set s"

definition print_field :: "string \<times> string \<Rightarrow> string" where
  "print_field kv = fst kv @ ''='' @ snd kv"

definition print_fields :: "(string \<times> string) list \<Rightarrow> string" where
  "print_fields kvs = strings_Join '' '' (map print_field kvs)"

lemma print_field_plain: "clean_text k \<Longrightarrow> clean_text v \<Longrightarrow> plain (print_field (k, v))"
  by (auto simp: plain_def print_field_def clean_text_def graphic_def)

lemma print_field_split:
  "clean_text k \<Longrightarrow> clean_text v \<Longrightarrow> strings_Split CHR ''='' (print_field (k, v)) = [k, v]"
  by (simp add: print_field_def clean_text_def go_string_laws)

lemma plain_ends: "plain s \<Longrightarrow> s \<noteq> [] \<and> graphic (hd s) \<and> graphic (last s)"
  by (simp add: plain_def list_all_iff)

lemma Join_plain_ends:
  assumes "ps \<noteq> []" "list_all plain ps"
  shows "strings_Join sep ps \<noteq> [] \<and> graphic (hd (strings_Join sep ps)) \<and>
    graphic (last (strings_Join sep ps))"
proof -
  from assms have "\<forall>p \<in> set ps. p \<noteq> [] \<and> graphic (hd p) \<and> graphic (last p)"
    by (auto simp: list_all_iff dest: plain_ends)
  with assms(1) Join_hd_last [of ps sep] show ?thesis by (metis hd_in_set last_in_set)
qed

lemma Fields_print_fields:
  assumes "list_all (\<lambda>(k, v). clean_text k \<and> clean_text v) kvs"
  shows "strings_Fields (strings_TrimSpace (print_fields kvs)) = map print_field kvs"
proof (cases "kvs = []")
  case True
  then show ?thesis
    by (simp add: print_fields_def go_string_laws strings_TrimSpace_def trim_left.simps trim_right_rev.simps)
next
  case False
  from assms have pl: "list_all plain (map print_field kvs)"
    by (auto simp: list_all_iff print_field_plain)
  with False have "strings_TrimSpace (print_fields kvs) = print_fields kvs"
    unfolding print_fields_def using Join_plain_ends [of "map print_field kvs" "'' ''"]
    by (intro TrimSpace_graphic) simp_all
  with pl show ?thesis by (simp add: print_fields_def Fields_Join ascii_spaces_def)
qed

lemma first_value_print:
  assumes "list_all (\<lambda>(k, v). clean_text k \<and> clean_text v) kvs"
  shows "first_value (map print_field kvs) k =
    map_option (\<lambda>v. hd (strings_Split CHR '','' v)) (map_of kvs k)"
  using assms by (induction kvs) (auto simp: print_field_split)

lemma fields_first_print:
  assumes "list_all (\<lambda>(k, v). clean_text k \<and> clean_text v) kvs"
  shows "fields_first (print_fields kvs) k = map_option (\<lambda>v. hd (strings_Split CHR '','' v)) (map_of kvs k)"
  unfolding fields_first_def by (simp only: Fields_print_fields [OF assms] first_value_print [OF assms])

section \<open>Partition names\<close>

definition name_step :: "string \<Rightarrow> string \<Rightarrow> string" where
  "name_step name f =
     (case strings_Split CHR ''='' f of
        [k, v] \<Rightarrow> if k = ''PartitionName'' then v else name
      | _ \<Rightarrow> name)"

definition partition_name :: "string \<Rightarrow> string" where
  "partition_name p = foldl name_step [] (strings_Fields p)"

definition parsePartitionsNames :: "string \<Rightarrow> string list" where
  "parsePartitionsNames raw =
     (let partitions = strings_Split_blank (strings_TrimSpace raw) in map partition_name partitions)"

text \<open>
  A printed partition block: its name, then other fields, separated by single white-space
  bytes that never form a blank line.
\<close>

definition partition_block :: "string \<times> (string \<times> string) list \<Rightarrow> string" where
  "partition_block b = print_fields ((''PartitionName'', fst b) # snd b)"

definition block_ok :: "string \<times> (string \<times> string) list \<Rightarrow> bool" where
  "block_ok b \<longleftrightarrow> clean_text (fst b) \<and> list_all (\<lambda>(k, v). clean_text k \<and> clean_text v) (snd b) \<and>
     ''PartitionName'' \<notin> fst ` set (snd b)"

lemma name_step_print:
  "clean_text k \<Longrightarrow> clean_text v \<Longrightarrow>
   name_step n (print_field (k, v)) = (if k = ''PartitionName'' then v else n)"
  by (simp add: name_step_def print_field_split)

lemma name_steps_keep:
  "list_all (\<lambda>(k, v). clean_text k \<and> clean_text v) kvs \<Longrightarrow> ''PartitionName'' \<notin> fst ` set kvs \<Longrightarrow>
   foldl name_step n (map print_field kvs) = n"
  by (induction kvs) (auto simp: name_step_print)

lemma print_fields_Fields:
  assumes "list_all (\<lambda>(k, v). clean_text k \<and> clean_text v) kvs"
  shows "strings_Fields (print_fields kvs) = map print_field kvs"
proof -
  from assms have "list_all plain (map print_field kvs)"
    by (auto simp: list_all_iff print_field_plain)
  then show ?thesis by (simp add: print_fields_def Fields_Join ascii_spaces_def)
qed

lemma clean_PartitionName [simp]: "clean_text ''PartitionName''"
  by (simp add: clean_text_def graphic_def)

lemma partition_name_block: "block_ok b \<Longrightarrow> partition_name (partition_block b) = fst b"
proof -
  assume b: "block_ok b"
  then have fields: "strings_Fields (partition_block b) =
      print_field (''PartitionName'', fst b) # map print_field (snd b)"
    unfolding partition_block_def by (subst print_fields_Fields) (auto simp: block_ok_def)
  from b show ?thesis
    by (simp add: partition_name_def fields block_ok_def name_step_print name_steps_keep)
qed

lemma no_newline_no_blank: "newline \<notin> set s \<Longrightarrow> no_blank_line s"
  by (induction s rule: no_blank_line.induct) auto

lemma clean_no_newline: "clean_text s \<Longrightarrow> newline \<notin> set s"
  by (auto simp: clean_text_def list_all_iff graphic_def newline_def)

lemma print_fields_no_newline:
  assumes "list_all (\<lambda>(k, v). clean_text k \<and> clean_text v) kvs"
  shows "newline \<notin> set (print_fields kvs)"
proof -
  have "newline \<notin> set (strings_Join '' '' ps)" if "\<forall>p \<in> set ps. newline \<notin> set p" for ps
    using that by (induction "'' ''" ps rule: strings_Join.induct) (auto simp: newline_def)
  moreover have "newline \<notin> set (print_field kv)" if "kv \<in> set kvs" for kv
    using assms that clean_no_newline
    by (auto simp: list_all_iff print_field_def newline_def)
  ultimately show ?thesis by (simp add: print_fields_def)
qed

lemma partition_block_ends:
  assumes "block_ok b"
  shows "partition_block b \<noteq> []" "graphic (hd (partition_block b))" "graphic (last (partition_block b))"
    "newline \<notin> set (partition_block b)"
proof -
  define ps where "ps = map print_field ((''PartitionName'', fst b) # snd b)"
  have pb: "partition_block b = strings_Join '' '' ps"
    by (simp add: partition_block_def print_fields_def ps_def)
  from assms have "list_all plain ps"
    by (auto simp: ps_def block_ok_def list_all_iff print_field_plain)
  then show "partition_block b \<noteq> []" "graphic (hd (partition_block b))" "graphic (last (partition_block b))"
    using Join_plain_ends [of ps "'' ''"] by (simp_all add: pb ps_def)
  from assms show "newline \<notin> set (partition_block b)"
    unfolding partition_block_def by (intro print_fields_no_newline) (simp add: block_ok_def)
qed

lemma parsePartitionsNames_blocks:
  assumes "bs \<noteq> []" "list_all block_ok bs"
  shows "parsePartitionsNames (strings_Join [newline, newline] (map partition_block bs)) = map fst bs"
proof -
  define raw where "raw = strings_Join [newline, newline] (map partition_block bs)"
  have blocks: "p \<noteq> [] \<and> graphic (hd p) \<and> graphic (last p) \<and> newline \<notin> set p"
    if "p \<in> set (map partition_block bs)" for p
    using that assms by (auto simp: list_all_iff dest: partition_block_ends)
  then have "raw \<noteq> [] \<and> graphic (hd raw) \<and> graphic (last raw)"
    using Join_hd_last [of "map partition_block bs" "[newline, newline]"] assms(1)
    unfolding raw_def by (metis Nil_is_map_conv hd_in_set last_in_set)
  then have "strings_TrimSpace raw = raw" by (simp add: TrimSpace_graphic)
  moreover have "strings_Split_blank raw = map partition_block bs"
    unfolding raw_def
  proof (rule Split_blank_Join)
    show "map partition_block bs \<noteq> []" using assms by simp
    fix p
    assume "p \<in> set (map partition_block bs)"
    with blocks show "no_blank_line p \<and> (p = [] \<or> last p \<noteq> newline)"
      using no_newline_no_blank by (metis last_in_set)
  qed
  ultimately show ?thesis
    using assms partition_name_block
    by (auto simp: parsePartitionsNames_def list_all_iff simp flip: raw_def)
qed

section \<open>sacct\<close>

definition parseTime :: "string \<Rightarrow> go_time option go" where
  "parseTime timeStr =
     (if timeStr = [] \<or> strings_ToLower timeStr = ''unknown'' then Ok None
      else go_bind (time_Parse timeStr) (\<lambda>t. Ok (Some t)))"

definition parseSacctLine :: "string \<Rightarrow> job_step go" where
  "parseSacctLine l =
     (let splitted = strings_Split CHR ''|'' l
      in if length splitted \<noteq> 7 then Err (ErrorString ''output must contain 6 sections'')
         else
           go_bind (parseTime (splitted ! 0)) (\<lambda>startedAt.
           go_bind (parseTime (splitted ! 1)) (\<lambda>finishedAt.
           (let exitCodeSplitted = strings_Split CHR '':'' (splitted ! 2)
            in if length exitCodeSplitted \<noteq> 2 then Err (ErrorString ''exit code must contain 2 sections'')
               else
                 go_bind (strconv_Atoi (exitCodeSplitted ! 0)) (\<lambda>exitCode.
                 Ok \<lparr>step_ID = splitted ! 4, step_Name = splitted ! 5, step_StartedAt = startedAt,
                      step_FinishedAt = finishedAt, step_ExitCode = exitCode,
                      step_State = splitted ! 3\<rparr>)))))"

definition parseSacctResponse :: "string \<Rightarrow> job_step list go" where
  "parseSacctResponse raw =
     (let lines = strings_Split newline (strings_Trim_newline raw) in go_each parseSacctLine lines)"

text \<open>What sacct prints for a step: \<open>sacct -p -n -o start,end,exitcode,state,jobid,jobname\<close>.\<close>

record sacct_step =
  ss_Start :: "civil option"
  ss_End :: "civil option"
  ss_ExitCode :: int64
  ss_Signal :: int64
  ss_State :: string
  ss_JobID :: string
  ss_JobName :: string

definition print_time :: "civil option \<Rightarrow> string" where
  "print_time t = (case t of None \<Rightarrow> ''Unknown'' | Some c \<Rightarrow> slurm_time c)"

definition print_sacct_line :: "sacct_step \<Rightarrow> string" where
  "print_sacct_line s =
     strings_Join ''|''
       [print_time (ss_Start s), print_time (ss_End s),
        strconv_FormatInt (ss_ExitCode s) @ '':'' @ strconv_FormatInt (ss_Signal s),
        ss_State s, ss_JobID s, ss_JobName s, []]"

definition printed_step :: "sacct_step \<Rightarrow> job_step" where
  "printed_step s =
     \<lparr>step_ID = ss_JobID s, step_Name = ss_JobName s,
      step_StartedAt = map_option civil_time (ss_Start s),
      step_FinishedAt = map_option civil_time (ss_End s),
      step_ExitCode = ss_ExitCode s, step_State = ss_State s\<rparr>"

definition sacct_text_ok :: "string \<Rightarrow> bool" where
  "sacct_text_ok s \<longleftrightarrow> CHR ''|'' \<notin> set s \<and> newline \<notin> set s"

definition sacct_time_ok :: "civil option \<Rightarrow> bool" where
  "sacct_time_ok t = (case t of None \<Rightarrow> True | Some c \<Rightarrow> valid_civil c \<and> c_nsec c = 0)"

definition sacct_step_ok :: "sacct_step \<Rightarrow> bool" where
  "sacct_step_ok s \<longleftrightarrow>
     sacct_time_ok (ss_Start s) \<and> sacct_time_ok (ss_End s) \<and> in_int64 (ss_ExitCode s) \<and>
     sacct_text_ok (ss_State s) \<and> sacct_text_ok (ss_JobID s) \<and> sacct_text_ok (ss_JobName s)"

lemma parseTime_no_panic [simp]: "no_panic (parseTime s)"
  by (auto simp: parseTime_def intro!: no_panic_intros)

lemma parseSacctLine_no_panic [simp]: "no_panic (parseSacctLine l)"
  by (auto simp: parseSacctLine_def Let_def intro!: no_panic_intros)

lemma parseSacctResponse_no_panic [simp]: "no_panic (parseSacctResponse raw)"
  by (auto simp: parseSacctResponse_def Let_def intro!: no_panic_intros)

lemma digit_char_facts:
  "d < 10 \<Longrightarrow> digit_char d \<noteq> CHR ''|'' \<and> digit_char d \<noteq> newline \<and> digit_char d \<noteq> CHR '':'' \<and>
   lower_byte (digit_char d) = digit_char d \<and> digit_char d \<noteq> CHR ''u''"
proof -
  assume "d < 10"
  then have "d = 0 \<or> d = 1 \<or> d = 2 \<or> d = 3 \<or> d = 4 \<or> d = 5 \<or> d = 6 \<or> d = 7 \<or> d = 8 \<or> d = 9"
    by arith
  then show ?thesis
    by (elim disjE) (simp_all add: digit_char_def newline_def lower_byte_def char_of_def)
qed

lemma slurm_time_head:
  "valid_civil c \<Longrightarrow> \<exists>d t. d < 10 \<and> slurm_time c = digit_char d # t"
proof -
  assume "valid_civil c"
  then have "c_year c div 100 div 10 < 10" by (auto simp: valid_civil_def)
  moreover have "\<exists>t. slurm_time c = digit_char (c_year c div 100 div 10) # t"
    by (simp add: slurm_time_def pad4_def pad2_def)
  ultimately show ?thesis by blast
qed

lemma ToLower_Unknown: "strings_ToLower ''Unknown'' = ''unknown''"
  by code_simp

lemma parseTime_print: "sacct_time_ok t \<Longrightarrow> parseTime (print_time t) = Ok (map_option civil_time t)"
proof (cases t)
  case None
  then show ?thesis by (simp add: parseTime_def print_time_def ToLower_Unknown)
next
  case (Some c)
  assume "sacct_time_ok t"
  with Some have c: "valid_civil c" "c_nsec c = 0" by (simp_all add: sacct_time_ok_def)
  obtain d u where "d < 10" "slurm_time c = digit_char d # u" using slurm_time_head [OF c(1)] by blast
  then have "slurm_time c \<noteq> [] \<and> strings_ToLower (slurm_time c) \<noteq> ''unknown''"
    by (simp add: strings_ToLower_def digit_char_facts)
  with Some show ?thesis
    by (simp add: parseTime_def print_time_def time_Parse_slurm_time [OF c])
qed

lemma sacct_text_append [simp]: "sacct_text_ok (s @ t) \<longleftrightarrow> sacct_text_ok s \<and> sacct_text_ok t"
  by (auto simp: sacct_text_ok_def)

lemma sacct_text_pad2 [simp]: "n < 100 \<Longrightarrow> sacct_text_ok (pad2 n)"
  using less_mult_imp_div_less [of n 10 10] digit_char_facts [of "n div 10"] digit_char_facts [of "n mod 10"]
  by (auto simp: pad2_def sacct_text_ok_def)

lemma sacct_text_consts [simp]: "sacct_text_ok ''-''" "sacct_text_ok ''T''" "sacct_text_ok '':''"
    "sacct_text_ok ''Unknown''" "sacct_text_ok []"
  by (simp_all add: sacct_text_ok_def newline_def)

lemma slurm_time_text: "valid_civil c \<Longrightarrow> sacct_text_ok (slurm_time c)"
proof -
  assume c: "valid_civil c"
  then have "c_day c < 100" "c_year c div 100 < 100"
    using daysIn_le_31 [of "c_month c" "c_year c"] by (auto simp: valid_civil_def)
  with c show ?thesis
    unfolding slurm_time_def pad4_def sacct_text_append
    by (simp add: valid_civil_def)
qed

lemma print_time_text: "sacct_time_ok t \<Longrightarrow> sacct_text_ok (print_time t)"
  by (cases t) (simp_all add: print_time_def sacct_time_ok_def slurm_time_text)

lemma FormatInt_text [simp]: "sacct_text_ok (strconv_FormatInt n)"
  by (auto simp: sacct_text_ok_def newline_def is_digit_def dest!: FormatInt_set)

lemma FormatInt_no_colon [simp]: "CHR '':'' \<notin> set (strconv_FormatInt n)"
  by (auto simp: is_digit_def dest!: FormatInt_set)

lemma parseSacctLine_print:
  assumes "sacct_step_ok s"
  shows "parseSacctLine (print_sacct_line s) = Ok (printed_step s)"
proof -
  have "strings_Split CHR ''|'' (print_sacct_line s) =
      [print_time (ss_Start s), print_time (ss_End s),
        strconv_FormatInt (ss_ExitCode s) @ '':'' @ strconv_FormatInt (ss_Signal s),
        ss_State s, ss_JobID s, ss_JobName s, []]"
    unfolding print_sacct_line_def
    using assms print_time_text FormatInt_text
    by (intro Split_Join) (auto simp: sacct_step_ok_def sacct_text_ok_def)
  with assms show ?thesis
    by (simp add: parseSacctLine_def printed_step_def sacct_step_ok_def parseTime_print
        strconv_Atoi_def go_string_laws)
qed

lemma print_sacct_line_text: "sacct_step_ok s \<Longrightarrow> newline \<notin> set (print_sacct_line s)"
  using print_time_text FormatInt_text [unfolded sacct_text_ok_def]
  by (auto simp: print_sacct_line_def sacct_step_ok_def sacct_text_ok_def newline_def)

lemma print_sacct_line_last: "print_sacct_line s \<noteq> [] \<and> last (print_sacct_line s) = CHR ''|''"
  by (simp add: print_sacct_line_def)

lemma parseSacctResponse_print:
  assumes "ss \<noteq> []" "list_all sacct_step_ok ss"
  shows "parseSacctResponse (concat (map (\<lambda>s. print_sacct_line s @ [newline]) ss)) = Ok (map printed_step ss)"
proof -
  define ls where "ls = map print_sacct_line ss"
  have nl: "l \<noteq> [] \<and> newline \<notin> set l" if "l \<in> set ls" for l
    using that assms(2) print_sacct_line_text print_sacct_line_last by (auto simp: ls_def list_all_iff)
  from assms(1) have "ls \<noteq> []" by (simp add: ls_def)
  have "concat (map (\<lambda>l. l @ [newline]) ks) = strings_Join [newline] ks @ [newline]" if "ks \<noteq> []" for ks
    using that by (induction ks rule: list_nonempty_induct) (auto simp: strings_Join_Cons)
  then have raw: "concat (map (\<lambda>s. print_sacct_line s @ [newline]) ss) = strings_Join [newline] ls @ [newline]"
    using \<open>ls \<noteq> []\<close> by (simp add: ls_def map_map [symmetric, of "\<lambda>l. l @ [newline]" print_sacct_line, unfolded comp_def]
        del: map_map)
  have ends: "strings_Join [newline] ls \<noteq> []" "hd (strings_Join [newline] ls) \<noteq> newline"
      "last (strings_Join [newline] ls) \<noteq> newline"
    using Join_hd_last [of ls "[newline]"] nl \<open>ls \<noteq> []\<close> by (metis hd_in_set last_in_set)+
  have "strings_Trim_newline (strings_Join [newline] ls @ [newline]) = strings_Trim_newline (strings_Join [newline] ls)"
    using ends by (cases "strings_Join [newline] ls") (simp_all add: strings_Trim_newline_def)
  also have "\<dots> = strings_Join [newline] ls" using ends by (rule Trim_newline_id)
  finally have "strings_Split newline (strings_Trim_newline (strings_Join [newline] ls @ [newline])) = ls"
    using Split_Join [of ls newline] nl \<open>ls \<noteq> []\<close> by simp
  with assms show ?thesis
    by (simp add: parseSacctResponse_def raw ls_def go_each_map)
      (auto intro: go_each_all_Ok simp: list_all_iff parseSacctLine_print)
qed

text \<open>A line that does not have seven sections fails the whole response.\<close>

lemma parseSacctResponse_bad_line:
  assumes "l \<in> set (strings_Split newline (strings_Trim_newline raw))"
    and "length (strings_Split CHR ''|'' l) \<noteq> 7"
  shows "\<exists>e. parseSacctResponse raw = Err e"
proof -
  have "parseSacctResponse raw \<noteq> Ok ss" for ss
  proof
    assume "parseSacctResponse raw = Ok ss"
    then have "\<exists>s. parseSacctLine l = Ok s"
      using assms(1) by (force simp: parseSacctResponse_def go_each_Ok_iff list_all2_conv_all_nth in_set_conv_nth)
    with assms(2) show False by (simp add: parseSacctLine_def)
  qed
  moreover have "no_panic (parseSacctResponse raw)" by simp
  ultimately show ?thesis by (cases "parseSacctResponse raw") auto
qed

section \<open>Properties\<close>

text \<open>
  C14. \<open>parseResources\<close> implements its specification on every input: each limit is read
  from the first comma-separated piece of the first field with its key, UNLIMITED falls
  back to the partition total (or -1), a limit the partition does not mention is 0. In
  particular the indexing of the field map never panics.
\<close>

theorem parseResources_implements_spec:
  "parseResources p = resources_spec (fields_first p) \<and> no_panic (parseResources p)"
  by (simp add: parseResources_spec)

text \<open>
  On a printed partition record the lookup of the specification is the association list
  of the printed fields: \<open>parseResources\<close> reads back what was printed.
\<close>

theorem parseResources_printed:
  assumes "list_all (\<lambda>(k, v). clean_text k \<and> clean_text v) kvs"
  shows "parseResources (print_fields kvs) =
    resources_spec (\<lambda>k. map_option (\<lambda>v. hd (strings_Split CHR '','' v)) (map_of kvs k))"
  unfolding parseResources_spec by (rule arg_cong [where f = resources_spec], rule ext,
    rule fields_first_print [OF assms])

theorem parseResources_printed_witness:
  "parseResources ''MaxNodes=UNLIMITED MaxTime=UNLIMITED TotalNodes=4 MaxCPUsPerNode=12'' =
     Ok \<lparr>sr_Nodes = 4, sr_MemPerNode = 0, sr_CPUPerNode = 12, sr_WallTime = -1, sr_Features = []\<rparr>"
proof -
  define kvs where "kvs = [(''MaxNodes'', ''UNLIMITED''), (''MaxTime'', ''UNLIMITED''),
    (''TotalNodes'', ''4''), (''MaxCPUsPerNode'', ''12'')]"
  have "list_all (\<lambda>(k, v). clean_text k \<and> clean_text v) kvs"
    by (simp add: kvs_def clean_text_def graphic_def)
  from parseResources_printed [OF this] show ?thesis
    by (simp add: kvs_def print_fields_def print_field_def resources_spec_def wall_spec_def
        limit_spec_def unlimited_def strconv_ParseInt_def is_digit_def digit_val_def)
qed

text \<open>
  \<open>parsePartitionsNames\<close> inverts the printing of partition records: one name per
  record, in order.
\<close>

theorem parsePartitionsNames_roundtrip:
  assumes "bs \<noteq> []" "list_all block_ok bs"
  shows "parsePartitionsNames (strings_Join [newline, newline] (map partition_block bs)) = map fst bs"
  using assms by (rule parsePartitionsNames_blocks)

theorem parsePartitionsNames_roundtrip_witness:
  "parsePartitionsNames (strings_Join [newline, newline]
     [''PartitionName=debug MaxNodes=1'', ''PartitionName=cpu State=UP'']) = [''debug'', ''cpu'']"
proof -
  define bs where "bs = [(''debug'', [(''MaxNodes'', ''1'')]), (''cpu'', [(''State'', ''UP'')])]"
  have "list_all block_ok bs"
    by (simp add: bs_def block_ok_def clean_text_def graphic_def)
  then have "parsePartitionsNames (strings_Join [newline, newline] (map partition_block bs)) = map fst bs"
    by (intro parsePartitionsNames_roundtrip) (simp_all add: bs_def)
  then show ?thesis by (simp add: bs_def partition_block_def print_fields_def print_field_def)
qed

text \<open>
  \<open>parseSacctResponse\<close> inverts what sacct prints for a list of job steps (times in
  slurm's layout or Unknown, exit code and signal, state, id and name): every step is
  returned, in order, with its times as Unix times.
\<close>

theorem parseSacctResponse_roundtrip:
  assumes "ss \<noteq> []" "list_all sacct_step_ok ss"
  shows "parseSacctResponse (concat (map (\<lambda>s. print_sacct_line s @ [newline]) ss)) = Ok (map printed_step ss)"
  using assms by (rule parseSacctResponse_print)

theorem parseSacctResponse_roundtrip_witness:
  "parseSacctResponse (''2019-02-20T11:16:55|Unknown|2:0|COMPLETED|35|test|'' @ [newline]) =
     Ok [\<lparr>step_ID = ''35'', step_Name = ''test'',
          step_StartedAt = Some \<lparr>time_Unix = 1550661415, time_Nanosecond = 0\<rparr>,
          step_FinishedAt = None, step_ExitCode = 2, step_State = ''COMPLETED''\<rparr>]"
proof -
  define c where "c = \<lparr>c_year = 2019, c_month = 2, c_day = 20, c_hour = 11, c_min = 16, c_sec = 55, c_nsec = 0\<rparr>"
  define s where "s = \<lparr>ss_Start = Some c, ss_End = None, ss_ExitCode = 2, ss_Signal = 0,
    ss_State = ''COMPLETED'', ss_JobID = ''35'', ss_JobName = ''test''\<rparr>"
  have c: "sacct_time_ok (Some c)" "civil_Unix c = 1550661415"
    by (simp_all add: sacct_time_ok_def c_def valid_civil_def daysIn_def isLeap_def month_days_def
        civil_Unix_def days_before_year_def days_before_month_def)
  then have "sacct_step_ok s"
    by (simp add: s_def sacct_step_ok_def sacct_text_ok_def newline_def int64_defs) (simp add: sacct_time_ok_def)
  moreover have "print_sacct_line s = ''2019-02-20T11:16:55|Unknown|2:0|COMPLETED|35|test|''"
    by (simp add: s_def c_def print_sacct_line_def print_time_def slurm_time_def pad4_def pad2_def
        digit_char_values strconv_FormatInt_def FormatUint.simps)
  ultimately show ?thesis
    using parseSacctResponse_roundtrip [of "[s]"] c(2)
    by (simp add: printed_step_def s_def civil_time_def) (simp add: c_def)
qed

text \<open>
  A single line without exactly seven sections (an error message of sacct mixed into
  the output) makes the whole response an error: no partial list of steps is returned.
\<close>

theorem parseSacctResponse_rejects:
  assumes "l \<in> set (strings_Split newline (strings_Trim_newline raw))"
    and "length (strings_Split CHR ''|'' l) \<noteq> 7"
  shows "\<exists>e. parseSacctResponse raw = Err e"
  using assms by (rule parseSacctResponse_bad_line)

theorem parseSacctResponse_rejects_witness:
  "\<exists>e. parseSacctResponse ''sacct: error'' = Err e"
  by (rule parseSacctResponse_rejects [of "''sacct: error''"])
    (simp_all add: newline_def strings_Trim_newline_def)

end
