(* ===== verification/Slurm_Client.thy ===== *)
theory Slurm_Client
  imports Slurm_Parse
begin

text \<open>
  The local slurm client of \<open>pkg/slurm/slurm.go\<close> that runs the slurm binaries: job
  submission and cancellation, job information, job steps, resources, partitions and the
  version. Running a binary is a parameter of the model (\<open>slurm_os\<close>): it takes the
  command, its arguments and its standard input and a state of the cluster, and returns the
  output, an error, and the new state.
\<close>

section \<open>The operating system\<close>

record 'w slurm_os =
  os_LookPath :: "string \<Rightarrow> bool"
  os_Output :: "string \<Rightarrow> string list \<Rightarrow> 'w \<Rightarrow> (string \<times> go_error option) \<times> 'w"
  os_CombinedOutput :: "string \<Rightarrow> string list \<Rightarrow> string \<Rightarrow> 'w \<Rightarrow> (string \<times> go_error option) \<times> 'w"
  os_ExitStderr :: "go_error \<Rightarrow> string option"

text \<open>\<open>return v, errors.Wrap(err, msg)\<close> for an error that may be nil.\<close>

definition go_return :: "'a \<Rightarrow> go_error option \<Rightarrow> 'a go" where
  "go_return v e = (case e of None \<Rightarrow> Ok v | Some e \<Rightarrow> Err e)"

section \<open>Job information\<close>

record job_info =
  ji_ID :: string
  ji_UserID :: string
  ji_ArrayJobID :: string
  ji_Name :: string
  ji_ExitCode :: string
  ji_State :: string
  ji_SubmitTime :: "go_time option"
  ji_StartTime :: "go_time option"
  ji_RunTime :: "duration option"
  ji_TimeLimit :: "duration option"
  ji_WorkDir :: string
  ji_StdOut :: string
  ji_StdErr :: string
  ji_Partition :: string
  ji_NodeList :: string
  ji_BatchHost :: string
  ji_NumNodes :: string

definition zero_job_info :: job_info where
  "zero_job_info = \<lparr>ji_ID = [], ji_UserID = [], ji_ArrayJobID = [], ji_Name = [], ji_ExitCode = [],
     ji_State = [], ji_SubmitTime = None, ji_StartTime = None, ji_RunTime = None, ji_TimeLimit = None,
     ji_WorkDir = [], ji_StdOut = [], ji_StdErr = [], ji_Partition = [], ji_NodeList = [],
     ji_BatchHost = [], ji_NumNodes = []\<rparr>"

text \<open>
  The \<open>slurm\<close> tags of the struct, in field order, each with the kind of its field; a
  textual field carries the store it is written to.
\<close>

datatype info_field =
    Text "string \<Rightarrow> job_info \<Rightarrow> job_info"
  | Time "go_time option \<Rightarrow> job_info \<Rightarrow> job_info"
  | Dur "duration option \<Rightarrow> job_info \<Rightarrow> job_info"

definition job_info_tags :: "(string \<times> info_field) list" where
  "job_info_tags =
     [(''JobId'', Text (\<lambda>v i. i\<lparr>ji_ID := v\<rparr>)),
      (''UserId'', Text (\<lambda>v i. i\<lparr>ji_UserID := v\<rparr>)),
      (''ArrayJobId'', Text (\<lambda>v i. i\<lparr>ji_ArrayJobID := v\<rparr>)),
      (''JobName'', Text (\<lambda>v i. i\<lparr>ji_Name := v\<rparr>)),
      (''ExitCode'', Text (\<lambda>v i. i\<lparr>ji_ExitCode := v\<rparr>)),
      (''JobState'', Text (\<lambda>v i. i\<lparr>ji_State := v\<rparr>)),
      (''SubmitTime'', Time (\<lambda>t i. i\<lparr>ji_SubmitTime := t\<rparr>)),
      (''StartTime'', Time (\<lambda>t i. i\<lparr>ji_StartTime := t\<rparr>)),
      (''RunTime'', Dur (\<lambda>d i. i\<lparr>ji_RunTime := d\<rparr>)),
      (''TimeLimit'', Dur (\<lambda>d i. i\<lparr>ji_TimeLimit := d\<rparr>)),
      (''WorkDir'', Text (\<lambda>v i. i\<lparr>ji_WorkDir := v\<rparr>)),
      (''StdOut'', Text (\<lambda>v i. i\<lparr>ji_StdOut := v\<rparr>)),
      (''StdErr'', Text (\<lambda>v i. i\<lparr>ji_StdErr := v\<rparr>)),
      (''Partition'', Text (\<lambda>v i. i\<lparr>ji_Partition := v\<rparr>)),
      (''NodeList'', Text (\<lambda>v i. i\<lparr>ji_NodeList := v\<rparr>)),
      (''BatchHost'', Text (\<lambda>v i. i\<lparr>ji_BatchHost := v\<rparr>)),
      (''NumNodes'', Text (\<lambda>v i. i\<lparr>ji_NumNodes := v\<rparr>))]"

text \<open>One iteration of the loop over the struct's fields.\<close>

fun fill_field :: "(string \<Rightarrow> string option) \<Rightarrow> string \<times> info_field \<Rightarrow> job_info \<Rightarrow> job_info go" where
  "fill_field flds (tag, fld) ji =
     (case flds tag of
        None \<Rightarrow> Ok ji
      | Some sField \<Rightarrow>
          (case fld of
             Time store \<Rightarrow>
               go_bind (go_wrap (''could not parse time: '' @ sField) (parseTime sField)) (\<lambda>t.
               Ok (store t ji))
           | Dur store \<Rightarrow>
               (case ParseDuration sField of
                  Ok d \<Rightarrow> Ok (store (Some d) ji)
                | Err e \<Rightarrow>
                    (if e = ErrDurationIsUnlimited then Ok ji
                     else Err (Wrapped (''could not parse duration: '' @ sField) e))
                | Panic m \<Rightarrow> Panic m)
           | Text store \<Rightarrow> Ok (store sField ji)))"

fun fill_fields :: "(string \<Rightarrow> string option) \<Rightarrow> (string \<times> info_field) list \<Rightarrow> job_info \<Rightarrow> job_info go" where
  "fill_fields flds [] ji = Ok ji"
| "fill_fields flds (f # fs) ji = go_bind (fill_field flds f ji) (fill_fields flds fs)"

definition fillFromSlurmFields :: "(string \<Rightarrow> string option) \<Rightarrow> job_info \<Rightarrow> job_info go" where
  "fillFromSlurmFields flds ji = fill_fields flds job_info_tags ji"

text \<open>\<open>slurmFields\<close>: the last field with a key wins.\<close>

definition info_field_step :: "(string \<Rightarrow> string option) \<Rightarrow> string \<Rightarrow> (string \<Rightarrow> string option)" where
  "info_field_step m f = (case strings_Split CHR ''='' f of [k, v] \<Rightarrow> m(k \<mapsto> v) | _ \<Rightarrow> m)"

definition info_fields :: "string \<Rightarrow> (string \<Rightarrow> string option)" where
  "info_fields raw = foldl info_field_step Map.empty (strings_Fields raw)"

definition jobInfoFromScontrolResponse :: "string \<Rightarrow> job_info list go" where
  "jobInfoFromScontrolResponse jobInfo =
     (let rawInfos = strings_Split_blank (strings_TrimSpace jobInfo)
      in go_each (\<lambda>raw. fillFromSlurmFields (info_fields raw) zero_job_info) rawInfos)"

section \<open>The client\<close>

definition slurm_binaries :: "string list" where
  "slurm_binaries = [''sacct'', ''sbatch'', ''scancel'', ''scontrol'', ''sinfo'']"

definition NewClient :: "'w slurm_os \<Rightarrow> unit go" where
  "NewClient os =
     (let missing = filter (\<lambda>bin. \<not> os_LookPath os bin) slurm_binaries
      in if missing \<noteq> []
         then Err (ErrorString (''no slurm binaries found: '' @ strings_Join '', '' missing))
         else Ok ())"

definition SBatch :: "'w slurm_os \<Rightarrow> string \<Rightarrow> string \<Rightarrow> 'w \<Rightarrow> int64 go \<times> 'w" where
  "SBatch os script part w =
     (let partitionOpt = (if part \<noteq> [] then ''--partition='' @ part else []);
          ((out, err), w) = os_CombinedOutput os ''sbatch'' [''--parsable'', partitionOpt] script w
      in (case err of
            Some e \<Rightarrow> (Err (Wrapped ''failed to execute sbatch'' e), w)
          | None \<Rightarrow> (go_wrap ''could not parse job id'' (strconv_Atoi (strings_TrimSpace out)), w)))"

definition SCancel :: "'w slurm_os \<Rightarrow> int64 \<Rightarrow> 'w \<Rightarrow> unit go \<times> 'w" where
  "SCancel os jobID w =
     (let ((out, err), w) = os_CombinedOutput os ''scancel'' [strconv_FormatInt jobID] [] w
      in (go_return () (errors_Wrap err ''failed to execute scancel''), w))"

definition SJobInfo :: "'w slurm_os \<Rightarrow> int64 \<Rightarrow> 'w \<Rightarrow> job_info list go \<times> 'w" where
  "SJobInfo os jobID w =
     (let ((out, err), w) =
        os_Output os ''scontrol'' [''show'', ''jobid'', strconv_FormatInt jobID] w
      in (case err of
            Some e \<Rightarrow> (Err (Wrapped (''failed to get info for jobid: '' @ strconv_FormatInt jobID) e), w)
          | None \<Rightarrow>
              (go_wrap ''could not parse scontrol response'' (jobInfoFromScontrolResponse out), w)))"

definition SJobSteps :: "'w slurm_os \<Rightarrow> int64 \<Rightarrow> 'w \<Rightarrow> job_step list go \<times> 'w" where
  "SJobSteps os jobID w =
     (let ((out, err), w) =
        os_Output os ''sacct''
          [''-p'', ''-n'', ''-j'', strconv_FormatInt jobID, ''-o start,end,exitcode,state,jobid,jobname''] w
      in (case err of
            Some e \<Rightarrow>
              (case os_ExitStderr os e of
                 Some stderr \<Rightarrow> (Err (Wrapped (''failed to execute sacct: '' @ stderr) e), w)
               | None \<Rightarrow> (Err (Wrapped ''failed to execute sacct'' e), w))
          | None \<Rightarrow> (go_wrap ''unable to parse sacct response'' (parseSacctResponse out), w)))"

definition Client_Resources :: "'w slurm_os \<Rightarrow> string \<Rightarrow> 'w \<Rightarrow> slurm_resources go \<times> 'w" where
  "Client_Resources os part w =
     (let ((out, err), w) = os_Output os ''scontrol'' [''show'', ''partition'', part] w
      in (case err of
            Some e \<Rightarrow> (Err (Wrapped ''could not get partition info'' e), w)
          | None \<Rightarrow> (go_wrap ''could not parse partition resources'' (parseResources out), w)))"

definition Client_Partitions :: "'w slurm_os \<Rightarrow> 'w \<Rightarrow> string list go \<times> 'w" where
  "Client_Partitions os w =
     (let ((out, err), w) = os_Output os ''scontrol'' [''show'', ''partition''] w
      in (case err of
            Some e \<Rightarrow> (Err (Wrapped ''could not get partition info'' e), w)
          | None \<Rightarrow> (Ok (parsePartitionsNames out), w)))"

text \<open>The malformed case wraps \<open>err\<close>, which is nil at that point.\<close>

definition Version :: "'w slurm_os \<Rightarrow> 'w \<Rightarrow> string go \<times> 'w" where
  "Version os w =
     (let ((out, err), w) = os_Output os ''sinfo'' [''-V''] w
      in (case err of
            Some e \<Rightarrow> (Err (Wrapped ''could not get slurm info'' e), w)
          | None \<Rightarrow>
              (let s = strings_Split CHR '' '' out
               in if length s \<noteq> 2
                  then (go_return [] (errors_Wrap err (''could not parse sinfo response '' @ out)), w)
                  else (Ok (s ! 1), w))))"

section \<open>The specification of job information\<close>

text \<open>What a block of \<open>key=value\<close> fields means, field by field.\<close>

definition time_field :: "(string \<Rightarrow> string option) \<Rightarrow> string \<Rightarrow> go_time option go" where
  "time_field look k =
     (case look k of
        None \<Rightarrow> Ok None
      | Some v \<Rightarrow> go_wrap (''could not parse time: '' @ v) (parseTime v))"

definition duration_field :: "(string \<Rightarrow> string option) \<Rightarrow> string \<Rightarrow> duration option go" where
  "duration_field look k =
     (case look k of
        None \<Rightarrow> Ok None
      | Some v \<Rightarrow>
          if v = unlimited \<or> v = [] then Ok None
          else go_bind (go_wrap (''could not parse duration: '' @ v) (ParseDuration v)) (\<lambda>d. Ok (Some d)))"

definition text_field :: "(string \<Rightarrow> string option) \<Rightarrow> string \<Rightarrow> string" where
  "text_field look k = (case look k of None \<Rightarrow> [] | Some v \<Rightarrow> v)"

definition job_info_spec :: "(string \<Rightarrow> string option) \<Rightarrow> job_info go" where
  "job_info_spec look =
     go_bind (time_field look ''SubmitTime'') (\<lambda>submit.
     go_bind (time_field look ''StartTime'') (\<lambda>start.
     go_bind (duration_field look ''RunTime'') (\<lambda>run.
     go_bind (duration_field look ''TimeLimit'') (\<lambda>limit.
     Ok \<lparr>ji_ID = text_field look ''JobId'', ji_UserID = text_field look ''UserId'',
          ji_ArrayJobID = text_field look ''ArrayJobId'', ji_Name = text_field look ''JobName'',
          ji_ExitCode = text_field look ''ExitCode'', ji_State = text_field look ''JobState'',
          ji_SubmitTime = submit, ji_StartTime = start, ji_RunTime = run, ji_TimeLimit = limit,
          ji_WorkDir = text_field look ''WorkDir'', ji_StdOut = text_field look ''StdOut'',
          ji_StdErr = text_field look ''StdErr'', ji_Partition = text_field look ''Partition'',
          ji_NodeList = text_field look ''NodeList'', ji_BatchHost = text_field look ''BatchHost'',
          ji_NumNodes = text_field look ''NumNodes''\<rparr>))))"

lemma fill_Text:
  "store [] ji0 = ji0 \<Longrightarrow>
   fill_field look (k, Text store) ji0 = Ok (store (text_field look k) ji0)"
  by (auto simp: text_field_def split: option.splits)

lemma fill_Time:
  "store None ji0 = ji0 \<Longrightarrow>
   fill_field look (k, Time store) ji0 = go_bind (time_field look k) (\<lambda>t. Ok (store t ji0))"
  by (simp add: time_field_def split: option.splits)

lemma fill_Dur:
  "store None ji0 = ji0 \<Longrightarrow>
   fill_field look (k, Dur store) ji0 =
     go_bind (duration_field look k) (\<lambda>d. Ok (store d ji0))"
  by (auto simp: duration_field_def ParseDuration_unlimited_iff ParseDuration_unlimited_iff [THEN iffD2]
      split: option.splits go.splits)

lemma fillFromSlurmFields_spec: "fillFromSlurmFields look zero_job_info = job_info_spec look"
  unfolding fillFromSlurmFields_def job_info_tags_def zero_job_info_def job_info_spec_def
  by (simp add: fill_Text fill_Time fill_Dur go_bind_assoc del: fill_field.simps)

lemma info_field_step_print:
  "clean_text k \<Longrightarrow> clean_text v \<Longrightarrow> info_field_step m (print_field (k, v)) = m(k \<mapsto> v)"
  by (simp add: info_field_step_def print_field_split)

lemma info_fields_print:
  assumes "list_all (\<lambda>(k, v). clean_text k \<and> clean_text v) kvs"
  shows "info_fields (print_fields kvs) = map_of (rev kvs)"
proof -
  have "foldl info_field_step m (map print_field kvs) x =
      (case map_of (rev kvs) x of None \<Rightarrow> m x | Some v \<Rightarrow> Some v)" for m x
    using assms
  proof (induction kvs arbitrary: m)
    case Nil
    then show ?case by simp
  next
    case (Cons kv kvs)
    obtain k v where kv: "kv = (k, v)" by (cases kv)
    with Cons show ?case
      by (auto simp: info_field_step_print map_of_append map_add_def split: option.splits)
  qed
  then have "foldl info_field_step Map.empty (map print_field kvs) = map_of (rev kvs)"
    by (simp add: fun_eq_iff split: option.splits)
  with print_fields_Fields [OF assms] show ?thesis by (simp add: info_fields_def)
qed

lemma print_fields_ends:
  assumes "list_all (\<lambda>(k, v). clean_text k \<and> clean_text v) kvs" "kvs \<noteq> []"
  shows "print_fields kvs \<noteq> []" "graphic (hd (print_fields kvs))" "graphic (last (print_fields kvs))"
proof -
  from assms have "list_all plain (map print_field kvs)"
    by (auto simp: list_all_iff print_field_plain)
  with assms(2) show "print_fields kvs \<noteq> []" "graphic (hd (print_fields kvs))"
      "graphic (last (print_fields kvs))"
    using Join_plain_ends [of "map print_field kvs" "'' ''"] by (simp_all add: print_fields_def)
qed

definition records_ok :: "(string \<times> string) list list \<Rightarrow> bool" where
  "records_ok rs \<longleftrightarrow> list_all (\<lambda>kvs. kvs \<noteq> [] \<and> list_all (\<lambda>(k, v). clean_text k \<and> clean_text v) kvs) rs"

text \<open>Printed records separated by blank lines come apart again.\<close>

lemma split_records:
  assumes "rs \<noteq> []" "records_ok rs"
  shows "strings_Split_blank (strings_TrimSpace (strings_Join [newline, newline] (map print_fields rs))) =
    map print_fields rs"
proof -
  define raw where "raw = strings_Join [newline, newline] (map print_fields rs)"
  have rec: "p \<noteq> [] \<and> graphic (hd p) \<and> graphic (last p) \<and> newline \<notin> set p"
    if "p \<in> set (map print_fields rs)" for p
    using that assms(2) print_fields_ends print_fields_no_newline by (auto simp: records_ok_def list_all_iff)
  then have "raw \<noteq> [] \<and> graphic (hd raw) \<and> graphic (last raw)"
    using Join_hd_last [of "map print_fields rs" "[newline, newline]"] assms(1)
    unfolding raw_def by (metis Nil_is_map_conv hd_in_set last_in_set)
  then have "strings_TrimSpace raw = raw" by (simp add: TrimSpace_graphic)
  moreover have "strings_Split_blank raw = map print_fields rs"
    unfolding raw_def
  proof (rule Split_blank_Join)
    show "map print_fields rs \<noteq> []" using assms by simp
    fix p
    assume "p \<in> set (map print_fields rs)"
    with rec show "no_blank_line p \<and> (p = [] \<or> last p \<noteq> newline)"
      using no_newline_no_blank by (metis last_in_set)
  qed
  ultimately show ?thesis by (simp add: raw_def)
qed

lemma jobInfoFromScontrolResponse_print:
  assumes "rs \<noteq> []" "records_ok rs"
  shows "jobInfoFromScontrolResponse (strings_Join [newline, newline] (map print_fields rs)) =
    go_each (\<lambda>kvs. job_info_spec (map_of (rev kvs))) rs"
proof -
  have "go_each (\<lambda>raw. fillFromSlurmFields (info_fields raw) zero_job_info) (map print_fields ks) =
      go_each (\<lambda>kvs. job_info_spec (map_of (rev kvs))) ks" if "records_ok ks" for ks
    using that
    by (induction ks) (simp_all add: records_ok_def info_fields_print fillFromSlurmFields_spec)
  with assms show ?thesis by (simp add: jobInfoFromScontrolResponse_def split_records)
qed

lemma job_info_spec_no_panic [simp]: "no_panic (job_info_spec look)"
proof -
  have "no_panic (time_field look k)" "no_panic (duration_field look k)" for k
    by (auto simp: time_field_def duration_field_def split: option.splits intro!: no_panic_intros)
  then show ?thesis unfolding job_info_spec_def by (intro no_panic_intros) simp_all
qed

lemma jobInfoFromScontrolResponse_no_panic [simp]: "no_panic (jobInfoFromScontrolResponse s)"
  by (auto simp: jobInfoFromScontrolResponse_def fillFromSlurmFields_spec intro!: no_panic_intros)

lemma jobInfoFromScontrolResponse_nonempty:
  "jobInfoFromScontrolResponse s = Ok infos \<Longrightarrow> infos \<noteq> []"
  by (auto simp: jobInfoFromScontrolResponse_def dest: go_each_length)

section \<open>Properties\<close>

text \<open>
  \<open>jobInfoFromScontrolResponse\<close> on a printed scontrol answer (one record per job of an
  array, separated by blank lines) returns one job per record, each field being the last
  value printed for its key; times and durations are parsed, an unlimited duration is nil,
  and the first record that does not parse fails the answer.
\<close>

theorem jobInfoFromScontrolResponse_printed:
  assumes "rs \<noteq> []" "records_ok rs"
  shows "jobInfoFromScontrolResponse (strings_Join [newline, newline] (map print_fields rs)) =
    go_each (\<lambda>kvs. job_info_spec (map_of (rev kvs))) rs"
  using assms by (rule jobInfoFromScontrolResponse_print)

theorem jobInfoFromScontrolResponse_printed_witness:
  "jobInfoFromScontrolResponse (strings_Join [newline, newline]
     [''JobId=52 TimeLimit=UNLIMITED StartTime=Unknown'', ''JobId=53 RunTime=00:00:30 NumNodes=1'']) =
   Ok [zero_job_info\<lparr>ji_ID := ''52''\<rparr>,
       zero_job_info\<lparr>ji_ID := ''53'', ji_RunTime := Some 30000000000, ji_NumNodes := ''1''\<rparr>]"
proof -
  define rs where "rs = [[(''JobId'', ''52''), (''TimeLimit'', ''UNLIMITED''), (''StartTime'', ''Unknown'')],
    [(''JobId'', ''53''), (''RunTime'', ''00:00:30''), (''NumNodes'', ''1'')]]"
  have "records_ok rs" by (simp add: rs_def records_ok_def clean_text_def graphic_def)
  then have eq: "jobInfoFromScontrolResponse (strings_Join [newline, newline] (map print_fields rs)) =
      go_each (\<lambda>kvs. job_info_spec (map_of (rev kvs))) rs"
    by (intro jobInfoFromScontrolResponse_printed) (simp_all add: rs_def)
  have amounts: "strconv_ParseInt ''00'' = Ok 0" "strconv_ParseInt ''30'' = Ok 30"
    by (simp_all add: strconv_ParseInt_def is_digit_def digit_val_def)
  then have "ParseDuration ''00:00:30'' = Ok (duration_sum 0 0 0 30)"
    by (simp add: ParseDuration_def unlimited_def duration_amounts_def parse_amount_def)
  then have "ParseDuration ''00:00:30'' = Ok 30000000000"
    by (simp add: duration_sum_wrap int64_defs)
  then have second: "job_info_spec (map_of (rev [(''JobId'', ''53''), (''RunTime'', ''00:00:30''), (''NumNodes'', ''1'')])) =
      Ok (zero_job_info\<lparr>ji_ID := ''53'', ji_RunTime := Some 30000000000, ji_NumNodes := ''1''\<rparr>)"
    by (simp add: job_info_spec_def time_field_def duration_field_def text_field_def unlimited_def
        zero_job_info_def)
  have first: "job_info_spec (map_of (rev [(''JobId'', ''52''), (''TimeLimit'', ''UNLIMITED''), (''StartTime'', ''Unknown'')])) =
      Ok (zero_job_info\<lparr>ji_ID := ''52''\<rparr>)"
    by (simp add: job_info_spec_def time_field_def duration_field_def text_field_def unlimited_def
        parseTime_def ToLower_Unknown zero_job_info_def)
  have recs: "map print_fields rs = [''JobId=52 TimeLimit=UNLIMITED StartTime=Unknown'', ''JobId=53 RunTime=00:00:30 NumNodes=1'']"
    by (simp add: rs_def print_fields_def print_field_def)
  show ?thesis
    unfolding eq [unfolded recs] rs_def go_each.simps first second go_bind.simps ..
qed

text \<open>
  When sbatch prints the id of the new job on a line of its own, \<open>SBatch\<close> returns that
  id, having been called with the script on its standard input and the partition as an
  option (an empty argument when no partition is asked for).
\<close>

theorem SBatch_returns_id:
  assumes "os_CombinedOutput os ''sbatch''
      [''--parsable'', if part \<noteq> [] then ''--partition='' @ part else []] script w =
        ((strconv_FormatInt jobID @ [newline], None), w')"
    and "in_int64 jobID"
  shows "SBatch os script part w = (Ok jobID, w')"
proof -
  have "strings_TrimSpace (strconv_FormatInt jobID @ [newline]) = strconv_FormatInt jobID"
    by (rule TrimSpace_trailing) simp_all
  then show ?thesis using assms int64_text.parse_fmt [of jobID] by (simp add: SBatch_def strconv_Atoi_def)
qed

text \<open>A cluster that numbers jobs and keeps the submitted scripts, for the witness.\<close>

definition counting_os :: "(int \<times> string list) slurm_os" where
  "counting_os = \<lparr>os_LookPath = (\<lambda>_. True), os_Output = (\<lambda>_ _ w. (([], None), w)),
     os_CombinedOutput = (\<lambda>cmd args stdin (n, js).
        ((strconv_FormatInt n @ [newline], None), (n + 1, js @ [stdin]))),
     os_ExitStderr = (\<lambda>_. None)\<rparr>"

theorem SBatch_returns_id_witness:
  "SBatch counting_os ''#!/bin/sh'' ''debug'' (53, []) = (Ok 53, (54, [''#!/bin/sh'']))"
  by (rule SBatch_returns_id) (simp_all add: counting_os_def int64_defs)

text \<open>
  When sinfo succeeds but prints something other than two words, \<open>Version\<close> returns the
  empty version without an error: the error it means to return wraps a nil error.
\<close>

theorem Version_malformed_is_silent:
  assumes "os_Output os ''sinfo'' [''-V''] w = ((out, None), w')"
    and "length (strings_Split CHR '' '' out) \<noteq> 2"
  shows "Version os w = (Ok [], w')"
  using assms by (simp add: Version_def go_return_def)

theorem Version_malformed_is_silent_witness: "Version counting_os (1, []) = (Ok [], (1, []))"
  by (rule Version_malformed_is_silent [of _ _ "[]"]) (simp_all add: counting_os_def)

end
