(* ===== verification/Workload_Api.thy ===== *)
theory Workload_Api
  imports Go_Time
begin

text \<open>
  The messages and enumerations of \<open>pkg/workload/api/workload.pb.go\<close> (without the internal
  \<open>XXX_\<close> fields of the protobuf runtime), and the conversions of
  \<open>github.com/golang/protobuf/ptypes\<close> between Go times and protobuf times. The results: the
  names of the enumerations are inverse maps, a duration survives the conversion, and a time
  converts exactly from year 1 on.
\<close>

section \<open>Enumerations\<close>

type_synonym int32 = int

definition TailAction_Start :: int32 where "TailAction_Start = 0"
definition TailAction_ReadToEndAndClose :: int32 where "TailAction_ReadToEndAndClose = 1"

definition TailAction_name :: "int32 \<rightharpoonup> string" where
  "TailAction_name = [0 \<mapsto> ''Start'', 1 \<mapsto> ''ReadToEndAndClose'']"

definition TailAction_value :: "string \<rightharpoonup> int32" where
  "TailAction_value = [''Start'' \<mapsto> 0, ''ReadToEndAndClose'' \<mapsto> 1]"

definition JobStatus_UNKNOWN :: int32 where "JobStatus_UNKNOWN = 10"

definition JobStatus_name :: "int32 \<rightharpoonup> string" where
  "JobStatus_name = [0 \<mapsto> ''COMPLETED'', 1 \<mapsto> ''CANCELLED'', 2 \<mapsto> ''FAILED'', 3 \<mapsto> ''TIMEOUT'',
     4 \<mapsto> ''PENDING'', 10 \<mapsto> ''UNKNOWN'']"

definition JobStatus_value :: "string \<rightharpoonup> int32" where
  "JobStatus_value = [''COMPLETED'' \<mapsto> 0, ''CANCELLED'' \<mapsto> 1, ''FAILED'' \<mapsto> 2, ''TIMEOUT'' \<mapsto> 3,
     ''PENDING'' \<mapsto> 4, ''UNKNOWN'' \<mapsto> 10]"

text \<open>\<open>proto.EnumName\<close>\<close>

definition proto_EnumName :: "(int32 \<rightharpoonup> string) \<Rightarrow> int32 \<Rightarrow> string" where
  "proto_EnumName m v = (case m v of Some s \<Rightarrow> s | None \<Rightarrow> strconv_FormatInt v)"

definition JobStatus_String :: "int32 \<Rightarrow> string" where
  "JobStatus_String x = proto_EnumName JobStatus_name x"

definition TailAction_String :: "int32 \<Rightarrow> string" where
  "TailAction_String x = proto_EnumName TailAction_name x"

section \<open>Protobuf times\<close>

record timestamp =
  ts_Seconds :: int64
  ts_Nanos :: int32

record proto_duration =
  pd_Seconds :: int64
  pd_Nanos :: int32

definition validateTimestamp :: "timestamp option \<Rightarrow> unit go" where
  "validateTimestamp ts =
     (case ts of
        None \<Rightarrow> Err (ErrorString ''timestamp: nil Timestamp'')
      | Some t \<Rightarrow>
          if ts_Seconds t < -62135596800 then Err TimestampOutOfRange
          else if ts_Seconds t \<ge> 253402300800 then Err TimestampOutOfRange
          else if ts_Nanos t < 0 \<or> ts_Nanos t \<ge> 1000000000 then Err TimestampOutOfRange
          else Ok ())"

definition TimestampProto :: "go_time \<Rightarrow> timestamp go" where
  "TimestampProto t =
     (let ts = \<lparr>ts_Seconds = time_Unix t, ts_Nanos = wrap32 (time_Nanosecond t)\<rparr>
      in go_bind (validateTimestamp (Some ts)) (\<lambda>_. Ok ts))"

definition DurationProto :: "duration \<Rightarrow> proto_duration" where
  "DurationProto d =
     (let nanos = d; secs = tdiv nanos 1000000000; nanos = add64 nanos (- mul64 secs 1000000000)
      in \<lparr>pd_Seconds = secs, pd_Nanos = wrap32 nanos\<rparr>)"

definition maxSeconds :: int64 where "maxSeconds = 315576000000"

definition validateDuration :: "proto_duration option \<Rightarrow> unit go" where
  "validateDuration d =
     (case d of
        None \<Rightarrow> Err (ErrorString ''duration: nil Duration'')
      | Some d \<Rightarrow>
          if pd_Seconds d < - maxSeconds \<or> pd_Seconds d > maxSeconds
          then Err (ErrorString ''duration: seconds out of range'')
          else if pd_Nanos d \<le> -1000000000 \<or> pd_Nanos d \<ge> 1000000000
          then Err (ErrorString ''duration: nanos out of range'')
          else if (pd_Seconds d < 0 \<and> pd_Nanos d > 0) \<or> (pd_Seconds d > 0 \<and> pd_Nanos d < 0)
          then Err (ErrorString ''duration: seconds and nanos have different signs'')
          else Ok ())"

text \<open>\<open>ptypes.Duration\<close>\<close>

definition proto_Duration :: "proto_duration option \<Rightarrow> duration go" where
  "proto_Duration p =
     go_bind (validateDuration p) (\<lambda>_.
     (case p of
        None \<Rightarrow> Panic ''nil pointer dereference''
      | Some p \<Rightarrow>
          (let d = mul64 (pd_Seconds p) time_Second
           in if tdiv d time_Second \<noteq> pd_Seconds p
              then Err (ErrorString ''duration is out of range for time.Duration'')
              else if pd_Nanos p \<noteq> 0
              then (let d = add64 d (pd_Nanos p)
                    in if (d < 0) \<noteq> (pd_Nanos p < 0)
                       then Err (ErrorString ''duration is out of range for time.Duration'') else Ok d)
              else Ok d)))"

section \<open>Messages\<close>

record submit_job_request =
  sjr_Script :: string
  sjr_Partition :: string
  sjr_ClientId :: string

record submit_job_response = sjp_JobId :: int64

record pb_singularity_options =
  pso_App :: string
  pso_AllowUnsigned :: bool
  pso_Binds :: "string list"
  pso_ClearEnv :: bool
  pso_FakeRoot :: bool
  pso_HostName :: string
  pso_Ipc :: bool
  pso_Pid :: bool
  pso_NoPrivs :: bool
  pso_Writable :: bool

record submit_job_container_request =
  sjc_ImageName :: string
  sjc_Nodes :: int64
  sjc_CpuPerNode :: int64
  sjc_MemPerNode :: int64
  sjc_WallTime :: int64
  sjc_Partition :: string
  sjc_ClientId :: string
  sjc_Options :: "pb_singularity_options option"

record submit_job_container_response = scp_JobId :: int64

record cancel_job_request = cjr_JobId :: int64

record job_info_request = jir_JobId :: int64

record pb_job_info =
  pji_Id :: string
  pji_UserId :: string
  pji_Name :: string
  pji_ExitCode :: string
  pji_Status :: int32
  pji_SubmitTime :: "timestamp option"
  pji_StartTime :: "timestamp option"
  pji_RunTime :: "proto_duration option"
  pji_TimeLimit :: "proto_duration option"
  pji_WorkingDir :: string
  pji_StdOut :: string
  pji_StdErr :: string
  pji_Partition :: string
  pji_NodeList :: string
  pji_BatchHost :: string
  pji_NumNodes :: string
  pji_ArrayId :: string

record job_info_response = jip_Info :: "pb_job_info list"

record job_steps_request = jsr_JobId :: int64

record pb_job_step =
  pjs_Id :: string
  pjs_Name :: string
  pjs_ExitCode :: int32
  pjs_Status :: int32
  pjs_StartTime :: "timestamp option"
  pjs_EndTime :: "timestamp option"

record job_steps_response = jsp_JobSteps :: "pb_job_step list"

record open_file_request = ofr_Path :: string

record chunk = ch_Content :: string

text \<open>A nil \<open>Content\<close> is an absent field.\<close>

record create_file_request =
  cfr_Path :: string
  cfr_Content :: "string option"

record tail_file_request =
  tfr_Action :: int32
  tfr_Path :: string

record zip_request =
  zr_Path :: string
  zr_Target :: string

record unzip_request =
  uzr_Source :: string
  uzr_Path :: string

record pb_feature =
  pf_Name :: string
  pf_Version :: string
  pf_Quantity :: int64

record resources_request = rr_Partition :: string

record resources_response =
  rp_Nodes :: int64
  rp_CpuPerNode :: int64
  rp_MemPerNode :: int64
  rp_WallTime :: int64
  rp_Features :: "pb_feature list"

record partitions_response = pp_Partition :: "string list"

record workload_info_response =
  wip_Name :: string
  wip_Version :: string
  wip_Uid :: int64

section \<open>Lemmas\<close>

lemma JobStatus_value_name: "JobStatus_value s = Some v \<longleftrightarrow> JobStatus_name v = Some s"
  by (auto simp: JobStatus_value_def JobStatus_name_def split: if_splits)

lemma JobStatus_String_value: "JobStatus_value s = Some v \<Longrightarrow> JobStatus_String v = s"
  by (simp add: JobStatus_value_name JobStatus_String_def proto_EnumName_def)

lemma TimestampProto_range:
  assumes "-62135596800 \<le> time_Unix t" "time_Unix t < 253402300800"
    and "0 \<le> time_Nanosecond t" "time_Nanosecond t < 1000000000"
  shows "TimestampProto t = Ok \<lparr>ts_Seconds = time_Unix t, ts_Nanos = time_Nanosecond t\<rparr>"
  using assms by (simp add: TimestampProto_def validateTimestamp_def wrap32_def Let_def)

lemma TimestampProto_civil:
  assumes "valid_civil c" "1 \<le> c_year c"
  shows "TimestampProto (civil_time c) = Ok \<lparr>ts_Seconds = civil_Unix c, ts_Nanos = int (c_nsec c)\<rparr>"
  using civil_Unix_from_year_1 [OF assms] assms
  by (subst TimestampProto_range) (simp_all add: civil_time_def valid_civil_def)

lemma TimestampProto_year_0:
  "valid_civil c \<Longrightarrow> c_year c = 0 \<Longrightarrow> TimestampProto (civil_time c) = Err TimestampOutOfRange"
  using civil_Unix_year_0 [of c]
  by (simp add: TimestampProto_def validateTimestamp_def civil_time_def Let_def)

lemma TimestampProto_no_panic [simp]: "no_panic (TimestampProto t)"
  by (simp add: TimestampProto_def validateTimestamp_def Let_def)

lemma tdiv_tmod_bounds:
  assumes "in_int64 d"
  shows "\<bar>tdiv d 1000000000\<bar> \<le> 9223372036" "\<bar>tmod d 1000000000\<bar> < 1000000000"
    "tdiv d 1000000000 * 1000000000 + tmod d 1000000000 = d"
    "0 \<le> d \<Longrightarrow> 0 \<le> tdiv d 1000000000 \<and> 0 \<le> tmod d 1000000000"
    "d \<le> 0 \<Longrightarrow> tdiv d 1000000000 \<le> 0 \<and> tmod d 1000000000 \<le> 0"
proof -
  have "x div 1000000000 \<le> 9223372036" if "x \<le> 2 ^ 63" for x :: int
    using zdiv_mono1 [OF that, of 1000000000] by simp
  moreover have "0 \<le> x div 1000000000" if "0 \<le> x" for x :: int
    using that by (simp add: pos_imp_zdiv_nonneg_iff)
  ultimately show "\<bar>tdiv d 1000000000\<bar> \<le> 9223372036"
    using assms by (cases "0 \<le> d") (auto simp: tdiv_nonneg tdiv_neg int64_defs abs_le_iff)
  show "\<bar>tmod d 1000000000\<bar> < 1000000000"
    by (cases "0 \<le> d") (simp_all add: tmod_nonneg tmod_neg)
  show "tdiv d 1000000000 * 1000000000 + tmod d 1000000000 = d" by (simp add: tmod_def)
  show "0 \<le> d \<Longrightarrow> 0 \<le> tdiv d 1000000000 \<and> 0 \<le> tmod d 1000000000"
    by (simp add: tdiv_nonneg tmod_nonneg pos_imp_zdiv_nonneg_iff)
  show "d \<le> 0 \<Longrightarrow> tdiv d 1000000000 \<le> 0 \<and> tmod d 1000000000 \<le> 0"
    by (cases "d = 0") (simp_all add: tdiv_neg tmod_neg tdiv_nonneg tmod_nonneg pos_imp_zdiv_nonneg_iff)
qed

lemma DurationProto_values:
  assumes "in_int64 d"
  shows "DurationProto d = \<lparr>pd_Seconds = tdiv d 1000000000, pd_Nanos = tmod d 1000000000\<rparr>"
proof -
  note b = tdiv_tmod_bounds [OF assms]
  have s: "in_int64 (tdiv d 1000000000 * 1000000000)" using b(1) by (simp add: int64_defs abs_le_iff)
  have n: "in_int64 (tmod d 1000000000)" "in_int32 (tmod d 1000000000)"
    using b(2) by (simp_all add: int64_defs in_int32_def abs_less_iff)
  have "add64 d (- mul64 (tdiv d 1000000000) 1000000000) = tmod d 1000000000"
    using s n by (simp add: add64_def mul64_def tmod_def)
  then show ?thesis using n by (simp add: DurationProto_def Let_def)
qed

lemma proto_Duration_DurationProto:
  assumes "in_int64 d"
  shows "proto_Duration (Some (DurationProto d)) = Ok d"
proof -
  let ?s = "tdiv d 1000000000" and ?n = "tmod d 1000000000"
  note b = tdiv_tmod_bounds [OF assms]
  have s: "in_int64 (?s * 1000000000)" using b(1) by (simp add: int64_defs abs_le_iff)
  then have mul: "mul64 ?s time_Second = ?s * 1000000000" by (simp add: mul64_def time_units)
  have add: "add64 (?s * 1000000000) ?n = d" using b(3) assms by (simp add: add64_def)
  have valid: "validateDuration (Some \<lparr>pd_Seconds = ?s, pd_Nanos = ?n\<rparr>) = Ok ()"
    using b(1,2) b(4,5) by (cases "0 \<le> d") (auto simp: validateDuration_def maxSeconds_def abs_le_iff abs_less_iff)
  have sign: "?n \<noteq> 0 \<Longrightarrow> (d < 0) = (?n < 0)"
    using b(4,5) by (cases "0 \<le> d") auto
  have "?n = 0 \<Longrightarrow> ?s * 1000000000 = d" using b(3) by simp
  then show ?thesis
    using valid mul add sign
    by (simp add: DurationProto_values [OF assms] proto_Duration_def Let_def time_Second_def tdiv_mult_self)
qed

end
