(* ===== verification/Red_Box.thy ===== *)
theory Red_Box
  imports Slurm_Client Batch_Script Workload_Api
begin

text \<open>
  The red-box server of \<open>internal/red-box/api/slurm.go\<close>: job submission (with the script
  built for a container), cancellation, job information and steps, partition resources and
  workload information, over the local slurm client. The handlers that move files are in
  other theories. The context argument of a call is not used by these handlers.
\<close>

section \<open>Configuration\<close>

record rb_feature =
  ft_Name :: string
  ft_Version :: string
  ft_Quantity :: int64

record partition_resources =
  pr_AutoNodes :: bool
  pr_AutoCPUPerNode :: bool
  pr_AutoMemPerNode :: bool
  pr_AutoWallTime :: bool
  pr_Nodes :: int64
  pr_CPUPerNode :: int64
  pr_MemPerNode :: int64
  pr_WallTime :: duration
  pr_AdditionalFeatures :: "rb_feature list"

type_synonym rb_config = "string \<Rightarrow> partition_resources option"

definition zero_partition :: partition_resources where
  "zero_partition = \<lparr>pr_AutoNodes = False, pr_AutoCPUPerNode = False, pr_AutoMemPerNode = False,
     pr_AutoWallTime = False, pr_Nodes = 0, pr_CPUPerNode = 0, pr_MemPerNode = 0, pr_WallTime = 0,
     pr_AdditionalFeatures = []\<rparr>"

record rb_server =
  rb_uid :: int64
  rb_cfg :: rb_config

text \<open>\<open>NewSlurm\<close>: the effective user id is a parameter.\<close>

definition NewSlurm :: "int64 \<Rightarrow> rb_config \<Rightarrow> rb_server" where
  "NewSlurm euid cfg = \<lparr>rb_uid = euid, rb_cfg = cfg\<rparr>"

text \<open>A call on a state: its result is mapped, the state kept.\<close>

definition call_bind :: "'a go \<times> 'w \<Rightarrow> ('a \<Rightarrow> 'b go) \<Rightarrow> 'b go \<times> 'w" where
  "call_bind r f = (go_bind (fst r) f, snd r)"

definition call_wrap :: "string \<Rightarrow> 'a go \<times> 'w \<Rightarrow> 'a go \<times> 'w" where
  "call_wrap msg r = (go_wrap msg (fst r), snd r)"

section \<open>The script of a container job\<close>

text \<open>
  \<open>fmt.Sprintf\<close> with string arguments, for formats whose verbs are \<open>%s\<close> and \<open>%%\<close>: missing
  and surplus arguments are marked in the output. A format with any other verb is left to the
  parameter \<open>other\<close>.
\<close>

fun fmt_loop :: "string \<Rightarrow> string list \<Rightarrow> (string \<times> string list) option" where
  "fmt_loop [] args = Some ([], args)"
| "fmt_loop (c # cs) args =
     (if c \<noteq> CHR ''%'' then map_option (\<lambda>(out, rest). (c # out, rest)) (fmt_loop cs args)
      else
        (case cs of
           [] \<Rightarrow> Some (''%!(NOVERB)'', args)
         | v # cs' \<Rightarrow>
             if v = CHR ''%'' then map_option (\<lambda>(out, rest). (CHR ''%'' # out, rest)) (fmt_loop cs' args)
             else if v = CHR ''s'' then
               (case args of
                  [] \<Rightarrow> map_option (\<lambda>(out, rest). (''%!s(MISSING)'' @ out, rest)) (fmt_loop cs' [])
                | a # as \<Rightarrow> map_option (\<lambda>(out, rest). (a @ out, rest)) (fmt_loop cs' as))
             else None))"

definition Sprintf :: "(string \<Rightarrow> string list \<Rightarrow> string) \<Rightarrow> string \<Rightarrow> string list \<Rightarrow> string" where
  "Sprintf other fmt args =
     (case fmt_loop fmt args of
        None \<Rightarrow> other fmt args
      | Some (out, []) \<Rightarrow> out
      | Some (out, rest) \<Rightarrow>
          out @ ''%!(EXTRA '' @ strings_Join '', '' (map (\<lambda>a. ''string='' @ a) rest) @ '')'')"

definition quote :: string where "quote = [CHR 0x22]"

definition run_flags :: "pb_singularity_options \<Rightarrow> string list" where
  "run_flags opt =
     (if pso_App opt \<noteq> [] then [''--app='' @ quote @ pso_App opt @ quote] else []) @
     (if pso_HostName opt \<noteq> [] then [''--hostname='' @ quote @ pso_HostName opt @ quote] else []) @
     (if length (pso_Binds opt) \<noteq> 0
      then [''--bind='' @ quote @ strings_Join '','' (pso_Binds opt) @ quote] else []) @
     (if pso_ClearEnv opt then [''-c''] else []) @
     (if pso_FakeRoot opt then [''-f''] else []) @
     (if pso_Ipc opt then [''-i''] else []) @
     (if pso_Pid opt then [''-p''] else []) @
     (if pso_NoPrivs opt then [''--no-privs''] else []) @
     (if pso_Writable opt then [''-w''] else [])"

definition buildRunCommand :: "pb_singularity_options \<Rightarrow> string" where
  "buildRunCommand opt =
     (let run = ''srun singularity run''; flags = run_flags opt;
          run = (if length flags \<noteq> 0 then run @ '' '' @ strings_Join '' '' flags else run)
      in run @ '' '' @ quote @ ''%s'' @ quote @ '' || exit'')"

definition resource_lines :: "submit_job_container_request \<Rightarrow> string list" where
  "resource_lines r =
     (if sjc_WallTime r \<noteq> 0 then [''#SBATCH --time=0:'' @ strconv_FormatInt (sjc_WallTime r)] else []) @
     (if sjc_MemPerNode r \<noteq> 0 then [''#SBATCH --mem='' @ strconv_FormatInt (sjc_MemPerNode r)] else []) @
     (if sjc_Nodes r \<noteq> 0 then [''#SBATCH --nodes='' @ strconv_FormatInt (sjc_Nodes r)] else []) @
     (if sjc_CpuPerNode r \<noteq> 0
      then [''#SBATCH --cpus-per-task='' @ strconv_FormatInt (sjc_CpuPerNode r)] else [])"

definition localFilePrefix :: string where "localFilePrefix = ''local.file''"

text \<open>
  The commands of the script. The run command is itself a format: the user's options are part
  of it.
\<close>

definition command_lines ::
  "(string \<Rightarrow> string list \<Rightarrow> string) \<Rightarrow> string \<Rightarrow> string \<Rightarrow> pb_singularity_options \<Rightarrow> string list" where
  "command_lines other uuid imageName opt =
     (let runT = buildRunCommand opt
      in if strings_HasPrefix imageName localFilePrefix then
           (let image = strings_TrimPrefix imageName localFilePrefix
            in (if \<not> pso_AllowUnsigned opt
                then [''srun singularity verify '' @ quote @ image @ quote @ '' || exit''] else []) @
               [Sprintf other runT [image]])
         else
           [''srun singularity pull '' @ (if pso_AllowUnsigned opt then ''-U '' else []) @ ''--name '' @
              quote @ uuid @ quote @ '' '' @ quote @ imageName @ quote @ '' || exit'',
            Sprintf other runT [uuid],
            ''srun rm '' @ quote @ uuid @ quote])"

definition buildSLURMScript ::
  "(string \<Rightarrow> string list \<Rightarrow> string) \<Rightarrow> string \<Rightarrow> submit_job_container_request \<Rightarrow> string go" where
  "buildSLURMScript other uuid r =
     (case sjc_Options r of
        None \<Rightarrow> Panic ''nil pointer dereference''
      | Some opt \<Rightarrow>
          Ok (strings_Join [newline]
                ([''#!/bin/sh''] @ resource_lines r @ command_lines other uuid (sjc_ImageName r) opt)))"

section \<open>The handlers of jobs\<close>

definition SubmitJob :: "'w slurm_os \<Rightarrow> submit_job_request \<Rightarrow> 'w \<Rightarrow> submit_job_response go \<times> 'w" where
  "SubmitJob os req w =
     call_bind (call_wrap ''could not submit sbatch script'' (SBatch os (sjr_Script req) (sjr_Partition req) w))
       (\<lambda>id. Ok \<lparr>sjp_JobId = id\<rparr>)"

definition SubmitJobContainer ::
  "(string \<Rightarrow> string list \<Rightarrow> string) \<Rightarrow> string \<Rightarrow> 'w slurm_os \<Rightarrow> submit_job_container_request \<Rightarrow> 'w \<Rightarrow>
   submit_job_container_response go \<times> 'w" where
  "SubmitJobContainer other uuid os r w =
     (case buildSLURMScript other uuid r of
        Ok script \<Rightarrow>
          call_bind (call_wrap ''could not submit sbatch script'' (SBatch os script (sjc_Partition r) w))
            (\<lambda>id. Ok \<lparr>scp_JobId = id\<rparr>)
      | Err e \<Rightarrow> (Err e, w)
      | Panic m \<Rightarrow> (Panic m, w))"

definition CancelJob :: "'w slurm_os \<Rightarrow> cancel_job_request \<Rightarrow> 'w \<Rightarrow> unit go \<times> 'w" where
  "CancelJob os req w =
     call_wrap (''could not cancel job '' @ strconv_FormatInt (cjr_JobId req)) (SCancel os (cjr_JobId req) w)"

definition opt_timestamp :: "string \<Rightarrow> go_time option \<Rightarrow> timestamp option go" where
  "opt_timestamp msg t =
     (case t of None \<Rightarrow> Ok None | Some t \<Rightarrow> go_bind (go_wrap msg (TimestampProto t)) (\<lambda>pt. Ok (Some pt)))"

definition proto_status :: "string \<Rightarrow> int32" where
  "proto_status s = (case JobStatus_value s of Some v \<Rightarrow> v | None \<Rightarrow> JobStatus_UNKNOWN)"

definition proto_step :: "job_step \<Rightarrow> pb_job_step go" where
  "proto_step s =
     go_bind (opt_timestamp ''could not convert started go time to proto time'' (step_StartedAt s)) (\<lambda>startedAt.
     go_bind (opt_timestamp ''could not convert finished go time to proto time'' (step_FinishedAt s)) (\<lambda>finishedAt.
     Ok \<lparr>pjs_Id = step_ID s, pjs_Name = step_Name s, pjs_ExitCode = wrap32 (step_ExitCode s),
         pjs_Status = proto_status (step_State s), pjs_StartTime = startedAt, pjs_EndTime = finishedAt\<rparr>))"

definition toProtoSteps :: "job_step list \<Rightarrow> pb_job_step list go" where
  "toProtoSteps ss = go_each proto_step ss"

definition proto_info :: "job_info \<Rightarrow> pb_job_info go" where
  "proto_info info =
     go_bind (opt_timestamp ''could not convert submit go time to proto time'' (ji_SubmitTime info)) (\<lambda>submitTime.
     go_bind (opt_timestamp ''could not convert start go time to proto time'' (ji_StartTime info)) (\<lambda>startTime.
     Ok \<lparr>pji_Id = ji_ID info, pji_UserId = ji_UserID info, pji_Name = ji_Name info, pji_ExitCode = ji_ExitCode info,
         pji_Status = proto_status (ji_State info), pji_SubmitTime = submitTime, pji_StartTime = startTime,
         pji_RunTime = map_option DurationProto (ji_RunTime info),
         pji_TimeLimit = map_option DurationProto (ji_TimeLimit info),
         pji_WorkingDir = ji_WorkDir info, pji_StdOut = ji_StdOut info, pji_StdErr = ji_StdErr info,
         pji_Partition = ji_Partition info, pji_NodeList = ji_NodeList info, pji_BatchHost = ji_BatchHost info,
         pji_NumNodes = ji_NumNodes info, pji_ArrayId = ji_ArrayJobID info\<rparr>))"

definition mapSInfoToProtoInfo :: "job_info list \<Rightarrow> pb_job_info list go" where
  "mapSInfoToProtoInfo si = go_each proto_info si"

definition JobInfo :: "'w slurm_os \<Rightarrow> job_info_request \<Rightarrow> 'w \<Rightarrow> job_info_response go \<times> 'w" where
  "JobInfo os req w =
     call_bind (call_wrap (''could not get job '' @ strconv_FormatInt (jir_JobId req) @ '' info'')
                  (SJobInfo os (jir_JobId req) w))
       (\<lambda>info.
         go_bind (go_wrap ''could not convert slurm info into proto info'' (mapSInfoToProtoInfo info)) (\<lambda>pInfo.
         if length pInfo = 0
         then Err (ErrorString ''job info slice is empty, probably invalid scontrol output'')
         else Ok \<lparr>jip_Info = pInfo\<rparr>))"

definition JobSteps :: "'w slurm_os \<Rightarrow> job_steps_request \<Rightarrow> 'w \<Rightarrow> job_steps_response go \<times> 'w" where
  "JobSteps os req w =
     call_bind (call_wrap (''could not get job '' @ strconv_FormatInt (jsr_JobId req) @ '' steps'')
                  (SJobSteps os (jsr_JobId req) w))
       (\<lambda>steps.
         go_bind (go_wrap ''could not convert slurm steps into proto steps'' (toProtoSteps steps)) (\<lambda>pSteps.
         Ok \<lparr>jsp_JobSteps = pSteps\<rparr>))"

section \<open>The handlers of the cluster\<close>

definition slurm_feature_proto :: "slurm_feature \<Rightarrow> pb_feature" where
  "slurm_feature_proto f =
     \<lparr>pf_Name = feature_Name f, pf_Version = feature_Version f, pf_Quantity = feature_Quantity f\<rparr>"

definition rb_feature_proto :: "rb_feature \<Rightarrow> pb_feature" where
  "rb_feature_proto f =
     \<lparr>pf_Name = ft_Name f, pf_Version = ft_Version f, pf_Quantity = ft_Quantity f\<rparr>"

text \<open>\<open>int64(d.Seconds())\<close> goes through a float64.\<close>

definition merge_resources :: "partition_resources \<Rightarrow> slurm_resources \<Rightarrow> resources_response" where
  "merge_resources p sr =
     (let resp = \<lparr>rp_Nodes = pr_Nodes p, rp_CpuPerNode = pr_CPUPerNode p, rp_MemPerNode = pr_MemPerNode p,
            rp_WallTime = Seconds_int64 (pr_WallTime p), rp_Features = []\<rparr>;
          resp = resp\<lparr>rp_Features := map slurm_feature_proto (sr_Features sr) @
            map rb_feature_proto (pr_AdditionalFeatures p)\<rparr>;
          resp = (if pr_AutoNodes p \<or> rp_Nodes resp = 0 then resp\<lparr>rp_Nodes := sr_Nodes sr\<rparr> else resp);
          resp = (if pr_AutoCPUPerNode p \<or> rp_CpuPerNode resp = 0
                  then resp\<lparr>rp_CpuPerNode := sr_CPUPerNode sr\<rparr> else resp);
          resp = (if pr_AutoMemPerNode p \<or> rp_MemPerNode resp = 0
                  then resp\<lparr>rp_MemPerNode := sr_MemPerNode sr\<rparr> else resp);
          resp = (if pr_AutoWallTime p \<or> rp_WallTime resp = 0
                  then resp\<lparr>rp_WallTime := Seconds_int64 (sr_WallTime sr)\<rparr> else resp)
      in resp)"

definition Resources :: "rb_server \<Rightarrow> 'w slurm_os \<Rightarrow> resources_request \<Rightarrow> 'w \<Rightarrow> resources_response go \<times> 'w" where
  "Resources s os req w =
     call_bind (call_wrap (''could not get resources for partition '' @ rr_Partition req)
                  (Client_Resources os (rr_Partition req) w))
       (\<lambda>slurmResources.
         let partitionResources =
           (case rb_cfg s (rr_Partition req) of Some p \<Rightarrow> p | None \<Rightarrow> zero_partition)
         in Ok (merge_resources partitionResources slurmResources))"

definition Partitions :: "'w slurm_os \<Rightarrow> 'w \<Rightarrow> partitions_response go \<times> 'w" where
  "Partitions os w =
     call_bind (call_wrap ''could not get partition names'' (Client_Partitions os w))
       (\<lambda>names. Ok \<lparr>pp_Partition = names\<rparr>)"

definition WorkloadInfo :: "rb_server \<Rightarrow> 'w slurm_os \<Rightarrow> 'w \<Rightarrow> workload_info_response go \<times> 'w" where
  "WorkloadInfo s os w =
     call_bind (call_wrap ''could not get slurm version'' (Version os w))
       (\<lambda>sVersion. Ok \<lparr>wip_Name = ''slurm'', wip_Version = sVersion, wip_Uid = rb_uid s\<rparr>)"

section \<open>The resources of a container script\<close>

text \<open>The header lines of a container script, as options.\<close>

definition container_header :: "submit_job_container_request \<Rightarrow> string list list" where
  "container_header r =
     (if sjc_WallTime r \<noteq> 0 then [[''--time'' @ ''='' @ ''0:'' @ strconv_FormatInt (sjc_WallTime r)]] else []) @
     (if sjc_MemPerNode r \<noteq> 0 then [[''--mem'' @ ''='' @ strconv_FormatInt (sjc_MemPerNode r)]] else []) @
     (if sjc_Nodes r \<noteq> 0 then [[''--nodes'' @ ''='' @ strconv_FormatInt (sjc_Nodes r)]] else []) @
     (if sjc_CpuPerNode r \<noteq> 0 then [[''--cpus-per-task'' @ ''='' @ strconv_FormatInt (sjc_CpuPerNode r)]] else [])"

text \<open>The amounts a request asks for, as the operator writes them.\<close>

definition requested_resources :: "submit_job_container_request \<Rightarrow> resources" where
  "requested_resources r =
     \<lparr>r_Nodes = sjc_Nodes r, r_MemPerNode = sjc_MemPerNode r, r_CPUPerNode = sjc_CpuPerNode r,
      r_WallTime = mul64 (sjc_WallTime r) time_Second\<rparr>"

definition request_in_range :: "submit_job_container_request \<Rightarrow> bool" where
  "request_in_range r \<longleftrightarrow> in_int64 (sjc_WallTime r) \<and> in_int64 (sjc_MemPerNode r) \<and>
     in_int64 (sjc_CpuPerNode r) \<and> in_int64 (sjc_Nodes r) \<and> 0 \<le> sjc_Nodes r"

lemma resource_lines_header: "resource_lines r = map print_header (container_header r)"
  by (simp add: resource_lines_def container_header_def print_header_def sbatchHeader_def)

lemma option_plain:
  "list_all graphic name \<Longrightarrow> name \<noteq> [] \<Longrightarrow> plain (name @ ''='' @ strconv_FormatInt n)"
  "list_all graphic name \<Longrightarrow> name \<noteq> [] \<Longrightarrow> plain (name @ ''='' @ ''0:'' @ strconv_FormatInt n)"
  using FormatInt_plain [of n] by (simp_all add: plain_def graphic_def)

lemma header_token_short:
  assumes "plain tok" "length tok \<le> 100"
  shows "list_all plain [tok] \<and> short_line (print_header [tok])"
proof -
  have "length (print_header [tok]) \<le> maxScanLine"
    using assms(2) by (simp add: print_header_def sbatchHeader_def maxScanLine_def)
  with short_header [of "[tok]"] assms(1) show ?thesis by simp
qed

lemma container_header_short:
  assumes "request_in_range r"
  shows "list_all (\<lambda>ps. list_all plain ps \<and> short_line (print_header ps)) (container_header r)"
proof -
  have len: "length (strconv_FormatInt (sjc_WallTime r)) \<le> 20" "length (strconv_FormatInt (sjc_MemPerNode r)) \<le> 20"
    "length (strconv_FormatInt (sjc_Nodes r)) \<le> 20" "length (strconv_FormatInt (sjc_CpuPerNode r)) \<le> 20"
    using assms by (simp_all add: request_in_range_def FormatInt_length)
  have "list_all plain ps \<and> short_line (print_header ps)" if "ps \<in> set (container_header r)" for ps
  proof -
    from that obtain tok where "ps = [tok]" "plain tok" "length tok \<le> 100"
      using len option_plain [of "''--mem''"] option_plain [of "''--time''"] option_plain [of "''--nodes''"]
        option_plain [of "''--cpus-per-task''"]
      by (auto simp: container_header_def graphic_def split: if_splits)
    with header_token_short show ?thesis by blast
  qed
  then show ?thesis by (simp add: list_all_iff)
qed

lemma line_spec_option:
  "CHR ''='' \<notin> set name \<Longrightarrow> line_spec [name @ ''='' @ v] res = applySbatchParam res name v"
proof -
  assume "CHR ''='' \<notin> set name"
  then have "strings_IndexByte (name @ ''='' @ v) CHR ''='' = Some (length name)" by simp
  from line_spec_value [OF this] show ?thesis by (simp add: line_spec_Nil [abs_def])
qed

lemma applySbatchParam_container:
  "in_int64 n \<Longrightarrow> applySbatchParam res ''--time'' (''0:'' @ strconv_FormatInt n) =
     Ok (res\<lparr>r_WallTime := mul64 n time_Second\<rparr>)"
  "in_int64 n \<Longrightarrow> r_CPUPerNode res = 0 \<Longrightarrow>
     applySbatchParam res ''--cpus-per-task'' (strconv_FormatInt n) = Ok (res\<lparr>r_CPUPerNode := n\<rparr>)"
proof -
  assume n: "in_int64 n"
  then have "duration_wf (MinSec ''0'' (strconv_FormatInt n))" by (simp add: duration_wf_def)
  from ParseDuration_render [OF this] n have "ParseDuration (''0:'' @ strconv_FormatInt n) = Ok (mul64 n time_Second)"
    by (simp add: duration_nanos_def mul64_def time_units mult.commute)
  then show "applySbatchParam res ''--time'' (''0:'' @ strconv_FormatInt n) =
     Ok (res\<lparr>r_WallTime := mul64 n time_Second\<rparr>)"
    by (simp add: applySbatchParam_def)
qed (simp add: applySbatchParam_def multiply_cpus_first)

lemma apply_option_lines:
  "in_int64 n \<Longrightarrow> r_WallTime res = 0 \<Longrightarrow>
   apply_lines (if n \<noteq> 0 then [[''--time'' @ ''='' @ ''0:'' @ strconv_FormatInt n]] else []) res =
   Ok (res\<lparr>r_WallTime := mul64 n time_Second\<rparr>)"
  "in_int64 n \<Longrightarrow> r_MemPerNode res = 0 \<Longrightarrow>
   apply_lines (if n \<noteq> 0 then [[''--mem'' @ ''='' @ strconv_FormatInt n]] else []) res =
   Ok (res\<lparr>r_MemPerNode := n\<rparr>)"
  "in_int64 n \<Longrightarrow> 0 \<le> n \<Longrightarrow> r_Nodes res = 0 \<Longrightarrow>
   apply_lines (if n \<noteq> 0 then [[''--nodes'' @ ''='' @ strconv_FormatInt n]] else []) res =
   Ok (res\<lparr>r_Nodes := n\<rparr>)"
  "in_int64 n \<Longrightarrow> r_CPUPerNode res = 0 \<Longrightarrow>
   apply_lines (if n \<noteq> 0 then [[''--cpus-per-task'' @ ''='' @ strconv_FormatInt n]] else []) res =
   Ok (res\<lparr>r_CPUPerNode := n\<rparr>)"
proof -
  have t: "line_spec [''--time'' @ ''='' @ ''0:'' @ strconv_FormatInt n] res =
      applySbatchParam res ''--time'' (''0:'' @ strconv_FormatInt n)" for res
    by (rule line_spec_option) simp
  have m: "line_spec [''--mem'' @ ''='' @ v] res = applySbatchParam res ''--mem'' v" for v res
    by (rule line_spec_option) simp
  have k: "line_spec [''--nodes'' @ ''='' @ v] res = applySbatchParam res ''--nodes'' v" for v res
    by (rule line_spec_option) simp
  have c: "line_spec [''--cpus-per-task'' @ ''='' @ v] res = applySbatchParam res ''--cpus-per-task'' v" for v res
    by (rule line_spec_option) simp
  show "in_int64 n \<Longrightarrow> r_WallTime res = 0 \<Longrightarrow>
    apply_lines (if n \<noteq> 0 then [[''--time'' @ ''='' @ ''0:'' @ strconv_FormatInt n]] else []) res =
    Ok (res\<lparr>r_WallTime := mul64 n time_Second\<rparr>)"
    by (cases "n = 0")
      (simp_all only: t applySbatchParam_container apply_lines.simps go_bind.simps if_True if_False not_True_eq_False
        not_False_eq_True, simp add: mul64_def int64_defs)
  show "in_int64 n \<Longrightarrow> r_MemPerNode res = 0 \<Longrightarrow>
    apply_lines (if n \<noteq> 0 then [[''--mem'' @ ''='' @ strconv_FormatInt n]] else []) res = Ok (res\<lparr>r_MemPerNode := n\<rparr>)"
    by (cases "n = 0")
      (simp_all only: m applySbatchParam_steps apply_lines.simps go_bind.simps if_True if_False not_True_eq_False
        not_False_eq_True, simp)
  show "in_int64 n \<Longrightarrow> 0 \<le> n \<Longrightarrow> r_Nodes res = 0 \<Longrightarrow>
    apply_lines (if n \<noteq> 0 then [[''--nodes'' @ ''='' @ strconv_FormatInt n]] else []) res = Ok (res\<lparr>r_Nodes := n\<rparr>)"
    by (cases "n = 0")
      (simp_all only: k applySbatchParam_steps apply_lines.simps go_bind.simps if_True if_False not_True_eq_False
        not_False_eq_True, simp)
  show "in_int64 n \<Longrightarrow> r_CPUPerNode res = 0 \<Longrightarrow>
    apply_lines (if n \<noteq> 0 then [[''--cpus-per-task'' @ ''='' @ strconv_FormatInt n]] else []) res =
    Ok (res\<lparr>r_CPUPerNode := n\<rparr>)"
    by (cases "n = 0")
      (simp_all only: c applySbatchParam_container apply_lines.simps go_bind.simps if_True if_False not_True_eq_False
        not_False_eq_True, simp)
qed

lemma container_header_resources:
  assumes "request_in_range r"
  shows "apply_lines (container_header r) no_resources = Ok (requested_resources r)"
proof -
  from assms have n: "in_int64 (sjc_WallTime r)" "in_int64 (sjc_MemPerNode r)" "in_int64 (sjc_CpuPerNode r)"
    "in_int64 (sjc_Nodes r)" "0 \<le> sjc_Nodes r" by (simp_all add: request_in_range_def)
  show ?thesis
    unfolding container_header_def apply_lines_append
    by (subst apply_option_lines(1) [OF n(1)], simp add: no_resources_def, simp only: go_bind.simps,
        subst apply_option_lines(2) [OF n(2)], simp add: no_resources_def, simp only: go_bind.simps,
        subst apply_option_lines(3) [OF n(4,5)], simp add: no_resources_def, simp only: go_bind.simps,
        subst apply_option_lines(4) [OF n(3)], simp add: no_resources_def,
        simp add: requested_resources_def no_resources_def)
qed

section \<open>The run command\<close>

text \<open>Options without a percent sign leave the run command a format with one string verb.\<close>

definition options_plain :: "pb_singularity_options \<Rightarrow> bool" where
  "options_plain opt \<longleftrightarrow> CHR ''%'' \<notin> set (pso_App opt) \<and> CHR ''%'' \<notin> set (pso_HostName opt) \<and>
     list_all (\<lambda>b. CHR ''%'' \<notin> set b) (pso_Binds opt)"

text \<open>The command that should be run for an image.\<close>

definition run_line :: "pb_singularity_options \<Rightarrow> string \<Rightarrow> string" where
  "run_line opt img =
     strings_Join '' '' (''srun singularity run'' # run_flags opt) @ '' '' @ quote @ img @ quote @ '' || exit''"

lemma fmt_loop_text:
  "CHR ''%'' \<notin> set p \<Longrightarrow> fmt_loop (p @ s) args = map_option (\<lambda>(out, rest). (p @ out, rest)) (fmt_loop s args)"
proof (induction p)
  case Nil
  then show ?case by (cases "fmt_loop s args") auto
next
  case (Cons a p)
  then show ?case by (cases "fmt_loop s args") auto
qed

lemma Join_set: "c \<in> set (strings_Join sep ps) \<Longrightarrow> c \<in> set sep \<or> (\<exists>p \<in> set ps. c \<in> set p)"
  by (induction sep ps rule: strings_Join.induct) auto

lemma run_flags_plain:
  assumes "options_plain opt" "f \<in> set (run_flags opt)"
  shows "CHR ''%'' \<notin> set f"
proof -
  have "CHR ''%'' \<notin> set (strings_Join '','' (pso_Binds opt))"
    using assms(1) Join_set [of "CHR ''%''" "'',''" "pso_Binds opt"] by (auto simp: options_plain_def list_all_iff)
  with assms show ?thesis by (auto simp: run_flags_def options_plain_def quote_def split: if_splits)
qed

lemma buildRunCommand_run_line:
  "buildRunCommand opt = strings_Join '' '' (''srun singularity run'' # run_flags opt) @ '' '' @ quote @
     ''%s'' @ quote @ '' || exit''"
  by (cases "run_flags opt") (simp_all add: buildRunCommand_def Let_def)

lemma Sprintf_run:
  assumes "options_plain opt"
  shows "Sprintf other (buildRunCommand opt) [img] = run_line opt img"
proof -
  let ?pre = "strings_Join '' '' (''srun singularity run'' # run_flags opt) @ '' '' @ quote"
  have "CHR ''%'' \<notin> set (strings_Join '' '' (''srun singularity run'' # run_flags opt))"
    using Join_set [of "CHR ''%''" "'' ''" "''srun singularity run'' # run_flags opt"] run_flags_plain [OF assms] by auto
  then have "CHR ''%'' \<notin> set ?pre" by (auto simp: quote_def)
  from fmt_loop_text [OF this, of "''%s'' @ quote @ '' || exit''" "[img]"]
  have "fmt_loop (buildRunCommand opt) [img] = Some (run_line opt img, [])"
    by (simp add: buildRunCommand_run_line run_line_def quote_def)
  then show ?thesis by (simp add: Sprintf_def)
qed

lemma run_line_srun: "\<exists>t. run_line opt img = ''srun '' @ t"
  using Join_prefix [of "'' ''" "''srun ''" "''singularity run''" "run_flags opt"]
  by (auto simp: run_line_def)

lemma command_lines_first:
  assumes "options_plain opt"
  shows "command_lines other uuid img opt \<noteq> [] \<and> (\<exists>t. hd (command_lines other uuid img opt) = ''srun '' @ t)"
  using run_line_srun [of opt "strings_TrimPrefix img localFilePrefix"]
  by (auto simp: command_lines_def Let_def Sprintf_run [OF assms])

lemma buildSLURMScript_resources:
  assumes "sjc_Options r = Some opt" "options_plain opt" "request_in_range r"
  shows "\<exists>script. buildSLURMScript other uuid r = Ok script \<and>
    extractBatchResources script = Ok (requested_resources r)"
proof -
  let ?cmds = "command_lines other uuid (sjc_ImageName r) opt"
  from command_lines_first [OF assms(2)] obtain t where c: "?cmds \<noteq> []" "hd ?cmds = ''srun '' @ t" by blast
  have "buildSLURMScript other uuid r =
      Ok (strings_Join [newline] (''#!/bin/sh'' # map print_header (container_header r) @ ?cmds))"
    using assms(1) by (simp add: buildSLURMScript_def resource_lines_header)
  moreover have "extractBatchResources (strings_Join [newline] (''#!/bin/sh'' # map print_header (container_header r) @ ?cmds))
      = Ok (requested_resources r)"
    using script_params_commands [OF container_header_short [OF assms(3)] c]
    by (simp add: extractBatchResources_lines container_header_resources [OF assms(3)])
  ultimately show ?thesis by blast
qed

section \<open>Converted steps and resources\<close>

definition civil_timestamp :: "civil \<Rightarrow> timestamp" where
  "civil_timestamp c = \<lparr>ts_Seconds = civil_Unix c, ts_Nanos = int (c_nsec c)\<rparr>"

text \<open>
  The message a step that sacct prints must have. The statuses of the service are written out: a
  state of slurm that is none of them, \<open>RUNNING\<close> among them, has the number 10 of \<open>UNKNOWN\<close>. The exit
  code is the signed number of 32 bits that agrees with it modulo \<open>2 ^ 32\<close>.
\<close>

definition expected_status :: "string \<Rightarrow> int" where
  "expected_status st =
     (if st = ''COMPLETED'' then 0 else if st = ''CANCELLED'' then 1 else if st = ''FAILED'' then 2
      else if st = ''TIMEOUT'' then 3 else if st = ''PENDING'' then 4 else 10)"

definition low_32_bits :: "int \<Rightarrow> int" where
  "low_32_bits x =
     (if x mod 4294967296 < 2147483648 then x mod 4294967296 else x mod 4294967296 - 4294967296)"

definition step_message :: "sacct_step \<Rightarrow> pb_job_step" where
  "step_message s =
     \<lparr>pjs_Id = ss_JobID s, pjs_Name = ss_JobName s, pjs_ExitCode = low_32_bits (ss_ExitCode s),
      pjs_Status = expected_status (ss_State s),
      pjs_StartTime = map_option civil_timestamp (ss_Start s),
      pjs_EndTime = map_option civil_timestamp (ss_End s)\<rparr>"

definition from_year_1 :: "civil option \<Rightarrow> bool" where
  "from_year_1 t = (case t of None \<Rightarrow> True | Some c \<Rightarrow> 1 \<le> c_year c)"

lemma opt_timestamp_civil:
  "sacct_time_ok t \<Longrightarrow> from_year_1 t \<Longrightarrow>
   opt_timestamp msg (map_option civil_time t) = Ok (map_option civil_timestamp t)"
  by (cases t) (simp_all add: opt_timestamp_def sacct_time_ok_def from_year_1_def TimestampProto_civil
      civil_timestamp_def)

lemma opt_timestamp_year_0:
  "valid_civil c \<Longrightarrow> c_year c = 0 \<Longrightarrow>
   opt_timestamp msg (Some (civil_time c)) = Err (Wrapped msg TimestampOutOfRange)"
  by (simp add: opt_timestamp_def TimestampProto_year_0)

lemma proto_status_expected: "proto_status st = expected_status st"
  by (auto simp: proto_status_def expected_status_def JobStatus_value_def JobStatus_UNKNOWN_def)

lemma wrap32_low_bits: "wrap32 x = low_32_bits x"
proof -
  have m: "0 \<le> x mod 4294967296" "x mod 4294967296 < 4294967296" by simp_all
  have "wrap32 x = (x mod 4294967296 + 2147483648) mod 4294967296 - 2147483648"
    by (simp add: wrap32_def mod_add_left_eq)
  also have "\<dots> = low_32_bits x"
  proof (cases "x mod 4294967296 < 2147483648")
    case True
    with m show ?thesis by (simp add: low_32_bits_def)
  next
    case False
    have "(x mod 4294967296 + 2147483648) mod 4294967296 = (x mod 4294967296 + 2147483648 - 4294967296) mod 4294967296"
      by (metis minus_mod_self2)
    also have "\<dots> = x mod 4294967296 + 2147483648 - 4294967296"
      using False m by (intro mod_pos_pos_trivial) linarith+
    finally show ?thesis using False by (simp add: low_32_bits_def)
  qed
  finally show ?thesis .
qed

lemma proto_step_printed:
  "sacct_step_ok s \<Longrightarrow> from_year_1 (ss_Start s) \<Longrightarrow> from_year_1 (ss_End s) \<Longrightarrow>
   proto_step (printed_step s) = Ok (step_message s)"
  by (simp add: proto_step_def printed_step_def step_message_def sacct_step_ok_def opt_timestamp_civil
      proto_status_expected wrap32_low_bits)

lemma toProtoSteps_printed:
  "list_all (\<lambda>s. sacct_step_ok s \<and> from_year_1 (ss_Start s) \<and> from_year_1 (ss_End s)) ss \<Longrightarrow>
   toProtoSteps (map printed_step ss) = Ok (map step_message ss)"
  unfolding toProtoSteps_def go_each_map
  by (intro go_each_all_Ok) (auto simp: list_all_iff proto_step_printed)

lemma proto_status_String: "JobStatus_String (proto_status s) = (if s \<in> dom JobStatus_value then s else ''UNKNOWN'')"
  by (auto simp: proto_status_def JobStatus_String_value dom_def split: option.splits)
    (simp add: JobStatus_String_def proto_EnumName_def JobStatus_UNKNOWN_def JobStatus_name_def)

lemma opt_timestamp_no_panic [simp]: "no_panic (opt_timestamp msg t)"
  by (cases t) (simp_all add: opt_timestamp_def)

lemma proto_step_no_panic [simp]: "no_panic (proto_step s)"
  by (auto simp: proto_step_def intro!: no_panic_intros)

lemma proto_info_no_panic [simp]: "no_panic (proto_info i)"
  by (auto simp: proto_info_def intro!: no_panic_intros)

lemma merge_resources_fields:
  "merge_resources p sr =
     \<lparr>rp_Nodes = (if pr_AutoNodes p \<or> pr_Nodes p = 0 then sr_Nodes sr else pr_Nodes p),
      rp_CpuPerNode = (if pr_AutoCPUPerNode p \<or> pr_CPUPerNode p = 0 then sr_CPUPerNode sr else pr_CPUPerNode p),
      rp_MemPerNode = (if pr_AutoMemPerNode p \<or> pr_MemPerNode p = 0 then sr_MemPerNode sr else pr_MemPerNode p),
      rp_WallTime = (if pr_AutoWallTime p \<or> Seconds_int64 (pr_WallTime p) = 0
                     then Seconds_int64 (sr_WallTime sr) else Seconds_int64 (pr_WallTime p)),
      rp_Features = map slurm_feature_proto (sr_Features sr) @ map rb_feature_proto (pr_AdditionalFeatures p)\<rparr>"
  by (simp add: merge_resources_def Let_def)

lemma Client_Resources_printed:
  assumes "os_Output os ''scontrol'' [''show'', ''partition'', part] w = ((print_fields kvs, None), w')"
    and "list_all (\<lambda>(k, v). clean_text k \<and> clean_text v) kvs"
    and "resources_spec (\<lambda>k. map_option (\<lambda>v. hd (strings_Split CHR '','' v)) (map_of kvs k)) = Ok sr"
  shows "Client_Resources os part w = (Ok sr, w')"
proof -
  have "fields_first (print_fields kvs) = (\<lambda>k. map_option (\<lambda>v. hd (strings_Split CHR '','' v)) (map_of kvs k))"
    by (rule ext) (rule fields_first_print [OF assms(2)])
  with assms show ?thesis by (simp add: Client_Resources_def parseResources_spec)
qed

section \<open>Properties\<close>

text \<open>
  C20. The resources in the header of the script that red-box builds for a container are
  exactly those of the request: the operator's own batch-script parser reads them back, for
  any image and any options without a percent sign.
\<close>

theorem container_script_resources:
  assumes "sjc_Options r = Some opt" "options_plain opt" "request_in_range r"
  shows "\<exists>script. buildSLURMScript other uuid r = Ok script \<and>
    extractBatchResources script = Ok (requested_resources r)"
  using assms by (rule buildSLURMScript_resources)

definition no_options :: pb_singularity_options where
  "no_options = \<lparr>pso_App = [], pso_AllowUnsigned = False, pso_Binds = [], pso_ClearEnv = False,
     pso_FakeRoot = False, pso_HostName = [], pso_Ipc = False, pso_Pid = False, pso_NoPrivs = False,
     pso_Writable = False\<rparr>"

definition example_request :: submit_job_container_request where
  "example_request = \<lparr>sjc_ImageName = ''library://lolcow'', sjc_Nodes = 2, sjc_CpuPerNode = 4,
     sjc_MemPerNode = 0, sjc_WallTime = 60, sjc_Partition = ''debug'', sjc_ClientId = ''c'',
     sjc_Options = Some no_options\<rparr>"

theorem container_script_resources_witness:
  "\<exists>script. buildSLURMScript (\<lambda>_ _. []) ''id'' example_request = Ok script \<and>
     extractBatchResources script = Ok \<lparr>r_Nodes = 2, r_MemPerNode = 0, r_CPUPerNode = 4, r_WallTime = 60000000000\<rparr>"
proof -
  have "\<exists>script. buildSLURMScript (\<lambda>_ _. []) ''id'' example_request = Ok script \<and>
      extractBatchResources script = Ok (requested_resources example_request)"
    by (rule container_script_resources [of _ no_options])
      (simp_all add: example_request_def no_options_def options_plain_def request_in_range_def int64_defs)
  then show ?thesis
    by (simp add: requested_resources_def example_request_def mul64_def time_units int64_defs)
qed

text \<open>
  For options without a percent sign, the command that runs the image is the singularity
  command with every flag asked for and the image as its argument.
\<close>

theorem run_command_exact:
  assumes "options_plain opt"
  shows "Sprintf other (buildRunCommand opt) [img] = run_line opt img"
  using assms by (rule Sprintf_run)

theorem run_command_exact_witness:
  "Sprintf (\<lambda>_ _. []) (buildRunCommand (no_options\<lparr>pso_App := ''main'', pso_ClearEnv := True\<rparr>)) [''x.sif''] =
     ''srun singularity run --app='' @ quote @ ''main'' @ quote @ '' -c '' @ quote @ ''x.sif'' @ quote @ '' || exit''"
proof -
  have "options_plain (no_options\<lparr>pso_App := ''main'', pso_ClearEnv := True\<rparr>)"
    by (simp add: options_plain_def no_options_def)
  from run_command_exact [OF this] show ?thesis
    by (simp add: run_line_def run_flags_def no_options_def)
qed

text \<open>
  The options are pasted into a format string: an application name with \<open>%s\<close> swallows
  the image, and the job runs an image called \<open>%!s(MISSING)\<close>.
\<close>

theorem run_command_format_injection:
  "Sprintf other (buildRunCommand (no_options\<lparr>pso_App := ''a%s''\<rparr>)) [''x.sif''] =
     ''srun singularity run --app='' @ quote @ ''ax.sif'' @ quote @ '' '' @ quote @ ''%!s(MISSING)'' @ quote @ '' || exit''"
  by (simp add: Sprintf_def buildRunCommand_def run_flags_def no_options_def quote_def)

text \<open>
  A container request without options makes the handler dereference a nil pointer;
  any other container request is handled without a panic.
\<close>

theorem SubmitJobContainer_panics:
  "no_panic (fst (SubmitJobContainer other uuid os r w)) \<longleftrightarrow> sjc_Options r \<noteq> None"
proof (cases "sjc_Options r")
  case None
  then show ?thesis by (simp add: SubmitJobContainer_def buildSLURMScript_def)
next
  case (Some opt)
  have "no_panic (fst (SBatch os script part w))" for script part
    by (simp add: SBatch_def split: prod.splits option.splits)
  with Some show ?thesis
    by (simp add: SubmitJobContainer_def buildSLURMScript_def call_bind_def call_wrap_def)
qed

text \<open>
  C21. The steps of a job that sacct prints (from year 1 on) reach the client of red-box: ids and
  names as printed, times as seconds since the epoch, exit codes reduced to 32 bits, and the states
  COMPLETED, CANCELLED, FAILED, TIMEOUT and PENDING as their numbers in the service; any other
  state, RUNNING too, is reported as UNKNOWN.
\<close>

theorem JobSteps_end_to_end:
  assumes "os_Output os ''sacct''
      [''-p'', ''-n'', ''-j'', strconv_FormatInt jobID, ''-o start,end,exitcode,state,jobid,jobname''] w =
        ((concat (map (\<lambda>s. print_sacct_line s @ [newline]) ss), None), w')"
    and "ss \<noteq> []"
    and "list_all (\<lambda>s. sacct_step_ok s \<and> from_year_1 (ss_Start s) \<and> from_year_1 (ss_End s)) ss"
  shows "JobSteps os \<lparr>jsr_JobId = jobID\<rparr> w = (Ok \<lparr>jsp_JobSteps = map step_message ss\<rparr>, w')"
proof -
  have "list_all sacct_step_ok ss" using assms(3) by (simp add: list_all_iff)
  from parseSacctResponse_print [OF assms(2) this] toProtoSteps_printed [OF assms(3)] assms(1) show ?thesis
    by (simp add: JobSteps_def SJobSteps_def call_bind_def call_wrap_def)
qed

definition sacct_os :: "string \<Rightarrow> unit slurm_os" where
  "sacct_os out = \<lparr>os_LookPath = (\<lambda>_. True), os_Output = (\<lambda>_ _ w. ((out, None), w)),
     os_CombinedOutput = (\<lambda>_ _ _ w. ((out, None), w)), os_ExitStderr = (\<lambda>_. None)\<rparr>"

theorem JobSteps_end_to_end_witness:
  "JobSteps (sacct_os (''Unknown|Unknown|2:0|RUNNING|35|test|'' @ [newline])) \<lparr>jsr_JobId = 35\<rparr> () =
     (Ok \<lparr>jsp_JobSteps = [\<lparr>pjs_Id = ''35'', pjs_Name = ''test'', pjs_ExitCode = 2, pjs_Status = 10,
        pjs_StartTime = None, pjs_EndTime = None\<rparr>]\<rparr>, ())"
proof -
  define s where "s = \<lparr>ss_Start = None, ss_End = None, ss_ExitCode = 2, ss_Signal = 0,
    ss_State = ''RUNNING'', ss_JobID = ''35'', ss_JobName = ''test''\<rparr>"
  have line: "print_sacct_line s = ''Unknown|Unknown|2:0|RUNNING|35|test|''"
    by (simp add: s_def print_sacct_line_def print_time_def digit_char_values strconv_FormatInt_def FormatUint.simps)
  have "JobSteps (sacct_os (concat (map (\<lambda>s. print_sacct_line s @ [newline]) [s]))) \<lparr>jsr_JobId = 35\<rparr> () =
      (Ok \<lparr>jsp_JobSteps = map step_message [s]\<rparr>, ())"
    by (rule JobSteps_end_to_end)
      (simp_all add: sacct_os_def s_def sacct_step_ok_def sacct_time_ok_def sacct_text_ok_def newline_def
        int64_defs from_year_1_def)
  then show ?thesis
    by (simp add: line step_message_def)
      (simp add: s_def expected_status_def low_32_bits_def)
qed

text \<open>
  C22. What red-box reports of a partition: each amount is the configured one, unless it is
  not configured or automatic, when it is the one slurm reports; the wall time in seconds.
\<close>

theorem Resources_reported:
  assumes "os_Output os ''scontrol'' [''show'', ''partition'', part] w = ((print_fields kvs, None), w')"
    and "list_all (\<lambda>(k, v). clean_text k \<and> clean_text v) kvs"
    and "resources_spec (\<lambda>k. map_option (\<lambda>v. hd (strings_Split CHR '','' v)) (map_of kvs k)) = Ok sr"
    and "p = (case rb_cfg s part of Some p \<Rightarrow> p | None \<Rightarrow> zero_partition)"
  shows "Resources s os \<lparr>rr_Partition = part\<rparr> w = (Ok
     \<lparr>rp_Nodes = (if pr_AutoNodes p \<or> pr_Nodes p = 0 then sr_Nodes sr else pr_Nodes p),
      rp_CpuPerNode = (if pr_AutoCPUPerNode p \<or> pr_CPUPerNode p = 0 then sr_CPUPerNode sr else pr_CPUPerNode p),
      rp_MemPerNode = (if pr_AutoMemPerNode p \<or> pr_MemPerNode p = 0 then sr_MemPerNode sr else pr_MemPerNode p),
      rp_WallTime = (if pr_AutoWallTime p \<or> Seconds_int64 (pr_WallTime p) = 0
                     then Seconds_int64 (sr_WallTime sr) else Seconds_int64 (pr_WallTime p)),
      rp_Features = map slurm_feature_proto (sr_Features sr) @ map rb_feature_proto (pr_AdditionalFeatures p)\<rparr>, w')"
  using Client_Resources_printed [OF assms(1-3)] assms(4)
  by (simp add: Resources_def call_bind_def call_wrap_def merge_resources_fields Let_def)

text \<open>The witness is a partition without limits: all amounts are -1, but its wall time is 0.\<close>

theorem Resources_reported_witness:
  "Resources (NewSlurm 0 (\<lambda>_. None)) (sacct_os ''MaxTime=UNLIMITED MaxNodes=UNLIMITED MaxMemPerNode=UNLIMITED'')
     \<lparr>rr_Partition = ''debug''\<rparr> () =
   (Ok \<lparr>rp_Nodes = -1, rp_CpuPerNode = 0, rp_MemPerNode = -1, rp_WallTime = 0, rp_Features = []\<rparr>, ())"
proof -
  define kvs where "kvs = [(''MaxTime'', ''UNLIMITED''), (''MaxNodes'', ''UNLIMITED''), (''MaxMemPerNode'', ''UNLIMITED'')]"
  have printed: "print_fields kvs = ''MaxTime=UNLIMITED MaxNodes=UNLIMITED MaxMemPerNode=UNLIMITED''"
    by (simp add: kvs_def print_fields_def print_field_def)
  have spec: "resources_spec (\<lambda>k. map_option (\<lambda>v. hd (strings_Split CHR '','' v)) (map_of kvs k)) =
      Ok \<lparr>sr_Nodes = -1, sr_MemPerNode = -1, sr_CPUPerNode = 0, sr_WallTime = -1, sr_Features = []\<rparr>"
    by (simp add: kvs_def resources_spec_def wall_spec_def limit_spec_def unlimited_def)
  have "list_all (\<lambda>(k, v). clean_text k \<and> clean_text v) kvs"
    by (simp add: kvs_def clean_text_def graphic_def)
  from Resources_reported [OF _ this spec, of "sacct_os (print_fields kvs)" "''debug''" "()" "()" zero_partition
      "NewSlurm 0 (\<lambda>_. None)"]
  show ?thesis
    by (simp add: printed sacct_os_def NewSlurm_def zero_partition_def Seconds_int64_minus_1 Seconds_int64_whole [of 0, simplified])
qed

end
