(* ===== verification/Startup.thy ===== *)
theory Startup
  imports Operator Red_Box
begin

text \<open>
  The two daemons from \<open>main\<close> on: the operator (\<open>cmd/operator/main.go\<close>) and red-box
  (\<open>cmd/red-box/main.go\<close>) as sequences of calls, each of which may fail and end the process with
  a message. The libraries they call are parameters. The theorems: the manager runs only after the
  process has become the leader and both controllers are registered, and red-box without a
  configuration reports what slurm reports.
\<close>

section \<open>Calls that may end the process\<close>

datatype outcome = Exits | Fatal string | Crashed string

text \<open>The calls made so far are kept, the failed one included.\<close>

definition call_or_die :: "'c \<Rightarrow> string \<Rightarrow> 'a go \<Rightarrow> ('a \<Rightarrow> 'c list \<times> outcome) \<Rightarrow> 'c list \<times> outcome" where
  "call_or_die c msg m next_calls =
     (case m of
        Ok x \<Rightarrow> (let (cs, out) = next_calls x in (c # cs, out))
      | Err e \<Rightarrow> ([c], Fatal msg)
      | Panic s \<Rightarrow> ([c], Crashed s))"

lemma call_or_die_member:
  assumes "call_or_die c msg m next_calls = (cs, out)" "d \<in> set cs" "d \<noteq> c"
  obtains x cs' where "m = Ok x" "next_calls x = (cs', out)" "cs = c # cs'" "d \<in> set cs'"
  using assms by (auto simp: call_or_die_def split: go.splits prod.splits)

section \<open>The operator\<close>

datatype operator_call =
    GetWatchNamespaceCall
  | GetConfigCall
  | BecomeLeader string
  | NewManager string string
  | AddToSchemeCall
  | AddController controller_spec
  | AddControllerFailed
  | ExposeMetricsPort int
  | StartManager string

record operator_env =
  oe_WATCH_NAMESPACE :: "string option"
  oe_GetConfig :: "unit go"
  oe_Become :: "string \<Rightarrow> unit go"
  oe_NewManager :: "string \<Rightarrow> string \<Rightarrow> manager go"
  oe_ExposeMetricsPort :: "int \<Rightarrow> unit go"
  oe_Start :: "unit go"
  oe_Getuid :: int64
  oe_Getgid :: int64

definition GetWatchNamespace :: "operator_env \<Rightarrow> string go" where
  "GetWatchNamespace env =
     (case oe_WATCH_NAMESPACE env of
        Some ns \<Rightarrow> Ok ns
      | None \<Rightarrow> Err (ErrorString ''WATCH_NAMESPACE must be set''))"

definition metricsHost :: string where "metricsHost = ''0.0.0.0''"
definition metricsPort :: int where "metricsPort = 8383"

definition metrics_addr :: string where
  "metrics_addr = metricsHost @ '':'' @ strconv_FormatInt metricsPort"

lemma metrics_addr_value: "metrics_addr = ''0.0.0.0:8383''"
  by (simp add: metrics_addr_def metricsHost_def metricsPort_def strconv_FormatInt_def FormatUint.simps digit_char_values)

definition NewReconciler :: "operator_env \<Rightarrow> reconciler" where
  "NewReconciler env = \<lparr>jcUID = oe_Getuid env, jcGID = oe_Getgid env\<rparr>"

definition add_controller_call :: "controller_spec go \<Rightarrow> operator_call" where
  "add_controller_call m = (case m of Ok c \<Rightarrow> AddController c | _ \<Rightarrow> AddControllerFailed)"

text \<open>An error of \<open>ExposeMetricsPort\<close> is only logged.\<close>

definition operator_main :: "operator_env \<Rightarrow> operator_call list \<times> outcome" where
  "operator_main env =
     call_or_die GetWatchNamespaceCall ''Failed to get watch namespace'' (GetWatchNamespace env) (\<lambda>namespace.
     call_or_die GetConfigCall ''Failed to get apiserver config'' (oe_GetConfig env) (\<lambda>_.
     call_or_die (BecomeLeader ''slurm-job-operator-lock'') ''Failed to become a leader''
       (oe_Become env ''slurm-job-operator-lock'') (\<lambda>_.
     call_or_die (NewManager namespace metrics_addr) ''Failed create manager'' (oe_NewManager env namespace metrics_addr) (\<lambda>mgr.
     let mgr = mgr\<lparr>mgr_scheme := apis_AddToScheme (mgr_scheme mgr)\<rparr> in
     call_or_die AddToSchemeCall ''Failed to add manager to apis scheme'' (Ok ()) (\<lambda>_.
     call_or_die (add_controller_call (SlurmJob_AddToManager mgr)) ''Failed to add slurm job controller to manager''
       (SlurmJob_AddToManager mgr) (\<lambda>_.
     call_or_die (add_controller_call (WlmJob_AddToManager mgr)) ''Failed to add wlm job controller to manager''
       (WlmJob_AddToManager mgr) (\<lambda>_.
     call_or_die (ExposeMetricsPort metricsPort) '''' (case oe_ExposeMetricsPort env metricsPort of Panic s \<Rightarrow> Panic s | _ \<Rightarrow> Ok ()) (\<lambda>_.
     call_or_die (StartManager namespace) ''Failed to start manager'' (oe_Start env) (\<lambda>_.
       ([], Exits))))))))))"

text \<open>
  The manager is started only by a process that has become the leader, restricted to the
  watched namespace, and with both controllers registered: each watches its jobs and the pods they
  own.
\<close>

theorem operator_starts_as_leader:
  assumes "operator_main env = (calls, out)" "StartManager ns \<in> set calls"
    "\<And>addr mgr typ. oe_NewManager env ns addr = Ok mgr \<Longrightarrow> typ \<in> set wlm_types \<Longrightarrow> mgr_scheme mgr typ = []"
  shows "oe_WATCH_NAMESPACE env = Some ns \<and> oe_Become env ''slurm-job-operator-lock'' = Ok () \<and>
    calls = [GetWatchNamespaceCall, GetConfigCall, BecomeLeader ''slurm-job-operator-lock'',
      NewManager ns ''0.0.0.0:8383'', AddToSchemeCall,
      AddController (job_controller_spec ''slurmjob-controller'' ''SlurmJob''),
      AddController (job_controller_spec ''wlmjob-controller'' ''WlmJob''),
      ExposeMetricsPort 8383, StartManager ns]"
proof -
  from assms(1,2) obtain ns' mgr sc wc where
    ns: "GetWatchNamespace env = Ok ns'" and lead: "oe_Become env ''slurm-job-operator-lock'' = Ok ()"
    and mgr: "oe_NewManager env ns' ''0.0.0.0:8383'' = Ok mgr"
    and sc: "SlurmJob_AddToManager (mgr\<lparr>mgr_scheme := apis_AddToScheme (mgr_scheme mgr)\<rparr>) = Ok sc"
    and wc: "WlmJob_AddToManager (mgr\<lparr>mgr_scheme := apis_AddToScheme (mgr_scheme mgr)\<rparr>) = Ok wc"
    and eq: "ns = ns'"
    and calls: "calls = [GetWatchNamespaceCall, GetConfigCall, BecomeLeader ''slurm-job-operator-lock'',
      NewManager ns' ''0.0.0.0:8383'', AddToSchemeCall, AddController sc, AddController wc,
      ExposeMetricsPort metricsPort, StartManager ns']"
    by (auto simp: operator_main_def Let_def metrics_addr_value add_controller_call_def call_or_die_def
        split: go.splits prod.splits)
  have "oe_WATCH_NAMESPACE env = Some ns" using ns eq by (simp add: GetWatchNamespace_def split: option.splits)
  moreover have kinds: "mgr_scheme (mgr\<lparr>mgr_scheme := apis_AddToScheme (mgr_scheme mgr)\<rparr>) t = [wlm_kind t]"
    if "t \<in> set wlm_types" for t
    using registered_kinds [of "mgr_scheme mgr" t] assms(3) mgr eq that by simp
  then have "sc = job_controller_spec ''slurmjob-controller'' ''SlurmJob''"
    "wc = job_controller_spec ''wlmjob-controller'' ''WlmJob''"
    using add_controller_Ok [OF sc[unfolded SlurmJob_AddToManager_def]]
      add_controller_Ok [OF wc[unfolded WlmJob_AddToManager_def]] by (simp_all add: wlm_types_def)
  ultimately show ?thesis using lead calls eq by (simp add: metricsPort_def)
qed

definition bare_manager :: manager where
  "bare_manager = \<lparr>mgr_scheme = (\<lambda>typ. []), mgr_SetFields = (\<lambda>x. None), mgr_Add = (\<lambda>x. None), mgr_StartSource = (\<lambda>x. None)\<rparr>"

lemma bare_manager_scheme: "bare_manager\<lparr>mgr_scheme := apis_AddToScheme (mgr_scheme bare_manager)\<rparr> = example_manager"
  by (simp add: bare_manager_def example_manager_def)

definition example_operator_env :: operator_env where
  "example_operator_env =
     \<lparr>oe_WATCH_NAMESPACE = Some ''default'', oe_GetConfig = Ok (), oe_Become = (\<lambda>lock. Ok ()),
      oe_NewManager = (\<lambda>ns addr. Ok bare_manager),
      oe_ExposeMetricsPort = (\<lambda>port. Err (ErrorString ''no cluster'')), oe_Start = Ok (), oe_Getuid = 0, oe_Getgid = 0\<rparr>"

theorem operator_starts_as_leader_witness:
  "\<exists>calls. operator_main example_operator_env = (calls, Exits) \<and> length calls = 9 \<and>
     calls ! 6 = AddController (job_controller_spec ''wlmjob-controller'' ''WlmJob'')"
proof -
  have adds: "SlurmJob_AddToManager example_manager = Ok (job_controller_spec ''slurmjob-controller'' ''SlurmJob'')"
    "WlmJob_AddToManager example_manager = Ok (job_controller_spec ''wlmjob-controller'' ''WlmJob'')"
    by (simp_all add: SlurmJob_AddToManager_def WlmJob_AddToManager_def example_manager_adds wlm_types_def)
  obtain calls out where main: "operator_main example_operator_env = (calls, out)" by fastforce
  then have "StartManager ''default'' \<in> set calls" "out = Exits"
    by (auto simp: operator_main_def call_or_die_def example_operator_env_def GetWatchNamespace_def Let_def
        bare_manager_scheme adds)
  note started = this
  have "mgr_scheme mgr t = []" if "oe_NewManager example_operator_env ''default'' addr = Ok mgr" for addr mgr t
    using that by (auto simp: example_operator_env_def bare_manager_def)
  from operator_starts_as_leader [OF main started(1) this] started(2) main show ?thesis by simp
qed

section \<open>Red-box\<close>

text \<open>
  The configuration: none for an empty path, else the file decoded from YAML, which is a parameter
  with the opening of the file.
\<close>

definition red_box_config :: "(string \<Rightarrow> string go) \<Rightarrow> (string \<Rightarrow> rb_config go) \<Rightarrow> string \<Rightarrow> rb_config go" where
  "red_box_config open_file decode path =
     (if path = [] then Ok (\<lambda>part. None)
      else go_bind (go_wrap ''could not open config file'' (open_file path))
             (\<lambda>contents. go_wrap ''could not decode config'' (decode contents)))"

datatype red_box_call =
    LoadConfig string
  | ListenUnix string
  | NewSlurmClient
  | Serve rb_server
  | WaitForSignal

record 'w red_box_env =
  re_open :: "string \<Rightarrow> string go"
  re_decode :: "string \<Rightarrow> rb_config go"
  re_Listen :: "string \<Rightarrow> unit go"
  re_slurm :: "'w slurm_os"
  re_Serve :: "rb_server \<Rightarrow> unit go"
  re_Geteuid :: int64

definition ErrServerClosed :: go_error where
  "ErrServerClosed = ErrorString ''http: Server closed''"

text \<open>\<open>Serve\<close> returns when the goroutine that waits for a signal stops the server.\<close>

definition red_box_main :: "'w red_box_env \<Rightarrow> string \<Rightarrow> string \<Rightarrow> red_box_call list \<times> outcome" where
  "red_box_main env configPath sock =
     call_or_die (LoadConfig configPath) '''' (red_box_config (re_open env) (re_decode env) configPath) (\<lambda>config.
     call_or_die (ListenUnix sock) ''Could not listen unix'' (re_Listen env sock) (\<lambda>_.
     call_or_die NewSlurmClient ''Could not create slurm client'' (NewClient (re_slurm env)) (\<lambda>_.
     let a = NewSlurm (re_Geteuid env) config in
     call_or_die (Serve a) ''Could not serve requests''
       (case re_Serve env a of Err e \<Rightarrow> if e = ErrServerClosed then Ok () else Err e | m \<Rightarrow> m) (\<lambda>_.
       ([WaitForSignal], Exits)))))"

text \<open>What red-box serves, and that it serves nothing without the binaries of slurm.\<close>

lemma red_box_serves:
  assumes "red_box_main env configPath sock = (calls, out)" "Serve a \<in> set calls"
  shows "(\<forall>bin \<in> set slurm_binaries. os_LookPath (re_slurm env) bin) \<and>
    (\<exists>config. red_box_config (re_open env) (re_decode env) configPath = Ok config \<and> a = NewSlurm (re_Geteuid env) config)"
proof -
  from assms obtain config where config: "red_box_config (re_open env) (re_decode env) configPath = Ok config"
    "NewClient (re_slurm env) = Ok ()" "a = NewSlurm (re_Geteuid env) config"
    by (auto simp: red_box_main_def Let_def call_or_die_def split: go.splits prod.splits if_splits)
  from config(2) have "filter (\<lambda>bin. \<not> os_LookPath (re_slurm env) bin) slurm_binaries = []"
    by (simp add: NewClient_def Let_def split: if_splits)
  then have "\<forall>bin \<in> set slurm_binaries. os_LookPath (re_slurm env) bin" by (simp add: filter_empty_conv)
  with config show ?thesis by blast
qed


text \<open>Without a configuration red-box reports what slurm reports, the wall time in seconds.\<close>

lemma red_box_default_resources:
  assumes "red_box_main env [] sock = (calls, out)" "Serve a \<in> set calls" "Client_Resources os part w = (Ok sr, w')"
  shows "Resources a os \<lparr>rr_Partition = part\<rparr> w = (Ok
     \<lparr>rp_Nodes = sr_Nodes sr, rp_CpuPerNode = sr_CPUPerNode sr, rp_MemPerNode = sr_MemPerNode sr,
      rp_WallTime = Seconds_int64 (sr_WallTime sr), rp_Features = map slurm_feature_proto (sr_Features sr)\<rparr>, w')"
proof -
  have "rb_cfg a part = None"
    using red_box_serves [OF assms(1,2)] by (auto simp: red_box_config_def NewSlurm_def)
  then show ?thesis
    using assms(3) by (simp add: Resources_def call_bind_def call_wrap_def merge_resources_def zero_partition_def
        Seconds_int64_whole [of 0, simplified])
qed

end
