(* ===== verification/Go_Path.thy ===== *)
theory Go_Path
  imports Go_Strings
begin

text \<open>
  The functions of Go's \<open>path\<close> and \<open>path/filepath\<close> (on Unix) the program calls. \<open>Clean\<close> works on
  the components of a path: empty ones and \<open>.\<close> are dropped, \<open>..\<close> removes the component before
  it. The lemmas describe absolute paths by their lists of proper components, which is how the
  other theories name files.
\<close>

section \<open>The functions\<close>

definition path_comps :: "string \<Rightarrow> string list" where
  "path_comps s = filter (\<lambda>c. c \<noteq> [] \<and> c \<noteq> ''.'') (strings_Split CHR ''/'' s)"

definition rooted :: "string \<Rightarrow> bool" where
  "rooted s \<longleftrightarrow> s \<noteq> [] \<and> hd s = CHR ''/''"

definition clean_step :: "bool \<Rightarrow> string list \<Rightarrow> string \<Rightarrow> string list" where
  "clean_step r out c =
     (if c = ''..''
      then (if out \<noteq> [] \<and> last out \<noteq> ''..'' then butlast out else if r then out else out @ [''..''])
      else out @ [c])"

definition clean_comps :: "bool \<Rightarrow> string list \<Rightarrow> string list" where
  "clean_comps r cs = foldl (clean_step r) [] cs"

definition filepath_Clean :: "string \<Rightarrow> string" where
  "filepath_Clean s =
     (if s = [] then ''.''
      else
        (let out = clean_comps (rooted s) (path_comps s)
         in if rooted s then ''/'' @ strings_Join ''/'' out
            else if out = [] then ''.'' else strings_Join ''/'' out))"

definition filepath_Join :: "string \<Rightarrow> string \<Rightarrow> string" where
  "filepath_Join a b =
     (if a \<noteq> [] then filepath_Clean (a @ ''/'' @ b) else if b \<noteq> [] then filepath_Clean b else [])"

definition filepath_Base :: "string \<Rightarrow> string" where
  "filepath_Base s =
     (if s = [] then ''.''
      else
        (let b = last (strings_Split CHR ''/'' (rev (dropWhile (\<lambda>c. c = CHR ''/'') (rev s))))
         in if b = [] then ''/'' else b))"

definition filepath_Dir :: "string \<Rightarrow> string" where
  "filepath_Dir s =
     (let cs = strings_Split CHR ''/'' s
      in filepath_Clean (concat (map (\<lambda>c. c @ ''/'') (butlast cs))))"

text \<open>The components of a cleaned path; \<open>.\<close> is a base without components.\<close>

definition base_comps :: "string \<Rightarrow> string list" where
  "base_comps s = (if s = ''.'' then [] else filter (\<lambda>c. c \<noteq> []) (strings_Split CHR ''/'' s))"

fun drop_common :: "string list \<Rightarrow> string list \<Rightarrow> string list \<times> string list" where
  "drop_common (b # bs) (t # ts) = (if b = t then drop_common bs ts else (b # bs, t # ts))"
| "drop_common bs ts = (bs, ts)"

definition filepath_Rel :: "string \<Rightarrow> string \<Rightarrow> string go" where
  "filepath_Rel basepath targpath =
     (let base = filepath_Clean basepath; targ = filepath_Clean targpath
      in if targ = base then Ok ''.''
         else if rooted base \<noteq> rooted targ
           then Err (ErrorString (''Rel: can't make '' @ targpath @ '' relative to '' @ basepath))
         else
           (case drop_common (base_comps base) (filter (\<lambda>c. c \<noteq> []) (strings_Split CHR ''/'' targ)) of
              (b, t) \<Rightarrow>
                if b \<noteq> [] \<and> hd b = ''..''
                then Err (ErrorString (''Rel: can't make '' @ targpath @ '' relative to '' @ basepath))
                else Ok (strings_Join ''/'' (replicate (length b) ''..'' @ t))))"

text \<open>\<open>filepath.Abs\<close>, in the working directory \<open>cwd\<close>.\<close>

definition filepath_Abs :: "string \<Rightarrow> string \<Rightarrow> string" where
  "filepath_Abs cwd s = (if rooted s then filepath_Clean s else filepath_Join cwd s)"

section \<open>Proper components\<close>

text \<open>A name a directory can hold.\<close>

definition proper :: "string \<Rightarrow> bool" where
  "proper c \<longleftrightarrow> c \<noteq> [] \<and> CHR ''/'' \<notin> set c \<and> c \<noteq> ''.'' \<and> c \<noteq> ''..''"

definition abs_path :: "string list \<Rightarrow> string" where
  "abs_path cs = ''/'' @ strings_Join ''/'' cs"

lemma Split_Join_proper:
  "cs \<noteq> [] \<Longrightarrow> (\<And>c. c \<in> set cs \<Longrightarrow> CHR ''/'' \<notin> set c) \<Longrightarrow> strings_Split CHR ''/'' (strings_Join ''/'' cs) = cs"
  by (rule Split_Join) auto

lemma path_comps_proper: "list_all proper cs \<Longrightarrow> path_comps (strings_Join ''/'' cs) = cs"
proof (cases "cs = []")
  case False
  assume "list_all proper cs"
  with False show ?thesis
    by (auto simp: path_comps_def Split_Join_proper list_all_iff proper_def filter_id_conv)
qed (simp add: path_comps_def)

lemma path_comps_Nil [simp]: "path_comps [] = []"
  by (simp add: path_comps_def)

lemma path_comps_slash [simp]: "path_comps (a @ CHR ''/'' # b) = path_comps a @ path_comps b"
  by (simp add: path_comps_def Split_sep)

lemma path_comps_rooted [simp]: "path_comps (CHR ''/'' # b) = path_comps b"
  using path_comps_slash [of "[]" b] by simp

lemma path_comps_single: "proper c \<Longrightarrow> path_comps c = [c]"
  by (simp add: path_comps_def proper_def Split_plain)

lemma path_comps_abs [simp]: "list_all proper cs \<Longrightarrow> path_comps (abs_path cs) = cs"
  by (simp add: abs_path_def path_comps_proper)

lemma rooted_abs [simp]: "rooted (abs_path cs)" "abs_path cs \<noteq> []"
  by (simp_all add: abs_path_def rooted_def)

lemma path_comps_pieces: "c \<in> set (path_comps s) \<Longrightarrow> c = ''..'' \<or> proper c"
  by (auto simp: path_comps_def proper_def dest: Split_pieces)

lemma foldl_clean_proper: "list_all proper cs \<Longrightarrow> foldl (clean_step r) out cs = out @ cs"
  by (induction cs arbitrary: out) (auto simp: clean_step_def proper_def)

lemma clean_comps_proper [simp]: "list_all proper cs \<Longrightarrow> clean_comps r cs = cs"
  by (simp add: clean_comps_def foldl_clean_proper)

lemma clean_comps_append_proper: "list_all proper cs \<Longrightarrow> clean_comps r (ds @ cs) = clean_comps r ds @ cs"
  by (simp add: clean_comps_def foldl_clean_proper)

text \<open>Cleaning a rooted path leaves proper components only: no \<open>..\<close> survives.\<close>

lemma clean_rooted_proper:
  "list_all proper out \<Longrightarrow> (\<And>c. c \<in> set cs \<Longrightarrow> c = ''..'' \<or> proper c) \<Longrightarrow>
   list_all proper (foldl (clean_step True) out cs)"
proof (induction cs arbitrary: out)
  case (Cons c cs)
  have "list_all proper (clean_step True out c)"
    using Cons.prems(1) Cons.prems(2) [of c] by (auto simp: clean_step_def list_all_iff dest: in_set_butlastD)
  with Cons show ?case by simp
qed simp

lemma clean_comps_rooted: "list_all proper (clean_comps True (path_comps s))"
  unfolding clean_comps_def by (rule clean_rooted_proper) (auto dest: path_comps_pieces)

lemma Clean_rooted: "rooted s \<Longrightarrow> filepath_Clean s = abs_path (clean_comps True (path_comps s))"
  by (auto simp: filepath_Clean_def abs_path_def rooted_def)

lemma Clean_abs [simp]: "list_all proper cs \<Longrightarrow> filepath_Clean (abs_path cs) = abs_path cs"
  by (simp add: Clean_rooted)

lemma Join_abs:
  "list_all proper cs \<Longrightarrow>
   filepath_Join (abs_path cs) name = abs_path (clean_comps True (cs @ path_comps name))"
proof -
  assume cs: "list_all proper cs"
  have "rooted (abs_path cs @ ''/'' @ name)" by (simp add: abs_path_def rooted_def)
  moreover have "path_comps (abs_path cs @ ''/'' @ name) = cs @ path_comps name"
    using cs path_comps_slash [of "abs_path cs" name] by simp
  ultimately show ?thesis by (simp add: filepath_Join_def Clean_rooted)
qed

lemma Join_abs_proper:
  "list_all proper cs \<Longrightarrow> list_all proper ds \<Longrightarrow> path_comps name = ds \<Longrightarrow>
   filepath_Join (abs_path cs) name = abs_path (cs @ ds)"
  by (simp add: Join_abs clean_comps_append_proper)

lemma Join_abs_child: "list_all proper cs \<Longrightarrow> proper c \<Longrightarrow> filepath_Join (abs_path cs) c = abs_path (cs @ [c])"
  by (rule Join_abs_proper) (simp_all add: path_comps_single)

lemma abs_path_inj: "list_all proper cs \<Longrightarrow> list_all proper ds \<Longrightarrow> abs_path cs = abs_path ds \<longleftrightarrow> cs = ds"
  by (metis path_comps_abs)

lemma Join_append:
  "as \<noteq> [] \<Longrightarrow> bs \<noteq> [] \<Longrightarrow> strings_Join sep (as @ bs) = strings_Join sep as @ sep @ strings_Join sep bs"
proof (induction as)
  case (Cons a as)
  then show ?case by (cases "as = []") (simp_all add: strings_Join_Cons)
qed simp

lemma abs_path_append:
  "cs \<noteq> [] \<Longrightarrow> ds \<noteq> [] \<Longrightarrow> abs_path (cs @ ds) = abs_path cs @ ''/'' @ strings_Join ''/'' ds"
  by (simp add: abs_path_def Join_append)

lemma abs_path_no_double:
  assumes "list_all proper cs"
  shows "abs_path cs \<noteq> ''//'' @ t"
proof
  assume eq: "abs_path cs = ''//'' @ t"
  then have join: "strings_Join ''/'' cs = CHR ''/'' # t" by (simp add: abs_path_def)
  then have "cs \<noteq> []" by auto
  with assms have "hd (strings_Join ''/'' cs) = hd (hd cs)" "hd cs \<noteq> []" "CHR ''/'' \<notin> set (hd cs)"
    using Join_hd_last [of cs "''/''"] by (auto simp: list_all_iff proper_def)
  with join show False by (metis list.sel(1) list.set_sel(1))
qed

text \<open>
  The check against Zip Slip: a cleaned path has the cleaned destination and a slash as a prefix
  exactly when it is strictly below it; below the root it never has.
\<close>

lemma HasPrefix_below:
  assumes "list_all proper cs" "list_all proper ds"
  shows "strings_HasPrefix (abs_path cs) (abs_path ds @ ''/'') \<longleftrightarrow>
    ds \<noteq> [] \<and> (\<exists>e es. cs = ds @ e # es)"
proof
  assume "strings_HasPrefix (abs_path cs) (abs_path ds @ ''/'')"
  then obtain t where t: "abs_path cs = abs_path ds @ CHR ''/'' # t" by (auto simp: HasPrefix_iff)
  have "ds \<noteq> []"
  proof
    assume "ds = []"
    with t have "abs_path cs = ''//'' @ t" by (simp add: abs_path_def)
    with abs_path_no_double [OF assms(1)] show False by blast
  qed
  moreover have "cs = ds @ path_comps t"
    using arg_cong [OF t, of path_comps] assms by simp
  moreover have "path_comps t \<noteq> []"
    using t calculation(2) by auto
  ultimately show "ds \<noteq> [] \<and> (\<exists>e es. cs = ds @ e # es)" by (metis list.exhaust)
next
  assume "ds \<noteq> [] \<and> (\<exists>e es. cs = ds @ e # es)"
  then show "strings_HasPrefix (abs_path cs) (abs_path ds @ ''/'')"
    using abs_path_append [of ds] by (auto simp: HasPrefix_iff)
qed

lemma Split_abs: "list_all proper cs \<Longrightarrow> cs \<noteq> [] \<Longrightarrow> strings_Split CHR ''/'' (abs_path cs) = [] # cs"
  using Split_sep [of "CHR ''/''" "[]"]
  by (auto simp: abs_path_def Split_Join_proper list_all_iff proper_def)

lemma abs_path_last:
  assumes "list_all proper cs" "cs \<noteq> []"
  shows "last (abs_path cs) \<noteq> CHR ''/''" "last cs \<noteq> []"
proof -
  have "proper (last cs)" using assms by (auto simp: list_all_iff)
  moreover have "strings_Join ''/'' cs \<noteq> [] \<and> last (strings_Join ''/'' cs) = last (last cs)"
    using Join_hd_last [OF assms(2), of "''/''"] assms(1) by (auto simp: list_all_iff proper_def)
  moreover have "last (last cs) \<in> set (last cs)" if "last cs \<noteq> []" using that by simp
  ultimately have "last (abs_path cs) \<noteq> CHR ''/'' \<and> last cs \<noteq> []"
    unfolding abs_path_def proper_def by (metis last_appendR)
  then show "last (abs_path cs) \<noteq> CHR ''/''" "last cs \<noteq> []" by simp_all
qed

lemma Base_abs:
  assumes "list_all proper cs" "cs \<noteq> []"
  shows "filepath_Base (abs_path cs) = last cs"
proof -
  have "dropWhile (\<lambda>c. c = CHR ''/'') (rev (abs_path cs)) = rev (abs_path cs)"
    using abs_path_last(1) [OF assms] by (cases "abs_path cs" rule: rev_cases) auto
  then show ?thesis
    using assms abs_path_last(2) [OF assms] by (simp add: filepath_Base_def Split_abs)
qed

lemma Dir_abs:
  assumes "list_all proper (cs @ [c])"
  shows "filepath_Dir (abs_path (cs @ [c])) = abs_path cs"
proof -
  let ?s = "concat (map (\<lambda>c. c @ ''/'') ([] # cs))"
  have s: "filepath_Dir (abs_path (cs @ [c])) = filepath_Clean ?s"
    using Split_abs [OF assms] by (simp add: filepath_Dir_def butlast_append)
  have "path_comps (concat (map (\<lambda>c. c @ ''/'') cs)) = cs"
    using assms by (induction cs) (simp_all add: path_comps_single)
  then have "path_comps ?s = cs" "rooted ?s" by (simp_all add: rooted_def)
  with s show ?thesis using assms by (simp add: Clean_rooted)
qed

lemma drop_common_append: "drop_common cs (cs @ ds) = ([], ds)"
proof (induction cs)
  case Nil
  show ?case by (cases ds) simp_all
qed simp

lemma base_comps_abs:
  assumes "list_all proper cs"
  shows "filter (\<lambda>c. c \<noteq> []) (strings_Split CHR ''/'' (abs_path cs)) = cs" "base_comps (abs_path cs) = cs"
proof -
  show f: "filter (\<lambda>c. c \<noteq> []) (strings_Split CHR ''/'' (abs_path cs)) = cs"
  proof (cases "cs = []")
    case False
    with assms show ?thesis by (auto simp: Split_abs filter_id_conv list_all_iff proper_def)
  qed (simp add: abs_path_def)
  then show "base_comps (abs_path cs) = cs" by (simp add: base_comps_def) (simp add: abs_path_def)
qed

lemma Rel_abs:
  assumes "list_all proper (cs @ ds)" "ds \<noteq> []"
  shows "filepath_Rel (abs_path cs) (abs_path (cs @ ds)) = Ok (strings_Join ''/'' ds)"
proof -
  have cs: "list_all proper cs" and cds: "list_all proper (cs @ ds)" using assms(1) by simp_all
  have "abs_path (cs @ ds) \<noteq> abs_path cs" using abs_path_inj [OF cds cs] assms(2) by simp
  then show ?thesis
    using base_comps_abs [OF cs] base_comps_abs [OF cds] cs cds
    by (simp add: filepath_Rel_def drop_common_append)
qed

lemma Abs_rooted: "rooted s \<Longrightarrow> filepath_Abs cwd s = abs_path (clean_comps True (path_comps s))"
  by (simp add: filepath_Abs_def Clean_rooted)

end
