(* ===== verification/Rest_Client.thy ===== *)
theory Rest_Client
  imports Complex_Main Go_Path Api_Types
begin

text \<open>
  The typed clients of the custom resources
  (\<open>client/clientset/versioned/typed/wlm/v1alpha1/{slurmjob,wlmjob,wlm_client}.go\<close>, \<open>clientset.go\<close>) and the
  builder of REST requests they chain (\<open>k8s.io/client-go/rest/request.go\<close>). Sending a request
  over HTTP, retries and the classification of the response are one parameter of the client,
  the codecs of objects and of query parameters are others. The lemmas say which request reaches
  the server for which arguments.
\<close>

section \<open>Requests\<close>

text \<open>\<open>path.Join\<close> of any number of elements.\<close>

definition path_Join :: "string list \<Rightarrow> string" where
  "path_Join es =
     (let es = dropWhile (\<lambda>e. e = []) es
      in if es = [] then [] else filepath_Clean (strings_Join ''/'' es))"

definition NameMayNotBe :: "string list" where "NameMayNotBe = [''.'', ''..'']"
definition NameMayNotContain :: "char list" where "NameMayNotContain = [CHR ''/'', CHR ''%'']"

definition IsValidPathSegmentName :: "string \<Rightarrow> string list" where
  "IsValidPathSegmentName name =
     (if name \<in> set NameMayNotBe then [''may not be '' @ name]
      else map (\<lambda>c. ''may not contain '' @ [c]) (filter (\<lambda>c. c \<in> set name) NameMayNotContain))"

record get_options =
  go_ResourceVersion :: string
  go_IncludeUninitialized :: bool

record list_options =
  lo_LabelSelector :: string
  lo_FieldSelector :: string
  lo_IncludeUninitialized :: bool
  lo_Watch :: bool
  lo_ResourceVersion :: string
  lo_TimeoutSeconds :: "int64 option"
  lo_Limit :: int64
  lo_Continue :: string

datatype request_options = GetOpts get_options | ListOpts list_options

record request =
  rq_verb :: string
  rq_pathPrefix :: string
  rq_params :: "(string \<times> string) list"
  rq_ContentType :: string
  rq_namespace :: string
  rq_namespaceSet :: bool
  rq_resource :: string
  rq_resourceName :: string
  rq_subresource :: string
  rq_timeout :: duration
  rq_err :: "go_error option"
  rq_body :: "string option"

text \<open>What is sent: the timeout is also the query parameter \<open>timeout\<close> unless it is 0.\<close>

record http_request =
  hr_Verb :: string
  hr_Path :: string
  hr_Params :: "(string \<times> string) list"
  hr_ContentType :: string
  hr_Timeout :: duration
  hr_Body :: "string option"

text \<open>
  A REST client. \<open>rc_Do\<close> sends a request and gives the body of the response or the error its
  status stands for, \<open>rc_Watch\<close> opens a watch; both change the world.
\<close>

record ('x, 'w) rest_client =
  rc_base :: string
  rc_versionedAPIPath :: string
  rc_ContentType :: string
  rc_Timeout :: duration
  rc_EncodeParameters :: "request_options \<Rightarrow> go_error + (string \<times> string) list"
  rc_Do :: "http_request \<Rightarrow> 'w \<Rightarrow> string go \<times> 'w"
  rc_Watch :: "http_request \<Rightarrow> 'w \<Rightarrow> 'x go \<times> 'w"

section \<open>The request builder\<close>

definition unless_failed :: "(request \<Rightarrow> request) \<Rightarrow> request \<Rightarrow> request" where
  "unless_failed f r = (if rq_err r = None then f r else r)"

definition failed :: "string \<Rightarrow> request \<Rightarrow> request" where
  "failed msg r = r\<lparr>rq_err := Some (ErrorString msg)\<rparr>"

definition NewRequest :: "('x, 'w) rest_client \<Rightarrow> string \<Rightarrow> request" where
  "NewRequest cl verb =
     \<lparr>rq_verb = verb,
      rq_pathPrefix = path_Join [path_Join [''/'', rc_base cl], rc_versionedAPIPath cl],
      rq_params = [], rq_ContentType = [], rq_namespace = [], rq_namespaceSet = False,
      rq_resource = [], rq_resourceName = [], rq_subresource = [], rq_timeout = rc_Timeout cl,
      rq_err = None, rq_body = None\<rparr>"

definition rest_Post :: "('x, 'w) rest_client \<Rightarrow> request" where "rest_Post cl = NewRequest cl ''POST''"
definition rest_Put :: "('x, 'w) rest_client \<Rightarrow> request" where "rest_Put cl = NewRequest cl ''PUT''"
definition rest_Get :: "('x, 'w) rest_client \<Rightarrow> request" where "rest_Get cl = NewRequest cl ''GET''"
definition rest_Delete :: "('x, 'w) rest_client \<Rightarrow> request" where "rest_Delete cl = NewRequest cl ''DELETE''"
definition rest_Patch :: "('x, 'w) rest_client \<Rightarrow> string \<Rightarrow> request" where
  "rest_Patch cl pt = (NewRequest cl ''PATCH'')\<lparr>rq_ContentType := pt\<rparr>"

definition Namespace :: "string \<Rightarrow> request \<Rightarrow> request" where
  "Namespace ns = unless_failed (\<lambda>r.
     if rq_namespaceSet r then failed (''namespace already set to '' @ rq_namespace r @ '', cannot change to '' @ ns) r
     else if IsValidPathSegmentName ns \<noteq> [] then failed (''invalid namespace '' @ ns) r
     else r\<lparr>rq_namespaceSet := True, rq_namespace := ns\<rparr>)"

definition Resource :: "string \<Rightarrow> request \<Rightarrow> request" where
  "Resource resource = unless_failed (\<lambda>r.
     if rq_resource r \<noteq> [] then failed (''resource already set to '' @ rq_resource r @ '', cannot change to '' @ resource) r
     else if IsValidPathSegmentName resource \<noteq> [] then failed (''invalid resource '' @ resource) r
     else r\<lparr>rq_resource := resource\<rparr>)"

definition Name :: "string \<Rightarrow> request \<Rightarrow> request" where
  "Name resourceName = unless_failed (\<lambda>r.
     if resourceName = [] then failed ''resource name may not be empty'' r
     else if rq_resourceName r \<noteq> [] then failed (''resource name already set to '' @ rq_resourceName r @ '', cannot change to '' @ resourceName) r
     else if IsValidPathSegmentName resourceName \<noteq> [] then failed (''invalid resource name '' @ resourceName) r
     else r\<lparr>rq_resourceName := resourceName\<rparr>)"

definition SubResource :: "string list \<Rightarrow> request \<Rightarrow> request" where
  "SubResource subresources = unless_failed (\<lambda>r.
     let subresource = path_Join subresources
     in if rq_subresource r \<noteq> [] then failed (''subresource already set to '' @ rq_resource r @ '', cannot change to '' @ subresource) r
        else
          (case find (\<lambda>s. IsValidPathSegmentName s \<noteq> []) subresources of
             Some s \<Rightarrow> failed (''invalid subresource '' @ s) r
           | None \<Rightarrow> r\<lparr>rq_subresource := subresource\<rparr>))"

definition VersionedParams :: "('x, 'w) rest_client \<Rightarrow> request_options \<Rightarrow> request \<Rightarrow> request" where
  "VersionedParams cl opts = unless_failed (\<lambda>r.
     case rc_EncodeParameters cl opts of
       Inl e \<Rightarrow> r\<lparr>rq_err := Some e\<rparr>
     | Inr ps \<Rightarrow> r\<lparr>rq_params := rq_params r @ ps\<rparr>)"

definition Timeout :: "duration \<Rightarrow> request \<Rightarrow> request" where
  "Timeout d = unless_failed (\<lambda>r. r\<lparr>rq_timeout := d\<rparr>)"

text \<open>
  \<open>Body\<close> of a runtime object: it is encoded and sets the content type; a nil pointer does
  nothing. \<open>Body_bytes\<close> is the case of a byte slice.
\<close>

definition Body :: "('x, 'w) rest_client \<Rightarrow> (go_error + string) option \<Rightarrow> request \<Rightarrow> request" where
  "Body cl encoded = unless_failed (\<lambda>r.
     case encoded of
       None \<Rightarrow> r
     | Some (Inl e) \<Rightarrow> r\<lparr>rq_err := Some e\<rparr>
     | Some (Inr data) \<Rightarrow> r\<lparr>rq_body := Some data, rq_ContentType := rc_ContentType cl\<rparr>)"

definition Body_bytes :: "string \<Rightarrow> request \<Rightarrow> request" where
  "Body_bytes data = unless_failed (\<lambda>r. r\<lparr>rq_body := Some data\<rparr>)"

text \<open>The path of \<open>URL\<close>; the suffix is never set.\<close>

definition URL_Path :: "request \<Rightarrow> string" where
  "URL_Path r =
     (let p = rq_pathPrefix r;
          p = (if rq_namespaceSet r \<and> rq_namespace r \<noteq> [] then path_Join [p, ''namespaces'', rq_namespace r] else p);
          p = (if rq_resource r \<noteq> [] then path_Join [p, strings_ToLower (rq_resource r)] else p)
      in if rq_resourceName r \<noteq> [] \<or> rq_subresource r \<noteq> []
         then path_Join [p, rq_resourceName r, rq_subresource r, []] else p)"

definition http_of :: "request \<Rightarrow> http_request" where
  "http_of r =
     \<lparr>hr_Verb = rq_verb r, hr_Path = URL_Path r, hr_Params = rq_params r,
      hr_ContentType = rq_ContentType r, hr_Timeout = rq_timeout r, hr_Body = rq_body r\<rparr>"

text \<open>The checks of \<open>request\<close> before anything is sent.\<close>

definition request_prepare :: "request \<Rightarrow> http_request go" where
  "request_prepare r =
     (case rq_err r of
        Some e \<Rightarrow> Err e
      | None \<Rightarrow>
          if rq_verb r \<in> {''GET'', ''PUT'', ''DELETE''} \<and> rq_namespaceSet r \<and> rq_resourceName r \<noteq> [] \<and> rq_namespace r = []
          then Err (ErrorString ''an empty namespace may not be set when a resource name is provided'')
          else if rq_verb r = ''POST'' \<and> rq_namespaceSet r \<and> rq_namespace r = []
          then Err (ErrorString ''an empty namespace may not be set during creation'')
          else Ok (http_of r))"

definition Do :: "('x, 'w) rest_client \<Rightarrow> request \<Rightarrow> 'w \<Rightarrow> string go \<times> 'w" where
  "Do cl r w =
     (case request_prepare r of
        Ok h \<Rightarrow> rc_Do cl h w
      | Err e \<Rightarrow> (Err e, w)
      | Panic s \<Rightarrow> (Panic s, w))"

definition Into :: "(string \<Rightarrow> 'a go) \<Rightarrow> string go \<times> 'w \<Rightarrow> 'a go \<times> 'w" where
  "Into decode res =
     (go_bind (fst res) (\<lambda>body. if body = [] then Err (ErrorString ''0-length response'') else decode body), snd res)"

definition Result_Error :: "string go \<times> 'w \<Rightarrow> unit go \<times> 'w" where
  "Result_Error res = (go_bind (fst res) (\<lambda>_. Ok ()), snd res)"

text \<open>\<open>Watch\<close> only looks at the error of the request.\<close>

definition Watch :: "('x, 'w) rest_client \<Rightarrow> request \<Rightarrow> 'w \<Rightarrow> 'x go \<times> 'w" where
  "Watch cl r w = (case rq_err r of Some e \<Rightarrow> (Err e, w) | None \<Rightarrow> rc_Watch cl (http_of r) w)"

section \<open>The typed clients\<close>

text \<open>
  The methods of \<open>slurmJobs\<close> and \<open>wlmJobs\<close> are the same up to the resource and the type of the
  objects: \<open>jc_resource\<close> names the resource, the codecs give the type.
\<close>

record ('o, 'l, 'd, 'x, 'w) jobs_client =
  jc_client :: "('x, 'w) rest_client"
  jc_ns :: string
  jc_resource :: string
  jc_name :: "'o \<Rightarrow> string"
  jc_encode :: "'o \<Rightarrow> go_error + string"
  jc_encode_options :: "'d \<Rightarrow> go_error + string"
  jc_decode :: "string \<Rightarrow> 'o go"
  jc_decode_list :: "string \<Rightarrow> 'l go"

definition list_timeout :: "list_options \<Rightarrow> duration" where
  "list_timeout opts =
     (case lo_TimeoutSeconds opts of None \<Rightarrow> 0 | Some s \<Rightarrow> mul64 s time_Second)"

definition Get_request :: "('o, 'l, 'd, 'x, 'w) jobs_client \<Rightarrow> string \<Rightarrow> get_options \<Rightarrow> request" where
  "Get_request c name options =
     (VersionedParams (jc_client c) (GetOpts options) \<circ> Name name \<circ> Resource (jc_resource c) \<circ>
      Namespace (jc_ns c)) (rest_Get (jc_client c))"

definition List_request :: "('o, 'l, 'd, 'x, 'w) jobs_client \<Rightarrow> list_options \<Rightarrow> request" where
  "List_request c opts =
     (Timeout (list_timeout opts) \<circ> VersionedParams (jc_client c) (ListOpts opts) \<circ>
      Resource (jc_resource c) \<circ> Namespace (jc_ns c)) (rest_Get (jc_client c))"

definition Watch_request :: "('o, 'l, 'd, 'x, 'w) jobs_client \<Rightarrow> list_options \<Rightarrow> request" where
  "Watch_request c opts =
     (let timeout = list_timeout opts; opts = opts\<lparr>lo_Watch := True\<rparr>
      in (Timeout timeout \<circ> VersionedParams (jc_client c) (ListOpts opts) \<circ>
          Resource (jc_resource c) \<circ> Namespace (jc_ns c)) (rest_Get (jc_client c)))"

definition Create_request :: "('o, 'l, 'd, 'x, 'w) jobs_client \<Rightarrow> 'o \<Rightarrow> request" where
  "Create_request c job =
     (Body (jc_client c) (Some (jc_encode c job)) \<circ> Resource (jc_resource c) \<circ>
      Namespace (jc_ns c)) (rest_Post (jc_client c))"

definition Update_request :: "('o, 'l, 'd, 'x, 'w) jobs_client \<Rightarrow> 'o \<Rightarrow> request" where
  "Update_request c job =
     (Body (jc_client c) (Some (jc_encode c job)) \<circ> Name (jc_name c job) \<circ> Resource (jc_resource c) \<circ>
      Namespace (jc_ns c)) (rest_Put (jc_client c))"

definition UpdateStatus_request :: "('o, 'l, 'd, 'x, 'w) jobs_client \<Rightarrow> 'o \<Rightarrow> request" where
  "UpdateStatus_request c job =
     (Body (jc_client c) (Some (jc_encode c job)) \<circ> SubResource [''status''] \<circ> Name (jc_name c job) \<circ>
      Resource (jc_resource c) \<circ> Namespace (jc_ns c)) (rest_Put (jc_client c))"

definition Delete_request :: "('o, 'l, 'd, 'x, 'w) jobs_client \<Rightarrow> string \<Rightarrow> 'd option \<Rightarrow> request" where
  "Delete_request c name options =
     (Body (jc_client c) (map_option (jc_encode_options c) options) \<circ> Name name \<circ>
      Resource (jc_resource c) \<circ> Namespace (jc_ns c)) (rest_Delete (jc_client c))"

definition DeleteCollection_request ::
  "('o, 'l, 'd, 'x, 'w) jobs_client \<Rightarrow> 'd option \<Rightarrow> list_options \<Rightarrow> request" where
  "DeleteCollection_request c options listOptions =
     (Body (jc_client c) (map_option (jc_encode_options c) options) \<circ> Timeout (list_timeout listOptions) \<circ>
      VersionedParams (jc_client c) (ListOpts listOptions) \<circ> Resource (jc_resource c) \<circ>
      Namespace (jc_ns c)) (rest_Delete (jc_client c))"

definition Patch_request ::
  "('o, 'l, 'd, 'x, 'w) jobs_client \<Rightarrow> string \<Rightarrow> string \<Rightarrow> string \<Rightarrow> string list \<Rightarrow> request" where
  "Patch_request c name pt data subresources =
     (Body_bytes data \<circ> Name name \<circ> SubResource subresources \<circ> Resource (jc_resource c) \<circ>
      Namespace (jc_ns c)) (rest_Patch (jc_client c) pt)"

definition jobs_Get where
  "jobs_Get c name options w = Into (jc_decode c) (Do (jc_client c) (Get_request c name options) w)"

definition jobs_List where
  "jobs_List c opts w = Into (jc_decode_list c) (Do (jc_client c) (List_request c opts) w)"

definition jobs_Watch where
  "jobs_Watch c opts w = Watch (jc_client c) (Watch_request c opts) w"

definition jobs_Create where
  "jobs_Create c job w = Into (jc_decode c) (Do (jc_client c) (Create_request c job) w)"

definition jobs_Update where
  "jobs_Update c job w = Into (jc_decode c) (Do (jc_client c) (Update_request c job) w)"

definition jobs_UpdateStatus where
  "jobs_UpdateStatus c job w = Into (jc_decode c) (Do (jc_client c) (UpdateStatus_request c job) w)"

definition jobs_Delete where
  "jobs_Delete c name options w = Result_Error (Do (jc_client c) (Delete_request c name options) w)"

definition jobs_DeleteCollection where
  "jobs_DeleteCollection c options listOptions w =
     Result_Error (Do (jc_client c) (DeleteCollection_request c options listOptions) w)"

definition jobs_Patch where
  "jobs_Patch c name pt data subresources w =
     Into (jc_decode c) (Do (jc_client c) (Patch_request c name pt data subresources) w)"

text \<open>The two constructors.\<close>

record ('o, 'l, 'd) job_codec =
  co_encode :: "'o \<Rightarrow> go_error + string"
  co_encode_options :: "'d \<Rightarrow> go_error + string"
  co_decode :: "string \<Rightarrow> 'o go"
  co_decode_list :: "string \<Rightarrow> 'l go"

definition newSlurmJobs ::
  "('v slurm_job, 'l, 'd) job_codec \<Rightarrow> ('x, 'w) rest_client \<Rightarrow> string \<Rightarrow> ('v slurm_job, 'l, 'd, 'x, 'w) jobs_client" where
  "newSlurmJobs co cl namespace =
     \<lparr>jc_client = cl, jc_ns = namespace, jc_resource = ''slurmjobs'', jc_name = om_Name \<circ> sj_Meta,
      jc_encode = co_encode co, jc_encode_options = co_encode_options co,
      jc_decode = co_decode co, jc_decode_list = co_decode_list co\<rparr>"

definition newWlmJobs ::
  "('v wlm_job, 'l, 'd) job_codec \<Rightarrow> ('x, 'w) rest_client \<Rightarrow> string \<Rightarrow> ('v wlm_job, 'l, 'd, 'x, 'w) jobs_client" where
  "newWlmJobs co cl namespace =
     \<lparr>jc_client = cl, jc_ns = namespace, jc_resource = ''wlmjobs'', jc_name = om_Name \<circ> wj_Meta,
      jc_encode = co_encode co, jc_encode_options = co_encode_options co,
      jc_decode = co_decode co, jc_decode_list = co_decode_list co\<rparr>"

text \<open>
  The methods of the clients of both kinds of jobs, on a REST client and a namespace.
\<close>

definition slurmJobs_Get where "slurmJobs_Get co cl ns = jobs_Get (newSlurmJobs co cl ns)"
definition slurmJobs_List where "slurmJobs_List co cl ns = jobs_List (newSlurmJobs co cl ns)"
definition slurmJobs_Watch where "slurmJobs_Watch co cl ns = jobs_Watch (newSlurmJobs co cl ns)"
definition slurmJobs_Create where "slurmJobs_Create co cl ns = jobs_Create (newSlurmJobs co cl ns)"
definition slurmJobs_Update where "slurmJobs_Update co cl ns = jobs_Update (newSlurmJobs co cl ns)"
definition slurmJobs_UpdateStatus where "slurmJobs_UpdateStatus co cl ns = jobs_UpdateStatus (newSlurmJobs co cl ns)"
definition slurmJobs_Delete where "slurmJobs_Delete co cl ns = jobs_Delete (newSlurmJobs co cl ns)"
definition slurmJobs_DeleteCollection where "slurmJobs_DeleteCollection co cl ns = jobs_DeleteCollection (newSlurmJobs co cl ns)"
definition slurmJobs_Patch where "slurmJobs_Patch co cl ns = jobs_Patch (newSlurmJobs co cl ns)"

definition wlmJobs_Get where "wlmJobs_Get co cl ns = jobs_Get (newWlmJobs co cl ns)"
definition wlmJobs_List where "wlmJobs_List co cl ns = jobs_List (newWlmJobs co cl ns)"
definition wlmJobs_Watch where "wlmJobs_Watch co cl ns = jobs_Watch (newWlmJobs co cl ns)"
definition wlmJobs_Create where "wlmJobs_Create co cl ns = jobs_Create (newWlmJobs co cl ns)"
definition wlmJobs_Update where "wlmJobs_Update co cl ns = jobs_Update (newWlmJobs co cl ns)"
definition wlmJobs_UpdateStatus where "wlmJobs_UpdateStatus co cl ns = jobs_UpdateStatus (newWlmJobs co cl ns)"
definition wlmJobs_Delete where "wlmJobs_Delete co cl ns = jobs_Delete (newWlmJobs co cl ns)"
definition wlmJobs_DeleteCollection where "wlmJobs_DeleteCollection co cl ns = jobs_DeleteCollection (newWlmJobs co cl ns)"
definition wlmJobs_Patch where "wlmJobs_Patch co cl ns = jobs_Patch (newWlmJobs co cl ns)"

section \<open>Building the clients from a configuration\<close>

text \<open>
  The fields of \<open>rest.Config\<close> the constructors touch. A rate limiter is a value of the
  parameter type \<open>'lim\<close>; \<open>cf_rest\<close> stands for the rest (credentials, TLS, content types).
\<close>

record ('lim, 'r) rest_config =
  cf_Host :: string
  cf_APIPath :: string
  cf_GroupVersion :: "(string \<times> string) option"
  cf_NegotiatedSerializer :: bool
  cf_UserAgent :: string
  cf_QPS :: rat
  cf_Burst :: int
  cf_RateLimiter :: "'lim option"
  cf_rest :: 'r

text \<open>
  What \<open>RESTClientFor\<close> takes from its libraries: the path of the parsed URL of the host, the
  transport, the codec of parameters, the user agent and new token buckets.
\<close>

record ('lim, 'r, 'x, 'w) rest_env =
  env_base_path :: "('lim, 'r) rest_config \<Rightarrow> string go"
  env_TransportFor :: "('lim, 'r) rest_config \<Rightarrow> duration go"
  env_NewTokenBucket :: "rat \<Rightarrow> int \<Rightarrow> 'lim"
  env_EncodeParameters :: "request_options \<Rightarrow> go_error + (string \<times> string) list"
  env_http :: "'lim option \<Rightarrow> http_request \<Rightarrow> 'w \<Rightarrow> string go \<times> 'w"
  env_watch :: "http_request \<Rightarrow> 'w \<Rightarrow> 'x go \<times> 'w"
  env_DefaultKubernetesUserAgent :: string

definition DefaultVersionedAPIPath :: "string \<Rightarrow> string \<times> string \<Rightarrow> string" where
  "DefaultVersionedAPIPath apiPath gv =
     (let p = path_Join [''/'', apiPath]
      in if fst gv \<noteq> [] then path_Join [p, fst gv, snd gv] else path_Join [p, snd gv])"

definition RESTClientFor ::
  "('lim, 'r, 'x, 'w) rest_env \<Rightarrow> ('lim, 'r) rest_config \<Rightarrow> ('x, 'w) rest_client go" where
  "RESTClientFor env config =
     (case cf_GroupVersion config of
        None \<Rightarrow> Err (ErrorString ''GroupVersion is required when initializing a RESTClient'')
      | Some gv \<Rightarrow>
          if \<not> cf_NegotiatedSerializer config
          then Err (ErrorString ''NegotiatedSerializer is required when initializing a RESTClient'')
          else
            (let qps = (if cf_QPS config = 0 then 5 else cf_QPS config);
                 burst = (if cf_Burst config = 0 then 10 else cf_Burst config)
             in go_bind (env_base_path env config) (\<lambda>base.
                go_bind (env_TransportFor env config) (\<lambda>timeout.
                  let throttle = (if qps > 0 \<and> cf_RateLimiter config = None
                                  then Some (env_NewTokenBucket env qps burst) else cf_RateLimiter config)
                  in Ok \<lparr>rc_base = (if base \<noteq> [] \<and> last base = CHR ''/'' then base else base @ ''/''),
                         rc_versionedAPIPath = DefaultVersionedAPIPath (cf_APIPath config) gv,
                         rc_ContentType = ''application/json'', rc_Timeout = timeout,
                         rc_EncodeParameters = env_EncodeParameters env,
                         rc_Do = env_http env throttle, rc_Watch = env_watch env\<rparr>))))"

definition SchemeGroupVersion :: "string \<times> string" where
  "SchemeGroupVersion = (''wlm.sylabs.io'', ''v1alpha1'')"

definition setConfigDefaults ::
  "('lim, 'r, 'x, 'w) rest_env \<Rightarrow> ('lim, 'r) rest_config \<Rightarrow> ('lim, 'r) rest_config" where
  "setConfigDefaults env config =
     (let config = config\<lparr>cf_GroupVersion := Some SchemeGroupVersion, cf_APIPath := ''/apis'',
                          cf_NegotiatedSerializer := True\<rparr>
      in if cf_UserAgent config = [] then config\<lparr>cf_UserAgent := env_DefaultKubernetesUserAgent env\<rparr>
         else config)"

definition wlm_NewForConfig ::
  "('lim, 'r, 'x, 'w) rest_env \<Rightarrow> ('lim, 'r) rest_config \<Rightarrow> ('x, 'w) rest_client go" where
  "wlm_NewForConfig env c = RESTClientFor env (setConfigDefaults env c)"

definition or_die :: "'a go \<Rightarrow> 'a go" where
  "or_die m = (case m of Err e \<Rightarrow> Panic ''error in the config'' | _ \<Rightarrow> m)"

definition wlm_NewForConfigOrDie where
  "wlm_NewForConfigOrDie env c = or_die (wlm_NewForConfig env c)"

text \<open>A clientset: the client of the group and a discovery client, which is a parameter.\<close>

record ('x, 'w, 'disc) clientset =
  cs_wlmV1alpha1 :: "('x, 'w) rest_client"
  cs_DiscoveryClient :: 'disc

definition versioned_NewForConfig ::
  "('lim, 'r, 'x, 'w) rest_env \<Rightarrow> (('lim, 'r) rest_config \<Rightarrow> 'disc go) \<Rightarrow> ('lim, 'r) rest_config \<Rightarrow>
   ('x, 'w, 'disc) clientset go" where
  "versioned_NewForConfig env NewDiscoveryClientForConfig c =
     (let configShallowCopy =
        (if cf_RateLimiter c = None \<and> cf_QPS c > 0
         then c\<lparr>cf_RateLimiter := Some (env_NewTokenBucket env (cf_QPS c) (cf_Burst c))\<rparr> else c)
      in go_bind (wlm_NewForConfig env configShallowCopy) (\<lambda>wlm.
         go_bind (NewDiscoveryClientForConfig configShallowCopy) (\<lambda>disc.
           Ok \<lparr>cs_wlmV1alpha1 = wlm, cs_DiscoveryClient = disc\<rparr>)))"

definition versioned_NewForConfigOrDie ::
  "('lim, 'r, 'x, 'w) rest_env \<Rightarrow> (('lim, 'r) rest_config \<Rightarrow> 'disc go) \<Rightarrow> ('lim, 'r) rest_config \<Rightarrow>
   ('x, 'w, 'disc) clientset go" where
  "versioned_NewForConfigOrDie env NewDiscoveryClientForConfig c =
     go_bind (wlm_NewForConfigOrDie env c) (\<lambda>wlm.
     go_bind (or_die (NewDiscoveryClientForConfig c)) (\<lambda>disc.
       Ok \<lparr>cs_wlmV1alpha1 = wlm, cs_DiscoveryClient = disc\<rparr>))"

definition versioned_New :: "(('x, 'w) rest_client \<Rightarrow> 'disc) \<Rightarrow> ('x, 'w) rest_client \<Rightarrow> ('x, 'w, 'disc) clientset" where
  "versioned_New NewDiscoveryClient c = \<lparr>cs_wlmV1alpha1 = c, cs_DiscoveryClient = NewDiscoveryClient c\<rparr>"

definition clientset_SlurmJobs where
  "clientset_SlurmJobs co cs namespace = newSlurmJobs co (cs_wlmV1alpha1 cs) namespace"

definition clientset_WlmJobs where
  "clientset_WlmJobs co cs namespace = newWlmJobs co (cs_wlmV1alpha1 cs) namespace"

section \<open>Which path a request has\<close>

text \<open>The components every request of a client starts with.\<close>

definition rest_root :: "('x, 'w) rest_client \<Rightarrow> string list" where
  "rest_root cl = clean_comps True (path_comps (rc_base cl) @ path_comps (rc_versionedAPIPath cl))"

definition valid_segment :: "string \<Rightarrow> bool" where
  "valid_segment s \<longleftrightarrow> IsValidPathSegmentName s = []"

lemma valid_segment_iff:
  "valid_segment s \<longleftrightarrow> s \<noteq> ''.'' \<and> s \<noteq> ''..'' \<and> CHR ''/'' \<notin> set s \<and> CHR ''%'' \<notin> set s"
  by (auto simp: valid_segment_def IsValidPathSegmentName_def NameMayNotBe_def NameMayNotContain_def
      filter_empty_conv)

lemma valid_segment_proper: "valid_segment s \<Longrightarrow> s \<noteq> [] \<Longrightarrow> proper s"
  by (simp add: valid_segment_iff proper_def)

lemma path_comps_Join: "path_comps (strings_Join ''/'' es) = concat (map path_comps es)"
proof (induction es)
  case (Cons e es)
  then show ?case by (cases "es = []") (simp_all add: strings_Join_Cons)
qed simp

lemma rooted_Join: "rooted (strings_Join ''/'' (e # es)) \<longleftrightarrow> rooted e \<or> (e = [] \<and> es \<noteq> [])"
  by (cases es) (auto simp: rooted_def strings_Join_Cons)

lemma path_Join_rooted:
  "rooted e \<Longrightarrow> path_Join (e # es) = abs_path (clean_comps True (concat (map path_comps (e # es))))"
proof -
  assume e: "rooted e"
  then have "e \<noteq> []" by (auto simp: rooted_def)
  with e show ?thesis
    using path_comps_Join [of "e # es"] by (simp add: path_Join_def Clean_rooted rooted_Join)
qed

lemma path_Join_abs:
  assumes "list_all proper cs" "list_all proper ds" "concat (map path_comps es) = ds"
  shows "path_Join (abs_path cs # es) = abs_path (cs @ ds)"
  using assms by (simp add: path_Join_rooted)

lemma clean_comps_idem: "clean_comps True (clean_comps True (path_comps s) @ cs) = clean_comps True (path_comps s @ cs)"
proof -
  have "foldl (clean_step True) [] (clean_comps True (path_comps s)) = clean_comps True (path_comps s)"
    using foldl_clean_proper [OF clean_comps_rooted] by simp
  then show ?thesis by (simp add: clean_comps_def)
qed

lemma rest_root_proper: "list_all proper (rest_root cl)"
  unfolding rest_root_def clean_comps_def
  by (rule clean_rooted_proper) (auto dest: path_comps_pieces)

lemma prefix_root:
  "path_Join [path_Join [''/'', rc_base cl], rc_versionedAPIPath cl] = abs_path (rest_root cl)"
proof -
  have "path_Join [''/'', rc_base cl] = abs_path (clean_comps True (path_comps (rc_base cl)))"
    by (simp add: path_Join_rooted rooted_def)
  then show ?thesis
    using clean_comps_idem [of "rc_base cl"] clean_comps_rooted [of "rc_base cl"]
    by (simp add: path_Join_rooted rest_root_def)
qed

lemma NewRequest_fields [simp]:
  "rq_verb (NewRequest cl v) = v" "rq_pathPrefix (NewRequest cl v) = abs_path (rest_root cl)"
  "rq_params (NewRequest cl v) = []" "rq_ContentType (NewRequest cl v) = []"
  "rq_namespace (NewRequest cl v) = []" "\<not> rq_namespaceSet (NewRequest cl v)"
  "rq_resource (NewRequest cl v) = []" "rq_resourceName (NewRequest cl v) = []"
  "rq_subresource (NewRequest cl v) = []" "rq_timeout (NewRequest cl v) = rc_Timeout cl"
  "rq_err (NewRequest cl v) = None" "rq_body (NewRequest cl v) = None"
  using prefix_root [of cl] by (simp_all add: NewRequest_def)

text \<open>
  \<open>addressed\<close> says what a request that has not failed names: \<open>ns\<close> and \<open>name\<close> are \<open>None\<close> while they
  have not been set.
\<close>

definition addressed ::
  "('x, 'w) rest_client \<Rightarrow> string \<Rightarrow> string option \<Rightarrow> string \<Rightarrow> string option \<Rightarrow> string list \<Rightarrow> request \<Rightarrow> bool" where
  "addressed cl v ns res name subs r \<longleftrightarrow>
     (rq_err r = None \<longrightarrow>
        rq_verb r = v \<and> rq_pathPrefix r = abs_path (rest_root cl) \<and>
        rq_namespaceSet r = (ns \<noteq> None) \<and> rq_namespace r = (case ns of None \<Rightarrow> [] | Some n \<Rightarrow> n) \<and>
        (\<forall>n. ns = Some n \<longrightarrow> valid_segment n) \<and> rq_resource r = res \<and>
        rq_resourceName r = (case name of None \<Rightarrow> [] | Some n \<Rightarrow> n) \<and>
        (\<forall>n. name = Some n \<longrightarrow> n \<noteq> [] \<and> valid_segment n) \<and>
        rq_subresource r = path_Join subs \<and> (\<forall>s \<in> set subs. valid_segment s))"

named_theorems addressing "what the setters of a request do to its address"

lemma addressed_new [addressing]:
  "addressed cl ''GET'' None [] None [] (rest_Get cl)"
  "addressed cl ''PUT'' None [] None [] (rest_Put cl)"
  "addressed cl ''POST'' None [] None [] (rest_Post cl)"
  "addressed cl ''DELETE'' None [] None [] (rest_Delete cl)"
  "addressed cl ''PATCH'' None [] None [] (rest_Patch cl pt)"
  by (simp_all add: addressed_def rest_Get_def rest_Put_def rest_Post_def rest_Delete_def
      rest_Patch_def path_Join_def)

lemma addressed_Namespace [addressing]:
  "addressed cl v None res name subs r \<Longrightarrow> addressed cl v (Some ns) res name subs (Namespace ns r)"
  by (auto simp: addressed_def Namespace_def unless_failed_def failed_def valid_segment_def)

lemma addressed_Resource [addressing]:
  "addressed cl v ns [] name subs r \<Longrightarrow> addressed cl v ns res name subs (Resource res r)"
  by (auto simp: addressed_def Resource_def unless_failed_def failed_def)

lemma addressed_Name [addressing]:
  "addressed cl v ns res None subs r \<Longrightarrow> addressed cl v ns res (Some name) subs (Name name r)"
  by (auto simp: addressed_def Name_def unless_failed_def failed_def valid_segment_def)

lemma addressed_SubResource [addressing]:
  "addressed cl v ns res name [] r \<Longrightarrow> addressed cl v ns res name subs (SubResource subs r)"
  by (auto simp: addressed_def SubResource_def unless_failed_def failed_def valid_segment_def Let_def
      find_None_iff split: option.splits)

lemma addressed_keep [addressing]:
  assumes "addressed cl v ns res name subs r"
  shows "addressed cl v ns res name subs (VersionedParams cl' opts r)"
    "addressed cl v ns res name subs (Timeout d r)"
    "addressed cl v ns res name subs (Body cl' b r)"
    "addressed cl v ns res name subs (Body_bytes data r)"
  using assms
  by (auto simp: addressed_def VersionedParams_def Timeout_def Body_def Body_bytes_def unless_failed_def
      split: option.splits sum.splits)

lemma path_comps_segment: "valid_segment s \<Longrightarrow> path_comps s = (if s = [] then [] else [s])"
  using path_comps_single [OF valid_segment_proper] by simp

lemma path_comps_segments:
  "(\<And>s. s \<in> set subs \<Longrightarrow> valid_segment s) \<Longrightarrow>
   concat (map path_comps subs) = filter (\<lambda>s. s \<noteq> []) subs \<and> list_all proper (filter (\<lambda>s. s \<noteq> []) subs)"
  by (induction subs) (auto simp: path_comps_segment valid_segment_proper)

lemma Clean_relative:
  "\<not> rooted s \<Longrightarrow> s \<noteq> [] \<Longrightarrow> path_comps s = cs \<Longrightarrow> list_all proper cs \<Longrightarrow> cs \<noteq> [] \<Longrightarrow>
   filepath_Clean s = strings_Join ''/'' cs"
  by (simp add: filepath_Clean_def)

lemma path_Join_valid:
  assumes subs: "\<And>s. s \<in> set subs \<Longrightarrow> valid_segment s"
  shows "path_Join subs = strings_Join ''/'' (filter (\<lambda>s. s \<noteq> []) subs)"
proof (cases "dropWhile (\<lambda>e. e = []) subs")
  case Nil
  then have "filter (\<lambda>s. s \<noteq> []) subs = []" by (simp add: dropWhile_eq_Nil_conv filter_empty_conv)
  with Nil show ?thesis by (simp add: path_Join_def)
next
  case (Cons e es)
  define ds where "ds = takeWhile (\<lambda>e. e = []) subs"
  have split: "subs = ds @ e # es" using Cons takeWhile_dropWhile_id [of "\<lambda>e. e = []" subs] by (simp add: ds_def)
  have ds: "filter (\<lambda>s. s \<noteq> []) ds = []" by (auto simp: ds_def filter_empty_conv dest: set_takeWhileD)
  have e: "e \<noteq> []" using Cons by (metis (mono_tags) hd_dropWhile list.distinct(1) list.sel(1))
  let ?s = "strings_Join ''/'' (e # es)" and ?cs = "filter (\<lambda>s. s \<noteq> []) (e # es)"
  have valid: "valid_segment s" if "s \<in> set (e # es)" for s
    by (rule subs) (use that in \<open>auto simp: split\<close>)
  then have comps: "path_comps ?s = ?cs" "list_all proper ?cs"
    using path_comps_segments [of "e # es"] path_comps_Join [of "e # es"] by simp_all
  have "\<not> rooted e" using valid [of e] e by (cases e) (auto simp: rooted_def valid_segment_iff)
  then have "\<not> rooted ?s" using e by (simp add: rooted_Join)
  moreover have "?cs \<noteq> []" using e by simp
  moreover have "?s \<noteq> []" using comps(1) \<open>?cs \<noteq> []\<close> by (metis path_comps_Nil)
  ultimately have "filepath_Clean ?s = strings_Join ''/'' ?cs"
    using comps by (intro Clean_relative)
  then show ?thesis using Cons ds by (simp add: path_Join_def split)
qed

lemma path_Join_segments:
  assumes "\<And>s. s \<in> set subs \<Longrightarrow> valid_segment s"
  shows "path_comps (path_Join subs) = filter (\<lambda>s. s \<noteq> []) subs"
    "path_Join subs = [] \<longleftrightarrow> filter (\<lambda>s. s \<noteq> []) subs = []"
proof -
  have "list_all proper (filter (\<lambda>s. s \<noteq> []) subs)" using path_comps_segments [of subs] assms by blast
  then show comps: "path_comps (path_Join subs) = filter (\<lambda>s. s \<noteq> []) subs"
    using path_Join_valid [of subs] assms by (simp add: path_comps_proper)
  show "path_Join subs = [] \<longleftrightarrow> filter (\<lambda>s. s \<noteq> []) subs = []"
    using comps path_Join_valid [of subs] assms by (metis path_comps_Nil strings_Join.simps(1))
qed

text \<open>The path of a request that names a namespace (or all, \<open>ns = []\<close>) and a resource.\<close>

definition resource_path :: "('x, 'w) rest_client \<Rightarrow> string \<Rightarrow> string \<Rightarrow> string option \<Rightarrow> string list \<Rightarrow> string list" where
  "resource_path cl ns res name subs =
     rest_root cl @ (if ns = [] then [] else [''namespaces'', ns]) @
     [res] @ (case name of None \<Rightarrow> [] | Some n \<Rightarrow> [n]) @ filter (\<lambda>s. s \<noteq> []) subs"

lemma addressed_path:
  assumes "addressed cl v (Some ns) res name subs r" "rq_err r = None"
    "proper res" "strings_ToLower res = res"
  shows "URL_Path r = abs_path (resource_path cl ns res name subs) \<and>
    list_all proper (resource_path cl ns res name subs) \<and> rq_verb r = v \<and> rq_namespace r = ns \<and>
    rq_namespaceSet r \<and> rq_resourceName r = (case name of None \<Rightarrow> [] | Some n \<Rightarrow> n)"
proof -
  let ?ns = "if ns = [] then [] else [''namespaces'', ns]"
  let ?nm = "case name of None \<Rightarrow> [] | Some n \<Rightarrow> [n]"
  let ?subs = "filter (\<lambda>s. s \<noteq> []) subs"
  note r = assms(1) [unfolded addressed_def, rule_format, OF assms(2)]
  have subs: "path_comps (rq_subresource r) = ?subs" "list_all proper ?subs"
    "rq_subresource r = [] \<longleftrightarrow> ?subs = []"
    using path_Join_segments [of subs] path_comps_segments [of subs] r by auto
  have ns: "ns \<noteq> [] \<Longrightarrow> proper ns" and nm: "\<And>n. name = Some n \<Longrightarrow> n \<noteq> [] \<and> proper n"
    using r by (auto intro: valid_segment_proper)
  have res: "res \<noteq> []" using assms(3) by (simp add: proper_def)
  have np: "proper ''namespaces''" by (simp add: proper_def)
  have 1: "path_Join [abs_path (rest_root cl), ''namespaces'', ns] = abs_path (rest_root cl @ ?ns)" if "ns \<noteq> []"
    using path_Join_abs [OF rest_root_proper [of cl], of ?ns "[''namespaces'', ns]"] that ns np
    by (simp add: path_comps_single)
  have p1: "list_all proper (rest_root cl @ ?ns)" using ns np rest_root_proper [of cl] by simp
  have 2: "path_Join [abs_path (rest_root cl @ ?ns), res] = abs_path ((rest_root cl @ ?ns) @ [res])"
    using path_Join_abs [OF p1, of "[res]" "[res]"] assms(3) by (simp add: path_comps_single)
  have p2: "list_all proper ((rest_root cl @ ?ns) @ [res])" using p1 assms(3) by simp
  have 3: "path_Join [abs_path ((rest_root cl @ ?ns) @ [res]), rq_resourceName r, rq_subresource r, []] =
      abs_path (((rest_root cl @ ?ns) @ [res]) @ ?nm @ ?subs)"
    using path_Join_abs [OF p2, of "?nm @ ?subs" "[rq_resourceName r, rq_subresource r, []]"] subs nm r
    by (auto simp: path_comps_single split: option.splits)
  have "URL_Path r = abs_path (((rest_root cl @ ?ns) @ [res]) @ ?nm @ ?subs)"
  proof (cases "rq_resourceName r \<noteq> [] \<or> rq_subresource r \<noteq> []")
    case True
    then have "URL_Path r =
        path_Join [path_Join [abs_path (rest_root cl @ ?ns), res], rq_resourceName r, rq_subresource r, []]"
      using 1 r res assms(4) by (simp add: URL_Path_def Let_def)
    then show ?thesis by (simp only: 2 3)
  next
    case False
    then have "?nm = []" "?subs = []" using subs(3) r by (auto split: option.splits)
    moreover have "URL_Path r = path_Join [abs_path (rest_root cl @ ?ns), res]"
      using False 1 r res assms(4) by (simp add: URL_Path_def Let_def)
    ultimately show ?thesis by (simp only: 2 append_Nil2)
  qed
  moreover have "list_all proper (((rest_root cl @ ?ns) @ [res]) @ ?nm @ ?subs)"
    using p2 nm subs(2) by (auto split: option.splits)
  ultimately show ?thesis using r by (simp add: resource_path_def)
qed

section \<open>The calls of a typed client\<close>

datatype ('o, 'd) job_call =
    CallGet string get_options
  | CallList list_options
  | CallWatch list_options
  | CallCreate 'o
  | CallUpdate 'o
  | CallUpdateStatus 'o
  | CallDelete string "'d option"
  | CallDeleteCollection "'d option" list_options
  | CallPatch string string string "string list"

fun call_request :: "('o, 'l, 'd, 'x, 'w) jobs_client \<Rightarrow> ('o, 'd) job_call \<Rightarrow> request" where
  "call_request c (CallGet name opts) = Get_request c name opts"
| "call_request c (CallList opts) = List_request c opts"
| "call_request c (CallWatch opts) = Watch_request c opts"
| "call_request c (CallCreate job) = Create_request c job"
| "call_request c (CallUpdate job) = Update_request c job"
| "call_request c (CallUpdateStatus job) = UpdateStatus_request c job"
| "call_request c (CallDelete name opts) = Delete_request c name opts"
| "call_request c (CallDeleteCollection opts list_opts) = DeleteCollection_request c opts list_opts"
| "call_request c (CallPatch name pt data subs) = Patch_request c name pt data subs"

text \<open>The request a call sends, or the error it ends with before sending one.\<close>

definition call_prepare :: "('o, 'l, 'd, 'x, 'w) jobs_client \<Rightarrow> ('o, 'd) job_call \<Rightarrow> http_request go" where
  "call_prepare c call =
     (case call of
        CallWatch opts \<Rightarrow>
          (case rq_err (Watch_request c opts) of
             Some e \<Rightarrow> Err e | None \<Rightarrow> Ok (http_of (Watch_request c opts)))
      | _ \<Rightarrow> request_prepare (call_request c call))"

fun call_verb :: "('o, 'd) job_call \<Rightarrow> string" where
  "call_verb (CallGet name opts) = ''GET''"
| "call_verb (CallList opts) = ''GET''"
| "call_verb (CallWatch opts) = ''GET''"
| "call_verb (CallCreate job) = ''POST''"
| "call_verb (CallUpdate job) = ''PUT''"
| "call_verb (CallUpdateStatus job) = ''PUT''"
| "call_verb (CallDelete name opts) = ''DELETE''"
| "call_verb (CallDeleteCollection opts list_opts) = ''DELETE''"
| "call_verb (CallPatch name pt data subs) = ''PATCH''"

text \<open>The object a call is about, and the subresources.\<close>

fun call_name :: "('o, 'l, 'd, 'x, 'w) jobs_client \<Rightarrow> ('o, 'd) job_call \<Rightarrow> string option" where
  "call_name c (CallGet name opts) = Some name"
| "call_name c (CallList opts) = None"
| "call_name c (CallWatch opts) = None"
| "call_name c (CallCreate job) = None"
| "call_name c (CallUpdate job) = Some (jc_name c job)"
| "call_name c (CallUpdateStatus job) = Some (jc_name c job)"
| "call_name c (CallDelete name opts) = Some name"
| "call_name c (CallDeleteCollection opts list_opts) = None"
| "call_name c (CallPatch name pt data subs) = Some name"

fun call_subs :: "('o, 'd) job_call \<Rightarrow> string list" where
  "call_subs (CallUpdateStatus job) = [''status'']"
| "call_subs (CallPatch name pt data subs) = subs"
| "call_subs (CallGet name opts) = []"
| "call_subs (CallList opts) = []"
| "call_subs (CallWatch opts) = []"
| "call_subs (CallCreate job) = []"
| "call_subs (CallUpdate job) = []"
| "call_subs (CallDelete name opts) = []"
| "call_subs (CallDeleteCollection opts list_opts) = []"

text \<open>What a call encodes: query parameters and a body.\<close>

fun call_params :: "('o, 'd) job_call \<Rightarrow> request_options option" where
  "call_params (CallGet name opts) = Some (GetOpts opts)"
| "call_params (CallList opts) = Some (ListOpts opts)"
| "call_params (CallWatch opts) = Some (ListOpts (opts\<lparr>lo_Watch := True\<rparr>))"
| "call_params (CallCreate job) = None"
| "call_params (CallUpdate job) = None"
| "call_params (CallUpdateStatus job) = None"
| "call_params (CallDelete name opts) = None"
| "call_params (CallDeleteCollection opts list_opts) = Some (ListOpts list_opts)"
| "call_params (CallPatch name pt data subs) = None"

fun call_body :: "('o, 'l, 'd, 'x, 'w) jobs_client \<Rightarrow> ('o, 'd) job_call \<Rightarrow> (go_error + string) option" where
  "call_body c (CallGet name opts) = None"
| "call_body c (CallList opts) = None"
| "call_body c (CallWatch opts) = None"
| "call_body c (CallCreate job) = Some (jc_encode c job)"
| "call_body c (CallUpdate job) = Some (jc_encode c job)"
| "call_body c (CallUpdateStatus job) = Some (jc_encode c job)"
| "call_body c (CallDelete name opts) = map_option (jc_encode_options c) opts"
| "call_body c (CallDeleteCollection opts list_opts) = map_option (jc_encode_options c) opts"
| "call_body c (CallPatch name pt data subs) = Some (Inr data)"

text \<open>The calls that are sent.\<close>

definition encodes :: "(go_error + 'a) option \<Rightarrow> bool" where
  "encodes x = (case x of Some (Inl e) \<Rightarrow> False | _ \<Rightarrow> True)"

definition call_admissible :: "('o, 'l, 'd, 'x, 'w) jobs_client \<Rightarrow> ('o, 'd) job_call \<Rightarrow> bool" where
  "call_admissible c call \<longleftrightarrow>
     valid_segment (jc_ns c) \<and>
     (case call_name c call of None \<Rightarrow> True | Some n \<Rightarrow> n \<noteq> [] \<and> valid_segment n) \<and>
     list_all valid_segment (call_subs call) \<and>
     encodes (map_option (rc_EncodeParameters (jc_client c)) (call_params call)) \<and>
     encodes (call_body c call) \<and>
     (jc_ns c = [] \<longrightarrow> call_verb call = ''PATCH'' \<or> (call_name c call = None \<and> call_verb call \<noteq> ''POST''))"

lemmas call_requests =
  Get_request_def List_request_def Watch_request_def Create_request_def Update_request_def
  UpdateStatus_request_def Delete_request_def DeleteCollection_request_def Patch_request_def

lemma call_addressed:
  "addressed (jc_client c) (call_verb call) (Some (jc_ns c)) (jc_resource c) (call_name c call) (call_subs call)
     (call_request c call)"
  by (cases call) (auto simp: call_requests Let_def intro!: addressing)

lemma find_SomeD: "find P xs = Some x \<Longrightarrow> x \<in> set xs \<and> P x"
  by (induction xs) (auto split: if_splits)

lemma setters_err:
  "rq_err (Namespace ns r) = None \<longleftrightarrow> rq_err r = None \<and> \<not> rq_namespaceSet r \<and> valid_segment ns"
  "rq_err (Resource res r) = None \<longleftrightarrow> rq_err r = None \<and> rq_resource r = [] \<and> valid_segment res"
  "rq_err (Name n r) = None \<longleftrightarrow> rq_err r = None \<and> n \<noteq> [] \<and> rq_resourceName r = [] \<and> valid_segment n"
  "rq_err (SubResource subs r) = None \<longleftrightarrow> rq_err r = None \<and> rq_subresource r = [] \<and> list_all valid_segment subs"
  "rq_err (VersionedParams cl opts r) = None \<longleftrightarrow>
     rq_err r = None \<and> encodes (Some (rc_EncodeParameters cl opts))"
  "rq_err (Timeout d r) = rq_err r"
  "rq_err (Body cl b r) = None \<longleftrightarrow> rq_err r = None \<and> encodes b"
  "rq_err (Body_bytes data r) = rq_err r"
  by (auto simp: Namespace_def Resource_def Name_def SubResource_def VersionedParams_def Timeout_def
      Body_def Body_bytes_def unless_failed_def failed_def valid_segment_def encodes_def Let_def
      find_None_iff list_all_iff dest: find_SomeD split: option.splits sum.splits)

lemma setters_keep:
  "rq_resource (Namespace ns r) = rq_resource r" "rq_resourceName (Namespace ns r) = rq_resourceName r"
  "rq_subresource (Namespace ns r) = rq_subresource r"
  "rq_resourceName (Resource res r) = rq_resourceName r" "rq_subresource (Resource res r) = rq_subresource r"
  "rq_subresource (Name n r) = rq_subresource r" "rq_resourceName (SubResource subs r) = rq_resourceName r"
  by (auto simp: Namespace_def Resource_def Name_def SubResource_def unless_failed_def failed_def Let_def
      split: option.splits)

lemma new_requests:
  "rq_err (rest_Get cl) = None" "rq_namespaceSet (rest_Get cl) = False" "rq_resource (rest_Get cl) = []"
  "rq_resourceName (rest_Get cl) = []" "rq_subresource (rest_Get cl) = []"
  "rq_err (rest_Put cl) = None" "rq_namespaceSet (rest_Put cl) = False" "rq_resource (rest_Put cl) = []"
  "rq_resourceName (rest_Put cl) = []" "rq_subresource (rest_Put cl) = []"
  "rq_err (rest_Post cl) = None" "rq_namespaceSet (rest_Post cl) = False" "rq_resource (rest_Post cl) = []"
  "rq_err (rest_Delete cl) = None" "rq_namespaceSet (rest_Delete cl) = False" "rq_resource (rest_Delete cl) = []"
  "rq_resourceName (rest_Delete cl) = []"
  "rq_err (rest_Patch cl pt) = None" "rq_namespaceSet (rest_Patch cl pt) = False" "rq_resource (rest_Patch cl pt) = []"
  "rq_resourceName (rest_Patch cl pt) = []" "rq_subresource (rest_Patch cl pt) = []"
  by (simp_all add: rest_Get_def rest_Put_def rest_Post_def rest_Delete_def rest_Patch_def)

lemma call_request_err:
  assumes "valid_segment (jc_resource c)"
  shows "rq_err (call_request c call) = None \<longleftrightarrow>
     valid_segment (jc_ns c) \<and>
     (case call_name c call of None \<Rightarrow> True | Some n \<Rightarrow> n \<noteq> [] \<and> valid_segment n) \<and>
     list_all valid_segment (call_subs call) \<and>
     encodes (map_option (rc_EncodeParameters (jc_client c)) (call_params call)) \<and>
     encodes (call_body c call)"
proof -
  have v: "valid_segment ''status''" by (simp add: valid_segment_iff)
  have e: "encodes (None :: (go_error + 'z) option)" "encodes (Some (Inr x :: go_error + 'z))" for x :: 'z
    by (simp_all add: encodes_def)
  show ?thesis
    using assms
    by (cases call) (auto simp: call_requests Let_def setters_err setters_keep new_requests v e)
qed

definition job_resources :: "string list" where
  "job_resources = [''slurmjobs'', ''wlmjobs'']"

lemma job_resources_laws:
  assumes "res \<in> set job_resources"
  shows "proper res" "strings_ToLower res = res" "valid_segment res" "res \<noteq> ''namespaces''"
  using assms by (auto simp: job_resources_def proper_def valid_segment_iff strings_ToLower_def lower_byte_def)

lemma call_prepare_Ok:
  assumes "call_prepare c call = Ok h"
  shows "rq_err (call_request c call) = None" "h = http_of (call_request c call)"
  using assms
  by (auto simp: call_prepare_def request_prepare_def split: job_call.splits option.splits if_splits)

lemma call_prepare_iff:
  assumes "rq_err (call_request c call) = None"
    "rq_namespaceSet (call_request c call)" "rq_namespace (call_request c call) = jc_ns c"
    "rq_verb (call_request c call) = call_verb call"
    "rq_resourceName (call_request c call) = (case call_name c call of None \<Rightarrow> [] | Some n \<Rightarrow> n)"
    "case call_name c call of None \<Rightarrow> True | Some n \<Rightarrow> n \<noteq> []"
  shows "is_Ok (call_prepare c call) \<longleftrightarrow>
    (jc_ns c = [] \<longrightarrow> call_verb call = ''PATCH'' \<or> (call_name c call = None \<and> call_verb call \<noteq> ''POST''))"
  using assms
  by (cases call) (auto simp: call_prepare_def request_prepare_def split: option.splits)

text \<open>
  A typed client sends a request exactly when the namespace, the name and the subresources are
  valid path segments, the name is not empty where one is needed, everything encodes and the
  namespace is given unless the call lists, watches or deletes a collection or is a patch; every
  other call ends with an error and sends nothing.
\<close>

theorem job_call_sent_iff:
  assumes "jc_resource c \<in> set job_resources"
  shows "is_Ok (call_prepare c call) \<longleftrightarrow> call_admissible c call"
proof (cases "rq_err (call_request c call) = None")
  case True
  note res = job_resources_laws [OF assms]
  note a = addressed_path [OF call_addressed True res(1,2)]
  show ?thesis
    using call_prepare_iff [OF True] a True call_request_err [OF res(3), of call]
    unfolding call_admissible_def by (auto split: option.splits)
next
  case False
  then have "\<not> is_Ok (call_prepare c call)"
    using call_prepare_Ok(1) [of c call] by (cases "call_prepare c call") auto
  with False show ?thesis
    using call_request_err [OF job_resources_laws(3) [OF assms], of call] by (auto simp: call_admissible_def)
qed

text \<open>
  What a typed client sends goes to its own resource: the path is the root of the API group,
  the namespace, the resource, the name and the subresources, in this order, and every one of
  these is a single proper component, whatever the arguments are.
\<close>

theorem job_call_path:
  assumes "jc_resource c \<in> set job_resources" "call_prepare c call = Ok h"
  shows "hr_Verb h = call_verb call \<and>
    hr_Path h = abs_path (resource_path (jc_client c) (jc_ns c) (jc_resource c) (call_name c call) (call_subs call)) \<and>
    list_all proper (resource_path (jc_client c) (jc_ns c) (jc_resource c) (call_name c call) (call_subs call))"
  using call_prepare_Ok [OF assms(2)] job_resources_laws [OF assms(1)]
    addressed_path [OF call_addressed, of c call]
  by (simp add: http_of_def)

lemma job_call_path_shape:
  assumes "jc_resource c \<in> set job_resources" "call_prepare c call = Ok h"
  shows "hr_Path h = abs_path (resource_path (jc_client c) (jc_ns c) (jc_resource c) (call_name c call) (call_subs call))"
    "list_all proper (resource_path (jc_client c) (jc_ns c) (jc_resource c) (call_name c call) (call_subs call))"
  using call_prepare_Ok [OF assms(2)] job_resources_laws [OF assms(1)]
    addressed_path [OF call_addressed, of c call]
  by (simp_all add: http_of_def)

lemma resource_path_inj:
  assumes "res \<noteq> ''namespaces''" "res' \<noteq> ''namespaces''"
    "name = None \<Longrightarrow> filter (\<lambda>s. s \<noteq> []) subs = []" "name' = None \<Longrightarrow> filter (\<lambda>s. s \<noteq> []) subs' = []"
  shows "resource_path cl ns res name subs = resource_path cl ns' res' name' subs' \<longleftrightarrow>
    ns = ns' \<and> res = res' \<and> name = name' \<and> filter (\<lambda>s. s \<noteq> []) subs = filter (\<lambda>s. s \<noteq> []) subs'"
  using assms by (cases name; cases name') (auto simp: resource_path_def)

text \<open>
  C39. Two requests of the typed clients of one REST client have the same path exactly when they
  name the same namespace, resource, object and subresources: no choice of names makes a client
  of one namespace or kind reach the objects of another.
\<close>

theorem job_calls_same_path:
  assumes "jc_resource c \<in> set job_resources" "jc_resource c' \<in> set job_resources"
    "jc_client c' = jc_client c" "call_prepare c call = Ok h" "call_prepare c' call' = Ok h'"
  shows "hr_Path h = hr_Path h' \<longleftrightarrow>
    jc_ns c = jc_ns c' \<and> jc_resource c = jc_resource c' \<and> call_name c call = call_name c' call' \<and>
    filter (\<lambda>s. s \<noteq> []) (call_subs call) = filter (\<lambda>s. s \<noteq> []) (call_subs call')"
proof -
  note p = job_call_path_shape [OF assms(1,4)] and p' = job_call_path_shape [OF assms(2,5)]
  have subs: "call_name d k = None \<Longrightarrow> call_subs k = []" for d :: "('a, 'b, 'c, 'd, 'e) jobs_client" and k
    by (cases k) simp_all
  have subs': "call_name d k = None \<Longrightarrow> call_subs k = []" for d :: "('f, 'g, 'h, 'd, 'e) jobs_client" and k
    by (cases k) simp_all
  have "resource_path (jc_client c) (jc_ns c) (jc_resource c) (call_name c call) (call_subs call) =
        resource_path (jc_client c) (jc_ns c') (jc_resource c') (call_name c' call') (call_subs call') \<longleftrightarrow>
    jc_ns c = jc_ns c' \<and> jc_resource c = jc_resource c' \<and> call_name c call = call_name c' call' \<and>
    filter (\<lambda>s. s \<noteq> []) (call_subs call) = filter (\<lambda>s. s \<noteq> []) (call_subs call')"
    by (rule resource_path_inj)
      (use job_resources_laws(4) assms(1,2) subs [of c call] subs' [of c' call'] in auto)
  with p p' show ?thesis using abs_path_inj [OF p(2) p'(2) [unfolded assms(3)]] assms(3) by simp
qed

text \<open>The clients of a clientset: the root is the path of the host and the group version.\<close>

lemma DefaultVersionedAPIPath_wlm:
  "DefaultVersionedAPIPath ''/apis'' SchemeGroupVersion = abs_path [''apis'', ''wlm.sylabs.io'', ''v1alpha1'']"
  by code_simp

theorem wlm_NewForConfig_root:
  assumes "wlm_NewForConfig env config = Ok cl"
  shows "\<exists>base. env_base_path env (setConfigDefaults env config) = Ok base \<and>
    rest_root cl = clean_comps True (path_comps base) @ [''apis'', ''wlm.sylabs.io'', ''v1alpha1'']"
proof -
  have gv: "cf_GroupVersion (setConfigDefaults env config) = Some SchemeGroupVersion"
    "cf_APIPath (setConfigDefaults env config) = ''/apis''"
    by (simp_all add: setConfigDefaults_def Let_def)
  from assms gv obtain base where base: "env_base_path env (setConfigDefaults env config) = Ok base"
    "rc_base cl = (if base \<noteq> [] \<and> last base = CHR ''/'' then base else base @ ''/'')"
    "rc_versionedAPIPath cl = abs_path [''apis'', ''wlm.sylabs.io'', ''v1alpha1'']"
    by (auto simp: wlm_NewForConfig_def RESTClientFor_def Let_def DefaultVersionedAPIPath_wlm split: if_splits)
  have "path_comps (rc_base cl) = path_comps base"
    using base(2) path_comps_slash [of base "[]"] by (auto split: if_splits)
  moreover have "list_all proper [''apis'', ''wlm.sylabs.io'', ''v1alpha1'']" by (simp add: proper_def)
  ultimately show ?thesis using base
    by (auto simp: rest_root_def clean_comps_append_proper)
qed

text \<open>The timeout of a listing is a product in 64 bits: a long one wraps to a negative duration.\<close>

lemma list_timeout_exact:
  "lo_TimeoutSeconds opts = Some s \<Longrightarrow> 0 \<le> s \<Longrightarrow> s \<le> 9223372036 \<Longrightarrow>
   list_timeout opts = s * time_Second"
  by (simp add: list_timeout_def mul64_def time_Second_def in_int64_def min_int64_def max_int64_def)

lemma list_timeout_overflow: "lo_TimeoutSeconds opts = Some 9223372037 \<Longrightarrow> list_timeout opts < 0"
  by (simp add: list_timeout_def mul64_def time_Second_def wrap64_def)

section \<open>Witnesses\<close>

definition example_client :: "(unit, http_request list) rest_client" where
  "example_client =
     \<lparr>rc_base = ''/'', rc_versionedAPIPath = ''/apis/wlm.sylabs.io/v1alpha1'',
      rc_ContentType = ''application/json'', rc_Timeout = 0, rc_EncodeParameters = \<lambda>_. Inr [],
      rc_Do = \<lambda>h w. (Ok ''{}'', w @ [h]), rc_Watch = \<lambda>h w. (Ok (), w @ [h])\<rparr>"

definition example_jobs :: "string \<Rightarrow> (string, unit, string, unit, http_request list) jobs_client" where
  "example_jobs resource =
     \<lparr>jc_client = example_client, jc_ns = ''default'', jc_resource = resource, jc_name = id,
      jc_encode = Inr, jc_encode_options = Inr, jc_decode = Ok, jc_decode_list = \<lambda>_. Ok ()\<rparr>"

lemma example_get:
  "call_prepare (example_jobs ''slurmjobs'') (CallGet ''cow'' \<lparr>go_ResourceVersion = [], go_IncludeUninitialized = False\<rparr>) =
     Ok \<lparr>hr_Verb = ''GET'', hr_Path = ''/apis/wlm.sylabs.io/v1alpha1/namespaces/default/slurmjobs/cow'',
         hr_Params = [], hr_ContentType = [], hr_Timeout = 0, hr_Body = None\<rparr>"
  by code_simp

lemma example_update_status:
  "call_prepare (example_jobs ''wlmjobs'') (CallUpdateStatus ''cow'') =
     Ok \<lparr>hr_Verb = ''PUT'', hr_Path = ''/apis/wlm.sylabs.io/v1alpha1/namespaces/default/wlmjobs/cow/status'',
         hr_Params = [], hr_ContentType = ''application/json'', hr_Timeout = 0, hr_Body = Some ''cow''\<rparr>"
  by code_simp

lemma example_resource: "jc_resource (example_jobs ''slurmjobs'') \<in> set job_resources"
  "jc_resource (example_jobs ''wlmjobs'') \<in> set job_resources"
  "jc_client (example_jobs ''wlmjobs'') = jc_client (example_jobs ''slurmjobs'')"
  by (simp_all add: example_jobs_def job_resources_def)

theorem job_call_sent_iff_witness:
  "is_Ok (call_prepare (example_jobs ''slurmjobs'') (CallGet ''../../pods'' \<lparr>go_ResourceVersion = [], go_IncludeUninitialized = False\<rparr>)) \<longleftrightarrow> False"
  unfolding job_call_sent_iff [OF example_resource(1)] by code_simp

theorem job_call_path_witness:
  "hr_Path (http_of (call_request (example_jobs ''slurmjobs'') (CallGet ''cow'' \<lparr>go_ResourceVersion = [], go_IncludeUninitialized = False\<rparr>))) =
   abs_path (resource_path example_client ''default'' ''slurmjobs'' (Some ''cow'') [])"
  using job_call_path [OF example_resource(1) example_get] call_prepare_Ok(2) [OF example_get]
  by (simp add: example_jobs_def)

theorem job_calls_same_path_witness:
  "''/apis/wlm.sylabs.io/v1alpha1/namespaces/default/slurmjobs/cow'' =
   (''/apis/wlm.sylabs.io/v1alpha1/namespaces/default/wlmjobs/cow/status'' :: string) \<longleftrightarrow> False"
  using job_calls_same_path [OF example_resource example_get example_update_status]
  by (simp add: example_jobs_def)

end
