(* ===== verification/Fake_Client.thy ===== *)
theory Fake_Client
  imports Reconcile Rest_Client
begin

text \<open>
  The generated fake clients (\<open>client/clientset/versioned/fake/clientset_generated.go\<close>,
  \<open>typed/wlm/v1alpha1/fake/*.go\<close>) on \<open>testing.Fake\<close>: every call records an action and is answered by
  the first reactor of a chain that handles it, in the end by \<open>ObjectReaction\<close> on the object
  tracker. Selectors are parsed and patches are applied by parameters. The fake clients meet the
  contract \<open>object_store\<close>, with the exceptions the last section states.
\<close>

section \<open>Objects and actions\<close>

text \<open>A \<open>runtime.Object\<close> the tracker of the clientset can hold.\<close>

datatype 'v job_object = SlurmJobObject "'v slurm_job" | WlmJobObject "'v wlm_job"

fun object_meta_of :: "'v job_object \<Rightarrow> object_meta" where
  "object_meta_of (SlurmJobObject j) = sj_Meta j"
| "object_meta_of (WlmJobObject j) = wj_Meta j"

fun object_set_ns :: "string \<Rightarrow> 'v job_object \<Rightarrow> 'v job_object" where
  "object_set_ns n (SlurmJobObject j) = SlurmJobObject (sj_set_ns n j)"
| "object_set_ns n (WlmJobObject j) = WlmJobObject (wj_set_ns n j)"

text \<open>\<open>meta.UnsafeGuessKindToResource\<close> on the kinds of the scheme.\<close>

fun object_resource :: "'v job_object \<Rightarrow> string" where
  "object_resource (SlurmJobObject j) = ''slurmjobs''"
| "object_resource (WlmJobObject j) = ''wlmjobs''"

interpretation job_objects: api_object object_meta_of object_set_ns
proof
  show "object_meta_of (object_set_ns n x) = (object_meta_of x)\<lparr>om_Namespace := n\<rparr>" for n and x :: "'a job_object"
    by (cases x) (simp_all add: sj_set_ns_def wj_set_ns_def)
qed

datatype 'v fake_action =
    ListAction (action_resource: string) (action_ns: string)
  | GetAction (action_resource: string) (action_ns: string) string
  | CreateAction (action_resource: string) (action_ns: string) string "'v job_object"
  | UpdateAction (action_resource: string) (action_ns: string) string "'v job_object"
  | DeleteAction (action_resource: string) (action_ns: string) string
  | DeleteCollectionAction (action_resource: string) (action_ns: string)
  | PatchAction (action_resource: string) (action_ns: string) string string string string
  | WatchAction (action_resource: string) (action_ns: string)

fun action_verb :: "'v fake_action \<Rightarrow> string" where
  "action_verb (ListAction res ns) = ''list''"
| "action_verb (GetAction res ns name) = ''get''"
| "action_verb (CreateAction res ns sub obj) = ''create''"
| "action_verb (UpdateAction res ns sub obj) = ''update''"
| "action_verb (DeleteAction res ns name) = ''delete''"
| "action_verb (DeleteCollectionAction res ns) = ''delete-collection''"
| "action_verb (PatchAction res ns name pt data sub) = ''patch''"
| "action_verb (WatchAction res ns) = ''watch''"

text \<open>What a reaction returns in place of an object: nothing, an object or a list.\<close>

datatype 'v fake_ret = RNil | RObject "'v job_object" | RList "'v job_object list"

type_synonym 'v tracker_objects = "string \<Rightarrow> 'v job_object list"

text \<open>A reaction gives \<open>(handled, ret, err)\<close> and changes the tracker.\<close>

type_synonym 'v reaction =
  "'v fake_action \<Rightarrow> 'v tracker_objects \<Rightarrow> (bool \<times> 'v fake_ret \<times> go_error option) \<times> 'v tracker_objects"

record 'v reactor =
  re_Verb :: string
  re_Resource :: string
  re_Reaction :: "'v reaction"

definition Handles :: "'v reactor \<Rightarrow> 'v fake_action \<Rightarrow> bool" where
  "Handles r action \<longleftrightarrow>
     (re_Verb r = ''*'' \<or> re_Verb r = action_verb action) \<and>
     (re_Resource r = ''*'' \<or> re_Resource r = action_resource action)"

record 'v fake =
  fk_actions :: "'v fake_action list"
  fk_ReactionChain :: "'v reactor list"
  fk_objects :: "'v tracker_objects"

fun go_ret :: "('a \<Rightarrow> 'v fake_ret) \<Rightarrow> 'a go \<Rightarrow> 'v fake_ret \<times> go_error option" where
  "go_ret f (Ok x) = (f x, None)"
| "go_ret f (Err e) = (RNil, Some e)"
| "go_ret f (Panic s) = (RNil, Some (ErrorString s))"

section \<open>The reactions\<close>

text \<open>
  \<open>ObjectReaction\<close>. \<open>patch\<close> stands for the JSON and strategic merge patches: a patch type and a
  patch applied to an object. A list holds the objects of one kind. What is not handled falls through to the next reactor.
\<close>

definition changed :: "string \<Rightarrow> 'v tracker_objects \<Rightarrow> 'v job_object list go \<Rightarrow>
  ('v job_object list \<Rightarrow> 'v fake_ret \<times> go_error option) \<Rightarrow>
  (bool \<times> 'v fake_ret \<times> go_error option) \<times> 'v tracker_objects" where
  "changed res t objs ret =
     (case objs of
        Ok xs \<Rightarrow> ((True, ret xs), t(res := xs))
      | Err e \<Rightarrow> ((True, RNil, Some e), t)
      | Panic s \<Rightarrow> ((True, RNil, Some (ErrorString s)), t))"

fun ObjectReaction :: "(string \<Rightarrow> string \<Rightarrow> 'v job_object \<Rightarrow> go_error + 'v job_object) \<Rightarrow> 'v reaction" where
  "ObjectReaction patch (ListAction res ns) t =
     (let xs = tracker_List object_meta_of (t res) ns
      in if list_all (\<lambda>x. object_resource x = res) xs then ((True, RList xs, None), t)
         else ((True, RNil, Some (ErrorString ''can't assign or convert item'')), t))"
| "ObjectReaction patch (GetAction res ns name) t =
     ((True, go_ret RObject (tracker_Get object_meta_of (t res) ns name)), t)"
| "ObjectReaction patch (CreateAction res ns sub obj) t =
     changed res t
       (if sub = [] then tracker_Create object_meta_of object_set_ns (t res) obj ns
        else tracker_Update object_meta_of object_set_ns (t res) obj ns)
       (\<lambda>xs. go_ret RObject (tracker_Get object_meta_of xs ns (om_Name (object_meta_of obj))))"
| "ObjectReaction patch (UpdateAction res ns sub obj) t =
     changed res t (tracker_Update object_meta_of object_set_ns (t res) obj ns)
       (\<lambda>xs. go_ret RObject (tracker_Get object_meta_of xs ns (om_Name (object_meta_of obj))))"
| "ObjectReaction patch (DeleteAction res ns name) t =
     changed res t (tracker_Delete object_meta_of (t res) ns name) (\<lambda>xs. (RNil, None))"
| "ObjectReaction patch (PatchAction res ns name pt data sub) t =
     (case tracker_Get object_meta_of (t res) ns name of
        Ok obj \<Rightarrow>
          (case patch pt data obj of
             Inl e \<Rightarrow> ((True, RNil, Some e), t)
           | Inr obj \<Rightarrow> changed res t (tracker_Update object_meta_of object_set_ns (t res) obj ns) (\<lambda>xs. (RObject obj, None)))
      | Err e \<Rightarrow> ((False, RNil, Some e), t)
      | Panic s \<Rightarrow> ((False, RNil, Some (ErrorString s)), t))"
| "ObjectReaction patch (DeleteCollectionAction res ns) t =
     ((False, RNil, Some (ErrorString ''no reaction implemented'')), t)"
| "ObjectReaction patch (WatchAction res ns) t =
     ((False, RNil, Some (ErrorString ''no reaction implemented'')), t)"

fun react_chain :: "'v reactor list \<Rightarrow> 'v fake_action \<Rightarrow> 'v fake_ret \<Rightarrow> 'v tracker_objects \<Rightarrow>
  ('v fake_ret \<times> go_error option) \<times> 'v tracker_objects" where
  "react_chain [] action defaultReturnObj t = ((defaultReturnObj, None), t)"
| "react_chain (r # rs) action defaultReturnObj t =
     (if \<not> Handles r action then react_chain rs action defaultReturnObj t
      else
        (let ((handled, ret, err), t) = re_Reaction r action t
         in if \<not> handled then react_chain rs action defaultReturnObj t else ((ret, err), t)))"

definition Invokes :: "'v fake_action \<Rightarrow> 'v fake_ret \<Rightarrow> 'v fake \<Rightarrow> ('v fake_ret \<times> go_error option) \<times> 'v fake" where
  "Invokes action defaultReturnObj fk =
     (let fk = fk\<lparr>fk_actions := fk_actions fk @ [action]\<rparr>;
          (res, t) = react_chain (fk_ReactionChain fk) action defaultReturnObj (fk_objects fk)
      in (res, fk\<lparr>fk_objects := t\<rparr>))"

definition AddReactor :: "string \<Rightarrow> string \<Rightarrow> 'v reaction \<Rightarrow> 'v fake \<Rightarrow> 'v fake" where
  "AddReactor verb resource reaction fk =
     fk\<lparr>fk_ReactionChain := fk_ReactionChain fk @ [\<lparr>re_Verb = verb, re_Resource = resource, re_Reaction = reaction\<rparr>]\<rparr>"

definition PrependReactor :: "string \<Rightarrow> string \<Rightarrow> 'v reaction \<Rightarrow> 'v fake \<Rightarrow> 'v fake" where
  "PrependReactor verb resource reaction fk =
     fk\<lparr>fk_ReactionChain := \<lparr>re_Verb = verb, re_Resource = resource, re_Reaction = reaction\<rparr> # fk_ReactionChain fk\<rparr>"

section \<open>The clientset\<close>

text \<open>\<open>Add\<close> of the tracker puts an object under the resource its kind is guessed to have.\<close>

definition tracker_Add :: "'v tracker_objects \<Rightarrow> 'v job_object \<Rightarrow> 'v tracker_objects go" where
  "tracker_Add t obj =
     (let res = object_resource obj
      in go_bind (tracker_add object_meta_of object_set_ns (t res) obj (om_Namespace (object_meta_of obj)) False)
           (\<lambda>xs. Ok (t(res := xs))))"

fun tracker_Add_all :: "'v tracker_objects \<Rightarrow> 'v job_object list \<Rightarrow> 'v tracker_objects go" where
  "tracker_Add_all t [] = Ok t"
| "tracker_Add_all t (obj # objs) =
     (case tracker_Add t obj of
        Ok t \<Rightarrow> tracker_Add_all t objs
      | Err e \<Rightarrow> Panic ''object cannot be added''
      | Panic s \<Rightarrow> Panic s)"

definition NewSimpleClientset ::
  "(string \<Rightarrow> string \<Rightarrow> 'v job_object \<Rightarrow> go_error + 'v job_object) \<Rightarrow> 'v job_object list \<Rightarrow> 'v fake go" where
  "NewSimpleClientset patch objects =
     go_bind (tracker_Add_all (\<lambda>_. []) objects) (\<lambda>t.
       Ok (AddReactor ''*'' ''*'' (ObjectReaction patch)
             \<lparr>fk_actions = [], fk_ReactionChain = [], fk_objects = t\<rparr>))"

section \<open>The typed fakes\<close>

text \<open>
  The methods of \<open>FakeSlurmJobs\<close> and \<open>FakeWlmJobs\<close> are the same up to the resource and the type
  of the objects. A type assertion on an object of the other kind panics. The result \<open>Ok None\<close> is
  the nil pointer without an error.
\<close>

record ('v, 'j) fake_kind =
  fki_resource :: string
  fki_inject :: "'j \<Rightarrow> 'v job_object"
  fki_project :: "'v job_object \<Rightarrow> 'j option"
  fki_zero :: 'j

definition fake_slurm_jobs :: "('v, 'v slurm_job) fake_kind" where
  "fake_slurm_jobs =
     \<lparr>fki_resource = ''slurmjobs'', fki_inject = SlurmJobObject,
      fki_project = (\<lambda>x. case x of SlurmJobObject j \<Rightarrow> Some j | WlmJobObject j \<Rightarrow> None),
      fki_zero = zero_slurm_job\<rparr>"

definition fake_wlm_jobs :: "('v, 'v wlm_job) fake_kind" where
  "fake_wlm_jobs =
     \<lparr>fki_resource = ''wlmjobs'', fki_inject = WlmJobObject,
      fki_project = (\<lambda>x. case x of WlmJobObject j \<Rightarrow> Some j | SlurmJobObject j \<Rightarrow> None),
      fki_zero = zero_wlm_job\<rparr>"

definition with_err :: "'a \<Rightarrow> go_error option \<Rightarrow> 'a go" where
  "with_err x err = (case err of None \<Rightarrow> Ok x | Some e \<Rightarrow> Err e)"

definition as_job :: "('v, 'j) fake_kind \<Rightarrow> 'v fake_ret \<times> go_error option \<Rightarrow> 'j option go" where
  "as_job kind res =
     (case fst res of
        RNil \<Rightarrow> with_err None (snd res)
      | RObject obj \<Rightarrow>
          (case fki_project kind obj of
             None \<Rightarrow> Panic ''interface conversion'' | Some j \<Rightarrow> with_err (Some j) (snd res))
      | RList objs \<Rightarrow> Panic ''interface conversion'')"

definition as_list ::
  "('v, 'j) fake_kind \<Rightarrow> ((string \<rightharpoonup> string) \<Rightarrow> bool) \<Rightarrow> 'v fake_ret \<times> go_error option \<Rightarrow> 'j list option go" where
  "as_list kind label res =
     (case fst res of
        RNil \<Rightarrow> with_err None (snd res)
      | RObject obj \<Rightarrow> Panic ''interface conversion''
      | RList objs \<Rightarrow>
          with_err (Some (List.map_filter (fki_project kind)
                            (filter (\<lambda>x. label (om_Labels (object_meta_of x))) objs))) (snd res))"

text \<open>\<open>labels.Parse\<close> and \<open>fields.ParseSelector\<close>; a selector they reject makes \<open>ExtractFromListOptions\<close> panic.\<close>

record selectors =
  se_Parse :: "string \<Rightarrow> ((string \<rightharpoonup> string) \<Rightarrow> bool) option"
  se_ParseSelector :: "string \<Rightarrow> unit option"

definition ExtractFromListOptions :: "selectors \<Rightarrow> list_options \<Rightarrow> ((string \<rightharpoonup> string) \<Rightarrow> bool) go" where
  "ExtractFromListOptions se opts =
     (case se_Parse se (lo_LabelSelector opts) of
        None \<Rightarrow> Panic ''invalid selector''
      | Some label \<Rightarrow>
          (case se_ParseSelector se (lo_FieldSelector opts) of
             None \<Rightarrow> Panic ''invalid selector''
           | Some _ \<Rightarrow> Ok label))"

definition FakeJobs_Get :: "('v, 'j) fake_kind \<Rightarrow> string \<Rightarrow> string \<Rightarrow> 'v fake \<Rightarrow> 'j option go \<times> 'v fake" where
  "FakeJobs_Get kind ns name fk =
     (let (res, fk) = Invokes (GetAction (fki_resource kind) ns name) (RObject (fki_inject kind (fki_zero kind))) fk
      in (as_job kind res, fk))"

definition FakeJobs_List ::
  "selectors \<Rightarrow> ('v, 'j) fake_kind \<Rightarrow> string \<Rightarrow> list_options \<Rightarrow> 'v fake \<Rightarrow> 'j list option go \<times> 'v fake" where
  "FakeJobs_List se kind ns opts fk =
     (case ExtractFromListOptions se opts of
        Ok label \<Rightarrow>
          (let (res, fk) = Invokes (ListAction (fki_resource kind) ns) (RList []) fk
           in (as_list kind label res, fk))
      | Err e \<Rightarrow> (Err e, fk)
      | Panic s \<Rightarrow> (Panic s, fk))"

definition FakeJobs_Create :: "('v, 'j) fake_kind \<Rightarrow> string \<Rightarrow> 'j \<Rightarrow> 'v fake \<Rightarrow> 'j option go \<times> 'v fake" where
  "FakeJobs_Create kind ns job fk =
     (let (res, fk) = Invokes (CreateAction (fki_resource kind) ns [] (fki_inject kind job))
                        (RObject (fki_inject kind (fki_zero kind))) fk
      in (as_job kind res, fk))"

definition FakeJobs_Update :: "('v, 'j) fake_kind \<Rightarrow> string \<Rightarrow> 'j \<Rightarrow> 'v fake \<Rightarrow> 'j option go \<times> 'v fake" where
  "FakeJobs_Update kind ns job fk =
     (let (res, fk) = Invokes (UpdateAction (fki_resource kind) ns [] (fki_inject kind job))
                        (RObject (fki_inject kind (fki_zero kind))) fk
      in (as_job kind res, fk))"

definition FakeJobs_UpdateStatus :: "('v, 'j) fake_kind \<Rightarrow> string \<Rightarrow> 'j \<Rightarrow> 'v fake \<Rightarrow> 'j option go \<times> 'v fake" where
  "FakeJobs_UpdateStatus kind ns job fk =
     (let (res, fk) = Invokes (UpdateAction (fki_resource kind) ns ''status'' (fki_inject kind job))
                        (RObject (fki_inject kind (fki_zero kind))) fk
      in (as_job kind res, fk))"

definition FakeJobs_Delete :: "('v, 'j) fake_kind \<Rightarrow> string \<Rightarrow> string \<Rightarrow> 'v fake \<Rightarrow> unit go \<times> 'v fake" where
  "FakeJobs_Delete kind ns name fk =
     (let (res, fk) = Invokes (DeleteAction (fki_resource kind) ns name) (RObject (fki_inject kind (fki_zero kind))) fk
      in (with_err () (snd res), fk))"

definition FakeJobs_DeleteCollection ::
  "selectors \<Rightarrow> ('v, 'j) fake_kind \<Rightarrow> string \<Rightarrow> list_options \<Rightarrow> 'v fake \<Rightarrow> unit go \<times> 'v fake" where
  "FakeJobs_DeleteCollection se kind ns listOptions fk =
     (case ExtractFromListOptions se listOptions of
        Ok label \<Rightarrow>
          (let (res, fk) = Invokes (DeleteCollectionAction (fki_resource kind) ns) (RList []) fk
           in (with_err () (snd res), fk))
      | Err e \<Rightarrow> (Err e, fk)
      | Panic s \<Rightarrow> (Panic s, fk))"

definition FakeJobs_Patch ::
  "('v, 'j) fake_kind \<Rightarrow> string \<Rightarrow> string \<Rightarrow> string \<Rightarrow> string \<Rightarrow> string list \<Rightarrow> 'v fake \<Rightarrow> 'j option go \<times> 'v fake" where
  "FakeJobs_Patch kind ns name pt data subresources fk =
     (let (res, fk) = Invokes (PatchAction (fki_resource kind) ns name pt data (path_Join subresources))
                        (RObject (fki_inject kind (fki_zero kind))) fk
      in (as_job kind res, fk))"

text \<open>The methods of \<open>FakeSlurmJobs\<close> and of \<open>FakeWlmJobs\<close>.\<close>

definition FakeSlurmJobs_Get where "FakeSlurmJobs_Get = FakeJobs_Get fake_slurm_jobs"
definition FakeSlurmJobs_List where "FakeSlurmJobs_List se = FakeJobs_List se fake_slurm_jobs"
definition FakeSlurmJobs_Create where "FakeSlurmJobs_Create = FakeJobs_Create fake_slurm_jobs"
definition FakeSlurmJobs_Update where "FakeSlurmJobs_Update = FakeJobs_Update fake_slurm_jobs"
definition FakeSlurmJobs_UpdateStatus where "FakeSlurmJobs_UpdateStatus = FakeJobs_UpdateStatus fake_slurm_jobs"
definition FakeSlurmJobs_Delete where "FakeSlurmJobs_Delete = FakeJobs_Delete fake_slurm_jobs"
definition FakeSlurmJobs_DeleteCollection where "FakeSlurmJobs_DeleteCollection se = FakeJobs_DeleteCollection se fake_slurm_jobs"
definition FakeSlurmJobs_Patch where "FakeSlurmJobs_Patch = FakeJobs_Patch fake_slurm_jobs"

definition FakeWlmJobs_Get where "FakeWlmJobs_Get = FakeJobs_Get fake_wlm_jobs"
definition FakeWlmJobs_List where "FakeWlmJobs_List se = FakeJobs_List se fake_wlm_jobs"
definition FakeWlmJobs_Create where "FakeWlmJobs_Create = FakeJobs_Create fake_wlm_jobs"
definition FakeWlmJobs_Update where "FakeWlmJobs_Update = FakeJobs_Update fake_wlm_jobs"
definition FakeWlmJobs_UpdateStatus where "FakeWlmJobs_UpdateStatus = FakeJobs_UpdateStatus fake_wlm_jobs"
definition FakeWlmJobs_Delete where "FakeWlmJobs_Delete = FakeJobs_Delete fake_wlm_jobs"
definition FakeWlmJobs_DeleteCollection where "FakeWlmJobs_DeleteCollection se = FakeJobs_DeleteCollection se fake_wlm_jobs"
definition FakeWlmJobs_Patch where "FakeWlmJobs_Patch = FakeJobs_Patch fake_wlm_jobs"

section \<open>The fake clients are stores\<close>

definition fake_ok ::
  "(string \<Rightarrow> string \<Rightarrow> 'v job_object \<Rightarrow> go_error + 'v job_object) \<Rightarrow> 'v fake \<Rightarrow> bool" where
  "fake_ok patch fk \<longleftrightarrow>
     fk_ReactionChain fk = [\<lparr>re_Verb = ''*'', re_Resource = ''*'', re_Reaction = ObjectReaction patch\<rparr>] \<and>
     (\<forall>res. tracker_ok object_meta_of (fk_objects fk res) \<and>
            (\<forall>x \<in> set (fk_objects fk res). object_resource x = res))"

definition recorded :: "'v fake_action \<Rightarrow> string \<Rightarrow> 'v job_object list \<Rightarrow> 'v fake \<Rightarrow> 'v fake" where
  "recorded action res xs fk =
     fk\<lparr>fk_actions := fk_actions fk @ [action], fk_objects := (fk_objects fk)(res := xs)\<rparr>"

lemma react_single:
  "react_chain [\<lparr>re_Verb = ''*'', re_Resource = ''*'', re_Reaction = reaction\<rparr>] action d t =
     (case reaction action t of
        ((handled, ret, err), t') \<Rightarrow> (if handled then (ret, err) else (d, None), t'))"
proof -
  obtain handled ret err t' where "reaction action t = ((handled, ret, err), t')" by (metis prod_cases3 surj_pair)
  then show ?thesis by (simp add: Handles_def)
qed

lemma Invokes_ok:
  assumes "fake_ok patch fk" "ObjectReaction patch action (fk_objects fk) = ((handled, ret, err), t)"
  shows "Invokes action d fk =
    (if handled then (ret, err) else (d, None), fk\<lparr>fk_actions := fk_actions fk @ [action], fk_objects := t\<rparr>)"
proof -
  have "fk_ReactionChain fk = [\<lparr>re_Verb = ''*'', re_Resource = ''*'', re_Reaction = ObjectReaction patch\<rparr>]"
    using assms(1) by (simp only: fake_ok_def)
  then show ?thesis
    using assms(2) by (simp add: Invokes_def react_single del: react_chain.simps)
qed

lemma fake_ok_recorded:
  assumes "fake_ok patch fk" "tracker_ok object_meta_of xs" "\<forall>x \<in> set xs. object_resource x = res"
  shows "fake_ok patch (recorded action res xs fk)"
  using assms by (simp add: fake_ok_def recorded_def)

lemma recorded_same: "recorded action res (fk_objects fk res) fk = fk\<lparr>fk_actions := fk_actions fk @ [action]\<rparr>"
  by (simp add: recorded_def)

lemma recorded_fields [simp]:
  "fk_objects (recorded action res xs fk) = (fk_objects fk)(res := xs)"
  "fk_actions (recorded action res xs fk) = fk_actions fk @ [action]"
  by (simp_all add: recorded_def)

definition fake_view :: "('v, 'j) fake_kind \<Rightarrow> 'v fake \<Rightarrow> obj_key \<Rightarrow> 'j option" where
  "fake_view kind fk k =
     Option.bind (tracker_view object_meta_of (fk_objects fk (fki_resource kind)) k) (fki_project kind)"

definition fake_get :: "('v, 'j) fake_kind \<Rightarrow> 'v fake \<Rightarrow> obj_key \<Rightarrow> 'j go" where
  "fake_get kind fk k =
     go_bind (fst (FakeJobs_Get kind (fst k) (snd k) fk))
       (\<lambda>r. case r of None \<Rightarrow> Panic ''nil pointer'' | Some j \<Rightarrow> Ok j)"

definition then_state :: "'a go \<times> 's \<Rightarrow> 's go" where
  "then_state res = go_bind (fst res) (\<lambda>_. Ok (snd res))"

locale fake_jobs =
  fixes kind :: "('v, 'j) fake_kind" and meta :: "'j \<Rightarrow> object_meta"
    and patch :: "string \<Rightarrow> string \<Rightarrow> 'v job_object \<Rightarrow> go_error + 'v job_object"
  assumes project_inject [simp]: "fki_project kind (fki_inject kind j) = Some j"
    and meta_inject [simp]: "object_meta_of (fki_inject kind j) = meta j"
    and resource_inject [simp]: "object_resource (fki_inject kind j) = fki_resource kind"
    and resource_project: "object_resource x = fki_resource kind \<Longrightarrow> \<exists>j. x = fki_inject kind j"
begin

abbreviation objects where "objects fk \<equiv> fk_objects fk (fki_resource kind)"

lemma objects_ok: "fake_ok patch fk \<Longrightarrow> tracker_ok object_meta_of (objects fk)"
  by (simp add: fake_ok_def)

lemma objects_inject: "fake_ok patch fk \<Longrightarrow> x \<in> set (objects fk) \<Longrightarrow> \<exists>j. x = fki_inject kind j"
  using resource_project by (auto simp: fake_ok_def)

lemma inject_eq [simp]: "fki_inject kind i = fki_inject kind j \<longleftrightarrow> i = j"
  by (metis project_inject option.inject)

lemma view_tracker:
  assumes "fake_ok patch fk"
  shows "tracker_view object_meta_of (objects fk) k = map_option (fki_inject kind) (fake_view kind fk k)"
proof (cases "tracker_view object_meta_of (objects fk) k")
  case (Some x)
  then obtain j where "x = fki_inject kind j"
    using objects_inject [OF assms, of x] tracker_view_Some [of object_meta_of "objects fk" k x] by auto
  with Some show ?thesis by (simp add: fake_view_def)
qed (simp add: fake_view_def)

lemma view_recorded:
  "fake_view kind (recorded action (fki_resource kind) xs fk) k =
   Option.bind (tracker_view object_meta_of xs k) (fki_project kind)"
  by (simp add: fake_view_def)

lemma view_update:
  assumes "fake_ok patch fk" "tracker_view object_meta_of xs = (tracker_view object_meta_of (objects fk))(k \<mapsto> fki_inject kind j)"
  shows "fake_view kind (recorded action (fki_resource kind) xs fk) = (fake_view kind fk)(k \<mapsto> j)"
  using assms(2) by (auto simp: view_recorded fake_view_def)

lemma view_remove:
  assumes "tracker_view object_meta_of xs = (tracker_view object_meta_of (objects fk))(k := None)"
  shows "fake_view kind (recorded action (fki_resource kind) xs fk) = (fake_view kind fk)(k := None)"
  using assms by (auto simp: view_recorded fake_view_def)

lemma view_elements:
  assumes "fake_ok patch fk" "tracker_ok object_meta_of xs"
    "ran (tracker_view object_meta_of xs) \<subseteq> insert (fki_inject kind j) (set (objects fk))"
  shows "fake_ok patch (recorded action (fki_resource kind) xs fk)"
proof (rule fake_ok_recorded [OF assms(1,2)])
  show "\<forall>x \<in> set xs. object_resource x = fki_resource kind"
    using assms(3) assms(1) tracker_ran [OF assms(2)] by (auto simp: fake_ok_def)
qed

end

context fake_jobs
begin

lemma view_None_iff:
  "fake_ok patch fk \<Longrightarrow> tracker_view object_meta_of (objects fk) k = None \<longleftrightarrow> fake_view kind fk k = None"
  by (simp add: view_tracker)

lemma get_tracker:
  assumes "fake_ok patch fk" "tracker_ok object_meta_of xs" "named k"
    "tracker_view object_meta_of xs k = Some (fki_inject kind j)"
  shows "as_job kind (go_ret RObject (tracker_Get object_meta_of xs (fst k) (snd k))) = Ok (Some j)"
  using tracker_Get_view [OF assms(2,3)] assms(4) by (simp add: as_job_def with_err_def)

lemma Get_result:
  assumes "fake_ok patch fk" "named k"
  shows "FakeJobs_Get kind (fst k) (snd k) fk =
    (case fake_view kind fk k of None \<Rightarrow> Err ApiNotFound | Some j \<Rightarrow> Ok (Some j),
     recorded (GetAction (fki_resource kind) (fst k) (snd k)) (fki_resource kind) (objects fk) fk)"
proof -
  let ?a = "GetAction (fki_resource kind) (fst k) (snd k) :: 'v fake_action"
  have g: "tracker_Get object_meta_of (objects fk) (fst k) (snd k) =
      (case fake_view kind fk k of None \<Rightarrow> Err ApiNotFound | Some j \<Rightarrow> Ok (fki_inject kind j))"
    using tracker_Get_view [OF objects_ok [OF assms(1)] assms(2)] view_tracker [OF assms(1), of k]
    by (simp split: option.splits)
  obtain ret err where r: "go_ret RObject (tracker_Get object_meta_of (objects fk) (fst k) (snd k)) = (ret, err)"
    by (cases "go_ret RObject (tracker_Get object_meta_of (objects fk) (fst k) (snd k))")
  have "ObjectReaction patch ?a (fk_objects fk) = ((True, ret, err), fk_objects fk)" using r by simp
  from Invokes_ok [OF assms(1) this] r g show ?thesis
    by (auto simp: FakeJobs_Get_def recorded_same as_job_def with_err_def split: option.splits)
qed

text \<open>What the writing calls do with what the tracker returns.\<close>

lemma changed_Ok:
  assumes "fake_ok patch fk" "ObjectReaction patch a (fk_objects fk) = changed (fki_resource kind) (fk_objects fk) (Ok xs) ret"
  shows "Invokes a d fk = (ret xs, recorded a (fki_resource kind) xs fk)"
proof -
  obtain r e where "ret xs = (r, e)" by (cases "ret xs")
  with Invokes_ok [OF assms(1), of a True r e "(fk_objects fk)(fki_resource kind := xs)"] assms(2)
  show ?thesis by (simp add: changed_def recorded_def)
qed

lemma changed_Err:
  assumes "fake_ok patch fk" "ObjectReaction patch a (fk_objects fk) = changed (fki_resource kind) (fk_objects fk) (Err e) ret"
  shows "Invokes a d fk = ((RNil, Some e), recorded a (fki_resource kind) (objects fk) fk)"
  using Invokes_ok [OF assms(1), of a True RNil "Some e" "fk_objects fk"] assms(2)
  by (simp add: changed_def recorded_same)

lemma stored:
  assumes "fake_ok patch fk" "named (meta_key (meta j))" "tracker_ok object_meta_of xs"
    "tracker_view object_meta_of xs = (tracker_view object_meta_of (objects fk))(meta_key (meta j) \<mapsto> fki_inject kind j)"
  shows "fake_ok patch (recorded a (fki_resource kind) xs fk) \<and>
    fake_view kind (recorded a (fki_resource kind) xs fk) = (fake_view kind fk)(meta_key (meta j) \<mapsto> j) \<and>
    as_job kind (go_ret RObject (tracker_Get object_meta_of xs (om_Namespace (meta j)) (om_Name (meta j)))) = Ok (Some j)"
proof (intro conjI)
  show "fake_ok patch (recorded a (fki_resource kind) xs fk)"
    using assms(4) tracker_ran [OF objects_ok [OF assms(1)]]
    by (intro view_elements [OF assms(1,3), of j]) (auto simp: ran_def split: if_splits)
  show "fake_view kind (recorded a (fki_resource kind) xs fk) = (fake_view kind fk)(meta_key (meta j) \<mapsto> j)"
    by (rule view_update [OF assms(1,4)])
  show "as_job kind (go_ret RObject (tracker_Get object_meta_of xs (om_Namespace (meta j)) (om_Name (meta j)))) = Ok (Some j)"
    using get_tracker [OF assms(1,3,2), of j] assms(4) by (simp add: meta_key_def)
qed

lemma Create_result:
  assumes "fake_ok patch fk" "named (meta_key (meta j))"
  shows "fake_view kind fk (meta_key (meta j)) = None \<Longrightarrow>
      \<exists>fk'. FakeJobs_Create kind (om_Namespace (meta j)) j fk = (Ok (Some j), fk') \<and> fake_ok patch fk' \<and>
        fake_view kind fk' = (fake_view kind fk)(meta_key (meta j) \<mapsto> j)"
    and "fake_view kind fk (meta_key (meta j)) \<noteq> None \<Longrightarrow>
      \<exists>a. FakeJobs_Create kind (om_Namespace (meta j)) j fk =
        (Err ApiAlreadyExists, recorded a (fki_resource kind) (objects fk) fk)"
proof -
  let ?x = "fki_inject kind j" and ?ns = "om_Namespace (meta j)"
  let ?a = "CreateAction (fki_resource kind) ?ns [] ?x"
  note ok = objects_ok [OF assms(1)]
  have x: "named (meta_key (object_meta_of ?x))" using assms(2) by simp
  {
    assume "fake_view kind fk (meta_key (meta j)) = None"
    then obtain xs where xs: "tracker_Create object_meta_of object_set_ns (objects fk) ?x ?ns = Ok xs"
      "tracker_ok object_meta_of xs"
      "tracker_view object_meta_of xs = (tracker_view object_meta_of (objects fk))(meta_key (meta j) \<mapsto> ?x)"
      using job_objects.store.create_view [OF ok x] by (auto simp: view_None_iff [OF assms(1)])
    with changed_Ok [OF assms(1), of ?a xs] stored [OF assms xs(2,3)]
    show "\<exists>fk'. FakeJobs_Create kind (om_Namespace (meta j)) j fk = (Ok (Some j), fk') \<and> fake_ok patch fk' \<and>
        fake_view kind fk' = (fake_view kind fk)(meta_key (meta j) \<mapsto> j)"
      by (simp add: FakeJobs_Create_def)
  next
    assume "fake_view kind fk (meta_key (meta j)) \<noteq> None"
    then have "tracker_Create object_meta_of object_set_ns (objects fk) ?x ?ns = Err ApiAlreadyExists"
      using job_objects.store.create_exists [OF ok x] by (auto simp: view_None_iff [OF assms(1)])
    with changed_Err [OF assms(1), of ?a ApiAlreadyExists]
    show "\<exists>a. FakeJobs_Create kind (om_Namespace (meta j)) j fk =
        (Err ApiAlreadyExists, recorded a (fki_resource kind) (objects fk) fk)"
      by (auto simp: FakeJobs_Create_def as_job_def with_err_def)
  }
qed

lemma Update_result:
  assumes "fake_ok patch fk" "named (meta_key (meta j))"
  shows "fake_view kind fk (meta_key (meta j)) \<noteq> None \<Longrightarrow>
      \<exists>fk'. FakeJobs_Update kind (om_Namespace (meta j)) j fk = (Ok (Some j), fk') \<and> fake_ok patch fk' \<and>
        fake_view kind fk' = (fake_view kind fk)(meta_key (meta j) \<mapsto> j)"
    and "fake_view kind fk (meta_key (meta j)) = None \<Longrightarrow>
      \<exists>a. FakeJobs_Update kind (om_Namespace (meta j)) j fk =
        (Err ApiNotFound, recorded a (fki_resource kind) (objects fk) fk)"
proof -
  let ?x = "fki_inject kind j" and ?ns = "om_Namespace (meta j)"
  let ?a = "UpdateAction (fki_resource kind) ?ns [] ?x"
  note ok = objects_ok [OF assms(1)]
  have x: "named (meta_key (object_meta_of ?x))" using assms(2) by simp
  {
    assume "fake_view kind fk (meta_key (meta j)) \<noteq> None"
    then obtain xs where xs: "tracker_Update object_meta_of object_set_ns (objects fk) ?x ?ns = Ok xs"
      "tracker_ok object_meta_of xs"
      "tracker_view object_meta_of xs = (tracker_view object_meta_of (objects fk))(meta_key (meta j) \<mapsto> ?x)"
      using job_objects.store.update_view [OF ok x] by (auto simp: view_None_iff [OF assms(1)])
    with changed_Ok [OF assms(1), of ?a xs] stored [OF assms xs(2,3)]
    show "\<exists>fk'. FakeJobs_Update kind (om_Namespace (meta j)) j fk = (Ok (Some j), fk') \<and> fake_ok patch fk' \<and>
        fake_view kind fk' = (fake_view kind fk)(meta_key (meta j) \<mapsto> j)"
      by (simp add: FakeJobs_Update_def)
  next
    assume "fake_view kind fk (meta_key (meta j)) = None"
    then have "tracker_Update object_meta_of object_set_ns (objects fk) ?x ?ns = Err ApiNotFound"
      using job_objects.store.update_missing [OF ok x] by (auto simp: view_None_iff [OF assms(1)])
    with changed_Err [OF assms(1), of ?a ApiNotFound]
    show "\<exists>a. FakeJobs_Update kind (om_Namespace (meta j)) j fk =
        (Err ApiNotFound, recorded a (fki_resource kind) (objects fk) fk)"
      by (auto simp: FakeJobs_Update_def as_job_def with_err_def)
  }
qed

end

context fake_jobs
begin

lemma Delete_result:
  assumes "fake_ok patch fk" "named k"
  shows "fake_view kind fk k \<noteq> None \<Longrightarrow>
      \<exists>fk'. FakeJobs_Delete kind (fst k) (snd k) fk = (Ok (), fk') \<and> fake_ok patch fk' \<and>
        fake_view kind fk' = (fake_view kind fk)(k := None)"
    and "fake_view kind fk k = None \<Longrightarrow>
      \<exists>a. FakeJobs_Delete kind (fst k) (snd k) fk =
        (Err ApiNotFound, recorded a (fki_resource kind) (objects fk) fk)"
proof -
  let ?a = "DeleteAction (fki_resource kind) (fst k) (snd k) :: 'v fake_action"
  note ok = objects_ok [OF assms(1)]
  {
    assume "fake_view kind fk k \<noteq> None"
    then obtain xs where xs: "tracker_Delete object_meta_of (objects fk) (fst k) (snd k) = Ok xs"
      "tracker_ok object_meta_of xs"
      "tracker_view object_meta_of xs = (tracker_view object_meta_of (objects fk))(k := None)"
      using job_objects.store.delete_view [OF ok assms(2)] by (auto simp: view_None_iff [OF assms(1)])
    have "fake_ok patch (recorded ?a (fki_resource kind) xs fk)"
      using xs(3) tracker_ran [OF ok] tracker_ran [OF xs(2)]
      by (intro view_elements [OF assms(1) xs(2), of undefined]) (auto simp: ran_def split: if_splits)
    with changed_Ok [OF assms(1), of ?a xs] view_remove [OF xs(3)] xs(1)
    show "\<exists>fk'. FakeJobs_Delete kind (fst k) (snd k) fk = (Ok (), fk') \<and> fake_ok patch fk' \<and>
        fake_view kind fk' = (fake_view kind fk)(k := None)"
      by (simp add: FakeJobs_Delete_def with_err_def)
  next
    assume "fake_view kind fk k = None"
    then have "tracker_Delete object_meta_of (objects fk) (fst k) (snd k) = Err ApiNotFound"
      using job_objects.store.delete_missing [OF ok assms(2)] by (auto simp: view_None_iff [OF assms(1)])
    with changed_Err [OF assms(1), of ?a ApiNotFound]
    show "\<exists>a. FakeJobs_Delete kind (fst k) (snd k) fk =
        (Err ApiNotFound, recorded a (fki_resource kind) (objects fk) fk)"
      by (auto simp: FakeJobs_Delete_def with_err_def)
  }
qed

lemma fake_view_key:
  assumes "fake_ok patch fk" "fake_view kind fk k = Some j"
  shows "meta_key (meta j) = k \<and> named k"
proof -
  have "tracker_view object_meta_of (objects fk) k = Some (fki_inject kind j)"
    using view_tracker [OF assms(1), of k] assms(2) by simp
  then show ?thesis
    using job_objects.store.view_key [OF objects_ok [OF assms(1)]] by fastforce
qed

lemma List_result:
  assumes "fake_ok patch fk" "ExtractFromListOptions se opts = Ok label"
  shows "\<exists>js fk'. FakeJobs_List se kind ns opts fk = (Ok (Some js), fk') \<and> fk_objects fk' = fk_objects fk \<and>
    set js = {j \<in> ran (fake_view kind fk). (ns = [] \<or> om_Namespace (meta j) = ns) \<and> label (om_Labels (meta j))}"
proof -
  let ?a = "ListAction (fki_resource kind) ns :: 'v fake_action"
  let ?xs = "tracker_List object_meta_of (objects fk) ns"
  let ?js = "List.map_filter (fki_project kind) (filter (\<lambda>x. label (om_Labels (object_meta_of x))) ?xs)"
  have sub: "set ?xs \<subseteq> set (objects fk)"
    by (auto simp: tracker_List_def filterByNamespaceAndName_def)
  with assms(1) have "list_all (\<lambda>x. object_resource x = fki_resource kind) ?xs"
    by (auto simp: list_all_iff fake_ok_def)
  then have "ObjectReaction patch ?a (fk_objects fk) = ((True, RList ?xs, None), fk_objects fk)" by simp
  from Invokes_ok [OF assms(1) this] assms(2)
  have 1: "FakeJobs_List se kind ns opts fk = (Ok (Some ?js), recorded ?a (fki_resource kind) (objects fk) fk)"
    by (simp add: FakeJobs_List_def as_list_def with_err_def recorded_same)
  have mem: "fki_inject kind j \<in> set (objects fk) \<longleftrightarrow> j \<in> ran (fake_view kind fk)" for j
  proof -
    have "fki_inject kind j \<in> set (objects fk) \<longleftrightarrow>
        (\<exists>k. tracker_view object_meta_of (objects fk) k = Some (fki_inject kind j))"
      using tracker_ran [OF objects_ok [OF assms(1)]] by (auto simp: ran_def)
    then show ?thesis by (simp add: view_tracker [OF assms(1)] ran_def)
  qed
  have "j \<in> set ?js \<longleftrightarrow> fki_inject kind j \<in> set ?xs \<and> label (om_Labels (meta j))" for j
  proof -
    have "x = fki_inject kind j" if "x \<in> set ?xs" "fki_project kind x = Some j" for x
    proof -
      from sub that(1) have "x \<in> set (objects fk)" by (rule subsetD)
      with objects_inject [OF assms(1)] obtain i where "x = fki_inject kind i" by blast
      with that(2) show ?thesis by simp
    qed
    then show ?thesis by (force simp: List.map_filter_def)
  qed
  then have "set ?js = {j \<in> ran (fake_view kind fk). (ns = [] \<or> om_Namespace (meta j) = ns) \<and> label (om_Labels (meta j))}"
    by (auto simp: tracker_List_def filterByNamespaceAndName_def mem)
  with 1 show ?thesis by auto
qed

text \<open>The exceptions: what the fakes report without doing it.\<close>

lemma DeleteCollection_result:
  assumes "fake_ok patch fk" "ExtractFromListOptions se opts = Ok label"
  shows "FakeJobs_DeleteCollection se kind ns opts fk =
    (Ok (), recorded (DeleteCollectionAction (fki_resource kind) ns) (fki_resource kind) (objects fk) fk)"
  using Invokes_ok [OF assms(1), of "DeleteCollectionAction (fki_resource kind) ns" False RNil
      "Some (ErrorString ''no reaction implemented'')" "fk_objects fk" "RList []"] assms(2)
  by (simp add: FakeJobs_DeleteCollection_def with_err_def recorded_same)

lemma Patch_missing_result:
  assumes "fake_ok patch fk" "named (ns, name)" "fake_view kind fk (ns, name) = None"
  shows "fst (FakeJobs_Patch kind ns name pt data subs fk) = Ok (Some (fki_zero kind)) \<and>
    fk_objects (snd (FakeJobs_Patch kind ns name pt data subs fk)) = fk_objects fk"
proof -
  have "tracker_Get object_meta_of (objects fk) ns name = Err ApiNotFound"
    using tracker_Get_view [OF objects_ok [OF assms(1)] assms(2)]
      view_None_iff [OF assms(1), of "(ns, name)", THEN iffD2, OF assms(3)] by simp
  with Invokes_ok [OF assms(1), of "PatchAction (fki_resource kind) ns name pt data (path_Join subs)" False RNil
      "Some ApiNotFound" "fk_objects fk" "RObject (fki_inject kind (fki_zero kind))"]
  show ?thesis by (simp add: FakeJobs_Patch_def as_job_def with_err_def)
qed

end

sublocale fake_jobs \<subseteq> store: object_store "\<lambda>j. meta_key (meta j)" "fake_get kind"
  "\<lambda>fk j. then_state (FakeJobs_Create kind (om_Namespace (meta j)) j fk)"
  "\<lambda>fk j. then_state (FakeJobs_Update kind (om_Namespace (meta j)) j fk)"
  "\<lambda>fk k. then_state (FakeJobs_Delete kind (fst k) (snd k) fk)"
  "fake_view kind" "fake_ok patch"
proof
  fix fk :: "'v fake" and k :: obj_key and j :: 'j
  assume ok: "fake_ok patch fk"
  show "fake_view kind fk k = Some j \<Longrightarrow> meta_key (meta j) = k \<and> named k"
    by (rule fake_view_key [OF ok])
  assume "named k"
  then show "fake_get kind fk k = (case fake_view kind fk k of None \<Rightarrow> Err ApiNotFound | Some x \<Rightarrow> Ok x)"
    using Get_result [OF ok] by (simp add: fake_get_def split: option.splits)
  show "fake_view kind fk k \<noteq> None \<Longrightarrow>
      \<exists>fk'. then_state (FakeJobs_Delete kind (fst k) (snd k) fk) = Ok fk' \<and> fake_ok patch fk' \<and>
        fake_view kind fk' = (fake_view kind fk)(k := None)"
    using Delete_result(1) [OF ok \<open>named k\<close>] by (auto simp: then_state_def)
  show "fake_view kind fk k = None \<Longrightarrow> then_state (FakeJobs_Delete kind (fst k) (snd k) fk) = Err ApiNotFound"
    using Delete_result(2) [OF ok \<open>named k\<close>] by (auto simp: then_state_def)
next
  fix fk :: "'v fake" and j :: 'j
  assume ok: "fake_ok patch fk" and j: "named (meta_key (meta j))"
  show "fake_view kind fk (meta_key (meta j)) = None \<Longrightarrow>
      \<exists>fk'. then_state (FakeJobs_Create kind (om_Namespace (meta j)) j fk) = Ok fk' \<and> fake_ok patch fk' \<and>
        fake_view kind fk' = (fake_view kind fk)(meta_key (meta j) \<mapsto> j)"
    using Create_result(1) [OF ok j] by (auto simp: then_state_def)
  show "fake_view kind fk (meta_key (meta j)) \<noteq> None \<Longrightarrow>
      then_state (FakeJobs_Create kind (om_Namespace (meta j)) j fk) = Err ApiAlreadyExists"
    using Create_result(2) [OF ok j] by (auto simp: then_state_def)
  show "fake_view kind fk (meta_key (meta j)) \<noteq> None \<Longrightarrow>
      \<exists>fk'. then_state (FakeJobs_Update kind (om_Namespace (meta j)) j fk) = Ok fk' \<and> fake_ok patch fk' \<and>
        fake_view kind fk' = (fake_view kind fk)(meta_key (meta j) \<mapsto> j)"
    using Update_result(1) [OF ok j] by (auto simp: then_state_def)
  show "fake_view kind fk (meta_key (meta j)) = None \<Longrightarrow>
      then_state (FakeJobs_Update kind (om_Namespace (meta j)) j fk) = Err ApiNotFound"
    using Update_result(2) [OF ok j] by (auto simp: then_state_def)
qed

interpretation fake_slurm: fake_jobs fake_slurm_jobs sj_Meta patch for patch
proof
  show "object_resource x = fki_resource fake_slurm_jobs \<Longrightarrow> \<exists>j. x = fki_inject fake_slurm_jobs j" for x :: "'v job_object"
    by (cases x) (auto simp: fake_slurm_jobs_def)
qed (simp_all add: fake_slurm_jobs_def)

interpretation fake_wlm: fake_jobs fake_wlm_jobs wj_Meta patch for patch
proof
  show "object_resource x = fki_resource fake_wlm_jobs \<Longrightarrow> \<exists>j. x = fki_inject fake_wlm_jobs j" for x :: "'v job_object"
    by (cases x) (auto simp: fake_wlm_jobs_def)
qed (simp_all add: fake_wlm_jobs_def)

section \<open>Sequences of calls\<close>

datatype 'j store_call =
    StoreGet obj_key
  | StoreCreate 'j
  | StoreUpdate 'j
  | StoreUpdateStatus 'j
  | StoreDelete obj_key

text \<open>A call on the client of the namespace of its object, and its meaning on a map.\<close>

definition no_object :: "unit go \<Rightarrow> 'j option go" where
  "no_object m = go_bind m (\<lambda>_. Ok None)"

fun fake_call :: "('v, 'j) fake_kind \<Rightarrow> ('j \<Rightarrow> object_meta) \<Rightarrow> 'j store_call \<Rightarrow> 'v fake \<Rightarrow> 'j option go \<times> 'v fake" where
  "fake_call kind meta (StoreGet k) fk = FakeJobs_Get kind (fst k) (snd k) fk"
| "fake_call kind meta (StoreCreate j) fk = FakeJobs_Create kind (om_Namespace (meta j)) j fk"
| "fake_call kind meta (StoreUpdate j) fk = FakeJobs_Update kind (om_Namespace (meta j)) j fk"
| "fake_call kind meta (StoreUpdateStatus j) fk = FakeJobs_UpdateStatus kind (om_Namespace (meta j)) j fk"
| "fake_call kind meta (StoreDelete k) fk = map_prod no_object id (FakeJobs_Delete kind (fst k) (snd k) fk)"

fun map_call :: "('j \<Rightarrow> object_meta) \<Rightarrow> 'j store_call \<Rightarrow> (obj_key \<rightharpoonup> 'j) \<Rightarrow> 'j option go \<times> (obj_key \<rightharpoonup> 'j)" where
  "map_call meta (StoreGet k) m = (case m k of None \<Rightarrow> Err ApiNotFound | Some j \<Rightarrow> Ok (Some j), m)"
| "map_call meta (StoreCreate j) m =
     (if m (meta_key (meta j)) = None then (Ok (Some j), m(meta_key (meta j) \<mapsto> j)) else (Err ApiAlreadyExists, m))"
| "map_call meta (StoreUpdate j) m =
     (if m (meta_key (meta j)) = None then (Err ApiNotFound, m) else (Ok (Some j), m(meta_key (meta j) \<mapsto> j)))"
| "map_call meta (StoreUpdateStatus j) m =
     (if m (meta_key (meta j)) = None then (Err ApiNotFound, m) else (Ok (Some j), m(meta_key (meta j) \<mapsto> j)))"
| "map_call meta (StoreDelete k) m =
     (if m k = None then (Err ApiNotFound, m) else (Ok None, m(k := None)))"

fun call_named :: "('j \<Rightarrow> object_meta) \<Rightarrow> 'j store_call \<Rightarrow> bool" where
  "call_named meta (StoreGet k) = named k"
| "call_named meta (StoreCreate j) = named (meta_key (meta j))"
| "call_named meta (StoreUpdate j) = named (meta_key (meta j))"
| "call_named meta (StoreUpdateStatus j) = named (meta_key (meta j))"
| "call_named meta (StoreDelete k) = named k"

text \<open>A reaction leaves the other resources alone.\<close>

lemma ObjectReaction_other:
  "res \<noteq> action_resource a \<Longrightarrow> snd (ObjectReaction patch a t) res = t res"
  by (cases a) (auto simp: changed_def Let_def split: go.splits sum.splits)

lemma Invokes_other:
  assumes "fake_ok patch fk" "res \<noteq> action_resource a"
  shows "fk_objects (snd (Invokes a d fk)) res = fk_objects fk res"
proof -
  obtain h ret err t where r: "ObjectReaction patch a (fk_objects fk) = ((h, ret, err), t)"
    by (metis prod_cases3 surj_pair)
  from Invokes_ok [OF assms(1) r] ObjectReaction_other [OF assms(2), of patch "fk_objects fk"] r
  show ?thesis by simp
qed

lemma fake_call_other:
  assumes "fake_ok patch fk" "res \<noteq> fki_resource kind"
  shows "fk_objects (snd (fake_call kind meta call fk)) res = fk_objects fk res"
  using assms
  by (cases call)
    (simp_all add: FakeJobs_Get_def FakeJobs_Create_def FakeJobs_Update_def FakeJobs_UpdateStatus_def
      FakeJobs_Delete_def split_beta Invokes_other)

lemma UpdateStatus_like_Update:
  assumes "fake_ok patch fk"
  shows "fst (FakeJobs_UpdateStatus kind ns j fk) = fst (FakeJobs_Update kind ns j fk) \<and>
    fake_view kind (snd (FakeJobs_UpdateStatus kind ns j fk)) = fake_view kind (snd (FakeJobs_Update kind ns j fk)) \<and>
    (fake_ok patch (snd (FakeJobs_UpdateStatus kind ns j fk)) \<longleftrightarrow> fake_ok patch (snd (FakeJobs_Update kind ns j fk)))"
proof -
  let ?u = "\<lambda>sub. UpdateAction (fki_resource kind) ns sub (fki_inject kind j)"
  obtain h ret err t where r: "ObjectReaction patch (?u []) (fk_objects fk) = ((h, ret, err), t)"
    by (metis prod_cases3 surj_pair)
  then have r': "ObjectReaction patch (?u ''status'') (fk_objects fk) = ((h, ret, err), t)" by simp
  show ?thesis
    using Invokes_ok [OF assms r] Invokes_ok [OF assms r']
    by (simp add: FakeJobs_Update_def FakeJobs_UpdateStatus_def fake_ok_def fake_view_def fun_eq_iff)
qed

lemma log_only [simp]:
  "fake_view kind (fk\<lparr>fk_actions := actions\<rparr>) = fake_view kind fk"
  "fake_ok patch (fk\<lparr>fk_actions := actions\<rparr>) \<longleftrightarrow> fake_ok patch fk"
  by (auto simp: fake_view_def fake_ok_def)

context fake_jobs
begin

lemma call_refines:
  assumes "fake_ok patch fk" "call_named meta call"
  shows "fst (fake_call kind meta call fk) = fst (map_call meta call (fake_view kind fk)) \<and>
    fake_view kind (snd (fake_call kind meta call fk)) = snd (map_call meta call (fake_view kind fk)) \<and>
    fake_ok patch (snd (fake_call kind meta call fk))"
proof (cases call)
  case (StoreGet k)
  then show ?thesis using Get_result [OF assms(1)] assms
    by (simp add: recorded_same)
next
  case (StoreCreate j)
  then show ?thesis
    using Create_result [OF assms(1), of j] assms
    by (cases "fake_view kind fk (meta_key (meta j))") (auto simp: recorded_same)
next
  case (StoreUpdate j)
  then show ?thesis
    using Update_result [OF assms(1), of j] assms
    by (cases "fake_view kind fk (meta_key (meta j))") (auto simp: recorded_same)
next
  case (StoreUpdateStatus j)
  then show ?thesis
    using Update_result [OF assms(1), of j] assms UpdateStatus_like_Update [OF assms(1), of kind "om_Namespace (meta j)" j]
    by (cases "fake_view kind fk (meta_key (meta j))") (auto simp: recorded_same)
next
  case (StoreDelete k)
  then show ?thesis
    using Delete_result [OF assms(1), of k] assms
    by (cases "fake_view kind fk k") (auto simp: recorded_same no_object_def)
qed

end

lemma view_other:
  assumes "fake_ok patch fk" "fki_resource kind \<noteq> fki_resource kind'"
  shows "fake_view kind (snd (fake_call kind' meta call fk)) = fake_view kind fk"
  using fake_call_other [OF assms] by (simp add: fake_view_def fun_eq_iff)

text \<open>The calls on both kinds of jobs, in any order.\<close>

type_synonym 'v any_call = "'v slurm_job store_call + 'v wlm_job store_call"

fun run_fake ::
  "'v any_call list \<Rightarrow> 'v fake \<Rightarrow> ('v slurm_job option go + 'v wlm_job option go) list \<times> 'v fake" where
  "run_fake [] fk = ([], fk)"
| "run_fake (Inl c # cs) fk =
     (let (r, fk) = fake_call fake_slurm_jobs sj_Meta c fk; (rs, fk) = run_fake cs fk in (Inl r # rs, fk))"
| "run_fake (Inr c # cs) fk =
     (let (r, fk) = fake_call fake_wlm_jobs wj_Meta c fk; (rs, fk) = run_fake cs fk in (Inr r # rs, fk))"

fun run_maps ::
  "'v any_call list \<Rightarrow> (obj_key \<rightharpoonup> 'v slurm_job) \<times> (obj_key \<rightharpoonup> 'v wlm_job) \<Rightarrow>
   ('v slurm_job option go + 'v wlm_job option go) list \<times> (obj_key \<rightharpoonup> 'v slurm_job) \<times> (obj_key \<rightharpoonup> 'v wlm_job)" where
  "run_maps [] m = ([], m)"
| "run_maps (Inl c # cs) m =
     (let (r, s) = map_call sj_Meta c (fst m); (rs, m) = run_maps cs (s, snd m) in (Inl r # rs, m))"
| "run_maps (Inr c # cs) m =
     (let (r, w) = map_call wj_Meta c (snd m); (rs, m) = run_maps cs (fst m, w) in (Inr r # rs, m))"

definition any_named :: "'v any_call \<Rightarrow> bool" where
  "any_named c = (case c of Inl c \<Rightarrow> call_named sj_Meta c | Inr c \<Rightarrow> call_named wj_Meta c)"

definition fake_views :: "'v fake \<Rightarrow> (obj_key \<rightharpoonup> 'v slurm_job) \<times> (obj_key \<rightharpoonup> 'v wlm_job)" where
  "fake_views fk = (fake_view fake_slurm_jobs fk, fake_view fake_wlm_jobs fk)"

lemma run_fake_refines:
  "fake_ok patch fk \<Longrightarrow> list_all any_named cs \<Longrightarrow>
   fst (run_fake cs fk) = fst (run_maps cs (fake_views fk)) \<and>
   fake_views (snd (run_fake cs fk)) = snd (run_maps cs (fake_views fk)) \<and>
   fake_ok patch (snd (run_fake cs fk))"
proof (induction cs arbitrary: fk)
  case (Cons c cs)
  have res: "fki_resource fake_slurm_jobs \<noteq> fki_resource fake_wlm_jobs"
    by (simp add: fake_slurm_jobs_def fake_wlm_jobs_def)
  show ?case
  proof (cases c)
    case (Inl s)
    define fk' where "fk' = snd (fake_call fake_slurm_jobs sj_Meta s fk)"
    have s: "call_named sj_Meta s" using Cons.prems(2) Inl by (simp add: any_named_def)
    note r = fake_slurm.call_refines [OF Cons.prems(1) s]
    have "fake_ok patch fk'" "fake_views fk' = (snd (map_call sj_Meta s (fst (fake_views fk))), snd (fake_views fk))"
      using r view_other [OF Cons.prems(1) res [symmetric], of sj_Meta s] by (simp_all add: fk'_def fake_views_def)
    with Cons.IH [of fk'] Cons.prems(2) r Inl show ?thesis
      by (simp add: split_beta fk'_def fake_views_def)
  next
    case (Inr w)
    define fk' where "fk' = snd (fake_call fake_wlm_jobs wj_Meta w fk)"
    have w: "call_named wj_Meta w" using Cons.prems(2) Inr by (simp add: any_named_def)
    note r = fake_wlm.call_refines [OF Cons.prems(1) w]
    have "fake_ok patch fk'" "fake_views fk' = (fst (fake_views fk), snd (map_call wj_Meta w (snd (fake_views fk))))"
      using r view_other [OF Cons.prems(1) res, of wj_Meta w] by (simp_all add: fk'_def fake_views_def)
    with Cons.IH [of fk'] Cons.prems(2) r Inr show ?thesis
      by (simp add: split_beta fk'_def fake_views_def)
  qed
qed simp

section \<open>The clientset\<close>

definition objects_typed :: "'v tracker_objects \<Rightarrow> bool" where
  "objects_typed t \<longleftrightarrow>
     (\<forall>res. tracker_ok object_meta_of (t res) \<and> (\<forall>x \<in> set (t res). object_resource x = res))"

lemma tracker_Add_typed:
  assumes "objects_typed t" "named (meta_key (object_meta_of obj))" "tracker_Add t obj = Ok t'"
  shows "objects_typed t'"
proof -
  let ?res = "object_resource obj"
  have add: "tracker_add object_meta_of object_set_ns (t ?res) obj (om_Namespace (object_meta_of obj)) False =
      tracker_put object_meta_of obj False (t ?res)"
    using job_objects.tracker_Create_own [OF assms(2)] by (simp add: tracker_Create_def)
  with assms(3) obtain xs where xs: "tracker_put object_meta_of obj False (t ?res) = Ok xs" "t' = t(?res := xs)"
    by (auto simp: tracker_Add_def Let_def)
  have ok: "tracker_ok object_meta_of (t ?res)" using assms(1) by (simp add: objects_typed_def)
  from tracker_put_create [OF ok assms(2)] xs(1) have "tracker_ok object_meta_of xs"
    "tracker_view object_meta_of xs = (tracker_view object_meta_of (t ?res))(meta_key (object_meta_of obj) \<mapsto> obj)"
    by simp_all
  moreover from this have "set xs \<subseteq> insert obj (set (t ?res))"
    using tracker_ran [OF ok] tracker_ran [of object_meta_of xs] by (auto simp: ran_def split: if_splits)
  ultimately show ?thesis using assms(1) xs(2) by (auto simp: objects_typed_def)
qed

lemma tracker_Add_all_typed:
  "objects_typed t \<Longrightarrow> list_all (\<lambda>obj. named (meta_key (object_meta_of obj))) objs \<Longrightarrow>
   tracker_Add_all t objs = Ok t' \<Longrightarrow> objects_typed t'"
proof (induction objs arbitrary: t)
  case (Cons obj objs)
  then show ?case using tracker_Add_typed [of t obj] by (auto split: go.splits)
qed simp

lemma NewSimpleClientset_ok:
  assumes "NewSimpleClientset patch objs = Ok fk" "list_all (\<lambda>obj. named (meta_key (object_meta_of obj))) objs"
  shows "fake_ok patch fk"
proof -
  from assms(1) obtain t where "tracker_Add_all (\<lambda>_. []) objs = Ok t"
    "fk = AddReactor ''*'' ''*'' (ObjectReaction patch) \<lparr>fk_actions = [], fk_ReactionChain = [], fk_objects = t\<rparr>"
    by (auto simp: NewSimpleClientset_def)
  moreover from this have "objects_typed t"
    using tracker_Add_all_typed [of "\<lambda>_. []" objs t] assms(2) by (simp add: objects_typed_def)
  ultimately show ?thesis by (simp add: fake_ok_def AddReactor_def objects_typed_def)
qed

text \<open>
  C40. A fake clientset made of named objects answers every sequence of reads, creations, updates
  and deletions of both kinds of jobs like two maps, one for each kind: the results, the errors
  included, and the contents agree after every sequence.
\<close>

theorem fake_clientset_refines_maps:
  assumes "NewSimpleClientset patch objs = Ok fk"
    "list_all (\<lambda>obj. named (meta_key (object_meta_of obj))) objs" "list_all any_named cs"
  shows "fst (run_fake cs fk) = fst (run_maps cs (fake_views fk)) \<and>
    fake_views (snd (run_fake cs fk)) = snd (run_maps cs (fake_views fk))"
  using run_fake_refines [OF NewSimpleClientset_ok [OF assms(1,2)] assms(3)] by blast

text \<open>
  Two calls of the fake clients report success without an effect: the deletion of a collection
  deletes nothing, because no reaction handles it, and a patch of an object that does not exist
  returns an empty object.
\<close>

theorem fake_calls_without_effect:
  assumes "NewSimpleClientset patch objs = Ok fk"
    "list_all (\<lambda>obj. named (meta_key (object_meta_of obj))) objs"
    "ExtractFromListOptions se opts = Ok label"
    "named (ns, name)" "fake_view fake_wlm_jobs fk (ns, name) = None"
  shows "fst (FakeJobs_DeleteCollection se fake_wlm_jobs ns opts fk) = Ok () \<and>
    fake_views (snd (FakeJobs_DeleteCollection se fake_wlm_jobs ns opts fk)) = fake_views fk \<and>
    fst (FakeJobs_Patch fake_wlm_jobs ns name pt data subs fk) = Ok (Some zero_wlm_job) \<and>
    fake_views (snd (FakeJobs_Patch fake_wlm_jobs ns name pt data subs fk)) = fake_views fk"
proof -
  note ok = NewSimpleClientset_ok [OF assms(1,2)]
  have "fk_objects (snd (FakeJobs_Patch fake_wlm_jobs ns name pt data subs fk)) = fk_objects fk"
    using fake_wlm.Patch_missing_result [OF ok assms(4,5)] by blast
  then show ?thesis
    using fake_wlm.DeleteCollection_result [OF ok assms(3)] fake_wlm.Patch_missing_result [OF ok assms(4,5)]
    by (simp add: recorded_same fake_views_def fake_view_def fun_eq_iff fake_wlm_jobs_def)
qed

section \<open>Witnesses\<close>

definition named_job :: "string \<Rightarrow> unit wlm_job" where
  "named_job name = zero_wlm_job\<lparr>wj_Meta := zero_meta\<lparr>om_Name := name, om_Namespace := ''default''\<rparr>\<rparr>"

definition example_fake :: "unit fake" where
  "example_fake = AddReactor ''*'' ''*'' (ObjectReaction (\<lambda>pt data obj. Inr obj))
     \<lparr>fk_actions = [], fk_ReactionChain = [], fk_objects = (\<lambda>_. [])(''wlmjobs'' := [WlmJobObject (named_job ''cow'')])\<rparr>"

definition example_selectors :: selectors where
  "example_selectors = \<lparr>se_Parse = \<lambda>_. Some (\<lambda>_. True), se_ParseSelector = \<lambda>_. Some ()\<rparr>"

definition example_list_options :: list_options where
  "example_list_options = \<lparr>lo_LabelSelector = [], lo_FieldSelector = [], lo_IncludeUninitialized = False,
     lo_Watch = False, lo_ResourceVersion = [], lo_TimeoutSeconds = None, lo_Limit = 0, lo_Continue = []\<rparr>"

lemma named_job_simps [simp]:
  "meta_key (wj_Meta (named_job n)) = (''default'', n)" "om_Namespace (wj_Meta (named_job n)) = ''default''"
  "om_Name (wj_Meta (named_job n)) = n"
  by (simp_all add: named_job_def meta_key_def)

lemma example_fake_new: "NewSimpleClientset (\<lambda>pt data obj. Inr obj) [WlmJobObject (named_job ''cow'')] = Ok example_fake"
  by (simp add: NewSimpleClientset_def tracker_Add_def tracker_add_def example_fake_def)

lemma example_fake_named:
  "list_all (\<lambda>obj. named (meta_key (object_meta_of obj))) [WlmJobObject (named_job ''cow'')]"
  by (simp add: named_def)

lemma example_calls_named:
  "list_all any_named [Inr (StoreCreate (named_job ''cow'')), Inr (StoreDelete (''default'', ''cow'')),
     Inr (StoreGet (''default'', ''cow''))]"
  by (simp add: any_named_def named_def)

theorem fake_clientset_refines_maps_witness:
  "fst (run_fake [Inr (StoreCreate (named_job ''cow'')), Inr (StoreDelete (''default'', ''cow'')),
                  Inr (StoreGet (''default'', ''cow''))] example_fake) =
   [Inr (Err ApiAlreadyExists), Inr (Ok None), Inr (Err ApiNotFound)]"
  unfolding fake_clientset_refines_maps [OF example_fake_new example_fake_named example_calls_named, THEN conjunct1]
  by (simp add: fake_views_def fake_view_def example_fake_def AddReactor_def fake_wlm_jobs_def)

theorem fake_calls_without_effect_witness:
  "fst (FakeJobs_Patch fake_wlm_jobs ''default'' ''dog'' ''merge'' ''{}'' [] example_fake) = Ok (Some zero_wlm_job)"
  using fake_calls_without_effect [OF example_fake_new example_fake_named, of example_selectors example_list_options
      "\<lambda>_. True" "''default''" "''dog''" "''merge''" "''{}''" "[]"]
  by (simp add: ExtractFromListOptions_def example_selectors_def named_def fake_view_def example_fake_def
      AddReactor_def fake_wlm_jobs_def)

end
