(* ===== verification/Tracker_Watch.thy ===== *)
theory Tracker_Watch
  imports Fake_Client
begin

text \<open>
  The watches of the object tracker behind the fake clients: every change of an object is sent
  to the watchers of its namespace and to those of all namespaces, over channels that hold 100
  events and panic when they are full (\<open>testing/fixture.go\<close>, \<open>watch.RaceFreeFakeWatcher\<close>). The
  theorem is the contract an informer rests on: a listing followed by the events of a watch gives
  the present contents.
\<close>

section \<open>Watchers\<close>

datatype 'o watch_event = Added 'o | Modified 'o | Deleted 'o

text \<open>All events sent so far, how many of them were received, and whether the watcher is stopped.\<close>

record 'o watcher =
  wr_ns :: string
  wr_sent :: "'o watch_event list"
  wr_received :: nat
  wr_Stopped :: bool

definition DefaultChanSize :: nat where "DefaultChanSize = 100"

definition NewRaceFreeFake :: "string \<Rightarrow> 'o watcher" where
  "NewRaceFreeFake ns = \<lparr>wr_ns = ns, wr_sent = [], wr_received = 0, wr_Stopped = False\<rparr>"

definition watcher_send :: "'o watch_event \<Rightarrow> 'o watcher \<Rightarrow> 'o watcher go" where
  "watcher_send ev w =
     (if wr_Stopped w then Ok w
      else if length (wr_sent w) - wr_received w \<ge> DefaultChanSize then Panic ''channel full''
      else Ok (w\<lparr>wr_sent := wr_sent w @ [ev]\<rparr>))"

definition watcher_Stop :: "'o watcher \<Rightarrow> 'o watcher" where
  "watcher_Stop w = w\<lparr>wr_Stopped := True\<rparr>"

definition watcher_receive :: "'o watcher \<Rightarrow> 'o watcher" where
  "watcher_receive w = (if wr_received w < length (wr_sent w) then w\<lparr>wr_received := Suc (wr_received w)\<rparr> else w)"

text \<open>\<open>getWatches\<close> lists the watchers of a namespace and then those of all namespaces.\<close>

definition watches_of :: "string \<Rightarrow> 'o watcher \<Rightarrow> nat" where
  "watches_of ns w = (if wr_ns w = ns then 1 else 0) + (if wr_ns w = [] then 1 else 0)"

fun send_times :: "nat \<Rightarrow> 'o watch_event \<Rightarrow> 'o watcher \<Rightarrow> 'o watcher go" where
  "send_times 0 ev w = Ok w"
| "send_times (Suc n) ev w = go_bind (watcher_send ev w) (send_times n ev)"

definition notify :: "string \<Rightarrow> 'o watch_event \<Rightarrow> 'o watcher list \<Rightarrow> 'o watcher list go" where
  "notify ns ev ws = go_each (\<lambda>w. send_times (watches_of ns w) ev w) ws"

section \<open>The tracker with watchers\<close>

record 'o watched_tracker =
  wt_objects :: "'o list"
  wt_watchers :: "'o watcher list"

definition wt_add ::
  "('o \<Rightarrow> object_meta) \<Rightarrow> (string \<Rightarrow> 'o \<Rightarrow> 'o) \<Rightarrow> 'o \<Rightarrow> string \<Rightarrow> bool \<Rightarrow> 'o watched_tracker \<Rightarrow> 'o watched_tracker go" where
  "wt_add meta set_ns obj ns replaceExisting t =
     go_bind (tracker_add meta set_ns (wt_objects t) obj ns replaceExisting) (\<lambda>objs.
       let obj = (if om_Namespace (meta obj) = [] then set_ns ns obj else obj)
       in go_bind (notify ns (if replaceExisting then Modified obj else Added obj) (wt_watchers t)) (\<lambda>ws.
            Ok (t\<lparr>wt_objects := objs, wt_watchers := ws\<rparr>)))"

definition wt_Delete ::
  "('o \<Rightarrow> object_meta) \<Rightarrow> string \<Rightarrow> string \<Rightarrow> 'o watched_tracker \<Rightarrow> 'o watched_tracker go" where
  "wt_Delete meta ns name t =
     (case find (\<lambda>x. om_Namespace (meta x) = ns \<and> om_Name (meta x) = name) (wt_objects t) of
        None \<Rightarrow> Err ApiNotFound
      | Some obj \<Rightarrow>
          go_bind (tracker_Delete meta (wt_objects t) ns name) (\<lambda>objs.
          go_bind (notify ns (Deleted obj) (wt_watchers t)) (\<lambda>ws.
            Ok (t\<lparr>wt_objects := objs, wt_watchers := ws\<rparr>))))"

text \<open>\<open>Watch\<close> gives the position of the new watcher.\<close>

definition wt_Watch :: "string \<Rightarrow> 'o watched_tracker \<Rightarrow> nat \<times> 'o watched_tracker" where
  "wt_Watch ns t = (length (wt_watchers t), t\<lparr>wt_watchers := wt_watchers t @ [NewRaceFreeFake ns]\<rparr>)"

datatype 'o tracker_op =
    OpCreate 'o
  | OpUpdate 'o
  | OpDelete obj_key
  | OpWatch string
  | OpReceive nat
  | OpStop nat

definition at_watcher :: "nat \<Rightarrow> ('o watcher \<Rightarrow> 'o watcher) \<Rightarrow> 'o watched_tracker \<Rightarrow> 'o watched_tracker" where
  "at_watcher i f t = t\<lparr>wt_watchers := (wt_watchers t)[i := f (wt_watchers t ! i)]\<rparr>"

text \<open>An operation that fails changes nothing; a panic ends the program.\<close>

definition recovered :: "'s \<Rightarrow> 's go \<Rightarrow> 's go" where
  "recovered t m = (case m of Ok t' \<Rightarrow> Ok t' | Err e \<Rightarrow> Ok t | Panic s \<Rightarrow> Panic s)"

fun tracker_step ::
  "('o \<Rightarrow> object_meta) \<Rightarrow> (string \<Rightarrow> 'o \<Rightarrow> 'o) \<Rightarrow> 'o tracker_op \<Rightarrow> 'o watched_tracker \<Rightarrow> 'o watched_tracker go" where
  "tracker_step meta set_ns (OpCreate obj) t = recovered t (wt_add meta set_ns obj (om_Namespace (meta obj)) False t)"
| "tracker_step meta set_ns (OpUpdate obj) t = recovered t (wt_add meta set_ns obj (om_Namespace (meta obj)) True t)"
| "tracker_step meta set_ns (OpDelete k) t = recovered t (wt_Delete meta (fst k) (snd k) t)"
| "tracker_step meta set_ns (OpWatch ns) t = Ok (snd (wt_Watch ns t))"
| "tracker_step meta set_ns (OpReceive i) t = Ok (if i < length (wt_watchers t) then at_watcher i watcher_receive t else t)"
| "tracker_step meta set_ns (OpStop i) t = Ok (if i < length (wt_watchers t) then at_watcher i watcher_Stop t else t)"

fun tracker_run where
  "tracker_run meta set_ns [] t = Ok t"
| "tracker_run meta set_ns (p # ps) t = go_bind (tracker_step meta set_ns p t) (tracker_run meta set_ns ps)"

fun op_named :: "('o \<Rightarrow> object_meta) \<Rightarrow> 'o tracker_op \<Rightarrow> bool" where
  "op_named meta (OpCreate obj) = named (meta_key (meta obj))"
| "op_named meta (OpUpdate obj) = named (meta_key (meta obj))"
| "op_named meta (OpDelete k) = named k"
| "op_named meta (OpWatch ns) = True"
| "op_named meta (OpReceive i) = True"
| "op_named meta (OpStop i) = True"

section \<open>Replaying events\<close>

fun replay_event :: "('o \<Rightarrow> object_meta) \<Rightarrow> 'o watch_event \<Rightarrow> (obj_key \<rightharpoonup> 'o) \<Rightarrow> (obj_key \<rightharpoonup> 'o)" where
  "replay_event meta (Added obj) m = m(meta_key (meta obj) \<mapsto> obj)"
| "replay_event meta (Modified obj) m = m(meta_key (meta obj) \<mapsto> obj)"
| "replay_event meta (Deleted obj) m = m(meta_key (meta obj) := None)"

definition in_namespace :: "string \<Rightarrow> (obj_key \<rightharpoonup> 'o) \<Rightarrow> (obj_key \<rightharpoonup> 'o)" where
  "in_namespace ns m = (\<lambda>k. if ns = [] \<or> fst k = ns then m k else None)"

text \<open>
  A watcher is faithful to a starting point when replaying what it was sent gives the objects of
  its namespace; a stopped one need not be.
\<close>

definition faithful ::
  "('o \<Rightarrow> object_meta) \<Rightarrow> string \<Rightarrow> (obj_key \<rightharpoonup> 'o) \<Rightarrow> 'o watched_tracker \<Rightarrow> nat \<Rightarrow> bool" where
  "faithful meta ns start t i \<longleftrightarrow>
     i < length (wt_watchers t) \<and> wr_ns (wt_watchers t ! i) = ns \<and>
     (wr_Stopped (wt_watchers t ! i) \<or>
      fold (replay_event meta) (wr_sent (wt_watchers t ! i)) (in_namespace ns start) =
      in_namespace ns (tracker_view meta (wt_objects t)))"

lemma in_namespace_upd:
  "in_namespace ns (m(k := x)) =
   (if ns = [] \<or> fst k = ns then (in_namespace ns m)(k := x) else in_namespace ns m)"
  by (auto simp: in_namespace_def fun_eq_iff)

lemma watcher_send_Ok:
  "watcher_send ev w = Ok w' \<Longrightarrow>
   wr_ns w' = wr_ns w \<and> wr_Stopped w' = wr_Stopped w \<and>
   (wr_Stopped w \<or> wr_sent w' = wr_sent w @ [ev])"
  by (auto simp: watcher_send_def split: if_splits)

lemma notify_Ok:
  assumes "notify ns ev ws = Ok ws'" "ns \<noteq> []" "i < length ws"
  shows "length ws' = length ws \<and> wr_ns (ws' ! i) = wr_ns (ws ! i) \<and>
    wr_Stopped (ws' ! i) = wr_Stopped (ws ! i) \<and>
    (wr_Stopped (ws ! i) \<or>
     wr_sent (ws' ! i) = wr_sent (ws ! i) @ (if wr_ns (ws ! i) = [] \<or> wr_ns (ws ! i) = ns then [ev] else []))"
proof -
  have each: "list_all2 (\<lambda>w w'. send_times (watches_of ns w) ev w = Ok w') ws ws'"
    using assms(1) by (simp add: notify_def go_each_Ok_iff)
  then have len: "length ws' = length ws" by (simp add: list_all2_lengthD)
  have "send_times (watches_of ns (ws ! i)) ev (ws ! i) = Ok (ws' ! i)"
    using each assms(3) by (simp add: list_all2_conv_all_nth)
  moreover have "watches_of ns (ws ! i) = (if wr_ns (ws ! i) = [] \<or> wr_ns (ws ! i) = ns then 1 else 0)"
    using assms(2) by (auto simp: watches_of_def)
  ultimately show ?thesis
    using len watcher_send_Ok [of ev "ws ! i" "ws' ! i"] by (auto split: if_splits)
qed

lemma notify_length: "notify ns ev ws = Ok ws' \<Longrightarrow> length ws' = length ws"
  by (simp add: notify_def go_each_length)

lemma faithful_change:
  assumes "faithful meta ns start t i" "notify (fst k) ev (wt_watchers t) = Ok ws'" "fst k \<noteq> []"
    "\<And>m. replay_event meta ev m = m(k := x)"
    "tracker_view meta objs = (tracker_view meta (wt_objects t))(k := x)"
  shows "faithful meta ns start (t\<lparr>wt_objects := objs, wt_watchers := ws'\<rparr>) i"
proof -
  have i: "i < length (wt_watchers t)" using assms(1) by (simp add: faithful_def)
  note n = notify_Ok [OF assms(2,3) i]
  from assms(1) n show ?thesis
    by (auto simp: faithful_def assms(4,5) in_namespace_upd)
qed

lemma wt_add_Ok:
  assumes "named (meta_key (meta obj))" "tracker_ok meta (wt_objects t)"
    "wt_add meta set_ns obj (om_Namespace (meta obj)) replace t = Ok t'"
  obtains objs ws where
    "t' = t\<lparr>wt_objects := objs, wt_watchers := ws\<rparr>"
    "notify (om_Namespace (meta obj)) (if replace then Modified obj else Added obj) (wt_watchers t) = Ok ws"
    "tracker_ok meta objs" "tracker_view meta objs = (tracker_view meta (wt_objects t))(meta_key (meta obj) \<mapsto> obj)"
proof -
  have ns: "om_Namespace (meta obj) \<noteq> []" using assms(1) by (simp add: named_def meta_key_def)
  then have "tracker_add meta set_ns (wt_objects t) obj (om_Namespace (meta obj)) replace =
      tracker_put meta obj replace (wt_objects t)"
    by (simp add: tracker_add_def)
  with assms(3) ns obtain objs ws where objs: "tracker_put meta obj replace (wt_objects t) = Ok objs"
    "notify (om_Namespace (meta obj)) (if replace then Modified obj else Added obj) (wt_watchers t) = Ok ws"
    "t' = t\<lparr>wt_objects := objs, wt_watchers := ws\<rparr>"
    by (auto simp: wt_add_def Let_def)
  moreover have "tracker_ok meta objs \<and>
      tracker_view meta objs = (tracker_view meta (wt_objects t))(meta_key (meta obj) \<mapsto> obj)"
    using tracker_put_create [OF assms(2,1)] tracker_put_update [OF assms(2,1)] objs(1)
    by (cases replace) simp_all
  ultimately show thesis using that by blast
qed

lemma wt_Delete_Ok:
  assumes "tracker_ok meta (wt_objects t)" "wt_Delete meta (fst k) (snd k) t = Ok t'"
  obtains obj objs ws where
    "t' = t\<lparr>wt_objects := objs, wt_watchers := ws\<rparr>" "meta_key (meta obj) = k"
    "notify (fst k) (Deleted obj) (wt_watchers t) = Ok ws"
    "tracker_ok meta objs" "tracker_view meta objs = (tracker_view meta (wt_objects t))(k := None)"
proof -
  from assms(2) obtain obj objs ws where
    d: "find (\<lambda>x. om_Namespace (meta x) = fst k \<and> om_Name (meta x) = snd k) (wt_objects t) = Some obj"
    "tracker_Delete meta (wt_objects t) (fst k) (snd k) = Ok objs"
    "notify (fst k) (Deleted obj) (wt_watchers t) = Ok ws"
    "t' = t\<lparr>wt_objects := objs, wt_watchers := ws\<rparr>"
    by (auto simp: wt_Delete_def split: option.splits)
  from find_SomeD [OF d(1)] have "meta_key (meta obj) = k" by (simp add: meta_key_def)
  with d tracker_Delete_view [OF assms(1), of k] that show thesis by simp
qed

lemma faithful_at_watcher:
  assumes "faithful meta ns start t i" "\<And>w. wr_ns (f w) = wr_ns w \<and> wr_sent (f w) = wr_sent w \<and> (wr_Stopped w \<longrightarrow> wr_Stopped (f w))"
  shows "faithful meta ns start (at_watcher j f t) i"
  using assms(1) assms(2) [of "wt_watchers t ! i"]
  by (cases "i = j") (auto simp: faithful_def at_watcher_def)

lemma wt_add_faithful:
  assumes "tracker_ok meta (wt_objects t)" "faithful meta ns start t i" "named (meta_key (meta obj))"
    "recovered t (wt_add meta set_ns obj (om_Namespace (meta obj)) replace t) = Ok t'"
  shows "tracker_ok meta (wt_objects t') \<and> faithful meta ns start t' i"
proof (cases "wt_add meta set_ns obj (om_Namespace (meta obj)) replace t")
  case (Ok t'')
  from wt_add_Ok [OF assms(3,1) Ok] obtain objs ws where
    a: "t'' = t\<lparr>wt_objects := objs, wt_watchers := ws\<rparr>"
    "notify (om_Namespace (meta obj)) (if replace then Modified obj else Added obj) (wt_watchers t) = Ok ws"
    "tracker_ok meta objs" "tracker_view meta objs = (tracker_view meta (wt_objects t))(meta_key (meta obj) \<mapsto> obj)"
    by blast
  have "notify (fst (meta_key (meta obj))) (if replace then Modified obj else Added obj) (wt_watchers t) = Ok ws"
    using a(2) by (simp add: meta_key_def)
  moreover have "fst (meta_key (meta obj)) \<noteq> []" using assms(3) by (simp add: named_def)
  ultimately have "faithful meta ns start (t\<lparr>wt_objects := objs, wt_watchers := ws\<rparr>) i"
    by (rule faithful_change [OF assms(2) _ _ _ a(4)]) simp
  moreover have "t' = t\<lparr>wt_objects := objs, wt_watchers := ws\<rparr>" using assms(4) Ok a(1) by (simp add: recovered_def)
  ultimately show ?thesis using a(3) by (simp del: watched_tracker.update_convs)
qed (use assms in \<open>simp_all add: recovered_def\<close>)

text \<open>Every operation keeps the tracker well-formed and its watchers faithful.\<close>

lemma tracker_step_faithful:
  assumes "tracker_ok meta (wt_objects t)" "faithful meta ns start t i" "op_named meta p"
    "tracker_step meta set_ns p t = Ok t'"
  shows "tracker_ok meta (wt_objects t') \<and> faithful meta ns start t' i"
proof (cases p)
  case (OpCreate obj)
  then show ?thesis using wt_add_faithful [OF assms(1,2)] assms(3,4) by simp
next
  case (OpUpdate obj)
  then show ?thesis using wt_add_faithful [OF assms(1,2)] assms(3,4) by simp
next
  case (OpDelete k)
  then have n: "named k" using assms(3) by simp
  show ?thesis
  proof (cases "wt_Delete meta (fst k) (snd k) t")
    case (Ok t'')
    from wt_Delete_Ok [OF assms(1) Ok] obtain obj objs ws where
      d: "t'' = t\<lparr>wt_objects := objs, wt_watchers := ws\<rparr>" "meta_key (meta obj) = k"
      "notify (fst k) (Deleted obj) (wt_watchers t) = Ok ws"
      "tracker_ok meta objs" "tracker_view meta objs = (tracker_view meta (wt_objects t))(k := None)" by blast
    then have "faithful meta ns start (t\<lparr>wt_objects := objs, wt_watchers := ws\<rparr>) i"
      using faithful_change [OF assms(2) d(3) _ _ d(5)] n by (simp add: named_def)
    moreover have "t' = t\<lparr>wt_objects := objs, wt_watchers := ws\<rparr>" using assms(4) OpDelete Ok d(1) by (simp add: recovered_def)
    ultimately show ?thesis using d(4) by simp
  qed (use assms OpDelete in \<open>auto simp: recovered_def\<close>)
next
  case (OpWatch n)
  then show ?thesis using assms by (auto simp: wt_Watch_def faithful_def nth_append)
next
  case (OpReceive j)
  then show ?thesis using assms faithful_at_watcher [OF assms(2), of watcher_receive j]
    by (auto simp: watcher_receive_def at_watcher_def split: if_splits)
next
  case (OpStop j)
  then show ?thesis using assms faithful_at_watcher [OF assms(2), of watcher_Stop j]
    by (auto simp: watcher_Stop_def at_watcher_def split: if_splits)
qed

lemma tracker_run_faithful:
  "tracker_run meta set_ns ps t = Ok t' \<Longrightarrow> tracker_ok meta (wt_objects t) \<Longrightarrow> faithful meta ns start t i \<Longrightarrow>
   list_all (op_named meta) ps \<Longrightarrow> tracker_ok meta (wt_objects t') \<and> faithful meta ns start t' i"
proof (induction ps arbitrary: t)
  case (Cons p ps)
  from Cons.prems(1) obtain t1 where t1: "tracker_step meta set_ns p t = Ok t1" "tracker_run meta set_ns ps t1 = Ok t'"
    by auto
  have "tracker_ok meta (wt_objects t1) \<and> faithful meta ns start t1 i"
    using tracker_step_faithful [OF Cons.prems(2,3) _ t1(1)] Cons.prems(4) by simp
  with Cons.IH [OF t1(2)] Cons.prems(4) show ?case by simp
qed simp

text \<open>
  A watch is complete: for a watch of a namespace (or of all) on a well-formed tracker, the
  contents at the time it was opened with the events it was sent since, replayed in order, are the
  contents now, after any sequence of creations, updates, deletions and other watches that does
  not overflow a channel and does not stop the watch.
\<close>

theorem watch_replays_contents:
  assumes "tracker_ok object_meta_of (wt_objects t)" "wt_Watch ns t = (i, t1)"
    "tracker_run object_meta_of object_set_ns ps t1 = Ok t2" "list_all (op_named object_meta_of) ps"
    "\<not> wr_Stopped (wt_watchers t2 ! i)"
  shows "fold (replay_event object_meta_of) (wr_sent (wt_watchers t2 ! i))
      (in_namespace ns (tracker_view object_meta_of (wt_objects t))) =
    in_namespace ns (tracker_view object_meta_of (wt_objects t2))"
proof -
  have "tracker_ok object_meta_of (wt_objects t1)"
    "faithful object_meta_of ns (tracker_view object_meta_of (wt_objects t)) t1 i"
    using assms(1,2) by (auto simp: wt_Watch_def faithful_def NewRaceFreeFake_def)
  from tracker_run_faithful [OF assms(3) this assms(4)] assms(5) show ?thesis
    by (simp add: faithful_def)
qed

section \<open>The watches of the fake clients\<close>

text \<open>
  \<open>InvokesWatch\<close> on the one watch reactor of \<open>NewSimpleClientset\<close>, which opens a watch of the
  tracker of the resource; \<open>watched\<close> gives the trackers of the resources.
\<close>

definition InvokesWatch ::
  "'v fake_action \<Rightarrow> 'v fake \<Rightarrow> (string \<Rightarrow> 'v job_object watched_tracker) \<Rightarrow>
   nat \<times> 'v fake \<times> (string \<Rightarrow> 'v job_object watched_tracker)" where
  "InvokesWatch action fk watched =
     (let gvr = action_resource action; (i, t) = wt_Watch (action_ns action) (watched gvr)
      in (i, fk\<lparr>fk_actions := fk_actions fk @ [action]\<rparr>, watched(gvr := t)))"

definition FakeJobs_Watch ::
  "selectors \<Rightarrow> ('v, 'j) fake_kind \<Rightarrow> string \<Rightarrow> list_options \<Rightarrow> 'v fake \<Rightarrow> (string \<Rightarrow> 'v job_object watched_tracker) \<Rightarrow>
   (nat \<times> 'v fake \<times> (string \<Rightarrow> 'v job_object watched_tracker)) go" where
  "FakeJobs_Watch se kind ns opts fk watched =
     go_bind (ExtractFromListOptions se opts) (\<lambda>label.
       Ok (InvokesWatch (WatchAction (fki_resource kind) ns) fk watched))"

definition FakeSlurmJobs_Watch where "FakeSlurmJobs_Watch se = FakeJobs_Watch se fake_slurm_jobs"
definition FakeWlmJobs_Watch where "FakeWlmJobs_Watch se = FakeJobs_Watch se fake_wlm_jobs"

section \<open>Witnesses\<close>

definition example_ops :: "unit job_object tracker_op list" where
  "example_ops = [OpCreate (WlmJobObject (named_job ''cow'')), OpReceive 0,
     OpUpdate (WlmJobObject (named_job ''cow'')), OpDelete (''default'', ''cow''),
     OpCreate (WlmJobObject (named_job ''dog''))]"

definition example_tracker :: "unit job_object watched_tracker" where
  "example_tracker = \<lparr>wt_objects = [], wt_watchers = []\<rparr>"

definition example_watched :: "unit job_object watched_tracker" where
  "example_watched = \<lparr>wt_objects = [WlmJobObject (named_job ''dog'')],
     wt_watchers = [\<lparr>wr_ns = ''default'',
       wr_sent = [Added (WlmJobObject (named_job ''cow'')), Modified (WlmJobObject (named_job ''cow'')),
                  Deleted (WlmJobObject (named_job ''cow'')), Added (WlmJobObject (named_job ''dog''))],
       wr_received = 1, wr_Stopped = False\<rparr>]\<rparr>"

lemma example_watch_run:
  "wt_Watch ''default'' example_tracker = (0, \<lparr>wt_objects = [], wt_watchers = [NewRaceFreeFake ''default'']\<rparr>)"
  "tracker_run object_meta_of object_set_ns example_ops
     \<lparr>wt_objects = [], wt_watchers = [NewRaceFreeFake ''default'']\<rparr> = Ok example_watched"
  "list_all (op_named object_meta_of) example_ops"
  by (simp_all add: example_tracker_def wt_Watch_def example_ops_def named_def example_watched_def recovered_def
      wt_add_def wt_Delete_def tracker_add_def notify_def watches_of_def watcher_send_def DefaultChanSize_def
      NewRaceFreeFake_def at_watcher_def watcher_receive_def)

theorem watch_replays_contents_witness:
  "fold (replay_event object_meta_of) (wr_sent (wt_watchers example_watched ! 0)) Map.empty (''default'', ''dog'') =
   Some (WlmJobObject (named_job ''dog''))"
proof -
  have "tracker_ok object_meta_of (wt_objects example_tracker)" by (simp add: example_tracker_def)
  from watch_replays_contents [OF this example_watch_run]
  show ?thesis by (simp add: example_watched_def example_tracker_def in_namespace_def)
qed

end
