(* ===== verification/Informers.thy ===== *)
theory Informers
  imports Rest_Client "HOL-Library.AList" "HOL-Library.Multiset"
begin

text \<open>
  The generated listers (\<open>client/listers/wlm/v1alpha1\<close>) on the indexed cache of
  \<open>k8s.io/client-go/tools/cache\<close> (\<open>thread_safe_store.go\<close>, \<open>store.go\<close>, \<open>listers.go\<close>), and the shared
  informer factory (\<open>client/informers/externalversions\<close>). The first part shows that a listing
  through the namespace index is a scan of the cache, whatever happened to the cache; the second
  that an informer is shared and run at most once. What feeds a cache (the reflector) is not
  modelled.
\<close>

section \<open>The indexed cache\<close>

text \<open>
  \<open>threadSafeMap\<close>: the items by key, the index functions by name, and for each of them the keys of
  the items with a value. The order of the entries stands for one order Go may iterate a map in;
  the results below are multisets. An index function sees an object through its metadata.
\<close>

record 'o thread_safe_map =
  ts_items :: "(string \<times> 'o) list"
  ts_indexers :: "(string \<times> (object_meta \<Rightarrow> string list)) list"
  ts_indices :: "string \<Rightarrow> string \<Rightarrow> string list"

definition NewThreadSafeStore :: "(string \<times> (object_meta \<Rightarrow> string list)) list \<Rightarrow> 'o thread_safe_map" where
  "NewThreadSafeStore indexers = \<lparr>ts_items = [], ts_indexers = indexers, ts_indices = (\<lambda>_ _. [])\<rparr>"

definition index_delete :: "string \<Rightarrow> string list \<Rightarrow> (string \<Rightarrow> string list) \<Rightarrow> string \<Rightarrow> string list" where
  "index_delete key vs index = (\<lambda>v. if v \<in> set vs then removeAll key (index v) else index v)"

definition index_insert :: "string \<Rightarrow> string list \<Rightarrow> (string \<Rightarrow> string list) \<Rightarrow> string \<Rightarrow> string list" where
  "index_insert key vs index = (\<lambda>v. if v \<in> set vs then List.insert key (index v) else index v)"

definition deleteFromIndices :: "('o \<Rightarrow> object_meta) \<Rightarrow> 'o \<Rightarrow> string \<Rightarrow> 'o thread_safe_map \<Rightarrow> 'o thread_safe_map" where
  "deleteFromIndices meta obj key c =
     c\<lparr>ts_indices := (\<lambda>name. case map_of (ts_indexers c) name of
         None \<Rightarrow> ts_indices c name
       | Some f \<Rightarrow> index_delete key (f (meta obj)) (ts_indices c name))\<rparr>"

definition updateIndices :: "('o \<Rightarrow> object_meta) \<Rightarrow> 'o option \<Rightarrow> 'o \<Rightarrow> string \<Rightarrow> 'o thread_safe_map \<Rightarrow> 'o thread_safe_map" where
  "updateIndices meta oldObj newObj key c =
     (let c = (case oldObj of None \<Rightarrow> c | Some old \<Rightarrow> deleteFromIndices meta old key c)
      in c\<lparr>ts_indices := (\<lambda>name. case map_of (ts_indexers c) name of
             None \<Rightarrow> ts_indices c name
           | Some f \<Rightarrow> index_insert key (f (meta newObj)) (ts_indices c name))\<rparr>)"

definition ts_Add :: "('o \<Rightarrow> object_meta) \<Rightarrow> string \<Rightarrow> 'o \<Rightarrow> 'o thread_safe_map \<Rightarrow> 'o thread_safe_map" where
  "ts_Add meta key obj c =
     (let oldObject = map_of (ts_items c) key
      in updateIndices meta oldObject obj key (c\<lparr>ts_items := AList.update key obj (ts_items c)\<rparr>))"

definition ts_Update :: "('o \<Rightarrow> object_meta) \<Rightarrow> string \<Rightarrow> 'o \<Rightarrow> 'o thread_safe_map \<Rightarrow> 'o thread_safe_map" where
  "ts_Update meta key obj c =
     (let oldObject = map_of (ts_items c) key
      in updateIndices meta oldObject obj key (c\<lparr>ts_items := AList.update key obj (ts_items c)\<rparr>))"

definition ts_Delete :: "('o \<Rightarrow> object_meta) \<Rightarrow> string \<Rightarrow> 'o thread_safe_map \<Rightarrow> 'o thread_safe_map" where
  "ts_Delete meta key c =
     (case map_of (ts_items c) key of
        None \<Rightarrow> c
      | Some obj \<Rightarrow> (deleteFromIndices meta obj key c)\<lparr>ts_items := AList.delete key (ts_items c)\<rparr>)"

definition ts_Replace :: "('o \<Rightarrow> object_meta) \<Rightarrow> (string \<times> 'o) list \<Rightarrow> 'o thread_safe_map \<Rightarrow> 'o thread_safe_map" where
  "ts_Replace meta items c =
     foldl (\<lambda>c (key, item). updateIndices meta None item key c)
       (c\<lparr>ts_items := items, ts_indices := (\<lambda>_ _. [])\<rparr>) items"

definition ts_Get :: "'o thread_safe_map \<Rightarrow> string \<Rightarrow> 'o option" where
  "ts_Get c key = map_of (ts_items c) key"

definition ts_List :: "'o thread_safe_map \<Rightarrow> 'o list" where
  "ts_List c = map snd (ts_items c)"

text \<open>\<open>Index\<close>: a key without an item gives a nil entry.\<close>

definition ts_Index :: "string \<Rightarrow> object_meta \<Rightarrow> 'o thread_safe_map \<Rightarrow> 'o option list go" where
  "ts_Index indexName obj c =
     (case map_of (ts_indexers c) indexName of
        None \<Rightarrow> Err (ErrorString (''Index with name '' @ indexName @ '' does not exist''))
      | Some indexFunc \<Rightarrow>
          (let returnKeySet = fold (\<lambda>v ks. List.union (ts_indices c indexName v) ks) (indexFunc obj) []
           in Ok (map (map_of (ts_items c)) returnKeySet)))"

section \<open>The cache of objects\<close>

definition MetaNamespaceKeyFunc :: "('o \<Rightarrow> object_meta) \<Rightarrow> 'o \<Rightarrow> string" where
  "MetaNamespaceKeyFunc meta obj =
     (if length (om_Namespace (meta obj)) > 0
      then om_Namespace (meta obj) @ ''/'' @ om_Name (meta obj) else om_Name (meta obj))"

definition NamespaceIndex :: string where "NamespaceIndex = ''namespace''"

definition MetaNamespaceIndexFunc :: "object_meta \<Rightarrow> string list" where
  "MetaNamespaceIndexFunc m = [om_Namespace m]"

definition cache_Add where "cache_Add meta obj c = ts_Add meta (MetaNamespaceKeyFunc meta obj) obj c"
definition cache_Update where "cache_Update meta obj c = ts_Update meta (MetaNamespaceKeyFunc meta obj) obj c"
definition cache_Delete where "cache_Delete meta obj c = ts_Delete meta (MetaNamespaceKeyFunc meta obj) c"

definition cache_Replace where
  "cache_Replace meta objs c =
     ts_Replace meta (fold (\<lambda>obj items. AList.update (MetaNamespaceKeyFunc meta obj) obj items) objs []) c"

definition cache_GetByKey where "cache_GetByKey c key = ts_Get c key"

section \<open>The listers\<close>

text \<open>\<open>ListAll\<close> and \<open>ListAllByNamespace\<close> with a selector given by the labels it matches.\<close>

definition ListAll :: "('o \<Rightarrow> object_meta) \<Rightarrow> 'o thread_safe_map \<Rightarrow> ((string \<rightharpoonup> string) \<Rightarrow> bool) \<Rightarrow> 'o list go" where
  "ListAll meta c selector = Ok (filter (\<lambda>m. selector (om_Labels (meta m))) (ts_List c))"

fun accessible :: "'o option list \<Rightarrow> 'o list go" where
  "accessible [] = Ok []"
| "accessible (None # ms) = Err (ErrorString ''object does not implement the Object interfaces'')"
| "accessible (Some m # ms) = go_bind (accessible ms) (\<lambda>ms. Ok (m # ms))"

definition namespace_meta :: "string \<Rightarrow> object_meta" where
  "namespace_meta namespace =
     \<lparr>om_Name = [], om_Namespace = namespace, om_UID = [], om_OwnerReferences = [], om_Labels = Map.empty\<rparr>"

definition ListAllByNamespace ::
  "('o \<Rightarrow> object_meta) \<Rightarrow> 'o thread_safe_map \<Rightarrow> string \<Rightarrow> ((string \<rightharpoonup> string) \<Rightarrow> bool) \<Rightarrow> 'o list go" where
  "ListAllByNamespace meta c namespace selector =
     (if namespace = [] then ListAll meta c selector
      else
        (case ts_Index NamespaceIndex (namespace_meta namespace) c of
           Ok items \<Rightarrow> go_bind (accessible items) (\<lambda>ms. Ok (filter (\<lambda>m. selector (om_Labels (meta m))) ms))
         | Err e \<Rightarrow>
             Ok (filter (\<lambda>m. om_Namespace (meta m) = namespace \<and> selector (om_Labels (meta m))) (ts_List c))
         | Panic s \<Rightarrow> Panic s))"

text \<open>
  The methods of the generated listers, the same for both kinds of jobs up to the type of the
  objects.
\<close>

definition JobLister_List where
  "JobLister_List meta indexer selector = ListAll meta indexer selector"

definition JobNamespaceLister_List where
  "JobNamespaceLister_List meta indexer namespace selector = ListAllByNamespace meta indexer namespace selector"

definition JobNamespaceLister_Get :: "'o thread_safe_map \<Rightarrow> string \<Rightarrow> string \<Rightarrow> 'o go" where
  "JobNamespaceLister_Get indexer namespace name =
     (case cache_GetByKey indexer (namespace @ ''/'' @ name) of
        None \<Rightarrow> Err ApiNotFound
      | Some obj \<Rightarrow> Ok obj)"

text \<open>The listers of the two kinds.\<close>

definition slurmJobLister_List where "slurmJobLister_List = JobLister_List sj_Meta"
definition slurmJobNamespaceLister_List where
  "slurmJobNamespaceLister_List = JobNamespaceLister_List sj_Meta"
definition slurmJobNamespaceLister_Get ::
  "'v slurm_job thread_safe_map \<Rightarrow> string \<Rightarrow> string \<Rightarrow> 'v slurm_job go" where
  "slurmJobNamespaceLister_Get = JobNamespaceLister_Get"

definition wlmJobLister_List where "wlmJobLister_List = JobLister_List wj_Meta"
definition wlmJobNamespaceLister_List where
  "wlmJobNamespaceLister_List = JobNamespaceLister_List wj_Meta"
definition wlmJobNamespaceLister_Get ::
  "'v wlm_job thread_safe_map \<Rightarrow> string \<Rightarrow> string \<Rightarrow> 'v wlm_job go" where
  "wlmJobNamespaceLister_Get = JobNamespaceLister_Get"

section \<open>The index invariant\<close>

text \<open>The indices list exactly the keys of \<open>m\<close> under every value of every index function.\<close>

definition indexed :: "('o \<Rightarrow> object_meta) \<Rightarrow> 'o thread_safe_map \<Rightarrow> (string \<rightharpoonup> 'o) \<Rightarrow> bool" where
  "indexed meta c m \<longleftrightarrow>
     (\<forall>name f v. map_of (ts_indexers c) name = Some f \<longrightarrow>
        distinct (ts_indices c name v) \<and>
        set (ts_indices c name v) = {k. \<exists>obj. m k = Some obj \<and> v \<in> set (f (meta obj))})"

definition index_ok :: "('o \<Rightarrow> object_meta) \<Rightarrow> 'o thread_safe_map \<Rightarrow> bool" where
  "index_ok meta c \<longleftrightarrow> distinct (map fst (ts_items c)) \<and> indexed meta c (map_of (ts_items c))"

lemma indexed_items [simp]: "indexed meta (c\<lparr>ts_items := items\<rparr>) m = indexed meta c m"
  by (simp add: indexed_def)

lemma indexers_kept [simp]:
  "ts_indexers (deleteFromIndices meta obj key c) = ts_indexers c"
  "ts_indexers (updateIndices meta old new key c) = ts_indexers c"
  "ts_items (deleteFromIndices meta obj key c) = ts_items c"
  "ts_items (updateIndices meta old new key c) = ts_items c"
  by (simp_all add: deleteFromIndices_def updateIndices_def Let_def split: option.split)

lemma deleteFromIndices_indexed:
  assumes "indexed meta c m" "m key = Some obj"
  shows "indexed meta (deleteFromIndices meta obj key c) (m(key := None))"
  unfolding indexed_def
proof (intro allI impI)
  fix name f v assume "map_of (ts_indexers (deleteFromIndices meta obj key c)) name = Some f"
  then have f: "map_of (ts_indexers c) name = Some f" by simp
  with assms(1) have old: "distinct (ts_indices c name v)"
    "set (ts_indices c name v) = {k. \<exists>obj. m k = Some obj \<and> v \<in> set (f (meta obj))}"
    by (simp_all add: indexed_def)
  then show "distinct (ts_indices (deleteFromIndices meta obj key c) name v) \<and>
      set (ts_indices (deleteFromIndices meta obj key c) name v) =
        {k. \<exists>obj. (m(key := None)) k = Some obj \<and> v \<in> set (f (meta obj))}"
    using assms(2) f by (auto simp: deleteFromIndices_def index_delete_def distinct_removeAll)
qed

lemma insert_indexed:
  assumes "indexed meta c m" "m key = None"
  shows "indexed meta (updateIndices meta None new key c) (m(key \<mapsto> new))"
  unfolding indexed_def
proof (intro allI impI)
  fix name f v assume "map_of (ts_indexers (updateIndices meta None new key c)) name = Some f"
  then have f: "map_of (ts_indexers c) name = Some f" by simp
  with assms(1) have old: "distinct (ts_indices c name v)"
    "set (ts_indices c name v) = {k. \<exists>obj. m k = Some obj \<and> v \<in> set (f (meta obj))}"
    by (simp_all add: indexed_def)
  then show "distinct (ts_indices (updateIndices meta None new key c) name v) \<and>
      set (ts_indices (updateIndices meta None new key c) name v) =
        {k. \<exists>obj. (m(key \<mapsto> new)) k = Some obj \<and> v \<in> set (f (meta obj))}"
    using assms(2) f by (auto simp: updateIndices_def index_insert_def)
qed

lemma updateIndices_indexed:
  assumes "indexed meta c m" "m key = old"
  shows "indexed meta (updateIndices meta old new key c) (m(key \<mapsto> new))"
proof (cases old)
  case None
  with assms insert_indexed [OF assms(1), of key new] show ?thesis by simp
next
  case (Some obj)
  have "updateIndices meta old new key c = updateIndices meta None new key (deleteFromIndices meta obj key c)"
    by (simp add: updateIndices_def Some)
  with insert_indexed [OF deleteFromIndices_indexed [OF assms(1)], of key obj key] assms(2) Some
  show ?thesis by simp
qed

lemma ts_Add_ok: "index_ok meta c \<Longrightarrow> index_ok meta (ts_Add meta key obj c)"
  using updateIndices_indexed [of meta "c\<lparr>ts_items := AList.update key obj (ts_items c)\<rparr>" "map_of (ts_items c)" key]
  by (simp add: index_ok_def ts_Add_def Let_def update_conv' distinct_update)

lemma ts_Update_ok: "index_ok meta c \<Longrightarrow> index_ok meta (ts_Update meta key obj c)"
  using ts_Add_ok [of meta c key obj] by (simp add: ts_Add_def ts_Update_def)

lemma ts_Delete_ok: "index_ok meta c \<Longrightarrow> index_ok meta (ts_Delete meta key c)"
  using deleteFromIndices_indexed [of meta c "map_of (ts_items c)" key]
  by (auto simp: index_ok_def ts_Delete_def delete_conv' distinct_delete split: option.split)

lemma reindexed:
  "indexed meta c m \<Longrightarrow> distinct (map fst items) \<Longrightarrow> dom m \<inter> fst ` set items = {} \<Longrightarrow>
   indexed meta (foldl (\<lambda>c (key, item). updateIndices meta None item key c) c items) (m ++ map_of items) \<and>
   ts_items (foldl (\<lambda>c (key, item). updateIndices meta None item key c) c items) = ts_items c"
proof (induction items arbitrary: c m)
  case (Cons x items)
  obtain k obj where x: "x = (k, obj)" by (cases x)
  have k: "m k = None" "k \<notin> fst ` set items" using Cons.prems x by auto
  note new = insert_indexed [OF Cons.prems(1) k(1), of obj]
  have disj: "dom (m(k \<mapsto> obj)) \<inter> fst ` set items = {}" and dist: "distinct (map fst items)"
    using Cons.prems(2,3) k(2) x by auto
  have eq: "m(k \<mapsto> obj) ++ map_of items = m ++ map_of (x # items)"
    using k(2) x map_of_eq_None_iff [of items k] by (auto simp: map_add_def fun_eq_iff split: option.splits)
  from Cons.IH [OF new dist disj] show ?case
    unfolding eq x indexers_kept foldl_Cons prod.case .
qed simp

lemma ts_Replace_ok:
  assumes "distinct (map fst items)"
  shows "index_ok meta (ts_Replace meta items c)"
proof -
  have "indexed meta (c\<lparr>ts_items := items, ts_indices := (\<lambda>_ _. [])\<rparr>) Map.empty"
    by (simp add: indexed_def)
  from reindexed [OF this assms] assms show ?thesis
    by (simp add: index_ok_def ts_Replace_def)
qed

section \<open>Sequences of cache operations\<close>

datatype 'o cache_op = CacheAdd 'o | CacheUpdate 'o | CacheDelete 'o | CacheReplace "'o list"

fun cache_step :: "('o \<Rightarrow> object_meta) \<Rightarrow> 'o cache_op \<Rightarrow> 'o thread_safe_map \<Rightarrow> 'o thread_safe_map" where
  "cache_step meta (CacheAdd obj) c = cache_Add meta obj c"
| "cache_step meta (CacheUpdate obj) c = cache_Update meta obj c"
| "cache_step meta (CacheDelete obj) c = cache_Delete meta obj c"
| "cache_step meta (CacheReplace objs) c = cache_Replace meta objs c"

text \<open>A cache with given indexers, and the cache of an informer, which is indexed by namespace.\<close>

definition run_indexer ::
  "(string \<times> (object_meta \<Rightarrow> string list)) list \<Rightarrow> ('o \<Rightarrow> object_meta) \<Rightarrow> 'o cache_op list \<Rightarrow> 'o thread_safe_map" where
  "run_indexer indexers meta ops = fold (cache_step meta) ops (NewThreadSafeStore indexers)"

definition run_cache :: "('o \<Rightarrow> object_meta) \<Rightarrow> 'o cache_op list \<Rightarrow> 'o thread_safe_map" where
  "run_cache meta ops = run_indexer [(NamespaceIndex, MetaNamespaceIndexFunc)] meta ops"

lemma distinct_keyed:
  "distinct (map fst items) \<Longrightarrow>
   distinct (map fst (fold (\<lambda>obj items. AList.update (f obj) obj items) objs items))"
  by (induction objs arbitrary: items) (simp_all add: distinct_update)

lemma foldl_updateIndices_kept:
  "ts_indexers (foldl (\<lambda>c (key, item). updateIndices meta None item key c) c items) = ts_indexers c"
  by (induction items arbitrary: c) (simp_all add: split_beta)

lemma cache_step_ok:
  assumes "index_ok meta c"
  shows "index_ok meta (cache_step meta p c) \<and> ts_indexers (cache_step meta p c) = ts_indexers c"
proof (cases p)
  case (CacheReplace objs)
  then show ?thesis
    using ts_Replace_ok [OF distinct_keyed [of "[]" "MetaNamespaceKeyFunc meta" objs]]
    by (simp add: cache_Replace_def ts_Replace_def foldl_updateIndices_kept)
qed (use assms in \<open>simp_all add: cache_Add_def cache_Update_def cache_Delete_def ts_Add_ok ts_Update_ok
      ts_Delete_ok, simp_all add: ts_Add_def ts_Update_def ts_Delete_def Let_def split: option.split\<close>)

lemma run_indexer_ok:
  "index_ok meta (run_indexer ixs meta ops) \<and> ts_indexers (run_indexer ixs meta ops) = ixs"
proof -
  have "index_ok meta c \<Longrightarrow> index_ok meta (fold (cache_step meta) ops c) \<and>
      ts_indexers (fold (cache_step meta) ops c) = ts_indexers c" for c
    by (induction ops arbitrary: c) (simp_all add: cache_step_ok)
  from this [of "NewThreadSafeStore ixs"] show ?thesis
    by (simp add: run_indexer_def NewThreadSafeStore_def index_ok_def indexed_def)
qed

section \<open>Listings\<close>

text \<open>The items under a duplicate-free list of the keys with a property.\<close>

lemma keyed_items:
  assumes "distinct (map fst items)" "distinct ks"
    "set ks = {k. \<exists>obj. map_of items k = Some obj \<and> P obj}"
  shows "accessible (map (map_of items) ks) = Ok (map (the \<circ> map_of items) ks)"
    "mset (map (the \<circ> map_of items) ks) = mset (filter P (map snd items))"
proof -
  show "accessible (map (map_of items) ks) = Ok (map (the \<circ> map_of items) ks)"
  proof -
    have "\<forall>k \<in> set ks. map_of items k \<noteq> None" using assms(3) by auto
    then show ?thesis by (induction ks) auto
  qed
  let ?it = "filter (\<lambda>x. P (snd x)) items"
  have val: "x \<in> set items \<Longrightarrow> map_of items (fst x) = Some (snd x)" for x
    using assms(1) by (simp add: map_of_eq_Some_iff)
  have "set ks = set (map fst ?it)"
  proof -
    have "k \<in> set ks \<longleftrightarrow> k \<in> fst ` set ?it" for k
      using assms(1) by (force simp: assms(3) map_of_eq_Some_iff)
    then show ?thesis by auto
  qed
  moreover have "distinct (map fst ?it)" by (rule distinct_map_filter [OF assms(1)])
  ultimately have "mset ks = mset (map fst ?it)"
    using assms(2) set_eq_iff_mset_eq_distinct by blast
  then have "mset (map (the \<circ> map_of items) ks) = mset (map (the \<circ> map_of items) (map fst ?it))"
    by (simp only: mset_map)
  also have "map (the \<circ> map_of items) (map fst ?it) = map snd ?it"
    using val by (auto simp: comp_def)
  also have "map snd ?it = filter P (map snd items)"
    by (simp add: filter_map comp_def)
  finally show "mset (map (the \<circ> map_of items) ks) = mset (filter P (map snd items))" .
qed

definition scan :: "('o \<Rightarrow> object_meta) \<Rightarrow> string \<Rightarrow> ((string \<rightharpoonup> string) \<Rightarrow> bool) \<Rightarrow> 'o list \<Rightarrow> 'o list" where
  "scan meta ns selector objs =
     filter (\<lambda>m. (ns = [] \<or> om_Namespace (meta m) = ns) \<and> selector (om_Labels (meta m))) objs"

text \<open>The indexers answer a namespace with its objects, or have no such index.\<close>

definition namespace_indexers :: "(string \<times> (object_meta \<Rightarrow> string list)) list \<Rightarrow> bool" where
  "namespace_indexers ixs \<longleftrightarrow>
     map_of ixs NamespaceIndex = None \<or> map_of ixs NamespaceIndex = Some MetaNamespaceIndexFunc"

lemma ListAllByNamespace_scan:
  assumes "index_ok meta c" "namespace_indexers (ts_indexers c)"
  shows "\<exists>ms. ListAllByNamespace meta c ns selector = Ok ms \<and> mset ms = mset (scan meta ns selector (ts_List c))"
proof (cases "ns = [] \<or> map_of (ts_indexers c) NamespaceIndex = None")
  case True
  then show ?thesis by (auto simp: ListAllByNamespace_def ListAll_def scan_def ts_Index_def)
next
  case False
  with assms(2) have ix: "map_of (ts_indexers c) NamespaceIndex = Some MetaNamespaceIndexFunc"
    by (auto simp: namespace_indexers_def)
  define ks where "ks = List.union (ts_indices c NamespaceIndex ns) []"
  define items where "items = ts_items c"
  have "distinct ks" "set ks = {k. \<exists>obj. map_of items k = Some obj \<and> om_Namespace (meta obj) = ns}"
    using assms(1) ix unfolding index_ok_def indexed_def
    by (auto simp: ks_def items_def MetaNamespaceIndexFunc_def)
  moreover have "distinct (map fst items)" using assms(1) by (simp add: index_ok_def items_def)
  ultimately have acc: "accessible (map (map_of items) ks) = Ok (map (the \<circ> map_of items) ks)"
    and ms: "mset (map (the \<circ> map_of items) ks) = mset (filter (\<lambda>m. om_Namespace (meta m) = ns) (map snd items))"
    using keyed_items [of items ks "\<lambda>m. om_Namespace (meta m) = ns"] by blast+
  have "ts_Index NamespaceIndex (namespace_meta ns) c = Ok (map (map_of items) ks)"
    by (simp add: ts_Index_def ix MetaNamespaceIndexFunc_def namespace_meta_def ks_def items_def)
  then have "ListAllByNamespace meta c ns selector =
      Ok (filter (\<lambda>m. selector (om_Labels (meta m))) (map (the \<circ> map_of items) ks))"
    using False acc by (simp add: ListAllByNamespace_def)
  moreover have "mset (filter (\<lambda>m. selector (om_Labels (meta m))) (map (the \<circ> map_of items) ks)) =
      mset (scan meta ns selector (ts_List c))"
  proof -
    let ?s = "\<lambda>m. selector (om_Labels (meta m))" and ?n = "\<lambda>m. om_Namespace (meta m) = ns"
    have "mset (filter ?s (map (the \<circ> map_of items) ks)) = mset (filter ?s (filter ?n (map snd items)))"
      unfolding mset_filter [of ?s] ms ..
    also have "filter ?s (filter ?n (map snd items)) = scan meta ns selector (ts_List c)"
      using False by (simp add: scan_def ts_List_def items_def conj_commute)
    finally show ?thesis .
  qed
  ultimately show ?thesis by blast
qed

section \<open>The cache as a map\<close>

text \<open>What an operation means for the map from keys to objects.\<close>

fun cache_map_step :: "('o \<Rightarrow> object_meta) \<Rightarrow> 'o cache_op \<Rightarrow> (string \<rightharpoonup> 'o) \<Rightarrow> (string \<rightharpoonup> 'o)" where
  "cache_map_step meta (CacheAdd obj) m = m(MetaNamespaceKeyFunc meta obj \<mapsto> obj)"
| "cache_map_step meta (CacheUpdate obj) m = m(MetaNamespaceKeyFunc meta obj \<mapsto> obj)"
| "cache_map_step meta (CacheDelete obj) m = m(MetaNamespaceKeyFunc meta obj := None)"
| "cache_map_step meta (CacheReplace objs) m =
     fold (\<lambda>obj m. m(MetaNamespaceKeyFunc meta obj \<mapsto> obj)) objs Map.empty"

definition cache_map :: "('o \<Rightarrow> object_meta) \<Rightarrow> 'o cache_op list \<Rightarrow> (string \<rightharpoonup> 'o)" where
  "cache_map meta ops = fold (cache_map_step meta) ops Map.empty"

lemma map_of_keyed:
  "map_of (fold (\<lambda>obj items. AList.update (f obj) obj items) objs items) =
   fold (\<lambda>obj m. m(f obj \<mapsto> obj)) objs (map_of items)"
  by (induction objs arbitrary: items) (simp_all add: update_conv')

lemma cache_step_items:
  "map_of (ts_items (cache_step meta p c)) = cache_map_step meta p (map_of (ts_items c))"
proof (cases p)
  case (CacheReplace objs)
  have "ts_items (foldl (\<lambda>c (key, item). updateIndices meta None item key c) c' items) = ts_items c'" for c' items
    by (induction items arbitrary: c') (simp_all add: split_beta)
  then show ?thesis
    using CacheReplace map_of_keyed [of "MetaNamespaceKeyFunc meta" objs "[]"]
    by (simp add: cache_Replace_def ts_Replace_def)
next
  case (CacheDelete obj)
  then show ?thesis
    by (auto simp: cache_Delete_def ts_Delete_def delete_conv' fun_eq_iff split: option.split)
qed (simp_all add: cache_Add_def cache_Update_def ts_Add_def ts_Update_def Let_def update_conv')

lemma run_indexer_items: "map_of (ts_items (run_indexer ixs meta ops)) = cache_map meta ops"
proof -
  have "map_of (ts_items (fold (cache_step meta) ops c)) = fold (cache_map_step meta) ops (map_of (ts_items c))" for c
    by (induction ops arbitrary: c) (simp_all add: cache_step_items)
  then show ?thesis by (simp add: run_indexer_def cache_map_def NewThreadSafeStore_def)
qed

lemma run_cache_items: "map_of (ts_items (run_cache meta ops)) = cache_map meta ops"
  by (simp add: run_cache_def run_indexer_items)

text \<open>Every object is under its own key, so the cache holds no object twice.\<close>

definition self_keyed :: "('o \<Rightarrow> object_meta) \<Rightarrow> (string \<rightharpoonup> 'o) \<Rightarrow> bool" where
  "self_keyed meta m \<longleftrightarrow> (\<forall>k obj. m k = Some obj \<longrightarrow> k = MetaNamespaceKeyFunc meta obj)"

lemma self_keyed_laws:
  "self_keyed meta Map.empty"
  "self_keyed meta m \<Longrightarrow> self_keyed meta (m(MetaNamespaceKeyFunc meta obj \<mapsto> obj))"
  "self_keyed meta m \<Longrightarrow> self_keyed meta (m(k := None))"
  unfolding self_keyed_def by (simp_all split: if_split)

lemma cache_map_step_self_keyed: "self_keyed meta m \<Longrightarrow> self_keyed meta (cache_map_step meta p m)"
proof (cases p)
  case (CacheReplace objs)
  have "self_keyed meta m \<Longrightarrow> self_keyed meta (fold (\<lambda>obj m. m(MetaNamespaceKeyFunc meta obj \<mapsto> obj)) objs m)" for m
    by (induction objs arbitrary: m) (simp_all add: self_keyed_laws del: fun_upd_apply)
  from this [OF self_keyed_laws(1)] CacheReplace show ?thesis by simp
qed (simp_all add: self_keyed_laws del: fun_upd_apply)

lemma cache_map_self_keyed: "self_keyed meta (cache_map meta ops)"
proof -
  have "self_keyed meta m \<Longrightarrow> self_keyed meta (fold (cache_map_step meta) ops m)" for m
    by (induction ops arbitrary: m) (simp_all add: cache_map_step_self_keyed)
  from this [of Map.empty] show ?thesis by (simp add: cache_map_def self_keyed_def)
qed

lemma run_indexer_List:
  "distinct (ts_List (run_indexer ixs meta ops))" "set (ts_List (run_indexer ixs meta ops)) = ran (cache_map meta ops)"
proof -
  let ?items = "ts_items (run_indexer ixs meta ops)"
  have d: "distinct (map fst ?items)" using run_indexer_ok [of meta ixs ops] by (simp add: index_ok_def)
  have key: "fst x = MetaNamespaceKeyFunc meta (snd x)" if "x \<in> set ?items" for x
  proof -
    from that d have "map_of ?items (fst x) = Some (snd x)" by (simp add: map_of_eq_Some_iff)
    then show ?thesis using cache_map_self_keyed [of meta ops] by (simp add: run_indexer_items self_keyed_def)
  qed
  have "map fst ?items = map (MetaNamespaceKeyFunc meta) (map snd ?items)"
    using key by (simp add: comp_def)
  with d have "distinct (map (MetaNamespaceKeyFunc meta) (ts_List (run_indexer ixs meta ops)))"
    unfolding ts_List_def by metis
  then show "distinct (ts_List (run_indexer ixs meta ops))" by (simp add: distinct_map)
  show "set (ts_List (run_indexer ixs meta ops)) = ran (cache_map meta ops)"
    using ran_distinct [OF d] by (simp add: run_indexer_items ts_List_def)
qed

lemma run_indexer_listed:
  assumes "mset ms = mset (scan meta ns selector (ts_List (run_indexer ixs meta ops)))"
  shows "distinct ms \<and> set ms = {obj \<in> ran (cache_map meta ops).
    (ns = [] \<or> om_Namespace (meta obj) = ns) \<and> selector (om_Labels (meta obj))}"
  using run_indexer_List(1) [of ixs meta ops] mset_eq_imp_distinct_iff [OF assms] mset_eq_setD [OF assms]
    run_indexer_List(2) [of ixs meta ops]
  by (auto simp: scan_def)

text \<open>
  C37. After any sequence of additions, updates, deletions and replacements, a cache, indexed by
  namespace or not, is the map of the last object under each key: a listing gives every object the
  selector matches exactly once, that of a namespace the objects of that namespace among them, and
  \<open>Get\<close> gives the object under \<open>namespace/name\<close> or a not-found error.
\<close>

theorem informer_listers_refine_map:
  assumes "namespace_indexers ixs"
  shows "(\<exists>ms. JobLister_List meta (run_indexer ixs meta ops) selector = Ok ms \<and> distinct ms \<and>
      set ms = {obj \<in> ran (cache_map meta ops). selector (om_Labels (meta obj))}) \<and>
   (\<exists>ms. JobNamespaceLister_List meta (run_indexer ixs meta ops) ns selector = Ok ms \<and> distinct ms \<and>
      set ms = {obj \<in> ran (cache_map meta ops).
        (ns = [] \<or> om_Namespace (meta obj) = ns) \<and> selector (om_Labels (meta obj))}) \<and>
   JobNamespaceLister_Get (run_indexer ixs meta ops) ns name =
     (case cache_map meta ops (ns @ ''/'' @ name) of None \<Rightarrow> Err ApiNotFound | Some obj \<Rightarrow> Ok obj)"
proof (intro conjI)
  let ?c = "run_indexer ixs meta ops"
  have all: "JobLister_List meta ?c selector = Ok (scan meta [] selector (ts_List ?c))"
    by (simp add: JobLister_List_def ListAll_def scan_def)
  show "\<exists>ms. JobLister_List meta ?c selector = Ok ms \<and> distinct ms \<and>
      set ms = {obj \<in> ran (cache_map meta ops). selector (om_Labels (meta obj))}"
    unfolding all using run_indexer_listed [OF refl, of meta "[]" selector ixs ops] by simp
  from run_indexer_ok [of meta ixs ops] assms obtain ms where
    "ListAllByNamespace meta ?c ns selector = Ok ms" "mset ms = mset (scan meta ns selector (ts_List ?c))"
    using ListAllByNamespace_scan [of meta ?c ns selector] by auto
  then show "\<exists>ms. JobNamespaceLister_List meta ?c ns selector = Ok ms \<and> distinct ms \<and>
      set ms = {obj \<in> ran (cache_map meta ops).
        (ns = [] \<or> om_Namespace (meta obj) = ns) \<and> selector (om_Labels (meta obj))}"
    using run_indexer_listed [of ms meta ns selector ixs ops] by (simp add: JobNamespaceLister_List_def)
qed (simp add: JobNamespaceLister_Get_def cache_GetByKey_def ts_Get_def run_indexer_items)

text \<open>Two objects in a cache without indexers, one of them in the namespace with the label asked for.\<close>

definition labelled_meta :: "string \<Rightarrow> string \<Rightarrow> object_meta" where
  "labelled_meta ns v =
     \<lparr>om_Name = ''cow'', om_Namespace = ns, om_UID = [], om_OwnerReferences = [], om_Labels = [''app'' \<mapsto> v]\<rparr>"

theorem informer_listers_refine_map_witness:
  "\<exists>ms. JobNamespaceLister_List id
       (run_indexer [] id [CacheAdd (labelled_meta ''a'' ''x''), CacheAdd (labelled_meta ''b'' ''x'')]) ''b''
       (\<lambda>ls. ls ''app'' = Some ''x'') = Ok ms \<and> distinct ms \<and> set ms = {labelled_meta ''b'' ''x''}"
proof -
  let ?ops = "[CacheAdd (labelled_meta ''a'' ''x''), CacheAdd (labelled_meta ''b'' ''x'')]"
  have no_index: "namespace_indexers []" by (simp add: namespace_indexers_def)
  have "cache_map id ?ops = [''a/cow'' \<mapsto> labelled_meta ''a'' ''x'', ''b/cow'' \<mapsto> labelled_meta ''b'' ''x'']"
    by (simp add: cache_map_def MetaNamespaceKeyFunc_def) (simp add: labelled_meta_def)
  then have objs: "ran (cache_map id ?ops) = {labelled_meta ''a'' ''x'', labelled_meta ''b'' ''x''}"
    by (simp add: ran_map_upd insert_commute)
  have sel: "{obj \<in> {labelled_meta ''a'' ''x'', labelled_meta ''b'' ''x''}.
      (''b'' = [] \<or> om_Namespace (id obj) = ''b'') \<and> om_Labels (id obj) ''app'' = Some ''x''} = {labelled_meta ''b'' ''x''}"
    by (auto simp: labelled_meta_def)
  show ?thesis
    using conjunct1 [OF conjunct2 [OF informer_listers_refine_map [OF no_index, of id ?ops
        "\<lambda>ls. ls ''app'' = Some ''x''" "''b''" "''cow''"]]]
    unfolding objs sel .
qed

end
