(* ===== verification/Informer_Sync.thy ===== *)
theory Informer_Sync
  imports Tracker_Watch Informers
begin

text \<open>
  The parts of an informer together: a listing of the tracker replaces the cache, the events of a
  watch are applied to it in order, and the lister reads it. What connects the two stores is the
  text key \<open>namespace/name\<close>, which determines the object when no namespace has a slash.
\<close>

section \<open>Text keys and object keys\<close>

definition good_meta :: "object_meta \<Rightarrow> bool" where
  "good_meta m \<longleftrightarrow> named (meta_key m) \<and> CHR ''/'' \<notin> set (om_Namespace m)"

definition keys_agree :: "(string \<rightharpoonup> 'o) \<Rightarrow> (obj_key \<rightharpoonup> 'o) \<Rightarrow> bool" where
  "keys_agree c m \<longleftrightarrow>
     (\<forall>ns name. ns \<noteq> [] \<longrightarrow> CHR ''/'' \<notin> set ns \<longrightarrow> name \<noteq> [] \<longrightarrow> c (ns @ ''/'' @ name) = m (ns, name))"

lemma text_key_inj:
  "CHR ''/'' \<notin> set ns \<Longrightarrow> CHR ''/'' \<notin> set ns' \<Longrightarrow> ns @ CHR ''/'' # name = ns' @ CHR ''/'' # name' \<longleftrightarrow> ns = ns' \<and> name = name'"
  using Split_append [of "CHR ''/''" ns name] Split_append [of "CHR ''/''" ns' name']
  by (metis list.inject same_append_eq)

lemma keys_agree_upd:
  assumes "good_meta (meta obj)" "keys_agree c m"
  shows "keys_agree (c(MetaNamespaceKeyFunc meta obj := x)) (m(meta_key (meta obj) := x))"
proof -
  have "MetaNamespaceKeyFunc meta obj = om_Namespace (meta obj) @ ''/'' @ om_Name (meta obj)"
    using assms(1) by (simp add: good_meta_def named_def meta_key_def MetaNamespaceKeyFunc_def)
  with assms show ?thesis
    by (auto simp: keys_agree_def good_meta_def meta_key_def text_key_inj)
qed

section \<open>Events as cache operations\<close>

fun event_op :: "'o watch_event \<Rightarrow> 'o cache_op" where
  "event_op (Added obj) = CacheAdd obj"
| "event_op (Modified obj) = CacheUpdate obj"
| "event_op (Deleted obj) = CacheDelete obj"

fun event_object :: "'o watch_event \<Rightarrow> 'o" where
  "event_object (Added obj) = obj"
| "event_object (Modified obj) = obj"
| "event_object (Deleted obj) = obj"

lemma event_agree:
  "good_meta (meta (event_object ev)) \<Longrightarrow> keys_agree c m \<Longrightarrow>
   keys_agree (cache_map_step meta (event_op ev) c) (replay_event meta ev m)"
  by (cases ev) (simp_all add: keys_agree_upd)

lemma events_agree:
  "\<forall>ev \<in> set evs. good_meta (meta (event_object ev)) \<Longrightarrow> keys_agree c m \<Longrightarrow>
   keys_agree (fold (cache_map_step meta) (map event_op evs) c) (fold (replay_event meta) evs m)"
  by (induction evs arbitrary: c m) (simp_all add: event_agree)

lemma listing_agree:
  "\<forall>obj \<in> set objs. good_meta (meta obj) \<Longrightarrow> keys_agree c m \<Longrightarrow>
   keys_agree (fold (\<lambda>obj c. c(MetaNamespaceKeyFunc meta obj \<mapsto> obj)) objs c)
     (fold (\<lambda>obj m. m(meta_key (meta obj) \<mapsto> obj)) objs m)"
  by (induction objs arbitrary: c m) (simp_all add: keys_agree_upd del: fun_upd_apply)

lemma fold_view:
  "distinct (map (meta_key \<circ> meta) objs) \<Longrightarrow>
   fold (\<lambda>obj m. m(meta_key (meta obj) \<mapsto> obj)) objs m = m ++ tracker_view meta objs"
proof (induction objs arbitrary: m)
  case (Cons x objs)
  have "tracker_view meta objs (meta_key (meta x)) = None"
    using Cons.prems unfolding tracker_view_None by (auto simp: image_iff)
  then have "m(meta_key (meta x) \<mapsto> x) ++ tracker_view meta objs = m ++ tracker_view meta (x # objs)"
    by (auto simp: map_add_def fun_eq_iff split: option.splits)
  then show ?case using Cons.IH [of "m(meta_key (meta x) \<mapsto> x)"] Cons.prems
    by (simp del: tracker_view_simps fun_upd_apply)
qed simp

lemma tracker_List_view: "tracker_view meta (tracker_List meta objs ns) = in_namespace ns (tracker_view meta objs)"
proof (induction objs)
  case (Cons x objs)
  have "fst (meta_key (meta x)) = om_Namespace (meta x)" by (simp add: meta_key_def)
  with Cons show ?case
    by (auto simp: tracker_List_def filterByNamespaceAndName_def in_namespace_upd simp del: fun_upd_apply)
qed (simp add: tracker_List_def filterByNamespaceAndName_def in_namespace_def)

section \<open>What the watchers are sent\<close>

definition sends_only :: "('o \<Rightarrow> bool) \<Rightarrow> 'o watched_tracker \<Rightarrow> bool" where
  "sends_only Q t \<longleftrightarrow>
     (\<forall>x \<in> set (wt_objects t). Q x) \<and>
     (\<forall>w \<in> set (wt_watchers t). \<forall>ev \<in> set (wr_sent w). Q (event_object ev))"

fun op_all :: "('o \<Rightarrow> bool) \<Rightarrow> 'o tracker_op \<Rightarrow> bool" where
  "op_all Q (OpCreate obj) = Q obj"
| "op_all Q (OpUpdate obj) = Q obj"
| "op_all Q (OpDelete k) = True"
| "op_all Q (OpWatch ns) = True"
| "op_all Q (OpReceive i) = True"
| "op_all Q (OpStop i) = True"

lemma send_times_sent: "send_times n ev w = Ok w' \<Longrightarrow> set (wr_sent w') \<subseteq> insert ev (set (wr_sent w))"
proof (induction n arbitrary: w)
  case (Suc n)
  then obtain v where "watcher_send ev w = Ok v" "send_times n ev v = Ok w'" by auto
  with Suc.IH [of v] watcher_send_Ok [of ev w v] show ?case
    by (auto simp: watcher_send_def split: if_splits)
qed auto

lemma notify_sent:
  assumes "notify ns ev ws = Ok ws'" "w' \<in> set ws'"
  shows "\<exists>w \<in> set ws. set (wr_sent w') \<subseteq> insert ev (set (wr_sent w))"
proof -
  have each: "list_all2 (\<lambda>w w'. send_times (watches_of ns w) ev w = Ok w') ws ws'"
    using assms(1) by (simp add: notify_def go_each_Ok_iff)
  from assms(2) obtain i where i: "i < length ws'" "w' = ws' ! i" by (auto simp: in_set_conv_nth)
  with each have "ws ! i \<in> set ws" "send_times (watches_of ns (ws ! i)) ev (ws ! i) = Ok w'"
    by (simp_all add: list_all2_conv_all_nth)
  with send_times_sent show ?thesis by blast
qed

lemma sends_only_notify:
  assumes "sends_only Q t" "notify ns ev (wt_watchers t) = Ok ws" "Q (event_object ev)" "\<forall>x \<in> set objs. Q x"
  shows "sends_only Q (t\<lparr>wt_objects := objs, wt_watchers := ws\<rparr>)"
  using assms(1,3,4) notify_sent [OF assms(2)] by (fastforce simp: sends_only_def)

lemma tracker_put_set: "tracker_put meta obj r objs = Ok objs' \<Longrightarrow> set objs' \<subseteq> insert obj (set objs)"
  by (induction objs arbitrary: objs') (auto split: if_splits)

lemma tracker_Delete_set: "tracker_Delete meta objs ns name = Ok objs' \<Longrightarrow> set objs' \<subseteq> set objs"
  by (induction objs arbitrary: objs') (auto split: if_splits)

lemma wt_add_sends:
  assumes "sends_only Q t" "Q obj" "om_Namespace (meta obj) \<noteq> []"
    "recovered t (wt_add meta set_ns obj (om_Namespace (meta obj)) replace t) = Ok t'"
  shows "sends_only Q t'"
proof (cases "wt_add meta set_ns obj (om_Namespace (meta obj)) replace t")
  case (Ok t'')
  with assms(3) obtain objs ws where a: "tracker_put meta obj replace (wt_objects t) = Ok objs"
    "notify (om_Namespace (meta obj)) (if replace then Modified obj else Added obj) (wt_watchers t) = Ok ws"
    "t'' = t\<lparr>wt_objects := objs, wt_watchers := ws\<rparr>"
    by (auto simp: wt_add_def tracker_add_def Let_def)
  have "\<forall>x \<in> set objs. Q x"
    using tracker_put_set [OF a(1)] assms(1,2) by (auto simp: sends_only_def)
  moreover have "Q (event_object (if replace then Modified obj else Added obj))" using assms(2) by simp
  ultimately have "sends_only Q t''"
    unfolding a(3) using sends_only_notify [OF assms(1) a(2)] by blast
  then show ?thesis using assms(4) Ok by (simp add: recovered_def)
qed (use assms in \<open>simp_all add: recovered_def\<close>)

lemma wt_Delete_sends:
  assumes "sends_only Q t" "recovered t (wt_Delete meta ns name t) = Ok t'"
  shows "sends_only Q t'"
proof (cases "wt_Delete meta ns name t")
  case (Ok t'')
  then obtain obj objs ws where
    d: "find (\<lambda>x. om_Namespace (meta x) = ns \<and> om_Name (meta x) = name) (wt_objects t) = Some obj"
    "tracker_Delete meta (wt_objects t) ns name = Ok objs" "notify ns (Deleted obj) (wt_watchers t) = Ok ws"
    "t'' = t\<lparr>wt_objects := objs, wt_watchers := ws\<rparr>"
    by (auto simp: wt_Delete_def split: option.splits)
  have "Q obj" using find_SomeD [OF d(1)] assms(1) by (simp add: sends_only_def)
  moreover have "\<forall>x \<in> set objs. Q x" using tracker_Delete_set [OF d(2)] assms(1) by (auto simp: sends_only_def)
  ultimately have "sends_only Q t''"
    unfolding d(4) using sends_only_notify [OF assms(1) d(3)] by simp
  then show ?thesis using assms(2) Ok by (simp add: recovered_def)
qed (use assms in \<open>simp_all add: recovered_def\<close>)

lemma sends_only_at:
  assumes "sends_only Q t" "\<And>w. wr_sent (f w) = wr_sent w"
  shows "sends_only Q (if i < length (wt_watchers t) then at_watcher i f t else t)"
proof -
  have "wr_sent w \<in> wr_sent ` set (wt_watchers t)" if "w \<in> set ((wt_watchers t)[i := f (wt_watchers t ! i)])"
    "i < length (wt_watchers t)" for w
    using set_update_subset_insert [of "wt_watchers t" i "f (wt_watchers t ! i)"] that assms(2) by auto
  with assms(1) show ?thesis unfolding sends_only_def at_watcher_def by (fastforce split: if_splits)
qed

lemma tracker_step_sends:
  assumes "sends_only Q t" "op_all Q p" "op_named meta p" "tracker_step meta set_ns p t = Ok t'"
  shows "sends_only Q t'"
proof (cases p)
  case (OpCreate obj)
  then show ?thesis using wt_add_sends [OF assms(1), of obj meta set_ns False] assms(2-4)
    by (simp add: named_def meta_key_def)
next
  case (OpUpdate obj)
  then show ?thesis using wt_add_sends [OF assms(1), of obj meta set_ns True] assms(2-4)
    by (simp add: named_def meta_key_def)
next
  case (OpDelete k)
  then show ?thesis using wt_Delete_sends [OF assms(1)] assms(4) by simp
next
  case (OpWatch n)
  then show ?thesis using assms(1,4) by (auto simp: sends_only_def wt_Watch_def NewRaceFreeFake_def)
next
  case (OpReceive i)
  then show ?thesis using sends_only_at [OF assms(1), of watcher_receive i] assms(4)
    by (simp add: watcher_receive_def split: if_splits)
next
  case (OpStop i)
  then show ?thesis using sends_only_at [OF assms(1), of watcher_Stop i] assms(4)
    by (simp add: watcher_Stop_def split: if_splits)
qed

lemma tracker_run_sends:
  "tracker_run meta set_ns ps t = Ok t' \<Longrightarrow> sends_only Q t \<Longrightarrow> list_all (op_all Q) ps \<Longrightarrow>
   list_all (op_named meta) ps \<Longrightarrow> sends_only Q t'"
proof (induction ps arbitrary: t)
  case (Cons p ps)
  then show ?case using tracker_step_sends [of Q t p meta set_ns] by fastforce
qed simp

section \<open>A synchronised informer\<close>

definition good_op :: "('o \<Rightarrow> object_meta) \<Rightarrow> 'o tracker_op \<Rightarrow> bool" where
  "good_op meta p \<longleftrightarrow> op_named meta p \<and> op_all (\<lambda>obj. good_meta (meta obj)) p"

text \<open>The cache after the listing and the events of a watch.\<close>

definition synced_cache :: "('o \<Rightarrow> object_meta) \<Rightarrow> 'o list \<Rightarrow> 'o watch_event list \<Rightarrow> 'o thread_safe_map" where
  "synced_cache meta listed events = run_cache meta (CacheReplace listed # map event_op events)"

text \<open>
  C36. A synchronised informer is right: when the watch is opened with the listing, \<open>Get\<close> of the
  lister on the cache that was filled with the listing and then fed the events of the watch gives
  what the tracker holds now, for every namespace the informer watches and every name.
\<close>

theorem informer_reads_tracker:
  assumes "tracker_ok object_meta_of (wt_objects t)" "wt_Watch ns t = (i, t1)"
    "tracker_run object_meta_of object_set_ns ps t1 = Ok t2"
    "\<forall>obj \<in> set (wt_objects t). good_meta (object_meta_of obj)" "wt_watchers t = []"
    "list_all (good_op object_meta_of) ps" "\<not> wr_Stopped (wt_watchers t2 ! i)"
    "n \<noteq> []" "CHR ''/'' \<notin> set n" "name \<noteq> []" "ns = [] \<or> n = ns"
  shows "JobNamespaceLister_Get
      (synced_cache object_meta_of (tracker_List object_meta_of (wt_objects t) ns) (wr_sent (wt_watchers t2 ! i))) n name =
    tracker_Get object_meta_of (wt_objects t2) n name"
proof -
  let ?meta = "object_meta_of" and ?Q = "\<lambda>obj. good_meta (object_meta_of obj)"
  let ?listed = "tracker_List object_meta_of (wt_objects t) ns" and ?evs = "wr_sent (wt_watchers t2 ! i)"
  have named: "list_all (op_named ?meta) ps" and good: "list_all (op_all ?Q) ps"
    using assms(6) by (auto simp: list_all_iff good_op_def)
  have start: "tracker_ok ?meta (wt_objects t1)" "faithful ?meta ns (tracker_view ?meta (wt_objects t)) t1 i"
    "sends_only ?Q t1"
    using assms(1,2,4,5) by (auto simp: wt_Watch_def faithful_def NewRaceFreeFake_def sends_only_def)
  note run = tracker_run_faithful [OF assms(3) start(1,2) named]
  have "\<forall>ev \<in> set ?evs. good_meta (?meta (event_object ev))"
    using tracker_run_sends [OF assms(3) start(3) good named] run by (auto simp: sends_only_def faithful_def)
  moreover have "keys_agree (cache_map_step ?meta (CacheReplace ?listed) Map.empty)
      (in_namespace ns (tracker_view ?meta (wt_objects t)))"
  proof -
    have sub: "set ?listed \<subseteq> set (wt_objects t)" by (auto simp: tracker_List_def filterByNamespaceAndName_def)
    have "distinct (map (meta_key \<circ> ?meta) ?listed)"
      using assms(1) unfolding tracker_ok_def tracker_List_def filterByNamespaceAndName_def
      by (intro distinct_map_filter) simp
    from fold_view [OF this, of Map.empty] have
      "fold (\<lambda>obj m. m(meta_key (?meta obj) \<mapsto> obj)) ?listed Map.empty = in_namespace ns (tracker_view ?meta (wt_objects t))"
      by (simp add: tracker_List_view)
    moreover have "keys_agree Map.empty (Map.empty :: obj_key \<rightharpoonup> 'a job_object)" by (simp add: keys_agree_def)
    ultimately show ?thesis
      using listing_agree [of ?listed ?meta Map.empty Map.empty] sub assms(4) by auto
  qed
  ultimately have "keys_agree (cache_map ?meta (CacheReplace ?listed # map event_op ?evs))
      (fold (replay_event ?meta) ?evs (in_namespace ns (tracker_view ?meta (wt_objects t))))"
    using events_agree by (simp add: cache_map_def del: cache_map_step.simps)
  also have "fold (replay_event ?meta) ?evs (in_namespace ns (tracker_view ?meta (wt_objects t))) =
      in_namespace ns (tracker_view ?meta (wt_objects t2))"
    using run assms(7) by (simp add: faithful_def)
  finally have "cache_map ?meta (CacheReplace ?listed # map event_op ?evs) (n @ ''/'' @ name) =
      tracker_view ?meta (wt_objects t2) (n, name)"
    using assms(8-11) by (auto simp: keys_agree_def in_namespace_def)
  then show ?thesis
    using tracker_Get_view [of ?meta "wt_objects t2" "(n, name)"] run assms(8,10)
    by (simp add: JobNamespaceLister_Get_def cache_GetByKey_def ts_Get_def synced_cache_def run_cache_items named_def)
qed

section \<open>Witness\<close>

lemma example_ops_good: "list_all (good_op object_meta_of) example_ops"
  by (simp add: example_ops_def good_op_def good_meta_def named_def)

theorem informer_reads_tracker_witness:
  "JobNamespaceLister_Get (synced_cache object_meta_of [] (wr_sent (wt_watchers example_watched ! 0))) ''default'' ''dog'' =
   Ok (WlmJobObject (named_job ''dog''))"
proof -
  have t: "tracker_ok object_meta_of (wt_objects example_tracker)"
    "\<forall>obj \<in> set (wt_objects example_tracker). good_meta (object_meta_of obj)" "wt_watchers example_tracker = []"
    by (simp_all add: example_tracker_def)
  have "JobNamespaceLister_Get
      (synced_cache object_meta_of (tracker_List object_meta_of (wt_objects example_tracker) ''default'')
        (wr_sent (wt_watchers example_watched ! 0))) ''default'' ''dog'' =
    tracker_Get object_meta_of (wt_objects example_watched) ''default'' ''dog''"
    by (rule informer_reads_tracker [OF t(1) example_watch_run(1,2) t(2,3) example_ops_good])
      (simp_all add: example_watched_def)
  then show ?thesis
    by (simp add: example_tracker_def tracker_List_def filterByNamespaceAndName_def tracker_Get_def example_watched_def)
qed

end
