(* ===== verification/Cached_Operator.thy ===== *)
theory Cached_Operator
  imports Operator Informer_Sync
begin

text \<open>
  The same controllers with the client they really have: it reads the caches of the informers and
  writes to the server (\<open>slurmjob_controller.go\<close>, comment of \<open>Reconciler\<close>). Events reach each cache
  in order and later the handlers; a reconciliation reads the job, reads the pod and writes at three
  different times; a write of a status is refused when the job has changed since it was read. The
  theorems: the jobs are still synchronised at rest, but the guard against a second run of a job is
  lost when the cache of the jobs is behind that of the pods.
\<close>

section \<open>Server, caches and workers\<close>

text \<open>What a worker has read so far.\<close>

datatype 'j worker = Picked | HasJob "'j option" | HasPod "'j option" "pod option" | Returned

record 'j cached_state =
  sv_jobs :: "obj_key \<Rightarrow> 'j option"
  sv_pods :: "obj_key \<Rightarrow> pod option"
  ca_jobs :: "obj_key \<Rightarrow> 'j option"
  ca_pods :: "obj_key \<Rightarrow> pod option"
  ev_jobs :: "'j watch_event list"
  ev_pods :: "pod watch_event list"
  cs_notes :: "informer_event list"
  cs_queue :: "obj_key work_queue"
  cs_delayed :: "obj_key list"
  cs_busy :: "(obj_key \<times> 'j worker) list"

text \<open>The event of a change; an update without effect causes none.\<close>

fun change_event :: "'o option \<Rightarrow> 'o option \<Rightarrow> 'o watch_event list" where
  "change_event None None = []"
| "change_event None (Some y) = [Added y]"
| "change_event (Some x) None = [Deleted x]"
| "change_event (Some x) (Some y) = (if y = x then [] else [Modified y])"

definition in_scope :: "'j controller \<Rightarrow> obj_key \<Rightarrow> bool" where
  "in_scope c k \<longleftrightarrow> ct_namespace c = [] \<or> fst k = ct_namespace c"

definition put_job :: "'j controller \<Rightarrow> obj_key \<Rightarrow> 'j option \<Rightarrow> 'j cached_state \<Rightarrow> 'j cached_state" where
  "put_job c k x s =
     s\<lparr>sv_jobs := (sv_jobs s)(k := x),
       ev_jobs := ev_jobs s @ (if in_scope c k then change_event (sv_jobs s k) x else [])\<rparr>"

definition put_pod :: "'j controller \<Rightarrow> obj_key \<Rightarrow> pod option \<Rightarrow> 'j cached_state \<Rightarrow> 'j cached_state" where
  "put_pod c k x s =
     s\<lparr>sv_pods := (sv_pods s)(k := x),
       ev_pods := ev_pods s @ (if in_scope c k then change_event (sv_pods s k) x else [])\<rparr>"

text \<open>
  The client of a worker that has read \<open>jo\<close> and \<open>po\<close>. The server refuses a status for an object
  that is not the one the worker read, which is how resource versions work.
\<close>

definition ApiConflict :: go_error where
  "ApiConflict = ApiError ''Conflict''"

definition cached_client :: "'j controller \<Rightarrow> 'j option \<Rightarrow> pod option \<Rightarrow> ('j, 'j cached_state) api_client" where
  "cached_client c jo po =
     \<lparr>ac_GetJob = (\<lambda>k s. (case jo of Some j \<Rightarrow> (j, None) | None \<Rightarrow> (ct_zero c, Some ApiNotFound), s)),
      ac_GetPod = (\<lambda>k s. (case po of Some p \<Rightarrow> (p, None) | None \<Rightarrow> (zero_pod, Some ApiNotFound), s)),
      ac_CreatePod = (\<lambda>p s.
        (let k = meta_key (pod_Meta p)
         in case sv_pods s k of
              Some q \<Rightarrow> (Some ApiAlreadyExists, s)
            | None \<Rightarrow> (None, put_pod c k (Some p) s))),
      ac_UpdateStatus = (\<lambda>j s.
        (let k = meta_key (jk_meta (ct_kind c) j)
         in case sv_jobs s k of
              None \<Rightarrow> (Some ApiNotFound, s)
            | Some cur \<Rightarrow> if jo = Some cur then (None, put_job c k (Some j) s) else (Some ApiConflict, s)))\<rparr>"

section \<open>The steps\<close>

text \<open>
  \<open>HandleDeltas\<close> of a shared informer: the cache is updated, then the handlers are notified with the
  cached and the new state.
\<close>

fun notification :: "('o \<Rightarrow> object_meta) \<Rightarrow> 'o watch_event \<Rightarrow> (obj_key \<rightharpoonup> 'o) \<Rightarrow> meta_event" where
  "notification meta (Deleted obj) cache = DeleteEvent (Some (meta obj))"
| "notification meta (Added obj) cache =
     (case cache (meta_key (meta obj)) of
        Some old \<Rightarrow> UpdateEvent (Some (meta old)) (Some (meta obj))
      | None \<Rightarrow> CreateEvent (Some (meta obj)))"
| "notification meta (Modified obj) cache =
     (case cache (meta_key (meta obj)) of
        Some old \<Rightarrow> UpdateEvent (Some (meta old)) (Some (meta obj))
      | None \<Rightarrow> CreateEvent (Some (meta obj)))"

text \<open>
  What can happen: the cluster changes a job or a pod, the process restarts, an event reaches a
  cache, a handler sees a notification, a worker takes a request, reads, writes (or fails to) and
  finishes, a back-off ends.
\<close>

datatype 'j act =
    JobChanges obj_key "'j option"
  | PodChanges obj_key "pod option"
  | Restarts "obj_key list"
  | JobArrives
  | PodArrives
  | Handles nat
  | Takes
  | ReadsJob obj_key
  | ReadsPod obj_key
  | Writes obj_key
  | WriteFails obj_key
  | Finishes obj_key
  | Retries obj_key

text \<open>The changes of pods the cluster may make, as in \<open>cluster_change\<close>.\<close>

definition pod_change_ok :: "'j controller \<Rightarrow> obj_key set \<Rightarrow> 'j cached_state \<Rightarrow> obj_key \<Rightarrow> pod option \<Rightarrow> bool" where
  "pod_change_ok c mine s k x \<longleftrightarrow>
     (case x of
        None \<Rightarrow> True
      | Some p \<Rightarrow>
          meta_key (pod_Meta p) = k \<and> named k \<and>
          (\<forall>req \<in> set (getOwnerReconcileRequest (pod_handler (ct_type c)) (Some (pod_Meta p))). named req) \<and>
          (k \<in> mine \<longrightarrow>
             (case sv_pods s k of
                None \<Rightarrow> False
              | Some q \<Rightarrow> om_OwnerReferences (pod_Meta p) = om_OwnerReferences (pod_Meta q))))"

definition job_change_ok :: "'j controller \<Rightarrow> obj_key \<Rightarrow> 'j option \<Rightarrow> bool" where
  "job_change_ok c k x \<longleftrightarrow>
     (case x of None \<Rightarrow> True | Some j \<Rightarrow> meta_key (jk_meta (ct_kind c) j) = k \<and> named k)"

definition put_worker :: "obj_key \<Rightarrow> 'j worker \<Rightarrow> (obj_key \<times> 'j worker) list \<Rightarrow> (obj_key \<times> 'j worker) list" where
  "put_worker req x = map (\<lambda>b. if fst b = req then (req, x) else b)"

text \<open>The pod a worker asks for, when it gets that far.\<close>

definition read_pod :: "'j controller \<Rightarrow> 'j option \<Rightarrow> 'j cached_state \<Rightarrow> pod option" where
  "read_pod c jo s =
     (case jo of
        None \<Rightarrow> None
      | Some j \<Rightarrow>
          (case owned_pod (ct_kind c) (ct_reconciler c) (Ok (wlm_kind (ct_type c))) j of
             Ok p \<Rightarrow> ca_pods s (meta_key (pod_Meta p))
           | _ \<Rightarrow> None))"

text \<open>
  A new process fills its caches from a listing before it starts the workers, and then sees every
  object as created; \<open>ks\<close> are the keys of the listing.
\<close>

definition listed :: "('o \<Rightarrow> object_meta) \<Rightarrow> obj_key list \<Rightarrow> (obj_key \<rightharpoonup> 'o) \<Rightarrow> meta_event list" where
  "listed meta ks m = concat (map (\<lambda>k. case m k of Some x \<Rightarrow> [CreateEvent (Some (meta x))] | None \<Rightarrow> []) ks)"

definition restart :: "'j controller \<Rightarrow> obj_key list \<Rightarrow> 'j cached_state \<Rightarrow> 'j cached_state" where
  "restart c ks s =
     (let jobs = in_namespace (ct_namespace c) (sv_jobs s); pods = in_namespace (ct_namespace c) (sv_pods s)
      in s\<lparr>ca_jobs := jobs, ca_pods := pods, ev_jobs := [], ev_pods := [],
           cs_notes := map JobEvent (listed (jk_meta (ct_kind c)) ks jobs) @ map PodEvent (listed pod_Meta ks pods),
           cs_queue := newQueue, cs_delayed := [], cs_busy := []\<rparr>)"

definition reconcile_cached ::
  "'j controller \<Rightarrow> obj_key \<Rightarrow> 'j option \<Rightarrow> pod option \<Rightarrow> 'j cached_state \<Rightarrow> unit go \<times> 'j cached_state" where
  "reconcile_cached c req jo po s =
     reconcile_job (ct_kind c) (ct_reconciler c) (Ok (wlm_kind (ct_type c))) (cached_client c jo po) req s"

definition delay :: "obj_key \<Rightarrow> 'j cached_state \<Rightarrow> 'j cached_state" where
  "delay req s = s\<lparr>cs_delayed := cs_delayed s @ [req], cs_busy := put_worker req Returned (cs_busy s)\<rparr>"

fun act_step :: "'j controller \<Rightarrow> obj_key set \<Rightarrow> 'j act \<Rightarrow> 'j cached_state \<Rightarrow> 'j cached_state option" where
  "act_step c mine (JobChanges k x) s = (if job_change_ok c k x then Some (put_job c k x s) else None)"
| "act_step c mine (PodChanges k x) s = (if pod_change_ok c mine s k x then Some (put_pod c k x s) else None)"
| "act_step c mine (Restarts ks) s =
     (if dom (sv_jobs s) \<union> dom (sv_pods s) \<subseteq> set ks then Some (restart c ks s) else None)"
| "act_step c mine JobArrives s =
     (case ev_jobs s of
        [] \<Rightarrow> None
      | ev # evs \<Rightarrow>
          Some (s\<lparr>ev_jobs := evs, ca_jobs := replay_event (jk_meta (ct_kind c)) ev (ca_jobs s),
                 cs_notes := cs_notes s @ [JobEvent (notification (jk_meta (ct_kind c)) ev (ca_jobs s))]\<rparr>))"
| "act_step c mine PodArrives s =
     (case ev_pods s of
        [] \<Rightarrow> None
      | ev # evs \<Rightarrow>
          Some (s\<lparr>ev_pods := evs, ca_pods := replay_event pod_Meta ev (ca_pods s),
                 cs_notes := cs_notes s @ [PodEvent (notification pod_Meta ev (ca_pods s))]\<rparr>))"
| "act_step c mine (Handles i) s =
     (if i < length (cs_notes s)
      then Some (s\<lparr>cs_notes := take i (cs_notes s) @ drop (Suc i) (cs_notes s),
                  cs_queue := fold wq_Add (event_requests (ct_type c) (cs_notes s ! i)) (cs_queue s)\<rparr>)
      else None)"
| "act_step c mine Takes s =
     (if length (cs_busy s) < ct_MaxConcurrentReconciles c
      then (case wq_Get (cs_queue s) of
              (Item req, q) \<Rightarrow> Some (s\<lparr>cs_queue := q, cs_busy := cs_busy s @ [(req, Picked)]\<rparr>)
            | _ \<Rightarrow> None)
      else None)"
| "act_step c mine (ReadsJob req) s =
     (case map_of (cs_busy s) req of
        Some Picked \<Rightarrow> Some (s\<lparr>cs_busy := put_worker req (HasJob (ca_jobs s req)) (cs_busy s)\<rparr>)
      | _ \<Rightarrow> None)"
| "act_step c mine (ReadsPod req) s =
     (case map_of (cs_busy s) req of
        Some (HasJob jo) \<Rightarrow> Some (s\<lparr>cs_busy := put_worker req (HasPod jo (read_pod c jo s)) (cs_busy s)\<rparr>)
      | _ \<Rightarrow> None)"
| "act_step c mine (Writes req) s =
     (case map_of (cs_busy s) req of
        Some (HasPod jo po) \<Rightarrow>
          (case reconcile_cached c req jo po s of
             (Ok u, s') \<Rightarrow> Some (s'\<lparr>cs_busy := put_worker req Returned (cs_busy s')\<rparr>)
           | (Err e, s') \<Rightarrow> Some (delay req s')
           | (Panic m, s') \<Rightarrow> None)
      | _ \<Rightarrow> None)"
| "act_step c mine (WriteFails req) s =
     (case map_of (cs_busy s) req of Some (HasPod jo po) \<Rightarrow> Some (delay req s) | _ \<Rightarrow> None)"
| "act_step c mine (Finishes req) s =
     (case map_of (cs_busy s) req of
        Some Returned \<Rightarrow>
          Some (s\<lparr>cs_busy := filter (\<lambda>b. fst b \<noteq> req) (cs_busy s), cs_queue := wq_Done req (cs_queue s)\<rparr>)
      | _ \<Rightarrow> None)"
| "act_step c mine (Retries req) s =
     (if req \<in> set (cs_delayed s)
      then Some (s\<lparr>cs_delayed := remove1 req (cs_delayed s), cs_queue := wq_Add req (cs_queue s)\<rparr>)
      else None)"

fun acts_run :: "'j controller \<Rightarrow> obj_key set \<Rightarrow> 'j act list \<Rightarrow> 'j cached_state \<Rightarrow> 'j cached_state option" where
  "acts_run c mine [] s = Some s"
| "acts_run c mine (a # as) s = Option.bind (act_step c mine a s) (acts_run c mine as)"

definition all_quiet :: "'j cached_state \<Rightarrow> bool" where
  "all_quiet s \<longleftrightarrow> ev_jobs s = [] \<and> ev_pods s = [] \<and> cs_notes s = [] \<and> wq_Len (cs_queue s) = 0 \<and>
     cs_delayed s = [] \<and> cs_busy s = []"

section \<open>The invariant\<close>

definition keyed :: "('o \<Rightarrow> object_meta) \<Rightarrow> ('o \<Rightarrow> bool) \<Rightarrow> (obj_key \<rightharpoonup> 'o) \<Rightarrow> bool" where
  "keyed meta good m \<longleftrightarrow> (\<forall>k x. m k = Some x \<longrightarrow> meta_key (meta x) = k \<and> good x)"

definition job_good :: "'j controller \<Rightarrow> 'j \<Rightarrow> bool" where
  "job_good c j \<longleftrightarrow> named (meta_key (jk_meta (ct_kind c) j))"

definition pod_good :: "'j controller \<Rightarrow> string \<Rightarrow> obj_key set \<Rightarrow> pod \<Rightarrow> bool" where
  "pod_good c suffix mine p \<longleftrightarrow>
     named (meta_key (pod_Meta p)) \<and>
     (\<forall>req \<in> set (getOwnerReconcileRequest (pod_handler (ct_type c)) (Some (pod_Meta p))). named req) \<and>
     (\<forall>k. meta_key (pod_Meta p) = pod_key suffix k \<longrightarrow> pod_key suffix k \<in> mine \<longrightarrow>
        getOwnerReconcileRequest (pod_handler (ct_type c)) (Some (pod_Meta p)) = [k])"

text \<open>A cache with the events on their way to it is the server, in the watched namespace.\<close>

definition cache_follows ::
  "('o \<Rightarrow> object_meta) \<Rightarrow> ('o \<Rightarrow> bool) \<Rightarrow> string \<Rightarrow> (obj_key \<rightharpoonup> 'o) \<Rightarrow> 'o watch_event list \<Rightarrow> (obj_key \<rightharpoonup> 'o) \<Rightarrow> bool" where
  "cache_follows meta good ns cache evs server \<longleftrightarrow>
     keyed meta good cache \<and> keyed meta good server \<and> (\<forall>ev \<in> set evs. good (event_object ev)) \<and>
     fold (replay_event meta) evs cache = in_namespace ns server"

lemma keyedD: "keyed meta good m \<Longrightarrow> m k = Some x \<Longrightarrow> meta_key (meta x) = k \<and> good x"
  unfolding keyed_def by blast

lemma keyed_upd:
  "keyed meta good m \<Longrightarrow> (\<And>y. x = Some y \<Longrightarrow> meta_key (meta y) = k \<and> good y) \<Longrightarrow> keyed meta good (m(k := x))"
  by (auto simp: keyed_def)

lemma keyed_in_namespace: "keyed meta good m \<Longrightarrow> keyed meta good (in_namespace ns m)"
  by (auto simp: keyed_def in_namespace_def split: if_splits)

lemma follows_change:
  assumes "cache_follows meta good ns cache evs server"
    "\<And>y. x = Some y \<Longrightarrow> meta_key (meta y) = k \<and> good y"
  shows "cache_follows meta good ns cache (evs @ (if ns = [] \<or> fst k = ns then change_event (server k) x else [])) (server(k := x))"
proof -
  have old: "meta_key (meta y) = k \<and> good y" if "server k = Some y" for y
    using assms(1) that unfolding cache_follows_def by (blast dest: keyedD)
  have "fold (replay_event meta) (change_event (server k) x) (in_namespace ns server) = (in_namespace ns server)(k := x)"
    if "ns = [] \<or> fst k = ns"
  proof -
    have "in_namespace ns server k = server k" using that by (simp add: in_namespace_def)
    then show ?thesis
      using old assms(2) by (cases "server k"; cases x) (simp_all add: fun_upd_idem del: fun_upd_apply)
  qed
  moreover have "good (event_object ev)" if "ev \<in> set (change_event (server k) x)" for ev
    using that old assms(2) by (cases "server k"; cases x) (auto split: if_splits)
  ultimately show ?thesis
    using assms(1) keyed_upd [of meta good server x k] assms(2)
    by (auto simp: cache_follows_def in_namespace_upd)
qed

lemma follows_arrival:
  assumes "cache_follows meta good ns cache (ev # evs) server"
  shows "cache_follows meta good ns (replay_event meta ev cache) evs server"
proof -
  have "keyed meta good (replay_event meta ev cache)"
    using assms by (cases ev) (auto simp: cache_follows_def intro: keyed_upd)
  with assms show ?thesis by (simp add: cache_follows_def)
qed


definition requested :: "'j controller \<Rightarrow> obj_key \<Rightarrow> 'j cached_state \<Rightarrow> bool" where
  "requested c k s \<longleftrightarrow>
     (\<exists>note \<in> set (cs_notes s). k \<in> set (event_requests (ct_type c) note)) \<or> k \<in> wq_dirty (cs_queue s)"

text \<open>An event about the job or its pod is on its way to a cache.\<close>

definition event_coming :: "'j controller \<Rightarrow> string \<Rightarrow> obj_key \<Rightarrow> 'j cached_state \<Rightarrow> bool" where
  "event_coming c suffix k s \<longleftrightarrow>
     (\<exists>ev \<in> set (ev_jobs s). meta_key (jk_meta (ct_kind c) (event_object ev)) = k) \<or>
     (\<exists>ev \<in> set (ev_pods s). meta_key (pod_Meta (event_object ev)) = pod_key suffix k)"

definition will_be_seen :: "'j controller \<Rightarrow> string \<Rightarrow> obj_key \<Rightarrow> 'j cached_state \<Rightarrow> bool" where
  "will_be_seen c suffix k s \<longleftrightarrow>
     requested c k s \<or> event_coming c suffix k s \<or> k \<in> set (cs_delayed s) \<or>
     (\<exists>x. (k, x) \<in> set (cs_busy s) \<and> x \<noteq> Returned)"

definition cache_in_sync :: "'j controller \<Rightarrow> string \<Rightarrow> 'j cached_state \<Rightarrow> obj_key \<Rightarrow> bool" where
  "cache_in_sync c suffix s k =
     in_sync (ct_kind c) (ct_reconciler c) (wlm_kind (ct_type c)) (ca_jobs s k) (ca_pods s (pod_key suffix k))"

text \<open>What a worker has read is still what the caches hold.\<close>

fun up_to_date :: "'j controller \<Rightarrow> string \<Rightarrow> 'j cached_state \<Rightarrow> obj_key \<Rightarrow> 'j worker \<Rightarrow> bool" where
  "up_to_date c suffix s k (HasJob jo) = (jo = ca_jobs s k)"
| "up_to_date c suffix s k (HasPod jo po) =
     (jo = ca_jobs s k \<and>
      (\<forall>j p. jo = Some j \<longrightarrow> owned_pod (ct_kind c) (ct_reconciler c) (Ok (wlm_kind (ct_type c))) j = Ok p \<longrightarrow>
         po = ca_pods s (pod_key suffix k)))"
| "up_to_date c suffix s k Picked = True"
| "up_to_date c suffix s k Returned = True"

fun job_read :: "'j worker \<Rightarrow> 'j option" where
  "job_read (HasJob jo) = jo"
| "job_read (HasPod jo po) = jo"
| "job_read Picked = None"
| "job_read Returned = None"

definition caches_follow :: "'j controller \<Rightarrow> string \<Rightarrow> obj_key set \<Rightarrow> 'j cached_state \<Rightarrow> bool" where
  "caches_follow c suffix mine s \<longleftrightarrow>
     cache_follows (jk_meta (ct_kind c)) (job_good c) (ct_namespace c) (ca_jobs s) (ev_jobs s) (sv_jobs s) \<and>
     cache_follows pod_Meta (pod_good c suffix mine) (ct_namespace c) (ca_pods s) (ev_pods s) (sv_pods s)"

definition work_named :: "'j controller \<Rightarrow> 'j cached_state \<Rightarrow> bool" where
  "work_named c s \<longleftrightarrow>
     (\<forall>note \<in> set (cs_notes s). \<forall>k \<in> set (event_requests (ct_type c) note). named k) \<and>
     (\<forall>k \<in> wq_dirty (cs_queue s) \<union> set (cs_delayed s) \<union> fst ` set (cs_busy s). named k)"

definition workers_ok :: "'j controller \<Rightarrow> 'j cached_state \<Rightarrow> bool" where
  "workers_ok c s \<longleftrightarrow>
     wq_ok (cs_queue s) \<and> distinct (map fst (cs_busy s)) \<and> wq_processing (cs_queue s) = fst ` set (cs_busy s) \<and>
     (\<forall>k x j. (k, x) \<in> set (cs_busy s) \<longrightarrow> job_read x = Some j \<longrightarrow> meta_key (jk_meta (ct_kind c) j) = k)"

definition nothing_missed :: "'j controller \<Rightarrow> string \<Rightarrow> obj_key set \<Rightarrow> 'j cached_state \<Rightarrow> bool" where
  "nothing_missed c suffix mine s \<longleftrightarrow>
     (\<forall>k. responsible c suffix mine k \<longrightarrow>
        (cache_in_sync c suffix s k \<or> will_be_seen c suffix k s) \<and>
        (\<forall>x. (k, x) \<in> set (cs_busy s) \<longrightarrow> up_to_date c suffix s k x \<or> requested c k s))"

definition cs_ok :: "'j controller \<Rightarrow> string \<Rightarrow> obj_key set \<Rightarrow> 'j cached_state \<Rightarrow> bool" where
  "cs_ok c suffix mine s \<longleftrightarrow>
     caches_follow c suffix mine s \<and> work_named c s \<and> workers_ok c s \<and> nothing_missed c suffix mine s"

lemma cs_okD:
  assumes "cs_ok c suffix mine s"
  shows "caches_follow c suffix mine s" "work_named c s" "workers_ok c s" "nothing_missed c suffix mine s"
    "wq_ok (cs_queue s)"
  using assms by (simp_all add: cs_ok_def workers_ok_def)

lemma workers_okD:
  "workers_ok c s \<Longrightarrow> (k, x) \<in> set (cs_busy s) \<Longrightarrow> job_read x = Some j \<Longrightarrow> meta_key (jk_meta (ct_kind c) j) = k"
  unfolding workers_ok_def by blast

lemma nothing_missedD:
  assumes "nothing_missed c suffix mine s" "responsible c suffix mine k"
  shows "cache_in_sync c suffix s k \<or> will_be_seen c suffix k s"
    "(k, x) \<in> set (cs_busy s) \<Longrightarrow> up_to_date c suffix s k x \<or> requested c k s"
  using assms unfolding nothing_missed_def by blast+

text \<open>A step that leaves the caches alone keeps the jobs in view when it keeps what is pending.\<close>

lemma nothing_missedI:
  assumes "nothing_missed c suffix mine s" "ca_jobs s' = ca_jobs s" "ca_pods s' = ca_pods s"
    "\<And>k. responsible c suffix mine k \<Longrightarrow> will_be_seen c suffix k s \<Longrightarrow> cache_in_sync c suffix s k \<or> will_be_seen c suffix k s'"
    "\<And>k x. responsible c suffix mine k \<Longrightarrow> (k, x) \<in> set (cs_busy s') \<Longrightarrow> up_to_date c suffix s k x \<or> requested c k s'"
  shows "nothing_missed c suffix mine s'"
proof -
  have "up_to_date c suffix s' k x = up_to_date c suffix s k x" for k x
    using assms(2,3) by (cases x) simp_all
  moreover have "cache_in_sync c suffix s' k = cache_in_sync c suffix s k" for k
    using assms(2,3) by (simp add: cache_in_sync_def)
  ultimately show ?thesis
    using nothing_missedD(1) [OF assms(1)] assms(4,5) unfolding nothing_missed_def by blast
qed

lemma responsible_scope: "responsible c suffix mine k \<Longrightarrow> in_scope c k \<and> in_scope c (pod_key suffix k)"
  by (auto simp: responsible_def in_scope_def pod_key_def)


section \<open>Changes of the cluster\<close>

lemma job_change_good:
  "job_change_ok c k x \<Longrightarrow> x = Some j \<Longrightarrow> meta_key (jk_meta (ct_kind c) j) = k \<and> job_good c j"
  by (auto simp: job_change_ok_def job_good_def)

lemma pod_goodD:
  "pod_good c suffix mine p \<Longrightarrow> req \<in> set (getOwnerReconcileRequest (pod_handler (ct_type c)) (Some (pod_Meta p))) \<Longrightarrow> named req"
  unfolding pod_good_def by blast

lemma put_job_ok:
  assumes "cs_ok c suffix mine s" "job_change_ok c k x"
  shows "cs_ok c suffix mine (put_job c k x s)"
proof -
  note s = cs_okD [OF assms(1)]
  have "cache_follows (jk_meta (ct_kind c)) (job_good c) (ct_namespace c) (ca_jobs s)
      (ev_jobs s @ (if in_scope c k then change_event (sv_jobs s k) x else [])) ((sv_jobs s)(k := x))"
    unfolding in_scope_def
    by (rule follows_change) (use s(1) job_change_good [OF assms(2)] in \<open>auto simp: caches_follow_def\<close>)
  then have "caches_follow c suffix mine (put_job c k x s)"
    using s(1) by (simp add: caches_follow_def put_job_def split del: if_split)
  moreover have "nothing_missed c suffix mine (put_job c k x s)"
    by (rule nothing_missedI [OF s(4)])
      (use nothing_missedD(2) [OF s(4)] in \<open>auto simp: put_job_def will_be_seen_def requested_def event_coming_def\<close>)
  ultimately show ?thesis
    using s(2,3) by (simp add: cs_ok_def work_named_def workers_ok_def put_job_def)
qed

lemma put_pod_ok:
  assumes "cs_ok c suffix mine s" "\<And>p. x = Some p \<Longrightarrow> meta_key (pod_Meta p) = k \<and> pod_good c suffix mine p"
  shows "cs_ok c suffix mine (put_pod c k x s)"
proof -
  note s = cs_okD [OF assms(1)]
  have "cache_follows pod_Meta (pod_good c suffix mine) (ct_namespace c) (ca_pods s)
      (ev_pods s @ (if in_scope c k then change_event (sv_pods s k) x else [])) ((sv_pods s)(k := x))"
    unfolding in_scope_def by (rule follows_change) (use s(1) assms(2) in \<open>auto simp: caches_follow_def\<close>)
  then have "caches_follow c suffix mine (put_pod c k x s)"
    using s(1) by (simp add: caches_follow_def put_pod_def split del: if_split)
  moreover have "nothing_missed c suffix mine (put_pod c k x s)"
    by (rule nothing_missedI [OF s(4)])
      (use nothing_missedD(2) [OF s(4)] in \<open>auto simp: put_pod_def will_be_seen_def requested_def event_coming_def\<close>)
  ultimately show ?thesis
    using s(2,3) by (simp add: cs_ok_def work_named_def workers_ok_def put_pod_def)
qed

lemma pod_change_good:
  assumes "caches_follow c suffix mine s" "pod_change_ok c mine s k (Some p)"
  shows "meta_key (pod_Meta p) = k \<and> pod_good c suffix mine p"
proof -
  have p: "meta_key (pod_Meta p) = k" "named k"
    "\<forall>req \<in> set (getOwnerReconcileRequest (pod_handler (ct_type c)) (Some (pod_Meta p))). named req"
    using assms(2) by (simp_all add: pod_change_ok_def)
  have "getOwnerReconcileRequest (pod_handler (ct_type c)) (Some (pod_Meta p)) = [k']"
    if "meta_key (pod_Meta p) = pod_key suffix k'" "pod_key suffix k' \<in> mine" for k'
  proof -
    from that p(1) assms(2) obtain q where q: "sv_pods s k = Some q"
      "om_OwnerReferences (pod_Meta p) = om_OwnerReferences (pod_Meta q)"
      by (auto simp: pod_change_ok_def split: option.splits)
    have "keyed pod_Meta (pod_good c suffix mine) (sv_pods s)" using assms(1) by (simp add: caches_follow_def cache_follows_def)
    from keyedD [OF this q(1)] have q': "meta_key (pod_Meta q) = k" "pod_good c suffix mine q" by simp_all
    have "om_Namespace (pod_Meta p) = om_Namespace (pod_Meta q)" using p(1) q'(1) by (auto simp: meta_key_def)
    from owner_request_cong [OF q(2) this] q' that p(1) show ?thesis unfolding pod_good_def by metis
  qed
  with p show ?thesis by (simp add: pod_good_def)
qed

section \<open>Arrivals and notifications\<close>

lemma notification_metas:
  "Some (meta (event_object ev)) \<in> set (event_metas (notification meta ev cache))"
  "m \<in> set (event_metas (notification meta ev cache)) \<Longrightarrow>
   m = Some (meta (event_object ev)) \<or> (\<exists>old. cache (meta_key (meta (event_object ev))) = Some old \<and> m = Some (meta old))"
  by (cases ev; auto split: option.splits)+

lemma replay_other: "k \<noteq> meta_key (meta (event_object ev)) \<Longrightarrow> replay_event meta ev m k = m k"
  by (cases ev) simp_all

lemma job_arrives_ok:
  assumes "cs_ok c suffix mine s" "ev_jobs s = ev # evs"
  defines "s' \<equiv> s\<lparr>ev_jobs := evs, ca_jobs := replay_event (jk_meta (ct_kind c)) ev (ca_jobs s),
    cs_notes := cs_notes s @ [JobEvent (notification (jk_meta (ct_kind c)) ev (ca_jobs s))]\<rparr>"
  shows "cs_ok c suffix mine s'"
proof -
  note s = cs_okD [OF assms(1)]
  let ?m = "jk_meta (ct_kind c)" and ?note = "JobEvent (notification (jk_meta (ct_kind c)) ev (ca_jobs s))"
  let ?key = "meta_key (?m (event_object ev))"
  have follows: "cache_follows ?m (job_good c) (ct_namespace c) (ca_jobs s) (ev # evs) (sv_jobs s)"
    using s(1) assms(2) by (simp add: caches_follow_def)
  have "caches_follow c suffix mine s'"
    using s(1) follows_arrival [OF follows] by (simp add: caches_follow_def s'_def)
  moreover have "named k" if "k \<in> set (event_requests (ct_type c) ?note)" for k
  proof -
    from that obtain m where m: "m \<in> set (event_metas (notification ?m ev (ca_jobs s)))" "k \<in> set (object_request m)"
      by (auto simp: handled_metas)
    have "keyed ?m (job_good c) (ca_jobs s)" "job_good c (event_object ev)" using follows by (simp_all add: cache_follows_def)
    with notification_metas(2) [OF m(1)] m(2) show ?thesis
      by (auto simp: object_request_def job_good_def meta_key_def dest: keyedD)
  qed
  then have "work_named c s'" using s(2) by (auto simp: work_named_def s'_def)
  moreover have "workers_ok c s'" using s(3) by (simp add: workers_ok_def s'_def)
  moreover have "nothing_missed c suffix mine s'" unfolding nothing_missed_def
  proof (intro allI impI)
    fix k
    assume k: "responsible c suffix mine k"
    have mono: "requested c k s \<Longrightarrow> requested c k s'" by (auto simp: requested_def s'_def)
    show "(cache_in_sync c suffix s' k \<or> will_be_seen c suffix k s') \<and>
        (\<forall>x. (k, x) \<in> set (cs_busy s') \<longrightarrow> up_to_date c suffix s' k x \<or> requested c k s')"
    proof (cases "k = ?key")
      case True
      have "k \<in> set (object_request (Some (?m (event_object ev))))" using True by (simp add: object_request_def meta_key_def)
      then have "k \<in> set (event_requests (ct_type c) ?note)" using notification_metas(1) by (auto simp: handled_metas)
      then have "requested c k s'" by (simp add: requested_def s'_def)
      then show ?thesis by (simp add: will_be_seen_def)
    next
      case False
      then have "ca_jobs s' k = ca_jobs s k" "ca_pods s' = ca_pods s" by (simp_all add: s'_def replay_other)
      then have "cache_in_sync c suffix s' k = cache_in_sync c suffix s k"
        "up_to_date c suffix s' k x = up_to_date c suffix s k x" for x
        by (simp add: cache_in_sync_def, cases x, simp_all)
      moreover have "event_coming c suffix k s \<Longrightarrow> event_coming c suffix k s'"
        using False assms(2) by (auto simp: event_coming_def s'_def)
      ultimately show ?thesis
        using nothing_missedD [OF s(4) k] mono by (auto simp: will_be_seen_def s'_def)
    qed
  qed
  ultimately show ?thesis by (simp add: cs_ok_def)
qed

lemma pod_arrives_ok:
  assumes "cs_ok c suffix mine s" "ev_pods s = ev # evs"
  defines "s' \<equiv> s\<lparr>ev_pods := evs, ca_pods := replay_event pod_Meta ev (ca_pods s),
    cs_notes := cs_notes s @ [PodEvent (notification pod_Meta ev (ca_pods s))]\<rparr>"
  shows "cs_ok c suffix mine s'"
proof -
  note s = cs_okD [OF assms(1)]
  let ?note = "PodEvent (notification pod_Meta ev (ca_pods s))" and ?req = "getOwnerReconcileRequest (pod_handler (ct_type c))"
  have follows: "cache_follows pod_Meta (pod_good c suffix mine) (ct_namespace c) (ca_pods s) (ev # evs) (sv_pods s)"
    using s(1) assms(2) by (simp add: caches_follow_def)
  then have good: "keyed pod_Meta (pod_good c suffix mine) (ca_pods s)" "pod_good c suffix mine (event_object ev)"
    by (simp_all add: cache_follows_def)
  have "caches_follow c suffix mine s'"
    using s(1) follows_arrival [OF follows] by (simp add: caches_follow_def s'_def)
  moreover have "named k" if "k \<in> set (event_requests (ct_type c) ?note)" for k
  proof -
    from that obtain m where m: "m \<in> set (event_metas (notification pod_Meta ev (ca_pods s)))" "k \<in> set (?req m)"
      by (auto simp: handled_metas)
    from notification_metas(2) [OF m(1)] consider "m = Some (pod_Meta (event_object ev))"
      | old where "ca_pods s (meta_key (pod_Meta (event_object ev))) = Some old" "m = Some (pod_Meta old)" by blast
    then show ?thesis using m(2) pod_goodD [OF good(2)] pod_goodD [OF conjunct2 [OF keyedD [OF good(1)]]] by cases simp_all
  qed
  then have "work_named c s'" using s(2) by (auto simp: work_named_def s'_def)
  moreover have "workers_ok c s'" using s(3) by (simp add: workers_ok_def s'_def)
  moreover have "nothing_missed c suffix mine s'" unfolding nothing_missed_def
  proof (intro allI impI)
    fix k
    assume k: "responsible c suffix mine k"
    have mono: "requested c k s \<Longrightarrow> requested c k s'" by (auto simp: requested_def s'_def)
    show "(cache_in_sync c suffix s' k \<or> will_be_seen c suffix k s') \<and>
        (\<forall>x. (k, x) \<in> set (cs_busy s') \<longrightarrow> up_to_date c suffix s' k x \<or> requested c k s')"
    proof (cases "pod_key suffix k = meta_key (pod_Meta (event_object ev))")
      case True
      then have "?req (Some (pod_Meta (event_object ev))) = [k]"
        using good(2) k unfolding pod_good_def responsible_def by metis
      then have "k \<in> set (event_requests (ct_type c) ?note)"
        using notification_metas(1) [of pod_Meta ev "ca_pods s"] by (auto simp: handled_metas intro!: bexI)
      then have "requested c k s'" by (simp add: requested_def s'_def)
      then show ?thesis by (simp add: will_be_seen_def)
    next
      case False
      then have "ca_pods s' (pod_key suffix k) = ca_pods s (pod_key suffix k)" "ca_jobs s' = ca_jobs s"
        by (simp_all add: s'_def replay_other)
      then have "cache_in_sync c suffix s' k = cache_in_sync c suffix s k"
        "up_to_date c suffix s' k x = up_to_date c suffix s k x" for x
        by (simp add: cache_in_sync_def, cases x, simp_all)
      moreover have "event_coming c suffix k s \<Longrightarrow> event_coming c suffix k s'"
        using False assms(2) by (auto simp: event_coming_def s'_def)
      ultimately show ?thesis
        using nothing_missedD [OF s(4) k] mono by (auto simp: will_be_seen_def s'_def)
    qed
  qed
  ultimately show ?thesis by (simp add: cs_ok_def)
qed


lemma listed_metas:
  assumes "ev \<in> set (listed meta ks m)"
  obtains k x where "m k = Some x" "ev = CreateEvent (Some (meta x))"
proof -
  from assms obtain k where "ev \<in> set (case m k of Some x \<Rightarrow> [CreateEvent (Some (meta x))] | None \<Rightarrow> [])"
    by (auto simp: listed_def)
  then show thesis using that by (cases "m k") auto
qed

lemma restart_fields:
  "ca_jobs (restart c ks s) = in_namespace (ct_namespace c) (sv_jobs s)"
  "ca_pods (restart c ks s) = in_namespace (ct_namespace c) (sv_pods s)"
  "ev_jobs (restart c ks s) = []" "ev_pods (restart c ks s) = []" "sv_jobs (restart c ks s) = sv_jobs s"
  "sv_pods (restart c ks s) = sv_pods s" "cs_queue (restart c ks s) = newQueue" "cs_delayed (restart c ks s) = []"
  "cs_busy (restart c ks s) = []"
  "cs_notes (restart c ks s) =
     map JobEvent (listed (jk_meta (ct_kind c)) ks (in_namespace (ct_namespace c) (sv_jobs s))) @
     map PodEvent (listed pod_Meta ks (in_namespace (ct_namespace c) (sv_pods s)))"
  by (simp_all add: restart_def Let_def)

lemma listed_member: "m k = Some x \<Longrightarrow> k \<in> set ks \<Longrightarrow> CreateEvent (Some (meta x)) \<in> set (listed meta ks m)"
  by (force simp: listed_def)

lemma restart_ok:
  assumes jobs: "keyed (jk_meta (ct_kind c)) (job_good c) (sv_jobs s)"
    and pods: "keyed pod_Meta (pod_good c suffix mine) (sv_pods s)"
    and ks: "dom (sv_jobs s) \<union> dom (sv_pods s) \<subseteq> set ks"
  shows "cs_ok c suffix mine (restart c ks s)"
proof -
  let ?m = "jk_meta (ct_kind c)" and ?s = "restart c ks s" and ?ns = "ct_namespace c"
  note jobs' = keyed_in_namespace [OF jobs, of ?ns] and pods' = keyed_in_namespace [OF pods, of ?ns]
  have "caches_follow c suffix mine ?s"
    using jobs pods jobs' pods' by (simp add: caches_follow_def cache_follows_def restart_fields)
  moreover have "named k" if "nt \<in> set (cs_notes ?s)" "k \<in> set (event_requests (ct_type c) nt)" for nt k
  proof -
    from that(1) consider ev where "nt = JobEvent ev" "ev \<in> set (listed ?m ks (in_namespace ?ns (sv_jobs s)))"
      | ev where "nt = PodEvent ev" "ev \<in> set (listed pod_Meta ks (in_namespace ?ns (sv_pods s)))"
      by (auto simp: restart_fields)
    then show ?thesis
    proof cases
      case 1
      obtain k' x where x: "in_namespace ?ns (sv_jobs s) k' = Some x" "ev = CreateEvent (Some (?m x))"
        by (rule listed_metas [OF 1(2)])
      with keyedD [OF jobs' x(1)] 1(1) that(2) show ?thesis by (auto simp: object_request_def job_good_def meta_key_def)
    next
      case 2
      obtain k' x where x: "in_namespace ?ns (sv_pods s) k' = Some x" "ev = CreateEvent (Some (pod_Meta x))"
        by (rule listed_metas [OF 2(2)])
      with pod_goodD [OF conjunct2 [OF keyedD [OF pods' x(1)]]] 2(1) that(2) show ?thesis by simp
    qed
  qed
  then have "work_named c ?s" by (auto simp: work_named_def restart_fields newQueue_def)
  moreover have "workers_ok c ?s" using wq_ok_new by (simp add: workers_ok_def restart_fields) (simp add: newQueue_def)
  moreover have "cache_in_sync c suffix ?s k \<or> will_be_seen c suffix k ?s" if "responsible c suffix mine k" for k
  proof (cases "in_namespace ?ns (sv_jobs s) k")
    case None
    then show ?thesis by (simp add: cache_in_sync_def in_sync_def restart_fields)
  next
    case (Some x)
    then have "k \<in> set ks" using ks by (auto simp: in_namespace_def split: if_splits)
    with listed_member [of "in_namespace ?ns (sv_jobs s)" k x ks ?m] Some
    have "JobEvent (CreateEvent (Some (?m x))) \<in> set (cs_notes ?s)" by (simp add: restart_fields)
    moreover have "k \<in> set (event_requests (ct_type c) (JobEvent (CreateEvent (Some (?m x)))))"
      using keyedD [OF jobs' Some] by (simp add: object_request_def meta_key_def)
    ultimately show ?thesis unfolding will_be_seen_def requested_def by blast
  qed
  then have "nothing_missed c suffix mine ?s" by (simp add: nothing_missed_def) (simp add: restart_fields)
  ultimately show ?thesis by (simp add: cs_ok_def)
qed

lemma handles_ok:
  assumes "cs_ok c suffix mine s" "i < length (cs_notes s)"
  defines "s' \<equiv> s\<lparr>cs_notes := take i (cs_notes s) @ drop (Suc i) (cs_notes s),
    cs_queue := fold wq_Add (event_requests (ct_type c) (cs_notes s ! i)) (cs_queue s)\<rparr>"
  shows "cs_ok c suffix mine s'"
proof -
  note s = cs_okD [OF assms(1)]
  let ?reqs = "event_requests (ct_type c) (cs_notes s ! i)"
  note add = wq.add_all [OF s(5), of ?reqs]
  have nts: "cs_notes s = take i (cs_notes s) @ cs_notes s ! i # drop (Suc i) (cs_notes s)"
    using assms(2) by (rule id_take_nth_drop)
  have split: "nt \<in> set (cs_notes s) \<longleftrightarrow> nt = cs_notes s ! i \<or> nt \<in> set (cs_notes s')" for nt
    by (subst nts) (auto simp: s'_def)
  have "caches_follow c suffix mine s'" using s(1) by (simp add: caches_follow_def s'_def)
  moreover have "work_named c s'"
  proof -
    have "named k" if "k \<in> set ?reqs" for k using s(2) split that unfolding work_named_def by blast
    moreover have "wq_dirty (cs_queue s') = set ?reqs \<union> wq_dirty (cs_queue s)" using add by (simp add: s'_def)
    moreover have "cs_delayed s' = cs_delayed s" "cs_busy s' = cs_busy s" by (simp_all add: s'_def)
    ultimately show ?thesis using s(2) split unfolding work_named_def by auto
  qed
  moreover have "workers_ok c s'" using s(3) add by (simp add: workers_ok_def s'_def)
  moreover have req: "requested c k s'" if "requested c k s" for k
  proof -
    have "wq_dirty (cs_queue s') = set ?reqs \<union> wq_dirty (cs_queue s)" using add by (simp add: s'_def)
    then show ?thesis using that split unfolding requested_def by auto
  qed
  moreover have "nothing_missed c suffix mine s'"
  proof (rule nothing_missedI [OF s(4)])
    fix k
    assume "will_be_seen c suffix k s"
    then show "cache_in_sync c suffix s k \<or> will_be_seen c suffix k s'"
      using req [of k] by (auto simp: will_be_seen_def event_coming_def s'_def)
  next
    fix k x
    assume k: "responsible c suffix mine k" and "(k, x) \<in> set (cs_busy s')"
    then have "(k, x) \<in> set (cs_busy s)" by (simp add: s'_def)
    with nothing_missedD(2) [OF s(4) k] req show "up_to_date c suffix s k x \<or> requested c k s'" by blast
  qed (simp_all add: s'_def)
  ultimately show ?thesis by (simp add: cs_ok_def)
qed

lemma put_worker_simps:
  "fst ` set (put_worker req x busy) = fst ` set busy" "map fst (put_worker req x busy) = map fst busy"
  "(k, y) \<in> set (put_worker req x busy) \<longleftrightarrow> (if k = req then y = x \<and> req \<in> fst ` set busy else (k, y) \<in> set busy)"
proof -
  show m: "map fst (put_worker req x busy) = map fst busy" by (simp add: put_worker_def)
  then show "fst ` set (put_worker req x busy) = fst ` set busy" by (metis list.set_map)
  show "(k, y) \<in> set (put_worker req x busy) \<longleftrightarrow> (if k = req then y = x \<and> req \<in> fst ` set busy else (k, y) \<in> set busy)"
    by (force simp: put_worker_def image_iff)
qed

lemma takes_ok:
  assumes "cs_ok c suffix mine s" "wq_Get (cs_queue s) = (Item req, q)"
  shows "cs_ok c suffix mine (s\<lparr>cs_queue := q, cs_busy := cs_busy s @ [(req, Picked)]\<rparr>)" (is "cs_ok _ _ _ ?s")
proof -
  note s = cs_okD [OF assms(1)]
  note get = wq.get_item [OF s(5) assms(2)]
  have new: "req \<notin> fst ` set (cs_busy s)" using get s(3) by (simp add: workers_ok_def)
  have req: "k \<noteq> req \<Longrightarrow> requested c k s \<Longrightarrow> requested c k ?s" for k using get by (auto simp: requested_def)
  have "caches_follow c suffix mine ?s" using s(1) by (simp add: caches_follow_def)
  moreover have "work_named c ?s" using s(2) get by (auto simp: work_named_def)
  moreover have "workers_ok c ?s" using s(3) get new by (auto simp: workers_ok_def)
  moreover have "nothing_missed c suffix mine ?s"
  proof (rule nothing_missedI [OF s(4)])
    fix k
    assume "will_be_seen c suffix k s"
    then show "cache_in_sync c suffix s k \<or> will_be_seen c suffix k ?s"
      using req [of k] by (cases "k = req") (auto simp: will_be_seen_def event_coming_def)
  next
    fix k x
    assume k: "responsible c suffix mine k" "(k, x) \<in> set (cs_busy ?s)"
    show "up_to_date c suffix s k x \<or> requested c k ?s"
    proof (cases "(k, x) \<in> set (cs_busy s)")
      case True
      then have "k \<noteq> req" using new by force
      with nothing_missedD(2) [OF s(4) k(1) True] req show ?thesis by blast
    next
      case False
      then show ?thesis using k(2) by auto
    qed
  qed simp_all
  ultimately show ?thesis by (simp add: cs_ok_def)
qed

lemma finishes_ok:
  assumes "cs_ok c suffix mine s" "map_of (cs_busy s) req = Some Returned"
  shows "cs_ok c suffix mine (s\<lparr>cs_busy := filter (\<lambda>b. fst b \<noteq> req) (cs_busy s), cs_queue := wq_Done req (cs_queue s)\<rparr>)"
    (is "cs_ok _ _ _ ?s")
proof -
  note s = cs_okD [OF assms(1)]
  have mem: "(req, Returned) \<in> set (cs_busy s)" using assms(2) by (rule map_of_SomeD)
  then have act: "req \<in> wq_processing (cs_queue s)" using s(3) by (force simp: workers_ok_def)
  note fin = wq.finish_item [OF s(5) act]
  have only: "x = Returned" if "(req, x) \<in> set (cs_busy s)" for x
    using eq_key_imp_eq_value [of "cs_busy s" req x Returned] s(3) that mem by (simp add: workers_ok_def)
  have "caches_follow c suffix mine ?s" using s(1) by (simp add: caches_follow_def)
  moreover have "work_named c ?s" using s(2) fin by (auto simp: work_named_def)
  moreover have "workers_ok c ?s" using s(3) fin by (auto simp: workers_ok_def distinct_map_filter)
  moreover have "requested c k ?s = requested c k s" for k using fin by (simp add: requested_def)
  moreover have "nothing_missed c suffix mine ?s"
    by (rule nothing_missedI [OF s(4)])
      (use nothing_missedD(2) [OF s(4)] only fin in \<open>auto simp: will_be_seen_def event_coming_def requested_def\<close>)
  ultimately show ?thesis by (simp add: cs_ok_def)
qed

lemma retries_ok:
  assumes "cs_ok c suffix mine s" "req \<in> set (cs_delayed s)"
  shows "cs_ok c suffix mine (s\<lparr>cs_delayed := remove1 req (cs_delayed s), cs_queue := wq_Add req (cs_queue s)\<rparr>)"
    (is "cs_ok _ _ _ ?s")
proof -
  note s = cs_okD [OF assms(1)]
  note add = wq.add_item [OF s(5), of req]
  have sub: "set (remove1 req (cs_delayed s)) \<subseteq> set (cs_delayed s)" by (rule set_remove1_subset)
  have rem: "k \<in> set (cs_delayed s) \<Longrightarrow> k = req \<or> k \<in> set (remove1 req (cs_delayed s))" for k by (metis in_set_remove1)
  have req: "requested c k s \<Longrightarrow> requested c k ?s" for k using add by (auto simp: requested_def)
  have reqd: "requested c req ?s" using add by (simp add: requested_def)
  have "caches_follow c suffix mine ?s" using s(1) by (simp add: caches_follow_def)
  moreover have "work_named c ?s" using s(2) assms(2) add sub by (auto simp: work_named_def)
  moreover have "workers_ok c ?s" using s(3) add by (simp add: workers_ok_def)
  moreover have "nothing_missed c suffix mine ?s"
  proof (rule nothing_missedI [OF s(4)])
    fix k
    assume "will_be_seen c suffix k s"
    then show "cache_in_sync c suffix s k \<or> will_be_seen c suffix k ?s"
      using req [of k] reqd rem [of k] by (cases "k = req") (auto simp: will_be_seen_def event_coming_def)
  next
    fix k x
    assume k: "responsible c suffix mine k" and "(k, x) \<in> set (cs_busy ?s)"
    then have "(k, x) \<in> set (cs_busy s)" by simp
    with nothing_missedD(2) [OF s(4) k] req show "up_to_date c suffix s k x \<or> requested c k ?s" by blast
  qed simp_all
  ultimately show ?thesis by (simp add: cs_ok_def)
qed


section \<open>Workers\<close>

lemma worker_ok:
  assumes "cs_ok c suffix mine s" "(req, x0) \<in> set (cs_busy s)"
    "\<And>j. job_read x = Some j \<Longrightarrow> meta_key (jk_meta (ct_kind c) j) = req"
    "responsible c suffix mine req \<Longrightarrow> up_to_date c suffix s req x \<or> requested c req s"
    "responsible c suffix mine req \<Longrightarrow> x = Returned \<Longrightarrow>
       cache_in_sync c suffix s req \<or> requested c req s \<or> event_coming c suffix req s \<or> req \<in> set (cs_delayed s)"
  shows "cs_ok c suffix mine (s\<lparr>cs_busy := put_worker req x (cs_busy s)\<rparr>)" (is "cs_ok _ _ _ ?s")
proof -
  note s = cs_okD [OF assms(1)]
  have mem: "req \<in> fst ` set (cs_busy s)" using assms(2) by force
  have req: "requested c k ?s = requested c k s" for k by (simp add: requested_def)
  have "caches_follow c suffix mine ?s" using s(1) by (simp add: caches_follow_def)
  moreover have "work_named c ?s" using s(2) by (simp add: work_named_def put_worker_simps)
  moreover have "workers_ok c ?s" using s(3) assms(3) unfolding workers_ok_def
    by (simp add: put_worker_simps)
  moreover have "nothing_missed c suffix mine ?s"
  proof (rule nothing_missedI [OF s(4)])
    fix k
    assume k: "responsible c suffix mine k" "will_be_seen c suffix k s"
    show "cache_in_sync c suffix s k \<or> will_be_seen c suffix k ?s"
    proof (cases "k = req")
      case True
      show ?thesis
      proof (cases "x = Returned")
        case True
        with assms(5) k(1) \<open>k = req\<close> show ?thesis
          by (auto simp: will_be_seen_def requested_def event_coming_def)
      next
        case False
        with mem \<open>k = req\<close> show ?thesis by (auto simp: will_be_seen_def put_worker_simps)
      qed
    next
      case False
      with k(2) show ?thesis by (auto simp: will_be_seen_def put_worker_simps requested_def event_coming_def)
    qed
  next
    fix k y
    assume k: "responsible c suffix mine k" "(k, y) \<in> set (cs_busy ?s)"
    show "up_to_date c suffix s k y \<or> requested c k ?s"
    proof (cases "k = req")
      case True
      with k assms(4) req show ?thesis by (simp add: put_worker_simps)
    next
      case False
      with k(2) have "(k, y) \<in> set (cs_busy s)" by (simp add: put_worker_simps)
      with nothing_missedD(2) [OF s(4) k(1)] req show ?thesis by blast
    qed
  qed simp_all
  ultimately show ?thesis by (simp add: cs_ok_def)
qed

lemma busy_named: "work_named c s \<Longrightarrow> (req, x) \<in> set (cs_busy s) \<Longrightarrow> named req"
  by (force simp: work_named_def)

lemma delay_ok:
  assumes "cs_ok c suffix mine s" "(req, x0) \<in> set (cs_busy s)"
  shows "cs_ok c suffix mine (delay req s)"
proof -
  note s = cs_okD [OF assms(1)]
  let ?s = "s\<lparr>cs_delayed := cs_delayed s @ [req]\<rparr>"
  have "nothing_missed c suffix mine ?s"
  proof (rule nothing_missedI [OF s(4)])
    fix k x
    assume k: "responsible c suffix mine k" and "(k, x) \<in> set (cs_busy ?s)"
    then have "(k, x) \<in> set (cs_busy s)" by simp
    with nothing_missedD(2) [OF s(4) k] show "up_to_date c suffix s k x \<or> requested c k ?s"
      by (simp add: requested_def)
  qed (auto simp: will_be_seen_def requested_def event_coming_def)
  then have "cs_ok c suffix mine ?s"
    using s(1-3) busy_named [OF s(2) assms(2)] by (simp add: cs_ok_def caches_follow_def work_named_def workers_ok_def)
  from worker_ok [OF this, of req x0 Returned] assms(2) show ?thesis by (simp add: delay_def)
qed

context job_operator
begin

lemma reads_job_ok:
  assumes "cs_ok c suffix mine s" "map_of (cs_busy s) req = Some Picked"
  shows "cs_ok c suffix mine (s\<lparr>cs_busy := put_worker req (HasJob (ca_jobs s req)) (cs_busy s)\<rparr>)"
proof (rule worker_ok [OF assms(1) map_of_SomeD [OF assms(2)]])
  have k: "keyed (jk_meta (ct_kind c)) (job_good c) (ca_jobs s)"
    using cs_okD(1) [OF assms(1)] by (simp add: caches_follow_def cache_follows_def)
  show "meta_key (jk_meta (ct_kind c) j) = req" if "job_read (HasJob (ca_jobs s req)) = Some j" for j
    using keyedD [OF k, of req j] that by simp
qed simp_all

lemma reads_pod_ok:
  assumes "cs_ok c suffix mine s" "map_of (cs_busy s) req = Some (HasJob jo)"
  shows "cs_ok c suffix mine (s\<lparr>cs_busy := put_worker req (HasPod jo (read_pod c jo s)) (cs_busy s)\<rparr>)"
proof (rule worker_ok [OF assms(1) map_of_SomeD [OF assms(2)]])
  have key: "meta_key (jk_meta (ct_kind c) j) = req" if "jo = Some j" for j
    using workers_okD [OF cs_okD(3) [OF assms(1)] map_of_SomeD [OF assms(2)]] that by simp
  then show "meta_key (jk_meta (ct_kind c) j) = req" if "job_read (HasPod jo (read_pod c jo s)) = Some j" for j
    using that by simp
  show "up_to_date c suffix s req (HasPod jo (read_pod c jo s)) \<or> requested c req s" if "responsible c suffix mine req"
    using nothing_missedD(2) [OF cs_okD(4) [OF assms(1)] that map_of_SomeD [OF assms(2)]] key owned_pod_key
    by (auto simp: read_pod_def)
qed simp_all

text \<open>The effects of a reconciliation with what a worker has read.\<close>

lemma reconcile_cached_cases:
  assumes "reconcile_cached c req jo po s = (r, s')" "\<And>j. jo = Some j \<Longrightarrow> meta_key (jk_meta (ct_kind c) j) = req"
  obtains (same) "s' = s" "\<And>u. r = Ok u \<Longrightarrow> in_sync (ct_kind c) (ct_reconciler c) (wlm_kind (ct_type c)) jo po"
    | (status) j cur where "jo = Some j" "po = Some cur" "sv_jobs s req = Some j" "r = Ok ()" "\<exists>p. owned_of j = Ok p"
      "s' = put_job c req (Some (jk_set_status (ct_kind c) (pod_Phase cur) j)) s"
    | (created) j p where "jo = Some j" "owned_of j = Ok p" "sv_pods s (pod_key suffix req) = None" "r = Ok ()"
      "s' = put_pod c (pod_key suffix req) (Some p) s" "jk_status (ct_kind c) j = []"
proof (cases jo)
  case None
  with assms(1) same show thesis
    by (simp add: reconcile_cached_def reconcile_job_def cached_client_def IsNotFound_def in_sync_def)
next
  case (Some j)
  show thesis
  proof (cases "owned_of j")
    case (Ok p)
    then obtain p0 meta where p0: "jk_newPod (ct_kind c) (ct_reconciler c) j = Ok p0"
      "SetControllerReference (Ok (wlm_kind (ct_type c))) (jk_meta (ct_kind c) j) (pod_Meta p0) = Ok meta" "p = p0\<lparr>pod_Meta := meta\<rparr>"
      by (auto simp: owned_pod_def)
    have key: "meta_key (pod_Meta p) = pod_key suffix req" using owned_pod_key [OF Ok] assms(2) [OF Some] by simp
    show thesis
    proof (cases po)
      case (Some cur)
      have jkey: "meta_key (jk_meta (ct_kind c) (jk_set_status (ct_kind c) (pod_Phase cur) j)) = req"
        using assms(2) [OF \<open>jo = Some j\<close>] by (simp add: status_meta)
      show thesis
      proof (cases "sv_jobs s req = Some j")
        case True
        with assms(1) \<open>jo = Some j\<close> Some p0 jkey have "r = Ok ()"
          "s' = put_job c req (Some (jk_set_status (ct_kind c) (pod_Phase cur) j)) s"
          by (simp_all add: reconcile_cached_def reconcile_job_def cached_client_def Let_def)
        with status [OF \<open>jo = Some j\<close> Some True] Ok show thesis by blast
      next
        case False
        then have "\<exists>e. r = Err e \<and> s' = s"
          using assms(1) \<open>jo = Some j\<close> Some p0 jkey
          by (cases "sv_jobs s req") (auto simp: reconcile_cached_def reconcile_job_def cached_client_def Let_def)
        then show thesis using same by auto
      qed
    next
      case None
      show thesis
      proof (cases "jk_status (ct_kind c) j = []")
        case True
        show thesis
        proof (cases "sv_pods s (pod_key suffix req)")
          case (Some q)
          have "\<exists>e. r = Err e \<and> s' = s"
            using assms(1) \<open>jo = Some j\<close> None p0 key True Some
            by (auto simp: reconcile_cached_def reconcile_job_def cached_client_def Let_def IsNotFound_def)
          then show thesis using same by auto
        next
          case no_pod: None
          have "r = Ok ()" "s' = put_pod c (pod_key suffix req) (Some p) s"
            using assms(1) \<open>jo = Some j\<close> None p0 key True no_pod
            by (simp_all add: reconcile_cached_def reconcile_job_def cached_client_def Let_def IsNotFound_def)
          with created [OF \<open>jo = Some j\<close> Ok no_pod] True show thesis by blast
        qed
      next
        case False
        have "r = Ok ()" "s' = s"
          using assms(1) \<open>jo = Some j\<close> None p0 False
          by (simp_all add: reconcile_cached_def reconcile_job_def cached_client_def Let_def IsNotFound_def)
        with same None \<open>jo = Some j\<close> Ok False show thesis by (simp add: in_sync_def)
      qed
    qed
  next
    case (Err e)
    with assms(1) Some same show thesis
      by (auto simp: reconcile_cached_def reconcile_job_def cached_client_def owned_pod_def go_bind_eq_Err Let_def
          split: go.splits)
  next
    case (Panic m)
    with assms(1) Some same show thesis
      by (auto simp: reconcile_cached_def reconcile_job_def cached_client_def owned_pod_def go_bind_eq_Panic Let_def
          split: go.splits)
  qed
qed

end


context job_operator
begin

lemma in_sync_read:
  assumes "in_sync (ct_kind c) (ct_reconciler c) (wlm_kind (ct_type c)) jo po" "up_to_date c suffix s k (HasPod jo po)"
  shows "cache_in_sync c suffix s k"
proof (cases jo)
  case None
  then show ?thesis using assms(2) by (simp add: cache_in_sync_def in_sync_def)
next
  case (Some j)
  with assms obtain p where "owned_of j = Ok p" by (auto simp: in_sync_def)
  with assms(2) Some have "ca_jobs s k = jo" "ca_pods s (pod_key suffix k) = po" by simp_all
  with assms(1) show ?thesis by (simp add: cache_in_sync_def)
qed

lemma created_pod_good:
  assumes "owned_of j = Ok p" "meta_key (jk_meta (ct_kind c) j) = k" "named k"
  shows "meta_key (pod_Meta p) = pod_key suffix k \<and> pod_good c suffix mine p"
  using owned_of_request [OF assms(1,2)] owned_pod_key [OF assms(1)] assms(2,3)
  by (auto simp: pod_good_def pod_key_inj) (auto simp: named_def pod_key_def)

lemma returned_ok:
  assumes "cs_ok c suffix mine s" "(req, x0) \<in> set (cs_busy s)"
    "responsible c suffix mine req \<Longrightarrow> cache_in_sync c suffix s req \<or> requested c req s \<or> event_coming c suffix req s"
  shows "cs_ok c suffix mine (s\<lparr>cs_busy := put_worker req Returned (cs_busy s)\<rparr>)"
  by (rule worker_ok [OF assms(1,2)]) (use assms(3) in auto)

lemma writes_ok:
  assumes "cs_ok c suffix mine s" "map_of (cs_busy s) req = Some (HasPod jo po)" "act_step c mine (Writes req) s = Some s'"
  shows "cs_ok c suffix mine s'"
proof -
  note s = cs_okD [OF assms(1)]
  have mem: "(req, HasPod jo po) \<in> set (cs_busy s)" using assms(2) by (rule map_of_SomeD)
  have key: "meta_key (jk_meta (ct_kind c) j) = req" if "jo = Some j" for j
    using workers_okD [OF s(3) mem] that by simp
  have req: "named req" by (rule busy_named [OF s(2) mem])
  have read: "up_to_date c suffix s req (HasPod jo po) \<or> requested c req s" if "responsible c suffix mine req"
    by (rule nothing_missedD(2) [OF s(4) that mem])
  obtain r s1 where rec: "reconcile_cached c req jo po s = (r, s1)" by fastforce
  show ?thesis
  proof (rule reconcile_cached_cases [OF rec key])
    assume same: "s1 = s" "\<And>u. r = Ok u \<Longrightarrow> in_sync (ct_kind c) (ct_reconciler c) (wlm_kind (ct_type c)) jo po"
    show ?thesis
    proof (cases r)
      case (Ok u)
      have "cs_ok c suffix mine (s\<lparr>cs_busy := put_worker req Returned (cs_busy s)\<rparr>)"
        by (rule returned_ok [OF assms(1) mem]) (use read in_sync_read [OF same(2) [OF Ok]] in blast)
      moreover have "s' = s\<lparr>cs_busy := put_worker req Returned (cs_busy s)\<rparr>"
        using assms(2,3) rec Ok same(1) by simp
      ultimately show ?thesis by simp
    next
      case (Err e)
      then have "s' = delay req s" using assms(2,3) rec same(1) by simp
      then show ?thesis using delay_ok [OF assms(1) mem] by simp
    next
      case (Panic m)
      then show ?thesis using assms(2,3) rec by simp
    qed
  next
    fix j cur
    assume st: "jo = Some j" "po = Some cur" "sv_jobs s req = Some j" "r = Ok ()" "\<exists>p. owned_of j = Ok p"
      "s1 = put_job c req (Some (jk_set_status (ct_kind c) (pod_Phase cur) j)) s"
    let ?j = "jk_set_status (ct_kind c) (pod_Phase cur) j"
    have jkey: "meta_key (jk_meta (ct_kind c) ?j) = req" using key [OF st(1)] by (simp add: status_meta)
    then have ok: "cs_ok c suffix mine s1"
      unfolding st(6) by (intro put_job_ok [OF assms(1)]) (simp add: job_change_ok_def req)
    have busy: "cs_busy s1 = cs_busy s" by (simp add: st(6) put_job_def)
    have "cs_ok c suffix mine (s1\<lparr>cs_busy := put_worker req Returned (cs_busy s1)\<rparr>)"
    proof (rule returned_ok [OF ok])
      show "(req, HasPod jo po) \<in> set (cs_busy s1)" using mem busy by simp
      assume resp: "responsible c suffix mine req"
      show "cache_in_sync c suffix s1 req \<or> requested c req s1 \<or> event_coming c suffix req s1"
      proof (cases "?j = j")
        case True
        then have "jk_status (ct_kind c) j = pod_Phase cur" using status_set [of "pod_Phase cur" j] by simp
        then have "in_sync (ct_kind c) (ct_reconciler c) (wlm_kind (ct_type c)) jo po" using st by (simp add: in_sync_def)
        with read [OF resp] in_sync_read [of jo po s req] have "cache_in_sync c suffix s req \<or> requested c req s" by blast
        then show ?thesis by (auto simp: st(6) put_job_def cache_in_sync_def requested_def)
      next
        case False
        then have "Modified ?j \<in> set (ev_jobs s1)"
          using responsible_scope [OF resp] st(3) by (simp add: st(6) put_job_def)
        with jkey show ?thesis unfolding event_coming_def by force
      qed
    qed
    moreover have "s' = s1\<lparr>cs_busy := put_worker req Returned (cs_busy s1)\<rparr>"
      using assms(2,3) rec st(4) by simp
    ultimately show ?thesis by simp
  next
    fix j p
    assume cr: "jo = Some j" "owned_of j = Ok p" "sv_pods s (pod_key suffix req) = None" "r = Ok ()"
      "s1 = put_pod c (pod_key suffix req) (Some p) s"
    note p = created_pod_good [OF cr(2) key [OF cr(1)] req]
    then have ok: "cs_ok c suffix mine s1" unfolding cr(5) by (intro put_pod_ok [OF assms(1)]) simp
    have busy: "cs_busy s1 = cs_busy s" by (simp add: cr(5) put_pod_def)
    have "cs_ok c suffix mine (s1\<lparr>cs_busy := put_worker req Returned (cs_busy s1)\<rparr>)"
    proof (rule returned_ok [OF ok])
      show "(req, HasPod jo po) \<in> set (cs_busy s1)" using mem busy by simp
      assume resp: "responsible c suffix mine req"
      then have "Added p \<in> set (ev_pods s1)"
        using responsible_scope [OF resp] cr(3) by (simp add: cr(5) put_pod_def)
      then show "cache_in_sync c suffix s1 req \<or> requested c req s1 \<or> event_coming c suffix req s1"
        using p unfolding event_coming_def by force
    qed
    moreover have "s' = s1\<lparr>cs_busy := put_worker req Returned (cs_busy s1)\<rparr>"
      using assms(2,3) rec cr(4) by simp
    ultimately show ?thesis by simp
  qed
qed

lemma act_ok:
  assumes "act_step c mine a s = Some s'" "cs_ok c suffix mine s"
  shows "cs_ok c suffix mine s'"
proof (cases a)
  case (JobChanges k x)
  then show ?thesis using assms put_job_ok [OF assms(2), of k x] by (simp split: if_splits)
next
  case (PodChanges k x)
  with assms(1) have x: "pod_change_ok c mine s k x" "s' = put_pod c k x s" by (auto split: if_splits)
  then show ?thesis
    using put_pod_ok [OF assms(2), of x k] pod_change_good [OF cs_okD(1) [OF assms(2)]] by blast
next
  case (Restarts ks)
  have "keyed (jk_meta (ct_kind c)) (job_good c) (sv_jobs s)" "keyed pod_Meta (pod_good c suffix mine) (sv_pods s)"
    using cs_okD(1) [OF assms(2)] by (simp_all add: caches_follow_def cache_follows_def)
  with restart_ok [OF this, of ks] Restarts assms(1) show ?thesis by (auto split: if_splits)
next
  case JobArrives
  then show ?thesis using assms job_arrives_ok [OF assms(2)] by (auto split: list.splits)
next
  case PodArrives
  then show ?thesis using assms pod_arrives_ok [OF assms(2)] by (auto split: list.splits)
next
  case (Handles i)
  then show ?thesis using assms handles_ok [OF assms(2)] by (auto split: if_splits)
next
  case Takes
  then show ?thesis using assms takes_ok [OF assms(2)] by (auto split: if_splits prod.splits get_result.splits)
next
  case (ReadsJob req)
  then show ?thesis using assms reads_job_ok [OF assms(2), of req] by (simp split: option.splits worker.splits)
next
  case (ReadsPod req)
  then show ?thesis using assms reads_pod_ok [OF assms(2), of req] by (auto split: option.splits worker.splits)
next
  case (Writes req)
  with assms(1) obtain jo po where "map_of (cs_busy s) req = Some (HasPod jo po)"
    by (auto split: option.splits worker.splits)
  then show ?thesis using writes_ok [OF assms(2)] assms(1) Writes by blast
next
  case (WriteFails req)
  with assms(1) obtain jo po where "map_of (cs_busy s) req = Some (HasPod jo po)" "s' = delay req s"
    by (auto split: option.splits worker.splits)
  then show ?thesis using delay_ok [OF assms(2) map_of_SomeD] by simp
next
  case (Finishes req)
  then show ?thesis using assms finishes_ok [OF assms(2), of req] by (simp split: option.splits worker.splits)
next
  case (Retries req)
  then show ?thesis using assms retries_ok [OF assms(2), of req] by (simp split: if_splits)
qed

lemma acts_ok: "acts_run c mine as s = Some s' \<Longrightarrow> cs_ok c suffix mine s \<Longrightarrow> cs_ok c suffix mine s'"
proof (induction "as" arbitrary: s)
  case (Cons a as)
  then obtain s1 where "act_step c mine a s = Some s1" "acts_run c mine as s1 = Some s'"
    by (cases "act_step c mine a s") auto
  with act_ok Cons show ?case by blast
qed simp

lemma quiet_in_sync:
  assumes "cs_ok c suffix mine s" "all_quiet s" "responsible c suffix mine k"
  shows "in_sync (ct_kind c) (ct_reconciler c) (wlm_kind (ct_type c)) (sv_jobs s k) (sv_pods s (pod_key suffix k))"
proof -
  note s = cs_okD [OF assms(1)]
  have "wq_dirty (cs_queue s) = {}"
    using s(3) assms(2) by (auto simp: workers_ok_def wq_ok_def all_quiet_def wq_Len_def)
  then have "\<not> will_be_seen c suffix k s"
    using assms(2) by (simp add: will_be_seen_def requested_def event_coming_def all_quiet_def)
  with nothing_missedD(1) [OF s(4) assms(3)] have "cache_in_sync c suffix s k" by blast
  moreover have "ca_jobs s = in_namespace (ct_namespace c) (sv_jobs s)" "ca_pods s = in_namespace (ct_namespace c) (sv_pods s)"
    using s(1) assms(2) by (simp_all add: caches_follow_def cache_follows_def all_quiet_def)
  ultimately show ?thesis
    using responsible_scope [OF assms(3)] by (simp add: cache_in_sync_def in_namespace_def in_scope_def)
qed

end

end
