(* ===== verification/Stale_Caches.thy ===== *)
theory Stale_Caches
  imports Cached_Operator
begin

text \<open>
  What the controllers of \<open>Cached_Operator\<close> promise although their caches are behind the server,
  and what they do not: the jobs are synchronised whenever the operator is quiet, but a job may be
  run a second time.
\<close>

section \<open>A cluster and a new operator process\<close>

definition cluster :: "(obj_key \<rightharpoonup> 'j) \<Rightarrow> (obj_key \<rightharpoonup> pod) \<Rightarrow> 'j cached_state" where
  "cluster jobs pods =
     \<lparr>sv_jobs = jobs, sv_pods = pods, ca_jobs = Map.empty, ca_pods = Map.empty, ev_jobs = [], ev_pods = [],
      cs_notes = [], cs_queue = newQueue, cs_delayed = [], cs_busy = []\<rparr>"

text \<open>The server holds every object under its key, and the pods of \<open>mine\<close> belong to their jobs.\<close>

definition cluster_valid :: "'j controller \<Rightarrow> string \<Rightarrow> obj_key set \<Rightarrow> (obj_key \<rightharpoonup> 'j) \<Rightarrow> (obj_key \<rightharpoonup> pod) \<Rightarrow> bool" where
  "cluster_valid c suffix mine jobs pods \<longleftrightarrow>
     keyed (jk_meta (ct_kind c)) (job_good c) jobs \<and> keyed pod_Meta (pod_good c suffix mine) pods"

lemma cluster_started:
  assumes "cluster_valid c suffix mine jobs pods" "dom jobs \<union> dom pods \<subseteq> set ks"
  shows "cs_ok c suffix mine (restart c ks (cluster jobs pods))"
  by (rule restart_ok) (use assms in \<open>simp_all add: cluster_def cluster_valid_def\<close>)

section \<open>A job that is run twice\<close>

definition lolcow_key :: obj_key where
  "lolcow_key = (''default'', ''lolcow'')"

definition lolcow_pod_key :: obj_key where
  "lolcow_pod_key = (''default'', ''lolcow-wlm-job'')"

definition lolcow_pod :: "reconciler \<Rightarrow> string \<Rightarrow> pod" where
  "lolcow_pod rc phase =
     (wj_pod rc (example_job []) None)
       \<lparr>pod_Meta := (pod_Meta (wj_pod rc (example_job []) None))
          \<lparr>om_OwnerReferences := [NewControllerRef (wj_Meta (example_job [])) (wlm_kind ''WlmJob'')]\<rparr>,
        pod_Phase := phase\<rparr>"

text \<open>A reconciliation of the job by a worker.\<close>

definition reconciles :: "'j act list" where
  "reconciles = [Takes, ReadsJob lolcow_key, ReadsPod lolcow_key, Writes lolcow_key, Finishes lolcow_key]"

lemma example_owned: "owned_pod wlm_job_kind rc (Ok (wlm_kind ''WlmJob'')) (example_job []) = Ok (lolcow_pod rc [])"
  using owned_pod_wlm [OF example_job_simps(1) [of "[]"]] by (simp add: lolcow_pod_def wj_pod_def)

lemma lolcow_pod_simps:
  "meta_key (pod_Meta (lolcow_pod rc phase)) = lolcow_pod_key" "pod_Phase (lolcow_pod rc phase) = phase"
  "getOwnerReconcileRequest (pod_handler ''WlmJob'') (Some (pod_Meta (lolcow_pod rc phase))) = [lolcow_key]"
  "lolcow_pod rc ph = lolcow_pod rc phase \<longleftrightarrow> ph = phase"
proof -
  show "meta_key (pod_Meta (lolcow_pod rc phase)) = lolcow_pod_key"
    by (simp add: lolcow_pod_def lolcow_pod_key_def wj_pod_def example_job_def example_wj_def meta_key_def)
  show phase: "pod_Phase (lolcow_pod rc phase) = phase" for phase by (simp add: lolcow_pod_def)
  show "getOwnerReconcileRequest (pod_handler ''WlmJob'') (Some (pod_Meta (lolcow_pod rc phase))) = [lolcow_key]"
    using wlm_op.owned_of_request [where j = "example_job []" and p = "lolcow_pod rc []" and k = lolcow_key] example_owned [of rc]
    by (simp add: example_job_simps lolcow_key_def lolcow_pod_def)
  show "lolcow_pod rc ph = lolcow_pod rc phase \<longleftrightarrow> ph = phase" using phase by metis
qed


text \<open>The operator after it has seen what the lists say.\<close>

definition lolcow_state ::
  "reconciler \<Rightarrow> string \<Rightarrow> pod option \<Rightarrow> pod option \<Rightarrow> unit wlm_job watch_event list \<Rightarrow> pod watch_event list \<Rightarrow>
   informer_event list \<Rightarrow> unit wlm_job cached_state" where
  "lolcow_state rc status pod seen jobs pods news =
     \<lparr>sv_jobs = [lolcow_key \<mapsto> example_job status], sv_pods = Map.empty(lolcow_pod_key := pod),
      ca_jobs = [lolcow_key \<mapsto> example_job []], ca_pods = Map.empty(lolcow_pod_key := seen),
      ev_jobs = jobs, ev_pods = pods, cs_notes = news, cs_queue = newQueue, cs_delayed = [], cs_busy = []\<rparr>"

lemma lolcow_state_server:
  "sv_jobs (lolcow_state rc status pod seen jobs pods news) = [lolcow_key \<mapsto> example_job status]"
  "sv_pods (lolcow_state rc status pod seen jobs pods news) = Map.empty(lolcow_pod_key := pod)"
  by (simp_all add: lolcow_state_def)

lemma example_new_pod:
  "newPodForWJ rc (example_job []) = Ok (wj_pod rc (example_job []) None)"
  "SetControllerReference (Ok (wlm_kind ''WlmJob'')) (wj_Meta (example_job [])) (pod_Meta (wj_pod rc (example_job []) None)) =
     Ok (pod_Meta (lolcow_pod rc []))"
  "(wj_pod rc (example_job []) None)\<lparr>pod_Meta := pod_Meta (lolcow_pod rc [])\<rparr> = lolcow_pod rc []"
proof -
  show new: "newPodForWJ rc (example_job []) = Ok (wj_pod rc (example_job []) None)"
    by (simp add: newPodForWJ_def AffinityForResources_def node_match_def no_resources_def example_job_simps)
  show "SetControllerReference (Ok (wlm_kind ''WlmJob'')) (wj_Meta (example_job [])) (pod_Meta (wj_pod rc (example_job []) None)) =
     Ok (pod_Meta (lolcow_pod rc []))"
    by (simp add: SetControllerReference_fresh wj_pod_def lolcow_pod_def)
  show "(wj_pod rc (example_job []) None)\<lparr>pod_Meta := pod_Meta (lolcow_pod rc [])\<rparr> = lolcow_pod rc []"
    by (simp add: lolcow_pod_def wj_pod_def)
qed

lemma example_job_phase:
  "(example_job status)\<lparr>wj_Status := (wj_Status (example_job status))\<lparr>wjst_Status := phase\<rparr>\<rparr> = example_job phase"
  "example_job phase = example_job status \<longleftrightarrow> phase = status"
proof -
  show "(example_job status)\<lparr>wj_Status := (wj_Status (example_job status))\<lparr>wjst_Status := phase\<rparr>\<rparr> = example_job phase"
    by (simp add: example_job_def)
  show "example_job phase = example_job status \<longleftrightarrow> phase = status"
    using example_job_simps(3) by metis
qed

lemmas lolcow_steps = example_job_phase
  lolcow_state_def reconciles_def lolcow_pod_simps example_new_pod example_owned example_job_simps
  reconcile_cached_def reconcile_job_def cached_client_def read_pod_def put_worker_def put_job_def put_pod_def
  in_scope_def newQueue_def wq_Add_def wq_Get_def wq_Done_def IsNotFound_def

lemma lolcow_created:
  "acts_run (wlm_controller rc ''default'') lolcow_pods (Handles 0 # reconciles)
      (lolcow_state rc status None None jobs [] [nt]) =
    Some (lolcow_state rc status (Some (lolcow_pod rc [])) None jobs [Added (lolcow_pod rc [])] [])"
  if "event_requests ''WlmJob'' nt = [lolcow_key] \<or> event_requests ''WlmJob'' nt = [lolcow_key, lolcow_key]"
  using that by (elim disjE; simp add: lolcow_steps Let_def) (simp_all add: lolcow_key_def lolcow_pod_key_def)

lemma lolcow_reconciled:
  "acts_run (wlm_controller rc ''default'') lolcow_pods (Handles 0 # reconciles)
      (lolcow_state rc [] (Some (lolcow_pod rc phase)) (Some (lolcow_pod rc phase)) [] [] [nt]) =
    Some (lolcow_state rc phase (Some (lolcow_pod rc phase)) (Some (lolcow_pod rc phase))
      (if phase = [] then [] else [Modified (example_job phase)]) [] [])"
  if "event_requests ''WlmJob'' nt = [lolcow_key] \<or> event_requests ''WlmJob'' nt = [lolcow_key, lolcow_key]"
  using that by (elim disjE; simp add: lolcow_steps Let_def) (simp_all add: lolcow_key_def lolcow_pod_key_def)

lemma lolcow_pod_arrives:
  "acts_run (wlm_controller rc ''default'') lolcow_pods [PodArrives]
      (lolcow_state rc status pod None jobs [Added (lolcow_pod rc phase)] news) =
    Some (lolcow_state rc status pod (Some (lolcow_pod rc phase)) jobs []
      (news @ [PodEvent (CreateEvent (Some (pod_Meta (lolcow_pod rc phase))))]))"
  "acts_run (wlm_controller rc ''default'') lolcow_pods [PodArrives]
      (lolcow_state rc status pod (Some (lolcow_pod rc phase)) jobs [Deleted (lolcow_pod rc phase)] news) =
    Some (lolcow_state rc status pod None jobs []
      (news @ [PodEvent (DeleteEvent (Some (pod_Meta (lolcow_pod rc phase))))]))"
  by (simp_all add: lolcow_state_def lolcow_pod_simps)

lemma lolcow_pod_succeeds:
  "acts_run (wlm_controller rc ''default'') lolcow_pods
      [PodChanges lolcow_pod_key (Some (lolcow_pod rc ''Succeeded'')), PodArrives]
      (lolcow_state rc status (Some (lolcow_pod rc [])) (Some (lolcow_pod rc [])) jobs [] []) =
    Some (lolcow_state rc status (Some (lolcow_pod rc ''Succeeded'')) (Some (lolcow_pod rc ''Succeeded'')) jobs []
      [PodEvent (UpdateEvent (Some (pod_Meta (lolcow_pod rc []))) (Some (pod_Meta (lolcow_pod rc ''Succeeded''))))])"
  by (simp add: lolcow_state_def lolcow_pod_simps pod_change_ok_def put_pod_def in_scope_def)
    (simp add: lolcow_pod_def lolcow_key_def lolcow_pod_key_def named_def)

lemma lolcow_pod_deleted:
  "acts_run (wlm_controller rc ''default'') lolcow_pods [PodChanges lolcow_pod_key None]
      (lolcow_state rc status (Some (lolcow_pod rc phase)) seen jobs [] []) =
    Some (lolcow_state rc status None seen jobs [Deleted (lolcow_pod rc phase)] [])"
  by (simp add: lolcow_state_def pod_change_ok_def put_pod_def in_scope_def) (simp add: lolcow_pod_key_def)

lemma lolcow_start:
  "restart (wlm_controller rc ''default'') [lolcow_key] (cluster [lolcow_key \<mapsto> example_job []] Map.empty) =
   lolcow_state rc [] None None [] [] [JobEvent (CreateEvent (Some (wj_Meta (example_job []))))]"
  by (simp add: restart_def cluster_def lolcow_state_def listed_def in_namespace_def lolcow_key_def newQueue_def fun_eq_iff Let_def)

lemma lolcow_requests:
  "event_requests ''WlmJob'' (JobEvent (CreateEvent (Some (wj_Meta (example_job []))))) = [lolcow_key]"
  "event_requests ''WlmJob'' (PodEvent (CreateEvent (Some (pod_Meta (lolcow_pod rc phase))))) = [lolcow_key]"
  "event_requests ''WlmJob'' (PodEvent (DeleteEvent (Some (pod_Meta (lolcow_pod rc phase))))) = [lolcow_key]"
  "event_requests ''WlmJob''
     (PodEvent (UpdateEvent (Some (pod_Meta (lolcow_pod rc ph))) (Some (pod_Meta (lolcow_pod rc phase))))) =
     [lolcow_key, lolcow_key]"
  using example_job_simps(2) [of "[]"]
  by (simp_all add: object_request_def lolcow_key_def meta_key_def lolcow_pod_simps)

lemma acts_run_append: "acts_run c mine (as @ bs) s = Option.bind (acts_run c mine as s) (acts_run c mine bs)"
proof (induction "as" arbitrary: s)
  case (Cons a as)
  then show ?case by (cases "act_step c mine a s") simp_all
qed simp

lemma acts_run_then:
  "acts_run c mine as s = Some s1 \<Longrightarrow> acts_run c mine bs s1 = Some s2 \<Longrightarrow> acts_run c mine (as @ bs) s = Some s2"
  by (simp add: acts_run_append)

text \<open>The job is created, its pod is created, seen and reconciled.\<close>

definition first_run :: "'j act list" where
  "first_run = (Handles 0 # reconciles) @ [PodArrives] @ (Handles 0 # reconciles)"

lemma lolcow_first_run:
  "acts_run (wlm_controller rc ''default'') lolcow_pods first_run
      (restart (wlm_controller rc ''default'') [lolcow_key] (cluster [lolcow_key \<mapsto> example_job []] Map.empty)) =
    Some (lolcow_state rc [] (Some (lolcow_pod rc [])) (Some (lolcow_pod rc [])) [] [] [])"
proof -
  have "acts_run (wlm_controller rc ''default'') lolcow_pods ([PodArrives] @ (Handles 0 # reconciles))
      (lolcow_state rc [] (Some (lolcow_pod rc [])) None [] [Added (lolcow_pod rc [])] []) =
    Some (lolcow_state rc [] (Some (lolcow_pod rc [])) (Some (lolcow_pod rc [])) [] [] [])"
    by (rule acts_run_then [OF lolcow_pod_arrives(1)])
      (simp add: lolcow_reconciled [OF disjI1 [OF lolcow_requests(2)]] del: acts_run.simps)
  then show ?thesis
    unfolding first_run_def lolcow_start
    by (rule acts_run_then [OF lolcow_created [OF disjI1 [OF lolcow_requests(1)]]])
qed

text \<open>
  Then the pod succeeds, which is written to the job, and the pod is deleted; the event about the
  job is still on its way.
\<close>

definition success_run :: "reconciler \<Rightarrow> 'j act list" where
  "success_run rc =
     first_run @ [PodChanges lolcow_pod_key (Some (lolcow_pod rc ''Succeeded'')), PodArrives] @
     (Handles 0 # reconciles) @ [PodChanges lolcow_pod_key None]"

lemma lolcow_success_run:
  "acts_run (wlm_controller rc ''default'') lolcow_pods (success_run rc)
      (restart (wlm_controller rc ''default'') [lolcow_key] (cluster [lolcow_key \<mapsto> example_job []] Map.empty)) =
    Some (lolcow_state rc ''Succeeded'' None (Some (lolcow_pod rc ''Succeeded'')) [Modified (example_job ''Succeeded'')]
      [Deleted (lolcow_pod rc ''Succeeded'')] [])"
  unfolding success_run_def
proof (rule acts_run_then [OF lolcow_first_run])
  have "acts_run (wlm_controller rc ''default'') lolcow_pods ((Handles 0 # reconciles) @ [PodChanges lolcow_pod_key None])
      (lolcow_state rc [] (Some (lolcow_pod rc ''Succeeded'')) (Some (lolcow_pod rc ''Succeeded'')) [] []
        [PodEvent (UpdateEvent (Some (pod_Meta (lolcow_pod rc []))) (Some (pod_Meta (lolcow_pod rc ''Succeeded''))))]) =
    Some (lolcow_state rc ''Succeeded'' None (Some (lolcow_pod rc ''Succeeded'')) [Modified (example_job ''Succeeded'')]
      [Deleted (lolcow_pod rc ''Succeeded'')] [])"
    by (rule acts_run_then [OF lolcow_reconciled [OF disjI2 [OF lolcow_requests(4)]]])
      (simp add: lolcow_pod_deleted del: acts_run.simps)
  then show "acts_run (wlm_controller rc ''default'') lolcow_pods
      ([PodChanges lolcow_pod_key (Some (lolcow_pod rc ''Succeeded'')), PodArrives] @
       (Handles 0 # reconciles) @ [PodChanges lolcow_pod_key None])
      (lolcow_state rc [] (Some (lolcow_pod rc [])) (Some (lolcow_pod rc [])) [] [] []) =
    Some (lolcow_state rc ''Succeeded'' None (Some (lolcow_pod rc ''Succeeded'')) [Modified (example_job ''Succeeded'')]
      [Deleted (lolcow_pod rc ''Succeeded'')] [])"
    by (rule acts_run_then [OF lolcow_pod_succeeds])
qed

section \<open>Properties\<close>

text \<open>
  C2. Although the operator reads from caches that are behind the server, and reads and writes at
  different times, no job is forgotten: whatever the cluster does and in whatever order events
  arrive, handlers and workers run and the process is restarted, when all is quiet every WlmJob it is
  responsible for has the phase of its pod as its status, or has had a status if its pod is gone.
\<close>

theorem stale_caches_synchronised:
  assumes "cluster_valid (wlm_controller rc ns) ''-wlm-job'' mine jobs pods" "dom jobs \<union> dom pods \<subseteq> set ks"
    "acts_run (wlm_controller rc ns) mine as (restart (wlm_controller rc ns) ks (cluster jobs pods)) = Some s"
    "all_quiet s" "pod_key ''-wlm-job'' k \<in> mine" "ns = [] \<or> fst k = ns" "sv_jobs s k = Some j"
  shows "case sv_pods s (pod_key ''-wlm-job'' k) of
      Some cur \<Rightarrow> wjst_Status (wj_Status j) = pod_Phase cur
    | None \<Rightarrow> wjst_Status (wj_Status j) \<noteq> []"
proof -
  have "responsible (wlm_controller rc ns) ''-wlm-job'' mine k" using assms(5,6) by (simp add: responsible_def)
  from wlm_op.quiet_in_sync [OF wlm_op.acts_ok [OF assms(3) cluster_started [OF assms(1,2)]] assms(4) this]
  show ?thesis using assms(7) by (simp add: in_sync_def split: option.splits)
qed

text \<open>
  C7. But a job can be run twice: after its pod succeeded, the success was written to the job and
  the pod was deleted, the operator alone creates the pod again when its cache of the jobs is
  behind that of the pods, although the job on the server says that it succeeded.
\<close>

theorem stale_job_cache_runs_job_twice:
  "\<exists>s1 s2. acts_run (wlm_controller rc ''default'') lolcow_pods (success_run rc)
       (restart (wlm_controller rc ''default'') [lolcow_key] (cluster [lolcow_key \<mapsto> example_job []] Map.empty)) = Some s1 \<and>
     sv_jobs s1 lolcow_key = Some (example_job ''Succeeded'') \<and> sv_pods s1 lolcow_pod_key = None \<and>
     acts_run (wlm_controller rc ''default'') lolcow_pods (PodArrives # Handles 0 # reconciles) s1 = Some s2 \<and>
     sv_jobs s2 lolcow_key = Some (example_job ''Succeeded'') \<and> sv_pods s2 lolcow_pod_key = Some (lolcow_pod rc [])"
proof -
  have "acts_run (wlm_controller rc ''default'') lolcow_pods ([PodArrives] @ (Handles 0 # reconciles))
      (lolcow_state rc ''Succeeded'' None (Some (lolcow_pod rc ''Succeeded'')) [Modified (example_job ''Succeeded'')]
        [Deleted (lolcow_pod rc ''Succeeded'')] []) =
    Some (lolcow_state rc ''Succeeded'' (Some (lolcow_pod rc [])) None [Modified (example_job ''Succeeded'')]
      [Added (lolcow_pod rc [])] [])"
    by (rule acts_run_then [OF lolcow_pod_arrives(2)])
      (simp add: lolcow_created [OF disjI1 [OF lolcow_requests(3)]] del: acts_run.simps)
  then show ?thesis
    using lolcow_success_run [of rc] by (simp add: lolcow_state_server del: acts_run.simps)
qed

theorem stale_caches_synchronised_witness:
  "\<exists>s. acts_run (wlm_controller example_rc ''default'') lolcow_pods first_run
       (restart (wlm_controller example_rc ''default'') [lolcow_key] (cluster [lolcow_key \<mapsto> example_job []] Map.empty)) = Some s \<and>
     wjst_Status (wj_Status (example_job [])) = pod_Phase (the (sv_pods s lolcow_pod_key))"
proof -
  let ?s = "lolcow_state example_rc [] (Some (lolcow_pod example_rc [])) (Some (lolcow_pod example_rc [])) [] [] []"
  have valid: "cluster_valid (wlm_controller example_rc ''default'') ''-wlm-job'' lolcow_pods
      [lolcow_key \<mapsto> example_job []] Map.empty"
    by (simp add: cluster_valid_def keyed_def job_good_def example_job_simps lolcow_key_def named_def)
  have "all_quiet ?s" by (simp add: all_quiet_def lolcow_state_def wq_Len_def newQueue_def)
  moreover have "pod_key ''-wlm-job'' lolcow_key = lolcow_pod_key" "lolcow_pod_key \<in> lolcow_pods"
    "fst lolcow_key = ''default''"
    by (simp_all add: lolcow_key_def lolcow_pod_key_def pod_key_def lolcow_pods_def)
  ultimately show ?thesis
    using stale_caches_synchronised [OF valid _ lolcow_first_run, of lolcow_key "example_job []"]
      lolcow_first_run [of example_rc]
    by (simp add: lolcow_state_server)
qed

end
