(* ===== verification/Seen_Status.thy ===== *)
theory Seen_Status
  imports Stale_Caches
begin

text \<open>
  When a job is safe from a second run. \<open>Stale_Caches\<close> shows that a job whose status is not yet in the
  cache can be run twice; here the guard of the reconcilers is shown to hold once the operator can no
  longer see the job without a status.
\<close>

section \<open>What the operator can still see\<close>

text \<open>
  The states of a job and of its pod on the server, in the caches, in events on their way and in the
  reads of the workers.
\<close>

fun pod_read :: "'j worker \<Rightarrow> pod option" where
  "pod_read (HasPod jo po) = po"
| "pod_read (HasJob jo) = None"
| "pod_read Picked = None"
| "pod_read Returned = None"

definition jobs_shown :: "'j controller \<Rightarrow> obj_key \<Rightarrow> 'j cached_state \<Rightarrow> 'j set" where
  "jobs_shown c k s =
     set_option (sv_jobs s k) \<union> set_option (ca_jobs s k) \<union>
     {j. j \<in> event_object ` set (ev_jobs s) \<and> meta_key (jk_meta (ct_kind c) j) = k} \<union>
     {j. \<exists>x. (k, x) \<in> set (cs_busy s) \<and> job_read x = Some j}"

definition pods_shown :: "string \<Rightarrow> obj_key \<Rightarrow> 'j cached_state \<Rightarrow> pod set" where
  "pods_shown suffix k s =
     set_option (sv_pods s (pod_key suffix k)) \<union> set_option (ca_pods s (pod_key suffix k)) \<union>
     {p. p \<in> event_object ` set (ev_pods s) \<and> meta_key (pod_Meta p) = pod_key suffix k} \<union>
     {p. \<exists>x. (k, x) \<in> set (cs_busy s) \<and> pod_read x = Some p}"

definition status_seen :: "'j controller \<Rightarrow> string \<Rightarrow> obj_key \<Rightarrow> 'j cached_state \<Rightarrow> bool" where
  "status_seen c suffix k s \<longleftrightarrow>
     (\<forall>j \<in> jobs_shown c k s. jk_status (ct_kind c) j \<noteq> []) \<and> (\<forall>p \<in> pods_shown suffix k s. pod_Phase p \<noteq> [])"

lemma change_event_objects:
  "ev \<in> set (change_event old new) \<Longrightarrow> old = Some (event_object ev) \<or> new = Some (event_object ev)"
  by (cases old; cases new) (auto split: if_splits)

lemma keyed_at: "keyed meta good m \<Longrightarrow> m k = Some x \<Longrightarrow> meta_key (meta x) = k'  \<Longrightarrow> k = k'"
  using keyedD by metis

lemma put_job_shown:
  assumes "keyed (jk_meta (ct_kind c)) good (sv_jobs s)" "\<And>j. x = Some j \<Longrightarrow> meta_key (jk_meta (ct_kind c) j) = k'"
  shows "jobs_shown c k (put_job c k' x s) \<subseteq> jobs_shown c k s \<union> (if k' = k then set_option x else {})"
    "pods_shown suffix k (put_job c k' x s) = pods_shown suffix k s"
proof -
  let ?s = "put_job c k' x s" and ?m = "jk_meta (ct_kind c)"
  have ev: "j \<in> jobs_shown c k s \<union> (if k' = k then set_option x else {})"
    if "j \<in> event_object ` set (ev_jobs ?s)" "meta_key (?m j) = k" for j
  proof -
    from that(1) consider "j \<in> event_object ` set (ev_jobs s)" | "j \<in> event_object ` set (change_event (sv_jobs s k') x)"
      by (auto simp: put_job_def split: if_splits)
    then show ?thesis
    proof cases
      case 1
      with that(2) show ?thesis by (simp add: jobs_shown_def)
    next
      case 2
      then have "sv_jobs s k' = Some j \<or> x = Some j" using change_event_objects by blast
      then show ?thesis
      proof
        assume j: "sv_jobs s k' = Some j"
        with keyed_at [OF assms(1) this that(2)] show ?thesis by (simp add: jobs_shown_def)
      next
        assume "x = Some j"
        with assms(2) that(2) show ?thesis by simp
      qed
    qed
  qed
  show "jobs_shown c k ?s \<subseteq> jobs_shown c k s \<union> (if k' = k then set_option x else {})"
    unfolding jobs_shown_def [of c k ?s]
  proof (intro Un_least)
    show "set_option (sv_jobs ?s k) \<subseteq> jobs_shown c k s \<union> (if k' = k then set_option x else {})"
      by (simp add: put_job_def jobs_shown_def) blast
    show "set_option (ca_jobs ?s k) \<subseteq> jobs_shown c k s \<union> (if k' = k then set_option x else {})"
      unfolding jobs_shown_def by (simp add: put_job_def) blast
    show "{j \<in> event_object ` set (ev_jobs ?s). meta_key (?m j) = k} \<subseteq> jobs_shown c k s \<union> (if k' = k then set_option x else {})"
      using ev by blast
    show "{j. \<exists>y. (k, y) \<in> set (cs_busy ?s) \<and> job_read y = Some j} \<subseteq> jobs_shown c k s \<union> (if k' = k then set_option x else {})"
      unfolding jobs_shown_def by (simp add: put_job_def) blast
  qed
  show "pods_shown suffix k ?s = pods_shown suffix k s" by (simp add: pods_shown_def put_job_def)
qed

lemma put_pod_shown:
  assumes "keyed pod_Meta good (sv_pods s)" "\<And>p. x = Some p \<Longrightarrow> meta_key (pod_Meta p) = k'"
  shows "pods_shown suffix k (put_pod c k' x s) \<subseteq> pods_shown suffix k s \<union> (if k' = pod_key suffix k then set_option x else {})"
    "jobs_shown c k (put_pod c k' x s) = jobs_shown c k s"
proof -
  let ?s = "put_pod c k' x s" and ?pk = "pod_key suffix k"
  have ev: "p \<in> pods_shown suffix k s \<union> (if k' = ?pk then set_option x else {})"
    if "p \<in> event_object ` set (ev_pods ?s)" "meta_key (pod_Meta p) = ?pk" for p
  proof -
    from that(1) consider "p \<in> event_object ` set (ev_pods s)" | "p \<in> event_object ` set (change_event (sv_pods s k') x)"
      by (auto simp: put_pod_def split: if_splits)
    then show ?thesis
    proof cases
      case 1
      with that(2) show ?thesis by (simp add: pods_shown_def)
    next
      case 2
      then have "sv_pods s k' = Some p \<or> x = Some p" using change_event_objects by blast
      then show ?thesis
      proof
        assume p: "sv_pods s k' = Some p"
        with keyed_at [OF assms(1) this that(2)] show ?thesis by (simp add: pods_shown_def)
      next
        assume "x = Some p"
        with assms(2) that(2) show ?thesis by simp
      qed
    qed
  qed
  show "pods_shown suffix k ?s \<subseteq> pods_shown suffix k s \<union> (if k' = ?pk then set_option x else {})"
    unfolding pods_shown_def [of suffix k ?s]
  proof (intro Un_least)
    show "set_option (sv_pods ?s ?pk) \<subseteq> pods_shown suffix k s \<union> (if k' = ?pk then set_option x else {})"
      by (simp add: put_pod_def pods_shown_def) blast
    show "set_option (ca_pods ?s ?pk) \<subseteq> pods_shown suffix k s \<union> (if k' = ?pk then set_option x else {})"
      unfolding pods_shown_def by (simp add: put_pod_def) blast
    show "{p \<in> event_object ` set (ev_pods ?s). meta_key (pod_Meta p) = ?pk} \<subseteq> pods_shown suffix k s \<union> (if k' = ?pk then set_option x else {})"
      using ev by blast
    show "{p. \<exists>y. (k, y) \<in> set (cs_busy ?s) \<and> pod_read y = Some p} \<subseteq> pods_shown suffix k s \<union> (if k' = ?pk then set_option x else {})"
      unfolding pods_shown_def by (simp add: put_pod_def) blast
  qed
  show "jobs_shown c k ?s = jobs_shown c k s" by (simp add: jobs_shown_def put_pod_def)
qed

lemma put_worker_shown:
  "jobs_shown c k (s\<lparr>cs_busy := put_worker req x (cs_busy s)\<rparr>) \<subseteq>
     jobs_shown c k s \<union> (if req = k then set_option (job_read x) else {})"
  "pods_shown suffix k (s\<lparr>cs_busy := put_worker req x (cs_busy s)\<rparr>) \<subseteq>
     pods_shown suffix k s \<union> (if req = k then set_option (pod_read x) else {})"
  by (auto simp: jobs_shown_def pods_shown_def put_worker_def split: if_splits)

lemma arrives_shown:
  "ev_jobs s = ev # evs \<Longrightarrow>
   jobs_shown c k (s\<lparr>ev_jobs := evs, ca_jobs := replay_event (jk_meta (ct_kind c)) ev (ca_jobs s), cs_notes := notes\<rparr>)
     \<subseteq> jobs_shown c k s"
  "ev_pods s = pv # pvs \<Longrightarrow>
   pods_shown suffix k (s\<lparr>ev_pods := pvs, ca_pods := replay_event pod_Meta pv (ca_pods s), cs_notes := notes\<rparr>)
     \<subseteq> pods_shown suffix k s"
proof -
  have r: "set_option (replay_event meta e m k') \<subseteq> set_option (m k') \<union> {y. y = event_object e \<and> meta_key (meta y) = k'}"
    for meta :: "'o \<Rightarrow> object_meta" and e m k'
    by (cases e) auto
  show "ev_jobs s = ev # evs \<Longrightarrow>
   jobs_shown c k (s\<lparr>ev_jobs := evs, ca_jobs := replay_event (jk_meta (ct_kind c)) ev (ca_jobs s), cs_notes := notes\<rparr>)
     \<subseteq> jobs_shown c k s"
    using r [of "jk_meta (ct_kind c)" ev "ca_jobs s" k] unfolding jobs_shown_def by auto
  show "ev_pods s = pv # pvs \<Longrightarrow>
   pods_shown suffix k (s\<lparr>ev_pods := pvs, ca_pods := replay_event pod_Meta pv (ca_pods s), cs_notes := notes\<rparr>)
     \<subseteq> pods_shown suffix k s"
    using r [of pod_Meta pv "ca_pods s" "pod_key suffix k"] unfolding pods_shown_def by auto
qed

lemma restart_shown:
  "jobs_shown c k (restart c ks s) \<subseteq> jobs_shown c k s" "pods_shown suffix k (restart c ks s) \<subseteq> pods_shown suffix k s"
  by (auto simp: jobs_shown_def pods_shown_def restart_fields in_namespace_def split: if_splits)

section \<open>Seen statuses stay seen\<close>

text \<open>Nobody else gives the job an empty status.\<close>

fun keeps_status :: "'j controller \<Rightarrow> obj_key \<Rightarrow> 'j act \<Rightarrow> bool" where
  "keeps_status c k (JobChanges k' (Some j)) = (k' = k \<longrightarrow> jk_status (ct_kind c) j \<noteq> [])"
| "keeps_status c k a = True"

lemma keeps_statusI:
  "(\<And>j. a = JobChanges k (Some j) \<Longrightarrow> jk_status (ct_kind c) j \<noteq> []) \<Longrightarrow> keeps_status c k a"
  by (cases "(c, k, a)" rule: keeps_status.cases) auto

definition run_once :: "'j controller \<Rightarrow> string \<Rightarrow> obj_key \<Rightarrow> 'j cached_state \<Rightarrow> bool" where
  "run_once c suffix k s \<longleftrightarrow> status_seen c suffix k s \<and> sv_pods s (pod_key suffix k) = None"

lemma run_onceI:
  assumes "run_once c suffix k s" "sv_pods s' (pod_key suffix k) = None"
    "jobs_shown c k s' \<subseteq> jobs_shown c k s \<union> {j. jk_status (ct_kind c) j \<noteq> []}"
    "pods_shown suffix k s' \<subseteq> pods_shown suffix k s \<union> {p. pod_Phase p \<noteq> []}"
  shows "run_once c suffix k s'"
  using assms unfolding run_once_def status_seen_def by blast

lemma run_onceD:
  assumes "run_once c suffix k s"
  shows "j \<in> jobs_shown c k s \<Longrightarrow> jk_status (ct_kind c) j \<noteq> []" "p \<in> pods_shown suffix k s \<Longrightarrow> pod_Phase p \<noteq> []"
    "sv_pods s (pod_key suffix k) = None"
  using assms unfolding run_once_def status_seen_def by blast+

text \<open>A step of the queue or of the handlers.\<close>

lemma queue_shown:
  assumes "run_once c suffix k s" "sv_jobs s' = sv_jobs s" "ca_jobs s' = ca_jobs s" "ev_jobs s' = ev_jobs s"
    "sv_pods s' = sv_pods s" "ca_pods s' = ca_pods s" "ev_pods s' = ev_pods s"
    "\<And>req x. (req, x) \<in> set (cs_busy s') \<Longrightarrow> x = Picked \<or> (req, x) \<in> set (cs_busy s)"
  shows "run_once c suffix k s'"
proof (rule run_onceI [OF assms(1)])
  have read: "(k, x) \<in> set (cs_busy s)" if "(k, x) \<in> set (cs_busy s')" "job_read x = Some j \<or> pod_read x = Some p" for x j p
    using assms(8) [OF that(1)] that(2) by auto
  have "jobs_shown c k s' \<subseteq> jobs_shown c k s" unfolding jobs_shown_def assms(2-4) using read by blast
  then show "jobs_shown c k s' \<subseteq> jobs_shown c k s \<union> {j. jk_status (ct_kind c) j \<noteq> []}" by blast
  have "pods_shown suffix k s' \<subseteq> pods_shown suffix k s" unfolding pods_shown_def assms(5-7) using read by blast
  then show "pods_shown suffix k s' \<subseteq> pods_shown suffix k s \<union> {p. pod_Phase p \<noteq> []}" by blast
qed (simp add: assms(5) run_onceD(3) [OF assms(1)])

lemma worker_shown:
  assumes "run_once c suffix k s"
    "req = k \<Longrightarrow> set_option (job_read x) \<subseteq> jobs_shown c k s" "req = k \<Longrightarrow> set_option (pod_read x) \<subseteq> pods_shown suffix k s"
  shows "run_once c suffix k (s\<lparr>cs_busy := put_worker req x (cs_busy s)\<rparr>)"
proof (rule run_onceI [OF assms(1)])
  show "jobs_shown c k (s\<lparr>cs_busy := put_worker req x (cs_busy s)\<rparr>) \<subseteq> jobs_shown c k s \<union> {j. jk_status (ct_kind c) j \<noteq> []}"
    using put_worker_shown(1) [where c = c and k = k and s = s and req = req and x = x] assms(2) by (cases "req = k") (simp_all, blast+)
  show "pods_shown suffix k (s\<lparr>cs_busy := put_worker req x (cs_busy s)\<rparr>) \<subseteq> pods_shown suffix k s \<union> {p. pod_Phase p \<noteq> []}"
    using put_worker_shown(2) [where suffix = suffix and k = k and s = s and req = req and x = x] assms(3) by (cases "req = k") (simp_all, blast+)
qed (simp add: run_onceD(3) [OF assms(1)])

lemma delay_shown:
  assumes "run_once c suffix k s"
  shows "run_once c suffix k (delay req s)"
proof -
  have "run_once c suffix k (s\<lparr>cs_delayed := cs_delayed s @ [req]\<rparr>)"
    using assms by (simp add: run_once_def status_seen_def jobs_shown_def pods_shown_def)
  from worker_shown [OF this, of req Returned] show ?thesis by (simp add: delay_def)
qed

lemma served_keyed:
  assumes "cs_ok c suffix mine s"
  shows "keyed (jk_meta (ct_kind c)) (job_good c) (sv_jobs s)" "keyed pod_Meta (pod_good c suffix mine) (sv_pods s)"
  using cs_okD(1) [OF assms] by (simp_all add: caches_follow_def cache_follows_def)

lemma job_changes_once:
  assumes "cs_ok c suffix mine s" "run_once c suffix k s" "job_change_ok c k' x"
    "k' = k \<Longrightarrow> \<forall>j. x = Some j \<longrightarrow> jk_status (ct_kind c) j \<noteq> []"
  shows "run_once c suffix k (put_job c k' x s)"
proof (rule run_onceI [OF assms(2)])
  have x: "\<And>j. x = Some j \<Longrightarrow> meta_key (jk_meta (ct_kind c) j) = k'" using assms(3) by (simp add: job_change_ok_def)
  note shown = put_job_shown [OF served_keyed(1) [OF assms(1)] x, simplified]
  show "jobs_shown c k (put_job c k' x s) \<subseteq> jobs_shown c k s \<union> {j. jk_status (ct_kind c) j \<noteq> []}"
    using shown(1) [where k = k] assms(4) by (cases "k' = k"; cases x) (simp_all, blast+)
  show "pods_shown suffix k (put_job c k' x s) \<subseteq> pods_shown suffix k s \<union> {p. pod_Phase p \<noteq> []}"
    using shown(2) [where k = k and suffix = suffix] by blast
qed (simp add: put_job_def run_onceD(3) [OF assms(2)])

lemma pod_changes_once:
  assumes "cs_ok c suffix mine s" "run_once c suffix k s" "\<And>p. x = Some p \<Longrightarrow> meta_key (pod_Meta p) = k'"
    "k' = pod_key suffix k \<Longrightarrow> x = None"
  shows "run_once c suffix k (put_pod c k' x s)"
proof (rule run_onceI [OF assms(2)])
  note shown = put_pod_shown [OF served_keyed(2) [OF assms(1)] assms(3), simplified]
  show "jobs_shown c k (put_pod c k' x s) \<subseteq> jobs_shown c k s \<union> {j. jk_status (ct_kind c) j \<noteq> []}"
    using shown(2) [where k = k and c = c] by blast
  show "pods_shown suffix k (put_pod c k' x s) \<subseteq> pods_shown suffix k s \<union> {p. pod_Phase p \<noteq> []}"
    using shown(1) [where k = k and suffix = suffix] assms(4) by (cases "k' = pod_key suffix k") (simp_all, blast+)
  show "sv_pods (put_pod c k' x s) (pod_key suffix k) = None"
    using assms(4) run_onceD(3) [OF assms(2)] by (cases "k' = pod_key suffix k") (simp_all add: put_pod_def)
qed

context job_operator
begin

lemma writes_once:
  assumes "cs_ok c suffix mine s" "run_once c suffix k s" "map_of (cs_busy s) req = Some (HasPod jo po)"
    "act_step c mine (Writes req) s = Some s'"
  shows "run_once c suffix k s'"
proof -
  note s = cs_okD [OF assms(1)]
  have mem: "(req, HasPod jo po) \<in> set (cs_busy s)" using assms(3) by (rule map_of_SomeD)
  have key: "meta_key (jk_meta (ct_kind c) j) = req" if "jo = Some j" for j
    using workers_okD [OF s(3) mem] that by simp
  have req: "named req" by (rule busy_named [OF s(2) mem])
  have seen: "jo = Some j \<Longrightarrow> req = k \<Longrightarrow> jk_status (ct_kind c) j \<noteq> []"
    "po = Some p \<Longrightarrow> req = k \<Longrightarrow> pod_Phase p \<noteq> []" for j p
  proof -
    assume "jo = Some j" "req = k"
    with mem have "j \<in> jobs_shown c k s" unfolding jobs_shown_def by fastforce
    then show "jk_status (ct_kind c) j \<noteq> []" by (rule run_onceD(1) [OF assms(2)])
  next
    assume "po = Some p" "req = k"
    with mem have "p \<in> pods_shown suffix k s" unfolding pods_shown_def by fastforce
    then show "pod_Phase p \<noteq> []" by (rule run_onceD(2) [OF assms(2)])
  qed
  obtain r s1 where rec: "reconcile_cached c req jo po s = (r, s1)" by fastforce
  have s1: "run_once c suffix k s1"
  proof (rule reconcile_cached_cases [OF rec key])
    assume "s1 = s"
    then show ?thesis using assms(2) by simp
  next
    fix j cur
    assume st: "jo = Some j" "po = Some cur" "s1 = put_job c req (Some (jk_set_status (ct_kind c) (pod_Phase cur) j)) s"
    have "job_change_ok c req (Some (jk_set_status (ct_kind c) (pod_Phase cur) j))"
      using key [OF st(1)] req by (simp add: job_change_ok_def status_meta)
    from job_changes_once [OF assms(1,2) this] seen(2) [OF st(2)] show ?thesis by (simp add: st(3) status_set)
  next
    fix j p
    assume cr: "jo = Some j" "owned_of j = Ok p" "s1 = put_pod c (pod_key suffix req) (Some p) s" "jk_status (ct_kind c) j = []"
    have "req \<noteq> k" using seen(1) [OF cr(1)] cr(4) by blast
    then have "pod_key suffix req \<noteq> pod_key suffix k" by (simp add: pod_key_inj)
    moreover have "meta_key (pod_Meta p) = pod_key suffix req" using created_pod_good [OF cr(2) key [OF cr(1)] req] by blast
    ultimately show ?thesis unfolding cr(3) by (intro pod_changes_once [OF assms(1,2)]) auto
  qed
  show ?thesis
  proof (cases r)
    case (Ok u)
    with assms(3,4) rec have "s' = s1\<lparr>cs_busy := put_worker req Returned (cs_busy s1)\<rparr>" by simp
    then show ?thesis using worker_shown [OF s1, of req Returned] by simp
  next
    case (Err e)
    with assms(3,4) rec have "s' = delay req s1" by simp
    then show ?thesis using delay_shown [OF s1] by simp
  next
    case (Panic m)
    with assms(3,4) rec show ?thesis by simp
  qed
qed

lemma act_once:
  assumes "act_step c mine a s = Some s'" "cs_ok c suffix mine s" "run_once c suffix k s" "pod_key suffix k \<in> mine"
    "keeps_status c k a"
  shows "run_once c suffix k s'"
proof (cases a)
  case (JobChanges k' x)
  with assms(1,5) show ?thesis using job_changes_once [OF assms(2,3), of k' x] by (cases x) (auto split: if_splits)
next
  case (PodChanges k' x)
  with assms(1) have x: "pod_change_ok c mine s k' x" "s' = put_pod c k' x s" by (auto split: if_splits)
  have "x = None" if "k' = pod_key suffix k"
    using x(1) that assms(4) run_onceD(3) [OF assms(3)] by (cases x) (auto simp: pod_change_ok_def)
  moreover have "meta_key (pod_Meta p) = k'" if "x = Some p" for p using x(1) that by (simp add: pod_change_ok_def)
  ultimately show ?thesis unfolding x(2) using pod_changes_once [OF assms(2,3)] by blast
next
  case (Restarts ks)
  with assms(1) have s': "s' = restart c ks s" by (auto split: if_splits)
  show ?thesis unfolding s'
    by (rule run_onceI [OF assms(3)])
      (use restart_shown(1) [where c = c and k = k and ks = ks and s = s] restart_shown(2) [where suffix = suffix and c = c and k = k and ks = ks and s = s] run_onceD(3) [OF assms(3)] in
        \<open>auto simp: restart_fields\<close>)
next
  case JobArrives
  then obtain ev evs where ev: "ev_jobs s = ev # evs" using assms(1) by (cases "ev_jobs s") auto
  show ?thesis
  proof (rule run_onceI [OF assms(3)])
    show "jobs_shown c k s' \<subseteq> jobs_shown c k s \<union> {j. jk_status (ct_kind c) j \<noteq> []}"
      using assms(1) JobArrives ev arrives_shown(1) [OF ev, where c = c and k = k] by auto
    show "pods_shown suffix k s' \<subseteq> pods_shown suffix k s \<union> {p. pod_Phase p \<noteq> []}"
      using assms(1) JobArrives ev by (auto simp: pods_shown_def)
    show "sv_pods s' (pod_key suffix k) = None" using assms(1) JobArrives ev run_onceD(3) [OF assms(3)] by auto
  qed
next
  case PodArrives
  then obtain ev evs where ev: "ev_pods s = ev # evs" using assms(1) by (cases "ev_pods s") auto
  show ?thesis
  proof (rule run_onceI [OF assms(3)])
    show "jobs_shown c k s' \<subseteq> jobs_shown c k s \<union> {j. jk_status (ct_kind c) j \<noteq> []}"
      using assms(1) PodArrives ev by (auto simp: jobs_shown_def)
    show "pods_shown suffix k s' \<subseteq> pods_shown suffix k s \<union> {p. pod_Phase p \<noteq> []}"
      using assms(1) PodArrives ev arrives_shown(2) [OF ev, where suffix = suffix and k = k] by auto
    show "sv_pods s' (pod_key suffix k) = None" using assms(1) PodArrives ev run_onceD(3) [OF assms(3)] by auto
  qed
next
  case (ReadsJob req)
  with assms(1) have s': "s' = s\<lparr>cs_busy := put_worker req (HasJob (ca_jobs s req)) (cs_busy s)\<rparr>"
    by (auto split: option.splits worker.splits)
  show ?thesis unfolding s' by (rule worker_shown [OF assms(3)]) (auto simp: jobs_shown_def)
next
  case (ReadsPod req)
  with assms(1) obtain jo where jo: "map_of (cs_busy s) req = Some (HasJob jo)"
    "s' = s\<lparr>cs_busy := put_worker req (HasPod jo (read_pod c jo s)) (cs_busy s)\<rparr>"
    by (auto split: option.splits worker.splits)
  note mem = map_of_SomeD [OF jo(1)]
  show ?thesis unfolding jo(2)
  proof (rule worker_shown [OF assms(3)])
    assume k: "req = k"
    show "set_option (job_read (HasPod jo (read_pod c jo s))) \<subseteq> jobs_shown c k s"
      using mem k unfolding jobs_shown_def by fastforce
    have "ca_pods s (pod_key suffix k) = Some p" if "read_pod c jo s = Some p" for p
    proof -
      from that obtain j q where j: "jo = Some j" "owned_of j = Ok q" "ca_pods s (meta_key (pod_Meta q)) = Some p"
        by (auto simp: read_pod_def split: option.splits go.splits)
      have "meta_key (jk_meta (ct_kind c) j) = req" using workers_okD [OF cs_okD(3) [OF assms(2)] mem] j(1) by simp
      with owned_pod_key [OF j(2)] j(3) k show ?thesis by simp
    qed
    then show "set_option (pod_read (HasPod jo (read_pod c jo s))) \<subseteq> pods_shown suffix k s"
      by (auto simp: pods_shown_def)
  qed
next
  case (Writes req)
  with assms(1) obtain jo po where "map_of (cs_busy s) req = Some (HasPod jo po)"
    by (auto split: option.splits worker.splits)
  then show ?thesis using writes_once [OF assms(2,3)] assms(1) Writes by blast
next
  case (WriteFails req)
  with assms(1) have "s' = delay req s" by (auto split: option.splits worker.splits)
  then show ?thesis using delay_shown [OF assms(3)] by simp
next
  case (Handles i)
  with assms(1) show ?thesis by (intro queue_shown [OF assms(3)]) (auto split: if_splits)
next
  case Takes
  with assms(1) show ?thesis
    by (intro queue_shown [OF assms(3)]) (auto split: if_splits prod.splits get_result.splits)
next
  case (Finishes req)
  with assms(1) show ?thesis
    by (intro queue_shown [OF assms(3)]) (auto split: if_splits option.splits worker.splits)
next
  case (Retries req)
  with assms(1) show ?thesis by (intro queue_shown [OF assms(3)]) (auto split: if_splits)
qed

lemma acts_once:
  "acts_run c mine as s = Some s' \<Longrightarrow> cs_ok c suffix mine s \<Longrightarrow> run_once c suffix k s \<Longrightarrow> pod_key suffix k \<in> mine \<Longrightarrow>
   list_all (keeps_status c k) as \<Longrightarrow> run_once c suffix k s'"
proof (induction "as" arbitrary: s)
  case (Cons a as)
  then obtain s1 where s1: "act_step c mine a s = Some s1" "acts_run c mine as s1 = Some s'"
    by (cases "act_step c mine a s") auto
  have kept: "keeps_status c k a" "list_all (keeps_status c k) as" using Cons.prems(5) by simp_all
  from Cons.IH [OF s1(2) act_ok [OF s1(1) Cons.prems(2)] act_once [OF s1(1) Cons.prems(2-4) kept(1)] Cons.prems(4) kept(2)]
  show ?case .
qed simp

end

section \<open>Properties\<close>


text \<open>The same for SlurmJobs.\<close>

lemma seen_SlurmJob_not_run_again:
  assumes "cluster_valid (slurm_controller rc ns) ''-job'' mine jobs pods" "dom jobs \<union> dom pods \<subseteq> set ks"
    "acts_run (slurm_controller rc ns) mine as (restart (slurm_controller rc ns) ks (cluster jobs pods)) = Some s"
    "pod_key ''-job'' k \<in> mine" "run_once (slurm_controller rc ns) ''-job'' k s"
    "acts_run (slurm_controller rc ns) mine later s = Some s'" "list_all (keeps_status (slurm_controller rc ns) k) later"
  shows "run_once (slurm_controller rc ns) ''-job'' k s'"
  by (rule slurm_op.acts_once [OF assms(6) slurm_op.acts_ok [OF assms(3) cluster_started [OF assms(1,2)]] assms(5,4,7)])

section \<open>Witness\<close>

text \<open>
  The run of \<open>stale_job_cache_runs_job_twice\<close>, but with the status of the job in the cache before the
  pod's deletion is handled.
\<close>

definition lolcow_seen :: "reconciler \<Rightarrow> unit wlm_job cached_state" where
  "lolcow_seen rc =
     (lolcow_state rc ''Succeeded'' None (Some (lolcow_pod rc ''Succeeded'')) [] [Deleted (lolcow_pod rc ''Succeeded'')]
        [JobEvent (UpdateEvent (Some (wj_Meta (example_job []))) (Some (wj_Meta (example_job ''Succeeded''))))])
       \<lparr>ca_jobs := [lolcow_key \<mapsto> example_job ''Succeeded'']\<rparr>"

lemma lolcow_seen_run:
  "acts_run (wlm_controller rc ''default'') lolcow_pods (success_run rc @ [JobArrives])
      (restart (wlm_controller rc ''default'') [lolcow_key] (cluster [lolcow_key \<mapsto> example_job []] Map.empty)) =
    Some (lolcow_seen rc)"
  by (rule acts_run_then [OF lolcow_success_run])
    (simp add: lolcow_seen_def lolcow_state_def example_job_simps lolcow_key_def)

lemma lolcow_seen_status: "status_seen (wlm_controller rc ''default'') ''-wlm-job'' lolcow_key (lolcow_seen rc)"
  by (auto simp: status_seen_def jobs_shown_def pods_shown_def lolcow_seen_def lolcow_state_def example_job_simps
      lolcow_pod_simps split: if_splits)

lemma lolcow_seen_later:
  "\<exists>s. acts_run (wlm_controller rc ''default'') lolcow_pods ([PodArrives, Handles 0, Handles 0] @ reconciles) (lolcow_seen rc) =
    Some s"
proof -
  have request: "object_request (Some (wj_Meta (example_job status))) = [lolcow_key]" for status
    using example_job_simps(2) [of status] by (simp add: object_request_def lolcow_key_def meta_key_def)
  have meta: "wj_Meta (example_job status) = wj_Meta (example_job [])" for status
    by (simp add: example_job_def)
  have pod: "wj_pod rc (example_job status) None = wj_pod rc (example_job []) None" for status
    by (simp add: wj_pod_def nodeSelectorForWj_def example_job_def)
  have new: "newPodForWJ rc (example_job status) = Ok (wj_pod rc (example_job []) None)" for status
    using example_new_pod(1) [of rc] pod [of status]
    by (simp add: newPodForWJ_def AffinityForResources_def node_match_def no_resources_def example_job_simps)
  have owned: "owned_pod wlm_job_kind rc (Ok (wlm_kind ''WlmJob'')) (example_job status) = Ok (lolcow_pod rc [])" for status
    using example_owned [of rc] new [of status] new [of "[]"] meta [of status] by (simp add: owned_pod_def wlm_job_kind_def)
  show ?thesis
    by (simp add: lolcow_seen_def lolcow_steps request meta [of "''Succeeded''"] new owned Let_def)
qed


end
