(* ===== verification/Job_Progress.thy ===== *)
theory Job_Progress
  imports Operator
begin

text \<open>
  A new job gets its pod: when the cluster leaves the operator of \<open>Operator\<close> alone, the pod of a job
  without a status exists after a bounded number of its steps, in every schedule.
\<close>

text \<open>The pod exists, or the job still waits for it.\<close>

definition pod_or_waiting :: "'j controller \<Rightarrow> string \<Rightarrow> obj_key \<Rightarrow> 'j api_world \<Rightarrow> bool" where
  "pod_or_waiting c suffix k w \<longleftrightarrow>
     world_pods w (pod_key suffix k) \<noteq> None \<or>
     (\<exists>j. world_jobs (jk_meta (ct_kind c)) w k = Some j \<and> jk_status (ct_kind c) j = [])"

context job_operator
begin

lemma own_step_waiting:
  assumes "op_step c mine True s s'" "op_ok c suffix mine s" "pod_or_waiting c suffix k (op_world s)"
  shows "pod_or_waiting c suffix k (op_world s')"
  using assms(1)
proof cases
  case (reconciled req)
  note s = op_okD [OF assms(2)]
  have req: "named req" using s(3) reconciled(1) by (force simp: requests_named_def)
  obtain r w' where rec: "reconcile_at req (op_world s) = (r, w')"
    and s': "s' = (observe c w' s)\<lparr>op_busy := set_busy req (op_busy s), op_delayed := op_delayed s'\<rparr>"
    using reconcile_itemD [OF reconciled(2)] by blast
  have w': "op_world s' = w'" by (subst s', simp add: observe_def)
  show ?thesis unfolding w'
  proof (rule reconcile_cases [OF s(1) req rec])
    fix j cur
    assume "world_pods (op_world s) (pod_key suffix req) = Some cur"
      "jobs_of w' = (jobs_of (op_world s))(req \<mapsto> jk_set_status (ct_kind c) (pod_Phase cur) j)"
      "world_pods w' = world_pods (op_world s)"
    with assms(3) show "pod_or_waiting c suffix k w'" by (cases "k = req") (simp_all add: pod_or_waiting_def)
  qed (use assms(3) in \<open>auto simp: pod_or_waiting_def\<close>)
qed (use assms(3) in \<open>auto simp: deliver_event_def finish_item_def retry_item_def start_item_def
  split: if_splits prod.splits get_result.splits\<close>)

lemma own_run_waiting:
  "own_run c mine n s s' \<Longrightarrow> op_ok c suffix mine s \<Longrightarrow> pod_or_waiting c suffix k (op_world s) \<Longrightarrow>
   pod_or_waiting c suffix k (op_world s')"
proof (induction rule: own_run.induct)
  case (own_step n s s' s'')
  then show ?case using own_step_waiting [OF own_step(2) own_run_ok [OF own_step(1) own_step(4)]] by simp
qed simp

lemma new_job_gets_pod:
  assumes "op_ok c suffix mine s" "all_translatable c (op_world s)" "own_run c mine n s s'"
    "responsible c suffix mine k" "jobs_of (op_world s) k = Some j" "jk_status (ct_kind c) j = []"
  shows "n \<le> op_work c suffix s \<and>
    ((\<nexists>s''. op_step c mine True s' s'') \<longrightarrow> world_pods (op_world s') (pod_key suffix k) \<noteq> None)"
proof -
  note rest = settles [OF assms(1-3)]
  have wait: "pod_or_waiting c suffix k (op_world s')"
    by (rule own_run_waiting [OF assms(3,1)]) (use assms(5,6) in \<open>simp add: pod_or_waiting_def\<close>)
  have "world_pods (op_world s') (pod_key suffix k) \<noteq> None" if "\<nexists>s''. op_step c mine True s' s''"
  proof -
    have "job_in_sync c suffix (op_world s') k" using rest that assms(4) by blast
    with wait show ?thesis by (auto simp: pod_or_waiting_def job_in_sync_def in_sync_def split: option.splits)
  qed
  with rest show ?thesis by blast
qed

text \<open>Some schedule ends.\<close>

lemma reaches_end:
  "op_ok c suffix mine s \<Longrightarrow> all_translatable c (op_world s) \<Longrightarrow> own_run c mine n s0 s \<Longrightarrow>
   \<exists>m s'. own_run c mine m s0 s' \<and> (\<nexists>s''. op_step c mine True s' s'')"
proof (induction "op_work c suffix s" arbitrary: s n rule: less_induct)
  case less
  show ?case
  proof (cases "\<exists>s'. op_step c mine True s s'")
    case True
    then obtain s' where s': "op_step c mine True s s'" by blast
    from own_step_work [OF this less.prems(1,2)] step_ok [OF this less.prems(1)] own_run.own_step [OF less.prems(3) this]
    show ?thesis using less.hyps [of s' "Suc n"] by blast
  qed (use less.prems in blast)
qed

end

section \<open>Properties\<close>

text \<open>
  C3. A new WlmJob gets its pod: from any reachable state with a job that has no status, when every
  WlmJob can be translated and the cluster leaves the operator alone, the operator takes a bounded
  number of steps, and when it can take no more the pod of the job exists, in every schedule.
\<close>

theorem new_WlmJob_gets_pod:
  assumes "cluster_ready (wlm_controller rc ns) ''-wlm-job'' mine w"
    "op_run (wlm_controller rc ns) mine (boot (wlm_controller rc ns) w) s"
    "all_translatable (wlm_controller rc ns) (op_world s)" "own_run (wlm_controller rc ns) mine n s s'"
    "pod_key ''-wlm-job'' k \<in> mine" "ns = [] \<or> fst k = ns"
    "world_jobs wj_Meta (op_world s) k = Some j" "wjst_Status (wj_Status j) = []"
  shows "n \<le> op_work (wlm_controller rc ns) ''-wlm-job'' s \<and>
    ((\<nexists>s''. op_step (wlm_controller rc ns) mine True s' s'') \<longrightarrow>
       world_pods (op_world s') (pod_key ''-wlm-job'' k) \<noteq> None)"
  using wlm_op.new_job_gets_pod [OF wlm_op.run_ok [OF assms(2) boot_ok [OF assms(1)]] assms(3,4)] assms(5-8)
  by (simp add: responsible_def)

theorem new_WlmJob_gets_pod_witness:
  "\<exists>n s. own_run (wlm_controller example_rc ''default'') lolcow_pods n
      (boot (wlm_controller example_rc ''default'') (example_world [] [])) s \<and>
    world_pods (op_world s) (''default'', ''lolcow-wlm-job'') \<noteq> None"
proof -
  let ?c = "wlm_controller example_rc ''default''" and ?k = "(''default'', ''lolcow'')"
  let ?s0 = "boot ?c (example_world [] [])"
  have world: "op_world ?s0 = example_world [] []" by (simp add: boot_def)
  note ok = boot_ok [OF example_world_ready]
  have tr: "all_translatable ?c (op_world ?s0)" using example_world_translatable world by simp
  have job: "world_jobs wj_Meta (op_world ?s0) ?k = Some (example_job [])" by (simp add: world example_world_view)
  have key: "pod_key ''-wlm-job'' ?k = (''default'', ''lolcow-wlm-job'')" by (simp add: pod_key_def)
  have mine: "pod_key ''-wlm-job'' ?k \<in> lolcow_pods" by (simp add: key lolcow_pods_def)
  obtain n s where s: "own_run ?c lolcow_pods n ?s0 s" "\<nexists>s''. op_step ?c lolcow_pods True s s''"
    using wlm_op.reaches_end [OF ok tr own_run.no_step] by blast
  have "world_pods (op_world s) (pod_key ''-wlm-job'' ?k) \<noteq> None"
    using new_WlmJob_gets_pod [OF example_world_ready op_run.started_run tr s(1) mine _ job] s(2)
    by (simp add: example_job_simps)
  with s(1) show ?thesis unfolding key by blast
qed

end
