(* ===== verification/Pb_Messages.thy ===== *)
theory Pb_Messages
  imports Workload_Api
begin

text \<open>
  What \<open>pkg/workload/api/workload.pb.go\<close> generates for each message: its zero value (\<open>Reset\<close>, and
  \<open>new\<close> in the stubs) and its accessors, which read a nil message as the zero value; and the union
  of the messages, the \<open>interface{}\<close> of the stubs. The internal \<open>XXX_\<close> methods only call the runtime.
\<close>

section \<open>Zero values\<close>

definition zero_submit_job_request :: submit_job_request where
  "zero_submit_job_request = \<lparr>sjr_Script = [], sjr_Partition = [], sjr_ClientId = []\<rparr>"

definition zero_submit_job_response :: submit_job_response where
  "zero_submit_job_response = \<lparr>sjp_JobId = 0\<rparr>"

definition zero_submit_job_container_request :: submit_job_container_request where
  "zero_submit_job_container_request =
     \<lparr>sjc_ImageName = [], sjc_Nodes = 0, sjc_CpuPerNode = 0, sjc_MemPerNode = 0, sjc_WallTime = 0,
      sjc_Partition = [], sjc_ClientId = [], sjc_Options = None\<rparr>"

definition zero_submit_job_container_response :: submit_job_container_response where
  "zero_submit_job_container_response = \<lparr>scp_JobId = 0\<rparr>"

definition zero_cancel_job_request :: cancel_job_request where
  "zero_cancel_job_request = \<lparr>cjr_JobId = 0\<rparr>"

definition zero_job_info_request :: job_info_request where
  "zero_job_info_request = \<lparr>jir_JobId = 0\<rparr>"

definition zero_job_info_response :: job_info_response where
  "zero_job_info_response = \<lparr>jip_Info = []\<rparr>"

definition zero_job_steps_request :: job_steps_request where
  "zero_job_steps_request = \<lparr>jsr_JobId = 0\<rparr>"

definition zero_job_steps_response :: job_steps_response where
  "zero_job_steps_response = \<lparr>jsp_JobSteps = []\<rparr>"

definition zero_zip_request :: zip_request where
  "zero_zip_request = \<lparr>zr_Path = [], zr_Target = []\<rparr>"

definition zero_unzip_request :: unzip_request where
  "zero_unzip_request = \<lparr>uzr_Source = [], uzr_Path = []\<rparr>"

definition zero_resources_request :: resources_request where
  "zero_resources_request = \<lparr>rr_Partition = []\<rparr>"

definition zero_resources_response :: resources_response where
  "zero_resources_response = \<lparr>rp_Nodes = 0, rp_CpuPerNode = 0, rp_MemPerNode = 0, rp_WallTime = 0, rp_Features = []\<rparr>"

definition zero_partitions_response :: partitions_response where
  "zero_partitions_response = \<lparr>pp_Partition = []\<rparr>"

definition zero_workload_info_response :: workload_info_response where
  "zero_workload_info_response = \<lparr>wip_Name = [], wip_Version = [], wip_Uid = 0\<rparr>"

definition zero_open_file_request :: open_file_request where
  "zero_open_file_request = \<lparr>ofr_Path = []\<rparr>"

definition zero_chunk :: chunk where
  "zero_chunk = \<lparr>ch_Content = []\<rparr>"

definition zero_tail_file_request :: tail_file_request where
  "zero_tail_file_request = \<lparr>tfr_Action = 0, tfr_Path = []\<rparr>"

definition zero_create_file_request :: create_file_request where
  "zero_create_file_request = \<lparr>cfr_Path = [], cfr_Content = None\<rparr>"

definition zero_pb_singularity_options :: pb_singularity_options where
  "zero_pb_singularity_options =
     \<lparr>pso_App = [], pso_AllowUnsigned = False, pso_Binds = [], pso_ClearEnv = False,
      pso_FakeRoot = False, pso_HostName = [], pso_Ipc = False, pso_Pid = False, pso_NoPrivs = False,
      pso_Writable = False\<rparr>"

definition zero_pb_job_info :: pb_job_info where
  "zero_pb_job_info =
     \<lparr>pji_Id = [], pji_UserId = [], pji_Name = [], pji_ExitCode = [], pji_Status = 0,
      pji_SubmitTime = None, pji_StartTime = None, pji_RunTime = None, pji_TimeLimit = None,
      pji_WorkingDir = [], pji_StdOut = [], pji_StdErr = [], pji_Partition = [], pji_NodeList = [],
      pji_BatchHost = [], pji_NumNodes = [], pji_ArrayId = []\<rparr>"

definition zero_pb_job_step :: pb_job_step where
  "zero_pb_job_step =
     \<lparr>pjs_Id = [], pjs_Name = [], pjs_ExitCode = 0, pjs_Status = 0, pjs_StartTime = None,
      pjs_EndTime = None\<rparr>"

definition zero_pb_feature :: pb_feature where
  "zero_pb_feature = \<lparr>pf_Name = [], pf_Version = [], pf_Quantity = 0\<rparr>"

section \<open>Messages of any type\<close>

datatype pb_message =
    PbSubmitJobRequest submit_job_request
  | PbSubmitJobResponse submit_job_response
  | PbSubmitJobContainerRequest submit_job_container_request
  | PbSubmitJobContainerResponse submit_job_container_response
  | PbCancelJobRequest cancel_job_request
  | PbCancelJobResponse
  | PbJobInfoRequest job_info_request
  | PbJobInfoResponse job_info_response
  | PbJobStepsRequest job_steps_request
  | PbJobStepsResponse job_steps_response
  | PbZipRequest zip_request
  | PbZipResponse
  | PbUnzipRequest unzip_request
  | PbUnzipResponse
  | PbResourcesRequest resources_request
  | PbResourcesResponse resources_response
  | PbPartitionsRequest
  | PbPartitionsResponse partitions_response
  | PbWorkloadInfoRequest
  | PbWorkloadInfoResponse workload_info_response
  | PbOpenFileRequest open_file_request
  | PbChunk chunk
  | PbTailFileRequest tail_file_request
  | PbCreateFileRequest create_file_request
  | PbCreateFileResponse

text \<open>The type of a message, by its zero value.\<close>

fun pb_new :: "pb_message \<Rightarrow> pb_message" where
  "pb_new (PbSubmitJobRequest m) = PbSubmitJobRequest zero_submit_job_request"
| "pb_new (PbSubmitJobResponse m) = PbSubmitJobResponse zero_submit_job_response"
| "pb_new (PbSubmitJobContainerRequest m) = PbSubmitJobContainerRequest zero_submit_job_container_request"
| "pb_new (PbSubmitJobContainerResponse m) = PbSubmitJobContainerResponse zero_submit_job_container_response"
| "pb_new (PbCancelJobRequest m) = PbCancelJobRequest zero_cancel_job_request"
| "pb_new PbCancelJobResponse = PbCancelJobResponse"
| "pb_new (PbJobInfoRequest m) = PbJobInfoRequest zero_job_info_request"
| "pb_new (PbJobInfoResponse m) = PbJobInfoResponse zero_job_info_response"
| "pb_new (PbJobStepsRequest m) = PbJobStepsRequest zero_job_steps_request"
| "pb_new (PbJobStepsResponse m) = PbJobStepsResponse zero_job_steps_response"
| "pb_new (PbZipRequest m) = PbZipRequest zero_zip_request"
| "pb_new PbZipResponse = PbZipResponse"
| "pb_new (PbUnzipRequest m) = PbUnzipRequest zero_unzip_request"
| "pb_new PbUnzipResponse = PbUnzipResponse"
| "pb_new (PbResourcesRequest m) = PbResourcesRequest zero_resources_request"
| "pb_new (PbResourcesResponse m) = PbResourcesResponse zero_resources_response"
| "pb_new PbPartitionsRequest = PbPartitionsRequest"
| "pb_new (PbPartitionsResponse m) = PbPartitionsResponse zero_partitions_response"
| "pb_new PbWorkloadInfoRequest = PbWorkloadInfoRequest"
| "pb_new (PbWorkloadInfoResponse m) = PbWorkloadInfoResponse zero_workload_info_response"
| "pb_new (PbOpenFileRequest m) = PbOpenFileRequest zero_open_file_request"
| "pb_new (PbChunk m) = PbChunk zero_chunk"
| "pb_new (PbTailFileRequest m) = PbTailFileRequest zero_tail_file_request"
| "pb_new (PbCreateFileRequest m) = PbCreateFileRequest zero_create_file_request"
| "pb_new PbCreateFileResponse = PbCreateFileResponse"

section \<open>Accessors\<close>

definition JobStatus_COMPLETED :: int32 where "JobStatus_COMPLETED = 0"

text \<open>\<open>if m != nil { return m.F }; return zero\<close>\<close>

definition pb_get :: "'b \<Rightarrow> ('a \<Rightarrow> 'b) \<Rightarrow> 'a option \<Rightarrow> 'b" where
  "pb_get zero field m = (case m of Some r \<Rightarrow> field r | None \<Rightarrow> zero)"

definition SubmitJobRequest_GetScript :: "submit_job_request option \<Rightarrow> string" where
  "SubmitJobRequest_GetScript = pb_get [] sjr_Script"

definition SubmitJobRequest_GetPartition :: "submit_job_request option \<Rightarrow> string" where
  "SubmitJobRequest_GetPartition = pb_get [] sjr_Partition"

definition SubmitJobRequest_GetClientId :: "submit_job_request option \<Rightarrow> string" where
  "SubmitJobRequest_GetClientId = pb_get [] sjr_ClientId"

definition SubmitJobResponse_GetJobId :: "submit_job_response option \<Rightarrow> int64" where
  "SubmitJobResponse_GetJobId = pb_get 0 sjp_JobId"

definition SubmitJobContainerRequest_GetImageName :: "submit_job_container_request option \<Rightarrow> string" where
  "SubmitJobContainerRequest_GetImageName = pb_get [] sjc_ImageName"

definition SubmitJobContainerRequest_GetNodes :: "submit_job_container_request option \<Rightarrow> int64" where
  "SubmitJobContainerRequest_GetNodes = pb_get 0 sjc_Nodes"

definition SubmitJobContainerRequest_GetCpuPerNode :: "submit_job_container_request option \<Rightarrow> int64" where
  "SubmitJobContainerRequest_GetCpuPerNode = pb_get 0 sjc_CpuPerNode"

definition SubmitJobContainerRequest_GetMemPerNode :: "submit_job_container_request option \<Rightarrow> int64" where
  "SubmitJobContainerRequest_GetMemPerNode = pb_get 0 sjc_MemPerNode"

definition SubmitJobContainerRequest_GetWallTime :: "submit_job_container_request option \<Rightarrow> int64" where
  "SubmitJobContainerRequest_GetWallTime = pb_get 0 sjc_WallTime"

definition SubmitJobContainerRequest_GetPartition :: "submit_job_container_request option \<Rightarrow> string" where
  "SubmitJobContainerRequest_GetPartition = pb_get [] sjc_Partition"

definition SubmitJobContainerRequest_GetClientId :: "submit_job_container_request option \<Rightarrow> string" where
  "SubmitJobContainerRequest_GetClientId = pb_get [] sjc_ClientId"

definition SubmitJobContainerRequest_GetOptions :: "submit_job_container_request option \<Rightarrow> pb_singularity_options option" where
  "SubmitJobContainerRequest_GetOptions = pb_get None sjc_Options"

definition SubmitJobContainerResponse_GetJobId :: "submit_job_container_response option \<Rightarrow> int64" where
  "SubmitJobContainerResponse_GetJobId = pb_get 0 scp_JobId"

definition CancelJobRequest_GetJobId :: "cancel_job_request option \<Rightarrow> int64" where
  "CancelJobRequest_GetJobId = pb_get 0 cjr_JobId"

definition JobInfoRequest_GetJobId :: "job_info_request option \<Rightarrow> int64" where
  "JobInfoRequest_GetJobId = pb_get 0 jir_JobId"

definition JobInfoResponse_GetInfo :: "job_info_response option \<Rightarrow> pb_job_info list" where
  "JobInfoResponse_GetInfo = pb_get [] jip_Info"

definition JobStepsRequest_GetJobId :: "job_steps_request option \<Rightarrow> int64" where
  "JobStepsRequest_GetJobId = pb_get 0 jsr_JobId"

definition JobStepsResponse_GetJobSteps :: "job_steps_response option \<Rightarrow> pb_job_step list" where
  "JobStepsResponse_GetJobSteps = pb_get [] jsp_JobSteps"

definition ZipRequest_GetPath :: "zip_request option \<Rightarrow> string" where
  "ZipRequest_GetPath = pb_get [] zr_Path"

definition ZipRequest_GetTarget :: "zip_request option \<Rightarrow> string" where
  "ZipRequest_GetTarget = pb_get [] zr_Target"

definition UnzipRequest_GetSource :: "unzip_request option \<Rightarrow> string" where
  "UnzipRequest_GetSource = pb_get [] uzr_Source"

definition UnzipRequest_GetPath :: "unzip_request option \<Rightarrow> string" where
  "UnzipRequest_GetPath = pb_get [] uzr_Path"

definition ResourcesRequest_GetPartition :: "resources_request option \<Rightarrow> string" where
  "ResourcesRequest_GetPartition = pb_get [] rr_Partition"

definition ResourcesResponse_GetNodes :: "resources_response option \<Rightarrow> int64" where
  "ResourcesResponse_GetNodes = pb_get 0 rp_Nodes"

definition ResourcesResponse_GetCpuPerNode :: "resources_response option \<Rightarrow> int64" where
  "ResourcesResponse_GetCpuPerNode = pb_get 0 rp_CpuPerNode"

definition ResourcesResponse_GetMemPerNode :: "resources_response option \<Rightarrow> int64" where
  "ResourcesResponse_GetMemPerNode = pb_get 0 rp_MemPerNode"

definition ResourcesResponse_GetWallTime :: "resources_response option \<Rightarrow> int64" where
  "ResourcesResponse_GetWallTime = pb_get 0 rp_WallTime"

definition ResourcesResponse_GetFeatures :: "resources_response option \<Rightarrow> pb_feature list" where
  "ResourcesResponse_GetFeatures = pb_get [] rp_Features"

definition PartitionsResponse_GetPartition :: "partitions_response option \<Rightarrow> string list" where
  "PartitionsResponse_GetPartition = pb_get [] pp_Partition"

definition WorkloadInfoResponse_GetName :: "workload_info_response option \<Rightarrow> string" where
  "WorkloadInfoResponse_GetName = pb_get [] wip_Name"

definition WorkloadInfoResponse_GetVersion :: "workload_info_response option \<Rightarrow> string" where
  "WorkloadInfoResponse_GetVersion = pb_get [] wip_Version"

definition WorkloadInfoResponse_GetUid :: "workload_info_response option \<Rightarrow> int64" where
  "WorkloadInfoResponse_GetUid = pb_get 0 wip_Uid"

definition OpenFileRequest_GetPath :: "open_file_request option \<Rightarrow> string" where
  "OpenFileRequest_GetPath = pb_get [] ofr_Path"

definition Chunk_GetContent :: "chunk option \<Rightarrow> string" where
  "Chunk_GetContent = pb_get [] ch_Content"

definition TailFileRequest_GetAction :: "tail_file_request option \<Rightarrow> int32" where
  "TailFileRequest_GetAction = pb_get TailAction_Start tfr_Action"

definition TailFileRequest_GetPath :: "tail_file_request option \<Rightarrow> string" where
  "TailFileRequest_GetPath = pb_get [] tfr_Path"

definition CreateFileRequest_GetPath :: "create_file_request option \<Rightarrow> string" where
  "CreateFileRequest_GetPath = pb_get [] cfr_Path"

definition CreateFileRequest_GetContent :: "create_file_request option \<Rightarrow> string option" where
  "CreateFileRequest_GetContent = pb_get None cfr_Content"

definition SingularityOptions_GetApp :: "pb_singularity_options option \<Rightarrow> string" where
  "SingularityOptions_GetApp = pb_get [] pso_App"

definition SingularityOptions_GetAllowUnsigned :: "pb_singularity_options option \<Rightarrow> bool" where
  "SingularityOptions_GetAllowUnsigned = pb_get False pso_AllowUnsigned"

definition SingularityOptions_GetBinds :: "pb_singularity_options option \<Rightarrow> string list" where
  "SingularityOptions_GetBinds = pb_get [] pso_Binds"

definition SingularityOptions_GetClearEnv :: "pb_singularity_options option \<Rightarrow> bool" where
  "SingularityOptions_GetClearEnv = pb_get False pso_ClearEnv"

definition SingularityOptions_GetFakeRoot :: "pb_singularity_options option \<Rightarrow> bool" where
  "SingularityOptions_GetFakeRoot = pb_get False pso_FakeRoot"

definition SingularityOptions_GetHostName :: "pb_singularity_options option \<Rightarrow> string" where
  "SingularityOptions_GetHostName = pb_get [] pso_HostName"

definition SingularityOptions_GetIpc :: "pb_singularity_options option \<Rightarrow> bool" where
  "SingularityOptions_GetIpc = pb_get False pso_Ipc"

definition SingularityOptions_GetPid :: "pb_singularity_options option \<Rightarrow> bool" where
  "SingularityOptions_GetPid = pb_get False pso_Pid"

definition SingularityOptions_GetNoPrivs :: "pb_singularity_options option \<Rightarrow> bool" where
  "SingularityOptions_GetNoPrivs = pb_get False pso_NoPrivs"

definition SingularityOptions_GetWritable :: "pb_singularity_options option \<Rightarrow> bool" where
  "SingularityOptions_GetWritable = pb_get False pso_Writable"

definition JobInfo_GetId :: "pb_job_info option \<Rightarrow> string" where
  "JobInfo_GetId = pb_get [] pji_Id"

definition JobInfo_GetUserId :: "pb_job_info option \<Rightarrow> string" where
  "JobInfo_GetUserId = pb_get [] pji_UserId"

definition JobInfo_GetName :: "pb_job_info option \<Rightarrow> string" where
  "JobInfo_GetName = pb_get [] pji_Name"

definition JobInfo_GetExitCode :: "pb_job_info option \<Rightarrow> string" where
  "JobInfo_GetExitCode = pb_get [] pji_ExitCode"

definition JobInfo_GetStatus :: "pb_job_info option \<Rightarrow> int32" where
  "JobInfo_GetStatus = pb_get JobStatus_COMPLETED pji_Status"

definition JobInfo_GetSubmitTime :: "pb_job_info option \<Rightarrow> timestamp option" where
  "JobInfo_GetSubmitTime = pb_get None pji_SubmitTime"

definition JobInfo_GetStartTime :: "pb_job_info option \<Rightarrow> timestamp option" where
  "JobInfo_GetStartTime = pb_get None pji_StartTime"

definition JobInfo_GetRunTime :: "pb_job_info option \<Rightarrow> proto_duration option" where
  "JobInfo_GetRunTime = pb_get None pji_RunTime"

definition JobInfo_GetTimeLimit :: "pb_job_info option \<Rightarrow> proto_duration option" where
  "JobInfo_GetTimeLimit = pb_get None pji_TimeLimit"

definition JobInfo_GetWorkingDir :: "pb_job_info option \<Rightarrow> string" where
  "JobInfo_GetWorkingDir = pb_get [] pji_WorkingDir"

definition JobInfo_GetStdOut :: "pb_job_info option \<Rightarrow> string" where
  "JobInfo_GetStdOut = pb_get [] pji_StdOut"

definition JobInfo_GetStdErr :: "pb_job_info option \<Rightarrow> string" where
  "JobInfo_GetStdErr = pb_get [] pji_StdErr"

definition JobInfo_GetPartition :: "pb_job_info option \<Rightarrow> string" where
  "JobInfo_GetPartition = pb_get [] pji_Partition"

definition JobInfo_GetNodeList :: "pb_job_info option \<Rightarrow> string" where
  "JobInfo_GetNodeList = pb_get [] pji_NodeList"

definition JobInfo_GetBatchHost :: "pb_job_info option \<Rightarrow> string" where
  "JobInfo_GetBatchHost = pb_get [] pji_BatchHost"

definition JobInfo_GetNumNodes :: "pb_job_info option \<Rightarrow> string" where
  "JobInfo_GetNumNodes = pb_get [] pji_NumNodes"

definition JobInfo_GetArrayId :: "pb_job_info option \<Rightarrow> string" where
  "JobInfo_GetArrayId = pb_get [] pji_ArrayId"

definition JobStepInfo_GetId :: "pb_job_step option \<Rightarrow> string" where
  "JobStepInfo_GetId = pb_get [] pjs_Id"

definition JobStepInfo_GetName :: "pb_job_step option \<Rightarrow> string" where
  "JobStepInfo_GetName = pb_get [] pjs_Name"

definition JobStepInfo_GetExitCode :: "pb_job_step option \<Rightarrow> int32" where
  "JobStepInfo_GetExitCode = pb_get 0 pjs_ExitCode"

definition JobStepInfo_GetStatus :: "pb_job_step option \<Rightarrow> int32" where
  "JobStepInfo_GetStatus = pb_get JobStatus_COMPLETED pjs_Status"

definition JobStepInfo_GetStartTime :: "pb_job_step option \<Rightarrow> timestamp option" where
  "JobStepInfo_GetStartTime = pb_get None pjs_StartTime"

definition JobStepInfo_GetEndTime :: "pb_job_step option \<Rightarrow> timestamp option" where
  "JobStepInfo_GetEndTime = pb_get None pjs_EndTime"

definition Feature_GetName :: "pb_feature option \<Rightarrow> string" where
  "Feature_GetName = pb_get [] pf_Name"

definition Feature_GetVersion :: "pb_feature option \<Rightarrow> string" where
  "Feature_GetVersion = pb_get [] pf_Version"

definition Feature_GetQuantity :: "pb_feature option \<Rightarrow> int64" where
  "Feature_GetQuantity = pb_get 0 pf_Quantity"

lemmas pb_getters =
  SubmitJobRequest_GetScript_def SubmitJobRequest_GetPartition_def SubmitJobRequest_GetClientId_def
  SubmitJobResponse_GetJobId_def SubmitJobContainerRequest_GetImageName_def
  SubmitJobContainerRequest_GetNodes_def SubmitJobContainerRequest_GetCpuPerNode_def
  SubmitJobContainerRequest_GetMemPerNode_def SubmitJobContainerRequest_GetWallTime_def
  SubmitJobContainerRequest_GetPartition_def SubmitJobContainerRequest_GetClientId_def
  SubmitJobContainerRequest_GetOptions_def SubmitJobContainerResponse_GetJobId_def
  CancelJobRequest_GetJobId_def JobInfoRequest_GetJobId_def JobInfoResponse_GetInfo_def
  JobStepsRequest_GetJobId_def JobStepsResponse_GetJobSteps_def ZipRequest_GetPath_def
  ZipRequest_GetTarget_def UnzipRequest_GetSource_def UnzipRequest_GetPath_def
  ResourcesRequest_GetPartition_def ResourcesResponse_GetNodes_def ResourcesResponse_GetCpuPerNode_def
  ResourcesResponse_GetMemPerNode_def ResourcesResponse_GetWallTime_def ResourcesResponse_GetFeatures_def
  PartitionsResponse_GetPartition_def WorkloadInfoResponse_GetName_def WorkloadInfoResponse_GetVersion_def
  WorkloadInfoResponse_GetUid_def OpenFileRequest_GetPath_def Chunk_GetContent_def
  TailFileRequest_GetAction_def TailFileRequest_GetPath_def CreateFileRequest_GetPath_def
  CreateFileRequest_GetContent_def SingularityOptions_GetApp_def SingularityOptions_GetAllowUnsigned_def
  SingularityOptions_GetBinds_def SingularityOptions_GetClearEnv_def SingularityOptions_GetFakeRoot_def
  SingularityOptions_GetHostName_def SingularityOptions_GetIpc_def SingularityOptions_GetPid_def
  SingularityOptions_GetNoPrivs_def SingularityOptions_GetWritable_def JobInfo_GetId_def
  JobInfo_GetUserId_def JobInfo_GetName_def JobInfo_GetExitCode_def JobInfo_GetStatus_def
  JobInfo_GetSubmitTime_def JobInfo_GetStartTime_def JobInfo_GetRunTime_def JobInfo_GetTimeLimit_def
  JobInfo_GetWorkingDir_def JobInfo_GetStdOut_def JobInfo_GetStdErr_def JobInfo_GetPartition_def
  JobInfo_GetNodeList_def JobInfo_GetBatchHost_def JobInfo_GetNumNodes_def JobInfo_GetArrayId_def
  JobStepInfo_GetId_def JobStepInfo_GetName_def JobStepInfo_GetExitCode_def JobStepInfo_GetStatus_def
  JobStepInfo_GetStartTime_def JobStepInfo_GetEndTime_def Feature_GetName_def Feature_GetVersion_def
  Feature_GetQuantity_def

lemmas pb_zeros =
  zero_submit_job_request_def zero_submit_job_response_def zero_submit_job_container_request_def
  zero_submit_job_container_response_def zero_cancel_job_request_def zero_job_info_request_def
  zero_job_info_response_def zero_job_steps_request_def zero_job_steps_response_def zero_zip_request_def
  zero_unzip_request_def zero_resources_request_def zero_resources_response_def
  zero_partitions_response_def zero_workload_info_response_def zero_open_file_request_def zero_chunk_def
  zero_tail_file_request_def zero_create_file_request_def zero_pb_singularity_options_def
  zero_pb_job_info_def zero_pb_job_step_def zero_pb_feature_def

text \<open>A nil message reads as the message with nothing set.\<close>

lemma nil_reads_as_zero:
  "SubmitJobRequest_GetScript None = SubmitJobRequest_GetScript (Some zero_submit_job_request)"
  "SubmitJobRequest_GetPartition None = SubmitJobRequest_GetPartition (Some zero_submit_job_request)"
  "SubmitJobRequest_GetClientId None = SubmitJobRequest_GetClientId (Some zero_submit_job_request)"
  "SubmitJobResponse_GetJobId None = SubmitJobResponse_GetJobId (Some zero_submit_job_response)"
  "SubmitJobContainerRequest_GetImageName None = SubmitJobContainerRequest_GetImageName (Some zero_submit_job_container_request)"
  "SubmitJobContainerRequest_GetNodes None = SubmitJobContainerRequest_GetNodes (Some zero_submit_job_container_request)"
  "SubmitJobContainerRequest_GetCpuPerNode None = SubmitJobContainerRequest_GetCpuPerNode (Some zero_submit_job_container_request)"
  "SubmitJobContainerRequest_GetMemPerNode None = SubmitJobContainerRequest_GetMemPerNode (Some zero_submit_job_container_request)"
  "SubmitJobContainerRequest_GetWallTime None = SubmitJobContainerRequest_GetWallTime (Some zero_submit_job_container_request)"
  "SubmitJobContainerRequest_GetPartition None = SubmitJobContainerRequest_GetPartition (Some zero_submit_job_container_request)"
  "SubmitJobContainerRequest_GetClientId None = SubmitJobContainerRequest_GetClientId (Some zero_submit_job_container_request)"
  "SubmitJobContainerRequest_GetOptions None = SubmitJobContainerRequest_GetOptions (Some zero_submit_job_container_request)"
  "SubmitJobContainerResponse_GetJobId None = SubmitJobContainerResponse_GetJobId (Some zero_submit_job_container_response)"
  "CancelJobRequest_GetJobId None = CancelJobRequest_GetJobId (Some zero_cancel_job_request)"
  "JobInfoRequest_GetJobId None = JobInfoRequest_GetJobId (Some zero_job_info_request)"
  "JobInfoResponse_GetInfo None = JobInfoResponse_GetInfo (Some zero_job_info_response)"
  "JobStepsRequest_GetJobId None = JobStepsRequest_GetJobId (Some zero_job_steps_request)"
  "JobStepsResponse_GetJobSteps None = JobStepsResponse_GetJobSteps (Some zero_job_steps_response)"
  "ZipRequest_GetPath None = ZipRequest_GetPath (Some zero_zip_request)"
  "ZipRequest_GetTarget None = ZipRequest_GetTarget (Some zero_zip_request)"
  "UnzipRequest_GetSource None = UnzipRequest_GetSource (Some zero_unzip_request)"
  "UnzipRequest_GetPath None = UnzipRequest_GetPath (Some zero_unzip_request)"
  "ResourcesRequest_GetPartition None = ResourcesRequest_GetPartition (Some zero_resources_request)"
  "ResourcesResponse_GetNodes None = ResourcesResponse_GetNodes (Some zero_resources_response)"
  "ResourcesResponse_GetCpuPerNode None = ResourcesResponse_GetCpuPerNode (Some zero_resources_response)"
  "ResourcesResponse_GetMemPerNode None = ResourcesResponse_GetMemPerNode (Some zero_resources_response)"
  "ResourcesResponse_GetWallTime None = ResourcesResponse_GetWallTime (Some zero_resources_response)"
  "ResourcesResponse_GetFeatures None = ResourcesResponse_GetFeatures (Some zero_resources_response)"
  "PartitionsResponse_GetPartition None = PartitionsResponse_GetPartition (Some zero_partitions_response)"
  "WorkloadInfoResponse_GetName None = WorkloadInfoResponse_GetName (Some zero_workload_info_response)"
  "WorkloadInfoResponse_GetVersion None = WorkloadInfoResponse_GetVersion (Some zero_workload_info_response)"
  "WorkloadInfoResponse_GetUid None = WorkloadInfoResponse_GetUid (Some zero_workload_info_response)"
  "OpenFileRequest_GetPath None = OpenFileRequest_GetPath (Some zero_open_file_request)"
  "Chunk_GetContent None = Chunk_GetContent (Some zero_chunk)"
  "TailFileRequest_GetAction None = TailFileRequest_GetAction (Some zero_tail_file_request)"
  "TailFileRequest_GetPath None = TailFileRequest_GetPath (Some zero_tail_file_request)"
  "CreateFileRequest_GetPath None = CreateFileRequest_GetPath (Some zero_create_file_request)"
  "CreateFileRequest_GetContent None = CreateFileRequest_GetContent (Some zero_create_file_request)"
  "SingularityOptions_GetApp None = SingularityOptions_GetApp (Some zero_pb_singularity_options)"
  "SingularityOptions_GetAllowUnsigned None = SingularityOptions_GetAllowUnsigned (Some zero_pb_singularity_options)"
  "SingularityOptions_GetBinds None = SingularityOptions_GetBinds (Some zero_pb_singularity_options)"
  "SingularityOptions_GetClearEnv None = SingularityOptions_GetClearEnv (Some zero_pb_singularity_options)"
  "SingularityOptions_GetFakeRoot None = SingularityOptions_GetFakeRoot (Some zero_pb_singularity_options)"
  "SingularityOptions_GetHostName None = SingularityOptions_GetHostName (Some zero_pb_singularity_options)"
  "SingularityOptions_GetIpc None = SingularityOptions_GetIpc (Some zero_pb_singularity_options)"
  "SingularityOptions_GetPid None = SingularityOptions_GetPid (Some zero_pb_singularity_options)"
  "SingularityOptions_GetNoPrivs None = SingularityOptions_GetNoPrivs (Some zero_pb_singularity_options)"
  "SingularityOptions_GetWritable None = SingularityOptions_GetWritable (Some zero_pb_singularity_options)"
  "JobInfo_GetId None = JobInfo_GetId (Some zero_pb_job_info)"
  "JobInfo_GetUserId None = JobInfo_GetUserId (Some zero_pb_job_info)"
  "JobInfo_GetName None = JobInfo_GetName (Some zero_pb_job_info)"
  "JobInfo_GetExitCode None = JobInfo_GetExitCode (Some zero_pb_job_info)"
  "JobInfo_GetStatus None = JobInfo_GetStatus (Some zero_pb_job_info)"
  "JobInfo_GetSubmitTime None = JobInfo_GetSubmitTime (Some zero_pb_job_info)"
  "JobInfo_GetStartTime None = JobInfo_GetStartTime (Some zero_pb_job_info)"
  "JobInfo_GetRunTime None = JobInfo_GetRunTime (Some zero_pb_job_info)"
  "JobInfo_GetTimeLimit None = JobInfo_GetTimeLimit (Some zero_pb_job_info)"
  "JobInfo_GetWorkingDir None = JobInfo_GetWorkingDir (Some zero_pb_job_info)"
  "JobInfo_GetStdOut None = JobInfo_GetStdOut (Some zero_pb_job_info)"
  "JobInfo_GetStdErr None = JobInfo_GetStdErr (Some zero_pb_job_info)"
  "JobInfo_GetPartition None = JobInfo_GetPartition (Some zero_pb_job_info)"
  "JobInfo_GetNodeList None = JobInfo_GetNodeList (Some zero_pb_job_info)"
  "JobInfo_GetBatchHost None = JobInfo_GetBatchHost (Some zero_pb_job_info)"
  "JobInfo_GetNumNodes None = JobInfo_GetNumNodes (Some zero_pb_job_info)"
  "JobInfo_GetArrayId None = JobInfo_GetArrayId (Some zero_pb_job_info)"
  "JobStepInfo_GetId None = JobStepInfo_GetId (Some zero_pb_job_step)"
  "JobStepInfo_GetName None = JobStepInfo_GetName (Some zero_pb_job_step)"
  "JobStepInfo_GetExitCode None = JobStepInfo_GetExitCode (Some zero_pb_job_step)"
  "JobStepInfo_GetStatus None = JobStepInfo_GetStatus (Some zero_pb_job_step)"
  "JobStepInfo_GetStartTime None = JobStepInfo_GetStartTime (Some zero_pb_job_step)"
  "JobStepInfo_GetEndTime None = JobStepInfo_GetEndTime (Some zero_pb_job_step)"
  "Feature_GetName None = Feature_GetName (Some zero_pb_feature)"
  "Feature_GetVersion None = Feature_GetVersion (Some zero_pb_feature)"
  "Feature_GetQuantity None = Feature_GetQuantity (Some zero_pb_feature)"
  by (simp_all add: pb_getters pb_get_def pb_zeros JobStatus_COMPLETED_def TailAction_Start_def)

text \<open>
  A job without a status, or no job at all, reads as completed, and not as unknown.
\<close>

lemma absent_status_is_completed:
  "JobStatus_String (JobInfo_GetStatus None) = ''COMPLETED''"
  "JobStatus_String (JobInfo_GetStatus (Some zero_pb_job_info)) = ''COMPLETED''"
  by (simp_all add: pb_getters pb_get_def pb_zeros JobStatus_COMPLETED_def JobStatus_String_def proto_EnumName_def
      JobStatus_name_def)

end
