(* ===== verification/Grpc_Stubs.thy ===== *)
theory Grpc_Stubs
  imports Pb_Messages
begin

text \<open>
  The gRPC stubs of \<open>pkg/workload/api/workload.pb.go\<close>: the methods of the client over a connection,
  the handlers of the server over an implementation of the service, and the table that names the
  handlers. The connection is a parameter here; \<open>Grpc_Server\<close> connects the two sides.
\<close>

section \<open>The service\<close>

text \<open>\<open>WorkloadManagerServer\<close>, the methods without streams. An empty message is \<open>unit\<close>.\<close>

record 'w workload_server =
  ws_SubmitJob :: "submit_job_request \<Rightarrow> 'w \<Rightarrow> submit_job_response go \<times> 'w"
  ws_SubmitJobContainer :: "submit_job_container_request \<Rightarrow> 'w \<Rightarrow> submit_job_container_response go \<times> 'w"
  ws_CancelJob :: "cancel_job_request \<Rightarrow> 'w \<Rightarrow> unit go \<times> 'w"
  ws_JobInfo :: "job_info_request \<Rightarrow> 'w \<Rightarrow> job_info_response go \<times> 'w"
  ws_JobSteps :: "job_steps_request \<Rightarrow> 'w \<Rightarrow> job_steps_response go \<times> 'w"
  ws_Zip :: "zip_request \<Rightarrow> 'w \<Rightarrow> unit go \<times> 'w"
  ws_Unzip :: "unzip_request \<Rightarrow> 'w \<Rightarrow> unit go \<times> 'w"
  ws_Resources :: "resources_request \<Rightarrow> 'w \<Rightarrow> resources_response go \<times> 'w"
  ws_Partitions :: "'w \<Rightarrow> partitions_response go \<times> 'w"
  ws_WorkloadInfo :: "'w \<Rightarrow> workload_info_response go \<times> 'w"

section \<open>The client\<close>

text \<open>
  \<open>cc.Invoke(ctx, method, in, out)\<close> fills \<open>out\<close>, a new message of the type of the reply. A message of
  another type cannot be written into it.
\<close>

type_synonym 's connection = "string \<Rightarrow> pb_message \<Rightarrow> pb_message \<Rightarrow> 's \<Rightarrow> pb_message go \<times> 's"

definition typed :: "(pb_message \<Rightarrow> 'a option) \<Rightarrow> pb_message go \<times> 's \<Rightarrow> 'a go \<times> 's" where
  "typed assert rs =
     (case rs of
        (Ok m, s) \<Rightarrow> (case assert m of Some x \<Rightarrow> (Ok x, s) | None \<Rightarrow> (Panic ''interface conversion'', s))
      | (Err e, s) \<Rightarrow> (Err e, s)
      | (Panic p, s) \<Rightarrow> (Panic p, s))"

definition Client_SubmitJob_stub :: "'s connection \<Rightarrow> submit_job_request \<Rightarrow> 's \<Rightarrow> submit_job_response go \<times> 's" where
  "Client_SubmitJob_stub cc inp s =
     typed (\<lambda>m. case m of PbSubmitJobResponse x \<Rightarrow> Some x | _ \<Rightarrow> None)
       (cc ''/api.WorkloadManager/SubmitJob'' (PbSubmitJobRequest inp) (PbSubmitJobResponse zero_submit_job_response) s)"

definition Client_SubmitJobContainer_stub :: "'s connection \<Rightarrow> submit_job_container_request \<Rightarrow> 's \<Rightarrow> submit_job_container_response go \<times> 's" where
  "Client_SubmitJobContainer_stub cc inp s =
     typed (\<lambda>m. case m of PbSubmitJobContainerResponse x \<Rightarrow> Some x | _ \<Rightarrow> None)
       (cc ''/api.WorkloadManager/SubmitJobContainer'' (PbSubmitJobContainerRequest inp) (PbSubmitJobContainerResponse zero_submit_job_container_response) s)"

definition Client_CancelJob_stub :: "'s connection \<Rightarrow> cancel_job_request \<Rightarrow> 's \<Rightarrow> unit go \<times> 's" where
  "Client_CancelJob_stub cc inp s =
     typed (\<lambda>m. case m of PbCancelJobResponse \<Rightarrow> Some () | _ \<Rightarrow> None)
       (cc ''/api.WorkloadManager/CancelJob'' (PbCancelJobRequest inp) PbCancelJobResponse s)"

definition Client_JobInfo_stub :: "'s connection \<Rightarrow> job_info_request \<Rightarrow> 's \<Rightarrow> job_info_response go \<times> 's" where
  "Client_JobInfo_stub cc inp s =
     typed (\<lambda>m. case m of PbJobInfoResponse x \<Rightarrow> Some x | _ \<Rightarrow> None)
       (cc ''/api.WorkloadManager/JobInfo'' (PbJobInfoRequest inp) (PbJobInfoResponse zero_job_info_response) s)"

definition Client_JobSteps_stub :: "'s connection \<Rightarrow> job_steps_request \<Rightarrow> 's \<Rightarrow> job_steps_response go \<times> 's" where
  "Client_JobSteps_stub cc inp s =
     typed (\<lambda>m. case m of PbJobStepsResponse x \<Rightarrow> Some x | _ \<Rightarrow> None)
       (cc ''/api.WorkloadManager/JobSteps'' (PbJobStepsRequest inp) (PbJobStepsResponse zero_job_steps_response) s)"

definition Client_Zip_stub :: "'s connection \<Rightarrow> zip_request \<Rightarrow> 's \<Rightarrow> unit go \<times> 's" where
  "Client_Zip_stub cc inp s =
     typed (\<lambda>m. case m of PbZipResponse \<Rightarrow> Some () | _ \<Rightarrow> None)
       (cc ''/api.WorkloadManager/Zip'' (PbZipRequest inp) PbZipResponse s)"

definition Client_Unzip_stub :: "'s connection \<Rightarrow> unzip_request \<Rightarrow> 's \<Rightarrow> unit go \<times> 's" where
  "Client_Unzip_stub cc inp s =
     typed (\<lambda>m. case m of PbUnzipResponse \<Rightarrow> Some () | _ \<Rightarrow> None)
       (cc ''/api.WorkloadManager/Unzip'' (PbUnzipRequest inp) PbUnzipResponse s)"

definition Client_Resources_stub :: "'s connection \<Rightarrow> resources_request \<Rightarrow> 's \<Rightarrow> resources_response go \<times> 's" where
  "Client_Resources_stub cc inp s =
     typed (\<lambda>m. case m of PbResourcesResponse x \<Rightarrow> Some x | _ \<Rightarrow> None)
       (cc ''/api.WorkloadManager/Resources'' (PbResourcesRequest inp) (PbResourcesResponse zero_resources_response) s)"

definition Client_Partitions_stub :: "'s connection \<Rightarrow> 's \<Rightarrow> partitions_response go \<times> 's" where
  "Client_Partitions_stub cc s =
     typed (\<lambda>m. case m of PbPartitionsResponse x \<Rightarrow> Some x | _ \<Rightarrow> None)
       (cc ''/api.WorkloadManager/Partitions'' PbPartitionsRequest (PbPartitionsResponse zero_partitions_response) s)"

definition Client_WorkloadInfo_stub :: "'s connection \<Rightarrow> 's \<Rightarrow> workload_info_response go \<times> 's" where
  "Client_WorkloadInfo_stub cc s =
     typed (\<lambda>m. case m of PbWorkloadInfoResponse x \<Rightarrow> Some x | _ \<Rightarrow> None)
       (cc ''/api.WorkloadManager/WorkloadInfo'' PbWorkloadInfoRequest (PbWorkloadInfoResponse zero_workload_info_response) s)"

section \<open>The handlers\<close>

text \<open>\<open>dec\<close> decodes the request into a new message; an interceptor sees the request, the name of the
  method and the handler.\<close>

type_synonym decoder = "pb_message \<Rightarrow> pb_message go"
type_synonym 'w pb_handler = "pb_message \<Rightarrow> 'w \<Rightarrow> pb_message go \<times> 'w"
type_synonym 'w interceptor = "pb_message \<Rightarrow> string \<Rightarrow> 'w pb_handler \<Rightarrow> 'w \<Rightarrow> pb_message go \<times> 'w"

definition reply :: "('a \<Rightarrow> pb_message) \<Rightarrow> 'a go \<times> 'w \<Rightarrow> pb_message go \<times> 'w" where
  "reply wrap rw =
     (case rw of
        (Ok x, w) \<Rightarrow> (Ok (wrap x), w)
      | (Err e, w) \<Rightarrow> (Err e, w)
      | (Panic p, w) \<Rightarrow> (Panic p, w))"

definition unary_handler ::
  "string \<Rightarrow> pb_message \<Rightarrow> 'w pb_handler \<Rightarrow> decoder \<Rightarrow> 'w interceptor option \<Rightarrow> 'w \<Rightarrow> pb_message go \<times> 'w" where
  "unary_handler FullMethod inp handler dec interceptor w =
     (case dec inp of
        Err e \<Rightarrow> (Err e, w)
      | Panic p \<Rightarrow> (Panic p, w)
      | Ok req \<Rightarrow>
          (case interceptor of
             None \<Rightarrow> handler req w
           | Some icept \<Rightarrow> icept req FullMethod handler w))"

definition WorkloadManager_SubmitJob_Handler ::
  "'w workload_server \<Rightarrow> decoder \<Rightarrow> 'w interceptor option \<Rightarrow> 'w \<Rightarrow> pb_message go \<times> 'w" where
  "WorkloadManager_SubmitJob_Handler srv =
     unary_handler ''/api.WorkloadManager/SubmitJob'' (PbSubmitJobRequest zero_submit_job_request)
       (\<lambda>req w. case req of
          PbSubmitJobRequest r \<Rightarrow> reply PbSubmitJobResponse (ws_SubmitJob srv r w)
        | _ \<Rightarrow> (Panic ''interface conversion'', w))"

definition WorkloadManager_SubmitJobContainer_Handler ::
  "'w workload_server \<Rightarrow> decoder \<Rightarrow> 'w interceptor option \<Rightarrow> 'w \<Rightarrow> pb_message go \<times> 'w" where
  "WorkloadManager_SubmitJobContainer_Handler srv =
     unary_handler ''/api.WorkloadManager/SubmitJobContainer'' (PbSubmitJobContainerRequest zero_submit_job_container_request)
       (\<lambda>req w. case req of
          PbSubmitJobContainerRequest r \<Rightarrow> reply PbSubmitJobContainerResponse (ws_SubmitJobContainer srv r w)
        | _ \<Rightarrow> (Panic ''interface conversion'', w))"

definition WorkloadManager_CancelJob_Handler ::
  "'w workload_server \<Rightarrow> decoder \<Rightarrow> 'w interceptor option \<Rightarrow> 'w \<Rightarrow> pb_message go \<times> 'w" where
  "WorkloadManager_CancelJob_Handler srv =
     unary_handler ''/api.WorkloadManager/CancelJob'' (PbCancelJobRequest zero_cancel_job_request)
       (\<lambda>req w. case req of
          PbCancelJobRequest r \<Rightarrow> reply (\<lambda>u. PbCancelJobResponse) (ws_CancelJob srv r w)
        | _ \<Rightarrow> (Panic ''interface conversion'', w))"

definition WorkloadManager_JobInfo_Handler ::
  "'w workload_server \<Rightarrow> decoder \<Rightarrow> 'w interceptor option \<Rightarrow> 'w \<Rightarrow> pb_message go \<times> 'w" where
  "WorkloadManager_JobInfo_Handler srv =
     unary_handler ''/api.WorkloadManager/JobInfo'' (PbJobInfoRequest zero_job_info_request)
       (\<lambda>req w. case req of
          PbJobInfoRequest r \<Rightarrow> reply PbJobInfoResponse (ws_JobInfo srv r w)
        | _ \<Rightarrow> (Panic ''interface conversion'', w))"

definition WorkloadManager_JobSteps_Handler ::
  "'w workload_server \<Rightarrow> decoder \<Rightarrow> 'w interceptor option \<Rightarrow> 'w \<Rightarrow> pb_message go \<times> 'w" where
  "WorkloadManager_JobSteps_Handler srv =
     unary_handler ''/api.WorkloadManager/JobSteps'' (PbJobStepsRequest zero_job_steps_request)
       (\<lambda>req w. case req of
          PbJobStepsRequest r \<Rightarrow> reply PbJobStepsResponse (ws_JobSteps srv r w)
        | _ \<Rightarrow> (Panic ''interface conversion'', w))"

definition WorkloadManager_Zip_Handler ::
  "'w workload_server \<Rightarrow> decoder \<Rightarrow> 'w interceptor option \<Rightarrow> 'w \<Rightarrow> pb_message go \<times> 'w" where
  "WorkloadManager_Zip_Handler srv =
     unary_handler ''/api.WorkloadManager/Zip'' (PbZipRequest zero_zip_request)
       (\<lambda>req w. case req of
          PbZipRequest r \<Rightarrow> reply (\<lambda>u. PbZipResponse) (ws_Zip srv r w)
        | _ \<Rightarrow> (Panic ''interface conversion'', w))"

definition WorkloadManager_Unzip_Handler ::
  "'w workload_server \<Rightarrow> decoder \<Rightarrow> 'w interceptor option \<Rightarrow> 'w \<Rightarrow> pb_message go \<times> 'w" where
  "WorkloadManager_Unzip_Handler srv =
     unary_handler ''/api.WorkloadManager/Unzip'' (PbUnzipRequest zero_unzip_request)
       (\<lambda>req w. case req of
          PbUnzipRequest r \<Rightarrow> reply (\<lambda>u. PbUnzipResponse) (ws_Unzip srv r w)
        | _ \<Rightarrow> (Panic ''interface conversion'', w))"

definition WorkloadManager_Resources_Handler ::
  "'w workload_server \<Rightarrow> decoder \<Rightarrow> 'w interceptor option \<Rightarrow> 'w \<Rightarrow> pb_message go \<times> 'w" where
  "WorkloadManager_Resources_Handler srv =
     unary_handler ''/api.WorkloadManager/Resources'' (PbResourcesRequest zero_resources_request)
       (\<lambda>req w. case req of
          PbResourcesRequest r \<Rightarrow> reply PbResourcesResponse (ws_Resources srv r w)
        | _ \<Rightarrow> (Panic ''interface conversion'', w))"

definition WorkloadManager_Partitions_Handler ::
  "'w workload_server \<Rightarrow> decoder \<Rightarrow> 'w interceptor option \<Rightarrow> 'w \<Rightarrow> pb_message go \<times> 'w" where
  "WorkloadManager_Partitions_Handler srv =
     unary_handler ''/api.WorkloadManager/Partitions'' PbPartitionsRequest
       (\<lambda>req w. case req of
          PbPartitionsRequest \<Rightarrow> reply PbPartitionsResponse (ws_Partitions srv w)
        | _ \<Rightarrow> (Panic ''interface conversion'', w))"

definition WorkloadManager_WorkloadInfo_Handler ::
  "'w workload_server \<Rightarrow> decoder \<Rightarrow> 'w interceptor option \<Rightarrow> 'w \<Rightarrow> pb_message go \<times> 'w" where
  "WorkloadManager_WorkloadInfo_Handler srv =
     unary_handler ''/api.WorkloadManager/WorkloadInfo'' PbWorkloadInfoRequest
       (\<lambda>req w. case req of
          PbWorkloadInfoRequest \<Rightarrow> reply PbWorkloadInfoResponse (ws_WorkloadInfo srv w)
        | _ \<Rightarrow> (Panic ''interface conversion'', w))"

section \<open>The table of the service\<close>

record 'w method_desc =
  md_MethodName :: string
  md_Handler :: "'w workload_server \<Rightarrow> decoder \<Rightarrow> 'w interceptor option \<Rightarrow> 'w \<Rightarrow> pb_message go \<times> 'w"

record stream_desc =
  sd_StreamName :: string
  sd_ServerStreams :: bool
  sd_ClientStreams :: bool

record 'w service_desc =
  sv_ServiceName :: string
  sv_Methods :: "'w method_desc list"
  sv_Streams :: "stream_desc list"

definition WorkloadManager_serviceDesc :: "'w service_desc" where
  "WorkloadManager_serviceDesc =
     \<lparr>sv_ServiceName = ''api.WorkloadManager'',
      sv_Methods =
        [\<lparr>md_MethodName = ''SubmitJob'', md_Handler = WorkloadManager_SubmitJob_Handler\<rparr>,
         \<lparr>md_MethodName = ''SubmitJobContainer'', md_Handler = WorkloadManager_SubmitJobContainer_Handler\<rparr>,
         \<lparr>md_MethodName = ''CancelJob'', md_Handler = WorkloadManager_CancelJob_Handler\<rparr>,
         \<lparr>md_MethodName = ''JobInfo'', md_Handler = WorkloadManager_JobInfo_Handler\<rparr>,
         \<lparr>md_MethodName = ''JobSteps'', md_Handler = WorkloadManager_JobSteps_Handler\<rparr>,
         \<lparr>md_MethodName = ''Zip'', md_Handler = WorkloadManager_Zip_Handler\<rparr>,
         \<lparr>md_MethodName = ''Unzip'', md_Handler = WorkloadManager_Unzip_Handler\<rparr>,
         \<lparr>md_MethodName = ''Resources'', md_Handler = WorkloadManager_Resources_Handler\<rparr>,
         \<lparr>md_MethodName = ''Partitions'', md_Handler = WorkloadManager_Partitions_Handler\<rparr>,
         \<lparr>md_MethodName = ''WorkloadInfo'', md_Handler = WorkloadManager_WorkloadInfo_Handler\<rparr>],
      sv_Streams =
        [\<lparr>sd_StreamName = ''OpenFile'', sd_ServerStreams = True, sd_ClientStreams = False\<rparr>,
         \<lparr>sd_StreamName = ''TailFile'', sd_ServerStreams = True, sd_ClientStreams = True\<rparr>,
         \<lparr>sd_StreamName = ''CreateFile'', sd_ServerStreams = False, sd_ClientStreams = True\<rparr>]\<rparr>"

section \<open>Calls of any method\<close>

text \<open>A call is its request; \<open>client_call\<close> makes it through the stub and \<open>server_call\<close> directly.\<close>

fun method_name :: "pb_message \<Rightarrow> string option" where
  "method_name (PbSubmitJobRequest r) = Some ''SubmitJob''"
| "method_name (PbSubmitJobContainerRequest r) = Some ''SubmitJobContainer''"
| "method_name (PbCancelJobRequest r) = Some ''CancelJob''"
| "method_name (PbJobInfoRequest r) = Some ''JobInfo''"
| "method_name (PbJobStepsRequest r) = Some ''JobSteps''"
| "method_name (PbZipRequest r) = Some ''Zip''"
| "method_name (PbUnzipRequest r) = Some ''Unzip''"
| "method_name (PbResourcesRequest r) = Some ''Resources''"
| "method_name PbPartitionsRequest = Some ''Partitions''"
| "method_name PbWorkloadInfoRequest = Some ''WorkloadInfo''"
| "method_name _ = None"

fun client_call :: "'s connection \<Rightarrow> pb_message \<Rightarrow> 's \<Rightarrow> pb_message go \<times> 's" where
  "client_call cc (PbSubmitJobRequest r) s = reply PbSubmitJobResponse (Client_SubmitJob_stub cc r s)"
| "client_call cc (PbSubmitJobContainerRequest r) s = reply PbSubmitJobContainerResponse (Client_SubmitJobContainer_stub cc r s)"
| "client_call cc (PbCancelJobRequest r) s = reply (\<lambda>u. PbCancelJobResponse) (Client_CancelJob_stub cc r s)"
| "client_call cc (PbJobInfoRequest r) s = reply PbJobInfoResponse (Client_JobInfo_stub cc r s)"
| "client_call cc (PbJobStepsRequest r) s = reply PbJobStepsResponse (Client_JobSteps_stub cc r s)"
| "client_call cc (PbZipRequest r) s = reply (\<lambda>u. PbZipResponse) (Client_Zip_stub cc r s)"
| "client_call cc (PbUnzipRequest r) s = reply (\<lambda>u. PbUnzipResponse) (Client_Unzip_stub cc r s)"
| "client_call cc (PbResourcesRequest r) s = reply PbResourcesResponse (Client_Resources_stub cc r s)"
| "client_call cc PbPartitionsRequest s = reply PbPartitionsResponse (Client_Partitions_stub cc s)"
| "client_call cc PbWorkloadInfoRequest s = reply PbWorkloadInfoResponse (Client_WorkloadInfo_stub cc s)"
| "client_call cc _ s = (Panic ''not a request'', s)"

fun server_call :: "'w workload_server \<Rightarrow> pb_message \<Rightarrow> 'w \<Rightarrow> pb_message go \<times> 'w" where
  "server_call srv (PbSubmitJobRequest r) w = reply PbSubmitJobResponse (ws_SubmitJob srv r w)"
| "server_call srv (PbSubmitJobContainerRequest r) w = reply PbSubmitJobContainerResponse (ws_SubmitJobContainer srv r w)"
| "server_call srv (PbCancelJobRequest r) w = reply (\<lambda>u. PbCancelJobResponse) (ws_CancelJob srv r w)"
| "server_call srv (PbJobInfoRequest r) w = reply PbJobInfoResponse (ws_JobInfo srv r w)"
| "server_call srv (PbJobStepsRequest r) w = reply PbJobStepsResponse (ws_JobSteps srv r w)"
| "server_call srv (PbZipRequest r) w = reply (\<lambda>u. PbZipResponse) (ws_Zip srv r w)"
| "server_call srv (PbUnzipRequest r) w = reply (\<lambda>u. PbUnzipResponse) (ws_Unzip srv r w)"
| "server_call srv (PbResourcesRequest r) w = reply PbResourcesResponse (ws_Resources srv r w)"
| "server_call srv PbPartitionsRequest w = reply PbPartitionsResponse (ws_Partitions srv w)"
| "server_call srv PbWorkloadInfoRequest w = reply PbWorkloadInfoResponse (ws_WorkloadInfo srv w)"
| "server_call srv _ w = (Panic ''not a request'', w)"

end
