(* ===== verification/Go_Files.thy ===== *)
theory Go_Files
  imports Go_Path "HOL-Library.AList" "HOL-Library.List_Lexorder"
begin

text \<open>
  A file system and the calls of package \<open>os\<close> and \<open>filepath.Walk\<close> the program makes: a tree of
  files and directories, named by paths that are resolved lexically from the working
  directory. Links, permissions and a full disk are not in the model: a call fails because a
  name is missing, or because a file stands where a directory should be or the other way
  round.
\<close>

section \<open>Trees\<close>

datatype node = File string | Directory "(string \<times> node) list"

definition ENOENT :: go_error where "ENOENT = ErrorString ''no such file or directory''"
definition ENOTDIR :: go_error where "ENOTDIR = ErrorString ''not a directory''"
definition EISDIR :: go_error where "EISDIR = ErrorString ''is a directory''"

fun is_directory :: "node \<Rightarrow> bool" where
  "is_directory (Directory es) = True"
| "is_directory (File b) = False"

fun fetch :: "node \<Rightarrow> string list \<Rightarrow> node go" where
  "fetch n [] = Ok n"
| "fetch (File b) (c # cs) = Err ENOTDIR"
| "fetch (Directory es) (c # cs) = (case map_of es c of None \<Rightarrow> Err ENOENT | Some n \<Rightarrow> fetch n cs)"

text \<open>Put a node at a path whose parent is a directory.\<close>

fun put :: "string list \<Rightarrow> node \<Rightarrow> node \<Rightarrow> node" where
  "put [] m n = m"
| "put (c # cs) m (File b) = File b"
| "put (c # cs) m (Directory es) =
     (case map_of es c of
        Some n \<Rightarrow> Directory (AList.update c (put cs m n) es)
      | None \<Rightarrow> if cs = [] then Directory (AList.update c m es) else Directory es)"

text \<open>\<open>os.MkdirAll\<close>: every missing directory of the path is made.\<close>

fun mkdirs :: "string list \<Rightarrow> node \<Rightarrow> node go" where
  "mkdirs cs (File b) = Err ENOTDIR"
| "mkdirs [] (Directory es) = Ok (Directory es)"
| "mkdirs (c # cs) (Directory es) =
     go_bind (mkdirs cs (case map_of es c of None \<Rightarrow> Directory [] | Some n \<Rightarrow> n))
       (\<lambda>n. Ok (Directory (AList.update c n es)))"

section \<open>The calls\<close>

record file_system =
  fs_root :: node
  fs_cwd :: "string list"

definition resolve :: "file_system \<Rightarrow> string \<Rightarrow> string list" where
  "resolve fs p = clean_comps True ((if rooted p then [] else fs_cwd fs) @ path_comps p)"

definition trailing_slash :: "string \<Rightarrow> bool" where
  "trailing_slash p \<longleftrightarrow> p \<noteq> [] \<and> last p = CHR ''/''"

text \<open>What a path names: for \<open>os.Lstat\<close> and \<open>os.Open\<close>, which opens directories too.\<close>

definition os_Open :: "file_system \<Rightarrow> string \<Rightarrow> node go" where
  "os_Open fs p =
     (if p = [] then Err ENOENT
      else go_bind (fetch (fs_root fs) (resolve fs p))
        (\<lambda>n. if trailing_slash p \<and> \<not> is_directory n then Err ENOTDIR else Ok n))"

definition os_IsNotExist :: "go_error \<Rightarrow> bool" where
  "os_IsNotExist e \<longleftrightarrow> e = ENOENT"

text \<open>Creating or truncating a file; the handle is the path of the file.\<close>

definition os_Create :: "file_system \<Rightarrow> string \<Rightarrow> (string list \<times> file_system) go" where
  "os_Create fs p =
     (if p = [] then Err ENOENT
      else
        (let cs = resolve fs p
         in if cs = [] \<or> trailing_slash p then Err EISDIR
            else
              (case fetch (fs_root fs) (butlast cs) of
                 Err e \<Rightarrow> Err e
               | Panic m \<Rightarrow> Panic m
               | Ok (File b) \<Rightarrow> Err ENOTDIR
               | Ok (Directory es) \<Rightarrow>
                   (case map_of es (last cs) of
                      Some (Directory _) \<Rightarrow> Err EISDIR
                    | _ \<Rightarrow> Ok (cs, fs\<lparr>fs_root := put cs (File []) (fs_root fs)\<rparr>)))))"

text \<open>Appending to an open file.\<close>

definition os_Write :: "file_system \<Rightarrow> string list \<Rightarrow> string \<Rightarrow> file_system" where
  "os_Write fs handle bytes =
     (case fetch (fs_root fs) handle of
        Ok (File b) \<Rightarrow> fs\<lparr>fs_root := put handle (File (b @ bytes)) (fs_root fs)\<rparr>
      | _ \<Rightarrow> fs)"

definition os_MkdirAll :: "file_system \<Rightarrow> string \<Rightarrow> file_system go" where
  "os_MkdirAll fs p =
     (if p = [] then Err ENOENT
      else go_bind (mkdirs (resolve fs p) (fs_root fs)) (\<lambda>r. Ok (fs\<lparr>fs_root := r\<rparr>)))"

text \<open>
  \<open>filepath.Walk\<close>: the path and node the callback is passed, in order; a directory comes
  before its entries, which come sorted by name.
\<close>

function walk :: "string \<Rightarrow> node \<Rightarrow> (string \<times> node) list" where
  "walk p (File b) = [(p, File b)]"
| "walk p (Directory es) =
     (p, Directory es) # concat (map (\<lambda>e. walk (filepath_Join p (fst e)) (snd e)) (sort_key fst es))"
  by pat_completeness auto

termination
proof (relation "measure (\<lambda>(p, n). size n)")
  fix p :: string and es :: "(string \<times> node) list" and e :: "string \<times> node"
  assume "e \<in> set (sort_key fst es)"
  then have "e \<in> set es" by simp
  then have "size (snd e) < size (Directory es)" by (induction es) auto
  then show "((filepath_Join p (fst e), snd e), p, Directory es) \<in> measure (\<lambda>(p, n). size n)" by simp
qed simp

text \<open>The same tree with the entries of every directory sorted.\<close>

function sort_node :: "node \<Rightarrow> node" where
  "sort_node (File b) = File b"
| "sort_node (Directory es) = Directory (map (\<lambda>e. (fst e, sort_node (snd e))) (sort_key fst es))"
  by pat_completeness auto

termination
proof (relation "measure size")
  fix es :: "(string \<times> node) list" and e :: "string \<times> node"
  assume "e \<in> set (sort_key fst es)"
  then have "e \<in> set es" by simp
  then show "(snd e, Directory es) \<in> measure size" by (induction es) auto
qed simp

text \<open>
  The trees that occur: names are proper and unique in their directory.
\<close>

function wf_node :: "node \<Rightarrow> bool" where
  "wf_node (File b) \<longleftrightarrow> True"
| "wf_node (Directory es) \<longleftrightarrow>
     distinct (map fst es) \<and> list_all (\<lambda>e. proper (fst e) \<and> wf_node (snd e)) es"
  by pat_completeness auto

termination
proof (relation "measure size")
  fix es :: "(string \<times> node) list" and e :: "string \<times> node"
  assume "e \<in> set es"
  then show "(snd e, Directory es) \<in> measure size" by (induction es) auto
qed simp

section \<open>Laws\<close>

lemma update_same [simp]: "map_of es c = Some n \<Longrightarrow> AList.update c n es = es"
  by (induction es) auto

lemma update_twice [simp]: "AList.update c n (AList.update c m es) = AList.update c n es"
  by (induction es) auto

lemma update_new: "map_of es c = None \<Longrightarrow> AList.update c n es = es @ [(c, n)]"
  by (induction es) auto

lemma map_of_update [simp]: "map_of (AList.update c n es) d = (if d = c then Some n else map_of es d)"
  by (simp add: update_conv')

lemma resolve_abs [simp]: "list_all proper cs \<Longrightarrow> resolve fs (abs_path cs) = cs"
  by (simp add: resolve_def)

lemma trailing_slash_abs: "list_all proper cs \<Longrightarrow> cs \<noteq> [] \<Longrightarrow> \<not> trailing_slash (abs_path cs)"
  by (simp add: trailing_slash_def abs_path_last)

lemma fetch_File [simp]: "fetch (File b) cs \<noteq> Ok (Directory es)"
  by (cases cs) auto

lemma fetch_append: "fetch n cs = Ok m \<Longrightarrow> fetch n (cs @ ds) = fetch m ds"
  by (induction n cs rule: fetch.induct) (auto split: option.splits)

lemma fetch_parent: "fetch n (cs @ ds) = Ok m \<Longrightarrow> \<exists>k. fetch n cs = Ok k"
  by (induction n cs rule: fetch.induct) (auto split: option.splits)

lemma fetch_no_panic: "fetch n cs \<noteq> Panic s"
  by (induction n cs rule: fetch.induct) (auto split: option.splits)

text \<open>The directory a path is in.\<close>

definition in_directory :: "node \<Rightarrow> string list \<Rightarrow> bool" where
  "in_directory n cs \<longleftrightarrow> (\<exists>es. fetch n (butlast cs) = Ok (Directory es))"

lemma fetch_put_below: "in_directory n cs \<Longrightarrow> cs \<noteq> [] \<Longrightarrow> fetch (put cs m n) (cs @ ds) = fetch m ds"
proof (induction cs m n rule: put.induct)
  case (3 c cs m es)
  show ?case
  proof (cases "cs = []")
    case True
    with 3 show ?thesis by (auto split: option.splits)
  next
    case False
    with 3 show ?thesis by (auto simp: in_directory_def split: option.splits)
  qed
qed (auto simp: in_directory_def simp del: butlast.simps)

text \<open>Files elsewhere keep their content.\<close>

lemma put_files:
  "\<nexists>es. p = cs @ es \<Longrightarrow> fetch (put cs m n) p = Ok (File b) \<longleftrightarrow> fetch n p = Ok (File b)"
proof (induction cs m n arbitrary: p rule: put.induct)
  case (3 c cs m es)
  then show ?case by (cases p) (auto split: option.splits)
qed auto

lemma fetch_put_apart:
  "\<nexists>us. p = cs @ us \<Longrightarrow> \<nexists>us. cs = p @ us \<Longrightarrow> fetch (put cs m n) p = fetch n p"
proof (induction cs m n arbitrary: p rule: put.induct)
  case (3 c cs m es)
  then show ?case by (cases p) (auto split: option.splits)
qed auto

lemma mkdirs_files: "mkdirs cs n = Ok n' \<Longrightarrow> fetch n' p = Ok (File b) \<longleftrightarrow> fetch n p = Ok (File b)"
proof (induction cs n arbitrary: n' p rule: mkdirs.induct)
  case (3 c cs es)
  then obtain k where k: "mkdirs cs (case map_of es c of None \<Rightarrow> Directory [] | Some n \<Rightarrow> n) = Ok k"
    and n': "n' = Directory (AList.update c k es)" by auto
  note IH = 3(1) [OF k]
  show ?case
  proof (cases p)
    case (Cons d ds)
    with IH [of ds] n' show ?thesis by (cases "d = c"; cases ds) (auto split: option.splits)
  qed (simp add: n')
qed auto

lemma mkdirs_existing: "fetch n cs = Ok (Directory es) \<Longrightarrow> mkdirs cs n = Ok n"
  by (induction cs n rule: mkdirs.induct) (auto split: option.splits)

lemma mkdirs_new:
  "fetch n cs = Ok (Directory es) \<Longrightarrow> map_of es c = None \<Longrightarrow>
   mkdirs (cs @ [c]) n = Ok (put (cs @ [c]) (Directory []) n)"
  by (induction cs n rule: mkdirs.induct) (auto split: option.splits)

lemma mkdirs_no_panic: "mkdirs cs n \<noteq> Panic s"
  by (induction cs n rule: mkdirs.induct) (auto simp: go_bind_eq_Panic)

lemma put_put: "in_directory n cs \<Longrightarrow> cs \<noteq> [] \<Longrightarrow> put (cs @ ds) m (put cs k n) = put cs (put ds m k) n"
proof (induction cs k n rule: put.induct)
  case (3 c cs k es)
  show ?case
  proof (cases "cs = []")
    case True
    then show ?thesis by (cases ds) (auto split: option.splits)
  next
    case False
    with 3 show ?thesis by (auto simp: in_directory_def split: option.splits)
  qed
qed (auto simp: in_directory_def simp del: butlast.simps)

end
