(* ===== verification/Zip_Archive.thy ===== *)
theory Zip_Archive
  imports Go_Files
begin

text \<open>
  Archiving a file or directory and unpacking an archive: \<open>zipFile\<close>, \<open>unzip\<close> and \<open>unzipFile\<close>
  of \<open>pkg/slurm/slurm.go\<close>, of which \<open>cmd/results/main.go\<close> has a copy. The format of package
  \<open>archive/zip\<close> is a pair of parameters: \<open>enc\<close> gives the bytes of the entries written,
  \<open>dec\<close> the entries an archive is read as. Compression is inside them.
\<close>

section \<open>Archives\<close>

text \<open>
  An entry: its name, whether its mode is that of a directory, the content that can be read
  and the error that ends reading it (a bad checksum), if any.
\<close>

record zip_entry =
  ze_Name :: string
  ze_Dir :: bool
  ze_Content :: string
  ze_Err :: "go_error option"

text \<open>\<open>f.FileInfo().IsDir()\<close>: the mode, or a name that ends in a slash.\<close>

definition entry_IsDir :: "zip_entry \<Rightarrow> bool" where
  "entry_IsDir f \<longleftrightarrow> ze_Dir f \<or> trailing_slash (ze_Name f)"

section \<open>Archiving\<close>

text \<open>The callback \<open>zipFile\<close> passes to \<open>filepath.Walk\<close>: the entry written for one node.\<close>

definition zip_entry_of :: "string \<Rightarrow> string \<times> node \<Rightarrow> zip_entry go" where
  "zip_entry_of source x =
     go_bind (filepath_Rel (filepath_Dir source) (fst x)) (\<lambda>name.
       Ok (case snd x of
             Directory es \<Rightarrow> \<lparr>ze_Name = name @ ''/'', ze_Dir = True, ze_Content = [], ze_Err = None\<rparr>
           | File b \<Rightarrow> \<lparr>ze_Name = name, ze_Dir = False, ze_Content = b, ze_Err = None\<rparr>))"

text \<open>The entries written until the walk ends or fails.\<close>

fun zip_walk :: "string \<Rightarrow> (string \<times> node) list \<Rightarrow> zip_entry list \<times> unit go" where
  "zip_walk source [] = ([], Ok ())"
| "zip_walk source (x # xs) =
     (case zip_entry_of source x of
        Ok z \<Rightarrow> (let (zs, r) = zip_walk source xs in (z # zs, r))
      | Err e \<Rightarrow> ([], Err e)
      | Panic m \<Rightarrow> ([], Panic m))"

text \<open>
  The archive is created before the walk, so that a target below the source is walked as an
  empty file, and closed whatever the walk returns.
\<close>

definition zipFile ::
  "(zip_entry list \<Rightarrow> string) \<Rightarrow> file_system \<Rightarrow> string \<Rightarrow> string \<Rightarrow> unit go \<times> file_system" where
  "zipFile enc fs source target =
     (case os_Create fs target of
        Err e \<Rightarrow> (Err e, fs)
      | Panic m \<Rightarrow> (Panic m, fs)
      | Ok (f, fs) \<Rightarrow>
          (case os_Open fs source of
             Err e \<Rightarrow> (Err e, os_Write fs f (enc []))
           | Panic m \<Rightarrow> (Panic m, fs)
           | Ok info \<Rightarrow>
               (let (entries, r) = zip_walk source (walk source info)
                in (r, os_Write fs f (enc entries)))))"

lemma Rel_no_panic: "filepath_Rel a b \<noteq> Panic m"
  by (simp add: filepath_Rel_def Let_def split: prod.splits)

lemma zip_walk_no_panic: "snd (zip_walk source xs) \<noteq> Panic m"
proof (induction xs)
  case (Cons x xs)
  have "zip_entry_of source x \<noteq> Panic m'" for m'
    by (simp add: zip_entry_of_def go_bind_eq_Panic Rel_no_panic)
  with Cons show ?case by (auto split: go.splits prod.splits)
qed simp

lemma os_Create_no_panic: "os_Create fs p \<noteq> Panic m"
  by (auto simp: os_Create_def Let_def fetch_no_panic split: go.splits node.splits option.splits)

lemma os_Open_no_panic: "os_Open fs p \<noteq> Panic m"
  by (auto simp: os_Open_def go_bind_eq_Panic fetch_no_panic)

lemma zipFile_no_panic: "fst (zipFile enc fs source target) \<noteq> Panic m"
  by (auto simp: zipFile_def os_Create_no_panic os_Open_no_panic split: go.splits prod.splits)
    (metis snd_conv zip_walk_no_panic)

section \<open>Unpacking\<close>

definition unzipFile :: "file_system \<Rightarrow> zip_entry \<Rightarrow> string \<Rightarrow> unit go \<times> file_system" where
  "unzipFile fs f destination =
     (let filePath = filepath_Join destination (ze_Name f)
      in if \<not> strings_HasPrefix filePath (filepath_Clean destination @ ''/'')
         then (Err (ErrorString (''invalid file path: '' @ filePath)), fs)
         else if entry_IsDir f
         then
           (case os_MkdirAll fs filePath of
              Err e \<Rightarrow> (Err e, fs)
            | Panic m \<Rightarrow> (Panic m, fs)
            | Ok fs \<Rightarrow> (Ok (), fs))
         else
           (case os_MkdirAll fs (filepath_Dir filePath) of
              Err e \<Rightarrow> (Err e, fs)
            | Panic m \<Rightarrow> (Panic m, fs)
            | Ok fs \<Rightarrow>
                (case os_Create fs filePath of
                   Err e \<Rightarrow> (Err e, fs)
                 | Panic m \<Rightarrow> (Panic m, fs)
                 | Ok (destinationFile, fs) \<Rightarrow>
                     (let fs = os_Write fs destinationFile (ze_Content f)
                      in case ze_Err f of Some e \<Rightarrow> (Err e, fs) | None \<Rightarrow> (Ok (), fs)))))"

fun unzip_loop :: "file_system \<Rightarrow> string \<Rightarrow> zip_entry list \<Rightarrow> unit go \<times> file_system" where
  "unzip_loop fs destination [] = (Ok (), fs)"
| "unzip_loop fs destination (f # files) =
     (case unzipFile fs f destination of
        (Ok _, fs) \<Rightarrow> unzip_loop fs destination files
      | (Err e, fs) \<Rightarrow> (Err e, fs)
      | (Panic m, fs) \<Rightarrow> (Panic m, fs))"

definition unzip ::
  "(string \<Rightarrow> zip_entry list go) \<Rightarrow> file_system \<Rightarrow> string \<Rightarrow> string \<Rightarrow> unit go \<times> file_system" where
  "unzip dec fs source destination =
     (case go_bind (os_Open fs source) (\<lambda>n. case n of Directory es \<Rightarrow> Err EISDIR | File b \<Rightarrow> dec b) of
        Err e \<Rightarrow> (Err e, fs)
      | Panic m \<Rightarrow> (Panic m, fs)
      | Ok files \<Rightarrow> unzip_loop fs (filepath_Abs (abs_path (fs_cwd fs)) destination) files)"

section \<open>Zip Slip\<close>

text \<open>An unpacked file is strictly below the destination; nothing else changes content.\<close>

lemma os_Write_files:
  "\<nexists>es. p = handle @ es \<Longrightarrow>
   fetch (fs_root (os_Write fs handle bytes)) p = Ok (File b) \<longleftrightarrow> fetch (fs_root fs) p = Ok (File b)"
  by (auto simp: os_Write_def put_files split: go.splits node.splits)

lemma os_Create_handle: "os_Create fs p = Ok (h, fs') \<Longrightarrow> h = resolve fs p \<and> fs_root fs' = put h (File []) (fs_root fs)"
  by (auto simp: os_Create_def Let_def split: if_splits go.splits node.splits option.splits)

lemma os_MkdirAll_files:
  "os_MkdirAll fs p = Ok fs' \<Longrightarrow>
   fetch (fs_root fs') q = Ok (File b) \<longleftrightarrow> fetch (fs_root fs) q = Ok (File b)"
  by (auto simp: os_MkdirAll_def mkdirs_files split: if_splits)

lemma unzipFile_files:
  assumes "list_all proper ds" "\<nexists>e es. p = ds @ e # es"
  shows "fetch (fs_root (snd (unzipFile fs f (abs_path ds)))) p = Ok (File b) \<longleftrightarrow> fetch (fs_root fs) p = Ok (File b)"
proof -
  define cs where "cs = clean_comps True (ds @ path_comps (ze_Name f))"
  have path: "filepath_Join (abs_path ds) (ze_Name f) = abs_path cs"
    using assms(1) by (simp add: cs_def Join_abs)
  have "list_all proper cs"
    unfolding cs_def clean_comps_def
    using assms(1) by (intro clean_rooted_proper) (auto simp: list_all_iff dest: path_comps_pieces)
  then have prefix: "strings_HasPrefix (abs_path cs) (abs_path ds @ ''/'') \<Longrightarrow> \<nexists>es. p = cs @ es"
    using assms by (auto simp: HasPrefix_below)
  have cs: "resolve fs' (abs_path cs) = cs" for fs' using \<open>list_all proper cs\<close> by simp
  show ?thesis
  proof (cases "strings_HasPrefix (abs_path cs) (abs_path ds @ ''/'')")
    case True
    note p = prefix [OF True]
    show ?thesis
      using True assms(1) p
      by (auto simp: unzipFile_def path Let_def os_Write_files put_files cs
          dest!: os_Create_handle os_MkdirAll_files [where q = p and b = b]
          split: go.splits prod.splits option.splits)
  qed (use assms(1) in \<open>simp add: unzipFile_def path Let_def\<close>)
qed

lemma unzip_loop_files:
  assumes "list_all proper ds" "\<nexists>e es. p = ds @ e # es"
  shows "fetch (fs_root (snd (unzip_loop fs (abs_path ds) files))) p = Ok (File b) \<longleftrightarrow> fetch (fs_root fs) p = Ok (File b)"
proof (induction files arbitrary: fs)
  case (Cons f files)
  show ?case
    using unzipFile_files [OF assms, of fs f b] Cons
    by (cases "unzipFile fs f (abs_path ds)"; cases "fst (unzipFile fs f (abs_path ds))") auto
qed simp

lemma Abs_resolve:
  assumes "list_all proper (fs_cwd fs)"
  shows "filepath_Abs (abs_path (fs_cwd fs)) destination = abs_path (resolve fs destination)"
proof (cases "rooted destination")
  case True
  then show ?thesis by (simp add: Abs_rooted resolve_def)
next
  case False
  then show ?thesis using assms by (simp add: filepath_Abs_def Join_abs resolve_def)
qed

lemma resolve_proper: "list_all proper (fs_cwd fs) \<Longrightarrow> list_all proper (resolve fs p)"
  unfolding resolve_def clean_comps_def
  by (rule clean_rooted_proper) (auto simp: list_all_iff dest: path_comps_pieces split: if_splits)

lemma unzip_files:
  assumes "list_all proper (fs_cwd fs)" "\<nexists>e es. p = resolve fs destination @ e # es"
  shows "fetch (fs_root (snd (unzip dec fs source destination))) p = Ok (File b) \<longleftrightarrow>
    fetch (fs_root fs) p = Ok (File b)"
  using unzip_loop_files [OF resolve_proper [OF assms(1)] assms(2)]
  by (auto simp: unzip_def Abs_resolve [OF assms(1)] split: go.splits)

lemma unzipFile_rejects:
  assumes "list_all proper ds" "\<nexists>e es. clean_comps True (ds @ path_comps (ze_Name f)) = ds @ e # es"
  shows "unzipFile fs f (abs_path ds) =
    (Err (ErrorString (''invalid file path: '' @ abs_path (clean_comps True (ds @ path_comps (ze_Name f))))), fs)"
proof -
  let ?cs = "clean_comps True (ds @ path_comps (ze_Name f))"
  have "list_all proper ?cs"
    unfolding clean_comps_def
    using assms(1) by (intro clean_rooted_proper) (auto simp: list_all_iff dest: path_comps_pieces)
  then have "\<not> strings_HasPrefix (abs_path ?cs) (abs_path ds @ ''/'')"
    using assms by (simp add: HasPrefix_below)
  then show ?thesis using assms(1) by (simp add: unzipFile_def Join_abs Let_def)
qed

lemma unzipFile_root_rejects: "\<exists>e. unzipFile fs f (abs_path []) = (Err e, fs)"
proof -
  let ?cs = "clean_comps True (path_comps (ze_Name f))"
  have "\<not> strings_HasPrefix (abs_path ?cs) (abs_path [] @ ''/'')"
    using HasPrefix_below [OF clean_comps_rooted, of "[]"] by simp
  then show ?thesis by (simp add: unzipFile_def Join_abs Let_def)
qed

section \<open>Archiving and unpacking a tree\<close>

text \<open>The entries of a tree, named from \<open>rel\<close>.\<close>

function tree_entries :: "string list \<Rightarrow> node \<Rightarrow> zip_entry list" where
  "tree_entries rel (File b) =
     [\<lparr>ze_Name = strings_Join ''/'' rel, ze_Dir = False, ze_Content = b, ze_Err = None\<rparr>]"
| "tree_entries rel (Directory es) =
     \<lparr>ze_Name = strings_Join ''/'' rel @ ''/'', ze_Dir = True, ze_Content = [], ze_Err = None\<rparr> #
     concat (map (\<lambda>e. tree_entries (rel @ [fst e]) (snd e)) (sort_key fst es))"
  by pat_completeness auto

termination
proof (relation "measure (\<lambda>(p, n). size n)")
  fix rel :: "string list" and es :: "(string \<times> node) list" and e :: "string \<times> node"
  assume "e \<in> set (sort_key fst es)"
  then have "e \<in> set es" by simp
  then have "size (snd e) < size (Directory es)" by (induction es) auto
  then show "((rel @ [fst e], snd e), rel, Directory es) \<in> measure (\<lambda>(p, n). size n)" by simp
qed simp

lemma zip_walk_append:
  "zip_walk source xs = (zs, Ok ()) \<Longrightarrow>
   zip_walk source (xs @ ys) = (zs @ fst (zip_walk source ys), snd (zip_walk source ys))"
  by (induction xs arbitrary: zs) (auto split: go.splits prod.splits)

lemma zip_walk_concat:
  "(\<And>x. x \<in> set xs \<Longrightarrow> zip_walk source (f x) = (g x, Ok ())) \<Longrightarrow>
   zip_walk source (concat (map f xs)) = (concat (map g xs), Ok ())"
  by (induction xs) (simp_all add: zip_walk_append)

lemma zip_entry_of_abs:
  assumes "list_all proper (cs @ rel)" "rel \<noteq> []" "filepath_Dir source = abs_path cs"
  shows "zip_entry_of source (abs_path (cs @ rel), n) =
    Ok (case n of
        Directory es \<Rightarrow> \<lparr>ze_Name = strings_Join ''/'' rel @ ''/'', ze_Dir = True, ze_Content = [], ze_Err = None\<rparr>
      | File b \<Rightarrow> \<lparr>ze_Name = strings_Join ''/'' rel, ze_Dir = False, ze_Content = b, ze_Err = None\<rparr>)"
  using Rel_abs [OF assms(1,2)] by (simp add: zip_entry_of_def assms(3))

lemma zip_walk_tree:
  assumes "filepath_Dir source = abs_path cs"
  shows "wf_node n \<Longrightarrow> list_all proper (cs @ rel) \<Longrightarrow> rel \<noteq> [] \<Longrightarrow>
    zip_walk source (walk (abs_path (cs @ rel)) n) = (tree_entries rel n, Ok ())"
proof (induction rel n rule: tree_entries.induct)
  case (1 rel b)
  then show ?case using zip_entry_of_abs [OF _ _ assms, of rel "File b"] by simp
next
  case (2 rel es)
  have "zip_walk source (walk (filepath_Join (abs_path (cs @ rel)) (fst e)) (snd e)) =
      (tree_entries (rel @ [fst e]) (snd e), Ok ())" if "e \<in> set (sort_key fst es)" for e
  proof -
    have "proper (fst e)" "wf_node (snd e)" using 2(2) that by (auto simp: list_all_iff)
    with 2(1) [OF that] 2(3) show ?thesis by (simp add: Join_abs_child)
  qed
  then have "zip_walk source (concat (map (\<lambda>e. walk (filepath_Join (abs_path (cs @ rel)) (fst e)) (snd e)) (sort_key fst es))) =
      (concat (map (\<lambda>e. tree_entries (rel @ [fst e]) (snd e)) (sort_key fst es)), Ok ())"
    by (rule zip_walk_concat)
  with zip_entry_of_abs [OF 2(3,4) assms, of "Directory es"] show ?case by simp
qed

text \<open>A name that is free in an existing directory.\<close>

definition free_name :: "node \<Rightarrow> string list \<Rightarrow> bool" where
  "free_name n cs \<longleftrightarrow> cs \<noteq> [] \<and> (\<exists>es. fetch n (butlast cs) = Ok (Directory es) \<and> map_of es (last cs) = None)"

lemma free_in_directory: "free_name n cs \<Longrightarrow> in_directory n cs \<and> cs \<noteq> []"
  by (auto simp: free_name_def in_directory_def)

lemma put_again: "free_name n cs \<Longrightarrow> put cs m (put cs k n) = put cs m n"
  using put_put [of n cs "[]" m k] by (simp add: free_in_directory)

lemma fetch_put_here: "free_name n cs \<Longrightarrow> fetch (put cs m n) cs = Ok m"
  using fetch_put_below [of n cs m "[]"] by (simp add: free_in_directory)

lemma Join_proper_last: "list_all proper rel \<Longrightarrow> rel \<noteq> [] \<Longrightarrow> \<not> trailing_slash (strings_Join ''/'' rel)"
  using trailing_slash_abs [of rel] by (auto simp: abs_path_def trailing_slash_def split: if_splits)

lemma os_MkdirAll_free:
  assumes "list_all proper cs" "free_name (fs_root fs) cs"
  shows "os_MkdirAll fs (abs_path cs) = Ok (fs\<lparr>fs_root := put cs (Directory []) (fs_root fs)\<rparr>)"
    and "os_MkdirAll fs (abs_path (butlast cs)) = Ok fs"
proof -
  obtain es where es: "cs \<noteq> []" "fetch (fs_root fs) (butlast cs) = Ok (Directory es)" "map_of es (last cs) = None"
    using assms(2) by (auto simp: free_name_def)
  have "list_all proper (butlast cs)" using assms(1) by (auto simp: list_all_iff dest: in_set_butlastD)
  with mkdirs_new [OF es(2,3)] es(1) mkdirs_existing [OF es(2)] assms(1)
  show "os_MkdirAll fs (abs_path cs) = Ok (fs\<lparr>fs_root := put cs (Directory []) (fs_root fs)\<rparr>)"
    and "os_MkdirAll fs (abs_path (butlast cs)) = Ok fs"
    by (simp_all add: os_MkdirAll_def)
qed

lemma os_Create_free:
  assumes "list_all proper cs" "free_name (fs_root fs) cs"
  shows "os_Create fs (abs_path cs) = Ok (cs, fs\<lparr>fs_root := put cs (File []) (fs_root fs)\<rparr>)"
  using assms trailing_slash_abs [of cs] by (auto simp: os_Create_def free_name_def Let_def)

lemma os_Write_new:
  assumes "free_name (fs_root fs) cs"
  shows "os_Write (fs\<lparr>fs_root := put cs (File []) (fs_root fs)\<rparr>) cs b = fs\<lparr>fs_root := put cs (File b) (fs_root fs)\<rparr>"
  using assms by (simp add: os_Write_def fetch_put_here put_again)

lemma unzipFile_new:
  assumes "list_all proper (ds @ rel)" "ds \<noteq> []" "rel \<noteq> []" "free_name (fs_root fs) (ds @ rel)"
  shows "unzipFile fs \<lparr>ze_Name = strings_Join ''/'' rel, ze_Dir = False, ze_Content = b, ze_Err = None\<rparr> (abs_path ds) =
      (Ok (), fs\<lparr>fs_root := put (ds @ rel) (File b) (fs_root fs)\<rparr>)"
    and "unzipFile fs \<lparr>ze_Name = strings_Join ''/'' rel @ ''/'', ze_Dir = True, ze_Content = [], ze_Err = None\<rparr> (abs_path ds) =
      (Ok (), fs\<lparr>fs_root := put (ds @ rel) (Directory []) (fs_root fs)\<rparr>)"
proof -
  have ds: "list_all proper ds" and rel: "list_all proper rel" using assms(1) by simp_all
  have path: "filepath_Join (abs_path ds) name = abs_path (ds @ rel)" if "path_comps name = rel" for name
    using Join_abs_proper [OF ds rel that] .
  have prefix: "strings_HasPrefix (abs_path (ds @ rel)) (abs_path ds @ ''/'')"
    using HasPrefix_below [OF assms(1) ds] assms(2,3) by (cases rel) auto
  have dir: "filepath_Dir (abs_path (ds @ rel)) = abs_path (butlast (ds @ rel))"
  proof -
    have "butlast (ds @ rel) @ [last (ds @ rel)] = ds @ rel"
      using assms(3) by (intro append_butlast_last_id) simp
    with Dir_abs [of "butlast (ds @ rel)" "last (ds @ rel)"] assms(1) show ?thesis by metis
  qed
  note calls = os_MkdirAll_free [OF assms(1,4)] os_Create_free [OF assms(1,4)] os_Write_new [OF assms(4)]
  show "unzipFile fs \<lparr>ze_Name = strings_Join ''/'' rel, ze_Dir = False, ze_Content = b, ze_Err = None\<rparr> (abs_path ds) =
      (Ok (), fs\<lparr>fs_root := put (ds @ rel) (File b) (fs_root fs)\<rparr>)"
    using path [OF path_comps_proper [OF rel]] prefix dir calls ds Join_proper_last [OF rel assms(3)]
    by (simp add: unzipFile_def entry_IsDir_def Let_def)
  have "path_comps (strings_Join ''/'' rel @ ''/'') = rel"
    using path_comps_slash [of "strings_Join ''/'' rel" "[]"] path_comps_proper [OF rel] by simp
  from path [OF this] prefix calls ds
  show "unzipFile fs \<lparr>ze_Name = strings_Join ''/'' rel @ ''/'', ze_Dir = True, ze_Content = [], ze_Err = None\<rparr> (abs_path ds) =
      (Ok (), fs\<lparr>fs_root := put (ds @ rel) (Directory []) (fs_root fs)\<rparr>)"
    by (simp add: unzipFile_def entry_IsDir_def Let_def)
qed

lemma unzip_loop_append:
  "unzip_loop fs d xs = (Ok (), fs') \<Longrightarrow> unzip_loop fs d (xs @ ys) = unzip_loop fs' d ys"
  by (induction xs arbitrary: fs) (auto split: prod.splits go.splits)

lemma unzip_children:
  assumes cs: "free_name (fs_root fs) cs"
    and child: "\<And>e fs. e \<in> set xs \<Longrightarrow> free_name (fs_root fs) (cs @ [fst e]) \<Longrightarrow>
      unzip_loop fs d (f e) = (Ok (), fs\<lparr>fs_root := put (cs @ [fst e]) (g e) (fs_root fs)\<rparr>)"
  shows "distinct (map fst xs) \<Longrightarrow> fst ` set acc \<inter> fst ` set xs = {} \<Longrightarrow>
    unzip_loop (fs\<lparr>fs_root := put cs (Directory acc) (fs_root fs)\<rparr>) d (concat (map f xs)) =
      (Ok (), fs\<lparr>fs_root := put cs (Directory (acc @ map (\<lambda>e. (fst e, g e)) xs)) (fs_root fs)\<rparr>)"
  using child
proof (induction xs arbitrary: acc)
  case (Cons e xs)
  let ?fs = "fs\<lparr>fs_root := put cs (Directory acc) (fs_root fs)\<rparr>"
  have free: "map_of acc (fst e) = None" using Cons.prems(2) by (auto simp: map_of_eq_None_iff)
  then have "free_name (fs_root ?fs) (cs @ [fst e])"
    using fetch_put_here [OF cs] by (simp add: free_name_def)
  from Cons.prems(3) [OF _ this]
  have "unzip_loop ?fs d (f e) = (Ok (), fs\<lparr>fs_root := put cs (Directory (acc @ [(fst e, g e)])) (fs_root fs)\<rparr>)"
    using free_in_directory [OF cs] free by (simp add: put_put update_new)
  moreover have "distinct (map fst xs)" "fst ` set (acc @ [(fst e, g e)]) \<inter> fst ` set xs = {}"
    using Cons.prems(1,2) by auto
  ultimately show ?case using Cons.IH [of "acc @ [(fst e, g e)]"] Cons.prems(3)
    by (simp add: unzip_loop_append)
qed simp

lemma unzip_tree:
  assumes "ds \<noteq> []"
  shows "wf_node n \<Longrightarrow> list_all proper (ds @ rel) \<Longrightarrow> rel \<noteq> [] \<Longrightarrow> free_name (fs_root fs) (ds @ rel) \<Longrightarrow>
    unzip_loop fs (abs_path ds) (tree_entries rel n) =
      (Ok (), fs\<lparr>fs_root := put (ds @ rel) (sort_node n) (fs_root fs)\<rparr>)"
proof (induction rel n arbitrary: fs rule: tree_entries.induct)
  case (1 rel b)
  then show ?case using unzipFile_new(1) [OF _ assms, of rel fs b] by simp
next
  case (2 rel es)
  have "unzip_loop (fs\<lparr>fs_root := put (ds @ rel) (Directory []) (fs_root fs)\<rparr>) (abs_path ds)
      (concat (map (\<lambda>e. tree_entries (rel @ [fst e]) (snd e)) (sort_key fst es))) =
      (Ok (), fs\<lparr>fs_root := put (ds @ rel)
        (Directory ([] @ map (\<lambda>e. (fst e, sort_node (snd e))) (sort_key fst es))) (fs_root fs)\<rparr>)"
  proof (rule unzip_children [OF 2(5)])
    fix e and fs' :: file_system
    assume e: "e \<in> set (sort_key fst es)" and free: "free_name (fs_root fs') ((ds @ rel) @ [fst e])"
    then have "proper (fst e)" "wf_node (snd e)" using 2(2) by (auto simp: list_all_iff)
    with 2(1) [OF e, of fs'] 2(3) free
    show "unzip_loop fs' (abs_path ds) (tree_entries (rel @ [fst e]) (snd e)) =
        (Ok (), fs'\<lparr>fs_root := put ((ds @ rel) @ [fst e]) (sort_node (snd e)) (fs_root fs')\<rparr>)"
      by simp
  next
    have "distinct (map fst es)" using 2(2) by simp
    then show "distinct (map fst (sort_key fst es))"
      by (simp add: distinct_map inj_on_def)
  qed simp
  with unzipFile_new(2) [OF 2(3) assms 2(4,5)] show ?case by simp
qed

text \<open>The two halves together.\<close>

lemma os_Open_fetch:
  "list_all proper cs \<Longrightarrow> cs \<noteq> [] \<Longrightarrow> os_Open fs (abs_path cs) = fetch (fs_root fs) cs"
  by (simp add: os_Open_def trailing_slash_abs)

lemma zipFile_tree:
  assumes "list_all proper (cs @ [c])" "list_all proper ts" "wf_node n"
    and "fetch (fs_root fs) (cs @ [c]) = Ok n" "free_name (fs_root fs) ts"
    and "\<nexists>us. cs @ [c] = ts @ us" "\<nexists>us. ts = (cs @ [c]) @ us"
  shows "zipFile enc fs (abs_path (cs @ [c])) (abs_path ts) =
    (Ok (), fs\<lparr>fs_root := put ts (File (enc (tree_entries [c] n))) (fs_root fs)\<rparr>)"
proof -
  have ts: "ts \<noteq> []" using assms(5) by (simp add: free_name_def)
  have keep: "fetch (put ts m (fs_root fs)) (cs @ [c]) = Ok n" for m
    using fetch_put_apart [OF assms(6,7)] assms(4) by simp
  have walk: "zip_walk (abs_path (cs @ [c])) (walk (abs_path (cs @ [c])) n) = (tree_entries [c] n, Ok ())"
    using zip_walk_tree [OF Dir_abs [OF assms(1)] assms(3) assms(1)] by simp
  show ?thesis
    using os_Create_free [OF assms(2,5)] walk assms(1)
    by (simp add: zipFile_def os_Open_fetch keep os_Write_new [OF assms(5)])
qed

lemma unzip_archive:
  assumes "list_all proper us" "list_all proper (ds @ [c])" "ds \<noteq> []" "us \<noteq> []" "wf_node n"
    and "fetch (fs_root fs) us = Ok (File b)" "dec b = Ok (tree_entries [c] n)"
    and "free_name (fs_root fs) (ds @ [c])"
  shows "unzip dec fs (abs_path us) (abs_path ds) =
    (Ok (), fs\<lparr>fs_root := put (ds @ [c]) (sort_node n) (fs_root fs)\<rparr>)"
proof -
  have "filepath_Abs (abs_path (fs_cwd fs)) (abs_path ds) = abs_path ds"
    using assms(2) by (simp add: filepath_Abs_def)
  then show ?thesis
    using unzip_tree [OF assms(3,5,2) _ assms(8)] assms(1,4,6,7) by (simp add: unzip_def os_Open_fetch)
qed

section \<open>A source with a trailing slash\<close>

lemma slash_source:
  assumes "list_all proper cs" "cs \<noteq> []"
  shows "filepath_Dir (abs_path cs @ ''/'') = abs_path cs"
proof -
  have "strings_Split CHR ''/'' (abs_path cs @ ''/'') = ([] # cs) @ [[]]"
    using Split_abs [OF assms] Split_sep [of "CHR ''/''" "abs_path cs" "[]"] by simp
  moreover have "path_comps (concat (map (\<lambda>c. c @ ''/'') cs)) = cs"
    using assms(1) by (induction cs) (simp_all add: path_comps_single)
  then have "filepath_Clean (CHR ''/'' # concat (map (\<lambda>c. c @ ''/'') cs)) = abs_path cs"
    using assms(1) by (simp add: Clean_rooted rooted_def)
  ultimately show ?thesis by (simp add: filepath_Dir_def butlast_append)
qed

lemma slash_source_entry:
  assumes "list_all proper cs" "cs \<noteq> []"
  shows "zip_entry_of (abs_path cs @ ''/'') (abs_path cs @ ''/'', Directory es) =
    Ok \<lparr>ze_Name = ''./'', ze_Dir = True, ze_Content = [], ze_Err = None\<rparr>"
proof -
  have "path_comps (abs_path cs @ ''/'') = cs"
    using assms(1) path_comps_slash [of "abs_path cs" "[]"] by simp
  moreover have "rooted (abs_path cs @ ''/'')" by (simp add: abs_path_def rooted_def)
  ultimately have "filepath_Clean (abs_path cs @ ''/'') = abs_path cs"
    using assms(1) by (simp add: Clean_rooted)
  then show ?thesis
    using assms by (simp add: zip_entry_of_def slash_source filepath_Rel_def)
qed

lemma dot_entry_rejected:
  "list_all proper ds \<Longrightarrow>
   \<exists>e. unzipFile fs \<lparr>ze_Name = ''./'', ze_Dir = True, ze_Content = [], ze_Err = None\<rparr> (abs_path ds) = (Err e, fs)"
  using unzipFile_rejects [of ds "\<lparr>ze_Name = ''./'', ze_Dir = True, ze_Content = [], ze_Err = None\<rparr>" fs]
  by (simp add: path_comps_def)

section \<open>The format\<close>

text \<open>What is assumed of \<open>archive/zip\<close>: an archive is read as the entries written to it.\<close>

definition zip_format :: "(zip_entry list \<Rightarrow> string) \<Rightarrow> (string \<Rightarrow> zip_entry list go) \<Rightarrow> bool" where
  "zip_format enc dec \<longleftrightarrow> (\<forall>es. list_all (\<lambda>z. ze_Err z = None) es \<longrightarrow> dec (enc es) = Ok es)"

text \<open>A format that meets the assumption, for the witnesses: every byte is marked.\<close>

definition mark_bytes :: "string \<Rightarrow> string" where
  "mark_bytes s = concat (map (\<lambda>c. [CHR ''b'', c]) s) @ ''e''"

fun unmark_bytes :: "string \<Rightarrow> string \<times> string" where
  "unmark_bytes (b # c # s) =
     (if b = CHR ''e'' then ([], c # s) else (let (t, r) = unmark_bytes s in (c # t, r)))"
| "unmark_bytes s = ([], [])"

definition plain_enc :: "zip_entry list \<Rightarrow> string" where
  "plain_enc es =
     concat (map (\<lambda>z. (if ze_Dir z then ''d'' else ''f'') @ mark_bytes (ze_Name z) @ mark_bytes (ze_Content z)) es)
     @ ''..''"

fun plain_dec_loop :: "nat \<Rightarrow> string \<Rightarrow> zip_entry list" where
  "plain_dec_loop 0 s = []"
| "plain_dec_loop (Suc n) [] = []"
| "plain_dec_loop (Suc n) (k # s) =
     (if k = CHR ''.'' then []
      else
        (let (name, s) = unmark_bytes s; (content, s) = unmark_bytes s
         in \<lparr>ze_Name = name, ze_Dir = (k = CHR ''d''), ze_Content = content, ze_Err = None\<rparr> # plain_dec_loop n s))"

definition plain_dec :: "string \<Rightarrow> zip_entry list go" where
  "plain_dec s = Ok (plain_dec_loop (length s) s)"

lemma unmark_mark: "r \<noteq> [] \<Longrightarrow> unmark_bytes (mark_bytes s @ r) = (s, r)"
  by (induction s) (auto simp: mark_bytes_def neq_Nil_conv)

lemma plain_dec_loop_enc:
  "list_all (\<lambda>z. ze_Err z = None) es \<Longrightarrow> length es < n \<Longrightarrow> plain_dec_loop n (plain_enc es) = es"
proof (induction es arbitrary: n)
  case Nil
  then show ?case by (cases n) (simp_all add: plain_enc_def)
next
  case (Cons z es)
  then obtain m where n: "n = Suc m" by (cases n) auto
  have "plain_enc (z # es) =
      (if ze_Dir z then CHR ''d'' else CHR ''f'') # mark_bytes (ze_Name z) @ mark_bytes (ze_Content z) @ plain_enc es"
    by (simp add: plain_enc_def)
  moreover have "mark_bytes (ze_Content z) @ plain_enc es \<noteq> []" "plain_enc es \<noteq> []"
    by (simp_all add: plain_enc_def)
  ultimately show ?case using Cons n by (cases z) (auto simp: unmark_mark)
qed

lemma plain_format: "zip_format plain_enc plain_dec"
proof -
  have "length es < length (plain_enc es)" for es
    by (induction es) (auto simp: plain_enc_def)
  then show ?thesis by (simp add: zip_format_def plain_dec_def plain_dec_loop_enc)
qed

lemma tree_entries_no_error: "list_all (\<lambda>z. ze_Err z = None) (tree_entries rel n)"
  by (induction rel n rule: tree_entries.induct) (auto simp: list_all_iff)

lemma zip_walk_no_error: "list_all (\<lambda>z. ze_Err z = None) (fst (zip_walk source xs))"
proof (induction xs)
  case (Cons x xs)
  have "ze_Err z = None" if "zip_entry_of source x = Ok z" for z
    using that by (cases "snd x") (auto simp: zip_entry_of_def)
  with Cons show ?case
    by (cases "zip_entry_of source x"; cases "zip_walk source xs") auto
qed simp

lemma fetch_put_inside:
  "fetch n cs = Ok (Directory es) \<Longrightarrow> \<exists>es'. fetch (put (cs @ d # ds) m n) cs = Ok (Directory es')"
  by (induction n cs rule: fetch.induct) (auto split: option.splits)

lemma zip_walk_slash:
  assumes "list_all proper cs" "cs \<noteq> []"
  shows "\<exists>zs. fst (zip_walk (abs_path cs @ ''/'') (walk (abs_path cs @ ''/'') (Directory es))) =
    \<lparr>ze_Name = ''./'', ze_Dir = True, ze_Content = [], ze_Err = None\<rparr> # zs"
  using slash_source_entry [OF assms] by (simp split: prod.splits)

lemma zipFile_slash:
  assumes "list_all proper cs" "cs \<noteq> []" "fetch (fs_root fs) cs = Ok (Directory es)" "map_of es ''.zip'' = None"
  shows "\<exists>r zs. zipFile enc fs (abs_path cs @ ''/'') (abs_path cs @ ''/'' @ ''.zip'') =
    (r, fs\<lparr>fs_root := put (cs @ [''.zip'']) (File (enc (\<lparr>ze_Name = ''./'', ze_Dir = True, ze_Content = [], ze_Err = None\<rparr> # zs))) (fs_root fs)\<rparr>) \<and>
    list_all (\<lambda>z. ze_Err z = None) zs"
proof -
  let ?ts = "cs @ [''.zip'']" and ?src = "abs_path cs @ ''/''"
  have target: "?src @ ''.zip'' = abs_path ?ts"
    using abs_path_append [OF assms(2), of "[''.zip'']"] by simp
  have ts: "list_all proper ?ts" "free_name (fs_root fs) ?ts"
    using assms by (simp_all add: free_name_def proper_def)
  let ?fs = "fs\<lparr>fs_root := put ?ts (File []) (fs_root fs)\<rparr>"
  obtain es' where es': "fetch (fs_root ?fs) cs = Ok (Directory es')"
    using fetch_put_inside [OF assms(3), of "''.zip''" "[]"] by auto
  have "resolve ?fs ?src = cs"
  proof -
    have "rooted ?src" by (simp add: abs_path_def rooted_def)
    then show ?thesis
      using assms(1) path_comps_slash [of "abs_path cs" "[]"] by (simp add: resolve_def)
  qed
  with es' have opened: "os_Open ?fs ?src = Ok (Directory es')" by (simp add: os_Open_def)
  obtain zs where zs: "fst (zip_walk ?src (walk ?src (Directory es'))) =
      \<lparr>ze_Name = ''./'', ze_Dir = True, ze_Content = [], ze_Err = None\<rparr> # zs"
    using zip_walk_slash [OF assms(1,2)] by blast
  then have "list_all (\<lambda>z. ze_Err z = None) zs"
    using zip_walk_no_error [of ?src "walk ?src (Directory es')"] by simp
  moreover have "zipFile enc fs ?src (abs_path ?ts) =
      (snd (zip_walk ?src (walk ?src (Directory es'))), os_Write ?fs ?ts (enc (fst (zip_walk ?src (walk ?src (Directory es'))))))"
    unfolding zipFile_def os_Create_free [OF ts] go.case prod.case opened by (simp split: prod.splits)
  ultimately show ?thesis
    using zs os_Write_new [OF ts(2)] target by (metis append_assoc)
qed

text \<open>
  A source given with a trailing slash is archived into a file no destination accepts:
  its first entry names the destination itself, which the check against Zip Slip rejects, so
  unpacking the archive \<open>from/.zip\<close> fails everywhere and writes nothing.
\<close>

lemma trailing_slash_archive_rejected:
  assumes "zip_format enc dec" "list_all proper cs" "cs \<noteq> []"
    and "fetch (fs_root fs) cs = Ok (Directory es)" "map_of es ''.zip'' = None"
  shows "\<exists>r b fs1. zipFile enc fs (abs_path cs @ ''/'') (abs_path cs @ ''/'' @ ''.zip'') = (r, fs1) \<and>
    fetch (fs_root fs1) (cs @ [''.zip'']) = Ok (File b) \<and>
    (\<forall>fs' us ds. list_all proper us \<and> us \<noteq> [] \<and> list_all proper ds \<and> fetch (fs_root fs') us = Ok (File b) \<longrightarrow>
      (\<exists>e. unzip dec fs' (abs_path us) (abs_path ds) = (Err e, fs')))"
proof -
  obtain r zs where zip: "zipFile enc fs (abs_path cs @ ''/'') (abs_path cs @ ''/'' @ ''.zip'') =
      (r, fs\<lparr>fs_root := put (cs @ [''.zip'']) (File (enc (\<lparr>ze_Name = ''./'', ze_Dir = True, ze_Content = [], ze_Err = None\<rparr> # zs))) (fs_root fs)\<rparr>)"
    and zs: "list_all (\<lambda>z. ze_Err z = None) zs"
    using zipFile_slash [OF assms(2-5)] by blast
  let ?es = "\<lparr>ze_Name = ''./'', ze_Dir = True, ze_Content = [], ze_Err = None\<rparr> # zs"
  have free: "free_name (fs_root fs) (cs @ [''.zip''])" using assms(4,5) by (simp add: free_name_def)
  have dec: "dec (enc ?es) = Ok ?es" using assms(1) zs by (simp add: zip_format_def)
  have "\<exists>e. unzip dec fs' (abs_path us) (abs_path ds) = (Err e, fs')"
    if us: "list_all proper us" "us \<noteq> []" "fetch (fs_root fs') us = Ok (File (enc ?es))"
      and ds: "list_all proper ds" for fs' us ds
  proof -
    have "filepath_Abs (abs_path (fs_cwd fs')) (abs_path ds) = abs_path ds"
      using ds by (simp add: filepath_Abs_def)
    moreover obtain e where "unzipFile fs' \<lparr>ze_Name = ''./'', ze_Dir = True, ze_Content = [], ze_Err = None\<rparr> (abs_path ds) = (Err e, fs')"
      using dot_entry_rejected [OF ds] by blast
    ultimately show ?thesis using us dec by (simp add: unzip_def os_Open_fetch)
  qed
  with zip fetch_put_here [OF free] show ?thesis
    by (intro exI [of _ r] exI [of _ "enc ?es"] exI conjI) (assumption, simp, blast)
qed

text \<open>
  No archive with an entry can be unpacked into the root directory.
\<close>

lemma unzip_into_root_fails:
  assumes "os_Open fs source = Ok (File b)" "dec b = Ok (f # files)"
    and "list_all proper (fs_cwd fs)" "resolve fs destination = []"
  shows "\<exists>e. unzip dec fs source destination = (Err e, fs)"
  using unzipFile_root_rejects [of fs f] assms by (auto simp: unzip_def Abs_resolve)

section \<open>Properties\<close>

text \<open>
  C30. Zip Slip is excluded: whatever an archive holds and whether or not unpacking succeeds,
  no file outside the destination directory is created, changed or removed.
\<close>

theorem unzip_stays_below:
  assumes "list_all proper (fs_cwd fs)"
    and "\<nexists>e es. p = resolve fs destination @ e # es"
  shows "fetch (fs_root (snd (unzip dec fs source destination))) p = Ok (File b) \<longleftrightarrow>
    fetch (fs_root fs) p = Ok (File b)"
  using assms by (rule unzip_files)

text \<open>
  C31. A file or directory comes back from its archive: unpacking, on any machine and into any
  directory but the root where the name is free, what \<open>zipFile\<close> wrote, succeeds, adds the whole
  tree under its own name and changes nothing else.
\<close>

theorem archive_roundtrip:
  assumes "zip_format enc dec" "wf_node n"
    and "list_all proper (cs @ [c])" "fetch (fs_root fs) (cs @ [c]) = Ok n"
    and "list_all proper ts" "free_name (fs_root fs) ts" "\<nexists>us. cs @ [c] = ts @ us" "\<nexists>us. ts = (cs @ [c]) @ us"
    and "list_all proper us" "us \<noteq> []" "list_all proper ds" "ds \<noteq> []" "free_name (fs_root fs') (ds @ [c])"
  shows "\<exists>b fs1. zipFile enc fs (abs_path (cs @ [c])) (abs_path ts) = (Ok (), fs1) \<and>
    fetch (fs_root fs1) ts = Ok (File b) \<and>
    (fetch (fs_root fs') us = Ok (File b) \<longrightarrow>
      unzip dec fs' (abs_path us) (abs_path ds) =
        (Ok (), fs'\<lparr>fs_root := put (ds @ [c]) (sort_node n) (fs_root fs')\<rparr>))"
proof (intro exI conjI impI)
  let ?b = "enc (tree_entries [c] n)"
  show "zipFile enc fs (abs_path (cs @ [c])) (abs_path ts) = (Ok (), fs\<lparr>fs_root := put ts (File ?b) (fs_root fs)\<rparr>)"
    by (rule zipFile_tree) (fact assms)+
  show "fetch (fs_root (fs\<lparr>fs_root := put ts (File ?b) (fs_root fs)\<rparr>)) ts = Ok (File ?b)"
    using fetch_put_here [OF assms(6)] by simp
  assume "fetch (fs_root fs') us = Ok (File ?b)"
  moreover have "dec ?b = Ok (tree_entries [c] n)"
    using assms(1) tree_entries_no_error by (simp add: zip_format_def)
  ultimately show "unzip dec fs' (abs_path us) (abs_path ds) =
      (Ok (), fs'\<lparr>fs_root := put (ds @ [c]) (sort_node n) (fs_root fs')\<rparr>)"
    using assms(2,3,9-13) by (intro unzip_archive) simp_all
qed

definition example_files :: file_system where
  "example_files =
     \<lparr>fs_root = Directory
        [(''out'', Directory [(''log'', File ''done''), (''data'', Directory [(''x'', File ''1'')])]),
         (''out.zip'', File ''old'')],
      fs_cwd = []\<rparr>"

definition example_mount :: file_system where
  "example_mount = \<lparr>fs_root = Directory [(''mnt'', Directory []), (''etc'', File ''root'')], fs_cwd = []\<rparr>"

lemma proper_names [simp]:
  "proper ''out''" "proper ''log''" "proper ''data''" "proper ''x''" "proper ''mnt''" "proper ''etc''"
  "proper ''a.zip''" "proper ''out.zip''"
  by (simp_all add: proper_def)

theorem unzip_stays_below_witness:
  "fetch (fs_root (snd (unzip (\<lambda>b. Ok [\<lparr>ze_Name = ''../etc'', ze_Dir = False, ze_Content = ''evil'', ze_Err = None\<rparr>])
      example_mount ''/etc'' ''/mnt''))) [''etc''] = Ok (File ''root'')"
proof -
  have "resolve example_mount ''/mnt'' = [''mnt'']" by code_simp
  moreover have "fetch (fs_root example_mount) [''etc''] = Ok (File ''root'')" by (simp add: example_mount_def)
  ultimately show ?thesis
    by (subst unzip_stays_below) (simp_all add: example_mount_def)
qed

theorem archive_roundtrip_witness:
  "\<exists>b fs1. zipFile plain_enc example_files (abs_path [''out'']) (abs_path [''a.zip'']) = (Ok (), fs1) \<and>
    fetch (fs_root fs1) [''a.zip''] = Ok (File b)"
  using archive_roundtrip [OF plain_format, of
      "Directory [(''log'', File ''done''), (''data'', Directory [(''x'', File ''1'')])]" "[]" "''out''"
      example_files "[''a.zip'']" "[''etc'']" "[''mnt'']" example_mount]
  by (auto simp: example_files_def example_mount_def free_name_def)


end
