(* ===== verification/File_Service.thy ===== *)
theory File_Service
  imports Zip_Archive Workload_Api
begin

text \<open>
  The files red-box serves: \<open>Open\<close>, \<open>Create\<close>, \<open>Zip\<close> and \<open>Unzip\<close> of the local client
  (\<open>pkg/slurm/slurm.go\<close>) and the handlers \<open>OpenFile\<close>, \<open>CreateFile\<close>, \<open>Zip\<close> and \<open>Unzip\<close> over
  them (\<open>internal/red-box/api/slurm.go\<close>). A file goes over the wire in chunks of at most 128
  bytes. Tailing a file is in \<open>Tail_Reader\<close>.
\<close>

section \<open>The local client\<close>

definition Client_Open :: "file_system \<Rightarrow> string \<Rightarrow> node go" where
  "Client_Open fs path =
     (case os_Open fs path of
        Ok file \<Rightarrow> Ok file
      | Err e \<Rightarrow> if os_IsNotExist e then Err ErrFileNotFound else Err (Wrapped (''could not open '' @ path) e)
      | Panic m \<Rightarrow> Panic m)"

definition Client_Create :: "file_system \<Rightarrow> string \<Rightarrow> string list go \<times> file_system" where
  "Client_Create fs path =
     (case os_MkdirAll fs (filepath_Dir path) of
        Err e \<Rightarrow> (Err e, fs)
      | Panic m \<Rightarrow> (Panic m, fs)
      | Ok fs \<Rightarrow>
          (case os_Create fs path of
             Err e \<Rightarrow> (Err e, fs)
           | Panic m \<Rightarrow> (Panic m, fs)
           | Ok (file, fs) \<Rightarrow> (Ok file, fs)))"

definition Client_Zip ::
  "(zip_entry list \<Rightarrow> string) \<Rightarrow> file_system \<Rightarrow> string \<Rightarrow> string \<Rightarrow> unit go \<times> file_system" where
  "Client_Zip enc fs path target =
     (case zipFile enc fs path target of (r, fs) \<Rightarrow> (go_wrap ''could not zip file or directory'' r, fs))"

definition Client_Unzip ::
  "(string \<Rightarrow> zip_entry list go) \<Rightarrow> file_system \<Rightarrow> string \<Rightarrow> string \<Rightarrow> unit go \<times> file_system" where
  "Client_Unzip dec fs source path =
     (case unzip dec fs source path of (r, fs) \<Rightarrow> (go_wrap ''could not unzip file'' r, fs))"

section \<open>Reading in chunks\<close>

text \<open>
  \<open>fd.Read(buff)\<close> of a file that is read to its end: the handle is what is left. A directory
  can be opened and not read.
\<close>

fun fd_Read :: "node \<Rightarrow> nat \<Rightarrow> (string \<times> go_error option) \<times> node" where
  "fd_Read (Directory es) n = (([], Some EISDIR), Directory es)"
| "fd_Read (File b) n =
     (if b = [] then (([], Some EOF), File []) else ((take n b, None), File (drop n b)))"

text \<open>
  The loop of \<open>OpenFile\<close>. \<open>send\<close> is \<open>req.Send\<close> on the state of the stream. The value is \<open>None\<close>
  when the loop does not end.
\<close>

partial_function (option) open_loop ::
  "('c \<Rightarrow> chunk \<Rightarrow> 'c \<times> go_error option) \<Rightarrow> node \<Rightarrow> 'c \<Rightarrow> (unit go \<times> 'c) option" where
  "open_loop send fd st =
     (let ((buff, err), fd) = fd_Read fd 128;
          (st, sent) = (if length buff > 0 then send st \<lparr>ch_Content = buff\<rparr> else (st, None))
      in case sent of
           Some e \<Rightarrow> Some (Err (Wrapped ''could not send chunk'' e), st)
         | None \<Rightarrow>
             (case err of
                None \<Rightarrow> open_loop send fd st
              | Some e \<Rightarrow> if e = EOF then Some (Ok (), st) else Some (Err e, st)))"

definition OpenFile ::
  "('c \<Rightarrow> chunk \<Rightarrow> 'c \<times> go_error option) \<Rightarrow> file_system \<Rightarrow> open_file_request \<Rightarrow> 'c \<Rightarrow> (unit go \<times> 'c) option" where
  "OpenFile send fs r st =
     (case Client_Open fs (ofr_Path r) of
        Err e \<Rightarrow> Some (Err (Wrapped (''could not open file at '' @ ofr_Path r) e), st)
      | Panic m \<Rightarrow> Some (Panic m, st)
      | Ok fd \<Rightarrow> open_loop send fd st)"

section \<open>Writing what a client sends\<close>

text \<open>
  The requests of the stream come one by one; \<open>fin\<close> is the error the stream ends with, \<open>EOF\<close>
  when the client closes it. \<open>wfail\<close> is the error a write ends with: the server then leaves
  the process (\<open>log.Fatalf\<close>), written \<open>Panic\<close> here.
\<close>

fun create_loop ::
  "(string \<Rightarrow> go_error option) \<Rightarrow> file_system \<Rightarrow> string list \<Rightarrow> create_file_request list \<Rightarrow> go_error \<Rightarrow>
   unit go \<times> file_system" where
  "create_loop wfail fs fd [] fin = (if fin = EOF then Ok () else Err fin, fs)"
| "create_loop wfail fs fd (r # rs) fin =
     (case cfr_Content r of
        None \<Rightarrow> create_loop wfail fs fd rs fin
      | Some content \<Rightarrow>
          (case wfail content of
             Some e \<Rightarrow> (Panic ''can't write to file'', fs)
           | None \<Rightarrow> create_loop wfail (os_Write fs fd content) fd rs fin))"

text \<open>The error of \<open>SendAndClose\<close> is assigned and dropped.\<close>

definition CreateFile ::
  "(string \<Rightarrow> go_error option) \<Rightarrow> file_system \<Rightarrow> create_file_request list \<Rightarrow> go_error \<Rightarrow> unit go \<times> file_system" where
  "CreateFile wfail fs reqs fin =
     (case reqs of
        [] \<Rightarrow> (Err (Wrapped ''could not receive request'' fin), fs)
      | r # rs \<Rightarrow>
          (case Client_Create fs (cfr_Path r) of
             (Err e, fs) \<Rightarrow> (Err (Wrapped (''could not open file at '' @ cfr_Path r) e), fs)
           | (Panic m, fs) \<Rightarrow> (Panic m, fs)
           | (Ok fd, fs) \<Rightarrow> create_loop wfail fs fd rs fin))"

definition Zip_handler ::
  "(zip_entry list \<Rightarrow> string) \<Rightarrow> file_system \<Rightarrow> zip_request \<Rightarrow> unit go \<times> file_system" where
  "Zip_handler enc fs req =
     (case Client_Zip enc fs (zr_Path req) (zr_Target req) of (r, fs) \<Rightarrow> (go_wrap ''could not zip'' r, fs))"

definition Unzip_handler ::
  "(string \<Rightarrow> zip_entry list go) \<Rightarrow> file_system \<Rightarrow> unzip_request \<Rightarrow> unit go \<times> file_system" where
  "Unzip_handler dec fs req =
     (case Client_Unzip dec fs (uzr_Source req) (uzr_Path req) of (r, fs) \<Rightarrow> (go_wrap ''could not unzip'' r, fs))"

section \<open>What arrives\<close>

text \<open>The content of a file in pieces of 128 bytes.\<close>

fun chunks_of :: "nat \<Rightarrow> string \<Rightarrow> string list" where
  "chunks_of 0 b = []"
| "chunks_of (Suc n) b = (if b = [] then [] else take 128 b # chunks_of n (drop 128 b))"

definition file_chunks :: "string \<Rightarrow> string list" where
  "file_chunks b = chunks_of (length b) b"

lemma chunks_of_concat: "length b \<le> n \<Longrightarrow> concat (chunks_of n b) = b"
  by (induction n b rule: chunks_of.induct) auto

lemma file_chunks_concat [simp]: "concat (file_chunks b) = b"
  by (simp add: file_chunks_def chunks_of_concat)

lemma chunks_of_sizes: "c \<in> set (chunks_of n b) \<Longrightarrow> c \<noteq> [] \<and> length c \<le> 128"
  by (induction n b rule: chunks_of.induct) (auto split: if_splits)

text \<open>A stream that takes every chunk.\<close>

definition collect :: "chunk list \<Rightarrow> chunk \<Rightarrow> chunk list \<times> go_error option" where
  "collect st c = (st @ [c], None)"


lemma open_loop_sends:
  "length b \<le> n \<Longrightarrow>
   open_loop (\<lambda>st c. (push st c, None)) (File b) st =
     Some (Ok (), fold (\<lambda>c st. push st \<lparr>ch_Content = c\<rparr>) (chunks_of n b) st)"
proof (induction n b arbitrary: st rule: chunks_of.induct)
  case (1 b)
  then show ?case by (subst open_loop.simps) simp
next
  case (2 n b)
  show ?case
  proof (cases "b = []")
    case True
    then show ?thesis by (subst open_loop.simps) simp
  next
    case False
    then have "open_loop (\<lambda>st c. (push st c, None)) (File b) st =
        open_loop (\<lambda>st c. (push st c, None)) (File (drop 128 b)) (push st \<lparr>ch_Content = take 128 b\<rparr>)"
      by (subst open_loop.simps) simp
    with 2 False show ?thesis by simp
  qed
qed

lemma open_loop_file:
  assumes "length b \<le> n"
  shows "open_loop collect (File b) st = Some (Ok (), st @ map (\<lambda>c. \<lparr>ch_Content = c\<rparr>) (chunks_of n b))"
proof -
  have "fold (\<lambda>c st. st @ [\<lparr>ch_Content = c\<rparr>]) cs st = st @ map (\<lambda>c. \<lparr>ch_Content = c\<rparr>) cs" for cs
    by (induction cs arbitrary: st) simp_all
  moreover have "collect = (\<lambda>st c. (st @ [c], None))" by (simp add: fun_eq_iff collect_def)
  ultimately show ?thesis using open_loop_sends [OF assms, of "\<lambda>st c. st @ [c]" st] by simp
qed

lemma open_loop_terminates: "\<exists>r. open_loop send fd st = Some r"
proof (cases fd)
  case (Directory es)
  then show ?thesis by (subst open_loop.simps) (simp add: EISDIR_def)
next
  case (File b)
  have "\<exists>r. open_loop send (File b) st = Some r"
  proof (induction "length b" arbitrary: b st rule: less_induct)
    case less
    show ?case
    proof (cases "b = []")
      case True
      then show ?thesis by (subst open_loop.simps) simp
    next
      case False
      then have "length (drop 128 b) < length b" by simp
      then have "\<exists>r. open_loop send (File (drop 128 b)) st = Some r" for st using less by blast
      with False show ?thesis
        by (subst open_loop.simps) (auto split: prod.splits option.splits)
    qed
  qed
  with File show ?thesis by simp
qed

lemma OpenFile_file:
  assumes "os_Open fs (ofr_Path r) = Ok (File b)"
  shows "OpenFile collect fs r [] = Some (Ok (), map (\<lambda>c. \<lparr>ch_Content = c\<rparr>) (file_chunks b))"
  using assms open_loop_file [of b "length b" "[]"] by (simp add: OpenFile_def Client_Open_def file_chunks_def)

text \<open>The requests a client sends for a file: the path, then the chunks.\<close>

definition upload_requests :: "string \<Rightarrow> string \<Rightarrow> create_file_request list" where
  "upload_requests path b =
     \<lparr>cfr_Path = path, cfr_Content = None\<rparr> #
     map (\<lambda>c. \<lparr>cfr_Path = [], cfr_Content = Some c\<rparr>) (file_chunks b)"

lemma create_loop_chunks:
  assumes "free_name (fs_root fs) fd"
  shows "create_loop (\<lambda>_. None) (fs\<lparr>fs_root := put fd (File b) (fs_root fs)\<rparr>) fd
      (map (\<lambda>c. \<lparr>cfr_Path = [], cfr_Content = Some c\<rparr>) cs) EOF =
    (Ok (), fs\<lparr>fs_root := put fd (File (b @ concat cs)) (fs_root fs)\<rparr>)"
proof (induction cs arbitrary: b)
  case (Cons c cs)
  have "os_Write (fs\<lparr>fs_root := put fd (File b) (fs_root fs)\<rparr>) fd c =
      fs\<lparr>fs_root := put fd (File (b @ c)) (fs_root fs)\<rparr>"
    using assms by (simp add: os_Write_def fetch_put_here put_again)
  with Cons show ?case by simp
qed simp

lemma CreateFile_upload:
  assumes "list_all proper us" "free_name (fs_root fs) us"
  shows "CreateFile (\<lambda>_. None) fs (upload_requests (abs_path us) b) EOF =
    (Ok (), fs\<lparr>fs_root := put us (File b) (fs_root fs)\<rparr>)"
proof -
  have us: "butlast us @ [last us] = us" using assms(2) by (simp add: free_name_def)
  have "filepath_Dir (abs_path us) = abs_path (butlast us)"
    using Dir_abs [of "butlast us" "last us"] assms(1) us by metis
  then have "Client_Create fs (abs_path us) = (Ok us, fs\<lparr>fs_root := put us (File []) (fs_root fs)\<rparr>)"
    using os_MkdirAll_free(2) [OF assms] os_Create_free [OF assms] by (simp add: Client_Create_def)
  then show ?thesis
    using create_loop_chunks [OF assms(2), of "[]"] by (simp add: CreateFile_def upload_requests_def)
qed

section \<open>Properties\<close>

text \<open>
  \<open>OpenFile\<close> returns, whatever the path names and however the stream behaves: the loop
  reads at most 128 bytes less each time round and ends at the end of the file, at the first
  chunk that cannot be sent, or at once on a directory.
\<close>

theorem OpenFile_terminates: "\<exists>res. OpenFile send fs r st = Some res"
  using open_loop_terminates [of send _ st] by (auto simp: OpenFile_def split: go.splits)

text \<open>
  C32. What a client receives from \<open>OpenFile\<close> is the file: its chunks are not empty, hold at
  most 128 bytes each and make up the content; sent back through \<open>CreateFile\<close> under a free name
  they are written as the same content.
\<close>

theorem file_transfer_roundtrip:
  assumes "os_Open fs path = Ok (File b)"
    and "list_all proper us" "free_name (fs_root fs') us"
  shows "\<exists>chunks. OpenFile collect fs \<lparr>ofr_Path = path\<rparr> [] = Some (Ok (), map (\<lambda>c. \<lparr>ch_Content = c\<rparr>) chunks) \<and>
    (\<forall>c \<in> set chunks. c \<noteq> [] \<and> length c \<le> 128) \<and> concat chunks = b \<and>
    CreateFile (\<lambda>_. None) fs'
      (\<lparr>cfr_Path = abs_path us, cfr_Content = None\<rparr> #
       map (\<lambda>c. \<lparr>cfr_Path = [], cfr_Content = Some c\<rparr>) chunks) EOF =
      (Ok (), fs'\<lparr>fs_root := put us (File b) (fs_root fs')\<rparr>)"
proof (intro exI conjI ballI)
  show "OpenFile collect fs \<lparr>ofr_Path = path\<rparr> [] = Some (Ok (), map (\<lambda>c. \<lparr>ch_Content = c\<rparr>) (file_chunks b))"
    using OpenFile_file [of fs "\<lparr>ofr_Path = path\<rparr>"] assms(1) by simp
  show "c \<noteq> []" "length c \<le> 128" if "c \<in> set (file_chunks b)" for c
    using chunks_of_sizes that by (auto simp: file_chunks_def)
  show "CreateFile (\<lambda>_. None) fs'
      (\<lparr>cfr_Path = abs_path us, cfr_Content = None\<rparr> #
       map (\<lambda>c. \<lparr>cfr_Path = [], cfr_Content = Some c\<rparr>) (file_chunks b)) EOF =
      (Ok (), fs'\<lparr>fs_root := put us (File b) (fs_root fs')\<rparr>)"
    using CreateFile_upload [OF assms(2,3)] by (simp add: upload_requests_def)
qed simp

theorem file_transfer_roundtrip_witness:
  "\<exists>chunks. OpenFile collect example_mount \<lparr>ofr_Path = ''/etc''\<rparr> [] =
      Some (Ok (), map (\<lambda>c. \<lparr>ch_Content = c\<rparr>) chunks) \<and> concat chunks = ''root''"
proof -
  have "os_Open example_mount ''/etc'' = Ok (File ''root'')" by code_simp
  moreover have "free_name (fs_root example_mount) [''mnt'', ''log'']"
    by (simp add: free_name_def example_mount_def)
  ultimately show ?thesis
    using file_transfer_roundtrip [of example_mount "''/etc''" "''root''" "[''mnt'', ''log'']" example_mount] by auto
qed

end
