(* ===== verification/Grpc_Server.thy ===== *)
theory Grpc_Server
  imports Grpc_Stubs Red_Box File_Service
begin

text \<open>
  The two sides of \<open>Grpc_Stubs\<close> connected by grpc-go (\<open>server.go\<close>, \<open>call.go\<close>, \<open>rpc_util.go\<close>,
  \<open>status.go\<close>, without compression, statistics and logging), and red-box as the server. The codec of
  the messages is a parameter. The theorems: a call through the client is the handler of the same
  name, with its errors as statuses, and a panic of a handler ends the process of red-box.
\<close>

section \<open>Errors as statuses\<close>

text \<open>The texts of the errors of other packages are the parameter \<open>leaf\<close>.\<close>

fun Error_text :: "(go_error \<Rightarrow> string) \<Rightarrow> go_error \<Rightarrow> string" where
  "Error_text leaf (Wrapped msg e) = msg @ '': '' @ Error_text leaf e"
| "Error_text leaf (RpcError c desc) = ''rpc error: code = '' @ c @ '' desc = '' @ desc"
| "Error_text leaf (ErrorString s) = s"
| "Error_text leaf e = leaf e"

text \<open>
  The codec, the texts of errors, the text of a lost connection, and what a handler of a stream
  answers a call without one, which the generated client never makes.
\<close>

datatype wire = WireReply string | WireStatus string string

record 'w grpc_env =
  ge_Marshal :: "pb_message \<Rightarrow> string go"
  ge_Unmarshal :: "string \<Rightarrow> pb_message \<Rightarrow> pb_message go"
  ge_leaf :: "go_error \<Rightarrow> string"
  ge_lost :: string
  ge_streaming :: "string \<Rightarrow> string \<Rightarrow> 'w \<Rightarrow> wire go \<times> 'w"

definition status_FromError :: "'w grpc_env \<Rightarrow> go_error \<Rightarrow> string \<times> string" where
  "status_FromError env e =
     (case e of RpcError c desc \<Rightarrow> (c, desc) | _ \<Rightarrow> (''Unknown'', Error_text (ge_leaf env) e))"

definition wire_status :: "'w grpc_env \<Rightarrow> go_error \<Rightarrow> wire" where
  "wire_status env e = (case status_FromError env e of (c, desc) \<Rightarrow> WireStatus c desc)"

section \<open>Messages on the wire\<close>

definition MaxReceiveMessageSize :: int where "MaxReceiveMessageSize = 1024 * 1024 * 4"
definition MaxSendMessageSize :: int where "MaxSendMessageSize = 2147483647"

definition vs_text :: "string \<Rightarrow> int \<Rightarrow> int \<Rightarrow> string" where
  "vs_text msg a b = msg @ '' ('' @ strconv_FormatInt a @ '' vs. '' @ strconv_FormatInt b @ '')''"

definition grpc_encode :: "'w grpc_env \<Rightarrow> pb_message \<Rightarrow> string go" where
  "grpc_encode env m =
     (case ge_Marshal env m of
        Err e \<Rightarrow> Err (RpcError ''Internal'' (''grpc: error while marshaling: '' @ Error_text (ge_leaf env) e))
      | Panic p \<Rightarrow> Panic p
      | Ok b \<Rightarrow>
          if int (length b) > 4294967295
          then Err (RpcError ''ResourceExhausted''
            (''grpc: message too large ('' @ strconv_FormatInt (int (length b)) @ '' bytes)''))
          else Ok b)"

definition grpc_send :: "'w grpc_env \<Rightarrow> pb_message \<Rightarrow> string go" where
  "grpc_send env m =
     go_bind (grpc_encode env m) (\<lambda>b.
       if int (length b) > MaxSendMessageSize
       then Err (RpcError ''ResourceExhausted''
         (vs_text ''grpc: trying to send message larger than max'' (int (length b)) MaxSendMessageSize))
       else Ok b)"

definition grpc_recv :: "string \<Rightarrow> string go" where
  "grpc_recv b =
     (if int (length b) > MaxReceiveMessageSize
      then Err (RpcError ''ResourceExhausted''
        (vs_text ''grpc: received message larger than max'' (int (length b)) MaxReceiveMessageSize))
      else Ok b)"

definition grpc_unmarshal :: "'w grpc_env \<Rightarrow> string \<Rightarrow> string \<Rightarrow> pb_message \<Rightarrow> pb_message go" where
  "grpc_unmarshal env msg d v =
     (case ge_Unmarshal env d v of
        Ok m \<Rightarrow> Ok m
      | Err e \<Rightarrow> Err (RpcError ''Internal'' (msg @ Error_text (ge_leaf env) e))
      | Panic p \<Rightarrow> Panic p)"

section \<open>The server\<close>

record 'w grpc_service =
  gs_server :: "'w workload_server"
  gs_md :: "string \<rightharpoonup> ('w workload_server \<Rightarrow> decoder \<Rightarrow> 'w interceptor option \<Rightarrow> 'w \<Rightarrow> pb_message go \<times> 'w)"
  gs_sd :: "string \<rightharpoonup> stream_desc"

type_synonym 'w grpc_services = "string \<rightharpoonup> 'w grpc_service"

text \<open>\<open>register\<close>; a second registration of a name ends the process.\<close>

definition RegisterService ::
  "'w service_desc \<Rightarrow> 'w workload_server \<Rightarrow> 'w grpc_services \<Rightarrow> 'w grpc_services go" where
  "RegisterService sd ss m =
     (if sv_ServiceName sd \<in> dom m
      then Panic ''grpc: Server.RegisterService found duplicate service registration''
      else Ok (m(sv_ServiceName sd \<mapsto>
        \<lparr>gs_server = ss,
         gs_md = fold (\<lambda>d md. md(md_MethodName d \<mapsto> md_Handler d)) (sv_Methods sd) Map.empty,
         gs_sd = fold (\<lambda>d md. md(sd_StreamName d \<mapsto> d)) (sv_Streams sd) Map.empty\<rparr>)))"

definition RegisterWorkloadManagerServer ::
  "'w grpc_services \<Rightarrow> 'w workload_server \<Rightarrow> 'w grpc_services go" where
  "RegisterWorkloadManagerServer s srv = RegisterService WorkloadManager_serviceDesc srv s"

definition processUnaryRPC ::
  "'w grpc_env \<Rightarrow> 'w workload_server \<Rightarrow>
   ('w workload_server \<Rightarrow> decoder \<Rightarrow> 'w interceptor option \<Rightarrow> 'w \<Rightarrow> pb_message go \<times> 'w) \<Rightarrow>
   'w interceptor option \<Rightarrow> string \<Rightarrow> 'w \<Rightarrow> wire go \<times> 'w" where
  "processUnaryRPC env srv handler unaryInt d w =
     (case grpc_recv d of
        Err e \<Rightarrow> (Ok (wire_status env e), w)
      | Panic p \<Rightarrow> (Panic p, w)
      | Ok d \<Rightarrow>
          (case handler srv (grpc_unmarshal env ''grpc: error unmarshalling request: '' d) unaryInt w of
             (Err appErr, w) \<Rightarrow> (Ok (wire_status env appErr), w)
           | (Panic p, w) \<Rightarrow> (Panic p, w)
           | (Ok msg, w) \<Rightarrow>
               (case grpc_send env msg of
                  Ok b \<Rightarrow> (Ok (WireReply b), w)
                | Err e \<Rightarrow> (Ok (wire_status env e), w)
                | Panic p \<Rightarrow> (Panic p, w))))"

text \<open>The name of the service and of the method, split at the last slash.\<close>

definition split_method :: "string \<Rightarrow> (string \<times> string) option" where
  "split_method sm =
     (let sm = (case sm of [] \<Rightarrow> [] | c # cs \<Rightarrow> if c = CHR ''/'' then cs else sm)
      in case dropWhile (\<lambda>c. c \<noteq> CHR ''/'') (rev sm) of
           [] \<Rightarrow> None
         | c # before \<Rightarrow> Some (rev before, rev (takeWhile (\<lambda>c. c \<noteq> CHR ''/'') (rev sm))))"

definition handleStream ::
  "'w grpc_env \<Rightarrow> 'w grpc_services \<Rightarrow> 'w interceptor option \<Rightarrow> string \<Rightarrow> string \<Rightarrow> 'w \<Rightarrow> wire go \<times> 'w" where
  "handleStream env services unaryInt sm d w =
     (case split_method sm of
        None \<Rightarrow> (Ok (WireStatus ''ResourceExhausted'' (''malformed method name: '' @ quote @ sm @ quote)), w)
      | Some (service, name) \<Rightarrow>
          (case services service of
             None \<Rightarrow> (Ok (WireStatus ''Unimplemented'' (''unknown service '' @ service)), w)
           | Some srv \<Rightarrow>
               (case gs_md srv name of
                  Some handler \<Rightarrow> processUnaryRPC env (gs_server srv) handler unaryInt d w
                | None \<Rightarrow>
                    (case gs_sd srv name of
                       Some sd \<Rightarrow> ge_streaming env name d w
                     | None \<Rightarrow>
                         (Ok (WireStatus ''Unimplemented'' (''unknown method '' @ name @ '' for service '' @ service)), w)))))"

section \<open>A connection\<close>

text \<open>
  The process of the server, and whether it runs. grpc-go does not recover from a panic of a
  handler: the process ends and the call in flight is lost, as is every call until something starts
  the process again.
\<close>

record 'w rpc_server =
  rs_world :: 'w
  rs_up :: bool

definition grpc_invoke ::
  "'w grpc_env \<Rightarrow> 'w grpc_services \<Rightarrow> 'w interceptor option \<Rightarrow> 'w rpc_server connection" where
  "grpc_invoke env services unaryInt sm req out s =
     (if \<not> rs_up s then (Err (RpcError ''Unavailable'' (ge_lost env)), s)
      else
        (case grpc_send env req of
           Err e \<Rightarrow> (Err e, s)
         | Panic p \<Rightarrow> (Panic p, s)
         | Ok d \<Rightarrow>
             (case handleStream env services unaryInt sm d (rs_world s) of
                (Panic p, w) \<Rightarrow> (Err (RpcError ''Unavailable'' (ge_lost env)), \<lparr>rs_world = w, rs_up = False\<rparr>)
              | (Err e, w) \<Rightarrow> (Err e, s\<lparr>rs_world := w\<rparr>)
              | (Ok (WireStatus c desc), w) \<Rightarrow> (Err (RpcError c desc), s\<lparr>rs_world := w\<rparr>)
              | (Ok (WireReply b), w) \<Rightarrow>
                  (go_bind (grpc_recv b)
                     (\<lambda>b. grpc_unmarshal env ''grpc: failed to unmarshal the received message '' b out),
                   s\<lparr>rs_world := w\<rparr>))))"

section \<open>Calls\<close>

text \<open>What protobuf promises: a message that can be marshalled is read back from its bytes.\<close>

definition codec_ok :: "'w grpc_env \<Rightarrow> bool" where
  "codec_ok env \<longleftrightarrow>
     (\<forall>m. no_panic (ge_Marshal env m) \<and> (\<forall>b. ge_Marshal env m = Ok b \<longrightarrow> ge_Unmarshal env b (pb_new m) = Ok m))"

lemma codec_okD:
  "codec_ok env \<Longrightarrow> ge_Marshal env m = Ok b \<Longrightarrow> ge_Unmarshal env b (pb_new m) = Ok m"
  "codec_ok env \<Longrightarrow> ge_Marshal env m \<noteq> Panic p"
  unfolding codec_ok_def by (blast, metis no_panic.simps(1))

text \<open>What the client gets for the result of a handler.\<close>

definition deliver :: "'w grpc_env \<Rightarrow> pb_message \<Rightarrow> pb_message go" where
  "deliver env m = go_bind (grpc_send env m) (\<lambda>b. go_bind (grpc_recv b) (\<lambda>b. Ok m))"

fun answer :: "'w grpc_env \<Rightarrow> pb_message go \<times> 'w \<Rightarrow> pb_message go \<times> 'w rpc_server" where
  "answer env (Ok m, w) = (deliver env m, \<lparr>rs_world = w, rs_up = True\<rparr>)"
| "answer env (Err e, w) =
     ((case status_FromError env e of (c, desc) \<Rightarrow> Err (RpcError c desc)), \<lparr>rs_world = w, rs_up = True\<rparr>)"
| "answer env (Panic p, w) = (Err (RpcError ''Unavailable'' (ge_lost env)), \<lparr>rs_world = w, rs_up = False\<rparr>)"

lemma grpc_send_Ok: "grpc_send env m = Ok b \<Longrightarrow> ge_Marshal env m = Ok b"
  by (auto simp: grpc_send_def grpc_encode_def split: go.splits if_splits)

lemma grpc_send_Err:
  assumes "grpc_send env m = Err e"
  obtains c desc where "e = RpcError c desc"
  using assms by (auto simp: grpc_send_def grpc_encode_def split: go.splits if_splits)

lemma grpc_send_no_panic: "codec_ok env \<Longrightarrow> grpc_send env m \<noteq> Panic p"
  by (auto simp: grpc_send_def grpc_encode_def codec_okD split: go.splits if_splits)

lemma grpc_small:
  assumes "ge_Marshal env m = Ok b" "int (length b) \<le> MaxReceiveMessageSize"
  shows "grpc_send env m = Ok b" "grpc_recv b = Ok b"
  using assms by (simp_all add: grpc_send_def grpc_encode_def grpc_recv_def MaxReceiveMessageSize_def MaxSendMessageSize_def)

lemma grpc_recv_cases: "grpc_recv b = Ok b \<or> (\<exists>c desc. grpc_recv b = Err (RpcError c desc))"
  by (simp add: grpc_recv_def)

lemma wire_status_RpcError [simp]: "wire_status env (RpcError c desc) = WireStatus c desc"
  by (simp add: wire_status_def status_FromError_def)

text \<open>A call whose handler is a unary handler of the service.\<close>

lemma unary_call:
  assumes codec: "codec_ok env" and b: "ge_Marshal env m = Ok b" "int (length b) \<le> MaxReceiveMessageSize"
    and up: "rs_up s" and out: "\<And>x w. h (rs_world s) = (Ok x, w) \<Longrightarrow> out = pb_new x"
    and stream: "\<And>d w. handleStream env services None sm d w = processUnaryRPC env srv handler None d w"
    and handler: "\<And>dec w. dec (pb_new m) = Ok m \<Longrightarrow> handler srv dec None w = h w"
  shows "grpc_invoke env services None sm m out s = answer env (h (rs_world s))"
proof -
  have dec: "grpc_unmarshal env msg b (pb_new m) = Ok m" for msg
    by (simp add: grpc_unmarshal_def codec_okD(1) [OF codec b(1)])
  obtain r w where h: "h (rs_world s) = (r, w)" by fastforce
  then have hd: "handler srv (grpc_unmarshal env msg b) None (rs_world s) = (r, w)" for msg using handler dec by simp
  have s: "s\<lparr>rs_world := w\<rparr> = \<lparr>rs_world = w, rs_up = True\<rparr>" using up by (cases s) simp
  note run = grpc_invoke_def processUnaryRPC_def stream grpc_small [OF b] up hd h
  show ?thesis
  proof (cases r)
    case (Err e)
    then show ?thesis by (simp add: run s wire_status_def split: prod.split)
  next
    case (Panic p)
    then show ?thesis by (simp add: run)
  next
    case (Ok x)
    with out h have x: "out = pb_new x" by blast
    show ?thesis
    proof (cases "grpc_send env x")
      case (Err e)
      then obtain c desc where "e = RpcError c desc" by (rule grpc_send_Err)
      with Err Ok show ?thesis by (simp add: run s deliver_def)
    next
      case (Panic p)
      with grpc_send_no_panic [OF codec] show ?thesis by blast
    next
      case sent: (Ok rb)
      from codec_okD(1) [OF codec grpc_send_Ok [OF sent]] have "grpc_unmarshal env msg rb out = Ok x" for msg
        by (simp add: grpc_unmarshal_def x)
      with Ok sent grpc_recv_cases [of rb] show ?thesis by (auto simp: run s deliver_def)
    qed
  qed
qed

text \<open>The table finds the handler of every method, and the handler calls the method.\<close>

definition red_box_services :: "'w workload_server \<Rightarrow> 'w grpc_services" where
  "red_box_services srv =
     [''api.WorkloadManager'' \<mapsto>
        \<lparr>gs_server = srv,
         gs_md = fold (\<lambda>d md. md(md_MethodName d \<mapsto> md_Handler d)) (sv_Methods WorkloadManager_serviceDesc) Map.empty,
         gs_sd = fold (\<lambda>d md. md(sd_StreamName d \<mapsto> d)) (sv_Streams (WorkloadManager_serviceDesc :: 'w service_desc)) Map.empty\<rparr>]"

lemma red_box_registered: "RegisterWorkloadManagerServer Map.empty srv = Ok (red_box_services srv)"
  by (simp add: RegisterWorkloadManagerServer_def RegisterService_def red_box_services_def)
    (simp add: WorkloadManager_serviceDesc_def)

lemma method_found:
  "gs_md (the (red_box_services srv ''api.WorkloadManager'')) =
    [''SubmitJob'' \<mapsto> WorkloadManager_SubmitJob_Handler, ''SubmitJobContainer'' \<mapsto> WorkloadManager_SubmitJobContainer_Handler,
     ''CancelJob'' \<mapsto> WorkloadManager_CancelJob_Handler, ''JobInfo'' \<mapsto> WorkloadManager_JobInfo_Handler,
     ''JobSteps'' \<mapsto> WorkloadManager_JobSteps_Handler, ''Zip'' \<mapsto> WorkloadManager_Zip_Handler,
     ''Unzip'' \<mapsto> WorkloadManager_Unzip_Handler, ''Resources'' \<mapsto> WorkloadManager_Resources_Handler,
     ''Partitions'' \<mapsto> WorkloadManager_Partitions_Handler, ''WorkloadInfo'' \<mapsto> WorkloadManager_WorkloadInfo_Handler]"
  by (simp add: red_box_services_def WorkloadManager_serviceDesc_def)

lemma dispatched:
  assumes "split_method sm = Some (''api.WorkloadManager'', name)"
    "gs_md (the (red_box_services srv ''api.WorkloadManager'')) name = Some h"
  shows "handleStream env (red_box_services srv) icept sm d w = processUnaryRPC env srv h icept d w"
  using assms by (simp add: handleStream_def red_box_services_def)

lemma methods_split:
  "split_method ''/api.WorkloadManager/SubmitJob'' = Some (''api.WorkloadManager'', ''SubmitJob'')"
  "split_method ''/api.WorkloadManager/SubmitJobContainer'' = Some (''api.WorkloadManager'', ''SubmitJobContainer'')"
  "split_method ''/api.WorkloadManager/CancelJob'' = Some (''api.WorkloadManager'', ''CancelJob'')"
  "split_method ''/api.WorkloadManager/JobInfo'' = Some (''api.WorkloadManager'', ''JobInfo'')"
  "split_method ''/api.WorkloadManager/JobSteps'' = Some (''api.WorkloadManager'', ''JobSteps'')"
  "split_method ''/api.WorkloadManager/Zip'' = Some (''api.WorkloadManager'', ''Zip'')"
  "split_method ''/api.WorkloadManager/Unzip'' = Some (''api.WorkloadManager'', ''Unzip'')"
  "split_method ''/api.WorkloadManager/Resources'' = Some (''api.WorkloadManager'', ''Resources'')"
  "split_method ''/api.WorkloadManager/Partitions'' = Some (''api.WorkloadManager'', ''Partitions'')"
  "split_method ''/api.WorkloadManager/WorkloadInfo'' = Some (''api.WorkloadManager'', ''WorkloadInfo'')"
  by (simp_all add: split_method_def)

section \<open>The client and red-box\<close>

text \<open>
  A stub followed by \<open>reply\<close> gives what the connection gives, when that is a message of the right
  type; an answer to a handler's reply is.
\<close>

lemma reply_typed:
  assumes "\<And>m. fst rs = Ok m \<Longrightarrow> assert m \<noteq> None \<and> wrap (the (assert m)) = m"
  shows "reply wrap (typed assert rs) = rs"
  using assms by (auto simp: reply_def typed_def split: prod.splits go.splits option.splits)

lemma answer_reply:
  assumes "fst (answer env (reply wrap rw)) = Ok m"
  obtains x where "m = wrap x"
  using assms by (auto simp: reply_def deliver_def go_bind_eq_Ok split: prod.splits go.splits)

lemma stub_call:
  assumes "cc sm req out s = answer env (reply wrap rw)" "\<And>x. assert (wrap x) = Some x"
  shows "reply wrap (typed assert (cc sm req out s)) = answer env (reply wrap rw)"
  unfolding assms(1)
proof (rule reply_typed)
  fix m assume "fst (answer env (reply wrap rw)) = Ok m"
  then obtain x where "m = wrap x" by (rule answer_reply)
  then show "assert m \<noteq> None \<and> wrap (the (assert m)) = m" using assms(2) by simp
qed

lemma reply_type: "reply wrap rw = (Ok m, w) \<Longrightarrow> \<exists>x. m = wrap x"
  by (auto simp: reply_def split: prod.splits go.splits)

lemmas stub_defs =
  Client_SubmitJob_stub_def Client_SubmitJobContainer_stub_def Client_CancelJob_stub_def Client_JobInfo_stub_def
  Client_JobSteps_stub_def Client_Zip_stub_def Client_Unzip_stub_def Client_Resources_stub_def
  Client_Partitions_stub_def Client_WorkloadInfo_stub_def

lemmas handler_defs =
  WorkloadManager_SubmitJob_Handler_def WorkloadManager_SubmitJobContainer_Handler_def
  WorkloadManager_CancelJob_Handler_def WorkloadManager_JobInfo_Handler_def WorkloadManager_JobSteps_Handler_def
  WorkloadManager_Zip_Handler_def WorkloadManager_Unzip_Handler_def WorkloadManager_Resources_Handler_def
  WorkloadManager_Partitions_Handler_def WorkloadManager_WorkloadInfo_Handler_def

text \<open>A request that can be sent to a server that runs.\<close>

definition can_call :: "'w grpc_env \<Rightarrow> pb_message \<Rightarrow> 'w rpc_server \<Rightarrow> bool" where
  "can_call env m s \<longleftrightarrow>
     codec_ok env \<and> rs_up s \<and> (\<exists>b. ge_Marshal env m = Ok b \<and> int (length b) \<le> MaxReceiveMessageSize)"

lemma unary_stub:
  assumes "can_call env m s" "split_method sm = Some (''api.WorkloadManager'', name)"
    "gs_md (the (red_box_services srv ''api.WorkloadManager'')) name = Some handler"
    "\<And>dec w. dec (pb_new m) = Ok m \<Longrightarrow> handler srv dec None w = reply wrap (h w)"
    "\<And>x. pb_new (wrap x) = out" "\<And>x. assert (wrap x) = Some x"
  shows "reply wrap (typed assert (grpc_invoke env (red_box_services srv) None sm m out s)) =
    answer env (reply wrap (h (rs_world s)))"
proof (rule stub_call)
  obtain b where b: "ge_Marshal env m = Ok b" "int (length b) \<le> MaxReceiveMessageSize"
    using assms(1) by (auto simp: can_call_def)
  have c: "codec_ok env" "rs_up s" using assms(1) by (simp_all add: can_call_def)
  show "grpc_invoke env (red_box_services srv) None sm m out s = answer env (reply wrap (h (rs_world s)))"
  proof (rule unary_call [OF c(1) b c(2) _ dispatched [OF assms(2,3)] assms(4)])
    show "out = pb_new x" if "reply wrap (h (rs_world s)) = (Ok x, w)" for x w
      using reply_type [OF that] assms(5) by auto
  qed
qed (rule assms(6))

lemma client_reaches_server:
  assumes "can_call env m s" "method_name m \<noteq> None"
  shows "client_call (grpc_invoke env (red_box_services srv) None) m s = answer env (server_call srv m (rs_world s))"
proof -
  note stub = unary_stub [OF assms(1)]
  note simps = method_found handler_defs unary_handler_def
  show ?thesis
  proof (cases m)
    case (PbSubmitJobRequest r)
    with stub [OF methods_split(1), where h = "ws_SubmitJob srv r"] show ?thesis by (simp add: stub_defs simps)
  next
    case (PbSubmitJobContainerRequest r)
    with stub [OF methods_split(2), where h = "ws_SubmitJobContainer srv r"] show ?thesis by (simp add: stub_defs simps)
  next
    case (PbCancelJobRequest r)
    with stub [OF methods_split(3), where h = "ws_CancelJob srv r"] show ?thesis by (simp add: stub_defs simps)
  next
    case (PbJobInfoRequest r)
    with stub [OF methods_split(4), where h = "ws_JobInfo srv r"] show ?thesis by (simp add: stub_defs simps)
  next
    case (PbJobStepsRequest r)
    with stub [OF methods_split(5), where h = "ws_JobSteps srv r"] show ?thesis by (simp add: stub_defs simps)
  next
    case (PbZipRequest r)
    with stub [OF methods_split(6), where h = "ws_Zip srv r"] show ?thesis by (simp add: stub_defs simps)
  next
    case (PbUnzipRequest r)
    with stub [OF methods_split(7), where h = "ws_Unzip srv r"] show ?thesis by (simp add: stub_defs simps)
  next
    case (PbResourcesRequest r)
    with stub [OF methods_split(8), where h = "ws_Resources srv r"] show ?thesis by (simp add: stub_defs simps)
  next
    case PbPartitionsRequest
    with stub [OF methods_split(9), where h = "ws_Partitions srv"] show ?thesis by (simp add: stub_defs simps)
  next
    case PbWorkloadInfoRequest
    with stub [OF methods_split(10), where h = "ws_WorkloadInfo srv"] show ?thesis by (simp add: stub_defs simps)
  qed (use assms(2) in simp_all)
qed

end
