(* ===== verification/Red_Box_Rpc.thy ===== *)
theory Red_Box_Rpc
  imports Grpc_Server
begin

text \<open>
  Red-box as \<open>main\<close> starts it: the handlers of \<open>internal/red-box/api/slurm.go\<close> registered at a gRPC
  server without interceptors, called through the generated client.
\<close>

section \<open>The handlers as a service\<close>

text \<open>The machine of red-box is what slurm's commands act on, and its files.\<close>

definition on_slurm :: "('w \<Rightarrow> 'a go \<times> 'w) \<Rightarrow> 'w \<times> file_system \<Rightarrow> 'a go \<times> ('w \<times> file_system)" where
  "on_slurm f w = (case f (fst w) of (r, w') \<Rightarrow> (r, (w', snd w)))"

definition on_files ::
  "(file_system \<Rightarrow> 'a go \<times> file_system) \<Rightarrow> 'w \<times> file_system \<Rightarrow> 'a go \<times> ('w \<times> file_system)" where
  "on_files f w = (case f (snd w) of (r, fs) \<Rightarrow> (r, (fst w, fs)))"

definition red_box_api ::
  "rb_server \<Rightarrow> 'w slurm_os \<Rightarrow> (zip_entry list \<Rightarrow> string) \<Rightarrow> (string \<Rightarrow> zip_entry list go) \<Rightarrow>
   (string \<Rightarrow> string list \<Rightarrow> string) \<Rightarrow> string \<Rightarrow> ('w \<times> file_system) workload_server" where
  "red_box_api s os enc dec other uuid =
     \<lparr>ws_SubmitJob = (\<lambda>r. on_slurm (SubmitJob os r)),
      ws_SubmitJobContainer = (\<lambda>r. on_slurm (SubmitJobContainer other uuid os r)),
      ws_CancelJob = (\<lambda>r. on_slurm (CancelJob os r)),
      ws_JobInfo = (\<lambda>r. on_slurm (JobInfo os r)),
      ws_JobSteps = (\<lambda>r. on_slurm (JobSteps os r)),
      ws_Zip = (\<lambda>r. on_files (\<lambda>fs. Zip_handler enc fs r)),
      ws_Unzip = (\<lambda>r. on_files (\<lambda>fs. Unzip_handler dec fs r)),
      ws_Resources = (\<lambda>r. on_slurm (Resources s os r)),
      ws_Partitions = on_slurm (Partitions os),
      ws_WorkloadInfo = on_slurm (WorkloadInfo s os)\<rparr>"

lemma reply_Err: "reply wrap rw = (Err e, s) \<Longrightarrow> rw = (Err e, s)"
  by (auto simp: reply_def split: prod.splits go.splits)

text \<open>
  Calls that do not reach a handler: the server does not run, the request cannot be encoded, or the
  server refuses its size.
\<close>

lemma lost_call:
  assumes "\<not> rs_up s" "method_name m \<noteq> None"
  shows "client_call (grpc_invoke env services icept) m s = (Err (RpcError ''Unavailable'' (ge_lost env)), s)"
  using assms by (cases m) (simp_all add: stub_defs grpc_invoke_def typed_def reply_def)

lemma unsent_call:
  assumes "rs_up s" "method_name m \<noteq> None"
  shows "grpc_send env m = Err e \<Longrightarrow> client_call (grpc_invoke env services icept) m s = (Err e, s)"
    "grpc_send env m = Panic p \<Longrightarrow> client_call (grpc_invoke env services icept) m s = (Panic p, s)"
  using assms by (cases m; simp add: stub_defs grpc_invoke_def typed_def reply_def)+

lemma large_call:
  assumes "rs_up s" "method_name m \<noteq> None" "grpc_send env m = Ok b" "int (length b) > MaxReceiveMessageSize"
  shows "client_call (grpc_invoke env (red_box_services srv) icept) m s =
    (Err (RpcError ''ResourceExhausted''
      (vs_text ''grpc: received message larger than max'' (int (length b)) MaxReceiveMessageSize)), s)"
proof -
  have refused: "processUnaryRPC env srv' h icept b w = (Ok (WireStatus ''ResourceExhausted''
      (vs_text ''grpc: received message larger than max'' (int (length b)) MaxReceiveMessageSize)), w)" for srv' h w
    using assms(4) by (simp add: processUnaryRPC_def grpc_recv_def)
  note found = methods_split [THEN dispatched, of srv, unfolded method_found]
  show ?thesis
    using assms by (cases m) (simp_all add: stub_defs grpc_invoke_def typed_def reply_def refused found)
qed

text \<open>The service unit of red-box starts its process again some time after it has ended.\<close>

definition red_box_restart :: "'w rpc_server \<Rightarrow> 'w rpc_server" where
  "red_box_restart s = s\<lparr>rs_up := True\<rparr>"

lemma container_without_options:
  assumes "sjc_Options r = None"
  shows "server_call (red_box_api s os enc dec other uuid) (PbSubmitJobContainerRequest r) w =
    (Panic ''nil pointer dereference'', w)"
  using assms by (simp add: red_box_api_def on_slurm_def SubmitJobContainer_def buildSLURMScript_def reply_def)

section \<open>A codec for examples\<close>

text \<open>
  The protobuf encoding of messages with nothing set, and of lists of partitions with names of
  fewer than 128 bytes; this codec refuses every other message.
\<close>

fun pb_strings :: "string list \<Rightarrow> string go" where
  "pb_strings [] = Ok []"
| "pb_strings (n # ns) =
     (if length n < 128 then go_bind (pb_strings ns) (\<lambda>b. Ok (CHR 0x0A # char_of (length n) # n @ b))
      else Err (ErrorString ''name too long''))"

fun pb_read_strings :: "nat \<Rightarrow> string \<Rightarrow> string list go" where
  "pb_read_strings 0 b = (if b = [] then Ok [] else Err EOF)"
| "pb_read_strings (Suc fuel) [] = Ok []"
| "pb_read_strings (Suc fuel) [c] = Err EOF"
| "pb_read_strings (Suc fuel) (c # l # b) =
     (if c = CHR 0x0A \<and> of_char l \<le> length b
      then go_bind (pb_read_strings fuel (drop (of_char l) b)) (\<lambda>ns. Ok (take (of_char l) b # ns))
      else Err EOF)"

lemma pb_strings_read: "pb_strings ns = Ok b \<Longrightarrow> length b \<le> fuel \<Longrightarrow> pb_read_strings fuel b = Ok ns"
proof (induction ns arbitrary: b fuel)
  case Nil
  then show ?case by (cases fuel) simp_all
next
  case (Cons n ns)
  then obtain b' where b: "length n < 128" "pb_strings ns = Ok b'" "b = CHR 0x0A # char_of (length n) # n @ b'"
    by (auto simp: go_bind_eq_Ok split: if_splits)
  then obtain f where f: "fuel = Suc f" "length b' \<le> f" using Cons.prems(2) by (cases fuel) auto
  have "(of_char (char_of (length n) :: char) :: nat) = length n" using b(1) by simp
  with Cons.IH [OF b(2) f(2)] f(1) b(3) show ?case by simp
qed

definition example_env :: "'w grpc_env" where
  "example_env =
     \<lparr>ge_Marshal = (\<lambda>m. if m = pb_new m then Ok [] else
        (case m of PbPartitionsResponse r \<Rightarrow> pb_strings (pp_Partition r) | _ \<Rightarrow> Err (ErrorString ''unsupported''))),
      ge_Unmarshal = (\<lambda>b v. if b = [] then Ok v else
        (case v of PbPartitionsResponse r \<Rightarrow>
             go_bind (pb_read_strings (length b) b) (\<lambda>ns. Ok (PbPartitionsResponse \<lparr>pp_Partition = ns\<rparr>))
         | _ \<Rightarrow> Err (ErrorString ''unsupported''))),
      ge_leaf = (\<lambda>e. ''error''), ge_lost = ''transport is closing'',
      ge_streaming = (\<lambda>name d w. (Ok (WireStatus ''Internal'' ''EOF''), w))\<rparr>"

lemma pb_strings_no_panic [simp]: "no_panic (pb_strings ns)"
  by (induction ns) auto

lemma pb_strings_Nil: "pb_strings ns = Ok [] \<longleftrightarrow> ns = []"
  by (cases ns) (auto simp: go_bind_eq_Ok)

lemma example_codec_ok: "codec_ok example_env"
  unfolding codec_ok_def
proof (intro allI conjI impI)
  fix m
  show "no_panic (ge_Marshal example_env m)" by (cases m) (simp_all add: example_env_def)
  fix b assume b: "ge_Marshal example_env m = Ok b"
  show "ge_Unmarshal example_env b (pb_new m) = Ok m"
  proof (cases "m = pb_new m")
    case True
    with b have "b = []" by (simp add: example_env_def)
    then show ?thesis using True by (simp add: example_env_def)
  next
    case False
    with b obtain r where r: "m = PbPartitionsResponse r" "pb_strings (pp_Partition r) = Ok b"
      by (cases m) (simp_all add: example_env_def)
    then have "b \<noteq> []" using False pb_strings_Nil [of "pp_Partition r"] by (auto simp: zero_partitions_response_def)
    with r pb_strings_read [OF r(2)] show ?thesis by (simp add: example_env_def)
  qed
qed

definition idle_red_box :: "(unit \<times> file_system) rpc_server" where
  "idle_red_box = \<lparr>rs_world = ((), \<lparr>fs_root = Directory [], fs_cwd = []\<rparr>), rs_up = True\<rparr>"

lemma idle_can_call: "m = pb_new m \<Longrightarrow> can_call example_env m idle_red_box"
  by (simp add: can_call_def example_codec_ok idle_red_box_def) (simp add: example_env_def MaxReceiveMessageSize_def)

section \<open>Properties\<close>





end
