(* ===== verification/Grpc_Streams.thy ===== *)
theory Grpc_Streams
  imports Grpc_Server
begin

text \<open>
  The streaming stubs of \<open>pkg/workload/api/workload.pb.go\<close>: \<open>OpenFile\<close>, \<open>TailFile\<close> and \<open>CreateFile\<close> on
  both sides of a stream, whose operations are a parameter. What grpc-go promises of a stream is the
  contract \<open>client_contract\<close> and \<open>server_contract\<close>; the theorem runs the client and the server of
  \<open>OpenFile\<close> over any stream that keeps it.
\<close>

section \<open>Streams\<close>

text \<open>\<open>grpc.ClientStream\<close> and \<open>grpc.ServerStream\<close>; a receive that blocks has the value \<open>None\<close>.\<close>

record 'c grpc_stream =
  gs_SendMsg :: "pb_message \<Rightarrow> 'c \<Rightarrow> go_error option \<times> 'c"
  gs_CloseSend :: "'c \<Rightarrow> go_error option \<times> 'c"
  gs_RecvMsg :: "pb_message \<Rightarrow> 'c \<Rightarrow> (pb_message go \<times> 'c) option"

type_synonym 'c new_stream = "stream_desc \<Rightarrow> string \<Rightarrow> 'c \<Rightarrow> unit go \<times> 'c"

definition WorkloadManager_Streams :: "stream_desc list" where
  "WorkloadManager_Streams = sv_Streams (WorkloadManager_serviceDesc :: unit service_desc)"

section \<open>The client\<close>

text \<open>The stub of \<open>OpenFile\<close> sends its request and closes its side.\<close>

definition Client_OpenFile_stub ::
  "'c new_stream \<Rightarrow> 'c grpc_stream \<Rightarrow> open_file_request \<Rightarrow> 'c \<Rightarrow> unit go \<times> 'c" where
  "Client_OpenFile_stub newStream st inp c =
     (case newStream (WorkloadManager_Streams ! 0) ''/api.WorkloadManager/OpenFile'' c of
        (Err e, c) \<Rightarrow> (Err e, c)
      | (Panic p, c) \<Rightarrow> (Panic p, c)
      | (Ok u, c) \<Rightarrow>
          (case gs_SendMsg st (PbOpenFileRequest inp) c of
             (Some e, c) \<Rightarrow> (Err e, c)
           | (None, c) \<Rightarrow>
               (case gs_CloseSend st c of
                  (Some e, c) \<Rightarrow> (Err e, c)
                | (None, c) \<Rightarrow> (Ok (), c))))"

definition Client_TailFile_stub :: "'c new_stream \<Rightarrow> 'c \<Rightarrow> unit go \<times> 'c" where
  "Client_TailFile_stub newStream c = newStream (WorkloadManager_Streams ! 1) ''/api.WorkloadManager/TailFile'' c"

definition Client_CreateFile_stub :: "'c new_stream \<Rightarrow> 'c \<Rightarrow> unit go \<times> 'c" where
  "Client_CreateFile_stub newStream c = newStream (WorkloadManager_Streams ! 2) ''/api.WorkloadManager/CreateFile'' c"

definition recv_typed :: "(pb_message \<Rightarrow> 'a option) \<Rightarrow> (pb_message go \<times> 'c) option \<Rightarrow> ('a go \<times> 'c) option" where
  "recv_typed assert = map_option (typed assert)"

definition recv_chunk :: "'c grpc_stream \<Rightarrow> 'c \<Rightarrow> (chunk go \<times> 'c) option" where
  "recv_chunk st c = recv_typed (\<lambda>m. case m of PbChunk x \<Rightarrow> Some x | _ \<Rightarrow> None) (gs_RecvMsg st (PbChunk zero_chunk) c)"

definition OpenFileClient_Recv :: "'c grpc_stream \<Rightarrow> 'c \<Rightarrow> (chunk go \<times> 'c) option" where
  "OpenFileClient_Recv = recv_chunk"

definition TailFileClient_Recv :: "'c grpc_stream \<Rightarrow> 'c \<Rightarrow> (chunk go \<times> 'c) option" where
  "TailFileClient_Recv = recv_chunk"

definition TailFileClient_Send :: "'c grpc_stream \<Rightarrow> tail_file_request \<Rightarrow> 'c \<Rightarrow> go_error option \<times> 'c" where
  "TailFileClient_Send st m = gs_SendMsg st (PbTailFileRequest m)"

definition CreateFileClient_Send :: "'c grpc_stream \<Rightarrow> create_file_request \<Rightarrow> 'c \<Rightarrow> go_error option \<times> 'c" where
  "CreateFileClient_Send st m = gs_SendMsg st (PbCreateFileRequest m)"

definition CreateFileClient_CloseAndRecv :: "'c grpc_stream \<Rightarrow> 'c \<Rightarrow> (unit go \<times> 'c) option" where
  "CreateFileClient_CloseAndRecv st c =
     (case gs_CloseSend st c of
        (Some e, c) \<Rightarrow> Some (Err e, c)
      | (None, c) \<Rightarrow>
          recv_typed (\<lambda>m. case m of PbCreateFileResponse \<Rightarrow> Some () | _ \<Rightarrow> None) (gs_RecvMsg st PbCreateFileResponse c))"

section \<open>The server\<close>

text \<open>The handlers of an implementation get the stream; they may not return.\<close>

definition OpenFileServer_Send :: "'c grpc_stream \<Rightarrow> chunk \<Rightarrow> 'c \<Rightarrow> go_error option \<times> 'c" where
  "OpenFileServer_Send st m = gs_SendMsg st (PbChunk m)"

definition WorkloadManager_OpenFile_Handler ::
  "(open_file_request \<Rightarrow> 'c \<Rightarrow> (unit go \<times> 'c) option) \<Rightarrow> 'c grpc_stream \<Rightarrow> 'c \<Rightarrow> (unit go \<times> 'c) option" where
  "WorkloadManager_OpenFile_Handler srv_OpenFile st c =
     Option.bind
       (recv_typed (\<lambda>m. case m of PbOpenFileRequest x \<Rightarrow> Some x | _ \<Rightarrow> None)
          (gs_RecvMsg st (PbOpenFileRequest zero_open_file_request) c))
       (\<lambda>rc. case rc of
          (Err e, c) \<Rightarrow> Some (Err e, c)
        | (Panic p, c) \<Rightarrow> Some (Panic p, c)
        | (Ok m, c) \<Rightarrow> srv_OpenFile m c)"

definition WorkloadManager_TailFile_Handler ::
  "('c grpc_stream \<Rightarrow> 'c \<Rightarrow> (unit go \<times> 'c) option) \<Rightarrow> 'c grpc_stream \<Rightarrow> 'c \<Rightarrow> (unit go \<times> 'c) option" where
  "WorkloadManager_TailFile_Handler srv_TailFile st = srv_TailFile st"

definition TailFileServer_Send :: "'c grpc_stream \<Rightarrow> chunk \<Rightarrow> 'c \<Rightarrow> go_error option \<times> 'c" where
  "TailFileServer_Send st m = gs_SendMsg st (PbChunk m)"

definition TailFileServer_Recv :: "'c grpc_stream \<Rightarrow> 'c \<Rightarrow> (tail_file_request go \<times> 'c) option" where
  "TailFileServer_Recv st c =
     recv_typed (\<lambda>m. case m of PbTailFileRequest x \<Rightarrow> Some x | _ \<Rightarrow> None)
       (gs_RecvMsg st (PbTailFileRequest zero_tail_file_request) c)"

definition WorkloadManager_CreateFile_Handler ::
  "('c grpc_stream \<Rightarrow> 'c \<Rightarrow> (unit go \<times> 'c) option) \<Rightarrow> 'c grpc_stream \<Rightarrow> 'c \<Rightarrow> (unit go \<times> 'c) option" where
  "WorkloadManager_CreateFile_Handler srv_CreateFile st = srv_CreateFile st"

definition CreateFileServer_SendAndClose :: "'c grpc_stream \<Rightarrow> 'c \<Rightarrow> go_error option \<times> 'c" where
  "CreateFileServer_SendAndClose st = gs_SendMsg st PbCreateFileResponse"

definition CreateFileServer_Recv :: "'c grpc_stream \<Rightarrow> 'c \<Rightarrow> (create_file_request go \<times> 'c) option" where
  "CreateFileServer_Recv st c =
     recv_typed (\<lambda>m. case m of PbCreateFileRequest x \<Rightarrow> Some x | _ \<Rightarrow> None)
       (gs_RecvMsg st (PbCreateFileRequest zero_create_file_request) c)"

section \<open>What grpc-go promises of a stream\<close>

text \<open>
  The transport of a streaming call: the call that opens the stream, its two ends, and the end of
  the call on the server with the result of the handler. \<open>'c\<close> is the state of the connection.
\<close>

record 'c grpc_transport =
  tr_new :: "'c new_stream"
  tr_client :: "'c grpc_stream"
  tr_server :: "'c grpc_stream"
  tr_end :: "unit go \<Rightarrow> 'c \<Rightarrow> 'c"

text \<open>
  A view of the state: the messages under way to the server and to the client, the result of the
  handler once it has returned, and whether the connection has failed.
\<close>

record 'c stream_view =
  vw_up :: "'c \<Rightarrow> pb_message list"
  vw_down :: "'c \<Rightarrow> pb_message list"
  vw_over :: "'c \<Rightarrow> unit go option"
  vw_lost :: "'c \<Rightarrow> bool"

definition moves ::
  "'c stream_view \<Rightarrow> 'c \<Rightarrow> 'c \<Rightarrow> pb_message list \<Rightarrow> pb_message list \<Rightarrow> unit go option \<Rightarrow> bool" where
  "moves v c c' up down over \<longleftrightarrow>
     vw_up v c' = up \<and> vw_down v c' = down \<and> vw_over v c' = over \<and> (vw_lost v c \<longrightarrow> vw_lost v c')"

text \<open>A message that can be encoded and is small enough to be received.\<close>

definition carried :: "'w grpc_env \<Rightarrow> pb_message \<Rightarrow> bool" where
  "carried env m \<longleftrightarrow> (\<exists>b. ge_Marshal env m = Ok b \<and> int (length b) \<le> MaxReceiveMessageSize)"

text \<open>The error a client receives at the end: \<open>EOF\<close> when the handler has returned none.\<close>

definition end_error :: "'w grpc_env \<Rightarrow> unit go \<Rightarrow> go_error" where
  "end_error env r =
     (case r of
        Ok u \<Rightarrow> EOF
      | Err e \<Rightarrow> (case status_FromError env e of (c, desc) \<Rightarrow> RpcError c desc)
      | Panic m \<Rightarrow> RpcError ''Unavailable'' (ge_lost env))"

text \<open>
  The contract. Messages arrive in the order they were sent, none twice; a message is lost, or an
  operation fails, only with the whole connection or when the message itself cannot be carried; a
  failed connection is never reported as \<open>EOF\<close> by a receive; the client gets the result of the
  handler after all its messages; and a receive blocks only while nothing is under way.
\<close>

definition client_contract :: "'w grpc_env \<Rightarrow> 'c stream_view \<Rightarrow> 'c grpc_transport \<Rightarrow> bool" where
  "client_contract env v tr \<longleftrightarrow>
     (\<forall>d sm c r c'. tr_new tr d sm c = (r, c') \<longrightarrow>
        (case r of
           Ok u \<Rightarrow> vw_up v c' = [] \<and> vw_down v c' = [] \<and> vw_over v c' = None
         | Err e \<Rightarrow> vw_lost v c'
         | Panic p \<Rightarrow> False)) \<and>
     (\<forall>m c e c'. gs_SendMsg (tr_client tr) m c = (e, c') \<longrightarrow>
        (if e = None then moves v c c' (vw_up v c @ [m]) (vw_down v c) (vw_over v c)
         else vw_lost v c' \<or> \<not> carried env m)) \<and>
     (\<forall>c e c'. gs_CloseSend (tr_client tr) c = (e, c') \<longrightarrow>
        (if e = None then moves v c c' (vw_up v c) (vw_down v c) (vw_over v c) else vw_lost v c')) \<and>
     (\<forall>x c. vw_down v c \<noteq> [] \<or> vw_over v c \<noteq> None \<longrightarrow> gs_RecvMsg (tr_client tr) x c \<noteq> None) \<and>
     (\<forall>x c r c'. gs_RecvMsg (tr_client tr) x c = Some (r, c') \<longrightarrow>
        (case r of
           Ok m \<Rightarrow> \<exists>ms. vw_down v c = m # ms \<and> pb_new m = pb_new x \<and> moves v c c' (vw_up v c) ms (vw_over v c)
         | Err e \<Rightarrow>
             moves v c c' (vw_up v c) (vw_down v c) (vw_over v c) \<and>
             (vw_lost v c' \<and> e \<noteq> EOF \<or>
              (\<exists>m ms. vw_down v c = m # ms \<and> (pb_new m \<noteq> pb_new x \<or> \<not> carried env m)) \<or>
              (\<exists>u. vw_down v c = [] \<and> vw_over v c = Some u \<and> e = end_error env u))
         | Panic p \<Rightarrow> False))"

definition server_contract :: "'w grpc_env \<Rightarrow> 'c stream_view \<Rightarrow> 'c grpc_transport \<Rightarrow> bool" where
  "server_contract env v tr \<longleftrightarrow>
     (\<forall>x c. vw_up v c \<noteq> [] \<longrightarrow> gs_RecvMsg (tr_server tr) x c \<noteq> None) \<and>
     (\<forall>x c r c'. gs_RecvMsg (tr_server tr) x c = Some (r, c') \<longrightarrow>
        (case r of
           Ok m \<Rightarrow> \<exists>ms. vw_up v c = m # ms \<and> pb_new m = pb_new x \<and> moves v c c' ms (vw_down v c) (vw_over v c)
         | Err e \<Rightarrow>
             moves v c c' (vw_up v c) (vw_down v c) (vw_over v c) \<and>
             (vw_lost v c' \<or> vw_up v c = [] \<or> pb_new (hd (vw_up v c)) \<noteq> pb_new x \<or> \<not> carried env (hd (vw_up v c)))
         | Panic p \<Rightarrow> False)) \<and>
     (\<forall>m c e c'. gs_SendMsg (tr_server tr) m c = (e, c') \<longrightarrow>
        (\<exists>down. moves v c c' (vw_up v c) down (vw_over v c) \<and>
           (if e = None then down = vw_down v c @ [m]
            else down \<in> {vw_down v c, vw_down v c @ [m]} \<and> (vw_lost v c' \<or> \<not> carried env m)))) \<and>
     (\<forall>r c. vw_over v c = None \<longrightarrow> moves v c (tr_end tr r c) (vw_up v c) (vw_down v c) (Some r))"

section \<open>Receiving a file\<close>

text \<open>What a client of \<open>OpenFile\<close> has received until its first error.\<close>

record 'c download =
  dn_stream :: 'c
  dn_chunks :: "string list"
  dn_end :: "go_error option"

definition client_receive :: "'c grpc_transport \<Rightarrow> 'c download \<Rightarrow> 'c download" where
  "client_receive tr d =
     (if dn_end d \<noteq> None then d
      else
        (case OpenFileClient_Recv (tr_client tr) (dn_stream d) of
           None \<Rightarrow> d
         | Some (Ok x, c) \<Rightarrow> d\<lparr>dn_stream := c, dn_chunks := dn_chunks d @ [ch_Content x]\<rparr>
         | Some (Err e, c) \<Rightarrow> d\<lparr>dn_stream := c, dn_end := Some e\<rparr>
         | Some (Panic p, c) \<Rightarrow> d\<lparr>dn_stream := c, dn_end := Some (ErrorString p)\<rparr>))"

definition client_receives :: "'c grpc_transport \<Rightarrow> nat \<Rightarrow> 'c download \<Rightarrow> 'c download" where
  "client_receives tr n = client_receive tr ^^ n"

text \<open>
  The server's end while the client receives: after every operation of the handler the client makes
  as many receives as \<open>sched\<close> says.
\<close>

definition attended :: "'c grpc_transport \<Rightarrow> ('c download \<Rightarrow> nat) \<Rightarrow> 'c download grpc_stream" where
  "attended tr sched =
     (let meanwhile = (\<lambda>c d. let d = d\<lparr>dn_stream := c\<rparr> in client_receives tr (sched d) d)
      in \<lparr>gs_SendMsg = (\<lambda>m d. case gs_SendMsg (tr_server tr) m (dn_stream d) of (e, c) \<Rightarrow> (e, meanwhile c d)),
          gs_CloseSend = (\<lambda>d. (None, d)),
          gs_RecvMsg = (\<lambda>x d. map_option (\<lambda>(r, c). (r, meanwhile c d)) (gs_RecvMsg (tr_server tr) x (dn_stream d)))\<rparr>)"

text \<open>Red-box's \<open>OpenFile\<close> on the stream of its handler.\<close>

definition serve_OpenFile ::
  "'d grpc_stream \<Rightarrow> file_system \<Rightarrow> open_file_request \<Rightarrow> 'd \<Rightarrow> (unit go \<times> 'd) option" where
  "serve_OpenFile st fs = OpenFile (\<lambda>d m. prod.swap (OpenFileServer_Send st m d)) fs"

text \<open>
  The call once its stub has returned: the handler runs while the client receives, its result ends
  the call, and the client makes \<open>n\<close> more receives.
\<close>

definition serve_and_receive ::
  "'c grpc_transport \<Rightarrow> ('c download \<Rightarrow> nat) \<Rightarrow> file_system \<Rightarrow> nat \<Rightarrow> 'c \<Rightarrow> 'c download option" where
  "serve_and_receive tr sched fs n c =
     map_option (\<lambda>(r, d). client_receives tr n (d\<lparr>dn_stream := tr_end tr r (dn_stream d)\<rparr>))
       (WorkloadManager_OpenFile_Handler (serve_OpenFile (attended tr sched) fs) (attended tr sched)
         \<lparr>dn_stream = c, dn_chunks = [], dn_end = None\<rparr>)"


section \<open>What the client has received\<close>

definition chunk_ok :: "string \<Rightarrow> bool" where
  "chunk_ok x \<longleftrightarrow> x \<noteq> [] \<and> length x \<le> 128"

definition chunks_carried :: "'w grpc_env \<Rightarrow> bool" where
  "chunks_carried env \<longleftrightarrow> (\<forall>x. length x \<le> 128 \<longrightarrow> carried env (PbChunk \<lparr>ch_Content = x\<rparr>))"

text \<open>What the client has, what is under way to it, and how its stream may have ended.\<close>

definition receiving ::
  "'w grpc_env \<Rightarrow> 'c stream_view \<Rightarrow> unit go option \<Rightarrow> string list \<Rightarrow> 'c download \<Rightarrow> bool" where
  "receiving env v over sent d \<longleftrightarrow>
     vw_over v (dn_stream d) = over \<and>
     (\<exists>rest. sent = dn_chunks d @ rest \<and> vw_down v (dn_stream d) = map (\<lambda>x. PbChunk \<lparr>ch_Content = x\<rparr>) rest) \<and>
     (\<forall>e. dn_end d = Some e \<longrightarrow>
        vw_lost v (dn_stream d) \<and> e \<noteq> EOF \<or> dn_chunks d = sent \<and> (\<exists>u. over = Some u \<and> e = end_error env u))"

lemma typed_state: "snd (typed assert rc) = snd rc"
  by (auto simp: typed_def split: prod.splits go.splits option.splits)

lemma client_recv_cases:
  assumes "client_contract env v tr" "OpenFileClient_Recv (tr_client tr) c = Some (r, c')"
  obtains (Chunk) x ms where "r = Ok x" "vw_down v c = PbChunk x # ms" "moves v c c' (vw_up v c) ms (vw_over v c)"
  | (Fail) e where "r = Err e" "moves v c c' (vw_up v c) (vw_down v c) (vw_over v c)"
      "vw_lost v c' \<and> e \<noteq> EOF \<or>
       (\<exists>m ms. vw_down v c = m # ms \<and> (pb_new m \<noteq> PbChunk zero_chunk \<or> \<not> carried env m)) \<or>
       (\<exists>u. vw_down v c = [] \<and> vw_over v c = Some u \<and> e = end_error env u)"
proof -
  from assms(2) obtain rc where rc: "gs_RecvMsg (tr_client tr) (PbChunk zero_chunk) c = Some rc"
    "typed (\<lambda>m. case m of PbChunk x \<Rightarrow> Some x | _ \<Rightarrow> None) rc = (r, c')"
    by (auto simp: OpenFileClient_Recv_def recv_chunk_def recv_typed_def)
  then obtain rm where rm: "gs_RecvMsg (tr_client tr) (PbChunk zero_chunk) c = Some (rm, c')"
    "typed (\<lambda>m. case m of PbChunk x \<Rightarrow> Some x | _ \<Rightarrow> None) (rm, c') = (r, c')"
    using typed_state [of "\<lambda>m. case m of PbChunk x \<Rightarrow> Some x | _ \<Rightarrow> None" rc] by (cases rc) simp
  from assms(1) rm(1) have law: "case rm of
      Ok m \<Rightarrow> \<exists>ms. vw_down v c = m # ms \<and> pb_new m = pb_new (PbChunk zero_chunk) \<and>
        moves v c c' (vw_up v c) ms (vw_over v c)
    | Err e \<Rightarrow>
        moves v c c' (vw_up v c) (vw_down v c) (vw_over v c) \<and>
        (vw_lost v c' \<and> e \<noteq> EOF \<or>
         (\<exists>m ms. vw_down v c = m # ms \<and> (pb_new m \<noteq> pb_new (PbChunk zero_chunk) \<or> \<not> carried env m)) \<or>
         (\<exists>u. vw_down v c = [] \<and> vw_over v c = Some u \<and> e = end_error env u))
    | Panic p \<Rightarrow> False"
    unfolding client_contract_def by blast
  show thesis
  proof (cases rm)
    case (Ok m)
    with law have "pb_new m = PbChunk zero_chunk" by auto
    then obtain x where "m = PbChunk x" by (cases m) simp_all
    with Ok law rm(2) Chunk show ?thesis by (auto simp: typed_def)
  next
    case (Err e)
    with law rm(2) Fail [of e] show ?thesis by (auto simp: typed_def)
  next
    case (Panic p)
    with law show ?thesis by simp
  qed
qed

lemma client_recv_blocks:
  assumes "client_contract env v tr" "OpenFileClient_Recv (tr_client tr) c = None"
  shows "vw_over v c = None"
proof -
  have "gs_RecvMsg (tr_client tr) (PbChunk zero_chunk) c = None"
    using assms(2) by (simp add: OpenFileClient_Recv_def recv_chunk_def recv_typed_def)
  moreover have "vw_over v c \<noteq> None \<Longrightarrow> gs_RecvMsg (tr_client tr) x c \<noteq> None" for x
    using assms(1) unfolding client_contract_def by blast
  ultimately show ?thesis by blast
qed

lemma client_receive_receiving:
  assumes "client_contract env v tr" "chunks_carried env" "list_all chunk_ok sent" "receiving env v over sent d"
  shows "receiving env v over sent (client_receive tr d)"
    "vw_lost v (dn_stream d) \<Longrightarrow> vw_lost v (dn_stream (client_receive tr d))"
    "over \<noteq> None \<Longrightarrow> dn_end (client_receive tr d) = None \<Longrightarrow>
      length (dn_chunks (client_receive tr d)) = Suc (length (dn_chunks d))"
proof -
  let ?c = "dn_stream d" and ?d = "client_receive tr d"
  from assms(4) obtain rest where rest: "vw_over v ?c = over" "sent = dn_chunks d @ rest"
    "vw_down v ?c = map (\<lambda>x. PbChunk \<lparr>ch_Content = x\<rparr>) rest"
    by (auto simp: receiving_def)
  have good: "pb_new m = PbChunk zero_chunk \<and> carried env m" if "vw_down v ?c = m # ms" for m ms
    using that rest assms(2,3) by (cases rest) (auto simp: chunks_carried_def chunk_ok_def)
  have *: "receiving env v over sent ?d \<and> (vw_lost v ?c \<longrightarrow> vw_lost v (dn_stream ?d)) \<and>
      (over \<noteq> None \<longrightarrow> dn_end ?d = None \<longrightarrow> length (dn_chunks ?d) = Suc (length (dn_chunks d)))"
  proof (cases "dn_end d")
    case (Some e)
    then show ?thesis using assms(4) by (simp add: client_receive_def)
  next
    case None
    show ?thesis
    proof (cases "OpenFileClient_Recv (tr_client tr) ?c")
      case blocked: None
      then have "vw_over v ?c = None" by (rule client_recv_blocks [OF assms(1)])
      with blocked None show ?thesis using assms(4) rest(1) by (simp add: client_receive_def)
    next
      case (Some rc)
      obtain r c' where rc: "rc = (r, c')" by (cases rc)
      from assms(1) Some [unfolded rc] show ?thesis
      proof (cases rule: client_recv_cases)
        case (Chunk x ms)
        then obtain y ys where ys: "rest = y # ys" "x = \<lparr>ch_Content = y\<rparr>"
          "ms = map (\<lambda>x. PbChunk \<lparr>ch_Content = x\<rparr>) ys" using rest(3) by (cases rest) auto
        have "?d = d\<lparr>dn_stream := c', dn_chunks := dn_chunks d @ [y]\<rparr>"
          using None Some Chunk(1) rc ys(2) by (simp add: client_receive_def)
        then show ?thesis
          using None Chunk(3) rest ys by (auto simp: receiving_def moves_def)
      next
        case (Fail e)
        have d: "?d = d\<lparr>dn_stream := c', dn_end := Some e\<rparr>"
          using None Some Fail(1) rc by (simp add: client_receive_def)
        have "vw_lost v c' \<and> e \<noteq> EOF \<or> (rest = [] \<and> (\<exists>u. over = Some u \<and> e = end_error env u))"
          using Fail(3) good rest(1,3) by auto
        then show ?thesis
          using Fail(2) rest unfolding d by (auto simp: receiving_def moves_def)
      qed
    qed
  qed
  then show "receiving env v over sent ?d" by blast
  show "vw_lost v ?c \<Longrightarrow> vw_lost v (dn_stream ?d)" using * by blast
  show "over \<noteq> None \<Longrightarrow> dn_end ?d = None \<Longrightarrow> length (dn_chunks ?d) = Suc (length (dn_chunks d))" using * by blast
qed

lemma client_receives_receiving:
  assumes "client_contract env v tr" "chunks_carried env" "list_all chunk_ok sent" "receiving env v over sent d"
  shows "receiving env v over sent (client_receives tr n d)"
    "vw_lost v (dn_stream d) \<Longrightarrow> vw_lost v (dn_stream (client_receives tr n d))"
proof -
  have "receiving env v over sent (client_receives tr n d) \<and>
      (vw_lost v (dn_stream d) \<longrightarrow> vw_lost v (dn_stream (client_receives tr n d)))"
  proof (induction n)
    case (Suc n)
    then show ?case using client_receive_receiving(1,2) [OF assms(1-3), of over] by (simp add: client_receives_def)
  qed (simp add: client_receives_def assms(4))
  then show "receiving env v over sent (client_receives tr n d)"
    "vw_lost v (dn_stream d) \<Longrightarrow> vw_lost v (dn_stream (client_receives tr n d))" by blast+
qed

lemma client_receives_stopped: "dn_end d \<noteq> None \<Longrightarrow> client_receives tr n d = d"
  by (induction n) (simp_all add: client_receives_def client_receive_def)

lemma client_receives_end:
  assumes "client_contract env v tr" "chunks_carried env" "list_all chunk_ok sent"
  shows "receiving env v (Some u) sent d \<Longrightarrow> length sent < n + length (dn_chunks d) \<Longrightarrow>
    dn_end (client_receives tr n d) \<noteq> None"
proof (induction n arbitrary: d)
  case 0
  then show ?case by (auto simp: receiving_def)
next
  case (Suc n)
  let ?d = "client_receive tr d"
  have step: "client_receives tr (Suc n) d = client_receives tr n ?d"
    by (simp add: client_receives_def funpow_swap1)
  show ?case
  proof (cases "dn_end ?d")
    case None
    with client_receive_receiving [OF assms Suc.prems(1)] Suc.IH [of ?d] Suc.prems(2) show ?thesis
      by (simp add: step)
  next
    case (Some e)
    then show ?thesis by (simp add: step client_receives_stopped)
  qed
qed

text \<open>A loop that sends chunks until one fails.\<close>

lemma open_loop_invariant:
  assumes "\<And>sent x st st' e. held sent st \<Longrightarrow> list_all chunk_ok sent \<Longrightarrow> chunk_ok x \<Longrightarrow> send st \<lparr>ch_Content = x\<rparr> = (st', e) \<Longrightarrow>
    (if e = None then held (sent @ [x]) st' else failed st' \<and> (held sent st' \<or> held (sent @ [x]) st'))"
  shows "held sent st \<Longrightarrow> list_all chunk_ok sent \<Longrightarrow>
    \<exists>r st' sent' left. open_loop send (File b) st = Some (r, st') \<and> held sent' st' \<and> list_all chunk_ok sent' \<and>
      concat sent' @ left = concat sent @ b \<and> (r = Ok () \<and> left = [] \<or> (\<exists>e. r = Err e \<and> failed st'))"
proof (induction "length b" arbitrary: b sent st rule: less_induct)
  case less
  show ?case
  proof (cases "b = []")
    case True
    then have "open_loop send (File b) st = Some (Ok (), st)" by (subst open_loop.simps) simp
    with less.prems True show ?thesis by fastforce
  next
    case False
    obtain st' e where s: "send st \<lparr>ch_Content = take 128 b\<rparr> = (st', e)" by fastforce
    have x: "chunk_ok (take 128 b)" using False by (simp add: chunk_ok_def)
    note step = assms [OF less.prems x s]
    have ok: "list_all chunk_ok (sent @ [take 128 b])" using less.prems(2) x by simp
    show ?thesis
    proof (cases e)
      case None
      have loop: "open_loop send (File b) st = open_loop send (File (drop 128 b)) st'"
        using False s None by (subst open_loop.simps) simp
      have "length (drop 128 b) < length b" using False by simp
      from less.hyps [OF this, of "sent @ [take 128 b]" st'] step None ok show ?thesis
        unfolding loop by simp
    next
      case (Some err)
      have loop: "open_loop send (File b) st = Some (Err (Wrapped ''could not send chunk'' err), st')"
        using False s Some by (subst open_loop.simps) simp
      from step Some have "failed st'" "held sent st' \<or> held (sent @ [take 128 b]) st'" by simp_all
      then show ?thesis
        unfolding loop using less.prems(2) ok append_take_drop_id [of 128 b]
        by (metis append.assoc concat.simps(1,2) concat_append append_Nil2)
    qed
  qed
qed

lemma receiving_step:
  assumes "receiving env v None sent d" "moves v (dn_stream d) c' up down over'"
  shows "down = vw_down v (dn_stream d) \<Longrightarrow> receiving env v over' sent (d\<lparr>dn_stream := c'\<rparr>)"
    "down = vw_down v (dn_stream d) @ [PbChunk \<lparr>ch_Content = x\<rparr>] \<Longrightarrow>
     receiving env v over' (sent @ [x]) (d\<lparr>dn_stream := c'\<rparr>)"
  using assms by (auto simp: receiving_def moves_def)

lemma attended_send:
  assumes "client_contract env v tr" "server_contract env v tr" "chunks_carried env"
    "receiving env v None sent d" "list_all chunk_ok sent" "chunk_ok x"
    "OpenFileServer_Send (attended tr sched) \<lparr>ch_Content = x\<rparr> d = (e, d')"
  shows "if e = None then receiving env v None (sent @ [x]) d'
    else vw_lost v (dn_stream d') \<and> (receiving env v None sent d' \<or> receiving env v None (sent @ [x]) d')"
proof -
  let ?m = "PbChunk \<lparr>ch_Content = x\<rparr>" and ?c = "dn_stream d"
  obtain c' where s: "gs_SendMsg (tr_server tr) ?m ?c = (e, c')"
    and d': "d' = client_receives tr (sched (d\<lparr>dn_stream := c'\<rparr>)) (d\<lparr>dn_stream := c'\<rparr>)"
    using assms(7) by (auto simp: OpenFileServer_Send_def attended_def Let_def split: prod.splits)
  from assms(2) s obtain down where down: "moves v ?c c' (vw_up v ?c) down (vw_over v ?c)"
    "if e = None then down = vw_down v ?c @ [?m]
     else down \<in> {vw_down v ?c, vw_down v ?c @ [?m]} \<and> (vw_lost v c' \<or> \<not> carried env ?m)"
    unfolding server_contract_def by blast
  have over: "vw_over v ?c = None" using assms(4) by (simp add: receiving_def)
  have fits: "carried env ?m" using assms(3,6) by (simp add: chunks_carried_def chunk_ok_def)
  have ok: "list_all chunk_ok (sent @ [x])" using assms(5,6) by simp
  note moved = receiving_step [OF assms(4) down(1) [unfolded over]]
  note received = client_receives_receiving [OF assms(1,3)]
  show ?thesis
  proof (cases e)
    case None
    with down(2) moved(2) received(1) [OF ok] show ?thesis by (simp add: d')
  next
    case (Some err)
    with down(2) fits have lost: "vw_lost v c'" and "down = vw_down v ?c \<or> down = vw_down v ?c @ [?m]" by auto
    then show ?thesis
    proof (elim disjE)
      assume "down = vw_down v ?c"
      from moved(1) [OF this] received [OF assms(5)] lost Some show ?thesis by (simp add: d')
    next
      assume "down = vw_down v ?c @ [?m]"
      from moved(2) [OF this] received [OF ok] lost Some show ?thesis by (simp add: d')
    qed
  qed
qed

lemma serve_file:
  assumes "client_contract env v tr" "server_contract env v tr" "chunks_carried env"
    "receiving env v None [] d" "Client_Open fs path = Ok (File b)"
  shows "\<exists>r d' sent left. serve_OpenFile (attended tr sched) fs \<lparr>ofr_Path = path\<rparr> d = Some (r, d') \<and>
    receiving env v None sent d' \<and> list_all chunk_ok sent \<and> concat sent @ left = b \<and>
    (r = Ok () \<and> left = [] \<or> (\<exists>e. r = Err e \<and> vw_lost v (dn_stream d')))"
proof -
  let ?send = "\<lambda>d m. prod.swap (OpenFileServer_Send (attended tr sched) m d)"
  have step: "if e = None then receiving env v None (sent @ [x]) st'
      else vw_lost v (dn_stream st') \<and> (receiving env v None sent st' \<or> receiving env v None (sent @ [x]) st')"
    if "receiving env v None sent st" "list_all chunk_ok sent" "chunk_ok x" "?send st \<lparr>ch_Content = x\<rparr> = (st', e)"
    for sent x st st' e
  proof -
    from that(4) have "OpenFileServer_Send (attended tr sched) \<lparr>ch_Content = x\<rparr> st = (e, st')"
      by (cases "OpenFileServer_Send (attended tr sched) \<lparr>ch_Content = x\<rparr> st") simp
    from attended_send [OF assms(1-3) that(1-3) this] show ?thesis .
  qed
  have "serve_OpenFile (attended tr sched) fs \<lparr>ofr_Path = path\<rparr> d = open_loop ?send (File b) d"
    using assms(5) by (simp add: serve_OpenFile_def OpenFile_def)
  moreover have "\<exists>r st' sent' left. open_loop ?send (File b) d = Some (r, st') \<and> receiving env v None sent' st' \<and>
      list_all chunk_ok sent' \<and> concat sent' @ left = concat [] @ b \<and>
      (r = Ok () \<and> left = [] \<or> (\<exists>e. r = Err e \<and> vw_lost v (dn_stream st')))"
    by (rule open_loop_invariant [where held = "receiving env v None" and failed = "\<lambda>d. vw_lost v (dn_stream d)"])
      (use step assms(4) in \<open>(blast | simp)\<close>)+
  ultimately show ?thesis by simp
qed

text \<open>The answers of the server that send nothing.\<close>

lemma serve_other:
  "Client_Open fs path = Ok (Directory es) \<Longrightarrow>
    serve_OpenFile st fs \<lparr>ofr_Path = path\<rparr> d = Some (Err (ErrorString ''is a directory''), d)"
  "Client_Open fs path = Err e \<Longrightarrow>
    serve_OpenFile st fs \<lparr>ofr_Path = path\<rparr> d = Some (Err (Wrapped (''could not open file at '' @ path) e), d)"
  "Client_Open fs path = Panic p \<Longrightarrow> serve_OpenFile st fs \<lparr>ofr_Path = path\<rparr> d = Some (Panic p, d)"
  by (simp_all add: serve_OpenFile_def OpenFile_def) (subst open_loop.simps, simp add: EISDIR_def)

lemma open_stub:
  assumes "client_contract env v tr" "carried env (PbOpenFileRequest inp)"
    "Client_OpenFile_stub (tr_new tr) (tr_client tr) inp c = (r, c1)"
  shows "case r of
      Ok u \<Rightarrow> vw_up v c1 = [PbOpenFileRequest inp] \<and> vw_down v c1 = [] \<and> vw_over v c1 = None
    | Err e \<Rightarrow> vw_lost v c1
    | Panic p \<Rightarrow> False"
proof -
  obtain r2 c2 where n: "tr_new tr (WorkloadManager_Streams ! 0) ''/api.WorkloadManager/OpenFile'' c = (r2, c2)" by fastforce
  with assms(1) have new: "case r2 of Ok u \<Rightarrow> vw_up v c2 = [] \<and> vw_down v c2 = [] \<and> vw_over v c2 = None
      | Err e \<Rightarrow> vw_lost v c2 | Panic p \<Rightarrow> False"
    unfolding client_contract_def by blast
  show ?thesis
  proof (cases r2)
    case (Ok u)
    obtain e3 c3 where s: "gs_SendMsg (tr_client tr) (PbOpenFileRequest inp) c2 = (e3, c3)" by fastforce
    with assms(1) have sent: "if e3 = None then moves v c2 c3 (vw_up v c2 @ [PbOpenFileRequest inp]) (vw_down v c2) (vw_over v c2)
        else vw_lost v c3 \<or> \<not> carried env (PbOpenFileRequest inp)"
      unfolding client_contract_def by blast
    obtain e4 c4 where cl: "gs_CloseSend (tr_client tr) c3 = (e4, c4)" by fastforce
    with assms(1) have closed: "if e4 = None then moves v c3 c4 (vw_up v c3) (vw_down v c3) (vw_over v c3) else vw_lost v c4"
      unfolding client_contract_def by blast
    note stub = assms(3) [unfolded Client_OpenFile_stub_def n prod.case Ok go.case s]
    show ?thesis
    proof (cases e3)
      case None
      with stub Ok new sent closed show ?thesis by (cases e4) (auto simp: cl moves_def)
    next
      case (Some e)
      with stub sent assms(2) show ?thesis by auto
    qed
  qed (use assms(3) n new in \<open>auto simp: Client_OpenFile_stub_def\<close>)
qed

lemma end_error_EOF: "end_error env r = EOF \<longleftrightarrow> r = Ok ()"
  by (auto simp: end_error_def split: go.splits prod.splits)
text \<open>After the handler has returned, the client receives what is left and then the result.\<close>

lemma finished:
  assumes "client_contract env v tr" "server_contract env v tr" "chunks_carried env"
    "receiving env v None sent d" "list_all chunk_ok sent"
    "d2 = client_receives tr n (d\<lparr>dn_stream := tr_end tr r (dn_stream d)\<rparr>)"
  shows "receiving env v (Some r) sent d2" "vw_lost v (dn_stream d) \<Longrightarrow> vw_lost v (dn_stream d2)"
    "length sent < n \<Longrightarrow> dn_end d2 \<noteq> None"
proof -
  let ?d1 = "d\<lparr>dn_stream := tr_end tr r (dn_stream d)\<rparr>"
  have "vw_over v (dn_stream d) = None" using assms(4) by (simp add: receiving_def)
  with assms(2) have m: "moves v (dn_stream d) (tr_end tr r (dn_stream d)) (vw_up v (dn_stream d))
      (vw_down v (dn_stream d)) (Some r)"
    unfolding server_contract_def by blast
  from receiving_step(1) [OF assms(4) m] have d1: "receiving env v (Some r) sent ?d1" by simp
  from m have lost: "vw_lost v (dn_stream d) \<Longrightarrow> vw_lost v (dn_stream ?d1)" by (simp add: moves_def)
  show "receiving env v (Some r) sent d2"
    unfolding assms(6) by (rule client_receives_receiving(1) [OF assms(1,3,5) d1])
  show "vw_lost v (dn_stream d) \<Longrightarrow> vw_lost v (dn_stream d2)"
    unfolding assms(6) using client_receives_receiving(2) [OF assms(1,3,5) d1] lost by blast
  show "dn_end d2 \<noteq> None" if "length sent < n"
    unfolding assms(6) using client_receives_end [OF assms(1,3,5) d1] that by simp
qed

lemma receiving_chunks:
  "receiving env v over sent d \<Longrightarrow> \<exists>rest. sent = dn_chunks d @ rest"
  by (auto simp: receiving_def)

lemma receiving_EOF:
  assumes "receiving env v (Some r) sent d" "dn_end d = Some e"
  shows "vw_lost v (dn_stream d) \<and> e \<noteq> EOF \<or> dn_chunks d = sent \<and> e = end_error env r"
  using assms by (auto simp: receiving_def)

lemma length_le_concat: "list_all chunk_ok cs \<Longrightarrow> length cs \<le> length (concat cs)"
proof (induction cs)
  case (Cons c cs)
  then have "c \<noteq> []" by (simp add: chunk_ok_def)
  then have "1 \<le> length c" by (cases c) simp_all
  with Cons show ?case by simp
qed simp

text \<open>The request arrives at the handler, or the connection has failed.\<close>

lemma request_arrives:
  assumes "client_contract env v tr" "server_contract env v tr" "chunks_carried env"
    "carried env (PbOpenFileRequest inp)" "vw_up v c = [PbOpenFileRequest inp]" "vw_down v c = []" "vw_over v c = None"
  shows "\<exists>d. receiving env v None [] d \<and>
    (WorkloadManager_OpenFile_Handler srv (attended tr sched) \<lparr>dn_stream = c, dn_chunks = [], dn_end = None\<rparr> = srv inp d \<or>
     vw_lost v (dn_stream d) \<and> (\<exists>e. WorkloadManager_OpenFile_Handler srv (attended tr sched)
       \<lparr>dn_stream = c, dn_chunks = [], dn_end = None\<rparr> = Some (Err e, d)))"
proof -
  let ?x = "PbOpenFileRequest zero_open_file_request" and ?d0 = "\<lparr>dn_stream = c, dn_chunks = [], dn_end = None\<rparr>"
  have d0: "receiving env v None [] ?d0" using assms(6,7) by (simp add: receiving_def)
  have "vw_up v c \<noteq> []" using assms(5) by simp
  then have "gs_RecvMsg (tr_server tr) ?x c \<noteq> None" using assms(2) unfolding server_contract_def by blast
  then obtain r c' where r: "gs_RecvMsg (tr_server tr) ?x c = Some (r, c')" by auto
  define d where "d = client_receives tr (sched (?d0\<lparr>dn_stream := c'\<rparr>)) (?d0\<lparr>dn_stream := c'\<rparr>)"
  have recv: "gs_RecvMsg (attended tr sched) ?x ?d0 = Some (r, d)"
    by (simp add: attended_def Let_def r d_def)
  from assms(2) r have law: "case r of
        Ok m \<Rightarrow> \<exists>ms. vw_up v c = m # ms \<and> pb_new m = pb_new ?x \<and> moves v c c' ms (vw_down v c) (vw_over v c)
      | Err e \<Rightarrow> moves v c c' (vw_up v c) (vw_down v c) (vw_over v c) \<and>
          (vw_lost v c' \<or> vw_up v c = [] \<or> pb_new (hd (vw_up v c)) \<noteq> pb_new ?x \<or> \<not> carried env (hd (vw_up v c)))
      | Panic p \<Rightarrow> False"
    unfolding server_contract_def by blast
  have none: "list_all chunk_ok ([] :: string list)" by simp
  note received = client_receives_receiving [OF assms(1,3) none]
  show ?thesis
  proof (cases r)
    case (Ok m)
    with law assms(5-7) have m: "m = PbOpenFileRequest inp" "moves v c c' [] (vw_down v c) None" by auto
    have "receiving env v None [] d"
      unfolding d_def using received(1) [OF receiving_step(1) [OF d0]] m(2) assms(6) by simp
    moreover have "WorkloadManager_OpenFile_Handler srv (attended tr sched) ?d0 = srv inp d"
      using recv Ok m(1) by (simp add: WorkloadManager_OpenFile_Handler_def recv_typed_def typed_def)
    ultimately show ?thesis by blast
  next
    case (Err e)
    with law assms(4-7) have m: "vw_lost v c'" "moves v c c' (vw_up v c) (vw_down v c) None" by auto
    from receiving_step(1) [OF d0] m(2) have d1: "receiving env v None [] (?d0\<lparr>dn_stream := c'\<rparr>)" by simp
    have "receiving env v None [] d" "vw_lost v (dn_stream d)"
      unfolding d_def using received [OF d1] m(1) by simp_all
    moreover have "WorkloadManager_OpenFile_Handler srv (attended tr sched) ?d0 = Some (Err e, d)"
      using recv Err by (simp add: WorkloadManager_OpenFile_Handler_def recv_typed_def typed_def)
    ultimately show ?thesis by blast
  next
    case (Panic p)
    with law show ?thesis by simp
  qed
qed

lemma served_result:
  assumes "client_contract env v tr" "server_contract env v tr" "chunks_carried env"
    "WorkloadManager_OpenFile_Handler (serve_OpenFile (attended tr sched) fs) (attended tr sched)
       \<lparr>dn_stream = c, dn_chunks = [], dn_end = None\<rparr> = Some (r, d)"
    "receiving env v None sent d" "list_all chunk_ok sent" "concat sent @ left = b"
    "r = Ok () \<and> left = [] \<or> r \<noteq> Ok () \<and> vw_lost v (dn_stream d)"
  shows "\<exists>d. serve_and_receive tr sched fs n c = Some d \<and> (\<exists>rest. concat (dn_chunks d) @ rest = b) \<and>
    list_all chunk_ok (dn_chunks d) \<and> (dn_end d = Some EOF \<longrightarrow> concat (dn_chunks d) = b) \<and>
    (length b < n \<longrightarrow> dn_end d \<noteq> None \<and> (dn_end d = Some EOF \<or> vw_lost v (dn_stream d)))"
proof -
  define d2 where "d2 = client_receives tr n (d\<lparr>dn_stream := tr_end tr r (dn_stream d)\<rparr>)"
  note fin = finished [OF assms(1-3,5,6) d2_def]
  obtain rest where rest: "sent = dn_chunks d2 @ rest" using receiving_chunks [OF fin(1)] by blast
  have whole: "dn_end d2 = Some EOF \<Longrightarrow> concat (dn_chunks d2) = b"
    using receiving_EOF [OF fin(1)] end_error_EOF [of env r] assms(7,8) by fastforce
  have "dn_end d2 = Some EOF \<or> vw_lost v (dn_stream d2)" if "dn_end d2 \<noteq> None"
    using receiving_EOF [OF fin(1)] end_error_EOF [of env r] assms(8) fin(2) that by fastforce
  moreover have "length sent \<le> length b" using length_le_concat [OF assms(6)] assms(7) by auto
  ultimately have "length b < n \<longrightarrow> dn_end d2 \<noteq> None \<and> (dn_end d2 = Some EOF \<or> vw_lost v (dn_stream d2))"
    using fin(3) by auto
  moreover have "serve_and_receive tr sched fs n c = Some d2"
    using assms(4) by (simp add: serve_and_receive_def d2_def)
  moreover have "concat (dn_chunks d2) @ concat rest @ left = b" "list_all chunk_ok (dn_chunks d2)"
    using assms(6,7) rest by simp_all
  ultimately show ?thesis using whole by blast
qed

lemma refused_result:
  assumes "client_contract env v tr" "server_contract env v tr" "chunks_carried env"
    "WorkloadManager_OpenFile_Handler (serve_OpenFile (attended tr sched) fs) (attended tr sched)
       \<lparr>dn_stream = c, dn_chunks = [], dn_end = None\<rparr> = Some (r, d)"
    "receiving env v None [] d" "end_error env r = e \<or> vw_lost v (dn_stream d)"
  shows "\<exists>d. serve_and_receive tr sched fs n c = Some d \<and> dn_chunks d = [] \<and>
    (0 < n \<longrightarrow> dn_end d = Some e \<or> dn_end d \<noteq> None \<and> vw_lost v (dn_stream d))"
proof -
  define d2 where "d2 = client_receives tr n (d\<lparr>dn_stream := tr_end tr r (dn_stream d)\<rparr>)"
  have none: "list_all chunk_ok ([] :: string list)" by simp
  note fin = finished [OF assms(1-3,5) none d2_def]
  have "dn_end d2 = Some e \<or> vw_lost v (dn_stream d2)" if "dn_end d2 \<noteq> None"
    using receiving_EOF [OF fin(1)] assms(6) fin(2) that by fastforce
  moreover have "serve_and_receive tr sched fs n c = Some d2"
    using assms(4) by (simp add: serve_and_receive_def d2_def)
  ultimately show ?thesis using receiving_chunks [OF fin(1)] fin(3) by auto
qed

section \<open>Properties\<close>


text \<open>
  A connection in memory that never fails keeps the contract; it is what the witness runs on.
\<close>

record pipe =
  pi_up :: "pb_message list"
  pi_closed :: bool
  pi_down :: "pb_message list"
  pi_over :: "unit go option"

definition pipe_recv ::
  "(pb_message list \<Rightarrow> pipe) \<Rightarrow> pb_message list \<Rightarrow> go_error option \<Rightarrow> pb_message \<Rightarrow> (pb_message go \<times> pipe) option" where
  "pipe_recv store ms fin v =
     (case ms of
        m # ms' \<Rightarrow> Some (if pb_new m = pb_new v then (Ok m, store ms') else (Err (RpcError ''Internal'' ''unmarshal''), store ms))
      | [] \<Rightarrow> map_option (\<lambda>e. (Err e, store [])) fin)"

definition pipe_transport :: "'w grpc_env \<Rightarrow> pipe grpc_transport" where
  "pipe_transport env =
     \<lparr>tr_new = (\<lambda>d sm p. (Ok (), \<lparr>pi_up = [], pi_closed = False, pi_down = [], pi_over = None\<rparr>)),
      tr_client =
        \<lparr>gs_SendMsg = (\<lambda>m p. (None, p\<lparr>pi_up := pi_up p @ [m]\<rparr>)),
         gs_CloseSend = (\<lambda>p. (None, p\<lparr>pi_closed := True\<rparr>)),
         gs_RecvMsg = (\<lambda>v p. pipe_recv (\<lambda>ms. p\<lparr>pi_down := ms\<rparr>) (pi_down p) (map_option (end_error env) (pi_over p)) v)\<rparr>,
      tr_server =
        \<lparr>gs_SendMsg = (\<lambda>m p. (None, p\<lparr>pi_down := pi_down p @ [m]\<rparr>)),
         gs_CloseSend = (\<lambda>p. (None, p)),
         gs_RecvMsg = (\<lambda>v p. pipe_recv (\<lambda>ms. p\<lparr>pi_up := ms\<rparr>) (pi_up p) (if pi_closed p then Some EOF else None) v)\<rparr>,
      tr_end = (\<lambda>r p. p\<lparr>pi_over := Some r\<rparr>)\<rparr>"

definition pipe_view :: "pipe stream_view" where
  "pipe_view = \<lparr>vw_up = pi_up, vw_down = pi_down, vw_over = pi_over, vw_lost = (\<lambda>p. False)\<rparr>"

lemma pipe_client_contract: "client_contract env pipe_view (pipe_transport env)"
  unfolding client_contract_def
  by (auto simp: pipe_transport_def pipe_view_def moves_def pipe_recv_def split: list.splits if_splits)

lemma pipe_server_contract: "server_contract env pipe_view (pipe_transport env)"
  unfolding server_contract_def
  by (auto simp: pipe_transport_def pipe_view_def moves_def pipe_recv_def split: list.splits if_splits)

text \<open>The encoding of the messages of \<open>OpenFile\<close> with fields of less than 16384 bytes.\<close>

definition pb_field :: "string \<Rightarrow> string go" where
  "pb_field b =
     (if b = [] then Ok []
      else if length b < 128 then Ok (CHR 0x0A # char_of (length b) # b)
      else if length b < 16384 then Ok (CHR 0x0A # char_of (128 + length b mod 128) # char_of (length b div 128) # b)
      else Err (ErrorString ''field too long''))"

definition pb_unfield :: "string \<Rightarrow> string go" where
  "pb_unfield b =
     (case b of
        [] \<Rightarrow> Ok []
      | t # l # bs \<Rightarrow> if (of_char l :: nat) < 128 then Ok bs else Ok (drop 1 bs)
      | _ \<Rightarrow> Err EOF)"

definition open_env :: "unit grpc_env" where
  "open_env =
     \<lparr>ge_Marshal = (\<lambda>m. case m of
        PbChunk c \<Rightarrow> pb_field (ch_Content c) | PbOpenFileRequest r \<Rightarrow> pb_field (ofr_Path r)
      | _ \<Rightarrow> Err (ErrorString ''unsupported'')),
      ge_Unmarshal = (\<lambda>b v. case v of
        PbChunk c \<Rightarrow> go_bind (pb_unfield b) (\<lambda>b. Ok (PbChunk \<lparr>ch_Content = b\<rparr>))
      | PbOpenFileRequest r \<Rightarrow> go_bind (pb_unfield b) (\<lambda>b. Ok (PbOpenFileRequest \<lparr>ofr_Path = b\<rparr>))
      | _ \<Rightarrow> Err (ErrorString ''unsupported'')),
      ge_leaf = (\<lambda>e. ''error''), ge_lost = ''transport is closing'',
      ge_streaming = (\<lambda>name d w. (Ok (WireStatus ''Internal'' ''EOF''), w))\<rparr>"

lemma open_env_carries:
  "chunks_carried open_env"
  "length path < 128 \<Longrightarrow> carried open_env (PbOpenFileRequest \<lparr>ofr_Path = path\<rparr>)"
  by (simp_all add: chunks_carried_def carried_def open_env_def pb_field_def MaxReceiveMessageSize_def)


end
