(* ===== verification/Configurator.thy ===== *)
theory Configurator
  imports Object_Tracker
begin

text \<open>
  The configurator, \<open>cmd/configurator/main.go\<close>: a loop that keeps one virtual-kubelet pod for
  each partition of Slurm. The API server is a parameter. What the loop does at its best is shown
  under the locale \<open>kubelet_cluster\<close>, an ideal cluster in which every pod has its labelled node at
  once; \<open>Configurator_Cluster\<close> says what is left in any cluster.
\<close>

section \<open>Pods of virtual kubelets\<close>

record env_var =
  ev_Name :: string
  ev_Value :: string
  ev_FieldPath :: "string option"

record container_port =
  cp_Name :: string
  cp_ContainerPort :: int

record http_probe =
  hp_Path :: string
  hp_Port :: string

record volume_mount =
  vm_Name :: string
  vm_MountPath :: string

record host_path_volume =
  hv_Name :: string
  hv_Path :: string
  hv_Type :: string

record kubelet_container =
  kc_Name :: string
  kc_Image :: string
  kc_ImagePullPolicy :: string
  kc_Args :: "string list"
  kc_Ports :: "container_port list"
  kc_ReadinessProbe :: http_probe
  kc_Env :: "env_var list"
  kc_VolumeMounts :: "volume_mount list"

record kubelet_pod =
  kp_Meta :: object_meta
  kp_ServiceAccountName :: string
  kp_Containers :: "kubelet_container list"
  kp_Volumes :: "host_path_volume list"
  kp_RunAsUser :: int64
  kp_RunAsGroup :: int64

text \<open>The package variables, read from the environment and the flags.\<close>

record configurator =
  cf_serviceAccount :: string
  cf_kubeletImage :: string
  cf_resultsImage :: string
  cf_hostNodeName :: string
  cf_namespace :: string
  cf_redBoxSock :: string
  cf_uid :: int64
  cf_gid :: int64

text \<open>\<open>if namespace == "" { namespace = "default" }\<close> of \<open>main\<close>\<close>

definition default_namespace :: "configurator \<Rightarrow> configurator" where
  "default_namespace cf = (if cf_namespace cf = [] then cf\<lparr>cf_namespace := ''default''\<rparr> else cf)"

definition partitionNodeName :: "string \<Rightarrow> string \<Rightarrow> string" where
  "partitionNodeName part node = ''slurm-'' @ node @ ''-'' @ strings_ToLower part"

definition env_value :: "string \<Rightarrow> string \<Rightarrow> env_var" where
  "env_value n v = \<lparr>ev_Name = n, ev_Value = v, ev_FieldPath = None\<rparr>"

definition env_field :: "string \<Rightarrow> string \<Rightarrow> env_var" where
  "env_field n p = \<lparr>ev_Name = n, ev_Value = [], ev_FieldPath = Some p\<rparr>"

definition kubelet_env :: "configurator \<Rightarrow> string \<Rightarrow> env_var list" where
  "kubelet_env cf partitionName =
     [env_field ''VK_HOST_NAME'' ''spec.nodeName'',
      env_field ''VK_POD_NAME'' ''metadata.name'',
      env_field ''VKUBELET_POD_IP'' ''status.podIP'',
      env_value ''PARTITION'' partitionName,
      env_value ''RED_BOX_SOCK'' (cf_redBoxSock cf),
      env_value ''APISERVER_CERT_LOCATION'' ''/kubelet.crt'',
      env_value ''APISERVER_KEY_LOCATION'' ''/kubelet.key'',
      env_value ''RESULTS_IMAGE'' (cf_resultsImage cf)]"

definition kubelet_mounts :: "volume_mount list" where
  "kubelet_mounts =
     [\<lparr>vm_Name = ''syslurm-mount'', vm_MountPath = ''/syslurm''\<rparr>,
      \<lparr>vm_Name = ''kubelet-crt'', vm_MountPath = ''/kubelet.crt''\<rparr>,
      \<lparr>vm_Name = ''kubelet-key'', vm_MountPath = ''/kubelet.key''\<rparr>]"

definition kubelet_volumes :: "host_path_volume list" where
  "kubelet_volumes =
     [\<lparr>hv_Name = ''syslurm-mount'', hv_Path = ''/var/run/syslurm'', hv_Type = ''Directory''\<rparr>,
      \<lparr>hv_Name = ''kubelet-crt'', hv_Path = ''/var/lib/kubelet/pki/kubelet.crt'', hv_Type = ''File''\<rparr>,
      \<lparr>hv_Name = ''kubelet-key'', hv_Path = ''/var/lib/kubelet/pki/kubelet.key'', hv_Type = ''File''\<rparr>]"

definition virtualKubeletPodTemplate :: "configurator \<Rightarrow> string \<Rightarrow> string \<Rightarrow> kubelet_pod" where
  "virtualKubeletPodTemplate cf partitionName nodeName =
     \<lparr>kp_Meta =
        \<lparr>om_Name = partitionNodeName partitionName nodeName, om_Namespace = [], om_UID = [],
         om_OwnerReferences = [], om_Labels = Map.empty\<rparr>,
      kp_ServiceAccountName = cf_serviceAccount cf,
      kp_Containers =
        [\<lparr>kc_Name = ''vk'', kc_Image = cf_kubeletImage cf, kc_ImagePullPolicy = ''IfNotPresent'',
          kc_Args = [''--nodename'', partitionNodeName partitionName nodeName, ''--provider'', ''wlm'',
            ''--startup-timeout'', ''10s''],
          kc_Ports = [\<lparr>cp_Name = ''metrics'', cp_ContainerPort = 10255\<rparr>],
          kc_ReadinessProbe = \<lparr>hp_Path = ''/stats/summary'', hp_Port = ''metrics''\<rparr>,
          kc_Env = kubelet_env cf partitionName,
          kc_VolumeMounts = kubelet_mounts\<rparr>],
      kp_Volumes = kubelet_volumes,
      kp_RunAsUser = cf_uid cf,
      kp_RunAsGroup = cf_gid cf\<rparr>"

section \<open>Partitions and nodes\<close>

record kube_node =
  kn_Labels :: "string \<rightharpoonup> string"

definition partition_label :: string where
  "partition_label = ''wlm.sylabs.io/partition''"

fun partitionNames :: "kube_node list \<Rightarrow> string list" where
  "partitionNames [] = []"
| "partitionNames (n # nodes) =
     (case kn_Labels n partition_label of
        Some l \<Rightarrow> l # partitionNames nodes
      | None \<Rightarrow> partitionNames nodes)"

fun contains :: "string list \<Rightarrow> string \<Rightarrow> bool" where
  "contains [] e = False"
| "contains (e1 # s) e = (if e = e1 then True else contains s e)"

fun notIn :: "string list \<Rightarrow> string list \<Rightarrow> string list" where
  "notIn [] s2 = []"
| "notIn (e1 # s1) s2 = (if contains s2 e1 then notIn s1 s2 else e1 # notIn s1 s2)"

lemma contains_iff [simp]: "contains s e \<longleftrightarrow> e \<in> set s"
  by (induction s) auto

lemma notIn_filter: "notIn s1 s2 = filter (\<lambda>e. e \<notin> set s2) s1"
  by (induction s1) auto

lemma set_notIn [simp]: "set (notIn s1 s2) = set s1 - set s2"
  by (auto simp: notIn_filter)

lemma distinct_notIn: "distinct s1 \<Longrightarrow> distinct (notIn s1 s2)"
  by (simp add: notIn_filter)

lemma set_partitionNames: "set (partitionNames nodes) = {l. \<exists>n \<in> set nodes. kn_Labels n partition_label = Some l}"
  by (induction nodes) (auto split: option.splits)

section \<open>The loop\<close>

text \<open>
  The calls of the core client the loop makes. Creating and deleting return the error and the
  state the server is left in.
\<close>

record 's kube_api =
  ka_ListNodes :: "'s \<Rightarrow> string \<Rightarrow> kube_node list go"
  ka_CreatePod :: "'s \<Rightarrow> string \<Rightarrow> kubelet_pod \<Rightarrow> 's \<times> go_error option"
  ka_DeletePod :: "'s \<Rightarrow> string \<Rightarrow> string \<Rightarrow> 's \<times> go_error option"

fun createNodeForPartitions ::
  "configurator \<Rightarrow> 's kube_api \<Rightarrow> string list \<Rightarrow> 's \<Rightarrow> 's \<times> go_error option" where
  "createNodeForPartitions cf api [] s = (s, None)"
| "createNodeForPartitions cf api (p # partitions) s =
     (case ka_CreatePod api s (cf_namespace cf) (virtualKubeletPodTemplate cf p (cf_hostNodeName cf)) of
        (s, Some e) \<Rightarrow> (s, Some (Wrapped (''could not create pod for '' @ p @ '' partition'') e))
      | (s, None) \<Rightarrow> createNodeForPartitions cf api partitions s)"

fun deleteControllingPod ::
  "configurator \<Rightarrow> 's kube_api \<Rightarrow> string list \<Rightarrow> 's \<Rightarrow> 's \<times> go_error option" where
  "deleteControllingPod cf api [] s = (s, None)"
| "deleteControllingPod cf api (n # nodes) s =
     (let nodeName = partitionNodeName n (cf_hostNodeName cf)
      in case ka_DeletePod api s (cf_namespace cf) nodeName of
           (s, Some e) \<Rightarrow> (s, Some (Wrapped (''could not delete pod '' @ nodeName) e))
         | (s, None) \<Rightarrow> deleteControllingPod cf api nodes s)"

text \<open>
  One firing of the ticker. \<open>resp\<close> is what red-box answers to the request for partitions.
  Errors are logged and otherwise dropped: a failed creation does not keep the deletions from
  being tried.
\<close>

definition watch_tick :: "configurator \<Rightarrow> 's kube_api \<Rightarrow> string list go \<Rightarrow> 's \<Rightarrow> 's" where
  "watch_tick cf api resp s =
     (case resp of
        Ok partitions \<Rightarrow>
          (case ka_ListNodes api s ''type=virtual-kubelet'' of
             Ok nodes \<Rightarrow>
               (let nNames = partitionNames nodes;
                    partitionToCreate = notIn partitions nNames;
                    (s, _) = createNodeForPartitions cf api partitionToCreate s;
                    nodesToDelete = notIn nNames partitions;
                    (s, _) = deleteControllingPod cf api nodesToDelete s
                in s)
           | _ \<Rightarrow> s)
      | _ \<Rightarrow> s)"

text \<open>What the \<open>select\<close> of the loop receives: the end of the context, or a tick.\<close>

datatype watch_event = Ctx_Done | Tick "string list go"

fun watchPartitions :: "configurator \<Rightarrow> 's kube_api \<Rightarrow> watch_event list \<Rightarrow> 's \<Rightarrow> 's" where
  "watchPartitions cf api [] s = s"
| "watchPartitions cf api (Ctx_Done # evs) s = s"
| "watchPartitions cf api (Tick resp # evs) s = watchPartitions cf api evs (watch_tick cf api resp s)"

section \<open>What the loop relies on\<close>

text \<open>
  An ideal cluster: the server holds pods under their namespace and name, refuses to create a pod
  twice, and answers a listing of the nodes with one node for each pod, labelled with the partition
  of the pod.
\<close>

definition kubelet_set_ns :: "string \<Rightarrow> kubelet_pod \<Rightarrow> kubelet_pod" where
  "kubelet_set_ns n p = p\<lparr>kp_Meta := (kp_Meta p)\<lparr>om_Namespace := n\<rparr>\<rparr>"

definition partition_key :: "configurator \<Rightarrow> string \<Rightarrow> obj_key" where
  "partition_key cf p = (cf_namespace cf, partitionNodeName p (cf_hostNodeName cf))"

definition partition_pod :: "configurator \<Rightarrow> string \<Rightarrow> kubelet_pod" where
  "partition_pod cf p =
     kubelet_set_ns (cf_namespace cf) (virtualKubeletPodTemplate cf p (cf_hostNodeName cf))"

lemma partition_key_eq [simp]:
  "partition_key cf p = partition_key cf q \<longleftrightarrow> strings_ToLower p = strings_ToLower q"
  by (simp add: partition_key_def partitionNodeName_def)

lemma meta_key_partition_pod [simp]: "meta_key (kp_Meta (partition_pod cf p)) = partition_key cf p"
  by (simp add: meta_key_def partition_key_def partition_pod_def kubelet_set_ns_def
      virtualKubeletPodTemplate_def)

lemma named_partition_key [simp]: "named (partition_key cf p) \<longleftrightarrow> cf_namespace cf \<noteq> []"
  by (simp add: named_def partition_key_def partitionNodeName_def)

locale kubelet_cluster =
  fixes api :: "'s kube_api"
    and view :: "'s \<Rightarrow> obj_key \<Rightarrow> kubelet_pod option"
    and ok :: "'s \<Rightarrow> bool"
    and node_of :: "kubelet_pod \<Rightarrow> kube_node"
    and cf :: configurator
  assumes list_nodes: "ok s \<Longrightarrow>
      \<exists>xs. ka_ListNodes api s ''type=virtual-kubelet'' = Ok (map node_of xs) \<and> distinct xs \<and>
        set xs = ran (view s)"
    and create_new: "ok s \<Longrightarrow> view s (partition_key cf p) = None \<Longrightarrow>
      \<exists>s'. ka_CreatePod api s (cf_namespace cf) (virtualKubeletPodTemplate cf p (cf_hostNodeName cf)) = (s', None) \<and>
        ok s' \<and> view s' = (view s)(partition_key cf p \<mapsto> partition_pod cf p)"
    and create_again: "ok s \<Longrightarrow> view s (partition_key cf p) \<noteq> None \<Longrightarrow>
      ka_CreatePod api s (cf_namespace cf) (virtualKubeletPodTemplate cf p (cf_hostNodeName cf)) =
        (s, Some ApiAlreadyExists)"
    and registers: "kn_Labels (node_of (partition_pod cf p)) partition_label = Some p"
begin

text \<open>The pods are those of the partitions in \<open>A\<close>, and no others.\<close>

definition managed :: "string set \<Rightarrow> 's \<Rightarrow> bool" where
  "managed A s \<longleftrightarrow> ok s \<and> (\<forall>p \<in> A. view s (partition_key cf p) = Some (partition_pod cf p)) \<and>
     (\<forall>k. k \<notin> partition_key cf ` A \<longrightarrow> view s k = None)"

lemma managedD:
  assumes "managed A s"
  shows "ok s" "p \<in> A \<Longrightarrow> view s (partition_key cf p) = Some (partition_pod cf p)"
    "k \<notin> partition_key cf ` A \<Longrightarrow> view s k = None"
  using assms unfolding managed_def by blast+

lemma managedI:
  assumes "ok s" "\<And>p. p \<in> A \<Longrightarrow> view s (partition_key cf p) = Some (partition_pod cf p)"
    "\<And>k. k \<notin> partition_key cf ` A \<Longrightarrow> view s k = None"
  shows "managed A s"
  using assms unfolding managed_def by blast

lemma managed_ran: "managed A s \<Longrightarrow> ran (view s) = partition_pod cf ` A"
proof -
  assume A: "managed A s"
  have "x \<in> partition_pod cf ` A" if "view s k = Some x" for k x
    using that managedD(2,3) [OF A] by (cases "k \<in> partition_key cf ` A") auto
  moreover have "partition_pod cf p \<in> ran (view s)" if "p \<in> A" for p
    using managedD(2) [OF A that] by (rule ranI)
  ultimately show ?thesis by (fastforce simp: ran_def)
qed

lemma distinct_names:
  "distinct xs \<Longrightarrow> set xs \<subseteq> range (partition_pod cf) \<Longrightarrow> distinct (partitionNames (map node_of xs))"
proof (induction xs)
  case (Cons x xs)
  then obtain p where p: "x = partition_pod cf p" by auto
  have "p \<notin> set (partitionNames (map node_of xs))"
  proof
    assume "p \<in> set (partitionNames (map node_of xs))"
    then obtain y where y: "y \<in> set xs" "kn_Labels (node_of y) partition_label = Some p"
      by (auto simp: set_partitionNames)
    with Cons.prems(2) obtain q where "y = partition_pod cf q" by auto
    with y p Cons.prems(1) show False by (simp add: registers)
  qed
  with Cons p show ?case by (simp add: registers)
qed simp

lemma managed_names:
  assumes "managed A s"
  shows "\<exists>ns. ka_ListNodes api s ''type=virtual-kubelet'' = Ok ns \<and> distinct (partitionNames ns) \<and>
    set (partitionNames ns) = A"
proof -
  obtain xs where ns: "ka_ListNodes api s ''type=virtual-kubelet'' = Ok (map node_of xs)"
    and "distinct xs" and set: "set xs = partition_pod cf ` A"
    using list_nodes [OF managedD(1) [OF assms]] managed_ran [OF assms] by auto
  then have "distinct (partitionNames (map node_of xs))" by (intro distinct_names) auto
  moreover have "set (partitionNames (map node_of xs)) = A"
    by (auto simp: set_partitionNames registers set)
  ultimately show ?thesis using ns by blast
qed

lemma create_managed:
  assumes "managed A s" "distinct ps" "inj_on strings_ToLower (A \<union> set ps)" "A \<inter> set ps = {}"
  shows "\<exists>s'. createNodeForPartitions cf api ps s = (s', None) \<and> managed (A \<union> set ps) s'"
  using assms
proof (induction ps arbitrary: A s)
  case (Cons p ps)
  have fresh: "partition_key cf p \<notin> partition_key cf ` A"
  proof
    assume "partition_key cf p \<in> partition_key cf ` A"
    then obtain q where "q \<in> A" "strings_ToLower p = strings_ToLower q" by auto
    with Cons.prems(3,4) show False by (auto simp: inj_on_def)
  qed
  then obtain s' where s': "ka_CreatePod api s (cf_namespace cf) (virtualKubeletPodTemplate cf p (cf_hostNodeName cf)) = (s', None)"
    and ok: "ok s'" and view: "view s' = (view s)(partition_key cf p \<mapsto> partition_pod cf p)"
    using create_new [OF managedD(1) managedD(3)] Cons.prems(1) by blast
  have "managed (insert p A) s'"
  proof (rule managedI [OF ok])
    fix q assume "q \<in> insert p A"
    then show "view s' (partition_key cf q) = Some (partition_pod cf q)"
      using fresh managedD(2) [OF Cons.prems(1)] unfolding view by (metis fun_upd_apply imageI insertE)
  next
    fix k assume "k \<notin> partition_key cf ` insert p A"
    then show "view s' k = None"
      using managedD(3) [OF Cons.prems(1)] unfolding view by simp
  qed
  moreover have "distinct ps" "inj_on strings_ToLower (insert p A \<union> set ps)" "insert p A \<inter> set ps = {}"
    using Cons.prems by auto
  ultimately obtain s'' where "createNodeForPartitions cf api ps s' = (s'', None)"
      "managed (insert p A \<union> set ps) s''"
    using Cons.IH by blast
  with s' show ?case by simp
qed simp

text \<open>
  When two partitions of Slurm fall together in lower case, the second creation fails at every
  tick and no partition after it is ever represented.
\<close>

lemma tick_collision:
  assumes "managed A s" "A \<subseteq> {p}" "p \<noteq> q" "strings_ToLower p = strings_ToLower q"
  shows "managed {p} (watch_tick cf api (Ok (p # q # ps)) s)"
proof -
  obtain ns where ns: "ka_ListNodes api s ''type=virtual-kubelet'' = Ok ns"
    and names: "distinct (partitionNames ns)" "set (partitionNames ns) = A"
    using managed_names [OF assms(1)] by blast
  have "distinct [p]" "inj_on strings_ToLower (A \<union> set [p])" using assms(2) by (auto simp: inj_on_def)
  have s1: "\<exists>s'. createNodeForPartitions cf api (notIn [p] (partitionNames ns)) s = (s', None) \<and> managed {p} s'"
  proof (cases "p \<in> A")
    case True
    with assms(2) have "A = {p}" by blast
    with assms(1) have "managed {p} s" by simp
    with True show ?thesis by (simp add: notIn_filter names)
  next
    case False
    then have "A = {}" using assms(2) by auto
    with create_managed [OF assms(1), of "[p]"] show ?thesis by (simp add: notIn_filter names)
  qed
  then obtain s' where s': "createNodeForPartitions cf api (notIn [p] (partitionNames ns)) s = (s', None)"
    and p: "managed {p} s'" by blast
  have split: "createNodeForPartitions cf api (notIn (p # q # ps) (partitionNames ns)) s =
      createNodeForPartitions cf api (q # notIn ps (partitionNames ns)) s'"
  proof -
    have "q \<notin> A" using assms(2,3) by auto
    with s' show ?thesis
      by (cases "p \<in> A") (simp_all add: names split: prod.splits option.splits)
  qed
  have "partition_key cf q = partition_key cf p" using assms(4) by simp
  then have "view s' (partition_key cf q) \<noteq> None" using managedD(2) [OF p, of p] by (metis insertI1 option.discI)
  then obtain e where e: "createNodeForPartitions cf api (q # notIn ps (partitionNames ns)) s' = (s', Some e)"
    using create_again [OF managedD(1) [OF p]] by simp
  have old: "notIn (partitionNames ns) (p # q # ps) = []"
    using assms(2) by (auto simp: notIn_filter names filter_empty_conv)
  have "watch_tick cf api (Ok (p # q # ps)) s = s'"
    unfolding watch_tick_def ns go.case Let_def split old e by simp
  with p show ?thesis by simp
qed

lemma watch_collision:
  assumes "managed {} s" "p \<noteq> q" "strings_ToLower p = strings_ToLower q"
  shows "managed {p} (watchPartitions cf api (replicate (Suc n) (Tick (Ok (p # q # ps)))) s)"
proof -
  have "managed {p} (watchPartitions cf api (replicate n (Tick (Ok (p # q # ps)))) s')" if "managed {p} s'" for s'
    using that by (induction n arbitrary: s') (auto intro: tick_collision [OF _ _ assms(2,3)])
  then show ?thesis using tick_collision [OF assms(1) _ assms(2,3)] by simp
qed

end
section \<open>The tracker as the API server\<close>

text \<open>
  The ideal cluster on the object tracker: the store holds the virtual-kubelet pods, and every pod has
  its node at once, so a listing of the nodes is that of the pods. The virtual kubelet itself, a
  program of another repository, is the parameter \<open>node_of\<close>: the node it registers for its pod, which
  carries the label the listing selects.
\<close>

definition go_state :: "'s \<Rightarrow> 's go \<Rightarrow> 's \<times> go_error option" where
  "go_state s r =
     (case r of Ok s' \<Rightarrow> (s', None) | Err e \<Rightarrow> (s, Some e) | Panic m \<Rightarrow> (s, Some (ExternalError m)))"

definition tracker_kube :: "(kubelet_pod \<Rightarrow> kube_node) \<Rightarrow> kubelet_pod list kube_api" where
  "tracker_kube node_of =
     \<lparr>ka_ListNodes = (\<lambda>s selector. Ok (map node_of s)),
      ka_CreatePod = (\<lambda>s ns p. go_state s (tracker_Create kp_Meta kubelet_set_ns s p ns)),
      ka_DeletePod = (\<lambda>s ns name. go_state s (tracker_Delete kp_Meta s ns name))\<rparr>"

interpretation kubelets: api_object kp_Meta kubelet_set_ns
  by unfold_locales (simp add: kubelet_set_ns_def)

text \<open>What the configurator assumes of the virtual kubelet.\<close>

definition registers_partition :: "configurator \<Rightarrow> (kubelet_pod \<Rightarrow> kube_node) \<Rightarrow> bool" where
  "registers_partition cf node_of \<longleftrightarrow>
     cf_namespace cf \<noteq> [] \<and> (\<forall>p. kn_Labels (node_of (partition_pod cf p)) partition_label = Some p)"

locale configured =
  fixes cf :: configurator and node_of :: "kubelet_pod \<Rightarrow> kube_node"
  assumes partition_registered: "registers_partition cf node_of"

lemma template_create:
  assumes "cf_namespace cf \<noteq> []"
  shows "tracker_Create kp_Meta kubelet_set_ns s (virtualKubeletPodTemplate cf p (cf_hostNodeName cf)) (cf_namespace cf) =
    tracker_put kp_Meta (partition_pod cf p) False s"
  using assms
  by (subst kubelets.tracker_Create_namespace) (simp_all add: virtualKubeletPodTemplate_def partition_pod_def)

sublocale configured \<subseteq> kubelet_cluster "tracker_kube node_of" "tracker_view kp_Meta" "tracker_ok kp_Meta" node_of cf
proof
  fix s :: "kubelet_pod list" and p
  assume s: "tracker_ok kp_Meta s"
  have ns: "cf_namespace cf \<noteq> []" using partition_registered by (simp add: registers_partition_def)
  let ?pod = "partition_pod cf p"
  note put = tracker_put_create [OF s, of ?pod, simplified, OF ns]
  show "tracker_view kp_Meta s (partition_key cf p) = None \<Longrightarrow>
      \<exists>s'. ka_CreatePod (tracker_kube node_of) s (cf_namespace cf) (virtualKubeletPodTemplate cf p (cf_hostNodeName cf)) =
          (s', None) \<and> tracker_ok kp_Meta s' \<and>
        tracker_view kp_Meta s' = (tracker_view kp_Meta s)(partition_key cf p \<mapsto> ?pod)"
    using put by (simp add: tracker_kube_def go_state_def template_create [OF ns] split: go.splits)
  show "tracker_view kp_Meta s (partition_key cf p) \<noteq> None \<Longrightarrow>
      ka_CreatePod (tracker_kube node_of) s (cf_namespace cf) (virtualKubeletPodTemplate cf p (cf_hostNodeName cf)) =
        (s, Some ApiAlreadyExists)"
    using put by (simp add: tracker_kube_def go_state_def template_create [OF ns] split: go.splits)
next
  fix s :: "kubelet_pod list" assume s: "tracker_ok kp_Meta s"
  have "set s = ran (tracker_view kp_Meta s)" using tracker_ran [OF s] by simp
  moreover have "distinct s" using s by (simp add: tracker_ok_def distinct_map)
  ultimately show "\<exists>xs. ka_ListNodes (tracker_kube node_of) s ''type=virtual-kubelet'' = Ok (map node_of xs) \<and>
      distinct xs \<and> set xs = ran (tracker_view kp_Meta s)"
    by (auto simp: tracker_kube_def)
qed (use partition_registered in \<open>simp add: registers_partition_def\<close>)

text \<open>
  A node that carries the partition its pod was started with (the variable \<open>PARTITION\<close>)
  whatever else is on it, for a configurator whose namespace has been defaulted.
\<close>

definition pod_partition :: "kubelet_pod \<Rightarrow> string option" where
  "pod_partition p =
     map_option ev_Value (find (\<lambda>v. ev_Name v = ''PARTITION'') (concat (map kc_Env (kp_Containers p))))"

definition labelled :: "(kubelet_pod \<Rightarrow> kube_node) \<Rightarrow> kubelet_pod \<Rightarrow> kube_node" where
  "labelled node p = (node p)\<lparr>kn_Labels := (kn_Labels (node p))(partition_label := pod_partition p)\<rparr>"

lemma labelled_registers: "registers_partition (default_namespace cf) (labelled node)"
  by (simp add: registers_partition_def default_namespace_def labelled_def partition_pod_def
      kubelet_set_ns_def virtualKubeletPodTemplate_def pod_partition_def kubelet_env_def
      env_field_def env_value_def)

interpretation vk: configured "default_namespace cf" "labelled node" for cf node
  by unfold_locales (rule labelled_registers)

section \<open>Properties\<close>

text \<open>The pods of a store are exactly those of the partitions in \<open>A\<close>.\<close>

definition represents :: "configurator \<Rightarrow> string set \<Rightarrow> kubelet_pod list \<Rightarrow> bool" where
  "represents cf A s \<longleftrightarrow>
     tracker_ok kp_Meta s \<and> set s = partition_pod cf ` A"

context configured
begin

lemma represents_managed: "represents cf A s \<longleftrightarrow> managed A s"
proof
  assume r: "represents cf A s"
  then have ok: "tracker_ok kp_Meta s" by (simp add: represents_def)
  show "managed A s"
  proof (rule managedI [OF ok])
    fix p assume "p \<in> A"
    with r have "partition_pod cf p \<in> set s" by (simp add: represents_def)
    then show "tracker_view kp_Meta s (partition_key cf p) = Some (partition_pod cf p)"
      using ok tracker_view_member [OF ok] by fastforce
  next
    fix k assume "k \<notin> partition_key cf ` A"
    with r show "tracker_view kp_Meta s k = None"
      by (auto simp: tracker_view_None represents_def)
  qed
next
  assume m: "managed A s"
  then show "represents cf A s"
    using managed_ran [OF m] managedD(1) [OF m] by (simp add: represents_def tracker_ran)
qed

lemmas watch_collides = watch_collision [folded represents_managed]

end

text \<open>
  C26. Two partitions of Slurm whose names differ only in case share one pod name: even in an ideal
  cluster, creating the second pod fails at every tick, and when the two come first in the answers
  of red-box the partitions listed after them are never represented in the cluster, however many
  times the configurator runs.
\<close>

theorem case_collision_starves_partitions:
  assumes "registers_partition cf node_of"
    and "p \<noteq> q" and "strings_ToLower p = strings_ToLower q"
  shows "represents cf {p}
    (watchPartitions cf (tracker_kube node_of) (replicate (Suc n) (Tick (Ok (p # q # ps)))) [])"
proof -
  have "represents cf {} []" by (simp add: represents_def)
  from configured.watch_collides [OF configured.intro [OF assms(1)] this assms(2,3)] show ?thesis .
qed

definition example_cf :: configurator where
  "example_cf =
     default_namespace
       \<lparr>cf_serviceAccount = ''wlm-operator'', cf_kubeletImage = ''vk:latest'', cf_resultsImage = ''results:latest'',
        cf_hostNodeName = ''node-1'', cf_namespace = [], cf_redBoxSock = ''/syslurm/red-box.sock'',
        cf_uid = 1000, cf_gid = 1000\<rparr>"

definition example_node :: "kubelet_pod \<Rightarrow> kube_node" where
  "example_node = labelled (\<lambda>p. \<lparr>kn_Labels = [''type'' \<mapsto> ''virtual-kubelet'']\<rparr>)"

lemma example_registers: "registers_partition example_cf example_node"
  unfolding example_cf_def example_node_def by (rule labelled_registers)

theorem case_collision_starves_partitions_witness:
  "represents example_cf {''GPU''}
    (watchPartitions example_cf (tracker_kube example_node)
      (replicate (Suc 9) (Tick (Ok [''GPU'', ''gpu'', ''debug'']))) [])"
proof -
  have "strings_ToLower ''GPU'' = strings_ToLower ''gpu''" by code_simp
  then show ?thesis by (intro case_collision_starves_partitions [OF example_registers]) simp_all
qed

end
