(* ===== verification/Configurator_Cluster.thy ===== *)
theory Configurator_Cluster
  imports Configurator
begin

text \<open>
  The configurator in a cluster that answers as it likes: calls fail, also after they have taken
  effect, nodes register late or stay after their pod, and pods disappear. What is left of the
  server is a contract on its pods, and the theorem says what the loop still guarantees.
\<close>

section \<open>The contract of the API server\<close>

text \<open>
  \<open>pods\<close> are the pods of a state, \<open>ok\<close> holds of the states of the server, and \<open>U\<close> are the names of
  partitions that nodes are labelled with. A call that fails may or may not have taken effect.
\<close>

definition kube_contract ::
  "configurator \<Rightarrow> 's kube_api \<Rightarrow> ('s \<Rightarrow> obj_key \<Rightarrow> kubelet_pod option) \<Rightarrow> ('s \<Rightarrow> bool) \<Rightarrow> string set \<Rightarrow> bool" where
  "kube_contract cf api pods ok U \<longleftrightarrow>
     (\<forall>s nodes. ok s \<longrightarrow> ka_ListNodes api s ''type=virtual-kubelet'' = Ok nodes \<longrightarrow> set (partitionNames nodes) \<subseteq> U) \<and>
     (\<forall>s p s' e. ok s \<longrightarrow>
        ka_CreatePod api s (cf_namespace cf) (virtualKubeletPodTemplate cf p (cf_hostNodeName cf)) = (s', e) \<longrightarrow>
        ok s' \<and> (pods s' = (pods s)(partition_key cf p \<mapsto> partition_pod cf p) \<or> e \<noteq> None \<and> pods s' = pods s)) \<and>
     (\<forall>s p s' e. ok s \<longrightarrow>
        ka_DeletePod api s (cf_namespace cf) (partitionNodeName p (cf_hostNodeName cf)) = (s', e) \<longrightarrow>
        ok s' \<and> (pods s' = (pods s)(partition_key cf p := None) \<or> e \<noteq> None \<and> pods s' = pods s))"

text \<open>A server that refuses only what Kubernetes must refuse.\<close>

definition kube_accepts ::
  "configurator \<Rightarrow> 's kube_api \<Rightarrow> ('s \<Rightarrow> obj_key \<Rightarrow> kubelet_pod option) \<Rightarrow> ('s \<Rightarrow> bool) \<Rightarrow> bool" where
  "kube_accepts cf api pods ok \<longleftrightarrow>
     (\<forall>s p. ok s \<longrightarrow> pods s (partition_key cf p) = None \<longrightarrow>
        snd (ka_CreatePod api s (cf_namespace cf) (virtualKubeletPodTemplate cf p (cf_hostNodeName cf))) = None) \<and>
     (\<forall>s p. ok s \<longrightarrow> pods s (partition_key cf p) \<noteq> None \<longrightarrow>
        snd (ka_DeletePod api s (cf_namespace cf) (partitionNodeName p (cf_hostNodeName cf))) = None)"

text \<open>The pods are those of the partitions in \<open>B\<close>, and no others.\<close>

definition holds_pods :: "configurator \<Rightarrow> string set \<Rightarrow> (obj_key \<Rightarrow> kubelet_pod option) \<Rightarrow> bool" where
  "holds_pods cf B m \<longleftrightarrow>
     (\<forall>p \<in> B. m (partition_key cf p) = Some (partition_pod cf p)) \<and> (\<forall>k. k \<notin> partition_key cf ` B \<longrightarrow> m k = None)"

text \<open>
  A run: ticks with the answers of red-box, and whatever the cluster does to its nodes and other
  objects in between, which may take pods of virtual kubelets away but adds none. The list holds the
  answers.
\<close>

inductive kube_run ::
  "configurator \<Rightarrow> 's kube_api \<Rightarrow> ('s \<Rightarrow> obj_key \<Rightarrow> kubelet_pod option) \<Rightarrow> ('s \<Rightarrow> bool) \<Rightarrow> 's \<Rightarrow> string list list \<Rightarrow> 's \<Rightarrow> bool"
  for cf api pods ok s where
  kube_start: "kube_run cf api pods ok s [] s"
| kube_moves: "kube_run cf api pods ok s answers s1 \<Longrightarrow> ok s2 \<Longrightarrow> pods s2 \<subseteq>\<^sub>m pods s1 \<Longrightarrow>
    kube_run cf api pods ok s answers s2"
| kube_tick: "kube_run cf api pods ok s answers s1 \<Longrightarrow>
    kube_run cf api pods ok s (answers @ [ps]) (watchPartitions cf api [Tick (Ok ps)] s1)"
| kube_failed: "kube_run cf api pods ok s answers s1 \<Longrightarrow> (\<forall>ps. resp \<noteq> Ok ps) \<Longrightarrow>
    kube_run cf api pods ok s answers (watchPartitions cf api [Tick resp] s1)"

section \<open>One call\<close>

lemma holds_podsD:
  assumes "holds_pods cf B m"
  shows "p \<in> B \<Longrightarrow> m (partition_key cf p) = Some (partition_pod cf p)"
    "k \<notin> partition_key cf ` B \<Longrightarrow> m k = None"
  using assms unfolding holds_pods_def by blast+

lemma same_key:
  assumes "inj_on strings_ToLower U" "p \<in> U" "q \<in> U" "partition_key cf p = partition_key cf q"
  shows "p = q"
  using assms by (auto simp: inj_on_def)

lemma holds_insert:
  assumes "holds_pods cf B m" "inj_on strings_ToLower U" "B \<subseteq> U" "p \<in> U"
  shows "holds_pods cf (insert p B) (m(partition_key cf p \<mapsto> partition_pod cf p))"
proof -
  have eq: "partition_pod cf q = partition_pod cf p" if "q \<in> B" "partition_key cf q = partition_key cf p" for q
    using same_key [OF assms(2) _ assms(4) that(2)] that(1) assms(3) by blast
  show ?thesis
    unfolding holds_pods_def
  proof (intro conjI ballI allI impI)
    fix q assume "q \<in> insert p B"
    then show "(m(partition_key cf p \<mapsto> partition_pod cf p)) (partition_key cf q) = Some (partition_pod cf q)"
      using holds_podsD(1) [OF assms(1), of q] eq [of q] by (cases "partition_key cf q = partition_key cf p") auto
  next
    fix k assume "k \<notin> partition_key cf ` insert p B"
    then show "(m(partition_key cf p \<mapsto> partition_pod cf p)) k = None" using holds_podsD(2) [OF assms(1)] by simp
  qed
qed

lemma holds_remove:
  assumes "holds_pods cf B m" "inj_on strings_ToLower U" "B \<subseteq> U" "p \<in> U"
  shows "holds_pods cf (B - {p}) (m(partition_key cf p := None))"
proof -
  have neq: "partition_key cf q \<noteq> partition_key cf p" if "q \<in> B - {p}" for q
    using same_key [OF assms(2) _ assms(4), of q] that assms(3) by blast
  show ?thesis
    unfolding holds_pods_def
  proof (intro conjI ballI allI impI)
    fix q assume q: "q \<in> B - {p}"
    then show "(m(partition_key cf p := None)) (partition_key cf q) = Some (partition_pod cf q)"
      using holds_podsD(1) [OF assms(1), of q] neq [OF q] unfolding fun_upd_apply by (metis DiffD1)
  next
    fix k assume k: "k \<notin> partition_key cf ` (B - {p})"
    show "(m(partition_key cf p := None)) k = None"
    proof (cases "k = partition_key cf p")
      case False
      with k have "k \<notin> partition_key cf ` B" by blast
      with False holds_podsD(2) [OF assms(1)] show ?thesis by simp
    qed simp
  qed
qed

lemma holds_sub:
  assumes "holds_pods cf B m" "m' \<subseteq>\<^sub>m m"
  shows "holds_pods cf {p \<in> B. m' (partition_key cf p) \<noteq> None} m'"
proof -
  have sub: "m' k = m k" if "m' k \<noteq> None" for k
    using assms(2) that unfolding map_le_def dom_def by blast
  show ?thesis
    unfolding holds_pods_def
  proof (intro conjI ballI allI impI)
    fix p assume p: "p \<in> {p \<in> B. m' (partition_key cf p) \<noteq> None}"
    then have "m' (partition_key cf p) = m (partition_key cf p)" by (intro sub) simp
    also have "\<dots> = Some (partition_pod cf p)" using holds_podsD(1) [OF assms(1)] p by simp
    finally show "m' (partition_key cf p) = Some (partition_pod cf p)" .
  next
    fix k assume k: "k \<notin> partition_key cf ` {p \<in> B. m' (partition_key cf p) \<noteq> None}"
    show "m' k = None"
    proof (rule ccontr)
      assume "m' k \<noteq> None"
      with sub holds_podsD(2) [OF assms(1)] have "k \<in> partition_key cf ` B" by metis
      with k \<open>m' k \<noteq> None\<close> show False by blast
    qed
  qed
qed

section \<open>One tick\<close>

lemma create_effect:
  assumes "kube_contract cf api pods ok U" "inj_on strings_ToLower U"
  shows "ok s \<Longrightarrow> holds_pods cf B (pods s) \<Longrightarrow> B \<subseteq> U \<Longrightarrow> set ps \<subseteq> U \<Longrightarrow>
    createNodeForPartitions cf api ps s = (s', e) \<Longrightarrow>
    ok s' \<and> (\<exists>C. holds_pods cf C (pods s') \<and> B \<subseteq> C \<and> C \<subseteq> B \<union> set ps \<and>
      (kube_accepts cf api pods ok \<longrightarrow> distinct ps \<longrightarrow> B \<inter> set ps = {} \<longrightarrow> C = B \<union> set ps))"
proof (induction ps arbitrary: s B)
  case (Cons p ps)
  obtain s1 e1 where c: "ka_CreatePod api s (cf_namespace cf) (virtualKubeletPodTemplate cf p (cf_hostNodeName cf)) = (s1, e1)"
    by fastforce
  with assms(1) Cons.prems(1) have law: "ok s1"
    "pods s1 = (pods s)(partition_key cf p \<mapsto> partition_pod cf p) \<or> e1 \<noteq> None \<and> pods s1 = pods s"
    unfolding kube_contract_def by blast+
  have p: "p \<in> U" "set ps \<subseteq> U" using Cons.prems(4) by simp_all
  note put = holds_insert [OF Cons.prems(2) assms(2) Cons.prems(3) p(1)]
  have fresh: "e1 = None" if "kube_accepts cf api pods ok" "p \<notin> B"
  proof -
    have "partition_key cf p \<notin> partition_key cf ` B"
      using same_key [OF assms(2) p(1)] Cons.prems(3) that(2) by blast
    then have "pods s (partition_key cf p) = None" by (rule holds_podsD(2) [OF Cons.prems(2)])
    with that(1) Cons.prems(1) show ?thesis unfolding kube_accepts_def using c by (metis snd_conv)
  qed
  show ?case
  proof (cases e1)
    case None
    with law put have "holds_pods cf (insert p B) (pods s1)" by simp
    moreover have "createNodeForPartitions cf api ps s1 = (s', e)" using Cons.prems(5) c None by simp
    ultimately obtain C where "ok s'" "holds_pods cf C (pods s')" "insert p B \<subseteq> C" "C \<subseteq> insert p B \<union> set ps"
      "kube_accepts cf api pods ok \<longrightarrow> distinct ps \<longrightarrow> insert p B \<inter> set ps = {} \<longrightarrow> C = insert p B \<union> set ps"
      using Cons.IH [of s1 "insert p B"] law(1) Cons.prems(3) p by auto
    then show ?thesis by (intro conjI exI [of _ C]) auto
  next
    case (Some err)
    then have s': "s' = s1" using Cons.prems(5) c by simp
    from law(2) Some Cons.prems(2) put have "holds_pods cf B (pods s1) \<or> holds_pods cf (insert p B) (pods s1)" by auto
    moreover have "\<not> (kube_accepts cf api pods ok \<and> B \<inter> set (p # ps) = {})" using fresh Some by auto
    ultimately show ?thesis using law(1) unfolding s' by auto
  qed
qed auto

lemma delete_effect:
  assumes "kube_contract cf api pods ok U" "inj_on strings_ToLower U"
  shows "ok s \<Longrightarrow> holds_pods cf B (pods s) \<Longrightarrow> B \<subseteq> U \<Longrightarrow> set ns \<subseteq> U \<Longrightarrow>
    deleteControllingPod cf api ns s = (s', e) \<Longrightarrow>
    ok s' \<and> (\<exists>C. holds_pods cf C (pods s') \<and> B - set ns \<subseteq> C \<and> C \<subseteq> B \<and>
      (kube_accepts cf api pods ok \<longrightarrow> distinct ns \<longrightarrow> set ns \<subseteq> B \<longrightarrow> C = B - set ns))"
proof (induction ns arbitrary: s B)
  case (Cons p ns)
  obtain s1 e1 where d: "ka_DeletePod api s (cf_namespace cf) (partitionNodeName p (cf_hostNodeName cf)) = (s1, e1)"
    by fastforce
  with assms(1) Cons.prems(1) have law: "ok s1"
    "pods s1 = (pods s)(partition_key cf p := None) \<or> e1 \<noteq> None \<and> pods s1 = pods s"
    unfolding kube_contract_def by blast+
  have p: "p \<in> U" "set ns \<subseteq> U" using Cons.prems(4) by simp_all
  note gone = holds_remove [OF Cons.prems(2) assms(2) Cons.prems(3) p(1)]
  have present: "e1 = None" if "kube_accepts cf api pods ok" "p \<in> B"
  proof -
    have "pods s (partition_key cf p) \<noteq> None" using holds_podsD(1) [OF Cons.prems(2) that(2)] by simp
    with that(1) Cons.prems(1) show ?thesis unfolding kube_accepts_def using d by (metis snd_conv)
  qed
  show ?case
  proof (cases e1)
    case None
    with law gone have "holds_pods cf (B - {p}) (pods s1)" by simp
    moreover have "deleteControllingPod cf api ns s1 = (s', e)" using Cons.prems(5) d None by simp
    ultimately obtain C where "ok s'" "holds_pods cf C (pods s')" "B - {p} - set ns \<subseteq> C" "C \<subseteq> B - {p}"
      "kube_accepts cf api pods ok \<longrightarrow> distinct ns \<longrightarrow> set ns \<subseteq> B - {p} \<longrightarrow> C = B - {p} - set ns"
      using Cons.IH [of s1 "B - {p}"] law(1) Cons.prems(3) p by auto
    then show ?thesis by (intro conjI exI [of _ C]) auto
  next
    case (Some err)
    then have s': "s' = s1" using Cons.prems(5) d by (simp add: Let_def)
    from law(2) Some Cons.prems(2) gone have "holds_pods cf B (pods s1) \<or> holds_pods cf (B - {p}) (pods s1)" by auto
    moreover have "\<not> (kube_accepts cf api pods ok \<and> set (p # ns) \<subseteq> B)" using present Some by auto
    ultimately show ?thesis using law(1) unfolding s' by auto
  qed
qed auto

text \<open>An answer that listed the nodes of exactly the pods there are.\<close>

definition nodes_agree :: "'s kube_api \<Rightarrow> 's \<Rightarrow> string set \<Rightarrow> bool" where
  "nodes_agree api s B \<longleftrightarrow>
     (case ka_ListNodes api s ''type=virtual-kubelet'' of
        Ok nodes \<Rightarrow> distinct (partitionNames nodes) \<and> set (partitionNames nodes) = B
      | _ \<Rightarrow> False)"

lemma tick_effect:
  assumes "kube_contract cf api pods ok U" "inj_on strings_ToLower U" "ok s" "holds_pods cf B (pods s)" "B \<subseteq> U"
    "set ps \<subseteq> U"
  shows "ok (watch_tick cf api (Ok ps) s) \<and>
    (\<exists>C. holds_pods cf C (pods (watch_tick cf api (Ok ps) s)) \<and> B \<inter> set ps \<subseteq> C \<and> C \<subseteq> B \<union> set ps \<and>
      (kube_accepts cf api pods ok \<longrightarrow> distinct ps \<longrightarrow> nodes_agree api s B \<longrightarrow> C = set ps))"
proof (cases "ka_ListNodes api s ''type=virtual-kubelet''")
  case (Ok nodes)
  let ?names = "partitionNames nodes"
  let ?new = "notIn ps ?names" and ?old = "notIn ?names ps"
  have names: "set ?names \<subseteq> U" using assms(1,3) Ok unfolding kube_contract_def by blast
  obtain s1 e1 where c: "createNodeForPartitions cf api ?new s = (s1, e1)" by fastforce
  obtain s2 e2 where d: "deleteControllingPod cf api ?old s1 = (s2, e2)" by fastforce
  have "set ?new \<subseteq> U" using assms(6) by auto
  from create_effect [OF assms(1-5) this c] obtain C where C: "ok s1" "holds_pods cf C (pods s1)"
    "B \<subseteq> C" "C \<subseteq> B \<union> set ?new"
    "kube_accepts cf api pods ok \<longrightarrow> distinct ?new \<longrightarrow> B \<inter> set ?new = {} \<longrightarrow> C = B \<union> set ?new"
    by blast
  have "C \<subseteq> U" "set ?old \<subseteq> U" using C(4) assms(5,6) names by auto
  from delete_effect [OF assms(1,2) C(1,2) this d] obtain D where D: "ok s2" "holds_pods cf D (pods s2)"
    "C - set ?old \<subseteq> D" "D \<subseteq> C"
    "kube_accepts cf api pods ok \<longrightarrow> distinct ?old \<longrightarrow> set ?old \<subseteq> C \<longrightarrow> D = C - set ?old"
    by blast
  have tick: "watch_tick cf api (Ok ps) s = s2"
    unfolding watch_tick_def go.case Ok Let_def c prod.case d by (rule refl)
  have "D = set ps" if "kube_accepts cf api pods ok" "distinct ps" "nodes_agree api s B"
  proof -
    from that(3) Ok have agree: "distinct ?names" "set ?names = B" by (simp_all add: nodes_agree_def)
    then have "C = B \<union> set ?new" using C(5) that(1) distinct_notIn [OF that(2), of ?names] by auto
    moreover from this have "D = C - set ?old"
      using D(5) that(1) distinct_notIn [OF agree(1), of ps] agree(2) by auto
    ultimately show ?thesis using agree(2) by auto
  qed
  moreover have "B \<inter> set ps \<subseteq> D" "D \<subseteq> B \<union> set ps" using C(3,4) D(3,4) by auto
  ultimately show ?thesis unfolding tick using D(1,2) by blast
qed (use assms(3-4) in \<open>auto simp: watch_tick_def nodes_agree_def\<close>)

lemma kube_run_pods:
  assumes "kube_contract cf api pods ok U" "inj_on strings_ToLower U" "kube_run cf api pods ok s answers s1"
  shows "ok s \<Longrightarrow> holds_pods cf A (pods s) \<Longrightarrow> A \<subseteq> U \<Longrightarrow> \<forall>ps \<in> set answers. set ps \<subseteq> U \<Longrightarrow>
    ok s1 \<and> (\<exists>B. holds_pods cf B (pods s1) \<and> B \<subseteq> A \<union> \<Union> (set ` set answers))"
  using assms(3)
proof (induction rule: kube_run.induct)
  case (kube_moves answers s1 s2)
  then obtain B where B: "holds_pods cf B (pods s1)" "B \<subseteq> A \<union> \<Union> (set ` set answers)" by blast
  from holds_sub [OF B(1) kube_moves(3)] B(2) kube_moves(2) show ?case
    by (intro conjI exI [of _ "{p \<in> B. pods s2 (partition_key cf p) \<noteq> None}"]) auto
next
  case (kube_tick answers s1 ps)
  then obtain B where B: "ok s1" "holds_pods cf B (pods s1)" "B \<subseteq> A \<union> \<Union> (set ` set answers)" by auto
  have "\<Union> (set ` set answers) \<subseteq> U" "set ps \<subseteq> U" using kube_tick.prems(4) by auto
  then have "B \<subseteq> U" "set ps \<subseteq> U" using B(3) kube_tick.prems(3) by blast+
  from tick_effect [OF assms(1,2) B(1,2) this] B(3) show ?case by fastforce
next
  case (kube_failed answers s1 resp)
  then have "watchPartitions cf api [Tick resp] s1 = s1" by (cases resp) (simp_all add: watch_tick_def)
  with kube_failed show ?case by simp
qed blast

section \<open>A server whose nodes lag behind\<close>

text \<open>
  The tracker of pods with the nodes that are registered, which change only by steps of the cluster;
  a listing of nodes respects its selector.
\<close>

record lagging_kube =
  lk_pods :: "kubelet_pod list"
  lk_nodes :: "kube_node list"

definition selects :: "string \<Rightarrow> kube_node \<Rightarrow> bool" where
  "selects selector n =
     (case strings_IndexByte selector CHR ''='' of
        Some i \<Rightarrow> kn_Labels n (take i selector) = Some (drop (i + 1) selector)
      | None \<Rightarrow> kn_Labels n selector \<noteq> None)"

definition lagging_api :: "lagging_kube kube_api" where
  "lagging_api =
     \<lparr>ka_ListNodes = (\<lambda>s selector. Ok (filter (selects selector) (lk_nodes s))),
      ka_CreatePod = (\<lambda>s ns p.
        case go_state (lk_pods s) (tracker_Create kp_Meta kubelet_set_ns (lk_pods s) p ns) of (ps, e) \<Rightarrow> (s\<lparr>lk_pods := ps\<rparr>, e)),
      ka_DeletePod = (\<lambda>s ns name.
        case go_state (lk_pods s) (tracker_Delete kp_Meta (lk_pods s) ns name) of (ps, e) \<Rightarrow> (s\<lparr>lk_pods := ps\<rparr>, e))\<rparr>"

definition lagging_pods :: "lagging_kube \<Rightarrow> obj_key \<Rightarrow> kubelet_pod option" where
  "lagging_pods s = tracker_view kp_Meta (lk_pods s)"

definition lagging_ok :: "string set \<Rightarrow> lagging_kube \<Rightarrow> bool" where
  "lagging_ok U s \<longleftrightarrow> tracker_ok kp_Meta (lk_pods s) \<and> set (partitionNames (lk_nodes s)) \<subseteq> U"

lemma partitionNames_filter: "set (partitionNames (filter P nodes)) \<subseteq> set (partitionNames nodes)"
  by (auto simp: set_partitionNames)

lemma lagging_calls:
  assumes "cf_namespace cf \<noteq> []" "tracker_ok kp_Meta (lk_pods s)"
  shows "if lagging_pods s (partition_key cf p) = None
     then \<exists>ps. ka_CreatePod lagging_api s (cf_namespace cf) (virtualKubeletPodTemplate cf p (cf_hostNodeName cf)) =
         (s\<lparr>lk_pods := ps\<rparr>, None) \<and> tracker_ok kp_Meta ps \<and>
         tracker_view kp_Meta ps = (lagging_pods s)(partition_key cf p \<mapsto> partition_pod cf p)
     else ka_CreatePod lagging_api s (cf_namespace cf) (virtualKubeletPodTemplate cf p (cf_hostNodeName cf)) =
         (s, Some ApiAlreadyExists)"
    and "if lagging_pods s (partition_key cf p) \<noteq> None
     then \<exists>ps. ka_DeletePod lagging_api s (cf_namespace cf) (partitionNodeName p (cf_hostNodeName cf)) =
         (s\<lparr>lk_pods := ps\<rparr>, None) \<and> tracker_ok kp_Meta ps \<and>
         tracker_view kp_Meta ps = (lagging_pods s)(partition_key cf p := None)
     else \<exists>e. ka_DeletePod lagging_api s (cf_namespace cf) (partitionNodeName p (cf_hostNodeName cf)) = (s, Some e)"
proof -
  note put = tracker_put_create [OF assms(2), of "partition_pod cf p", simplified, OF assms(1)]
  show "if lagging_pods s (partition_key cf p) = None
     then \<exists>ps. ka_CreatePod lagging_api s (cf_namespace cf) (virtualKubeletPodTemplate cf p (cf_hostNodeName cf)) =
         (s\<lparr>lk_pods := ps\<rparr>, None) \<and> tracker_ok kp_Meta ps \<and>
         tracker_view kp_Meta ps = (lagging_pods s)(partition_key cf p \<mapsto> partition_pod cf p)
     else ka_CreatePod lagging_api s (cf_namespace cf) (virtualKubeletPodTemplate cf p (cf_hostNodeName cf)) =
         (s, Some ApiAlreadyExists)"
    using put
    by (simp add: lagging_api_def lagging_pods_def go_state_def template_create [OF assms(1)] split: go.splits) blast
  show "if lagging_pods s (partition_key cf p) \<noteq> None
     then \<exists>ps. ka_DeletePod lagging_api s (cf_namespace cf) (partitionNodeName p (cf_hostNodeName cf)) =
         (s\<lparr>lk_pods := ps\<rparr>, None) \<and> tracker_ok kp_Meta ps \<and>
         tracker_view kp_Meta ps = (lagging_pods s)(partition_key cf p := None)
     else \<exists>e. ka_DeletePod lagging_api s (cf_namespace cf) (partitionNodeName p (cf_hostNodeName cf)) = (s, Some e)"
    using tracker_Delete_view [OF assms(2), of "partition_key cf p"]
    by (simp add: lagging_api_def lagging_pods_def go_state_def partition_key_def split: go.splits) blast
qed

lemma lagging_ok_pods: "lagging_ok U s \<Longrightarrow> tracker_ok kp_Meta ps \<Longrightarrow> lagging_ok U (s\<lparr>lk_pods := ps\<rparr>)"
  by (simp add: lagging_ok_def)

lemma lagging_create:
  assumes "cf_namespace cf \<noteq> []" "lagging_ok U s"
    "ka_CreatePod lagging_api s (cf_namespace cf) (virtualKubeletPodTemplate cf p (cf_hostNodeName cf)) = (s', e)"
  shows "lagging_ok U s' \<and> (lagging_pods s' = (lagging_pods s)(partition_key cf p \<mapsto> partition_pod cf p) \<or>
    e \<noteq> None \<and> lagging_pods s' = lagging_pods s)"
proof -
  have ok: "tracker_ok kp_Meta (lk_pods s)" using assms(2) by (simp add: lagging_ok_def)
  note call = lagging_calls(1) [OF assms(1) ok, of p]
  show ?thesis
  proof (cases "lagging_pods s (partition_key cf p)")
    case None
    with call assms(3) obtain ps where "s' = s\<lparr>lk_pods := ps\<rparr>" "tracker_ok kp_Meta ps"
      "tracker_view kp_Meta ps = (lagging_pods s)(partition_key cf p \<mapsto> partition_pod cf p)" by (metis prod.inject)
    with lagging_ok_pods [OF assms(2)] show ?thesis by (simp add: lagging_pods_def)
  next
    case (Some x)
    with call assms(2,3) show ?thesis by (metis option.distinct(1) prod.inject)
  qed
qed

lemma lagging_delete:
  assumes "cf_namespace cf \<noteq> []" "lagging_ok U s"
    "ka_DeletePod lagging_api s (cf_namespace cf) (partitionNodeName p (cf_hostNodeName cf)) = (s', e)"
  shows "lagging_ok U s' \<and> (lagging_pods s' = (lagging_pods s)(partition_key cf p := None) \<or>
    e \<noteq> None \<and> lagging_pods s' = lagging_pods s)"
proof -
  have ok: "tracker_ok kp_Meta (lk_pods s)" using assms(2) by (simp add: lagging_ok_def)
  note call = lagging_calls(2) [OF assms(1) ok, of p]
  show ?thesis
  proof (cases "lagging_pods s (partition_key cf p)")
    case (Some x)
    with call assms(3) obtain ps where "s' = s\<lparr>lk_pods := ps\<rparr>" "tracker_ok kp_Meta ps"
      "tracker_view kp_Meta ps = (lagging_pods s)(partition_key cf p := None)" by (metis option.distinct(1) prod.inject)
    with lagging_ok_pods [OF assms(2)] show ?thesis by (simp add: lagging_pods_def)
  next
    case None
    with call have "\<exists>e. ka_DeletePod lagging_api s (cf_namespace cf) (partitionNodeName p (cf_hostNodeName cf)) = (s, Some e)"
      by simp
    with assms(2,3) show ?thesis by auto
  qed
qed

lemma lagging_contract:
  assumes "cf_namespace cf \<noteq> []"
  shows "kube_contract cf lagging_api lagging_pods (lagging_ok U) U"
proof -
  have "set (partitionNames nodes) \<subseteq> U" if "lagging_ok U s" "ka_ListNodes lagging_api s sel = Ok nodes" for s sel nodes
    using that partitionNames_filter [of "selects sel" "lk_nodes s"] by (auto simp: lagging_api_def lagging_ok_def)
  then show ?thesis
    unfolding kube_contract_def using lagging_create [OF assms] lagging_delete [OF assms] by blast
qed

lemma lagging_accepts:
  assumes "cf_namespace cf \<noteq> []"
  shows "kube_accepts cf lagging_api lagging_pods (lagging_ok U)"
proof -
  have "snd (ka_CreatePod lagging_api s (cf_namespace cf) (virtualKubeletPodTemplate cf p (cf_hostNodeName cf))) = None"
    if "lagging_ok U s" "lagging_pods s (partition_key cf p) = None" for s p
  proof -
    have "tracker_ok kp_Meta (lk_pods s)" using that(1) by (simp add: lagging_ok_def)
    from lagging_calls(1) [OF assms this, of p] that(2) show ?thesis by (metis snd_conv)
  qed
  moreover have "snd (ka_DeletePod lagging_api s (cf_namespace cf) (partitionNodeName p (cf_hostNodeName cf))) = None"
    if "lagging_ok U s" "lagging_pods s (partition_key cf p) \<noteq> None" for s p
  proof -
    have "tracker_ok kp_Meta (lk_pods s)" using that(1) by (simp add: lagging_ok_def)
    from lagging_calls(2) [OF assms this, of p] that(2) show ?thesis by (metis snd_conv)
  qed
  ultimately show ?thesis unfolding kube_accepts_def by blast
qed

section \<open>Properties\<close>

text \<open>
  C25. The pods of virtual kubelets under any API server that keeps the contract, when no two names of
  partitions fall together in lower case: at all times every pod is that of a partition red-box has
  answered (or that was there at the start). A tick deletes no pod of a partition in its answer and
  creates none outside it; and when the nodes listed are those of the pods and the server refuses
  nothing it can do, the pods after the tick are exactly those of the answer.
\<close>

theorem watchPartitions_keeps_pods:
  assumes "kube_contract cf api pods ok U" "inj_on strings_ToLower U" "ok s" "holds_pods cf A (pods s)" "A \<subseteq> U"
    "kube_run cf api pods ok s answers s1" "\<forall>ps \<in> set answers. set ps \<subseteq> U"
  shows "\<exists>B. holds_pods cf B (pods s1) \<and> B \<subseteq> A \<union> \<Union> (set ` set answers) \<and>
    (\<forall>ps. set ps \<subseteq> U \<longrightarrow>
       (\<exists>C. holds_pods cf C (pods (watchPartitions cf api [Tick (Ok ps)] s1)) \<and>
          B \<inter> set ps \<subseteq> C \<and> C \<subseteq> B \<union> set ps \<and>
          (kube_accepts cf api pods ok \<longrightarrow> distinct ps \<longrightarrow> nodes_agree api s1 B \<longrightarrow> C = set ps)))"
proof -
  from kube_run_pods [OF assms(1,2,6,3-5,7)] obtain B where
    B: "ok s1" "holds_pods cf B (pods s1)" "B \<subseteq> A \<union> \<Union> (set ` set answers)" by blast
  have "\<Union> (set ` set answers) \<subseteq> U" using assms(7) by blast
  with B(3) assms(5) have "B \<subseteq> U" by blast
  from tick_effect [OF assms(1,2) B(1,2) this] B(2,3) show ?thesis by auto
qed

lemma holds_unique:
  assumes "inj_on strings_ToLower U" "holds_pods cf B m" "holds_pods cf C m" "B \<subseteq> U" "C \<subseteq> U"
  shows "B = C"
proof -
  have "p \<in> Y" if "holds_pods cf X m" "holds_pods cf Y m" "X \<subseteq> U" "Y \<subseteq> U" "p \<in> X" for X Y p
  proof -
    have present: "m (partition_key cf p) \<noteq> None" using holds_podsD(1) [OF that(1,5)] by simp
    have "partition_key cf p \<in> partition_key cf ` Y"
    proof (rule ccontr)
      assume "partition_key cf p \<notin> partition_key cf ` Y"
      from holds_podsD(2) [OF that(2) this] present show False by simp
    qed
    then obtain q where q: "partition_key cf p = partition_key cf q" "q \<in> Y" by (rule imageE)
    have "p \<in> U" "q \<in> U" using that(3-5) q(2) by blast+
    from same_key [OF assms(1) this q(1)] q(2) show ?thesis by simp
  qed
  from this [OF assms(2,3,4,5)] this [OF assms(3,2,5,4)] show ?thesis by blast
qed

text \<open>
  Two pods, the node of one of them registered late; then a tick whose answer drops one partition and
  has a new one.
\<close>

definition partition_node :: "string \<Rightarrow> kube_node" where
  "partition_node p = \<lparr>kn_Labels = [''type'' \<mapsto> ''virtual-kubelet'', partition_label \<mapsto> p]\<rparr>"

definition lagging_start :: lagging_kube where
  "lagging_start =
     \<lparr>lk_pods = [partition_pod example_cf ''debug'', partition_pod example_cf ''gpu''],
      lk_nodes = [partition_node ''debug'']\<rparr>"

lemma example_ns: "cf_namespace example_cf \<noteq> []"
  by (simp add: example_cf_def default_namespace_def)

lemma lagging_start_holds: "holds_pods example_cf {''debug'', ''gpu''} (lagging_pods lagging_start)"
  by (auto simp: holds_pods_def lagging_pods_def lagging_start_def partition_key_def partitionNodeName_def
      strings_ToLower_def lower_byte_def)

theorem watchPartitions_keeps_pods_witness:
  "holds_pods example_cf {''gpu'', ''fast''}
     (lagging_pods (watchPartitions example_cf lagging_api [Tick (Ok [''gpu'', ''fast''])]
       (lagging_start\<lparr>lk_nodes := [partition_node ''debug'', partition_node ''gpu'']\<rparr>)))"
proof -
  let ?U = "{''debug'', ''gpu'', ''fast''}"
  let ?s1 = "lagging_start\<lparr>lk_nodes := [partition_node ''debug'', partition_node ''gpu'']\<rparr>"
  let ?run = "kube_run example_cf lagging_api lagging_pods (lagging_ok ?U) lagging_start"
  have inj: "inj_on strings_ToLower ?U" by (simp add: inj_on_def strings_ToLower_def lower_byte_def)
  have names: "partitionNames [partition_node ''debug'', partition_node ''gpu''] = [''debug'', ''gpu'']"
    "partitionNames [partition_node ''debug''] = [''debug'']"
    by (simp_all add: partition_node_def partition_label_def)
  have ok: "lagging_ok ?U lagging_start" "lagging_ok ?U ?s1"
    by (simp_all add: lagging_ok_def lagging_start_def tracker_ok_def example_ns strings_ToLower_def lower_byte_def)
      (simp_all add: partition_node_def partition_label_def)
  have "?run [] ?s1"
  proof (rule kube_moves)
    show "?run [] lagging_start" by (rule kube_start)
    show "lagging_pods ?s1 \<subseteq>\<^sub>m lagging_pods lagging_start" by (simp add: lagging_pods_def)
  qed (rule ok(2))
  from watchPartitions_keeps_pods [OF lagging_contract [OF example_ns] inj ok(1) lagging_start_holds _ this]
  obtain B where B: "holds_pods example_cf B (lagging_pods ?s1)" "B \<subseteq> {''debug'', ''gpu''}"
    "\<And>ps. set ps \<subseteq> ?U \<Longrightarrow> distinct ps \<Longrightarrow> nodes_agree lagging_api ?s1 B \<Longrightarrow>
      holds_pods example_cf (set ps) (lagging_pods (watchPartitions example_cf lagging_api [Tick (Ok ps)] ?s1))"
    using lagging_accepts [OF example_ns, of ?U] by (simp del: watchPartitions.simps) blast
  have "holds_pods example_cf {''debug'', ''gpu''} (lagging_pods ?s1)"
    using lagging_start_holds by (simp add: lagging_pods_def)
  from holds_unique [OF inj B(1) this] B(2) have "B = {''debug'', ''gpu''}" by auto
  then have "nodes_agree lagging_api ?s1 B"
    by (simp add: nodes_agree_def lagging_api_def selects_def names)
      (simp add: partition_node_def partition_label_def)
  from B(3) [OF _ _ this, of "[''gpu'', ''fast'']"] show ?thesis by simp
qed

end
