(* ===== verification/Go_Heap.thy ===== *)
theory Go_Heap
  imports Wlm_Prelude
begin

text \<open>
  A heap for the values Go shares by reference: maps, slices and structs behind pointers. An
  address is a number, allocation takes the next one, and a nil map, slice or pointer is
  \<open>None\<close>. The locale \<open>deep_copy\<close> is the contract of a \<open>DeepCopyInto\<close> method: the copy reads
  the same and shares no cell with the original. The combinators \<open>pair_copy\<close>, \<open>ptr_copy\<close> and
  \<open>copy_each\<close> are the three ways the generated methods are put together.
\<close>

section \<open>The heap\<close>

type_synonym addr = nat

record 'c heap =
  hp_cells :: "addr \<Rightarrow> 'c option"
  hp_next :: addr

definition alloc :: "'c \<Rightarrow> 'c heap \<Rightarrow> addr \<times> 'c heap" where
  "alloc c h = (hp_next h, h\<lparr>hp_cells := (hp_cells h)(hp_next h \<mapsto> c), hp_next := Suc (hp_next h)\<rparr>)"

text \<open>An assignment through a pointer.\<close>

definition store :: "addr \<Rightarrow> 'c \<Rightarrow> 'c heap \<Rightarrow> 'c heap" where
  "store a c h = h\<lparr>hp_cells := (hp_cells h)(a \<mapsto> c)\<rparr>"

text \<open>\<open>h'\<close> has everything \<open>h\<close> has, unchanged.\<close>

definition extends :: "'c heap \<Rightarrow> 'c heap \<Rightarrow> bool" where
  "extends h h' \<longleftrightarrow> hp_next h \<le> hp_next h' \<and> (\<forall>a < hp_next h. hp_cells h' a = hp_cells h a)"

text \<open>Two heaps have the same cells at the addresses \<open>A\<close>.\<close>

definition same_at :: "addr set \<Rightarrow> 'c heap \<Rightarrow> 'c heap \<Rightarrow> bool" where
  "same_at A h h' \<longleftrightarrow> hp_next h \<le> hp_next h' \<and> (\<forall>a \<in> A. hp_cells h' a = hp_cells h a)"

lemma extends_refl [simp]: "extends h h"
  by (simp add: extends_def)

lemma extends_trans: "extends h h1 \<Longrightarrow> extends h1 h2 \<Longrightarrow> extends h h2"
  by (auto simp: extends_def)

lemma extends_next: "extends h h' \<Longrightarrow> hp_next h \<le> hp_next h'"
  by (simp add: extends_def)

lemma extends_same_at: "extends h h' \<Longrightarrow> A \<subseteq> {..<hp_next h} \<Longrightarrow> same_at A h h'"
  by (auto simp: extends_def same_at_def)

lemma alloc_extends: "alloc c h = (a, h') \<Longrightarrow> extends h h'"
  by (auto simp: alloc_def extends_def)

lemma alloc_cell: "alloc c h = (a, h') \<Longrightarrow> a = hp_next h \<and> hp_next h' = Suc a \<and> hp_cells h' a = Some c"
  by (auto simp: alloc_def)

lemma same_at_mono: "same_at A h h' \<Longrightarrow> B \<subseteq> A \<Longrightarrow> same_at B h h'"
  by (auto simp: same_at_def)

section \<open>The contract of a deep copy\<close>

locale deep_copy =
  fixes valid :: "'a \<Rightarrow> 'c heap \<Rightarrow> bool"
    and copy :: "'a \<Rightarrow> 'c heap \<Rightarrow> 'a \<times> 'c heap"
    and reach :: "'a \<Rightarrow> 'c heap \<Rightarrow> addr set"
    and read :: "'a \<Rightarrow> 'c heap \<Rightarrow> 'b"
  assumes valid_reach: "valid x h \<Longrightarrow> reach x h \<subseteq> {..<hp_next h}"
    and copy_extends: "valid x h \<Longrightarrow> copy x h = (y, h') \<Longrightarrow> extends h h'"
    and copy_valid: "valid x h \<Longrightarrow> copy x h = (y, h') \<Longrightarrow> valid y h'"
    and copy_fresh: "valid x h \<Longrightarrow> copy x h = (y, h') \<Longrightarrow> reach y h' \<subseteq> {hp_next h ..< hp_next h'}"
    and copy_read: "valid x h \<Longrightarrow> copy x h = (y, h') \<Longrightarrow> read y h' = read x h"
    and frame_valid: "valid x h \<Longrightarrow> same_at (reach x h) h h' \<Longrightarrow> valid x h'"
    and frame_reach: "valid x h \<Longrightarrow> same_at (reach x h) h h' \<Longrightarrow> reach x h' = reach x h"
    and frame_read: "valid x h \<Longrightarrow> same_at (reach x h) h h' \<Longrightarrow> read x h' = read x h"
begin

lemma extends_frame:
  assumes "valid x h" "extends h h'"
  shows "valid x h'" "reach x h' = reach x h" "read x h' = read x h"
proof -
  have same: "same_at (reach x h) h h'" by (rule extends_same_at [OF assms(2) valid_reach [OF assms(1)]])
  show "valid x h'" by (rule frame_valid [OF assms(1) same])
  show "reach x h' = reach x h" by (rule frame_reach [OF assms(1) same])
  show "read x h' = read x h" by (rule frame_read [OF assms(1) same])
qed

text \<open>The copy and the original share nothing.\<close>

lemma copy_separate:
  assumes "valid x h" "copy x h = (y, h')"
  shows "reach x h' \<inter> reach y h' = {}"
proof -
  have "reach x h' = reach x h" by (rule extends_frame(2) [OF assms(1) copy_extends [OF assms]])
  then have "reach x h' \<subseteq> {..<hp_next h}" using valid_reach [OF assms(1)] by simp
  moreover have "reach y h' \<subseteq> {hp_next h ..< hp_next h'}" by (rule copy_fresh [OF assms])
  moreover have "{..<hp_next h} \<inter> {hp_next h ..< hp_next h'} = {}" by auto
  ultimately show ?thesis by blast
qed

text \<open>
  So an assignment through any pointer of the copy leaves the original as it was, and the
  other way round.
\<close>

lemma copy_isolated:
  assumes "valid x h" "copy x h = (y, h')" "a \<in> reach y h'"
  shows "read x (store a c h') = read x h"
proof -
  note x = extends_frame [OF assms(1) copy_extends [OF assms(1,2)]]
  have "a \<notin> reach x h'" using copy_separate [OF assms(1,2)] assms(3) by blast
  then have "same_at (reach x h') h' (store a c h')" by (auto simp: same_at_def store_def)
  then have "read x (store a c h') = read x h'" by (rule frame_read [OF x(1)])
  with x(3) show ?thesis by simp
qed

lemma original_isolated:
  assumes "valid x h" "copy x h = (y, h')" "a \<in> reach x h"
  shows "read y (store a c h') = read x h"
proof -
  have "a < hp_next h" using valid_reach [OF assms(1)] assms(3) by blast
  then have "a \<notin> reach y h'" using copy_fresh [OF assms(1,2)] by auto
  then have "same_at (reach y h') h' (store a c h')" by (auto simp: same_at_def store_def)
  then have "read y (store a c h') = read y h'" using copy_valid [OF assms(1,2)] by (rule frame_read [rotated])
  with copy_read [OF assms(1,2)] show ?thesis by simp
qed

end

text \<open>The contract in three conditions, to show it, and in two, to use it.\<close>

lemma deep_copyI:
  assumes "\<And>x h. valid x h \<Longrightarrow> reach x h \<subseteq> {..<hp_next h}"
    and "\<And>x h y h'. valid x h \<Longrightarrow> copy x h = (y, h') \<Longrightarrow>
      extends h h' \<and> valid y h' \<and> reach y h' \<subseteq> {hp_next h ..< hp_next h'} \<and> read y h' = read x h"
    and "\<And>x h h'. valid x h \<Longrightarrow> same_at (reach x h) h h' \<Longrightarrow>
      valid x h' \<and> reach x h' = reach x h \<and> read x h' = read x h"
  shows "deep_copy valid copy reach read"
  by unfold_locales (use assms in blast)+

lemma deep_copy_copied:
  assumes "deep_copy valid copy reach read" "valid x h" "copy x h = (y, h')"
  shows "extends h h' \<and> valid y h' \<and> reach y h' \<subseteq> {hp_next h ..< hp_next h'} \<and> read y h' = read x h"
  using deep_copy.copy_extends [OF assms] deep_copy.copy_valid [OF assms]
    deep_copy.copy_fresh [OF assms] deep_copy.copy_read [OF assms] by blast

lemma deep_copy_framed:
  assumes "deep_copy valid copy reach read" "valid x h" "same_at (reach x h) h h'"
  shows "valid x h' \<and> reach x h' = reach x h \<and> read x h' = read x h"
  using deep_copy.frame_valid [OF assms] deep_copy.frame_reach [OF assms]
    deep_copy.frame_read [OF assms] by blast

lemma deep_copy_extended:
  assumes "deep_copy valid copy reach read" "valid x h" "extends h h'"
  shows "valid x h' \<and> reach x h' = reach x h \<and> read x h' = read x h"
  using deep_copy.extends_frame [OF assms] by blast

section \<open>Copies of values without pointers\<close>

definition plain_valid :: "'a \<Rightarrow> 'c heap \<Rightarrow> bool" where "plain_valid x h = True"
definition plain_copy :: "'a \<Rightarrow> 'c heap \<Rightarrow> 'a \<times> 'c heap" where "plain_copy x h = (x, h)"
definition plain_reach :: "'a \<Rightarrow> 'c heap \<Rightarrow> addr set" where "plain_reach x h = {}"
definition plain_read :: "'a \<Rightarrow> 'c heap \<Rightarrow> 'a" where "plain_read x h = x"

interpretation plain: deep_copy plain_valid plain_copy plain_reach plain_read
  by unfold_locales (auto simp: plain_valid_def plain_copy_def plain_reach_def plain_read_def)

section \<open>Copies field by field\<close>

definition pair_valid where "pair_valid v1 v2 p h \<longleftrightarrow> v1 (fst p) h \<and> v2 (snd p) h"
definition pair_reach where "pair_reach r1 r2 p h = r1 (fst p) h \<union> r2 (snd p) h"
definition pair_read where "pair_read d1 d2 p h = (d1 (fst p) h, d2 (snd p) h)"

definition pair_copy ::
  "('a \<Rightarrow> 'c heap \<Rightarrow> 'a \<times> 'c heap) \<Rightarrow> ('b \<Rightarrow> 'c heap \<Rightarrow> 'b \<times> 'c heap) \<Rightarrow> 'a \<times> 'b \<Rightarrow> 'c heap \<Rightarrow> ('a \<times> 'b) \<times> 'c heap" where
  "pair_copy c1 c2 p h = (let (x, h) = c1 (fst p) h; (y, h) = c2 (snd p) h in ((x, y), h))"

lemma deep_copy_pair:
  assumes "deep_copy v1 c1 r1 d1" "deep_copy v2 c2 r2 d2"
  shows "deep_copy (pair_valid v1 v2) (pair_copy c1 c2) (pair_reach r1 r2) (pair_read d1 d2)"
proof (rule deep_copyI)
  fix p h q h'
  assume p: "pair_valid v1 v2 p h" and copy: "pair_copy c1 c2 p h = (q, h')"
  obtain x h1 y where x: "c1 (fst p) h = (x, h1)" and y: "c2 (snd p) h1 = (y, h')" and q: "q = (x, y)"
    using copy by (auto simp: pair_copy_def split: prod.splits)
  from p have v: "v1 (fst p) h" "v2 (snd p) h" by (simp_all add: pair_valid_def)
  note cx = deep_copy_copied [OF assms(1) v(1) x]
  note w = deep_copy_extended [OF assms(2) v(2) cx [THEN conjunct1]]
  note cy = deep_copy_copied [OF assms(2) w [THEN conjunct1] y]
  note fx = deep_copy_extended [OF assms(1) cx [THEN conjunct2, THEN conjunct1] cy [THEN conjunct1]]
  have "extends h h'" "hp_next h \<le> hp_next h1" "hp_next h1 \<le> hp_next h'"
    using cx cy extends_trans extends_next by blast+
  moreover have "r1 x h' \<subseteq> {hp_next h ..< hp_next h1}" "r2 y h' \<subseteq> {hp_next h1 ..< hp_next h'}"
    using cx cy fx by simp_all
  then have "r1 x h' \<union> r2 y h' \<subseteq> {hp_next h ..< hp_next h'}"
    using calculation(2,3) by (meson Un_least atLeastLessThan_subset_iff ivl_subset order.trans order_refl)
  ultimately show "extends h h' \<and> pair_valid v1 v2 q h' \<and>
      pair_reach r1 r2 q h' \<subseteq> {hp_next h ..< hp_next h'} \<and> pair_read d1 d2 q h' = pair_read d1 d2 p h"
    using cx cy fx w by (simp add: q pair_valid_def pair_reach_def pair_read_def)
next
  fix p h h'
  assume p: "pair_valid v1 v2 p h" and "same_at (pair_reach r1 r2 p h) h h'"
  then have s: "same_at (r1 (fst p) h) h h'" "same_at (r2 (snd p) h) h h'"
    by (auto simp: pair_reach_def elim: same_at_mono)
  from p have v: "v1 (fst p) h" "v2 (snd p) h" by (simp_all add: pair_valid_def)
  show "pair_valid v1 v2 p h' \<and> pair_reach r1 r2 p h' = pair_reach r1 r2 p h \<and>
      pair_read d1 d2 p h' = pair_read d1 d2 p h"
    using deep_copy_framed [OF assms(1) v(1) s(1)] deep_copy_framed [OF assms(2) v(2) s(2)]
    by (simp add: pair_valid_def pair_reach_def pair_read_def)
qed (use deep_copy.valid_reach [OF assms(1)] deep_copy.valid_reach [OF assms(2)]
    in \<open>auto simp: pair_valid_def pair_reach_def\<close>)

text \<open>
  A record is copied through the tuple \<open>f x\<close> of its fields that hold references; \<open>put\<close> writes
  them back, and \<open>build\<close> reads the record off its plain fields and what the tuple reads. Only
  records whose plain fields satisfy \<open>ok\<close> are covered.
\<close>

lemma deep_copy_record:
  assumes "deep_copy v c r d"
    and "\<And>t x. f (put t x) = t" and "\<And>t x. build (put t x) = build x"
    and "\<And>t x. ok (put t x) = ok x"
    and "\<And>x h. valid x h \<longleftrightarrow> ok x \<and> v (f x) h" and "\<And>x h. ok x \<Longrightarrow> reach x h = r (f x) h"
    and "\<And>x h. ok x \<Longrightarrow> read x h = build x (d (f x) h)"
    and "\<And>x h. copy x h = (let (t, h) = c (f x) h in (put t x, h))"
  shows "deep_copy valid copy reach read"
proof (rule deep_copyI)
  fix x h y h'
  assume "valid x h" "copy x h = (y, h')"
  then show "extends h h' \<and> valid y h' \<and> reach y h' \<subseteq> {hp_next h ..< hp_next h'} \<and> read y h' = read x h"
    using deep_copy_copied [OF assms(1), of "f x" h] by (auto simp: assms(2-) split: prod.splits)
next
  fix x h h'
  assume "valid x h" "same_at (reach x h) h h'"
  then show "valid x h' \<and> reach x h' = reach x h \<and> read x h' = read x h"
    using deep_copy_framed [OF assms(1), of "f x" h] by (simp add: assms(2-))
qed (use deep_copy.valid_reach [OF assms(1)] in \<open>simp add: assms(5,6)\<close>)

section \<open>Copies through a pointer\<close>

text \<open>
  \<open>if in.F != nil { *out = new(T); (*in).DeepCopyInto(*out) }\<close>. A cell holds values of one
  type among several: \<open>K\<close> puts a value of type \<open>T\<close> into a cell and \<open>D\<close> gets it back. A pointer
  is valid when its cell holds a valid value of that type.
\<close>

definition ptr_at :: "('c \<Rightarrow> 'a option) \<Rightarrow> addr option \<Rightarrow> 'c heap \<Rightarrow> 'a option" where
  "ptr_at D p h =
     (case p of None \<Rightarrow> None | Some a \<Rightarrow> (case hp_cells h a of None \<Rightarrow> None | Some c \<Rightarrow> D c))"

definition ptr_copy ::
  "('a \<Rightarrow> 'c) \<Rightarrow> ('c \<Rightarrow> 'a option) \<Rightarrow> ('a \<Rightarrow> 'c heap \<Rightarrow> 'a \<times> 'c heap) \<Rightarrow>
   addr option \<Rightarrow> 'c heap \<Rightarrow> addr option \<times> 'c heap" where
  "ptr_copy K D copy p h =
     (case ptr_at D p h of
        None \<Rightarrow> (p, h)
      | Some x \<Rightarrow> (let (y, h) = copy x h; (b, h) = alloc (K y) h in (Some b, h)))"

definition ptr_valid where
  "ptr_valid D v p h \<longleftrightarrow>
     (case p of None \<Rightarrow> True
      | Some a \<Rightarrow> a < hp_next h \<and> (case ptr_at D p h of None \<Rightarrow> False | Some x \<Rightarrow> v x h))"

definition ptr_reach where
  "ptr_reach D r p h =
     (case p of None \<Rightarrow> {}
      | Some a \<Rightarrow> insert a (case ptr_at D p h of None \<Rightarrow> {} | Some x \<Rightarrow> r x h))"

definition ptr_read where
  "ptr_read D d p h = (case ptr_at D p h of None \<Rightarrow> None | Some x \<Rightarrow> Some (d x h))"

lemma ptr_at_None [simp]: "ptr_at D None h = None"
  by (simp add: ptr_at_def)

lemma ptr_at_same: "same_at A h h' \<Longrightarrow> a \<in> A \<Longrightarrow> ptr_at D (Some a) h' = ptr_at D (Some a) h"
  by (simp add: ptr_at_def same_at_def)

lemma ptr_at_alloc: "(\<And>x. D (K x) = Some x) \<Longrightarrow> alloc (K y) h = (b, h') \<Longrightarrow> ptr_at D (Some b) h' = Some y"
  by (auto simp: ptr_at_def alloc_def)

lemma deep_copy_ptr:
  assumes dc: "deep_copy v c r d" and D: "\<And>x. D (K x) = Some x"
  shows "deep_copy (ptr_valid D v) (ptr_copy K D c) (ptr_reach D r) (ptr_read D d)"
proof (rule deep_copyI)
  fix p h q h'
  assume p: "ptr_valid D v p h" and copy: "ptr_copy K D c p h = (q, h')"
  show "extends h h' \<and> ptr_valid D v q h' \<and> ptr_reach D r q h' \<subseteq> {hp_next h ..< hp_next h'} \<and>
      ptr_read D d q h' = ptr_read D d p h"
  proof (cases p)
    case None
    with copy show ?thesis
      by (auto simp: ptr_copy_def ptr_valid_def ptr_reach_def ptr_read_def)
  next
    case (Some a)
    with p obtain x where x: "ptr_at D p h = Some x" "v x h"
      by (auto simp: ptr_valid_def split: option.splits)
    obtain y h1 b where y: "c x h = (y, h1)" and b: "alloc (K y) h1 = (b, h')" and q: "q = Some b"
      using copy by (auto simp: ptr_copy_def x split: prod.splits)
    note cx = deep_copy_copied [OF dc x(2) y]
    note fx = deep_copy_extended [OF dc cx [THEN conjunct2, THEN conjunct1] alloc_extends [OF b]]
    note at = ptr_at_alloc [OF D b]
    have ext: "extends h h'" using cx alloc_extends [OF b] by (blast intro: extends_trans)
    have le: "b = hp_next h1" "hp_next h' = Suc b" "hp_next h \<le> hp_next h1"
      using alloc_cell [OF b] extends_next cx by blast+
    have "r y h' \<subseteq> {hp_next h ..< hp_next h1}" using cx fx by simp
    also have "\<dots> \<subseteq> {hp_next h ..< hp_next h'}" using le by simp
    finally have "insert b (r y h') \<subseteq> {hp_next h ..< hp_next h'}" using le by simp
    then show ?thesis
      using ext cx fx le(2) x(1) by (simp add: q ptr_valid_def ptr_reach_def ptr_read_def at)
  qed
next
  fix p h h'
  assume p: "ptr_valid D v p h" and same: "same_at (ptr_reach D r p h) h h'"
  show "ptr_valid D v p h' \<and> ptr_reach D r p h' = ptr_reach D r p h \<and> ptr_read D d p h' = ptr_read D d p h"
  proof (cases p)
    case None
    then show ?thesis by (simp add: ptr_valid_def ptr_reach_def ptr_read_def)
  next
    case (Some a)
    with p obtain x where x: "ptr_at D (Some a) h = Some x" "v x h" "a < hp_next h"
      by (auto simp: ptr_valid_def split: option.splits)
    have s: "same_at (r x h) h h'" "ptr_at D (Some a) h' = Some x" "hp_next h \<le> hp_next h'"
      using same ptr_at_same [OF same, of a D]
      by (auto simp: Some ptr_reach_def x elim: same_at_mono) (simp add: same_at_def)
    from deep_copy_framed [OF dc x(2) s(1)] x s(2,3) show ?thesis
      by (simp add: Some ptr_valid_def ptr_reach_def ptr_read_def)
  qed
qed (use deep_copy.valid_reach [OF dc] in \<open>auto simp: ptr_valid_def ptr_reach_def split: option.splits\<close>)

section \<open>Copies of the elements of a slice\<close>

text \<open>\<open>for i := range *in { (*in)[i].DeepCopyInto(&(*out)[i]) }\<close>\<close>

fun copy_each :: "('a \<Rightarrow> 'c heap \<Rightarrow> 'a \<times> 'c heap) \<Rightarrow> 'a list \<Rightarrow> 'c heap \<Rightarrow> 'a list \<times> 'c heap" where
  "copy_each copy [] h = ([], h)"
| "copy_each copy (x # xs) h =
     (let (y, h) = copy x h; (ys, h) = copy_each copy xs h in (y # ys, h))"

definition each_valid where "each_valid v xs h \<longleftrightarrow> (\<forall>x \<in> set xs. v x h)"
definition each_reach where "each_reach r xs h = (\<Union>x \<in> set xs. r x h)"
definition each_read where "each_read d xs h = map (\<lambda>x. d x h) xs"

lemma each_copied:
  assumes dc: "deep_copy v c r d"
  shows "each_valid v xs h \<Longrightarrow> copy_each c xs h = (ys, h') \<Longrightarrow>
    extends h h' \<and> each_valid v ys h' \<and> each_reach r ys h' \<subseteq> {hp_next h ..< hp_next h'} \<and>
    each_read d ys h' = each_read d xs h"
proof (induction xs arbitrary: h ys h')
  case (Cons x xs)
  obtain y h1 zs where y: "c x h = (y, h1)" and zs: "copy_each c xs h1 = (zs, h')" and ys: "ys = y # zs"
    using Cons.prems(2) by (auto split: prod.splits)
  have v: "v x h" "\<And>z. z \<in> set xs \<Longrightarrow> v z h" using Cons.prems(1) by (simp_all add: each_valid_def)
  note cx = deep_copy_copied [OF dc v(1) y]
  have w: "v z h1" "d z h1 = d z h" if "z \<in> set xs" for z
    using deep_copy_extended [OF dc v(2) [OF that] cx [THEN conjunct1]] by simp_all
  then have IH: "extends h1 h' \<and> each_valid v zs h' \<and> each_reach r zs h' \<subseteq> {hp_next h1 ..< hp_next h'} \<and>
      each_read d zs h' = each_read d xs h1"
    by (intro Cons.IH [OF _ zs]) (simp add: each_valid_def)
  note fx = deep_copy_extended [OF dc cx [THEN conjunct2, THEN conjunct1] IH [THEN conjunct1]]
  have ext: "extends h h'" "hp_next h \<le> hp_next h1" "hp_next h1 \<le> hp_next h'"
    using cx IH extends_trans extends_next by blast+
  have "r y h' \<subseteq> {hp_next h ..< hp_next h1}" using cx fx by simp
  then have "each_reach r ys h' \<subseteq> {hp_next h ..< hp_next h1} \<union> {hp_next h1 ..< hp_next h'}"
    using IH by (auto simp: ys each_reach_def)
  also have "\<dots> = {hp_next h ..< hp_next h'}" using ext(2,3) by (rule ivl_disj_un_two(3))
  finally show ?case using ext cx fx IH w by (simp add: ys each_valid_def each_read_def)
qed (simp add: each_valid_def each_reach_def each_read_def)

lemma deep_copy_each:
  assumes dc: "deep_copy v c r d"
  shows "deep_copy (each_valid v) (copy_each c) (each_reach r) (each_read d)"
proof (rule deep_copyI)
  fix xs h h'
  assume xs: "each_valid v xs h" and same: "same_at (each_reach r xs h) h h'"
  have "v x h' \<and> r x h' = r x h \<and> d x h' = d x h" if "x \<in> set xs" for x
  proof (rule deep_copy_framed [OF dc])
    show "v x h" using xs that by (simp add: each_valid_def)
    show "same_at (r x h) h h'" using same that by (auto simp: each_reach_def elim!: same_at_mono)
  qed
  then show "each_valid v xs h' \<and> each_reach r xs h' = each_reach r xs h \<and> each_read d xs h' = each_read d xs h"
    by (auto simp: each_valid_def each_reach_def each_read_def)
next
  show "each_reach r xs h \<subseteq> {..<hp_next h}" if "each_valid v xs h" for xs h
    using that deep_copy.valid_reach [OF dc] unfolding each_valid_def each_reach_def by blast
qed (rule each_copied [OF dc])

end
