(* ===== verification/Deep_Copy.thy ===== *)
theory Deep_Copy
  imports Api_Types Go_Heap
begin

text \<open>
  The generated copy methods of the custom resources, \<open>zz_generated.deepcopy.go\<close>, on objects
  whose maps, slices and pointers are addresses of a heap. Volumes (\<open>v1.Volume\<close>) and metadata
  (\<open>metav1.ObjectMeta\<close>) are copied by methods of the Kubernetes libraries: they are parameters,
  which meet the contract \<open>deep_copy\<close>. What an object reads as is the value of \<open>Api_Types\<close>.
\<close>

section \<open>Objects with references\<close>

record type_meta =
  tm_Kind :: string
  tm_APIVersion :: string

record list_meta =
  lm_SelfLink :: string
  lm_ResourceVersion :: string
  lm_Continue :: string

record ref_options =
  ro_AllowUnsigned :: bool
  ro_CleanEnv :: bool
  ro_FakeRoot :: bool
  ro_IPC :: bool
  ro_PID :: bool
  ro_NoPrivs :: bool
  ro_Writable :: bool
  ro_App :: string
  ro_HostName :: string
  ro_Binds :: "addr option"

record ref_slurm_job_spec =
  rs_Batch :: string
  rs_NodeSelector :: "addr option"
  rs_Prepare :: "addr option"
  rs_Results :: "addr option"

record ref_wlm_job_spec =
  rw_Image :: string
  rw_Options :: ref_options
  rw_Resources :: wlm_resources
  rw_NodeSelector :: "addr option"
  rw_Results :: "addr option"

record 'm ref_slurm_job =
  rsj_Type :: type_meta
  rsj_Meta :: 'm
  rsj_Spec :: ref_slurm_job_spec
  rsj_Status :: slurm_job_status

record 'm ref_wlm_job =
  rwj_Type :: type_meta
  rwj_Meta :: 'm
  rwj_Spec :: ref_wlm_job_spec
  rwj_Status :: wlm_job_status

record ref_list =
  rl_Type :: type_meta
  rl_Meta :: list_meta
  rl_Items :: "addr option"

text \<open>The cells of the heap; \<open>Ext_Cell\<close> are those of volumes and metadata.\<close>

datatype ('v, 'm, 'x) cell =
    Map_Cell "string \<rightharpoonup> string"
  | Strings_Cell "string list"
  | Prepare_Cell "'v prepare_data"
  | Results_Cell "'v job_results"
  | SlurmJobs_Cell "'m ref_slurm_job list"
  | WlmJobs_Cell "'m ref_wlm_job list"
  | Ext_Cell 'x

type_synonym ('v, 'm, 'x) objects = "('v, 'm, 'x) cell heap"

fun map_of_cell :: "('v, 'm, 'x) cell \<Rightarrow> (string \<rightharpoonup> string) option" where
  "map_of_cell (Map_Cell m) = Some m"
| "map_of_cell _ = None"

fun strings_of_cell :: "('v, 'm, 'x) cell \<Rightarrow> string list option" where
  "strings_of_cell (Strings_Cell xs) = Some xs"
| "strings_of_cell _ = None"

fun prepare_of_cell :: "('v, 'm, 'x) cell \<Rightarrow> 'v prepare_data option" where
  "prepare_of_cell (Prepare_Cell p) = Some p"
| "prepare_of_cell _ = None"

fun results_of_cell :: "('v, 'm, 'x) cell \<Rightarrow> 'v job_results option" where
  "results_of_cell (Results_Cell r) = Some r"
| "results_of_cell _ = None"

fun slurm_jobs_of_cell :: "('v, 'm, 'x) cell \<Rightarrow> 'm ref_slurm_job list option" where
  "slurm_jobs_of_cell (SlurmJobs_Cell js) = Some js"
| "slurm_jobs_of_cell _ = None"

fun wlm_jobs_of_cell :: "('v, 'm, 'x) cell \<Rightarrow> 'm ref_wlm_job list option" where
  "wlm_jobs_of_cell (WlmJobs_Cell js) = Some js"
| "wlm_jobs_of_cell _ = None"

section \<open>The methods\<close>

text \<open>
  \<open>in.DeepCopyInto(out)\<close> returns the struct written to \<open>out\<close> and the heap. \<open>vcopy\<close> is
  \<open>v1.Volume.DeepCopyInto\<close>, \<open>mcopy\<close> is \<open>metav1.ObjectMeta.DeepCopyInto\<close>.
\<close>

type_synonym ('a, 'v, 'm, 'x) copier = "'a \<Rightarrow> ('v, 'm, 'x) objects \<Rightarrow> 'a \<times> ('v, 'm, 'x) objects"

definition JobResults_DeepCopyInto ::
  "('v, 'v, 'm, 'x) copier \<Rightarrow> ('v job_results, 'v, 'm, 'x) copier" where
  "JobResults_DeepCopyInto vcopy r h = (let (m, h) = vcopy (jr_Mount r) h in (r\<lparr>jr_Mount := m\<rparr>, h))"

definition SingularityOptions_DeepCopyInto :: "(ref_options, 'v, 'm, 'x) copier" where
  "SingularityOptions_DeepCopyInto opts h =
     (let (b, h) = ptr_copy Strings_Cell strings_of_cell plain_copy (ro_Binds opts) h in (opts\<lparr>ro_Binds := b\<rparr>, h))"

definition SlurmJobSpec_DeepCopyInto ::
  "('v, 'v, 'm, 'x) copier \<Rightarrow> (ref_slurm_job_spec, 'v, 'm, 'x) copier" where
  "SlurmJobSpec_DeepCopyInto vcopy s h =
     (let (n, h) = ptr_copy Map_Cell map_of_cell plain_copy (rs_NodeSelector s) h;
          (r, h) = ptr_copy Results_Cell results_of_cell (JobResults_DeepCopyInto vcopy) (rs_Results s) h
      in (s\<lparr>rs_NodeSelector := n, rs_Results := r\<rparr>, h))"

definition SlurmJobStatus_DeepCopyInto :: "(slurm_job_status, 'v, 'm, 'x) copier" where
  "SlurmJobStatus_DeepCopyInto s h = (s, h)"

definition SlurmJob_DeepCopyInto ::
  "('v, 'v, 'm, 'x) copier \<Rightarrow> ('m, 'v, 'm, 'x) copier \<Rightarrow> ('m ref_slurm_job, 'v, 'm, 'x) copier" where
  "SlurmJob_DeepCopyInto vcopy mcopy j h =
     (let (m, h) = mcopy (rsj_Meta j) h;
          (s, h) = SlurmJobSpec_DeepCopyInto vcopy (rsj_Spec j) h
      in (j\<lparr>rsj_Meta := m, rsj_Spec := s\<rparr>, h))"

definition SlurmJobList_DeepCopyInto ::
  "('v, 'v, 'm, 'x) copier \<Rightarrow> ('m, 'v, 'm, 'x) copier \<Rightarrow> (ref_list, 'v, 'm, 'x) copier" where
  "SlurmJobList_DeepCopyInto vcopy mcopy l h =
     (let (js, h) = ptr_copy SlurmJobs_Cell slurm_jobs_of_cell
            (copy_each (SlurmJob_DeepCopyInto vcopy mcopy)) (rl_Items l) h
      in (l\<lparr>rl_Items := js\<rparr>, h))"

definition WlmResources_DeepCopyInto :: "(wlm_resources, 'v, 'm, 'x) copier" where
  "WlmResources_DeepCopyInto r h = (r, h)"

definition WlmJobStatus_DeepCopyInto :: "(wlm_job_status, 'v, 'm, 'x) copier" where
  "WlmJobStatus_DeepCopyInto s h = (s, h)"

definition WlmJobSpec_DeepCopyInto ::
  "('v, 'v, 'm, 'x) copier \<Rightarrow> (ref_wlm_job_spec, 'v, 'm, 'x) copier" where
  "WlmJobSpec_DeepCopyInto vcopy s h =
     (let (opts, h) = SingularityOptions_DeepCopyInto (rw_Options s) h;
          (n, h) = ptr_copy Map_Cell map_of_cell plain_copy (rw_NodeSelector s) h;
          (r, h) = ptr_copy Results_Cell results_of_cell (JobResults_DeepCopyInto vcopy) (rw_Results s) h
      in (s\<lparr>rw_Options := opts, rw_NodeSelector := n, rw_Results := r\<rparr>, h))"

definition WlmJob_DeepCopyInto ::
  "('v, 'v, 'm, 'x) copier \<Rightarrow> ('m, 'v, 'm, 'x) copier \<Rightarrow> ('m ref_wlm_job, 'v, 'm, 'x) copier" where
  "WlmJob_DeepCopyInto vcopy mcopy j h =
     (let (m, h) = mcopy (rwj_Meta j) h;
          (s, h) = WlmJobSpec_DeepCopyInto vcopy (rwj_Spec j) h
      in (j\<lparr>rwj_Meta := m, rwj_Spec := s\<rparr>, h))"

definition WlmJobList_DeepCopyInto ::
  "('v, 'v, 'm, 'x) copier \<Rightarrow> ('m, 'v, 'm, 'x) copier \<Rightarrow> (ref_list, 'v, 'm, 'x) copier" where
  "WlmJobList_DeepCopyInto vcopy mcopy l h =
     (let (js, h) = ptr_copy WlmJobs_Cell wlm_jobs_of_cell
            (copy_each (WlmJob_DeepCopyInto vcopy mcopy)) (rl_Items l) h
      in (l\<lparr>rl_Items := js\<rparr>, h))"

text \<open>
  \<open>DeepCopy\<close>: nil for nil, otherwise a new struct filled by \<open>DeepCopyInto\<close>. A pointer to a
  struct of its own is an option.
\<close>

definition deep_copy_ptr_method ::
  "('a, 'v, 'm, 'x) copier \<Rightarrow> 'a option \<Rightarrow> ('v, 'm, 'x) objects \<Rightarrow> 'a option \<times> ('v, 'm, 'x) objects" where
  "deep_copy_ptr_method copy_into x h =
     (case x of None \<Rightarrow> (None, h) | Some x \<Rightarrow> (let (y, h) = copy_into x h in (Some y, h)))"

definition JobResults_DeepCopy where "JobResults_DeepCopy vcopy = deep_copy_ptr_method (JobResults_DeepCopyInto vcopy)"
definition SingularityOptions_DeepCopy where "SingularityOptions_DeepCopy = deep_copy_ptr_method SingularityOptions_DeepCopyInto"
definition SlurmJob_DeepCopy where "SlurmJob_DeepCopy vcopy mcopy = deep_copy_ptr_method (SlurmJob_DeepCopyInto vcopy mcopy)"
definition SlurmJobList_DeepCopy where "SlurmJobList_DeepCopy vcopy mcopy = deep_copy_ptr_method (SlurmJobList_DeepCopyInto vcopy mcopy)"
definition SlurmJobSpec_DeepCopy where "SlurmJobSpec_DeepCopy vcopy = deep_copy_ptr_method (SlurmJobSpec_DeepCopyInto vcopy)"
definition SlurmJobStatus_DeepCopy where "SlurmJobStatus_DeepCopy = deep_copy_ptr_method SlurmJobStatus_DeepCopyInto"
definition WlmJob_DeepCopy where "WlmJob_DeepCopy vcopy mcopy = deep_copy_ptr_method (WlmJob_DeepCopyInto vcopy mcopy)"
definition WlmJobList_DeepCopy where "WlmJobList_DeepCopy vcopy mcopy = deep_copy_ptr_method (WlmJobList_DeepCopyInto vcopy mcopy)"
definition WlmJobSpec_DeepCopy where "WlmJobSpec_DeepCopy vcopy = deep_copy_ptr_method (WlmJobSpec_DeepCopyInto vcopy)"
definition WlmJobStatus_DeepCopy where "WlmJobStatus_DeepCopy = deep_copy_ptr_method WlmJobStatus_DeepCopyInto"
definition WlmResources_DeepCopy where "WlmResources_DeepCopy = deep_copy_ptr_method WlmResources_DeepCopyInto"

text \<open>\<open>DeepCopyObject\<close> returns the copy as a \<open>runtime.Object\<close>, with an untyped nil for nil.\<close>

datatype 'm runtime_object =
    SlurmJob_Object "'m ref_slurm_job"
  | SlurmJobList_Object ref_list
  | WlmJob_Object "'m ref_wlm_job"
  | WlmJobList_Object ref_list

definition as_object :: "('a \<Rightarrow> 'm runtime_object) \<Rightarrow> 'a option \<times> 'h \<Rightarrow> 'm runtime_object option \<times> 'h" where
  "as_object K r = (case r of (Some c, h) \<Rightarrow> (Some (K c), h) | (None, h) \<Rightarrow> (None, h))"

definition SlurmJob_DeepCopyObject where "SlurmJob_DeepCopyObject vcopy mcopy x h = as_object SlurmJob_Object (SlurmJob_DeepCopy vcopy mcopy x h)"
definition SlurmJobList_DeepCopyObject where "SlurmJobList_DeepCopyObject vcopy mcopy x h = as_object SlurmJobList_Object (SlurmJobList_DeepCopy vcopy mcopy x h)"
definition WlmJob_DeepCopyObject where "WlmJob_DeepCopyObject vcopy mcopy x h = as_object WlmJob_Object (WlmJob_DeepCopy vcopy mcopy x h)"
definition WlmJobList_DeepCopyObject where "WlmJobList_DeepCopyObject vcopy mcopy x h = as_object WlmJobList_Object (WlmJobList_DeepCopy vcopy mcopy x h)"

section \<open>What an object reads as, and the cells it reaches\<close>

text \<open>
  \<open>vread\<close> and \<open>mread\<close> read volumes and metadata, \<open>vreach\<close> and \<open>mreach\<close> are the cells they
  reach; \<open>vvalid\<close> and \<open>mvalid\<close> say that their references point to cells of the right kind. A
  nil slice reads as the empty list and a nil map as the empty map.
\<close>

definition results_valid where "results_valid vvalid r h \<longleftrightarrow> vvalid (jr_Mount r) h"
definition results_reach where "results_reach vreach r h = vreach (jr_Mount r) h"
definition results_read where
  "results_read vread r h = \<lparr>jr_Mount = vread (jr_Mount r) h, jr_From = jr_From r\<rparr>"

abbreviation "binds_valid \<equiv> ptr_valid strings_of_cell plain_valid"
abbreviation "binds_copy \<equiv> ptr_copy Strings_Cell strings_of_cell plain_copy"
abbreviation "binds_reach \<equiv> ptr_reach strings_of_cell plain_reach"
abbreviation "binds_read \<equiv> ptr_read strings_of_cell plain_read"
abbreviation "labels_valid \<equiv> ptr_valid map_of_cell plain_valid"
abbreviation "labels_copy \<equiv> ptr_copy Map_Cell map_of_cell plain_copy"
abbreviation "labels_reach \<equiv> ptr_reach map_of_cell plain_reach"
abbreviation "labels_read \<equiv> ptr_read map_of_cell plain_read"
abbreviation "results_ptr_valid vvalid \<equiv> ptr_valid results_of_cell (results_valid vvalid)"
abbreviation "results_ptr_copy vcopy \<equiv> ptr_copy Results_Cell results_of_cell (JobResults_DeepCopyInto vcopy)"
abbreviation "results_ptr_reach vreach \<equiv> ptr_reach results_of_cell (results_reach vreach)"
abbreviation "results_ptr_read vread \<equiv> ptr_read results_of_cell (results_read vread)"

definition options_value :: "ref_options \<Rightarrow> string list option \<Rightarrow> singularity_options" where
  "options_value opts b =
     \<lparr>so_AllowUnsigned = ro_AllowUnsigned opts, so_CleanEnv = ro_CleanEnv opts, so_FakeRoot = ro_FakeRoot opts,
      so_IPC = ro_IPC opts, so_PID = ro_PID opts, so_NoPrivs = ro_NoPrivs opts, so_Writable = ro_Writable opts,
      so_App = ro_App opts, so_HostName = ro_HostName opts, so_Binds = (case b of None \<Rightarrow> [] | Some xs \<Rightarrow> xs)\<rparr>"

definition options_valid where "options_valid opts h \<longleftrightarrow> binds_valid (ro_Binds opts) h"
definition options_reach where "options_reach opts h = binds_reach (ro_Binds opts) h"
definition options_read where "options_read opts h = options_value opts (binds_read (ro_Binds opts) h)"

definition selector_value :: "(string \<rightharpoonup> string) option \<Rightarrow> string \<rightharpoonup> string" where
  "selector_value n = (case n of None \<Rightarrow> Map.empty | Some m \<Rightarrow> m)"

definition prepare_read where
  "prepare_read vread p h = \<lparr>pd_Mount = vread (pd_Mount p) h, pd_To = pd_To p\<rparr>"
definition prepare_valid where "prepare_valid vvalid p h \<longleftrightarrow> vvalid (pd_Mount p) h"
definition prepare_reach where "prepare_reach vreach p h = vreach (pd_Mount p) h"

definition slurm_spec_valid where
  "slurm_spec_valid vvalid s h \<longleftrightarrow>
     labels_valid (rs_NodeSelector s) h \<and> ptr_valid prepare_of_cell (prepare_valid vvalid) (rs_Prepare s) h \<and>
     results_ptr_valid vvalid (rs_Results s) h"

definition slurm_spec_reach where
  "slurm_spec_reach vreach s h =
     labels_reach (rs_NodeSelector s) h \<union> ptr_reach prepare_of_cell (prepare_reach vreach) (rs_Prepare s) h \<union>
     results_ptr_reach vreach (rs_Results s) h"

definition slurm_spec_read where
  "slurm_spec_read vread s h =
     \<lparr>sjs_Batch = rs_Batch s, sjs_NodeSelector = selector_value (labels_read (rs_NodeSelector s) h),
      sjs_Prepare = ptr_read prepare_of_cell (prepare_read vread) (rs_Prepare s) h,
      sjs_Results = results_ptr_read vread (rs_Results s) h\<rparr>"

definition slurm_job_valid where
  "slurm_job_valid vvalid mvalid j h \<longleftrightarrow> mvalid (rsj_Meta j) h \<and> slurm_spec_valid vvalid (rsj_Spec j) h"
definition slurm_job_reach where
  "slurm_job_reach vreach mreach j h = mreach (rsj_Meta j) h \<union> slurm_spec_reach vreach (rsj_Spec j) h"
definition slurm_job_read where
  "slurm_job_read vread mread j h =
     (rsj_Type j, mread (rsj_Meta j) h, slurm_spec_read vread (rsj_Spec j) h, rsj_Status j)"

definition wlm_spec_valid where
  "wlm_spec_valid vvalid s h \<longleftrightarrow>
     options_valid (rw_Options s) h \<and> labels_valid (rw_NodeSelector s) h \<and> results_ptr_valid vvalid (rw_Results s) h"

definition wlm_spec_reach where
  "wlm_spec_reach vreach s h =
     options_reach (rw_Options s) h \<union> (labels_reach (rw_NodeSelector s) h \<union> results_ptr_reach vreach (rw_Results s) h)"

definition wlm_spec_read where
  "wlm_spec_read vread s h =
     \<lparr>wjs_Image = rw_Image s, wjs_Options = options_read (rw_Options s) h, wjs_Resources = rw_Resources s,
      wjs_NodeSelector = selector_value (labels_read (rw_NodeSelector s) h),
      wjs_Results = results_ptr_read vread (rw_Results s) h\<rparr>"

definition wlm_job_valid where
  "wlm_job_valid vvalid mvalid j h \<longleftrightarrow> mvalid (rwj_Meta j) h \<and> wlm_spec_valid vvalid (rwj_Spec j) h"
definition wlm_job_reach where
  "wlm_job_reach vreach mreach j h = mreach (rwj_Meta j) h \<union> wlm_spec_reach vreach (rwj_Spec j) h"
definition wlm_job_read where
  "wlm_job_read vread mread j h =
     (rwj_Type j, mread (rwj_Meta j) h, wlm_spec_read vread (rwj_Spec j) h, rwj_Status j)"

definition wlm_list_valid where
  "wlm_list_valid vvalid mvalid l h \<longleftrightarrow>
     ptr_valid wlm_jobs_of_cell (each_valid (wlm_job_valid vvalid mvalid)) (rl_Items l) h"
definition wlm_list_reach where
  "wlm_list_reach vreach mreach l h =
     ptr_reach wlm_jobs_of_cell (each_reach (wlm_job_reach vreach mreach)) (rl_Items l) h"
definition wlm_list_read where
  "wlm_list_read vread mread l h =
     (rl_Type l, rl_Meta l, ptr_read wlm_jobs_of_cell (each_read (wlm_job_read vread mread)) (rl_Items l) h)"

section \<open>The contracts of the methods\<close>

lemmas deep_copy_binds = deep_copy_ptr [OF plain.deep_copy_axioms, of strings_of_cell Strings_Cell, simplified]
lemmas deep_copy_labels = deep_copy_ptr [OF plain.deep_copy_axioms, of map_of_cell Map_Cell, simplified]

lemma deep_copy_results:
  assumes "deep_copy vvalid vcopy vreach vread"
  shows "deep_copy (results_valid vvalid) (JobResults_DeepCopyInto vcopy) (results_reach vreach) (results_read vread)"
  by (rule deep_copy_record [OF assms, where f = jr_Mount and put = "\<lambda>m r. r\<lparr>jr_Mount := m\<rparr>"
        and build = "\<lambda>r m. \<lparr>jr_Mount = m, jr_From = jr_From r\<rparr>" and ok = "\<lambda>r. True"])
    (simp_all add: results_valid_def results_reach_def results_read_def JobResults_DeepCopyInto_def)

lemma deep_copy_results_ptr:
  assumes "deep_copy vvalid vcopy vreach vread"
  shows "deep_copy (results_ptr_valid vvalid) (results_ptr_copy vcopy) (results_ptr_reach vreach) (results_ptr_read vread)"
  by (rule deep_copy_ptr [OF deep_copy_results [OF assms]]) simp

lemma deep_copy_options:
  "deep_copy options_valid SingularityOptions_DeepCopyInto options_reach options_read"
  by (rule deep_copy_record [OF deep_copy_binds, where f = ro_Binds and put = "\<lambda>b r. r\<lparr>ro_Binds := b\<rparr>"
        and build = options_value and ok = "\<lambda>r. True"])
    (simp_all add: options_valid_def options_reach_def options_read_def options_value_def
      SingularityOptions_DeepCopyInto_def fun_eq_iff)

lemmas pair_defs = pair_valid_def pair_reach_def pair_read_def pair_copy_def

text \<open>A spec of a SlurmJob is copied deeply when it has no \<open>Prepare\<close>.\<close>

lemma deep_copy_slurm_spec:
  assumes "deep_copy vvalid vcopy vreach vread"
  shows "deep_copy (\<lambda>s h. rs_Prepare s = None \<and> slurm_spec_valid vvalid s h) (SlurmJobSpec_DeepCopyInto vcopy)
    (slurm_spec_reach vreach) (slurm_spec_read vread)"
  by (rule deep_copy_record [OF deep_copy_pair [OF deep_copy_labels deep_copy_results_ptr [OF assms]],
        where f = "\<lambda>s. (rs_NodeSelector s, rs_Results s)"
        and put = "\<lambda>t s. s\<lparr>rs_NodeSelector := fst t, rs_Results := snd t\<rparr>"
        and ok = "\<lambda>s. rs_Prepare s = None"
        and build = "\<lambda>s t. \<lparr>sjs_Batch = rs_Batch s, sjs_NodeSelector = selector_value (fst t),
          sjs_Prepare = None, sjs_Results = snd t\<rparr>"])
    (auto simp: pair_defs slurm_spec_valid_def slurm_spec_reach_def slurm_spec_read_def
      SlurmJobSpec_DeepCopyInto_def ptr_valid_def ptr_reach_def ptr_read_def split: prod.splits)

lemma deep_copy_wlm_spec:
  assumes "deep_copy vvalid vcopy vreach vread"
  shows "deep_copy (wlm_spec_valid vvalid) (WlmJobSpec_DeepCopyInto vcopy) (wlm_spec_reach vreach) (wlm_spec_read vread)"
  by (rule deep_copy_record [OF deep_copy_pair [OF deep_copy_options
          deep_copy_pair [OF deep_copy_labels deep_copy_results_ptr [OF assms]]],
        where f = "\<lambda>s. (rw_Options s, rw_NodeSelector s, rw_Results s)"
        and put = "\<lambda>t s. s\<lparr>rw_Options := fst t, rw_NodeSelector := fst (snd t), rw_Results := snd (snd t)\<rparr>"
        and ok = "\<lambda>s. True"
        and build = "\<lambda>s t. \<lparr>wjs_Image = rw_Image s, wjs_Options = fst t, wjs_Resources = rw_Resources s,
          wjs_NodeSelector = selector_value (fst (snd t)), wjs_Results = snd (snd t)\<rparr>"])
    (simp_all add: pair_defs wlm_spec_valid_def wlm_spec_reach_def wlm_spec_read_def
      WlmJobSpec_DeepCopyInto_def split: prod.splits)

lemma deep_copy_wlm_job:
  assumes "deep_copy vvalid vcopy vreach vread" "deep_copy mvalid mcopy mreach mread"
  shows "deep_copy (wlm_job_valid vvalid mvalid) (WlmJob_DeepCopyInto vcopy mcopy)
    (wlm_job_reach vreach mreach) (wlm_job_read vread mread)"
  by (rule deep_copy_record [OF deep_copy_pair [OF assms(2) deep_copy_wlm_spec [OF assms(1)]],
        where f = "\<lambda>j. (rwj_Meta j, rwj_Spec j)"
        and put = "\<lambda>t j. j\<lparr>rwj_Meta := fst t, rwj_Spec := snd t\<rparr>" and ok = "\<lambda>j. True"
        and build = "\<lambda>j t. (rwj_Type j, fst t, snd t, rwj_Status j)"])
    (simp_all add: pair_defs wlm_job_valid_def wlm_job_reach_def wlm_job_read_def
      WlmJob_DeepCopyInto_def split: prod.splits)

lemma deep_copy_wlm_list:
  assumes "deep_copy vvalid vcopy vreach vread" "deep_copy mvalid mcopy mreach mread"
  shows "deep_copy (wlm_list_valid vvalid mvalid) (WlmJobList_DeepCopyInto vcopy mcopy)
    (wlm_list_reach vreach mreach) (wlm_list_read vread mread)"
  by (rule deep_copy_record [OF deep_copy_ptr [OF deep_copy_each [OF deep_copy_wlm_job [OF assms]],
          where D = wlm_jobs_of_cell and K = WlmJobs_Cell],
        where f = rl_Items and put = "\<lambda>t l. l\<lparr>rl_Items := t\<rparr>" and ok = "\<lambda>l. True"
        and build = "\<lambda>l t. (rl_Type l, rl_Meta l, t)"])
    (simp_all add: wlm_list_valid_def wlm_list_reach_def wlm_list_read_def WlmJobList_DeepCopyInto_def)

lemma deep_copy_slurm_job:
  assumes "deep_copy vvalid vcopy vreach vread" "deep_copy mvalid mcopy mreach mread"
  shows "deep_copy (\<lambda>j h. rs_Prepare (rsj_Spec j) = None \<and> slurm_job_valid vvalid mvalid j h)
    (SlurmJob_DeepCopyInto vcopy mcopy) (slurm_job_reach vreach mreach) (slurm_job_read vread mread)"
  by (rule deep_copy_record [OF deep_copy_pair [OF assms(2) deep_copy_slurm_spec [OF assms(1)]],
        where f = "\<lambda>j. (rsj_Meta j, rsj_Spec j)"
        and put = "\<lambda>t j. j\<lparr>rsj_Meta := fst t, rsj_Spec := snd t\<rparr>" and ok = "\<lambda>j. True"
        and build = "\<lambda>j t. (rsj_Type j, fst t, snd t, rsj_Status j)"])
    (auto simp: pair_defs slurm_job_valid_def slurm_job_reach_def slurm_job_read_def
      SlurmJob_DeepCopyInto_def split: prod.splits)

section \<open>Volumes and metadata of the Kubernetes libraries\<close>

text \<open>
  The contract is met by the volumes the operator is deployed with, host paths, and by
  metadata with labels: the branches of the vendored methods for these fields.
\<close>

datatype k8s_ext = HostPath_Ext "string \<times> addr option" | HostPathType_Ext string

record host_volume =
  ho_Name :: string
  ho_HostPath :: "addr option"

record ref_meta =
  rm_Name :: string
  rm_Namespace :: string
  rm_Labels :: "addr option"

type_synonym k8s_cell = "(host_volume, ref_meta, k8s_ext) cell"

fun path_of_cell :: "k8s_cell \<Rightarrow> (string \<times> addr option) option" where
  "path_of_cell (Ext_Cell (HostPath_Ext p)) = Some p"
| "path_of_cell _ = None"

fun path_type_of_cell :: "k8s_cell \<Rightarrow> string option" where
  "path_type_of_cell (Ext_Cell (HostPathType_Ext t)) = Some t"
| "path_type_of_cell _ = None"

abbreviation "path_type_copy \<equiv> ptr_copy (\<lambda>t. Ext_Cell (HostPathType_Ext t)) path_type_of_cell plain_copy"
abbreviation "path_copy \<equiv> pair_copy plain_copy path_type_copy"

definition host_volume_copy :: "host_volume \<Rightarrow> k8s_cell heap \<Rightarrow> host_volume \<times> k8s_cell heap" where
  "host_volume_copy v h =
     (let (p, h) = ptr_copy (\<lambda>p. Ext_Cell (HostPath_Ext p)) path_of_cell path_copy (ho_HostPath v) h
      in (v\<lparr>ho_HostPath := p\<rparr>, h))"

abbreviation "path_valid \<equiv> pair_valid plain_valid (ptr_valid path_type_of_cell plain_valid)"
abbreviation "path_reach \<equiv> pair_reach plain_reach (ptr_reach path_type_of_cell plain_reach)"
abbreviation "path_read \<equiv> pair_read plain_read (ptr_read path_type_of_cell plain_read)"

definition host_volume_valid where "host_volume_valid v h \<longleftrightarrow> ptr_valid path_of_cell path_valid (ho_HostPath v) h"
definition host_volume_reach where "host_volume_reach v h = ptr_reach path_of_cell path_reach (ho_HostPath v) h"
definition host_volume_read where "host_volume_read v h = (ho_Name v, ptr_read path_of_cell path_read (ho_HostPath v) h)"

definition ref_meta_copy :: "ref_meta \<Rightarrow> k8s_cell heap \<Rightarrow> ref_meta \<times> k8s_cell heap" where
  "ref_meta_copy m h = (let (l, h) = labels_copy (rm_Labels m) h in (m\<lparr>rm_Labels := l\<rparr>, h))"

definition ref_meta_valid :: "ref_meta \<Rightarrow> k8s_cell heap \<Rightarrow> bool" where
  "ref_meta_valid m h \<longleftrightarrow> labels_valid (rm_Labels m) h"
definition ref_meta_reach :: "ref_meta \<Rightarrow> k8s_cell heap \<Rightarrow> addr set" where
  "ref_meta_reach m h = labels_reach (rm_Labels m) h"
definition ref_meta_read :: "ref_meta \<Rightarrow> k8s_cell heap \<Rightarrow> string \<times> string \<times> (string \<rightharpoonup> string) option" where
  "ref_meta_read m h = (rm_Name m, rm_Namespace m, labels_read (rm_Labels m) h)"

lemma deep_copy_host_volume:
  "deep_copy host_volume_valid host_volume_copy host_volume_reach host_volume_read"
proof -
  have types: "deep_copy (ptr_valid path_type_of_cell plain_valid) path_type_copy
      (ptr_reach path_type_of_cell plain_reach) (ptr_read path_type_of_cell plain_read)"
    by (rule deep_copy_ptr [OF plain.deep_copy_axioms]) simp
  have paths: "deep_copy (ptr_valid path_of_cell path_valid)
      (ptr_copy (\<lambda>p. Ext_Cell (HostPath_Ext p)) path_of_cell path_copy)
      (ptr_reach path_of_cell path_reach) (ptr_read path_of_cell path_read)"
    by (rule deep_copy_ptr [OF deep_copy_pair [OF plain.deep_copy_axioms types]]) simp
  show ?thesis
    by (rule deep_copy_record [OF paths, where f = ho_HostPath and put = "\<lambda>p v. v\<lparr>ho_HostPath := p\<rparr>"
          and ok = "\<lambda>v. True" and build = "\<lambda>v p. (ho_Name v, p)"])
      (simp_all add: host_volume_valid_def host_volume_reach_def host_volume_read_def host_volume_copy_def)
qed

lemma deep_copy_ref_meta: "deep_copy ref_meta_valid ref_meta_copy ref_meta_reach ref_meta_read"
  by (rule deep_copy_record [OF deep_copy_labels, where f = rm_Labels and put = "\<lambda>p v. v\<lparr>rm_Labels := p\<rparr>"
        and ok = "\<lambda>v. True" and build = "\<lambda>v p. (rm_Name v, rm_Namespace v, p)"])
    (simp_all add: ref_meta_valid_def ref_meta_reach_def ref_meta_read_def ref_meta_copy_def)

interpretation wlm_job_lists: deep_copy
  "wlm_list_valid host_volume_valid ref_meta_valid" "WlmJobList_DeepCopyInto host_volume_copy ref_meta_copy"
  "wlm_list_reach host_volume_reach ref_meta_reach" "wlm_list_read host_volume_read ref_meta_read"
  by (rule deep_copy_wlm_list [OF deep_copy_host_volume deep_copy_ref_meta])

interpretation slurm_jobs_without_prepare: deep_copy
  "\<lambda>j h. rs_Prepare (rsj_Spec j) = None \<and> slurm_job_valid host_volume_valid ref_meta_valid j h"
  "SlurmJob_DeepCopyInto host_volume_copy ref_meta_copy"
  "slurm_job_reach host_volume_reach ref_meta_reach" "slurm_job_read host_volume_read ref_meta_read"
  by (rule deep_copy_slurm_job [OF deep_copy_host_volume deep_copy_ref_meta])

section \<open>Properties\<close>

text \<open>
  C27. The copy of a list of WlmJobs reads as the original and is isolated from it: whatever is
  assigned through a reference of the copy, the original reads as before, and whatever is
  assigned through a reference of the original, the copy does.
\<close>

theorem WlmJobList_DeepCopy_isolated:
  assumes "deep_copy vvalid vcopy vreach vread" "deep_copy mvalid mcopy mreach mread"
    and "wlm_list_valid vvalid mvalid l h"
    and "WlmJobList_DeepCopyInto vcopy mcopy l h = (y, h')"
  shows "wlm_list_read vread mread y h' = wlm_list_read vread mread l h \<and>
    (\<forall>a \<in> wlm_list_reach vreach mreach y h'. \<forall>c.
       wlm_list_read vread mread l (store a c h') = wlm_list_read vread mread l h) \<and>
    (\<forall>a \<in> wlm_list_reach vreach mreach l h. \<forall>c.
       wlm_list_read vread mread y (store a c h') = wlm_list_read vread mread l h)"
proof -
  note dc = deep_copy_wlm_list [OF assms(1,2)]
  show ?thesis
    using deep_copy.copy_read [OF dc assms(3,4)] deep_copy.copy_isolated [OF dc assms(3,4)]
      deep_copy.original_isolated [OF dc assms(3,4)] by blast
qed

text \<open>
  The copy of a SlurmJob shares a cell with the original exactly when the job has a
  \<open>Prepare\<close> step: the generated method copies that pointer and not what it points to. An
  assignment to the prepare step of the copy is then seen in the original.
\<close>

theorem SlurmJob_DeepCopy_shares_prepare:
  assumes "deep_copy vvalid vcopy vreach vread" "deep_copy mvalid mcopy mreach mread"
    and "slurm_job_valid vvalid mvalid j h"
    and "SlurmJob_DeepCopyInto vcopy mcopy j h = (y, h')"
  shows "(slurm_job_reach vreach mreach j h' \<inter> slurm_job_reach vreach mreach y h' = {} \<longleftrightarrow>
      rs_Prepare (rsj_Spec j) = None) \<and>
    (\<forall>a p. rs_Prepare (rsj_Spec y) = Some a \<longrightarrow>
       ptr_at prepare_of_cell (rs_Prepare (rsj_Spec j)) (store a (Prepare_Cell p) h') = Some p)"
proof -
  note dc = deep_copy_slurm_job [OF assms(1,2)]
  have prepare: "rs_Prepare (rsj_Spec y) = rs_Prepare (rsj_Spec j)"
    using assms(4) by (auto simp: SlurmJob_DeepCopyInto_def SlurmJobSpec_DeepCopyInto_def split: prod.splits)
  have "slurm_job_reach vreach mreach j h' \<inter> slurm_job_reach vreach mreach y h' = {}"
    if "rs_Prepare (rsj_Spec j) = None"
    using deep_copy.copy_separate [OF dc _ assms(4)] assms(3) that by blast
  moreover have "a \<in> slurm_job_reach vreach mreach j h' \<inter> slurm_job_reach vreach mreach y h'"
    if "rs_Prepare (rsj_Spec j) = Some a" for a
    using that by (simp add: prepare slurm_job_reach_def slurm_spec_reach_def ptr_reach_def)
  ultimately show ?thesis
    by (cases "rs_Prepare (rsj_Spec j)") (auto simp: prepare ptr_at_def store_def)
qed

definition example_heap :: "k8s_cell heap" where
  "example_heap =
     \<lparr>hp_cells =
        [0 \<mapsto> Map_Cell [''type'' \<mapsto> ''virtual-kubelet''],
         1 \<mapsto> WlmJobs_Cell
           [\<lparr>rwj_Type = \<lparr>tm_Kind = ''WlmJob'', tm_APIVersion = ''wlm.sylabs.io/v1alpha1''\<rparr>,
             rwj_Meta = \<lparr>rm_Name = ''job'', rm_Namespace = ''default'', rm_Labels = None\<rparr>,
             rwj_Spec =
               \<lparr>rw_Image = ''library://cowsay'',
                rw_Options = \<lparr>ro_AllowUnsigned = True, ro_CleanEnv = False, ro_FakeRoot = False, ro_IPC = False,
                  ro_PID = False, ro_NoPrivs = False, ro_Writable = False, ro_App = [], ro_HostName = [],
                  ro_Binds = None\<rparr>,
                rw_Resources = \<lparr>wr_Nodes = 1, wr_CPUPerNode = 2, wr_MemPerNode = 0, wr_WallTime = 0\<rparr>,
                rw_NodeSelector = Some 0, rw_Results = None\<rparr>,
             rwj_Status = \<lparr>wjst_Status = []\<rparr>\<rparr>],
         2 \<mapsto> Prepare_Cell \<lparr>pd_Mount = \<lparr>ho_Name = ''input'', ho_HostPath = None\<rparr>, pd_To = ''/data''\<rparr>],
      hp_next = 3\<rparr>"

definition example_list :: ref_list where
  "example_list =
     \<lparr>rl_Type = \<lparr>tm_Kind = ''WlmJobList'', tm_APIVersion = ''wlm.sylabs.io/v1alpha1''\<rparr>,
      rl_Meta = \<lparr>lm_SelfLink = [], lm_ResourceVersion = [], lm_Continue = []\<rparr>, rl_Items = Some 1\<rparr>"

definition example_prepared :: "ref_meta ref_slurm_job" where
  "example_prepared =
     \<lparr>rsj_Type = \<lparr>tm_Kind = ''SlurmJob'', tm_APIVersion = ''wlm.sylabs.io/v1alpha1''\<rparr>,
      rsj_Meta = \<lparr>rm_Name = ''job'', rm_Namespace = ''default'', rm_Labels = None\<rparr>,
      rsj_Spec = \<lparr>rs_Batch = ''#!/bin/sh'', rs_NodeSelector = Some 0, rs_Prepare = Some 2, rs_Results = None\<rparr>,
      rsj_Status = \<lparr>sjst_Status = []\<rparr>\<rparr>"

lemma example_list_valid: "wlm_list_valid host_volume_valid ref_meta_valid example_list example_heap"
  by (simp add: wlm_list_valid_def example_list_def example_heap_def ptr_valid_def ptr_at_def each_valid_def
      wlm_job_valid_def ref_meta_valid_def wlm_spec_valid_def options_valid_def plain_valid_def)

lemma example_prepared_valid: "slurm_job_valid host_volume_valid ref_meta_valid example_prepared example_heap"
  by (simp add: slurm_job_valid_def example_prepared_def example_heap_def ptr_valid_def ptr_at_def
      ref_meta_valid_def slurm_spec_valid_def plain_valid_def prepare_valid_def host_volume_valid_def)

abbreviation "example_list_copy \<equiv> WlmJobList_DeepCopyInto host_volume_copy ref_meta_copy example_list example_heap"
abbreviation "example_prepared_copy \<equiv> SlurmJob_DeepCopyInto host_volume_copy ref_meta_copy example_prepared example_heap"

theorem WlmJobList_DeepCopy_isolated_witness:
  "wlm_list_read host_volume_read ref_meta_read (fst example_list_copy) (snd example_list_copy) =
    wlm_list_read host_volume_read ref_meta_read example_list example_heap"
  using WlmJobList_DeepCopy_isolated [OF deep_copy_host_volume deep_copy_ref_meta example_list_valid,
      of "fst example_list_copy" "snd example_list_copy"] by (metis prod.collapse)

theorem SlurmJob_DeepCopy_shares_prepare_witness:
  "slurm_job_reach host_volume_reach ref_meta_reach example_prepared (snd example_prepared_copy) \<inter>
     slurm_job_reach host_volume_reach ref_meta_reach (fst example_prepared_copy) (snd example_prepared_copy) \<noteq> {}"
  using SlurmJob_DeepCopy_shares_prepare [OF deep_copy_host_volume deep_copy_ref_meta example_prepared_valid,
      of "fst example_prepared_copy" "snd example_prepared_copy"]
  by (simp add: example_prepared_def)

end
