(* ===== verification/Results.thy ===== *)
theory Results
  imports File_Service
begin

text \<open>
  The program \<open>cmd/results/main.go\<close>, which moves files between a volume of the cluster and the
  machine red-box runs on: the local file system and the remote one, with the handlers of
  \<open>File_Service\<close> between them. The connection does not fail; every \<open>log.Fatalf\<close> ends the
  program with an error.
\<close>

section \<open>The program\<close>

text \<open>The program has its own copy of the archive functions of \<open>pkg/slurm/slurm.go\<close>.\<close>

definition results_zipFile ::
  "(zip_entry list \<Rightarrow> string) \<Rightarrow> file_system \<Rightarrow> string \<Rightarrow> string \<Rightarrow> unit go \<times> file_system" where
  "results_zipFile = zipFile"

definition results_unzipFile :: "file_system \<Rightarrow> zip_entry \<Rightarrow> string \<Rightarrow> unit go \<times> file_system" where
  "results_unzipFile = unzipFile"

definition results_unzip ::
  "(string \<Rightarrow> zip_entry list go) \<Rightarrow> file_system \<Rightarrow> string \<Rightarrow> string \<Rightarrow> unit go \<times> file_system" where
  "results_unzip = unzip"

record results_flags =
  rf_from :: string
  rf_to :: string
  rf_upload :: bool
  rf_sock :: string

text \<open>The loop that reads the archive and sends it is the loop of \<open>OpenFile\<close>.\<close>

definition send_loop :: "node \<Rightarrow> (unit go \<times> chunk list) option" where
  "send_loop fd = open_loop collect fd []"

definition upload ::
  "(zip_entry list \<Rightarrow> string) \<Rightarrow> (string \<Rightarrow> zip_entry list go) \<Rightarrow> (string \<Rightarrow> go_error option) \<Rightarrow>
   string \<Rightarrow> string \<Rightarrow> file_system \<Rightarrow> file_system \<Rightarrow> (unit go \<times> file_system \<times> file_system) option" where
  "upload enc dec wfail from to local remote =
     (case results_zipFile enc local from (from @ ''.zip'') of
        (Err e, local) \<Rightarrow> Some (Err (Wrapped ''can't zip local file err'' e), local, remote)
      | (Panic m, local) \<Rightarrow> Some (Panic m, local, remote)
      | (Ok _, local) \<Rightarrow>
          (case os_Open local (from @ ''.zip'') of
             Err e \<Rightarrow> Some (Err (Wrapped ''can't open local file err'' e), local, remote)
           | Panic m \<Rightarrow> Some (Panic m, local, remote)
           | Ok fd \<Rightarrow>
               (let target = filepath_Join to (filepath_Base from @ ''.zip'')
                in case send_loop fd of
                     None \<Rightarrow> None
                   | Some (Err e, _) \<Rightarrow> Some (Err (Wrapped ''err while reading file'' e), local, remote)
                   | Some (Panic m, _) \<Rightarrow> Some (Panic m, local, remote)
                   | Some (Ok _, chunks) \<Rightarrow>
                       (case CreateFile wfail remote
                              (\<lparr>cfr_Path = target, cfr_Content = None\<rparr> #
                               map (\<lambda>c. \<lparr>cfr_Path = [], cfr_Content = Some (ch_Content c)\<rparr>) chunks) EOF of
                          (Err e, remote) \<Rightarrow> Some (Err (Wrapped ''can't send file err'' e), local, remote)
                        | (Panic m, remote) \<Rightarrow> Some (Err (ExternalError m), local, remote)
                        | (Ok _, remote) \<Rightarrow>
                            (case Unzip_handler dec remote \<lparr>uzr_Source = target, uzr_Path = to\<rparr> of
                               (Ok _, remote) \<Rightarrow> Some (Ok (), local, remote)
                             | (Err e, remote) \<Rightarrow> Some (Err (Wrapped ''can't unzip remote file err'' e), local, remote)
                             | (Panic m, remote) \<Rightarrow> Some (Err (ExternalError m), local, remote))))))"

text \<open>
  The loop that writes the chunks received; \<open>fin\<close> is what the handler ends with, which the
  client sees as \<open>EOF\<close> when it is nil.
\<close>

fun receive_loop :: "file_system \<Rightarrow> string list \<Rightarrow> chunk list \<Rightarrow> unit go \<Rightarrow> unit go \<times> file_system" where
  "receive_loop fs toFile [] fin =
     (case fin of
        Ok _ \<Rightarrow> (Ok (), fs)
      | Err e \<Rightarrow> (Err (Wrapped ''err while receiving file'' e), fs)
      | Panic m \<Rightarrow> (Err (ExternalError m), fs))"
| "receive_loop fs toFile (c # cs) fin = receive_loop (os_Write fs toFile (ch_Content c)) toFile cs fin"

definition download ::
  "(zip_entry list \<Rightarrow> string) \<Rightarrow> (string \<Rightarrow> zip_entry list go) \<Rightarrow>
   string \<Rightarrow> string \<Rightarrow> file_system \<Rightarrow> file_system \<Rightarrow> (unit go \<times> file_system \<times> file_system) option" where
  "download enc dec from to local remote =
     (case Zip_handler enc remote \<lparr>zr_Path = from, zr_Target = from @ ''.zip''\<rparr> of
        (Err e, remote) \<Rightarrow> Some (Err (Wrapped ''can't zip remote file err'' e), local, remote)
      | (Panic m, remote) \<Rightarrow> Some (Err (ExternalError m), local, remote)
      | (Ok _, remote) \<Rightarrow>
          (case OpenFile collect remote \<lparr>ofr_Path = from @ ''.zip''\<rparr> [] of
             None \<Rightarrow> None
           | Some (fin, chunks) \<Rightarrow>
               (case os_MkdirAll local to of
                  Err e \<Rightarrow> Some (Err (Wrapped ''can't create dir on mounted volume err'' e), local, remote)
                | Panic m \<Rightarrow> Some (Panic m, local, remote)
                | Ok local \<Rightarrow>
                    (let filePath = filepath_Join to (filepath_Base (from @ ''.zip''))
                     in case os_Create local filePath of
                          Err e \<Rightarrow> Some (Err (Wrapped ''can't not create file with results on mounted volume err'' e), local, remote)
                        | Panic m \<Rightarrow> Some (Panic m, local, remote)
                        | Ok (toFile, local) \<Rightarrow>
                            (case receive_loop local toFile chunks fin of
                               (Err e, local) \<Rightarrow> Some (Err e, local, remote)
                             | (Panic m, local) \<Rightarrow> Some (Panic m, local, remote)
                             | (Ok _, local) \<Rightarrow>
                                 (case results_unzip dec local filePath to of
                                    (Ok _, local) \<Rightarrow> Some (Ok (), local, remote)
                                  | (Err e, local) \<Rightarrow> Some (Err (Wrapped ''can't unzip local file err'' e), local, remote)
                                  | (Panic m, local) \<Rightarrow> Some (Panic m, local, remote)))))))"

definition results_main ::
  "(zip_entry list \<Rightarrow> string) \<Rightarrow> (string \<Rightarrow> zip_entry list go) \<Rightarrow> (string \<Rightarrow> go_error option) \<Rightarrow>
   results_flags \<Rightarrow> file_system \<Rightarrow> file_system \<Rightarrow> (unit go \<times> file_system \<times> file_system) option" where
  "results_main enc dec wfail flags local remote =
     (if rf_from flags = [] then Some (Panic ''from can't be empty'', local, remote)
      else if rf_to flags = [] then Some (Panic ''to can't be empty'', local, remote)
      else if rf_sock flags = [] then Some (Panic ''path to red-box socket can't be empty'', local, remote)
      else if rf_upload flags then upload enc dec wfail (rf_from flags) (rf_to flags) local remote
      else download enc dec (rf_from flags) (rf_to flags) local remote)"

section \<open>The way of a file\<close>

lemma abs_path_extend: "abs_path (cs @ [c]) @ s = abs_path (cs @ [c @ s])"
proof (cases "cs = []")
  case False
  then show ?thesis using abs_path_append [of cs "[c]"] abs_path_append [of cs "[c @ s]"] by simp
qed (simp add: abs_path_def)

lemma proper_zip: "proper c \<Longrightarrow> proper (c @ ''.zip'')"
  by (auto simp: proper_def)

lemma fetch_put_entry:
  "fetch n ds = Ok (Directory es) \<Longrightarrow> fetch (put (ds @ [c]) m n) ds = Ok (Directory (AList.update c m es))"
  by (induction n ds rule: fetch.induct) (auto split: option.splits)

lemma free_name_entry:
  "free_name n (ds @ [c]) \<longleftrightarrow> (\<exists>es. fetch n ds = Ok (Directory es) \<and> map_of es c = None)"
  by (simp add: free_name_def)

lemma free_name_put:
  assumes "free_name n (ds @ [c])" "c \<noteq> d"
  shows "free_name (put (ds @ [d]) m n) (ds @ [c])"
  using assms fetch_put_entry [of n ds _ d m] by (auto simp: free_name_entry)

lemma receive_loop_chunks:
  assumes "free_name (fs_root fs) cs"
  shows "receive_loop (fs\<lparr>fs_root := put cs (File b) (fs_root fs)\<rparr>) cs (map (\<lambda>c. \<lparr>ch_Content = c\<rparr>) xs) (Ok ()) =
    (Ok (), fs\<lparr>fs_root := put cs (File (b @ concat xs)) (fs_root fs)\<rparr>)"
proof (induction xs arbitrary: b)
  case (Cons x xs)
  have "os_Write (fs\<lparr>fs_root := put cs (File b) (fs_root fs)\<rparr>) cs x =
      fs\<lparr>fs_root := put cs (File (b @ x)) (fs_root fs)\<rparr>"
    using assms by (simp add: os_Write_def fetch_put_here put_again)
  with Cons show ?case by simp
qed simp

text \<open>The archive of a tree next to it, read back chunk by chunk.\<close>

lemma zip_beside:
  assumes "list_all proper (cs @ [c])" "wf_node n" "fetch (fs_root fs) (cs @ [c]) = Ok n"
    and "free_name (fs_root fs) (cs @ [c @ ''.zip''])"
  shows "zipFile enc fs (abs_path (cs @ [c])) (abs_path (cs @ [c @ ''.zip''])) =
    (Ok (), fs\<lparr>fs_root := put (cs @ [c @ ''.zip'']) (File (enc (tree_entries [c] n))) (fs_root fs)\<rparr>)"
  using assms proper_zip [of c] by (intro zipFile_tree) auto

lemma open_put:
  assumes "list_all proper cs" "free_name (fs_root fs) cs"
  shows "os_Open (fs\<lparr>fs_root := put cs m (fs_root fs)\<rparr>) (abs_path cs) = Ok m"
  using assms fetch_put_here [OF assms(2)] by (simp add: os_Open_fetch free_name_def)

text \<open>The archive written into a directory and unpacked there.\<close>

lemma unzip_beside:
  assumes "list_all proper (ds @ [c])" "ds \<noteq> []" "wf_node n" "dec b = Ok (tree_entries [c] n)"
    and "free_name (fs_root fs) (ds @ [c])" "free_name (fs_root fs) (ds @ [c @ ''.zip''])"
  shows "unzip dec (fs\<lparr>fs_root := put (ds @ [c @ ''.zip'']) (File b) (fs_root fs)\<rparr>)
      (abs_path (ds @ [c @ ''.zip''])) (abs_path ds) =
    (Ok (), fs\<lparr>fs_root := put (ds @ [c]) (sort_node n) (put (ds @ [c @ ''.zip'']) (File b) (fs_root fs))\<rparr>)"
proof -
  let ?fs = "fs\<lparr>fs_root := put (ds @ [c @ ''.zip'']) (File b) (fs_root fs)\<rparr>"
  have "fetch (fs_root ?fs) (ds @ [c @ ''.zip'']) = Ok (File b)" using fetch_put_here [OF assms(6)] by simp
  moreover have "free_name (fs_root ?fs) (ds @ [c])" using free_name_put [OF assms(5)] by simp
  moreover have "list_all proper (ds @ [c @ ''.zip''])" using assms(1) proper_zip by simp
  ultimately show ?thesis
    using unzip_archive [where us = "ds @ [c @ ''.zip'']" and fs = ?fs and dec = dec, OF _ assms(1,2) _ assms(3) _ assms(4)]
    by simp
qed

lemma mkdir_present:
  assumes "list_all proper (ds @ [c])" "free_name (fs_root fs) (ds @ [c])"
  shows "os_MkdirAll fs (abs_path ds) = Ok fs"
  using os_MkdirAll_free(2) [OF assms] by simp

lemma download_tree:
  assumes "zip_format enc dec" "wf_node n"
    and "list_all proper (cs @ [c])" "fetch (fs_root remote) (cs @ [c]) = Ok n"
    and "free_name (fs_root remote) (cs @ [c @ ''.zip''])"
    and "list_all proper ds" "ds \<noteq> []"
    and "free_name (fs_root local) (ds @ [c])" "free_name (fs_root local) (ds @ [c @ ''.zip''])"
  defines "b \<equiv> enc (tree_entries [c] n)"
  shows "download enc dec (abs_path (cs @ [c])) (abs_path ds) local remote =
    Some (Ok (),
      local\<lparr>fs_root := put (ds @ [c]) (sort_node n) (put (ds @ [c @ ''.zip'']) (File b) (fs_root local))\<rparr>,
      remote\<lparr>fs_root := put (cs @ [c @ ''.zip'']) (File b) (fs_root remote)\<rparr>)"
proof -
  let ?zip = "c @ ''.zip''"
  have c: "proper c" "proper ?zip" using assms(3) proper_zip by simp_all
  have paths: "list_all proper (cs @ [?zip])" "list_all proper (ds @ [c])" "list_all proper (ds @ [?zip])"
    using assms(3,6) c by simp_all
  have zip: "Zip_handler enc remote \<lparr>zr_Path = abs_path (cs @ [c]), zr_Target = abs_path (cs @ [?zip])\<rparr> =
      (Ok (), remote\<lparr>fs_root := put (cs @ [?zip]) (File b) (fs_root remote)\<rparr>)"
    using zip_beside [OF assms(3,2,4,5)] by (simp add: Zip_handler_def Client_Zip_def b_def)
  have recv: "OpenFile collect (remote\<lparr>fs_root := put (cs @ [?zip]) (File b) (fs_root remote)\<rparr>)
      \<lparr>ofr_Path = abs_path (cs @ [?zip])\<rparr> [] = Some (Ok (), map (\<lambda>c. \<lparr>ch_Content = c\<rparr>) (file_chunks b))"
    using open_put [OF paths(1) assms(5)] by (intro OpenFile_file) simp
  have base: "filepath_Join (abs_path ds) (filepath_Base (abs_path (cs @ [?zip]))) = abs_path (ds @ [?zip])"
    using Base_abs [OF paths(1)] Join_abs_child [OF assms(6) c(2)] by simp
  have "receive_loop (local\<lparr>fs_root := put (ds @ [?zip]) (File []) (fs_root local)\<rparr>) (ds @ [?zip])
      (map (\<lambda>c. \<lparr>ch_Content = c\<rparr>) (file_chunks b)) (Ok ()) =
      (Ok (), local\<lparr>fs_root := put (ds @ [?zip]) (File b) (fs_root local)\<rparr>)"
    using receive_loop_chunks [OF assms(9), of "[]" "file_chunks b"] by simp
  moreover have "dec b = Ok (tree_entries [c] n)"
    using assms(1) tree_entries_no_error by (simp add: zip_format_def b_def)
  ultimately show ?thesis
    using unzip_beside [OF paths(2) assms(7,2) _ assms(8,9)] os_Create_free [OF paths(3) assms(9)]
      mkdir_present [OF paths(2) assms(8)] zip recv base
    by (simp add: download_def abs_path_extend results_unzip_def)
qed

lemma upload_tree:
  assumes "zip_format enc dec" "wf_node n"
    and "list_all proper (cs @ [c])" "fetch (fs_root local) (cs @ [c]) = Ok n"
    and "free_name (fs_root local) (cs @ [c @ ''.zip''])"
    and "list_all proper ds" "ds \<noteq> []"
    and "free_name (fs_root remote) (ds @ [c])" "free_name (fs_root remote) (ds @ [c @ ''.zip''])"
  defines "b \<equiv> enc (tree_entries [c] n)"
  shows "upload enc dec (\<lambda>_. None) (abs_path (cs @ [c])) (abs_path ds) local remote =
    Some (Ok (),
      local\<lparr>fs_root := put (cs @ [c @ ''.zip'']) (File b) (fs_root local)\<rparr>,
      remote\<lparr>fs_root := put (ds @ [c]) (sort_node n) (put (ds @ [c @ ''.zip'']) (File b) (fs_root remote))\<rparr>)"
proof -
  let ?zip = "c @ ''.zip''"
  have c: "proper c" "proper ?zip" using assms(3) proper_zip by simp_all
  have paths: "list_all proper (cs @ [?zip])" "list_all proper (ds @ [c])" "list_all proper (ds @ [?zip])"
    using assms(3,6) c by simp_all
  have zip: "results_zipFile enc local (abs_path (cs @ [c])) (abs_path (cs @ [?zip])) =
      (Ok (), local\<lparr>fs_root := put (cs @ [?zip]) (File b) (fs_root local)\<rparr>)"
    using zip_beside [OF assms(3,2,4,5)] by (simp add: results_zipFile_def b_def)
  have sent: "send_loop (File b) = Some (Ok (), map (\<lambda>c. \<lparr>ch_Content = c\<rparr>) (file_chunks b))"
    using open_loop_file [of b "length b" "[]"] by (simp add: send_loop_def file_chunks_def)
  have target: "filepath_Join (abs_path ds) (filepath_Base (abs_path (cs @ [c])) @ ''.zip'') = abs_path (ds @ [?zip])"
    using Base_abs [OF assms(3)] Join_abs_child [OF assms(6) c(2)] by simp
  have create: "CreateFile (\<lambda>_. None) remote
      (\<lparr>cfr_Path = abs_path (ds @ [?zip]), cfr_Content = None\<rparr> #
       map (\<lambda>c. \<lparr>cfr_Path = [], cfr_Content = Some (ch_Content c)\<rparr>) (map (\<lambda>c. \<lparr>ch_Content = c\<rparr>) (file_chunks b))) EOF =
      (Ok (), remote\<lparr>fs_root := put (ds @ [?zip]) (File b) (fs_root remote)\<rparr>)"
    using CreateFile_upload [OF paths(3) assms(9), of b] by (simp add: upload_requests_def comp_def)
  have "dec b = Ok (tree_entries [c] n)"
    using assms(1) tree_entries_no_error by (simp add: zip_format_def b_def)
  then have "Unzip_handler dec (remote\<lparr>fs_root := put (ds @ [?zip]) (File b) (fs_root remote)\<rparr>)
      \<lparr>uzr_Source = abs_path (ds @ [?zip]), uzr_Path = abs_path ds\<rparr> =
      (Ok (), remote\<lparr>fs_root := put (ds @ [c]) (sort_node n) (put (ds @ [?zip]) (File b) (fs_root remote))\<rparr>)"
    using unzip_beside [OF paths(2) assms(7,2) _ assms(8,9)] by (simp add: Unzip_handler_def Client_Unzip_def)
  then show ?thesis
    using zip sent target create open_put [OF paths(1) assms(5), of "File b"]
    unfolding upload_def abs_path_extend by (simp del: map_map list.map)
qed

lemma upload_slash:
  assumes "zip_format enc dec" "list_all proper cs" "cs \<noteq> []"
    and "fetch (fs_root local) cs = Ok (Directory es)" "map_of es ''.zip'' = None"
    and "list_all proper ds" "free_name (fs_root remote) (ds @ [last cs @ ''.zip''])"
  shows "\<exists>e local' remote'. upload enc dec (\<lambda>_. None) (abs_path cs @ ''/'') (abs_path ds) local remote =
      Some (Err e, local', remote') \<and>
    fs_root remote' \<in> {fs_root remote} \<union> {put (ds @ [last cs @ ''.zip'']) (File b) (fs_root remote) | b. True}"
proof -
  let ?zip = "last cs @ ''.zip''"
  obtain r b local' where zip: "zipFile enc local (abs_path cs @ ''/'') (abs_path cs @ ''/.zip'') = (r, local')"
    and b: "fetch (fs_root local') (cs @ [''.zip'']) = Ok (File b)"
    and rejected: "\<And>fs' us ds. list_all proper us \<Longrightarrow> us \<noteq> [] \<Longrightarrow> list_all proper ds \<Longrightarrow>
      fetch (fs_root fs') us = Ok (File b) \<Longrightarrow> \<exists>e. unzip dec fs' (abs_path us) (abs_path ds) = (Err e, fs')"
    using trailing_slash_archive_rejected [OF assms(1-5)] by auto
  have last: "proper (last cs)" using assms(2,3) by (auto simp: list_all_iff)
  have us: "list_all proper (ds @ [?zip])" using assms(6) proper_zip [OF last] by simp
  have base: "filepath_Base (abs_path cs @ ''/'') = last cs"
    using Base_abs [OF assms(2,3)] by (simp add: filepath_Base_def)
  have opened: "os_Open local' (abs_path cs @ ''/.zip'') = Ok (File b)"
    using os_Open_fetch [of "cs @ [''.zip'']" local'] b assms(2,3) abs_path_append [of cs "[''.zip'']"]
    by (simp add: proper_def)
  let ?remote = "remote\<lparr>fs_root := put (ds @ [?zip]) (File b) (fs_root remote)\<rparr>"
  have "fetch (fs_root ?remote) (ds @ [?zip]) = Ok (File b)" using fetch_put_here [OF assms(7)] by simp
  from rejected [OF us _ assms(6) this] obtain e where
    e: "unzip dec ?remote (abs_path (ds @ [?zip])) (abs_path ds) = (Err e, ?remote)" by auto
  have create: "CreateFile (\<lambda>_. None) remote
      (\<lparr>cfr_Path = abs_path (ds @ [?zip]), cfr_Content = None\<rparr> #
       map (\<lambda>c. \<lparr>cfr_Path = [], cfr_Content = Some (ch_Content c)\<rparr>) (map (\<lambda>c. \<lparr>ch_Content = c\<rparr>) (file_chunks b))) EOF =
      (Ok (), ?remote)"
    using CreateFile_upload [OF us assms(7), of b] by (simp add: upload_requests_def comp_def)
  have sent: "send_loop (File b) = Some (Ok (), map (\<lambda>c. \<lparr>ch_Content = c\<rparr>) (file_chunks b))"
    using open_loop_file [of b "length b" "[]"] by (simp add: send_loop_def file_chunks_def)
  have target: "filepath_Join (abs_path ds) ?zip = abs_path (ds @ [?zip])"
    using Join_abs_child [OF assms(6) proper_zip [OF last]] .
  show ?thesis
  proof (cases r)
    case (Ok u)
    then show ?thesis
      using zip opened sent create e target base
      by (simp add: upload_def results_zipFile_def Unzip_handler_def Client_Unzip_def del: map_map list.map) blast
  next
    case (Err e)
    then show ?thesis using zip by (simp add: upload_def results_zipFile_def)
  next
    case (Panic m)
    then show ?thesis using zip zipFile_no_panic [of enc local "abs_path cs @ ''/''" "abs_path cs @ ''/.zip''" m] by simp
  qed
qed

section \<open>Properties\<close>

text \<open>
  C28. Collecting results works end to end: the program started to download returns without
  an error, and the file or directory on the remote machine is, with its whole tree, in the
  destination directory; of the rest of the local files only the archive next to it is new.
\<close>

theorem download_end_to_end:
  assumes "zip_format enc dec" "wf_node n"
    and "list_all proper (cs @ [c])" "fetch (fs_root remote) (cs @ [c]) = Ok n"
    and "free_name (fs_root remote) (cs @ [c @ ''.zip''])"
    and "list_all proper ds" "ds \<noteq> []"
    and "free_name (fs_root local) (ds @ [c])" "free_name (fs_root local) (ds @ [c @ ''.zip''])"
    and "sock \<noteq> []"
  shows "\<exists>local' remote'.
    results_main enc dec wfail
      \<lparr>rf_from = abs_path (cs @ [c]), rf_to = abs_path ds, rf_upload = False, rf_sock = sock\<rparr> local remote =
      Some (Ok (), local', remote') \<and>
    fetch (fs_root local') (ds @ [c]) = Ok (sort_node n) \<and>
    fetch (fs_root remote') (cs @ [c]) = Ok n \<and>
    (\<forall>p b. (\<nexists>es. p = ds @ c # es) \<and> (\<nexists>es. p = ds @ (c @ ''.zip'') # es) \<longrightarrow>
      (fetch (fs_root local') p = Ok (File b) \<longleftrightarrow> fetch (fs_root local) p = Ok (File b)))"
proof -
  let ?b = "enc (tree_entries [c] n)"
  have "free_name (put (ds @ [c @ ''.zip'']) (File ?b) (fs_root local)) (ds @ [c])"
    using free_name_put [OF assms(8)] by simp
  then have "fetch (put (ds @ [c]) (sort_node n) (put (ds @ [c @ ''.zip'']) (File ?b) (fs_root local))) (ds @ [c]) =
      Ok (sort_node n)" by (rule fetch_put_here)
  moreover have "fetch (put (cs @ [c @ ''.zip'']) (File ?b) (fs_root remote)) (cs @ [c]) = Ok n"
    using fetch_put_apart [of "cs @ [c]" "cs @ [c @ ''.zip'']"] assms(4) by simp
  ultimately show ?thesis
    using download_tree [OF assms(1-9)] assms(10) by (simp add: results_main_def put_files)
qed

text \<open>
  C29. Preparing data works end to end: the program started to upload returns without an
  error and the file or directory is, with its whole tree, in the destination directory of the
  remote machine.
\<close>

theorem upload_end_to_end:
  assumes "zip_format enc dec" "wf_node n"
    and "list_all proper (cs @ [c])" "fetch (fs_root local) (cs @ [c]) = Ok n"
    and "free_name (fs_root local) (cs @ [c @ ''.zip''])"
    and "list_all proper ds" "ds \<noteq> []"
    and "free_name (fs_root remote) (ds @ [c])" "free_name (fs_root remote) (ds @ [c @ ''.zip''])"
    and "sock \<noteq> []"
  shows "\<exists>local' remote'.
    results_main enc dec (\<lambda>_. None)
      \<lparr>rf_from = abs_path (cs @ [c]), rf_to = abs_path ds, rf_upload = True, rf_sock = sock\<rparr> local remote =
      Some (Ok (), local', remote') \<and>
    fetch (fs_root remote') (ds @ [c]) = Ok (sort_node n)"
proof -
  have "free_name (put (ds @ [c @ ''.zip'']) (File b) (fs_root remote)) (ds @ [c])" for b
    using free_name_put [OF assms(8)] by simp
  then have "fetch (put (ds @ [c]) (sort_node n) (put (ds @ [c @ ''.zip'']) (File b) (fs_root remote))) (ds @ [c]) =
      Ok (sort_node n)" for b by (rule fetch_put_here)
  then show ?thesis
    using upload_tree [OF assms(1-9)] assms(10) by (simp add: results_main_def)
qed

text \<open>
  A directory given with a trailing slash cannot be uploaded: the archive is sent and
  written on the remote machine, where unpacking it is refused, so the program ends with an
  error and nothing but the archive has arrived.
\<close>

theorem upload_trailing_slash_fails:
  assumes "zip_format enc dec" "list_all proper cs" "cs \<noteq> []"
    and "fetch (fs_root local) cs = Ok (Directory es)" "map_of es ''.zip'' = None"
    and "list_all proper ds" "free_name (fs_root remote) (ds @ [last cs @ ''.zip''])" "sock \<noteq> []"
  shows "\<exists>e local' remote'.
    results_main enc dec (\<lambda>_. None)
      \<lparr>rf_from = abs_path cs @ ''/'', rf_to = abs_path ds, rf_upload = True, rf_sock = sock\<rparr> local remote =
      Some (Err e, local', remote') \<and>
    fs_root remote' \<in> {fs_root remote} \<union> {put (ds @ [last cs @ ''.zip'']) (File b) (fs_root remote) | b. True}"
  using upload_slash [OF assms(1-7)] assms(8) by (simp add: results_main_def)

theorem download_end_to_end_witness:
  "\<exists>local' remote'.
    results_main plain_enc plain_dec (\<lambda>_. None)
      \<lparr>rf_from = abs_path [''out'', ''data''], rf_to = abs_path [''mnt''], rf_upload = False, rf_sock = ''red-box.sock''\<rparr>
      example_mount example_files = Some (Ok (), local', remote') \<and>
    fetch (fs_root local') [''mnt'', ''data'', ''x''] = Ok (File ''1'')"
proof -
  have "wf_node (Directory [(''x'', File ''1'')])" by simp
  moreover have "fetch (fs_root example_files) ([''out''] @ [''data'']) = Ok (Directory [(''x'', File ''1'')])"
    "free_name (fs_root example_files) ([''out''] @ [''data'' @ ''.zip''])"
    "free_name (fs_root example_mount) ([''mnt''] @ [''data''])"
    "free_name (fs_root example_mount) ([''mnt''] @ [''data'' @ ''.zip''])"
    by (simp_all add: example_files_def example_mount_def free_name_def)
  ultimately obtain local' remote' where
    main: "results_main plain_enc plain_dec (\<lambda>_. None)
      \<lparr>rf_from = abs_path ([''out''] @ [''data'']), rf_to = abs_path [''mnt''], rf_upload = False,
       rf_sock = ''red-box.sock''\<rparr> example_mount example_files = Some (Ok (), local', remote')"
    and f: "fetch (fs_root local') ([''mnt''] @ [''data'']) = Ok (sort_node (Directory [(''x'', File ''1'')]))"
    using download_end_to_end [OF plain_format, of _ "[''out'']" "''data''" example_files "[''mnt'']"
      example_mount "''red-box.sock''" "\<lambda>_. None"] by fastforce
  have "fetch (fs_root local') ([''mnt'', ''data''] @ [''x'']) = Ok (File ''1'')"
    using fetch_append [of "fs_root local'" "[''mnt'', ''data'']" _ "[''x'']"] f by simp
  with main show ?thesis by auto
qed

theorem upload_end_to_end_witness:
  "\<exists>local' remote'.
    results_main plain_enc plain_dec (\<lambda>_. None)
      \<lparr>rf_from = abs_path ([''out''] @ [''log'']), rf_to = abs_path [''mnt''], rf_upload = True, rf_sock = ''red-box.sock''\<rparr>
      example_files example_mount = Some (Ok (), local', remote') \<and>
    fetch (fs_root remote') ([''mnt''] @ [''log'']) = Ok (sort_node (File ''done''))"
  by (rule upload_end_to_end [OF plain_format])
    (simp_all add: example_files_def example_mount_def free_name_def)

theorem upload_trailing_slash_fails_witness:
  "\<exists>e local' remote'.
    results_main plain_enc plain_dec (\<lambda>_. None)
      \<lparr>rf_from = abs_path [''out''] @ ''/'', rf_to = abs_path [''mnt''], rf_upload = True, rf_sock = ''red-box.sock''\<rparr>
      example_files example_mount = Some (Err e, local', remote')"
proof -
  have "fetch (fs_root example_files) [''out''] =
      Ok (Directory [(''log'', File ''done''), (''data'', Directory [(''x'', File ''1'')])])"
    "free_name (fs_root example_mount) ([''mnt''] @ [last [''out''] @ ''.zip''])"
    by (simp_all add: example_files_def example_mount_def free_name_def)
  then show ?thesis
    using upload_trailing_slash_fails [OF plain_format, of "[''out'']" example_files _ "[''mnt'']" example_mount
      "''red-box.sock''"] by fastforce
qed

end
