(* ===== verification/Tail_Reader.thy ===== *)
theory Tail_Reader
  imports File_Service
begin

text \<open>
  Tailing a file: the reader of \<open>pkg/tail/reader.go\<close>, fed by the goroutine \<open>readTail\<close>, and
  the handler \<open>TailFile\<close> of red-box, which reads it at every tick. The two goroutines and the
  library \<open>hpcloud/tail\<close> that delivers the lines of the file are a step relation; a step is what
  happens between two points where another goroutine can be scheduled. In particular
  \<open>Reader.Read\<close> is two steps: it takes bytes under the lock and looks at \<open>isClosed\<close> after
  releasing it.
\<close>

section \<open>State\<close>

text \<open>What the library delivers: a line without its newline, or an error.\<close>

datatype tail_line = Line string | Line_Err

fun line_text :: "tail_line \<Rightarrow> string" where
  "line_text (Line l) = l @ [newline]"
| "line_text Line_Err = []"

definition ErrUnexpectedEOF :: go_error where "ErrUnexpectedEOF = ErrorString ''unexpected EOF''"
definition context_canceled :: go_error where "context_canceled = ErrorString ''context canceled''"

text \<open>
  The state of the library (lines read from the file and not yet received, whether it has
  closed the channel), of \<open>readTail\<close> (the line received and not yet written), of the reader,
  and of the handler: a \<open>Read\<close> between its two steps, the request that has arrived, the chunks
  sent and the error returned. \<open>tl_log\<close> is the text of the complete lines of the file so far.
\<close>

record tail_state =
  tl_lines :: "tail_line list"
  tl_chan_closed :: bool
  tl_pending :: "string option"
  tl_buff :: string
  tl_isClosed :: bool
  tl_reading :: "(string \<times> go_error option) option"
  tl_request :: "int32 option"
  tl_asked :: bool
  tl_sent :: "string list"
  tl_result :: "go_error option"
  tl_log :: string

text \<open>\<open>NewReader\<close>, with the handler about to enter its loop.\<close>

definition NewReader :: tail_state where
  "NewReader =
     \<lparr>tl_lines = [], tl_chan_closed = False, tl_pending = None, tl_buff = [], tl_isClosed = False,
      tl_reading = None, tl_request = None, tl_asked = False, tl_sent = [], tl_result = None, tl_log = []\<rparr>"

text \<open>
  How a tail starts: the library is asked to tail the path (\<open>lib\<close> is its answer), and the
  handler has received a first request.
\<close>

definition Client_Tail :: "(string \<Rightarrow> unit go) \<Rightarrow> string \<Rightarrow> tail_state go" where
  "Client_Tail lib path = go_bind (go_wrap ''could not create tail reader'' (lib path)) (\<lambda>_. Ok NewReader)"

definition TailFile :: "(string \<Rightarrow> unit go) \<Rightarrow> tail_file_request go \<Rightarrow> tail_state go" where
  "TailFile lib recv =
     go_bind (go_wrap ''could not receive request'' recv) (\<lambda>r.
       go_wrap (''could not tail file at '' @ tfr_Path r) (Client_Tail lib (tfr_Path r)))"

section \<open>Reading\<close>

text \<open>\<open>io.ReadFull(tr.buff, p)\<close>: the bytes read and the error, and what is left.\<close>

definition io_ReadFull :: "string \<Rightarrow> nat \<Rightarrow> (string \<times> go_error option) \<times> string" where
  "io_ReadFull buff n =
     ((take n buff,
       if n \<le> length buff then None else if buff = [] then Some EOF else Some ErrUnexpectedEOF),
      drop n buff)"

text \<open>The two steps of \<open>Reader.Read\<close>.\<close>

definition Read_locked :: "tail_state \<Rightarrow> tail_state" where
  "Read_locked st =
     (case io_ReadFull (tl_buff st) 128 of (r, rest) \<Rightarrow> st\<lparr>tl_reading := Some r, tl_buff := rest\<rparr>)"

definition Read_error :: "bool \<Rightarrow> go_error option \<Rightarrow> go_error option" where
  "Read_error isClosed err =
     (if (err = Some EOF \<or> err = Some ErrUnexpectedEOF) \<and> \<not> isClosed then None else err)"

text \<open>What \<open>TailFile\<close> does with what \<open>Read\<close> returns; \<open>sent\<close> is the error of \<open>req.Send\<close>.\<close>

definition tick_read :: "go_error option \<Rightarrow> string \<Rightarrow> go_error option \<Rightarrow> tail_state \<Rightarrow> tail_state" where
  "tick_read sent p err st =
     (if err \<noteq> None \<and> length p = 0 then st\<lparr>tl_result := err\<rparr>
      else if length p = 0 then st
      else
        (case sent of
           Some e \<Rightarrow> st\<lparr>tl_result := Some (Wrapped ''could not send chunk'' e)\<rparr>
         | None \<Rightarrow> st\<lparr>tl_sent := tl_sent st @ [p]\<rparr>))"

section \<open>Steps\<close>

text \<open>
  \<open>atomic\<close> is a variant of the program whose \<open>Read\<close> is one step, for comparison; \<open>errors\<close> lets
  the library deliver errors. The handler receives one request at most besides the first, and
  \<open>StopAtEOF\<close>, which it calls, returns when the library has delivered every line.
\<close>

inductive tail_step :: "bool \<Rightarrow> bool \<Rightarrow> tail_state \<Rightarrow> tail_state \<Rightarrow> bool" for atomic errors where
  appended: "\<not> tl_chan_closed st \<Longrightarrow>
    tail_step atomic errors st (st\<lparr>tl_lines := tl_lines st @ [Line l], tl_log := tl_log st @ l @ [newline]\<rparr>)"
| failed: "errors \<Longrightarrow> \<not> tl_chan_closed st \<Longrightarrow>
    tail_step atomic errors st (st\<lparr>tl_lines := tl_lines st @ [Line_Err]\<rparr>)"
| received: "\<not> tl_isClosed st \<Longrightarrow> tl_pending st = None \<Longrightarrow> tl_lines st = Line l # ls \<Longrightarrow>
    tail_step atomic errors st (st\<lparr>tl_lines := ls, tl_pending := Some (l @ [newline])\<rparr>)"
| received_error: "\<not> tl_isClosed st \<Longrightarrow> tl_pending st = None \<Longrightarrow> tl_lines st = Line_Err # ls \<Longrightarrow>
    atomic \<longrightarrow> tl_reading st = None \<Longrightarrow>
    tail_step atomic errors st (st\<lparr>tl_lines := ls, tl_isClosed := True\<rparr>)"
| received_closed: "\<not> tl_isClosed st \<Longrightarrow> tl_pending st = None \<Longrightarrow> tl_lines st = [] \<Longrightarrow> tl_chan_closed st \<Longrightarrow>
    atomic \<longrightarrow> tl_reading st = None \<Longrightarrow>
    tail_step atomic errors st (st\<lparr>tl_isClosed := True\<rparr>)"
| written: "tl_pending st = Some s \<Longrightarrow> atomic \<longrightarrow> tl_reading st = None \<Longrightarrow>
    tail_step atomic errors st (st\<lparr>tl_buff := tl_buff st @ s, tl_pending := None\<rparr>)"
| requested: "\<not> tl_asked st \<Longrightarrow>
    tail_step atomic errors st (st\<lparr>tl_request := Some action, tl_asked := True\<rparr>)"
| stop_at_eof: "tl_result st = None \<Longrightarrow> tl_reading st = None \<Longrightarrow>
    tl_request st = Some TailAction_ReadToEndAndClose \<Longrightarrow> tl_lines st = [] \<Longrightarrow>
    tail_step atomic errors st (st\<lparr>tl_request := None, tl_chan_closed := True\<rparr>)"
| ignored: "tl_result st = None \<Longrightarrow> tl_reading st = None \<Longrightarrow>
    tl_request st = Some action \<Longrightarrow> action \<noteq> TailAction_ReadToEndAndClose \<Longrightarrow>
    tail_step atomic errors st (st\<lparr>tl_request := None\<rparr>)"
| cancelled: "tl_result st = None \<Longrightarrow> tl_reading st = None \<Longrightarrow>
    tail_step atomic errors st (st\<lparr>tl_result := Some context_canceled\<rparr>)"
| ticked: "tl_result st = None \<Longrightarrow> tl_reading st = None \<Longrightarrow> tail_step atomic errors st (Read_locked st)"
| returned: "tl_result st = None \<Longrightarrow> tl_reading st = Some (p, err) \<Longrightarrow>
    tail_step atomic errors st
      (tick_read sent p (Read_error (tl_isClosed st) err) (st\<lparr>tl_reading := None\<rparr>))"

inductive tail_reachable :: "bool \<Rightarrow> bool \<Rightarrow> tail_state \<Rightarrow> bool" for atomic errors where
  start: "tail_reachable atomic errors NewReader"
| step: "tail_reachable atomic errors st \<Longrightarrow> tail_step atomic errors st st' \<Longrightarrow> tail_reachable atomic errors st'"

inductive_cases tail_stepE: "tail_step atomic errors st st'"

section \<open>Invariants\<close>

definition reading_text :: "tail_state \<Rightarrow> string" where
  "reading_text st = (case tl_reading st of None \<Rightarrow> [] | Some (p, err) \<Rightarrow> p)"

definition pending_text :: "tail_state \<Rightarrow> string" where
  "pending_text st = (case tl_pending st of None \<Rightarrow> [] | Some s \<Rightarrow> s)"

text \<open>What is on its way to the client, in order.\<close>

definition in_flight :: "tail_state \<Rightarrow> string" where
  "in_flight st = reading_text st @ tl_buff st @ pending_text st @ concat (map line_text (tl_lines st))"

definition tail_inv :: "tail_state \<Rightarrow> bool" where
  "tail_inv st \<longleftrightarrow>
     (\<exists>rest. tl_log st = concat (tl_sent st) @ rest \<and> (tl_result st = None \<longrightarrow> rest = in_flight st)) \<and>
     (\<forall>c \<in> set (tl_sent st). c \<noteq> [] \<and> length c \<le> 128) \<and>
     (\<forall>p err. tl_reading st = Some (p, err) \<longrightarrow> length p \<le> 128)"

lemmas tail_defs = reading_text_def pending_text_def in_flight_def tail_inv_def Read_locked_def
  io_ReadFull_def tick_read_def Read_error_def

lemma tail_inv_start: "tail_inv NewReader"
  by (simp add: tail_defs NewReader_def)

lemma tail_inv_step: "tail_step atomic errors st st' \<Longrightarrow> tail_inv st \<Longrightarrow> tail_inv st'"
proof (induction rule: tail_step.induct)
  case (returned st p err sent)
  then show ?case by (auto simp: tail_defs split: option.splits)
qed (auto simp: tail_defs split: option.splits if_splits)

lemma tail_reachable_inv: "tail_reachable atomic errors st \<Longrightarrow> tail_inv st"
  by (induction rule: tail_reachable.induct) (auto intro: tail_inv_start tail_inv_step)

text \<open>
  With an atomic \<open>Read\<close> and no errors from the library: what the handler knows when it returns
  \<open>EOF\<close>.
\<close>

definition atomic_inv :: "tail_state \<Rightarrow> bool" where
  "atomic_inv st \<longleftrightarrow>
     Line_Err \<notin> set (tl_lines st) \<and>
     (tl_isClosed st \<longrightarrow> tl_chan_closed st) \<and>
     (tl_chan_closed st \<longrightarrow> tl_lines st = []) \<and>
     (tl_isClosed st \<longrightarrow> tl_pending st = None) \<and>
     (\<forall>p. tl_reading st = Some (p, Some EOF) \<longrightarrow> p = [] \<and> tl_buff st = []) \<and>
     (tl_result st = Some EOF \<longrightarrow> tl_isClosed st \<and> concat (tl_sent st) = tl_log st)"

lemma sentinels: "ErrUnexpectedEOF \<noteq> EOF" "context_canceled \<noteq> EOF"
  by (simp_all add: ErrUnexpectedEOF_def context_canceled_def)

lemma atomic_inv_start: "atomic_inv NewReader"
  by (simp add: atomic_inv_def NewReader_def)

lemma atomic_inv_step:
  "tail_step True False st st' \<Longrightarrow> tail_inv st \<Longrightarrow> atomic_inv st \<Longrightarrow> atomic_inv st'"
proof (induction rule: tail_step.induct)
  case (returned st p err sent)
  have logged: "tl_log st = concat (tl_sent st) @ in_flight st"
    using returned.prems(1) returned.hyps(1) by (auto simp: tail_inv_def)
  show ?case
  proof (cases "tl_isClosed st \<and> err = Some EOF")
    case True
    then have "p = []" "in_flight st = []"
      using returned.prems(2) returned.hyps by (auto simp: atomic_inv_def in_flight_def reading_text_def pending_text_def)
    with True logged returned.prems(2) show ?thesis
      by (simp add: atomic_inv_def tick_read_def Read_error_def)
  next
    case False
    then have "Read_error (tl_isClosed st) err \<noteq> Some EOF" by (auto simp: Read_error_def)
    with returned.prems(2) returned.hyps show ?thesis
      by (auto simp: atomic_inv_def tick_read_def split: option.splits)
  qed
next
  case (ticked st)
  then show ?case by (auto simp: atomic_inv_def Read_locked_def io_ReadFull_def sentinels split: if_splits)
qed (auto simp: atomic_inv_def sentinels)

lemma atomic_reachable_inv: "tail_reachable True False st \<Longrightarrow> atomic_inv st"
  by (induction rule: tail_reachable.induct)
    (auto intro: atomic_inv_start atomic_inv_step tail_reachable_inv)

text \<open>The way of one line when nothing is lost, as a run of either variant.\<close>

lemma one_line_run:
  assumes "length l < 127"
  shows "\<exists>st. tail_reachable atomic False st \<and> tl_result st = Some EOF \<and> tl_sent st = [l @ [newline]] \<and>
    tl_log st = l @ [newline]"
proof -
  let ?s1 = "NewReader\<lparr>tl_lines := [Line l], tl_log := l @ [newline]\<rparr>"
  let ?s2 = "?s1\<lparr>tl_lines := [], tl_pending := Some (l @ [newline])\<rparr>"
  let ?s3 = "?s2\<lparr>tl_buff := l @ [newline], tl_pending := None\<rparr>"
  let ?s4 = "?s3\<lparr>tl_reading := Some (l @ [newline], Some ErrUnexpectedEOF), tl_buff := []\<rparr>"
  let ?s5 = "?s4\<lparr>tl_reading := None, tl_sent := [l @ [newline]]\<rparr>"
  let ?s6 = "?s5\<lparr>tl_request := Some TailAction_ReadToEndAndClose, tl_asked := True\<rparr>"
  let ?s7 = "?s6\<lparr>tl_request := None, tl_chan_closed := True\<rparr>"
  let ?s8 = "?s7\<lparr>tl_isClosed := True\<rparr>"
  let ?s9 = "?s8\<lparr>tl_reading := Some ([], Some EOF)\<rparr>"
  let ?s10 = "?s9\<lparr>tl_reading := None, tl_result := Some EOF\<rparr>"
  note step = tail_reachable.step [of atomic False]
  have "tail_reachable atomic False ?s1"
    using step [OF tail_reachable.start tail_step.appended [of NewReader]] by (simp add: NewReader_def)
  from step [OF this tail_step.received] have "tail_reachable atomic False ?s2" by (simp add: NewReader_def)
  from step [OF this tail_step.written] have "tail_reachable atomic False ?s3" by (simp add: NewReader_def)
  from step [OF this tail_step.ticked] assms have "tail_reachable atomic False ?s4"
    by (simp add: NewReader_def Read_locked_def io_ReadFull_def)
  from step [OF this tail_step.returned [of _ "l @ [newline]" "Some ErrUnexpectedEOF" _ _ None]]
  have "tail_reachable atomic False ?s5" by (simp add: NewReader_def tick_read_def Read_error_def)
  from step [OF this tail_step.requested] have "tail_reachable atomic False ?s6" by (simp add: NewReader_def)
  from step [OF this tail_step.stop_at_eof] have "tail_reachable atomic False ?s7" by (simp add: NewReader_def)
  from step [OF this tail_step.received_closed] have "tail_reachable atomic False ?s8" by (simp add: NewReader_def)
  from step [OF this tail_step.ticked] have "tail_reachable atomic False ?s9"
    by (simp add: NewReader_def Read_locked_def io_ReadFull_def)
  from step [OF this tail_step.returned [of _ "[]" "Some EOF" _ _ None]] have "tail_reachable atomic False ?s10"
    by (simp add: NewReader_def tick_read_def Read_error_def)
  then show ?thesis by (intro exI [of _ ?s10]) (simp add: NewReader_def)
qed

section \<open>Properties\<close>

text \<open>
  C33. Whatever the schedule, the chunks \<open>TailFile\<close> has sent hold at most 128 bytes each, none
  is empty, and together they are a prefix of the text of the file: nothing is repeated,
  reordered or invented.
\<close>

theorem TailFile_sends_prefix:
  assumes "tail_reachable False errors st"
  shows "(\<exists>rest. tl_log st = concat (tl_sent st) @ rest) \<and> (\<forall>c \<in> set (tl_sent st). c \<noteq> [] \<and> length c \<le> 128)"
  using tail_reachable_inv [OF assms] by (auto simp: tail_inv_def)

text \<open>
  When \<open>Read\<close> is one step, a handler that ends with \<open>EOF\<close> has sent the whole file.
\<close>

theorem atomic_read_sends_all:
  assumes "tail_reachable True False st" and "tl_result st = Some EOF"
  shows "concat (tl_sent st) = tl_log st"
  using atomic_reachable_inv [OF assms(1)] assms(2) by (simp add: atomic_inv_def)

text \<open>
  C34. The program's \<open>Read\<close> is two steps, and the last line of a file can be lost: the reader
  finds the buffer empty, \<open>readTail\<close> writes the line and ends, and the reader, which now sees
  the tail closed, returns \<open>EOF\<close>. The handler ends with \<open>EOF\<close> and the line is never sent.
\<close>

theorem TailFile_loses_last_line:
  "\<exists>st. tail_reachable False False st \<and> tl_result st = Some EOF \<and> tl_sent st = [] \<and> tl_log st = l @ [newline]"
proof -
  let ?s1 = "NewReader\<lparr>tl_lines := [Line l], tl_log := l @ [newline]\<rparr>"
  let ?s2 = "?s1\<lparr>tl_lines := [], tl_pending := Some (l @ [newline])\<rparr>"
  let ?s3 = "?s2\<lparr>tl_request := Some TailAction_ReadToEndAndClose, tl_asked := True\<rparr>"
  let ?s4 = "?s3\<lparr>tl_request := None, tl_chan_closed := True\<rparr>"
  let ?s5 = "?s4\<lparr>tl_reading := Some ([], Some EOF), tl_buff := []\<rparr>"
  let ?s6 = "?s5\<lparr>tl_buff := l @ [newline], tl_pending := None\<rparr>"
  let ?s7 = "?s6\<lparr>tl_isClosed := True\<rparr>"
  let ?s8 = "?s7\<lparr>tl_reading := None, tl_result := Some EOF\<rparr>"
  note step = tail_reachable.step [of False False]
  have "tail_reachable False False ?s1"
    using step [OF tail_reachable.start tail_step.appended [of NewReader]] by (simp add: NewReader_def)
  from step [OF this tail_step.received] have "tail_reachable False False ?s2" by (simp add: NewReader_def)
  from step [OF this tail_step.requested] have "tail_reachable False False ?s3" by (simp add: NewReader_def)
  from step [OF this tail_step.stop_at_eof] have "tail_reachable False False ?s4" by (simp add: NewReader_def)
  from step [OF this tail_step.ticked] have "tail_reachable False False ?s5"
    by (simp add: NewReader_def Read_locked_def io_ReadFull_def)
  from step [OF this tail_step.written] have "tail_reachable False False ?s6" by (simp add: NewReader_def)
  from step [OF this tail_step.received_closed] have "tail_reachable False False ?s7" by (simp add: NewReader_def)
  from step [OF this tail_step.returned [of _ "[]" "Some EOF" _ _ None]] have "tail_reachable False False ?s8"
    by (simp add: NewReader_def tick_read_def Read_error_def)
  then show ?thesis by (intro exI [of _ ?s8]) (simp add: NewReader_def)
qed

theorem TailFile_sends_prefix_witness:
  "\<exists>st rest. tail_reachable False False st \<and> tl_log st = ''done'' @ [newline] \<and>
    tl_log st = concat (tl_sent st) @ rest \<and> tl_sent st \<noteq> []"
proof -
  obtain st where st: "tail_reachable False False st" "tl_log st = ''done'' @ [newline]" "tl_sent st \<noteq> []"
    using one_line_run [of "''done''" False] by auto
  with TailFile_sends_prefix [OF st(1)] show ?thesis by blast
qed

theorem atomic_read_sends_all_witness:
  "\<exists>st. tail_reachable True False st \<and> tl_result st = Some EOF \<and> tl_log st = ''done'' @ [newline] \<and>
    concat (tl_sent st) = tl_log st"
  using one_line_run [of "''done''" True] atomic_read_sends_all by (auto 4 4)

end
