(* ===== verification/Open_API.thy ===== *)
theory Open_API
  imports Deep_Copy "HOL-Library.Char_ord" "HOL-Library.List_Lexorder"
begin

text \<open>
  The generated OpenAPI definitions of the custom resources, \<open>zz_generated.openapi.go\<close>, and the
  JSON the resources are encoded as, by the tags of their structs. A validator says what a
  schema accepts; the theorems compare the two. Descriptions are left out of the schemas.
\<close>

section \<open>JSON\<close>

datatype json =
    JNull
  | JBool bool
  | JInt int
  | JString string
  | JArray "json list"
  | JObject "(string \<times> json) list"

text \<open>
  A field tagged \<open>omitempty\<close> is left out when it is false, 0, empty or nil; a struct never is.
\<close>

definition omit_when :: "bool \<Rightarrow> string \<Rightarrow> json \<Rightarrow> (string \<times> json) list" where
  "omit_when b n j = (if b then [] else [(n, j)])"

definition omit_bool :: "string \<Rightarrow> bool \<Rightarrow> (string \<times> json) list" where
  "omit_bool n b = omit_when (\<not> b) n (JBool b)"

definition omit_string :: "string \<Rightarrow> string \<Rightarrow> (string \<times> json) list" where
  "omit_string n s = omit_when (s = []) n (JString s)"

definition omit_int :: "string \<Rightarrow> int64 \<Rightarrow> (string \<times> json) list" where
  "omit_int n i = omit_when (i = 0) n (JInt i)"

text \<open>A map is encoded with its keys sorted.\<close>

definition omit_map :: "string \<Rightarrow> (string \<rightharpoonup> string) \<Rightarrow> (string \<times> json) list" where
  "omit_map n m =
     omit_when (dom m = {}) n
       (JObject (map (\<lambda>k. (k, JString (case m k of None \<Rightarrow> [] | Some v \<Rightarrow> v))) (sorted_list_of_set (dom m))))"

section \<open>The encoding of the resources\<close>

text \<open>\<open>vjson\<close> and \<open>mjson\<close> encode volumes and metadata.\<close>

definition PrepareData_json :: "('v \<Rightarrow> json) \<Rightarrow> 'v prepare_data \<Rightarrow> json" where
  "PrepareData_json vjson p = JObject [(''mount'', vjson (pd_Mount p)), (''to'', JString (pd_To p))]"

definition JobResults_json :: "('v \<Rightarrow> json) \<Rightarrow> 'v job_results \<Rightarrow> json" where
  "JobResults_json vjson r = JObject [(''mount'', vjson (jr_Mount r)), (''from'', JString (jr_From r))]"

definition omit_ptr :: "string \<Rightarrow> ('a \<Rightarrow> json) \<Rightarrow> 'a option \<Rightarrow> (string \<times> json) list" where
  "omit_ptr n f p = (case p of None \<Rightarrow> [] | Some x \<Rightarrow> [(n, f x)])"

definition SlurmJobSpec_json :: "('v \<Rightarrow> json) \<Rightarrow> 'v slurm_job_spec \<Rightarrow> json" where
  "SlurmJobSpec_json vjson s =
     JObject
       ([(''batch'', JString (sjs_Batch s))] @ omit_map ''nodeSelector'' (sjs_NodeSelector s) @
        omit_ptr ''prepare'' (PrepareData_json vjson) (sjs_Prepare s) @
        omit_ptr ''results'' (JobResults_json vjson) (sjs_Results s))"

definition SlurmJobStatus_json :: "slurm_job_status \<Rightarrow> json" where
  "SlurmJobStatus_json s = JObject [(''status'', JString (sjst_Status s))]"

definition TypeMeta_json :: "type_meta \<Rightarrow> (string \<times> json) list" where
  "TypeMeta_json t = omit_string ''kind'' (tm_Kind t) @ omit_string ''apiVersion'' (tm_APIVersion t)"

definition SlurmJob_json :: "('v \<Rightarrow> json) \<Rightarrow> (object_meta \<Rightarrow> json) \<Rightarrow> type_meta \<Rightarrow> 'v slurm_job \<Rightarrow> json" where
  "SlurmJob_json vjson mjson t j =
     JObject
       (TypeMeta_json t @
        [(''metadata'', mjson (sj_Meta j)), (''spec'', SlurmJobSpec_json vjson (sj_Spec j)),
         (''status'', SlurmJobStatus_json (sj_Status j))])"

definition SingularityOptions_json :: "singularity_options \<Rightarrow> json" where
  "SingularityOptions_json opts =
     JObject
       (omit_bool ''allowUnsigned'' (so_AllowUnsigned opts) @ omit_bool ''cleanEnv'' (so_CleanEnv opts) @
        omit_bool ''fakeRoot'' (so_FakeRoot opts) @ omit_bool ''ipc'' (so_IPC opts) @
        omit_bool ''pid'' (so_PID opts) @ omit_bool ''noPrivs'' (so_NoPrivs opts) @
        omit_bool ''writable'' (so_Writable opts) @ omit_string ''app'' (so_App opts) @
        omit_string ''hostName'' (so_HostName opts) @
        omit_when (so_Binds opts = []) ''binds'' (JArray (map JString (so_Binds opts))))"

definition WlmResources_json :: "wlm_resources \<Rightarrow> json" where
  "WlmResources_json r =
     JObject
       (omit_int ''nodes'' (wr_Nodes r) @ omit_int ''cpuPerNode'' (wr_CPUPerNode r) @
        omit_int ''memPerNode'' (wr_MemPerNode r) @ omit_int ''wallTime'' (wr_WallTime r))"

definition WlmJobSpec_json :: "('v \<Rightarrow> json) \<Rightarrow> 'v wlm_job_spec \<Rightarrow> json" where
  "WlmJobSpec_json vjson s =
     JObject
       ([(''image'', JString (wjs_Image s)), (''options'', SingularityOptions_json (wjs_Options s)),
         (''resources'', WlmResources_json (wjs_Resources s))] @
        omit_map ''nodeSelector'' (wjs_NodeSelector s) @
        omit_ptr ''results'' (JobResults_json vjson) (wjs_Results s))"

definition WlmJobStatus_json :: "wlm_job_status \<Rightarrow> json" where
  "WlmJobStatus_json s = JObject [(''status'', JString (wjst_Status s))]"

definition WlmJob_json :: "('v \<Rightarrow> json) \<Rightarrow> (object_meta \<Rightarrow> json) \<Rightarrow> type_meta \<Rightarrow> 'v wlm_job \<Rightarrow> json" where
  "WlmJob_json vjson mjson t j =
     JObject
       (TypeMeta_json t @
        [(''metadata'', mjson (wj_Meta j)), (''spec'', WlmJobSpec_json vjson (wj_Spec j)),
         (''status'', WlmJobStatus_json (wj_Status j))])"

section \<open>Schemas\<close>

text \<open>
  \<open>spec.SchemaProps\<close>: type, format, properties, required properties, items, additional
  properties and reference, the last empty when there is none.
\<close>

datatype schema =
  Schema (sc_Type: "string list") (sc_Format: string) (sc_Properties: "(string \<times> schema) list")
    (sc_Required: "string list") (sc_Items: "schema option") (sc_AdditionalProperties: "schema option")
    (sc_Ref: string)

definition plain_schema :: "string \<Rightarrow> string \<Rightarrow> schema" where
  "plain_schema t f = Schema [t] f [] [] None None []"

definition ref_schema :: "string \<Rightarrow> schema" where
  "ref_schema r = Schema [] [] [] [] None None r"

definition struct_schema :: "(string \<times> schema) list \<Rightarrow> string list \<Rightarrow> schema" where
  "struct_schema ps req = Schema [] [] ps req None None []"

definition map_schema :: "schema \<Rightarrow> schema" where
  "map_schema s = Schema [''object''] [] [] [] None (Some s) []"

definition array_schema :: "schema \<Rightarrow> schema" where
  "array_schema s = Schema [''array''] [] [] [] (Some s) None []"

definition wlm_type :: "string \<Rightarrow> string" where
  "wlm_type n = ''github.com/dptech-corp/wlm-operator/pkg/operator/apis/wlm/v1alpha1.'' @ n"

definition volume_type :: string where "volume_type = ''k8s.io/api/core/v1.Volume''"
definition meta_type :: string where "meta_type = ''k8s.io/apimachinery/pkg/apis/meta/v1.ObjectMeta''"

text \<open>\<open>common.OpenAPIDefinition\<close>: a schema and the types it refers to. \<open>ref\<close> is the callback.\<close>

record openapi_definition =
  od_Schema :: schema
  od_Dependencies :: "string list"

definition schema_JobResults :: "(string \<Rightarrow> string) \<Rightarrow> openapi_definition" where
  "schema_JobResults ref =
     \<lparr>od_Schema = struct_schema
        [(''mount'', ref_schema (ref volume_type)), (''from'', plain_schema ''string'' [])] [''mount'', ''from''],
      od_Dependencies = [volume_type]\<rparr>"

definition schema_SingularityOptions :: "(string \<Rightarrow> string) \<Rightarrow> openapi_definition" where
  "schema_SingularityOptions ref =
     \<lparr>od_Schema = struct_schema
        [(''app'', plain_schema ''string'' []), (''allowUnsigned'', plain_schema ''boolean'' []),
         (''binds'', array_schema (plain_schema ''string'' [])), (''cleanEnv'', plain_schema ''boolean'' []),
         (''fakeRoot'', plain_schema ''boolean'' []), (''hostName'', plain_schema ''string'' []),
         (''ipc'', plain_schema ''boolean'' []), (''pid'', plain_schema ''boolean'' []),
         (''noPrivs'', plain_schema ''boolean'' []), (''writable'', plain_schema ''boolean'' [])] [],
      od_Dependencies = []\<rparr>"

definition schema_SlurmJob :: "(string \<Rightarrow> string) \<Rightarrow> openapi_definition" where
  "schema_SlurmJob ref =
     \<lparr>od_Schema = struct_schema
        [(''kind'', plain_schema ''string'' []), (''apiVersion'', plain_schema ''string'' []),
         (''metadata'', ref_schema (ref meta_type)), (''spec'', ref_schema (ref (wlm_type ''SlurmJobSpec''))),
         (''status'', ref_schema (ref (wlm_type ''SlurmJobStatus'')))] [],
      od_Dependencies = [wlm_type ''SlurmJobSpec'', wlm_type ''SlurmJobStatus'', meta_type]\<rparr>"

definition schema_SlurmJobSpec :: "(string \<Rightarrow> string) \<Rightarrow> openapi_definition" where
  "schema_SlurmJobSpec ref =
     \<lparr>od_Schema = struct_schema
        [(''batch'', plain_schema ''string'' []), (''nodeSelector'', map_schema (plain_schema ''string'' [])),
         (''results'', ref_schema (ref (wlm_type ''JobResults'')))] [''batch''],
      od_Dependencies = [wlm_type ''JobResults'']\<rparr>"

definition schema_SlurmJobStatus :: "(string \<Rightarrow> string) \<Rightarrow> openapi_definition" where
  "schema_SlurmJobStatus ref =
     \<lparr>od_Schema = struct_schema [(''status'', plain_schema ''string'' [])] [''status''], od_Dependencies = []\<rparr>"

definition schema_WlmJob :: "(string \<Rightarrow> string) \<Rightarrow> openapi_definition" where
  "schema_WlmJob ref =
     \<lparr>od_Schema = struct_schema
        [(''kind'', plain_schema ''string'' []), (''apiVersion'', plain_schema ''string'' []),
         (''metadata'', ref_schema (ref meta_type)), (''spec'', ref_schema (ref (wlm_type ''WlmJobSpec''))),
         (''status'', ref_schema (ref (wlm_type ''WlmJobStatus'')))] [],
      od_Dependencies = [wlm_type ''WlmJobSpec'', wlm_type ''WlmJobStatus'', meta_type]\<rparr>"

definition schema_WlmJobSpec :: "(string \<Rightarrow> string) \<Rightarrow> openapi_definition" where
  "schema_WlmJobSpec ref =
     \<lparr>od_Schema = struct_schema
        [(''image'', plain_schema ''string'' []), (''options'', ref_schema (ref (wlm_type ''SingularityOptions''))),
         (''resources'', ref_schema (ref (wlm_type ''WlmResources''))),
         (''nodeSelector'', map_schema (plain_schema ''string'' [])),
         (''results'', ref_schema (ref (wlm_type ''JobResults'')))] [''image''],
      od_Dependencies = [wlm_type ''JobResults'', wlm_type ''SingularityOptions'', wlm_type ''WlmResources'']\<rparr>"

definition schema_WlmJobStatus :: "(string \<Rightarrow> string) \<Rightarrow> openapi_definition" where
  "schema_WlmJobStatus ref =
     \<lparr>od_Schema = struct_schema [(''status'', plain_schema ''string'' [])] [''status''], od_Dependencies = []\<rparr>"

definition schema_WlmResources :: "(string \<Rightarrow> string) \<Rightarrow> openapi_definition" where
  "schema_WlmResources ref =
     \<lparr>od_Schema = struct_schema
        [(''nodes'', plain_schema ''integer'' ''int64''), (''cpuPerNode'', plain_schema ''integer'' ''int64''),
         (''memPerNode'', plain_schema ''integer'' ''int64''), (''wallTime'', plain_schema ''integer'' ''int64'')] [],
      od_Dependencies = []\<rparr>"

definition GetOpenAPIDefinitions :: "(string \<Rightarrow> string) \<Rightarrow> (string \<times> openapi_definition) list" where
  "GetOpenAPIDefinitions ref =
     [(wlm_type ''JobResults'', schema_JobResults ref),
      (wlm_type ''SingularityOptions'', schema_SingularityOptions ref),
      (wlm_type ''SlurmJob'', schema_SlurmJob ref),
      (wlm_type ''SlurmJobSpec'', schema_SlurmJobSpec ref),
      (wlm_type ''SlurmJobStatus'', schema_SlurmJobStatus ref),
      (wlm_type ''WlmJob'', schema_WlmJob ref),
      (wlm_type ''WlmJobSpec'', schema_WlmJobSpec ref),
      (wlm_type ''WlmJobStatus'', schema_WlmJobStatus ref),
      (wlm_type ''WlmResources'', schema_WlmResources ref)]"

section \<open>What a schema accepts\<close>

fun type_accepts :: "string list \<Rightarrow> string \<Rightarrow> json \<Rightarrow> bool" where
  "type_accepts ty fmt JNull \<longleftrightarrow> ty = []"
| "type_accepts ty fmt (JBool b) \<longleftrightarrow> ty = [] \<or> ''boolean'' \<in> set ty"
| "type_accepts ty fmt (JInt i) \<longleftrightarrow> ty = [] \<or> ''integer'' \<in> set ty \<and> (fmt = ''int64'' \<longrightarrow> in_int64 i)"
| "type_accepts ty fmt (JString s) \<longleftrightarrow> ty = [] \<or> ''string'' \<in> set ty"
| "type_accepts ty fmt (JArray js) \<longleftrightarrow> ty = [] \<or> ''array'' \<in> set ty"
| "type_accepts ty fmt (JObject fs) \<longleftrightarrow> ty = [] \<or> ''object'' \<in> set ty"

text \<open>
  A reference is looked up in \<open>defs\<close>; \<open>ext\<close> judges the types of other packages. The validator
  descends at most as deep as the number it is given. When it is \<open>strict\<close>, an object with
  properties has no others.
\<close>

fun accepts :: "bool \<Rightarrow> (string \<Rightarrow> schema option) \<Rightarrow> (string \<Rightarrow> json \<Rightarrow> bool) \<Rightarrow> nat \<Rightarrow> schema \<Rightarrow> json \<Rightarrow> bool" where
  "accepts strict defs ext 0 s j = False"
| "accepts strict defs ext (Suc n) (Schema ty fmt props req items addl r) j =
     (if r \<noteq> []
      then (case defs r of Some s \<Rightarrow> accepts strict defs ext n s j | None \<Rightarrow> ext r j)
      else type_accepts ty fmt j \<and>
        (case j of
           JObject fs \<Rightarrow>
             list_all (\<lambda>k. k \<in> set (map fst fs)) req \<and>
             list_all (\<lambda>f. case map_of props (fst f) of
                 Some s \<Rightarrow> accepts strict defs ext n s (snd f)
               | None \<Rightarrow> (case addl of Some s \<Rightarrow> accepts strict defs ext n s (snd f) | None \<Rightarrow> \<not> strict)) fs
         | JArray js \<Rightarrow> (case items of Some s \<Rightarrow> list_all (accepts strict defs ext n s) js | None \<Rightarrow> True)
         | _ \<Rightarrow> True))"

definition schema_defs :: "(string \<Rightarrow> string) \<Rightarrow> string \<Rightarrow> schema option" where
  "schema_defs ref = map_of (map (\<lambda>d. (ref (fst d), od_Schema (snd d))) (GetOpenAPIDefinitions ref))"

text \<open>
  What is assumed of the callback and of the encodings of the Kubernetes libraries: references
  are not empty and tell the types apart, and volumes and metadata are what their own schemas
  accept.
\<close>

definition ref_ok :: "(string \<Rightarrow> string) \<Rightarrow> bool" where
  "ref_ok ref \<longleftrightarrow> inj ref \<and> (\<forall>n. ref n \<noteq> [])"

definition encodings_ok :: "(string \<Rightarrow> string) \<Rightarrow> (string \<Rightarrow> json \<Rightarrow> bool) \<Rightarrow> ('v \<Rightarrow> json) \<Rightarrow> (object_meta \<Rightarrow> json) \<Rightarrow> bool" where
  "encodings_ok ref ext vjson mjson \<longleftrightarrow>
     (\<forall>v. ext (ref volume_type) (vjson v)) \<and> (\<forall>m. ext (ref meta_type) (mjson m))"

lemma wlm_type_eq [simp]: "wlm_type a = wlm_type b \<longleftrightarrow> a = b"
  by (simp add: wlm_type_def)

lemma foreign_types [simp]: "wlm_type a \<noteq> volume_type" "wlm_type a \<noteq> meta_type"
  by (simp_all add: wlm_type_def volume_type_def meta_type_def)

lemma schema_defs_lookup:
  assumes "ref_ok ref"
  shows "schema_defs ref (ref (wlm_type ''JobResults'')) = Some (od_Schema (schema_JobResults ref))"
    "schema_defs ref (ref (wlm_type ''SingularityOptions'')) = Some (od_Schema (schema_SingularityOptions ref))"
    "schema_defs ref (ref (wlm_type ''SlurmJob'')) = Some (od_Schema (schema_SlurmJob ref))"
    "schema_defs ref (ref (wlm_type ''SlurmJobSpec'')) = Some (od_Schema (schema_SlurmJobSpec ref))"
    "schema_defs ref (ref (wlm_type ''SlurmJobStatus'')) = Some (od_Schema (schema_SlurmJobStatus ref))"
    "schema_defs ref (ref (wlm_type ''WlmJob'')) = Some (od_Schema (schema_WlmJob ref))"
    "schema_defs ref (ref (wlm_type ''WlmJobSpec'')) = Some (od_Schema (schema_WlmJobSpec ref))"
    "schema_defs ref (ref (wlm_type ''WlmJobStatus'')) = Some (od_Schema (schema_WlmJobStatus ref))"
    "schema_defs ref (ref (wlm_type ''WlmResources'')) = Some (od_Schema (schema_WlmResources ref))"
    "schema_defs ref (ref volume_type) = None" "schema_defs ref (ref meta_type) = None"
  using assms foreign_types [symmetric]
  by (simp_all add: schema_defs_def GetOpenAPIDefinitions_def ref_ok_def inj_eq)

section \<open>Acceptance, piece by piece\<close>

named_theorems accepts_rules "how a schema built by the constructors above accepts a value"

definition field_accepted ::
  "bool \<Rightarrow> (string \<Rightarrow> schema option) \<Rightarrow> (string \<Rightarrow> json \<Rightarrow> bool) \<Rightarrow> nat \<Rightarrow> (string \<times> schema) list \<Rightarrow> string \<times> json \<Rightarrow> bool" where
  "field_accepted strict defs ext n props f =
     (case map_of props (fst f) of Some s \<Rightarrow> accepts strict defs ext n s (snd f) | None \<Rightarrow> \<not> strict)"

lemma accepts_plain [accepts_rules]:
  "accepts strict defs ext (Suc n) (plain_schema ''string'' []) (JString s)"
  "accepts strict defs ext (Suc n) (plain_schema ''boolean'' []) (JBool b)"
  "accepts strict defs ext (Suc n) (plain_schema ''integer'' ''int64'') (JInt i) = in_int64 i"
  by (simp_all add: plain_schema_def)

lemma accepts_ref [accepts_rules]:
  "r \<noteq> [] \<Longrightarrow> accepts strict defs ext (Suc n) (ref_schema r) j =
    (case defs r of Some s \<Rightarrow> accepts strict defs ext n s j | None \<Rightarrow> ext r j)"
  by (simp add: ref_schema_def)

lemma accepts_struct [accepts_rules]:
  "accepts strict defs ext (Suc n) (struct_schema props req) (JObject fs) \<longleftrightarrow>
    list_all (\<lambda>k. k \<in> set (map fst fs)) req \<and> list_all (field_accepted strict defs ext n props) fs"
  by (simp add: struct_schema_def field_accepted_def [abs_def] cong: option.case_cong)

lemma accepts_map [accepts_rules]:
  "accepts strict defs ext (Suc (Suc n)) (map_schema (plain_schema ''string'' []))
    (JObject (map (\<lambda>k. (k, JString (f k))) ks))"
  using accepts_plain(1) [of strict defs ext n] by (simp add: map_schema_def list_all_iff)

lemma accepts_array [accepts_rules]:
  "accepts strict defs ext (Suc (Suc n)) (array_schema (plain_schema ''string'' [])) (JArray (map JString xs))"
  by (simp add: array_schema_def list_all_iff accepts_plain)

lemma omitted [accepts_rules]:
  "list_all P (omit_when b n j) \<longleftrightarrow> b \<or> P (n, j)"
  "list_all P (omit_ptr n f p) \<longleftrightarrow> (\<forall>x. p = Some x \<longrightarrow> P (n, f x))"
  by (auto simp: omit_when_def omit_ptr_def split: option.splits)

lemmas omit_defs = omit_bool_def omit_string_def omit_int_def omit_map_def TypeMeta_json_def

text \<open>The types that refer to no other.\<close>

lemma accepts_resources:
  "in_int64 (wr_Nodes r) \<Longrightarrow> in_int64 (wr_CPUPerNode r) \<Longrightarrow> in_int64 (wr_MemPerNode r) \<Longrightarrow> in_int64 (wr_WallTime r) \<Longrightarrow>
   accepts strict defs ext (Suc (Suc n)) (od_Schema (schema_WlmResources ref)) (WlmResources_json r)"
  by (simp add: schema_WlmResources_def WlmResources_json_def accepts_rules omit_defs field_accepted_def)

lemma accepts_options:
  "accepts strict defs ext (Suc (Suc (Suc n))) (od_Schema (schema_SingularityOptions ref)) (SingularityOptions_json opts)"
  by (simp add: schema_SingularityOptions_def SingularityOptions_json_def accepts_rules omit_defs field_accepted_def)

lemma accepts_results:
  assumes "ref_ok ref" "encodings_ok ref ext vjson mjson"
  shows "accepts strict (schema_defs ref) ext (Suc (Suc n)) (od_Schema (schema_JobResults ref)) (JobResults_json vjson r)"
  using assms
  by (simp add: schema_JobResults_def JobResults_json_def accepts_rules field_accepted_def schema_defs_lookup
      ref_ok_def encodings_ok_def)

lemma accepts_slurm_spec:
  assumes "ref_ok ref" "encodings_ok ref ext vjson mjson"
  shows "accepts strict (schema_defs ref) ext (Suc (Suc (Suc (Suc n)))) (od_Schema (schema_SlurmJobSpec ref)) (SlurmJobSpec_json vjson s) \<longleftrightarrow>
    strict \<longrightarrow> sjs_Prepare s = None"
  using assms(1) accepts_results [OF assms, of strict n]
  by (auto simp: schema_SlurmJobSpec_def SlurmJobSpec_json_def accepts_rules omit_defs field_accepted_def
      schema_defs_lookup [OF assms(1)] ref_ok_def)

lemma accepts_slurm_job:
  assumes "ref_ok ref" "encodings_ok ref ext vjson mjson"
  shows "accepts strict (schema_defs ref) ext (Suc (Suc (Suc (Suc (Suc (Suc n)))))) (od_Schema (schema_SlurmJob ref))
      (SlurmJob_json vjson mjson t j) \<longleftrightarrow>
    strict \<longrightarrow> sjs_Prepare (sj_Spec j) = None"
  using assms accepts_slurm_spec [OF assms, of strict n "sj_Spec j"]
  by (simp add: schema_SlurmJob_def SlurmJob_json_def SlurmJobStatus_json_def schema_SlurmJobStatus_def accepts_rules
      omit_defs field_accepted_def schema_defs_lookup [OF assms(1)] ref_ok_def encodings_ok_def)

definition resources_int64 :: "wlm_resources \<Rightarrow> bool" where
  "resources_int64 r \<longleftrightarrow>
     in_int64 (wr_Nodes r) \<and> in_int64 (wr_CPUPerNode r) \<and> in_int64 (wr_MemPerNode r) \<and> in_int64 (wr_WallTime r)"

lemma accepts_wlm_spec:
  assumes "ref_ok ref" "encodings_ok ref ext vjson mjson" "resources_int64 (wjs_Resources s)"
  shows "accepts strict (schema_defs ref) ext (Suc (Suc (Suc (Suc (Suc n))))) (od_Schema (schema_WlmJobSpec ref)) (WlmJobSpec_json vjson s)"
  using assms(1,3) accepts_results [OF assms(1,2), of strict "Suc n"]
    accepts_options [of strict "schema_defs ref" ext n ref "wjs_Options s"]
    accepts_resources [of "wjs_Resources s" strict "schema_defs ref" ext "Suc n" ref]
  by (simp add: schema_WlmJobSpec_def WlmJobSpec_json_def accepts_rules omit_defs field_accepted_def
      schema_defs_lookup [OF assms(1)] ref_ok_def resources_int64_def)

lemma accepts_wlm_job:
  assumes "ref_ok ref" "encodings_ok ref ext vjson mjson" "resources_int64 (wjs_Resources (wj_Spec j))"
  shows "accepts strict (schema_defs ref) ext (Suc (Suc (Suc (Suc (Suc (Suc (Suc n))))))) (od_Schema (schema_WlmJob ref))
    (WlmJob_json vjson mjson t j)"
  using assms accepts_wlm_spec [OF assms, of strict n]
  by (simp add: schema_WlmJob_def WlmJob_json_def WlmJobStatus_json_def schema_WlmJobStatus_def accepts_rules
      omit_defs field_accepted_def schema_defs_lookup [OF assms(1)] ref_ok_def encodings_ok_def)

section \<open>Properties\<close>

text \<open>
  C35. The generated schema of a WlmJob types every WlmJob there is: its JSON is accepted, and
  has no field the schema does not list.
\<close>

theorem WlmJob_json_typed:
  assumes "ref_ok ref" and "encodings_ok ref ext vjson mjson" and "resources_int64 (wjs_Resources (wj_Spec j))"
  shows "accepts True (schema_defs ref) ext 8 (od_Schema (schema_WlmJob ref)) (WlmJob_json vjson mjson t j)"
  using accepts_wlm_job [OF assms, of True "Suc 0"] by (simp add: eval_nat_numeral)

text \<open>
  The schema of a SlurmJob is out of date: the JSON of every SlurmJob is accepted, but it
  has a field the schema does not list exactly when the job has a \<open>prepare\<close> step.
\<close>

theorem SlurmJob_json_unlisted_prepare:
  assumes "ref_ok ref" and "encodings_ok ref ext vjson mjson"
  shows "accepts False (schema_defs ref) ext 8 (od_Schema (schema_SlurmJob ref)) (SlurmJob_json vjson mjson t j) \<and>
    (accepts True (schema_defs ref) ext 8 (od_Schema (schema_SlurmJob ref)) (SlurmJob_json vjson mjson t j) \<longleftrightarrow>
      sjs_Prepare (sj_Spec j) = None)"
  using accepts_slurm_job [OF assms, of False "Suc (Suc 0)"] accepts_slurm_job [OF assms, of True "Suc (Suc 0)"]
  by (simp add: eval_nat_numeral)

definition example_vjson :: "string \<Rightarrow> json" where "example_vjson v = JObject [(''name'', JString v)]"
definition example_mjson :: "object_meta \<Rightarrow> json" where "example_mjson m = JObject [(''name'', JString (om_Name m))]"

definition example_meta :: object_meta where
  "example_meta = \<lparr>om_Name = ''job'', om_Namespace = ''default'', om_UID = [], om_OwnerReferences = [], om_Labels = Map.empty\<rparr>"

definition example_wlm :: "string wlm_job" where
  "example_wlm =
     \<lparr>wj_Meta = example_meta,
      wj_Spec =
        \<lparr>wjs_Image = ''library://cowsay'',
         wjs_Options =
           \<lparr>so_AllowUnsigned = True, so_CleanEnv = False, so_FakeRoot = False, so_IPC = False, so_PID = False,
            so_NoPrivs = False, so_Writable = False, so_App = [], so_HostName = [], so_Binds = [''/data'']\<rparr>,
         wjs_Resources = \<lparr>wr_Nodes = 1, wr_CPUPerNode = 2, wr_MemPerNode = 0, wr_WallTime = 60\<rparr>,
         wjs_NodeSelector = [''type'' \<mapsto> ''gpu''], wjs_Results = Some \<lparr>jr_Mount = ''vol'', jr_From = ''out''\<rparr>\<rparr>,
      wj_Status = \<lparr>wjst_Status = ''Running''\<rparr>\<rparr>"

definition example_slurm :: "string slurm_job" where
  "example_slurm =
     \<lparr>sj_Meta = example_meta,
      sj_Spec =
        \<lparr>sjs_Batch = ''#!/bin/sh'', sjs_NodeSelector = Map.empty,
         sjs_Prepare = Some \<lparr>pd_Mount = ''vol'', pd_To = ''in''\<rparr>, sjs_Results = None\<rparr>,
      sj_Status = \<lparr>sjst_Status = []\<rparr>\<rparr>"

definition example_ref :: "string \<Rightarrow> string" where "example_ref n = ''#/definitions/'' @ n"
definition example_ext :: "string \<Rightarrow> json \<Rightarrow> bool" where
  "example_ext r j = (case j of JObject fs \<Rightarrow> True | _ \<Rightarrow> False)"
definition example_type :: type_meta where
  "example_type = \<lparr>tm_Kind = ''WlmJob'', tm_APIVersion = ''wlm.sylabs.io/v1alpha1''\<rparr>"

lemma example_ref_ok: "ref_ok example_ref"
  by (simp add: ref_ok_def example_ref_def inj_def)

lemma example_encodings_ok: "encodings_ok example_ref example_ext example_vjson example_mjson"
  by (simp add: encodings_ok_def example_ext_def example_vjson_def example_mjson_def)

theorem WlmJob_json_typed_witness:
  "accepts True (schema_defs example_ref) example_ext 8 (od_Schema (schema_WlmJob example_ref))
    (WlmJob_json example_vjson example_mjson example_type example_wlm)"
  by (rule WlmJob_json_typed [OF example_ref_ok example_encodings_ok])
    (simp add: example_wlm_def resources_int64_def int64_defs)

theorem SlurmJob_json_unlisted_prepare_witness:
  "\<not> accepts True (schema_defs example_ref) example_ext 8 (od_Schema (schema_SlurmJob example_ref))
    (SlurmJob_json example_vjson example_mjson example_type example_slurm)"
  using SlurmJob_json_unlisted_prepare [OF example_ref_ok example_encodings_ok, of example_type example_slurm]
  by (simp add: example_slurm_def)

end
