(* ===== verification/Informer_Factory.thy ===== *)
theory Informer_Factory
  imports Informers
begin

text \<open>
  The shared informer factory (\<open>client/informers/externalversions/factory.go\<close>, \<open>generic.go\<close>,
  \<open>wlm/interface.go\<close>, \<open>wlm/v1alpha1/*.go\<close>): one informer per type of object, run at most once,
  with the namespace and the filter of its factory. An informer is its configuration and an
  identity; the reflector and the handlers inside it are vendored. The factory is a state machine
  over the calls its users make.
\<close>

section \<open>Informers\<close>

text \<open>The types the factory is asked for (\<open>reflect.Type\<close> of an object).\<close>

datatype object_type = SlurmJobType | WlmJobType | OtherType string

type_synonym tweak_list_options = "list_options \<Rightarrow> list_options"

record 'c informer =
  inf_id :: nat
  inf_client :: 'c
  inf_namespace :: string
  inf_tweak :: "tweak_list_options option"
  inf_type :: object_type
  inf_resync :: duration
  inf_indexers :: "(string \<times> (object_meta \<Rightarrow> string list)) list"

text \<open>The identity 0 is given by a constructor and replaced when the informer is registered.\<close>

definition NewFilteredSlurmJobInformer ::
  "'c \<Rightarrow> string \<Rightarrow> duration \<Rightarrow> (string \<times> (object_meta \<Rightarrow> string list)) list \<Rightarrow> tweak_list_options option \<Rightarrow> 'c informer" where
  "NewFilteredSlurmJobInformer client namespace resyncPeriod indexers tweakListOptions =
     \<lparr>inf_id = 0, inf_client = client, inf_namespace = namespace, inf_tweak = tweakListOptions,
      inf_type = SlurmJobType, inf_resync = resyncPeriod, inf_indexers = indexers\<rparr>"

definition NewFilteredWlmJobInformer ::
  "'c \<Rightarrow> string \<Rightarrow> duration \<Rightarrow> (string \<times> (object_meta \<Rightarrow> string list)) list \<Rightarrow> tweak_list_options option \<Rightarrow> 'c informer" where
  "NewFilteredWlmJobInformer client namespace resyncPeriod indexers tweakListOptions =
     \<lparr>inf_id = 0, inf_client = client, inf_namespace = namespace, inf_tweak = tweakListOptions,
      inf_type = WlmJobType, inf_resync = resyncPeriod, inf_indexers = indexers\<rparr>"

definition NewSlurmJobInformer where
  "NewSlurmJobInformer client namespace resyncPeriod indexers =
     NewFilteredSlurmJobInformer client namespace resyncPeriod indexers None"

definition NewWlmJobInformer where
  "NewWlmJobInformer client namespace resyncPeriod indexers =
     NewFilteredWlmJobInformer client namespace resyncPeriod indexers None"

text \<open>The list and watch functions of an informer, on the client of a kind of jobs in a namespace.\<close>

definition tweaked :: "tweak_list_options option \<Rightarrow> list_options \<Rightarrow> list_options" where
  "tweaked tweakListOptions options =
     (case tweakListOptions of None \<Rightarrow> options | Some tweak \<Rightarrow> tweak options)"

definition informer_ListFunc ::
  "('c \<Rightarrow> string \<Rightarrow> ('o, 'l, 'd, 'x, 'w) jobs_client) \<Rightarrow> 'c informer \<Rightarrow> list_options \<Rightarrow> 'w \<Rightarrow> 'l go \<times> 'w" where
  "informer_ListFunc jobs informer options =
     jobs_List (jobs (inf_client informer) (inf_namespace informer)) (tweaked (inf_tweak informer) options)"

definition informer_WatchFunc ::
  "('c \<Rightarrow> string \<Rightarrow> ('o, 'l, 'd, 'x, 'w) jobs_client) \<Rightarrow> 'c informer \<Rightarrow> list_options \<Rightarrow> 'w \<Rightarrow> 'x go \<times> 'w" where
  "informer_WatchFunc jobs informer options =
     jobs_Watch (jobs (inf_client informer) (inf_namespace informer)) (tweaked (inf_tweak informer) options)"

section \<open>The factory\<close>

text \<open>
  \<open>sf_informers\<close> is in one order Go may iterate the map in; \<open>sf_running\<close> lists the goroutines
  started so far, an informer with the channel that stops it; \<open>sf_next\<close> is the next identity.
\<close>

record 'c factory =
  sf_client :: 'c
  sf_namespace :: string
  sf_tweakListOptions :: "tweak_list_options option"
  sf_defaultResync :: duration
  sf_customResync :: "object_type \<rightharpoonup> duration"
  sf_informers :: "(object_type \<times> 'c informer) list"
  sf_startedInformers :: "object_type \<Rightarrow> bool"
  sf_running :: "('c informer \<times> nat) list"
  sf_next :: nat

datatype factory_option =
    WithCustomResyncConfig "(object_type \<times> duration) list"
  | WithTweakListOptions "tweak_list_options option"
  | WithNamespace string

fun apply_option :: "factory_option \<Rightarrow> 'c factory \<Rightarrow> 'c factory" where
  "apply_option (WithCustomResyncConfig resyncConfig) f =
     f\<lparr>sf_customResync := foldl (\<lambda>m (k, v). m(k \<mapsto> v)) (sf_customResync f) resyncConfig\<rparr>"
| "apply_option (WithTweakListOptions tweakListOptions) f = f\<lparr>sf_tweakListOptions := tweakListOptions\<rparr>"
| "apply_option (WithNamespace namespace) f = f\<lparr>sf_namespace := namespace\<rparr>"

definition NewSharedInformerFactoryWithOptions :: "'c \<Rightarrow> duration \<Rightarrow> factory_option list \<Rightarrow> 'c factory" where
  "NewSharedInformerFactoryWithOptions client defaultResync options =
     foldl (\<lambda>factory opt. apply_option opt factory)
       \<lparr>sf_client = client, sf_namespace = [], sf_tweakListOptions = None,
        sf_defaultResync = defaultResync, sf_customResync = Map.empty, sf_informers = [],
        sf_startedInformers = (\<lambda>_. False), sf_running = [], sf_next = 1\<rparr> options"

definition NewSharedInformerFactory where
  "NewSharedInformerFactory client defaultResync = NewSharedInformerFactoryWithOptions client defaultResync []"

definition NewFilteredSharedInformerFactory where
  "NewFilteredSharedInformerFactory client defaultResync namespace tweakListOptions =
     NewSharedInformerFactoryWithOptions client defaultResync
       [WithNamespace namespace, WithTweakListOptions tweakListOptions]"

definition InformerFor :: "object_type \<Rightarrow> ('c \<Rightarrow> duration \<Rightarrow> 'c informer) \<Rightarrow> 'c factory \<Rightarrow> 'c informer \<times> 'c factory" where
  "InformerFor informerType newFunc f =
     (case map_of (sf_informers f) informerType of
        Some informer \<Rightarrow> (informer, f)
      | None \<Rightarrow>
          (let resyncPeriod = (case sf_customResync f informerType of None \<Rightarrow> sf_defaultResync f | Some d \<Rightarrow> d);
               informer = (newFunc (sf_client f) resyncPeriod)\<lparr>inf_id := sf_next f\<rparr>
           in (informer, f\<lparr>sf_informers := sf_informers f @ [(informerType, informer)], sf_next := Suc (sf_next f)\<rparr>)))"

definition start_informer :: "nat \<Rightarrow> object_type \<times> 'c informer \<Rightarrow> 'c factory \<Rightarrow> 'c factory" where
  "start_informer stopCh entry f =
     (if \<not> sf_startedInformers f (fst entry)
      then f\<lparr>sf_running := sf_running f @ [(snd entry, stopCh)],
             sf_startedInformers := (sf_startedInformers f)(fst entry := True)\<rparr>
      else f)"

definition Start :: "nat \<Rightarrow> 'c factory \<Rightarrow> 'c factory" where
  "Start stopCh f = fold (start_informer stopCh) (sf_informers f) f"

text \<open>\<open>hasSynced\<close> is what waiting for the cache of an informer gives.\<close>

definition WaitForCacheSync :: "('c informer \<Rightarrow> bool) \<Rightarrow> 'c factory \<Rightarrow> (object_type \<times> bool) list" where
  "WaitForCacheSync hasSynced f =
     (let informers = filter (\<lambda>(informerType, informer). sf_startedInformers f informerType) (sf_informers f)
      in map (\<lambda>(informType, informer). (informType, hasSynced informer)) informers)"

section \<open>Access to the informers\<close>

text \<open>\<open>Wlm().V1alpha1().SlurmJobs()\<close>: the namespace and the filter are handed on at every step.\<close>

record informer_group =
  ig_namespace :: string
  ig_tweakListOptions :: "tweak_list_options option"

record job_informer =
  ji_type :: object_type
  ji_namespace :: string
  ji_tweakListOptions :: "tweak_list_options option"

definition factory_Wlm :: "'c factory \<Rightarrow> informer_group" where
  "factory_Wlm f = \<lparr>ig_namespace = sf_namespace f, ig_tweakListOptions = sf_tweakListOptions f\<rparr>"

definition group_V1alpha1 :: "informer_group \<Rightarrow> informer_group" where
  "group_V1alpha1 g = \<lparr>ig_namespace = ig_namespace g, ig_tweakListOptions = ig_tweakListOptions g\<rparr>"

definition version_SlurmJobs :: "informer_group \<Rightarrow> job_informer" where
  "version_SlurmJobs v =
     \<lparr>ji_type = SlurmJobType, ji_namespace = ig_namespace v, ji_tweakListOptions = ig_tweakListOptions v\<rparr>"

definition version_WlmJobs :: "informer_group \<Rightarrow> job_informer" where
  "version_WlmJobs v =
     \<lparr>ji_type = WlmJobType, ji_namespace = ig_namespace v, ji_tweakListOptions = ig_tweakListOptions v\<rparr>"

definition slurmJobInformer_defaultInformer :: "job_informer \<Rightarrow> 'c \<Rightarrow> duration \<Rightarrow> 'c informer" where
  "slurmJobInformer_defaultInformer f client resyncPeriod =
     NewFilteredSlurmJobInformer client (ji_namespace f) resyncPeriod
       [(NamespaceIndex, MetaNamespaceIndexFunc)] (ji_tweakListOptions f)"

definition wlmJobInformer_defaultInformer :: "job_informer \<Rightarrow> 'c \<Rightarrow> duration \<Rightarrow> 'c informer" where
  "wlmJobInformer_defaultInformer f client resyncPeriod =
     NewFilteredWlmJobInformer client (ji_namespace f) resyncPeriod
       [(NamespaceIndex, MetaNamespaceIndexFunc)] (ji_tweakListOptions f)"

definition SlurmJobs_Informer :: "'c factory \<Rightarrow> 'c informer \<times> 'c factory" where
  "SlurmJobs_Informer f =
     InformerFor SlurmJobType (slurmJobInformer_defaultInformer (version_SlurmJobs (group_V1alpha1 (factory_Wlm f)))) f"

definition WlmJobs_Informer :: "'c factory \<Rightarrow> 'c informer \<times> 'c factory" where
  "WlmJobs_Informer f =
     InformerFor WlmJobType (wlmJobInformer_defaultInformer (version_WlmJobs (group_V1alpha1 (factory_Wlm f)))) f"

text \<open>A generic informer: an informer and the group and resource it was asked for.\<close>

definition ForResource :: "string \<times> string \<times> string \<Rightarrow> 'c factory \<Rightarrow> ('c informer \<times> string \<times> string) go \<times> 'c factory" where
  "ForResource resource f =
     (if resource = (fst SchemeGroupVersion, snd SchemeGroupVersion, ''slurmjobs'')
      then (let (informer, f) = SlurmJobs_Informer f in (Ok (informer, fst resource, snd (snd resource)), f))
      else if resource = (fst SchemeGroupVersion, snd SchemeGroupVersion, ''wlmjobs'')
      then (let (informer, f) = WlmJobs_Informer f in (Ok (informer, fst resource, snd (snd resource)), f))
      else (Err (ErrorString (''no informer found for '' @ snd (snd resource))), f))"

text \<open>A lister reads the cache of its informer; \<open>caches\<close> gives the cache of an identity.\<close>

definition SlurmJobs_Lister :: "(nat \<Rightarrow> 'o thread_safe_map) \<Rightarrow> 'c factory \<Rightarrow> 'o thread_safe_map \<times> 'c factory" where
  "SlurmJobs_Lister caches f = (let (informer, f) = SlurmJobs_Informer f in (caches (inf_id informer), f))"

definition WlmJobs_Lister :: "(nat \<Rightarrow> 'o thread_safe_map) \<Rightarrow> 'c factory \<Rightarrow> 'o thread_safe_map \<times> 'c factory" where
  "WlmJobs_Lister caches f = (let (informer, f) = WlmJobs_Informer f in (caches (inf_id informer), f))"

definition genericInformer_Lister :: "(nat \<Rightarrow> 'o thread_safe_map) \<Rightarrow> 'c informer \<times> string \<times> string \<Rightarrow> 'o thread_safe_map" where
  "genericInformer_Lister caches f = caches (inf_id (fst f))"

section \<open>Reachable factories\<close>

text \<open>
  The calls on a factory: the typed and generic accessors, \<open>InformerFor\<close> for a type of another API
  group, and \<open>Start\<close>. Waiting and reading change nothing.
\<close>

inductive factory_step :: "'c factory \<Rightarrow> 'c factory \<Rightarrow> bool" where
  ask_slurm: "factory_step f (snd (SlurmJobs_Informer f))"
| ask_wlm: "factory_step f (snd (WlmJobs_Informer f))"
| ask_resource: "factory_step f (snd (ForResource resource f))"
| ask_other: "factory_step f (snd (InformerFor (OtherType t) newFunc f))"
| start_all: "factory_step f (Start stopCh f)"

inductive factory_reachable :: "'c factory \<Rightarrow> 'c factory \<Rightarrow> bool" for f0 where
  reach_new: "factory_reachable f0 f0"
| reach_step: "factory_reachable f0 f \<Longrightarrow> factory_step f f' \<Longrightarrow> factory_reachable f0 f'"

inductive_cases factory_stepE: "factory_step f f'"

text \<open>
  The invariant: one informer per type with its own identity; what runs is exactly the informers
  of the types marked as started, each once; the informers of jobs have the namespace, the filter
  and the namespace index of the factory.
\<close>

definition of_factory :: "'c factory \<Rightarrow> object_type \<times> 'c informer \<Rightarrow> bool" where
  "of_factory f entry \<longleftrightarrow>
     (\<forall>t. fst entry \<noteq> OtherType t) \<longrightarrow>
       inf_client (snd entry) = sf_client f \<and> inf_namespace (snd entry) = sf_namespace f \<and>
       inf_tweak (snd entry) = sf_tweakListOptions f \<and> inf_type (snd entry) = fst entry \<and>
       inf_indexers (snd entry) = [(NamespaceIndex, MetaNamespaceIndexFunc)]"

definition started_informers :: "'c factory \<Rightarrow> 'c informer list" where
  "started_informers f = map snd (filter (\<lambda>e. sf_startedInformers f (fst e)) (sf_informers f))"

definition factory_inv :: "'c factory \<Rightarrow> bool" where
  "factory_inv f \<longleftrightarrow>
     distinct (map fst (sf_informers f)) \<and>
     distinct (map (inf_id \<circ> snd) (sf_informers f)) \<and>
     (\<forall>e \<in> set (sf_informers f). inf_id (snd e) < sf_next f \<and> of_factory f e) \<and>
     (\<forall>t. sf_startedInformers f t \<longrightarrow> t \<in> fst ` set (sf_informers f)) \<and>
     mset (map fst (sf_running f)) = mset (started_informers f)"

definition same_config :: "'c factory \<Rightarrow> 'c factory \<Rightarrow> bool" where
  "same_config f g \<longleftrightarrow> sf_client g = sf_client f \<and> sf_namespace g = sf_namespace f \<and>
     sf_tweakListOptions g = sf_tweakListOptions f \<and> sf_defaultResync g = sf_defaultResync f \<and>
     sf_customResync g = sf_customResync f"

lemma of_factory_config: "same_config f g \<Longrightarrow> of_factory g e = of_factory f e"
  by (simp add: same_config_def of_factory_def)

lemma new_inv: "factory_inv (NewSharedInformerFactoryWithOptions client resync options)"
proof -
  have "sf_informers (foldl (\<lambda>f opt. apply_option opt f) f options) = sf_informers f \<and>
      sf_startedInformers (foldl (\<lambda>f opt. apply_option opt f) f options) = sf_startedInformers f \<and>
      sf_running (foldl (\<lambda>f opt. apply_option opt f) f options) = sf_running f" for f :: "'a factory"
  proof (induction options arbitrary: f)
    case (Cons opt options)
    have "sf_informers (apply_option opt f) = sf_informers f \<and>
        sf_startedInformers (apply_option opt f) = sf_startedInformers f \<and> sf_running (apply_option opt f) = sf_running f"
      by (cases opt) simp_all
    with Cons show ?case by simp
  qed simp
  then show ?thesis
    by (simp add: NewSharedInformerFactoryWithOptions_def factory_inv_def started_informers_def)
qed

lemma InformerFor_inv:
  assumes "factory_inv f"
    "of_factory f (t, (newFunc (sf_client f) (case sf_customResync f t of None \<Rightarrow> sf_defaultResync f | Some d \<Rightarrow> d)))"
  shows "factory_inv (snd (InformerFor t newFunc f)) \<and> same_config f (snd (InformerFor t newFunc f))"
proof (cases "map_of (sf_informers f) t")
  case (Some i)
  then show ?thesis using assms(1) by (simp add: InformerFor_def same_config_def)
next
  case None
  define i where "i = (newFunc (sf_client f) (case sf_customResync f t of None \<Rightarrow> sf_defaultResync f | Some d \<Rightarrow> d))\<lparr>inf_id := sf_next f\<rparr>"
  define g where "g = f\<lparr>sf_informers := sf_informers f @ [(t, i)], sf_next := Suc (sf_next f)\<rparr>"
  have g: "snd (InformerFor t newFunc f) = g" by (simp add: InformerFor_def None Let_def i_def g_def)
  have cfg: "same_config f g" by (simp add: same_config_def g_def)
  have "of_factory f (t, i)" using assms(2) by (simp add: of_factory_def i_def)
  moreover have t: "t \<notin> fst ` set (sf_informers f)" using None by (simp add: map_of_eq_None_iff)
  moreover from this have "\<not> sf_startedInformers f t" using assms(1) by (auto simp: factory_inv_def)
  ultimately have "factory_inv g"
    using assms(1) unfolding factory_inv_def of_factory_config [OF cfg]
    by (auto simp: g_def i_def started_informers_def less_Suc_eq)
  with g cfg show ?thesis by simp
qed

lemma start_informer_inv:
  assumes "factory_inv f" "e \<in> set (sf_informers f)"
  shows "factory_inv (start_informer stopCh e f) \<and> same_config f (start_informer stopCh e f) \<and>
    sf_informers (start_informer stopCh e f) = sf_informers f \<and>
    sf_startedInformers (start_informer stopCh e f) = (sf_startedInformers f)(fst e := True)"
proof (cases "sf_startedInformers f (fst e)")
  case True
  then show ?thesis using assms(1) by (simp add: start_informer_def same_config_def fun_upd_idem)
next
  case False
  define g where "g = start_informer stopCh e f"
  have g: "g = f\<lparr>sf_running := sf_running f @ [(snd e, stopCh)],
      sf_startedInformers := (sf_startedInformers f)(fst e := True)\<rparr>"
    using False by (simp add: g_def start_informer_def)
  have cfg: "same_config f g" by (simp add: g same_config_def)
  obtain es es' where split: "sf_informers f = es @ e # es'" using assms(2) by (meson split_list)
  have d: "distinct (map fst (sf_informers f))" using assms(1) by (simp add: factory_inv_def)
  then have "\<forall>x \<in> set es. fst x \<noteq> fst e" "\<forall>x \<in> set es'. fst x \<noteq> fst e" by (auto simp: split rev_image_eqI)
  then have same: "filter (\<lambda>x. sf_startedInformers g (fst x)) xs = filter (\<lambda>x. sf_startedInformers f (fst x)) xs"
    if "xs = es \<or> xs = es'" for xs
    using that by (intro filter_cong) (auto simp: g)
  have "mset (started_informers g) = add_mset (snd e) (mset (started_informers f))"
    using same [of es] same [of es'] False by (simp add: started_informers_def g split)
  then have "factory_inv g"
    using assms unfolding factory_inv_def of_factory_config [OF cfg] by (auto simp: g)
  then show ?thesis using cfg by (simp add: g_def [symmetric]) (simp add: g)
qed

lemma same_config_trans: "same_config f g \<Longrightarrow> same_config g h \<Longrightarrow> same_config f h"
  by (simp add: same_config_def)

lemma start_all_inv:
  "factory_inv f \<Longrightarrow> set es \<subseteq> set (sf_informers f) \<Longrightarrow>
   factory_inv (fold (start_informer stopCh) es f) \<and> same_config f (fold (start_informer stopCh) es f) \<and>
   sf_informers (fold (start_informer stopCh) es f) = sf_informers f \<and>
   (\<forall>t. sf_startedInformers (fold (start_informer stopCh) es f) t \<longleftrightarrow> sf_startedInformers f t \<or> t \<in> fst ` set es)"
proof (induction es arbitrary: f)
  case (Cons e es)
  have "e \<in> set (sf_informers f)" using Cons.prems(2) by simp
  note step = start_informer_inv [OF Cons.prems(1) this, of stopCh]
  from Cons.IH [of "start_informer stopCh e f"] step Cons.prems(2)
    same_config_trans [of f "start_informer stopCh e f"]
  show ?case by auto
qed (simp add: same_config_def)

lemma factory_step_inv:
  assumes "factory_inv f" "factory_step f f'"
  shows "factory_inv f' \<and> same_config f f'"
proof -
  have slurm: "factory_inv (snd (SlurmJobs_Informer f)) \<and> same_config f (snd (SlurmJobs_Informer f))"
    unfolding SlurmJobs_Informer_def
    by (rule InformerFor_inv [OF assms(1)])
      (simp add: of_factory_def slurmJobInformer_defaultInformer_def NewFilteredSlurmJobInformer_def
        version_SlurmJobs_def group_V1alpha1_def factory_Wlm_def)
  have wlm: "factory_inv (snd (WlmJobs_Informer f)) \<and> same_config f (snd (WlmJobs_Informer f))"
    unfolding WlmJobs_Informer_def
    by (rule InformerFor_inv [OF assms(1)])
      (simp add: of_factory_def wlmJobInformer_defaultInformer_def NewFilteredWlmJobInformer_def
        version_WlmJobs_def group_V1alpha1_def factory_Wlm_def)
  have other: "factory_inv (snd (InformerFor (OtherType t) newFunc f)) \<and>
      same_config f (snd (InformerFor (OtherType t) newFunc f))" for t newFunc
    by (rule InformerFor_inv [OF assms(1)]) (simp add: of_factory_def)
  from assms(2) show ?thesis
  proof (cases rule: factory_step.cases)
    case (ask_resource resource)
    then show ?thesis using slurm wlm assms(1)
      by (simp add: ForResource_def split_beta Let_def same_config_def)
  next
    case (start_all stopCh)
    then show ?thesis using start_all_inv [OF assms(1), of "sf_informers f" stopCh] by (simp add: Start_def)
  qed (use slurm wlm other in simp_all)
qed

lemma factory_reachable_inv:
  "factory_reachable f0 f \<Longrightarrow> factory_inv f0 \<Longrightarrow> factory_inv f \<and> same_config f0 f"
proof (induction rule: factory_reachable.induct)
  case (reach_step f f')
  then show ?case using factory_step_inv [of f f'] same_config_trans by blast
qed (simp add: same_config_def)

text \<open>
  C38. Whatever calls are made on a new factory, every informer runs at most once, what runs is
  exactly the informers of the started types, and \<open>Start\<close> leaves no informer that was asked for
  before it without running.
\<close>

theorem shared_informers_run_once:
  assumes "factory_reachable (NewSharedInformerFactoryWithOptions client resync options) f"
  shows "distinct (map fst (sf_informers f)) \<and>
    distinct (map (inf_id \<circ> fst) (sf_running f)) \<and>
    set (map fst (sf_running f)) = set (started_informers f) \<and>
    (\<forall>e \<in> set (sf_informers f). snd e \<in> fst ` set (sf_running (Start stopCh f)))"
proof -
  have f: "factory_inv f" using factory_reachable_inv [OF assms new_inv] by blast
  have ids: "distinct (map (inf_id \<circ> fst) (sf_running g))" and run: "set (map fst (sf_running g)) = set (started_informers g)"
    if "factory_inv g" for g :: "'a factory"
  proof -
    have ms: "mset (map fst (sf_running g)) = mset (started_informers g)" using that by (simp add: factory_inv_def)
    have "distinct (map (inf_id \<circ> snd) (filter (\<lambda>e. sf_startedInformers g (fst e)) (sf_informers g)))"
      using that by (intro distinct_map_filter) (simp add: factory_inv_def)
    then have "distinct (map inf_id (started_informers g))" by (simp add: started_informers_def)
    moreover have "mset (map inf_id (map fst (sf_running g))) = mset (map inf_id (started_informers g))"
      using ms by (simp only: mset_map)
    ultimately show "distinct (map (inf_id \<circ> fst) (sf_running g))"
      by (metis map_map mset_eq_imp_distinct_iff)
    show "set (map fst (sf_running g)) = set (started_informers g)" using ms by (rule mset_eq_setD)
  qed
  note start = start_all_inv [OF f order_refl, of stopCh]
  have "set (map snd (sf_informers f)) = set (started_informers (Start stopCh f))"
    using start by (simp add: Start_def started_informers_def)
  then have "\<forall>e \<in> set (sf_informers f). snd e \<in> fst ` set (sf_running (Start stopCh f))"
    using run [of "Start stopCh f"] start by (auto simp: Start_def)
  moreover have "distinct (map fst (sf_informers f))" using f by (simp add: factory_inv_def)
  ultimately show ?thesis using ids [OF f] run [OF f] by blast
qed

text \<open>An informer once asked for is the one every accessor of its type returns.\<close>

lemma InformerFor_again:
  "InformerFor t newFunc' (snd (InformerFor t newFunc f)) =
   (fst (InformerFor t newFunc f), snd (InformerFor t newFunc f))"
proof (cases "map_of (sf_informers f) t")
  case None
  then have "map_of (sf_informers f @ [(t, x)]) t = Some x" for x by (simp add: map_add_def)
  with None show ?thesis by (simp add: InformerFor_def Let_def)
qed (simp add: InformerFor_def)

lemma InformerFor_entry: "(t, fst (InformerFor t newFunc f)) \<in> set (sf_informers (snd (InformerFor t newFunc f)))"
  by (cases "map_of (sf_informers f) t") (auto simp: InformerFor_def Let_def dest: map_of_SomeD)

text \<open>
  The typed and the generic accessor of a type give one shared informer, and asking again
  changes nothing; the list request it sends is for its own resource in the namespace of the
  factory, with the filter of the factory applied.
\<close>

theorem slurm_informer_shared_and_scoped:
  assumes "factory_reachable (NewSharedInformerFactoryWithOptions client resync options) f"
    "SlurmJobs_Informer f = (i, g)"
  shows "SlurmJobs_Informer g = (i, g) \<and>
    ForResource (''wlm.sylabs.io'', ''v1alpha1'', ''slurmjobs'') g = (Ok (i, ''wlm.sylabs.io'', ''slurmjobs''), g) \<and>
    inf_tweak i = sf_tweakListOptions f \<and>
    (\<forall>h. call_prepare (clientset_SlurmJobs co (inf_client i) (inf_namespace i))
           (CallList (tweaked (inf_tweak i) opts)) = Ok h \<longrightarrow>
       hr_Path h = abs_path (rest_root (cs_wlmV1alpha1 (sf_client f)) @
         (if sf_namespace f = [] then [] else [''namespaces'', sf_namespace f]) @ [''slurmjobs'']))"
proof -
  have f: "factory_inv f" using factory_reachable_inv [OF assms(1) new_inv] by blast
  have ig: "i = fst (SlurmJobs_Informer f)" "g = snd (SlurmJobs_Informer f)" using assms(2) by simp_all
  have "factory_inv g \<and> same_config f g"
    using factory_step_inv [OF f factory_step.ask_slurm] ig(2) by simp
  moreover have "(SlurmJobType, i) \<in> set (sf_informers g)"
    unfolding ig SlurmJobs_Informer_def by (rule InformerFor_entry)
  ultimately have "of_factory f (SlurmJobType, i)"
    using of_factory_config [of f g] by (auto simp: factory_inv_def)
  then have i: "inf_client i = sf_client f" "inf_namespace i = sf_namespace f" "inf_tweak i = sf_tweakListOptions f"
    by (simp_all add: of_factory_def)
  have again: "SlurmJobs_Informer g = (i, g)"
    unfolding ig SlurmJobs_Informer_def by (rule InformerFor_again)
  let ?c = "clientset_SlurmJobs co (inf_client i) (inf_namespace i)"
  have c: "jc_resource ?c \<in> set job_resources"
    by (simp add: clientset_SlurmJobs_def newSlurmJobs_def job_resources_def)
  show ?thesis
  proof (intro conjI allI impI)
    show "ForResource (''wlm.sylabs.io'', ''v1alpha1'', ''slurmjobs'') g = (Ok (i, ''wlm.sylabs.io'', ''slurmjobs''), g)"
      by (simp add: ForResource_def SchemeGroupVersion_def again)
    fix h assume "call_prepare ?c (CallList (tweaked (inf_tweak i) opts)) = Ok h"
    from job_call_path_shape(1) [OF c this]
    show "hr_Path h = abs_path (rest_root (cs_wlmV1alpha1 (sf_client f)) @
         (if sf_namespace f = [] then [] else [''namespaces'', sf_namespace f]) @ [''slurmjobs''])"
      by (simp add: resource_path_def clientset_SlurmJobs_def newSlurmJobs_def i)
  qed (rule again, rule i)
qed

section \<open>Witnesses\<close>

definition example_factory :: "(unit, http_request list, unit) clientset factory" where
  "example_factory = NewSharedInformerFactoryWithOptions
     \<lparr>cs_wlmV1alpha1 = example_client, cs_DiscoveryClient = ()\<rparr> 30 [WithNamespace ''batch'']"

definition example_codec :: "(unit slurm_job, unit, unit) job_codec" where
  "example_codec = \<lparr>co_encode = \<lambda>_. Inr ''{}'', co_encode_options = \<lambda>_. Inr ''{}'',
     co_decode = \<lambda>_. Err EOF, co_decode_list = \<lambda>_. Ok ()\<rparr>"

definition example_options :: list_options where
  "example_options = \<lparr>lo_LabelSelector = [], lo_FieldSelector = [], lo_IncludeUninitialized = False,
     lo_Watch = False, lo_ResourceVersion = [], lo_TimeoutSeconds = None, lo_Limit = 0, lo_Continue = []\<rparr>"

lemma example_factory_reachable:
  "factory_reachable example_factory (snd (SlurmJobs_Informer (Start 7 (snd (WlmJobs_Informer example_factory)))))"
  by (rule reach_step [OF reach_step [OF reach_step [OF reach_new ask_wlm] start_all] ask_slurm])

theorem shared_informers_run_once_witness:
  "length (sf_running (Start 8 (snd (SlurmJobs_Informer (Start 7 (snd (WlmJobs_Informer example_factory))))))) = 2 \<and>
   distinct (map (inf_id \<circ> fst) (sf_running (snd (SlurmJobs_Informer (Start 7 (snd (WlmJobs_Informer example_factory)))))))"
  using shared_informers_run_once [OF example_factory_reachable [unfolded example_factory_def], folded example_factory_def]
  by (simp add: example_factory_def NewSharedInformerFactoryWithOptions_def WlmJobs_Informer_def
      SlurmJobs_Informer_def InformerFor_def Let_def Start_def start_informer_def)

theorem slurm_informer_shared_and_scoped_witness:
  "hr_Path (http_of (call_request
     (clientset_SlurmJobs example_codec (inf_client (fst (SlurmJobs_Informer example_factory)))
        (inf_namespace (fst (SlurmJobs_Informer example_factory))))
     (CallList (tweaked (inf_tweak (fst (SlurmJobs_Informer example_factory))) example_options)))) =
   ''/apis/wlm.sylabs.io/v1alpha1/namespaces/batch/slurmjobs''"
proof -
  let ?i = "fst (SlurmJobs_Informer example_factory)"
  let ?c = "clientset_SlurmJobs example_codec (inf_client ?i) (inf_namespace ?i)"
  let ?call = "CallList (tweaked (inf_tweak ?i) example_options) :: (unit slurm_job, unit) job_call"
  have "factory_reachable example_factory example_factory" by (rule reach_new)
  note scoped = slurm_informer_shared_and_scoped [OF this [unfolded example_factory_def], folded example_factory_def,
      OF prod.collapse [symmetric], of example_codec example_options]
  have fields: "inf_client ?i = \<lparr>cs_wlmV1alpha1 = example_client, cs_DiscoveryClient = ()\<rparr>"
    "inf_namespace ?i = ''batch''" "inf_tweak ?i = None"
    by (simp_all add: example_factory_def NewSharedInformerFactoryWithOptions_def SlurmJobs_Informer_def
        InformerFor_def Let_def slurmJobInformer_defaultInformer_def NewFilteredSlurmJobInformer_def
        version_SlurmJobs_def group_V1alpha1_def factory_Wlm_def)
  have "is_Ok (call_prepare (clientset_SlurmJobs example_codec
      \<lparr>cs_wlmV1alpha1 = example_client, cs_DiscoveryClient = ()\<rparr> ''batch'') (CallList (tweaked None example_options)))"
    by code_simp
  then have "is_Ok (call_prepare ?c ?call)" unfolding fields .
  then obtain h where h: "call_prepare ?c ?call = Ok h" by (cases "call_prepare ?c ?call") auto
  have "hr_Path h = abs_path (rest_root (cs_wlmV1alpha1 (sf_client example_factory)) @
      (if sf_namespace example_factory = [] then [] else [''namespaces'', sf_namespace example_factory]) @ [''slurmjobs''])"
    using scoped h by blast
  also have "sf_client example_factory = \<lparr>cs_wlmV1alpha1 = example_client, cs_DiscoveryClient = ()\<rparr>"
    by (simp add: example_factory_def NewSharedInformerFactoryWithOptions_def)
  also have "sf_namespace example_factory = ''batch''"
    by (simp add: example_factory_def NewSharedInformerFactoryWithOptions_def)
  also have "abs_path (rest_root (cs_wlmV1alpha1 \<lparr>cs_wlmV1alpha1 = example_client, cs_DiscoveryClient = ()\<rparr>) @
      (if ''batch'' = [] then [] else [''namespaces'', ''batch'']) @ [''slurmjobs'']) =
      ''/apis/wlm.sylabs.io/v1alpha1/namespaces/batch/slurmjobs''" by code_simp
  finally show ?thesis using call_prepare_Ok(2) [OF h] by simp
qed

end
