(* ===== verification/Spec2Isabelle.thy ===== *)
theory Spec2Isabelle
  imports Startup Seen_Status Job_Progress Red_Box_Rpc Grpc_Streams Configurator_Cluster Deep_Copy
    Results Tail_Reader Open_API Informer_Factory Informer_Sync
begin

text \<open>
  A verification development of the WLM operator: the Kubernetes operator that runs batch jobs of a
  slurm cluster, the daemon red-box that runs the slurm commands on its login node, the
  configurator that represents slurm partitions as nodes, and the results collector. It models the
  code of \<open>cmd\<close>, \<open>internal\<close> and \<open>pkg\<close>, and the parts of \<open>vendor\<close> whose behaviour decides what that code
  does.

  \<^bold>\<open>The program.\<close> A user creates a SlurmJob (a batch script) or a WlmJob (an image with resources). The
  operator (\<open>cmd/operator\<close>, \<open>pkg/operator\<close>) watches both kinds and their pods; every event becomes a
  request in a work queue, and a worker reconciles the requested job: it creates the job's pod once,
  with an affinity computed from the resources, and afterwards copies the phase of the pod into the
  status of the job. The pod is scheduled to a virtual node of a partition; these nodes come from the
  virtual-kubelet pods that the configurator (\<open>cmd/configurator\<close>) keeps for the partitions red-box
  reports. Red-box (\<open>cmd/red-box\<close>, \<open>internal/red-box\<close>) serves the gRPC service of
  \<open>pkg/workload/api\<close> by running slurm commands and parsing their output (\<open>pkg/slurm\<close>), and serves,
  receives and tails files (\<open>pkg/tail\<close>). The collector (\<open>cmd/results\<close>) moves files between a
  volume and the login node through red-box.

  \<^bold>\<open>Conventions.\<close> A Go function that returns an error is a function into \<open>'a go\<close>: \<open>Ok\<close>, \<open>Err\<close> with a
  value of \<open>go_error\<close>, or \<open>Panic\<close>. Methods that change state take and return it; concurrent code is a
  step relation (\<open>inductive\<close>) or an executable step function over sequences of steps. Structs are
  records with the fields of the source; pointers that may be nil are options; \<open>int64\<close> values are
  integers with the wrap-around of \<open>add64\<close> and \<open>mul64\<close> written out (\<open>Wlm_Prelude\<close>). Strings are byte
  strings.

  \<^bold>\<open>Go's library.\<close> \<open>Wlm_Prelude\<close> (errors, results, integers), \<open>Go_Strings\<close>, \<open>Go_Numbers\<close> (strconv),
  \<open>Go_Path\<close> (path, filepath), \<open>Go_Time\<close> (layouts, civil times), \<open>Go_Files\<close> (a file system as a tree),
  \<open>Go_Heap\<close> (shared maps, slices and pointers). The locales \<open>int_text\<close> (numbers and their texts) and
  \<open>deep_copy\<close> (the contract of a copy method) are stated here and interpreted on the code's
  definitions.

  \<^bold>\<open>Slurm.\<close> \<open>Slurm_Duration\<close> and \<open>Slurm_Parse\<close> model \<open>pkg/slurm/parse.go\<close>: the durations accepted are
  exactly the documented formats with their value modulo the width of a duration, and the staged
  parsers equal specifications by the fields of the text. \<open>Slurm_Client\<close> models \<open>pkg/slurm/slurm.go\<close>
  over a parameter that runs commands. \<open>Zip_Archive\<close> and \<open>File_Service\<close> model its files: what was
  archived unpacks to the same tree, no archive writes outside its destination, and a file sent in
  chunks of 128 bytes is the file. \<open>Tail_Reader\<close> is \<open>pkg/tail/reader.go\<close> with the handler \<open>TailFile\<close>,
  as a step relation: what is sent is a prefix of the file, and the unlocked check can lose its end.

  \<^bold>\<open>Red-box.\<close> \<open>Workload_Api\<close> and \<open>Pb_Messages\<close> hold the messages, enumerations, zero values and accessors
  of \<open>workload.pb.go\<close>; \<open>Red_Box\<close> the handlers and script builder of \<open>internal/red-box/api/slurm.go\<close>.
  \<open>Grpc_Stubs\<close> and \<open>Grpc_Streams\<close> are the generated client and server stubs, \<open>Grpc_Server\<close> the dispatch
  of grpc-go between them, and \<open>Red_Box_Rpc\<close> red-box as the server: a call of a method without a stream
  is the handler of the same name, and a panic of a handler ends the process, which the service unit
  of \<open>vagrant\<close> starts again. Streams are a parameter with the contract \<open>client_contract\<close> and
  \<open>server_contract\<close> of \<open>Grpc_Streams\<close>, under which opening a file gives its content whatever the
  interleaving. \<open>Results\<close> is \<open>cmd/results/main.go\<close>, with downloads and uploads from end to end.

  \<^bold>\<open>The operator's jobs.\<close> \<open>Api_Types\<close> holds the custom resources (\<open>pkg/operator/apis\<close>), \<open>Deep_Copy\<close> their
  generated copies on a heap, \<open>Open_API\<close> their generated schemas and JSON. \<open>Affinity\<close>, \<open>Batch_Script\<close>
  and \<open>Job_Pods\<close> translate a job into a pod (\<open>affinity.go\<close>, \<open>slurmjob/parse.go\<close>, both \<open>pod.go\<close>): a
  pod fits exactly the nodes its job's resources and selector allow.

  \<^bold>\<open>The operator's controllers.\<close> \<open>Object_Tracker\<close> is an API server's store of objects with the locales
  \<open>object_store\<close> and \<open>api_object\<close>. \<open>Reconcile\<close> models \<open>Reconcile\<close> of both controllers over a client
  (locale \<open>job_api\<close>) and refines it to a function on the maps of jobs and pods (locale
  \<open>job_controller\<close>, interpreted for both kinds). \<open>Event_Handlers\<close> turns events into requests,
  \<open>Work_Queue\<close> is client-go's queue under the locale \<open>work_queue\<close>, and \<open>Operator\<close> is the controller at
  work in a cluster that changes freely (\<open>op_step\<close>, \<open>op_run\<close>, \<open>own_run\<close>; locale \<open>job_operator\<close>): no job
  is forgotten, the operator settles, and \<open>Job_Progress\<close> adds that a new job gets its pod.
  \<open>Operator\<close> reads the server's state and reconciles in one step. \<open>Cached_Operator\<close> and
  \<open>Stale_Caches\<close> drop both assumptions: the client reads informer caches that lag behind, and a
  reconciliation reads, reads and writes at different times (\<open>act_step\<close>); jobs are still synchronised
  when all is quiet, but the guard against a second run can be lost, and \<open>Seen_Status\<close> says from when
  on it holds. \<open>Startup\<close> is \<open>main\<close> of the operator and of red-box.

  \<^bold>\<open>Generated clients.\<close> \<open>Rest_Client\<close> (typed clients over client-go's request builder), \<open>Fake_Client\<close> (the
  fake clientset, locale \<open>fake_jobs\<close>), \<open>Tracker_Watch\<close> (watches of the tracker), \<open>Informers\<close> (the indexed
  cache and the listers), \<open>Informer_Factory\<close> and \<open>Informer_Sync\<close> (a cache fed by a watch reads what
  the tracker holds).

  \<^bold>\<open>The configurator.\<close> \<open>Configurator\<close> models the ticks of \<open>cmd/configurator/main.go\<close> over an API server
  that is a parameter. \<open>Configurator_Cluster\<close> states what its pods then are in any cluster that keeps
  \<open>kube_contract\<close>, with calls that fail and nodes that register late. The locales \<open>kubelet_cluster\<close>
  and \<open>configured\<close>, interpreted for the code's pod template, are an ideal cluster, in which names that
  differ only in case still starve the rest.

  \<^bold>\<open>Bounds.\<close> Integers have 64 bits, 32 in messages. Chunks have at most 128 bytes, gRPC messages at most
  4 MiB when received, lines of a batch script at most 64 KiB (the scanner's buffer), watch channels
  100 events. Loops that need not end are \<open>partial_function (option)\<close>, and a theorem says when they
  return; where a definition takes fuel it is the length of its input (the decoder of
  \<open>Red_Box_Rpc\<close>, the chunks of a file) or the depth of the nesting of the generated schemas (8),
  and a lemma shows it enough. The number of steps the operator takes alone is bounded by
  \<open>op_work\<close>.

  \<^bold>\<open>Parameters.\<close> Code that is not translated is an argument: the commands of slurm, the API
  server of a real cluster and its HTTP transport, the encodings of JSON, YAML, protobuf and
  archives, label selectors and patches, the copies of volumes and metadata, identifiers drawn at
  random, the node a virtual kubelet registers, the library that follows a file, leader election and
  the manager. What a theorem needs of one is a hypothesis (a codec reads what it wrote; a cluster
  keeps keys unique and does not touch the operator's pods, \<open>cluster_ready\<close>; an informer
  announces every change, which \<open>Informer_Sync\<close> shows for the tracker; a stream is lossless unless its
  connection fails), and its witness gives a concrete function.

  \<^bold>\<open>Not modelled.\<close> Logging, metrics, version printing and the goroutines that wait for a signal have no
  state of the program. The lengths of back-offs and of waits are left out: a delayed request may
  become due at any time. The generated registration of types with serializers
  (\<open>versioned/scheme/register.go\<close>, \<open>versioned/fake/register.go\<close>), the interfaces without bodies and
  the \<open>XXX_\<close> methods and descriptor of \<open>workload.pb.go\<close> only call the runtimes of client-go and
  protobuf. HTTP/2, compression and TLS of gRPC, the scheduler and the kubelets are third-party code
  that the program only calls. Two processes of red-box or of the operator at once are not
  considered: leader election is what excludes the second operator.
\<close>

end
